(* ===== verification/Prelude.thy ===== *)
theory Prelude
  imports Main "HOL-Library.Char_ord" "HOL-Library.List_Lexorder" "HOL-Library.Code_Target_Nat"
begin

text \<open>
  What every component shares: the journal's error classes and the result type, the
  sequencing of calls that may throw, SQL tables as lists of rows (selection, conditional
  update, the number of changed rows, sums over selected rows), the safe integers of
  JavaScript, and the character classes from which the code builds its regular
  expressions. Strings are lists of code units; the code's patterns only accept ASCII.
\<close>

named_theorems row_simps \<open>facts about a table after an insert or an update\<close>
named_theorems op_defs \<open>definitions of journal operations, unfolded to invert a successful call\<close>

section \<open>Errors and results\<close>

text \<open>
  The exception classes the journal and the modules around it raise. A class that extends
  another in the source (\<open>JournalFencingError\<close> extends \<open>JournalInvariantError\<close>) is a
  constructor of its own; \<open>is_invariant_error\<close> is the \<open>instanceof\<close> test.
\<close>

datatype error =
    JournalInvariantError
  | JournalNotFoundError
  | JournalRequestConflictError
  | JournalFencingError
  | JournalEffectBusyError
  | PolicyReservationError
  | PurchaseAdmissionError
  | EvidenceAdmissionError
  | SqliteConstraintError
  | PurchaseContractError
  | PlainError

fun is_invariant_error :: "error \<Rightarrow> bool" where
  "is_invariant_error JournalInvariantError = True"
| "is_invariant_error JournalRequestConflictError = True"
| "is_invariant_error JournalFencingError = True"
| "is_invariant_error JournalEffectBusyError = True"
| "is_invariant_error _ = False"

fun is_fencing_error :: "error \<Rightarrow> bool" where
  "is_fencing_error JournalFencingError = True"
| "is_fencing_error JournalEffectBusyError = True"
| "is_fencing_error _ = False"

type_synonym 'a result = "error + 'a"

definition rbind :: "'e + 'a \<Rightarrow> ('a \<Rightarrow> 'e + 'b) \<Rightarrow> 'e + 'b" where
  "rbind m f = (case m of Inl e \<Rightarrow> Inl e | Inr x \<Rightarrow> f x)"

text \<open>\<open>require c e\<close> is the code's \<open>if (!c) throw e\<close> as a call of its own.\<close>

definition require :: "bool \<Rightarrow> 'e \<Rightarrow> 'e + unit" where
  "require c e = (if c then Inr () else Inl e)"

text \<open>Evaluation does not enter a continuation before its argument is known.\<close>

declare rbind_def [code_unfold]

lemma rbind_simps [simp]:
  "rbind (Inl e) f = Inl e"
  "rbind (Inr x) f = f x"
  by (simp_all add: rbind_def)

lemma rbind_eq_Inr [simp]: "rbind m f = Inr y \<longleftrightarrow> (\<exists>x. m = Inr x \<and> f x = Inr y)"
  by (cases m) auto

lemma Inr_eq_rbind [simp]: "Inr y = rbind m f \<longleftrightarrow> (\<exists>x. m = Inr x \<and> f x = Inr y)"
  by (cases m) auto

lemma require_eq_Inr [simp]: "require c e = Inr u \<longleftrightarrow> c"
  by (simp add: require_def)

lemma require_True [simp]: "require True e = Inr ()"
  by (simp add: require_def)

lemma require_False [simp]: "require False e = Inl e"
  by (simp add: require_def)

text \<open>A guard clause that throws: success means the guard did not fire.\<close>

lemma if_Inl_eq_Inr [simp]:
  "(if c then Inl e else m) = Inr y \<longleftrightarrow> \<not> c \<and> m = Inr y"
  "(if c then m else Inl e) = Inr y \<longleftrightarrow> c \<and> m = Inr y"
  by auto

lemma case_option_Inl_eq_Inr [simp]:
  "(case x of None \<Rightarrow> Inl e | Some r \<Rightarrow> f r) = Inr y \<longleftrightarrow> (\<exists>r. x = Some r \<and> f r = Inr y)"
  by (cases x) auto

section \<open>Tables\<close>

text \<open>
  A table is the list of its rows in insertion order. \<open>find_row\<close> is a \<open>SELECT \<dots> WHERE\<close>
  read with \<open>get\<close>, \<open>update_rows\<close> an \<open>UPDATE \<dots> WHERE\<close> and \<open>changes\<close> the number of rows it
  touched.
\<close>

definition find_row :: "('r \<Rightarrow> bool) \<Rightarrow> 'r list \<Rightarrow> 'r option" where
  "find_row p t = List.find p t"

definition update_rows :: "('r \<Rightarrow> bool) \<Rightarrow> ('r \<Rightarrow> 'r) \<Rightarrow> 'r list \<Rightarrow> 'r list" where
  "update_rows p f t = map (\<lambda>r. if p r then f r else r) t"

definition changes :: "('r \<Rightarrow> bool) \<Rightarrow> 'r list \<Rightarrow> nat" where
  "changes p t = length (filter p t)"

definition sum_where :: "('r \<Rightarrow> bool) \<Rightarrow> ('r \<Rightarrow> nat) \<Rightarrow> 'r list \<Rightarrow> nat" where
  "sum_where p g t = sum_list (map g (filter p t))"

lemma find_row_Nil [simp]: "find_row p [] = None"
  by (simp add: find_row_def)

lemma find_row_Cons [simp]: "find_row p (r # t) = (if p r then Some r else find_row p t)"
  by (simp add: find_row_def)

lemma find_row_append:
  "find_row p (s @ t) = (case find_row p s of None \<Rightarrow> find_row p t | Some r \<Rightarrow> Some r)"
  by (induction s) auto

lemma find_row_SomeD: "find_row p t = Some r \<Longrightarrow> r \<in> set t \<and> p r"
  by (induction t) (auto split: if_splits)

lemma find_row_None_iff: "find_row p t = None \<longleftrightarrow> (\<forall>r \<in> set t. \<not> p r)"
  by (induction t) auto

lemma find_row_key_unique:
  assumes "distinct (map key t)" and "r \<in> set t"
  shows "find_row (\<lambda>x. key x = key r) t = Some r"
  using assms by (induction t) auto

lemma update_rows_Nil [simp]: "update_rows p f [] = []"
  by (simp add: update_rows_def)

lemma update_rows_Cons [simp]:
  "update_rows p f (r # t) = (if p r then f r else r) # update_rows p f t"
  by (simp add: update_rows_def)

lemma length_update_rows [simp]: "length (update_rows p f t) = length t"
  by (simp add: update_rows_def)

lemma update_rows_id: "(\<And>r. r \<in> set t \<Longrightarrow> \<not> p r) \<Longrightarrow> update_rows p f t = t"
  by (induction t) auto

lemma map_key_update_rows [row_simps]:
  "(\<And>r. key (f r) = key r) \<Longrightarrow> map key (update_rows p f t) = map key t"
  by (induction t) auto

lemma set_update_rowsD:
  "r \<in> set (update_rows p f t) \<Longrightarrow> (r \<in> set t \<and> \<not> p r) \<or> (\<exists>r0 \<in> set t. p r0 \<and> r = f r0)"
  by (induction t) (auto split: if_splits)

lemma ball_update_rows:
  "(\<forall>r \<in> set (update_rows p f t). P r)
     \<longleftrightarrow> (\<forall>r \<in> set t. if p r then P (f r) else P r)"
  by (induction t) auto

lemma find_row_update_rows:
  assumes "\<And>r. q (f r) = q r"
  shows "find_row q (update_rows p f t)
           = map_option (\<lambda>r. if p r then f r else r) (find_row q t)"
  using assms by (induction t) auto

text \<open>A conditional update of the one row that is meant, seen through the lookup by key.\<close>

lemma find_row_update_keyed:
  assumes "distinct (map key t)" and "r \<in> set t" and "p r"
    and only: "\<And>x. x \<in> set t \<Longrightarrow> p x \<Longrightarrow> key x = key r" and same: "\<And>x. key (f x) = key x"
  shows "find_row (\<lambda>x. key x = k) (update_rows p f t)
    = (if k = key r then Some (f r) else find_row (\<lambda>x. key x = k) t)"
proof -
  have upd: "find_row (\<lambda>x. key x = k) (update_rows p f t)
      = map_option (\<lambda>x. if p x then f x else x) (find_row (\<lambda>x. key x = k) t)"
    by (rule find_row_update_rows) (simp add: same)
  show ?thesis
  proof (cases "k = key r")
    case True
    then show ?thesis using upd find_row_key_unique [OF assms(1,2)] assms(3) by simp
  next
    case False
    show ?thesis
    proof (cases "find_row (\<lambda>x. key x = k) t")
      case (Some x)
      then have "x \<in> set t" "key x = k" by (auto dest: find_row_SomeD)
      with only False have "\<not> p x" by blast
      with upd Some False show ?thesis by simp
    qed (use upd False in simp)
  qed
qed

lemma changes_Nil [simp]: "changes p [] = 0"
  by (simp add: changes_def)

lemma changes_Cons [simp]: "changes p (r # t) = (if p r then Suc (changes p t) else changes p t)"
  by (simp add: changes_def)

lemma changes_pos_iff: "0 < changes p t \<longleftrightarrow> (\<exists>r \<in> set t. p r)"
  by (induction t) auto

lemma changes_le_1_key:
  assumes "distinct (map key t)" and "\<And>r. r \<in> set t \<Longrightarrow> p r \<Longrightarrow> key r = k"
  shows "changes p t \<le> 1"
  using assms
proof (induction t)
  case Nil
  then show ?case by simp
next
  case (Cons r t)
  show ?case
  proof (cases "p r")
    case False
    with Cons show ?thesis by simp
  next
    case True
    with Cons.prems have "k \<notin> key ` set t" by auto
    with Cons.prems(2) have "\<not> (\<exists>x \<in> set t. p x)" by force
    then have "changes p t = 0" using changes_pos_iff [of p t] by simp
    with True show ?thesis by simp
  qed
qed

lemma changes_eq_1_key:
  assumes "distinct (map key t)" and "\<And>x. p x \<Longrightarrow> key x = key r" and "r \<in> set t" and "p r"
  shows "changes p t = 1"
proof -
  have "changes p t \<le> 1" using assms(1,2) by (rule changes_le_1_key)
  moreover have "0 < changes p t" using assms(3,4) changes_pos_iff by blast
  ultimately show ?thesis by simp
qed

lemma changes_update_le:
  "(\<And>r. r \<in> set t \<Longrightarrow> u r \<Longrightarrow> p (f r) \<Longrightarrow> p r) \<Longrightarrow> changes p (update_rows u f t) \<le> changes p t"
proof (induction t)
  case (Cons r t)
  then have "changes p (update_rows u f t) \<le> changes p t" by simp
  then show ?case using Cons.prems [of r] by auto
qed simp

lemma changes_append [simp]: "changes p (s @ t) = changes p s + changes p t"
  by (simp add: changes_def)

lemma sum_where_Nil [simp]: "sum_where p g [] = 0"
  by (simp add: sum_where_def)

lemma sum_where_Cons [simp]:
  "sum_where p g (r # t) = (if p r then g r else 0) + sum_where p g t"
  by (simp add: sum_where_def)

lemma sum_where_append [simp]: "sum_where p g (s @ t) = sum_where p g s + sum_where p g t"
  by (simp add: sum_where_def)

lemma sum_where_mono:
  assumes "\<And>r. r \<in> set t \<Longrightarrow> p r \<Longrightarrow> q r \<and> g r \<le> h r"
  shows "sum_where p g t \<le> sum_where q h t"
  using assms by (induction t) (auto simp: add_mono trans_le_add2)

text \<open>
  A conditional update moves the sum by at most what it does to each touched row; in the
  form the accounting proofs use, rows are weighed with \<open>0\<close> where they are not selected.
\<close>

definition weight :: "('r \<Rightarrow> bool) \<Rightarrow> ('r \<Rightarrow> nat) \<Rightarrow> 'r \<Rightarrow> nat" where
  "weight p g r = (if p r then g r else 0)"

lemma sum_where_weight: "sum_where p g t = sum_list (map (weight p g) t)"
  by (induction t) (auto simp: weight_def)

lemma sum_where_update_le:
  assumes "\<And>r. r \<in> set t \<Longrightarrow> u r \<Longrightarrow> weight p g (f r) \<le> weight p g r"
  shows "sum_where p g (update_rows u f t) \<le> sum_where p g t"
  using assms
proof (induction t)
  case Nil
  then show ?case by simp
next
  case (Cons r t)
  have "sum_where p g (update_rows u f t) \<le> sum_where p g t"
    using Cons by simp
  moreover have "weight p g (if u r then f r else r) \<le> weight p g r"
    using Cons.prems by simp
  ultimately show ?case
    by (simp add: sum_where_weight add_mono)
qed

lemma sum_where_update_eq:
  assumes "\<And>r. r \<in> set t \<Longrightarrow> u r \<Longrightarrow> weight p g (f r) = weight p g r"
  shows "sum_where p g (update_rows u f t) = sum_where p g t"
  using assms by (induction t) (auto simp: sum_where_weight)

text \<open>
  One row moved from one account to another: the sum after the update and the row's old
  weight make up the sum before it.
\<close>

lemma sum_where_update_drop:
  assumes "r \<in> set t" and "u r" and "\<And>x. x \<in> set t \<Longrightarrow> u x \<Longrightarrow> weight p g (f x) = 0"
  shows "sum_where p g (update_rows u f t) + weight p g r \<le> sum_where p g t"
  using assms
proof (induction t)
  case Nil
  then show ?case by simp
next
  case (Cons y t)
  have le: "sum_where p g (update_rows u f t) \<le> sum_where p g t"
    by (rule sum_where_update_le) (simp add: Cons.prems(3))
  show ?case
  proof (cases "r = y")
    case True
    with Cons.prems le show ?thesis by (simp add: sum_where_weight)
  next
    case False
    with Cons.prems(1) have "r \<in> set t" by simp
    with Cons have "sum_where p g (update_rows u f t) + weight p g r \<le> sum_where p g t"
      by simp
    moreover have "weight p g (if u y then f y else y) \<le> weight p g y"
      using Cons.prems(3) [of y] by simp
    ultimately show ?thesis by (simp add: sum_where_weight)
  qed
qed

section \<open>Numbers and clocks\<close>

definition max_safe_integer :: int where
  "max_safe_integer = 9007199254740991"

definition is_safe_integer :: "int \<Rightarrow> bool" where
  "is_safe_integer n \<longleftrightarrow> - max_safe_integer \<le> n \<and> n \<le> max_safe_integer"

section \<open>Characters and patterns\<close>

definition code_unit :: "char \<Rightarrow> nat" where
  "code_unit c = of_char c"

definition in_range :: "nat \<Rightarrow> nat \<Rightarrow> char \<Rightarrow> bool" where
  "in_range lo hi c \<longleftrightarrow> lo \<le> code_unit c \<and> code_unit c \<le> hi"

definition is_digit :: "char \<Rightarrow> bool" where "is_digit c \<longleftrightarrow> in_range 48 57 c"
definition is_lower :: "char \<Rightarrow> bool" where "is_lower c \<longleftrightarrow> in_range 97 122 c"
definition is_upper :: "char \<Rightarrow> bool" where "is_upper c \<longleftrightarrow> in_range 65 90 c"

definition is_alnum :: "char \<Rightarrow> bool" where
  "is_alnum c \<longleftrightarrow> is_digit c \<or> is_lower c \<or> is_upper c"

text \<open>\<open>[a-f0-9]\<close>, \<open>[A-Za-z0-9_-]\<close>, \<open>[A-Za-z0-9._:-]\<close>, \<open>[a-z0-9]\<close>.\<close>

definition is_hex :: "char \<Rightarrow> bool" where
  "is_hex c \<longleftrightarrow> is_digit c \<or> in_range 97 102 c"

definition is_base64url :: "char \<Rightarrow> bool" where
  "is_base64url c \<longleftrightarrow> is_alnum c \<or> c = CHR ''_'' \<or> c = CHR ''-''"

definition is_key_char :: "char \<Rightarrow> bool" where
  "is_key_char c \<longleftrightarrow> is_alnum c \<or> c = CHR ''.'' \<or> c = CHR ''_'' \<or> c = CHR '':'' \<or> c = CHR ''-''"

definition is_address_char :: "char \<Rightarrow> bool" where
  "is_address_char c \<longleftrightarrow> is_digit c \<or> is_lower c"

text \<open>The class \<open>[\u0000-\u001f\u007f]\<close> and the white space of \<open>\s\<close> and \<open>trim\<close>.\<close>

definition is_control :: "char \<Rightarrow> bool" where
  "is_control c \<longleftrightarrow> code_unit c \<le> 31 \<or> code_unit c = 127"

definition is_space :: "char \<Rightarrow> bool" where
  "is_space c \<longleftrightarrow> in_range 9 13 c \<or> code_unit c = 32 \<or> code_unit c = 160"

definition trim :: "string \<Rightarrow> string" where
  "trim s = rev (dropWhile is_space (rev (dropWhile is_space s)))"

definition starts_with :: "string \<Rightarrow> string \<Rightarrow> bool" where
  "starts_with p s \<longleftrightarrow> take (length p) s = p"

text \<open>\<open>/^<prefix>[<class>]{n}$/\<close>\<close>

definition tagged :: "string \<Rightarrow> (char \<Rightarrow> bool) \<Rightarrow> nat \<Rightarrow> string \<Rightarrow> bool" where
  "tagged p cls n s \<longleftrightarrow>
     starts_with p s \<and> length s = length p + n \<and> list_all cls (drop (length p) s)"

end
