(* ===== verification/Decimals.thy ===== *)
theory Decimals
  imports Prelude
begin

text \<open>
  Canonical decimals and the bounded texts of the journal: \<open>BigInt(...)\<close> on a digit string,
  \<open>toString\<close> of a bigint, \<open>decimalBigInt\<close> and the \<open>assert...\<close> validators of
  \<open>src/purchase/journal.ts\<close>, and the exact KAS display of \<open>src/amount-display.ts\<close> with its
  parser. The lemmas show that printing and reading a canonical decimal are inverse and that
  a displayed amount reads back as the same atomic amount.
\<close>

section \<open>Printing and reading unsigned decimals\<close>

definition digit_char :: "nat \<Rightarrow> char" where
  "digit_char d = char_of (48 + d)"

definition digit_value :: "char \<Rightarrow> nat" where
  "digit_value c = code_unit c - 48"

fun nat_to_string :: "nat \<Rightarrow> string" where
  "nat_to_string n =
     (if n < 10 then [digit_char n] else nat_to_string (n div 10) @ [digit_char (n mod 10)])"

declare nat_to_string.simps [simp del]

definition BigInt :: "string \<Rightarrow> nat" where
  "BigInt s = foldl (\<lambda>acc c. acc * 10 + digit_value c) 0 s"

text \<open>\<open>/^(?:0|[1-9][0-9]*)$/\<close>\<close>

definition canonical_decimal :: "string \<Rightarrow> bool" where
  "canonical_decimal s \<longleftrightarrow>
     s = ''0'' \<or> (s \<noteq> [] \<and> list_all is_digit s \<and> hd s \<noteq> CHR ''0'')"

lemma code_unit_digit_char [simp]: "d < 10 \<Longrightarrow> code_unit (digit_char d) = 48 + d"
  by (simp add: code_unit_def digit_char_def)

lemma digit_value_char [simp]: "d < 10 \<Longrightarrow> digit_value (digit_char d) = d"
  by (simp add: digit_value_def)

lemma is_digit_char [simp]: "d < 10 \<Longrightarrow> is_digit (digit_char d)"
  by (simp add: is_digit_def in_range_def)

lemma is_digit_bounds: "is_digit c \<Longrightarrow> 48 \<le> code_unit c \<and> code_unit c \<le> 57"
  by (simp add: is_digit_def in_range_def)

lemma digit_char_value [simp]: "is_digit c \<Longrightarrow> digit_char (digit_value c) = c"
  using is_digit_bounds [of c] by (simp add: digit_char_def digit_value_def code_unit_def)

lemma digit_value_lt: "is_digit c \<Longrightarrow> digit_value c < 10"
  using is_digit_bounds [of c] unfolding digit_value_def by linarith

lemma digit_value_zero [simp]: "digit_value (CHR ''0'') = 0"
  by (simp add: digit_value_def code_unit_def)

lemma is_digit_zero [simp]: "is_digit (CHR ''0'')"
  by (simp add: is_digit_def in_range_def code_unit_def)

lemma digit_char_0: "digit_char 0 = CHR ''0''"
  using char_of_char [of "CHR ''0''"] by (simp add: digit_char_def del: char_of_char)

lemma digit_char_zero_iff: "d < 10 \<Longrightarrow> digit_char d = CHR ''0'' \<longleftrightarrow> d = 0"
  using digit_value_char [of d] digit_char_0 digit_value_zero by (auto simp del: digit_value_char)

lemma digit_value_zero_iff: "is_digit c \<Longrightarrow> digit_value c = 0 \<longleftrightarrow> c = CHR ''0''"
proof
  assume "is_digit c" "digit_value c = 0"
  then have "digit_char 0 = c" using digit_char_value [of c] by simp
  then show "c = CHR ''0''" by (simp add: digit_char_0)
qed simp

lemma BigInt_Nil [simp]: "BigInt [] = 0"
  by (simp add: BigInt_def)

lemma BigInt_snoc [simp]: "BigInt (s @ [c]) = BigInt s * 10 + digit_value c"
  by (simp add: BigInt_def)

lemma BigInt_single [simp]: "BigInt [c] = digit_value c"
  by (simp add: BigInt_def)

lemma BigInt_append: "BigInt (s @ t) = BigInt s * 10 ^ length t + BigInt t"
proof (induction t rule: rev_induct)
  case Nil
  then show ?case by simp
next
  case (snoc c t)
  have "BigInt (s @ t @ [c]) = BigInt (s @ t) * 10 + digit_value c"
    by (metis BigInt_snoc append.assoc)
  then show ?case by (simp add: snoc algebra_simps)
qed

lemma BigInt_replicate_zero [simp]: "BigInt (replicate n (CHR ''0'')) = 0"
proof (induction n)
  case (Suc n)
  then show ?case
    by (simp only: replicate_Suc replicate_append_same [symmetric] BigInt_snoc) simp
qed simp

lemma BigInt_Cons: "BigInt (c # s) = digit_value c * 10 ^ length s + BigInt s"
  using BigInt_append [of "[c]" s] by simp

lemma BigInt_lt: "list_all is_digit s \<Longrightarrow> BigInt s < 10 ^ length s"
proof (induction s rule: rev_induct)
  case (snoc c s)
  then have "BigInt s < 10 ^ length s" "digit_value c < 10"
    using digit_value_lt [of c] by simp_all
  then show ?case by simp
qed simp

lemma BigInt_nat_to_string [simp]: "BigInt (nat_to_string n) = n"
  by (induction n rule: nat_to_string.induct) (subst nat_to_string.simps, simp)

lemma nat_to_string_digits [simp]: "list_all is_digit (nat_to_string n)"
  by (induction n rule: nat_to_string.induct) (subst nat_to_string.simps, simp)

lemma nat_to_string_nonempty [simp]: "nat_to_string n \<noteq> []"
  by (subst nat_to_string.simps) simp

lemma nat_to_string_hd: "0 < n \<Longrightarrow> hd (nat_to_string n) \<noteq> CHR ''0''"
proof (induction n rule: nat_to_string.induct)
  case (1 n)
  then show ?case
    by (subst nat_to_string.simps) (auto simp: digit_char_zero_iff hd_append)
qed

lemma nat_to_string_0: "nat_to_string 0 = ''0''"
  by (simp add: nat_to_string.simps digit_char_0)

lemma nat_to_string_canonical [simp]: "canonical_decimal (nat_to_string n)"
  using nat_to_string_hd [of n]
  by (cases "n = 0") (auto simp: canonical_decimal_def nat_to_string_0)

lemma BigInt_pos: "s \<noteq> [] \<Longrightarrow> list_all is_digit s \<Longrightarrow> hd s \<noteq> CHR ''0'' \<Longrightarrow> 0 < BigInt s"
  by (cases s) (auto simp: BigInt_Cons simp flip: digit_value_zero_iff)

lemma nat_to_string_BigInt_digits:
  "s \<noteq> [] \<Longrightarrow> list_all is_digit s \<Longrightarrow> hd s \<noteq> CHR ''0'' \<Longrightarrow> nat_to_string (BigInt s) = s"
proof (induction s rule: rev_induct)
  case Nil
  then show ?case by simp
next
  case (snoc c s)
  have c: "is_digit c" using snoc.prems by (simp add: list_all_iff)
  show ?case
  proof (cases "s = []")
    case True
    with c digit_value_lt [OF c] show ?thesis by (simp add: nat_to_string.simps)
  next
    case False
    with snoc.prems have s: "list_all is_digit s" "hd s \<noteq> CHR ''0''" by simp_all
    then have IH: "nat_to_string (BigInt s) = s" using snoc.IH False by blast
    have "0 < BigInt s" using BigInt_pos False s by blast
    with c IH digit_value_lt [OF c] show ?thesis by (subst nat_to_string.simps) simp
  qed
qed

lemma nat_to_string_BigInt [simp]: "canonical_decimal s \<Longrightarrow> nat_to_string (BigInt s) = s"
  using nat_to_string_BigInt_digits [of s]
  by (auto simp: canonical_decimal_def nat_to_string_0)

lemma canonical_decimal_inj:
  "canonical_decimal s \<Longrightarrow> canonical_decimal t \<Longrightarrow> BigInt s = BigInt t \<Longrightarrow> s = t"
  by (metis nat_to_string_BigInt)

lemma nat_to_string_inj [simp]: "nat_to_string m = nat_to_string n \<longleftrightarrow> m = n"
  by (metis BigInt_nat_to_string)

lemma length_nat_to_string: "n < 10 ^ k \<Longrightarrow> 0 < k \<Longrightarrow> length (nat_to_string n) \<le> k"
proof (induction n arbitrary: k rule: nat_to_string.induct)
  case (1 n)
  show ?case
  proof (cases "n < 10")
    case True
    with 1 show ?thesis by (subst nat_to_string.simps) simp
  next
    case False
    then obtain j where k: "k = Suc j" "0 < j"
      using "1.prems" by (cases k; cases "k = 1") auto
    then have "n div 10 < 10 ^ j" using "1.prems" by (simp add: div_less_iff_less_mult mult.commute)
    with 1 False k show ?thesis by (subst nat_to_string.simps) simp
  qed
qed

section \<open>The validators of the journal\<close>

text \<open>\<open>decimalBigInt(value, label, allowZero)\<close>\<close>

definition decimalBigInt :: "string \<Rightarrow> bool \<Rightarrow> nat result" where
  "decimalBigInt value allowZero =
     (if \<not> canonical_decimal value then Inl PolicyReservationError
      else if \<not> allowZero \<and> BigInt value = 0 then Inl PolicyReservationError
      else Inr (BigInt value))"

lemma decimalBigInt_eq_Inr [simp]:
  "decimalBigInt s z = Inr n \<longleftrightarrow> canonical_decimal s \<and> n = BigInt s \<and> (z \<or> 0 < n)"
  by (auto simp: decimalBigInt_def)

text \<open>\<open>/^sha256:[A-Za-z0-9_-]{43}$/\<close>\<close>

definition is_sha256_digest :: "string \<Rightarrow> bool" where
  "is_sha256_digest s = tagged ''sha256:'' is_base64url 43 s"

definition assertDigest :: "string \<Rightarrow> unit result" where
  "assertDigest value = require (is_sha256_digest value) JournalInvariantError"

text \<open>\<open>/^[A-Za-z0-9][A-Za-z0-9._:-]{0,159}$/\<close>\<close>

definition is_code :: "string \<Rightarrow> bool" where
  "is_code s \<longleftrightarrow> s \<noteq> [] \<and> length s \<le> 160 \<and> is_alnum (hd s) \<and> list_all is_key_char (tl s)"

definition assertCode :: "string \<Rightarrow> unit result" where
  "assertCode value = require (is_code value) JournalInvariantError"

definition is_safe_identity :: "string \<Rightarrow> nat \<Rightarrow> bool" where
  "is_safe_identity s maxLength \<longleftrightarrow>
     s \<noteq> [] \<and> length s \<le> maxLength \<and> \<not> list_ex (\<lambda>c. is_control c \<or> is_space c) s"

definition assertSafeIdentity :: "string \<Rightarrow> nat \<Rightarrow> unit result" where
  "assertSafeIdentity value maxLength =
     require (is_safe_identity value maxLength) JournalInvariantError"

definition is_bounded_text :: "string \<Rightarrow> nat \<Rightarrow> bool" where
  "is_bounded_text s maxLength \<longleftrightarrow>
     trim s \<noteq> [] \<and> length s \<le> maxLength \<and> \<not> list_ex is_control s"

definition assertBoundedText :: "string \<Rightarrow> nat \<Rightarrow> unit result" where
  "assertBoundedText value maxLength =
     require (is_bounded_text value maxLength) JournalInvariantError"

text \<open>\<open>/^[a-f0-9]{64}$/\<close>\<close>

definition is_transaction_id :: "string \<Rightarrow> bool" where
  "is_transaction_id s \<longleftrightarrow> length s = 64 \<and> list_all is_hex s"

definition assertTransactionId :: "string \<Rightarrow> unit result" where
  "assertTransactionId value = require (is_transaction_id value) JournalInvariantError"

definition safeExpiry :: "int \<Rightarrow> int \<Rightarrow> int result" where
  "safeExpiry now ttlMs =
     (if \<not> is_safe_integer (now + ttlMs) then Inl JournalInvariantError else Inr (now + ttlMs))"

text \<open>\<open>storageRefForDigest\<close>: the digest's body between \<open>sha256-\<close> and \<open>.evidence\<close>.\<close>

definition storageRefForDigest :: "string \<Rightarrow> string result" where
  "storageRefForDigest digest =
     rbind (assertDigest digest) (\<lambda>_.
       Inr (''sha256-'' @ drop (length ''sha256:'') digest @ ''.evidence''))"

lemma tagged_drop_inj:
  assumes "tagged p c n s" and "tagged p c n t" and "drop (length p) s = drop (length p) t"
  shows "s = t"
  using assms by (metis append_take_drop_id starts_with_def tagged_def)

lemma storageRefForDigest_inj:
  assumes "storageRefForDigest d = Inr r" and "storageRefForDigest e = Inr r"
  shows "d = e"
proof (rule tagged_drop_inj)
  show "tagged ''sha256:'' is_base64url 43 d" "tagged ''sha256:'' is_base64url 43 e"
    using assms by (simp_all add: storageRefForDigest_def assertDigest_def is_sha256_digest_def)
  show "drop (length ''sha256:'') d = drop (length ''sha256:'') e"
    using assms by (auto simp: storageRefForDigest_def simp del: list.size)
qed

end
