(* ===== verification/Amount_Display.thy ===== *)
theory Amount_Display
  imports Decimals
begin

text \<open>
  \<open>src/amount-display.ts\<close>: the exact KAS rendering of an atomic amount (\<open>formatKas\<close>,
  \<open>kasAmountView\<close>) and the reader of a user's KAS decimal (\<open>parseKasAmount\<close>).
\<close>

definition SOMPI_PER_KAS :: nat where
  "SOMPI_PER_KAS = 100000000"

definition pad_start :: "nat \<Rightarrow> string \<Rightarrow> string" where
  "pad_start n s = replicate (n - length s) (CHR ''0'') @ s"

definition pad_end :: "nat \<Rightarrow> string \<Rightarrow> string" where
  "pad_end n s = s @ replicate (n - length s) (CHR ''0'')"

text \<open>\<open>replace(/0+$/, "")\<close>\<close>

definition strip_zeroes :: "string \<Rightarrow> string" where
  "strip_zeroes s = rev (dropWhile (\<lambda>c. c = CHR ''0'') (rev s))"

definition formatKas :: "int \<Rightarrow> string" where
  "formatKas value =
     (let sign = (if value < 0 then ''-'' else '''');
          absolute = nat \<bar>value\<bar>;
          whole = absolute div SOMPI_PER_KAS;
          remainder = absolute mod SOMPI_PER_KAS
      in if remainder = 0 then sign @ nat_to_string whole
         else sign @ nat_to_string whole @ ''.''
                @ strip_zeroes (pad_start 8 (nat_to_string remainder)))"

datatype kas_network = Testnet10 | Mainnet

record kas_amount_view =
  kv_atomic :: string
  kv_kas :: string
  kv_unit :: string
  kv_display :: string

definition kasAmountView :: "string \<Rightarrow> kas_network \<Rightarrow> kas_amount_view result" where
  "kasAmountView canonical network =
     (if \<not> canonical_decimal canonical then Inl PlainError
      else let kas = formatKas (int (BigInt canonical));
               unit = (if network = Mainnet then ''KAS'' else ''tKAS'')
           in Inr \<lparr> kv_atomic = canonical, kv_kas = kas, kv_unit = unit,
                    kv_display = kas @ '' '' @ unit \<rparr>)"

text \<open>
  The pattern \<open>/^(0|[1-9][0-9]*)(?:\.([0-9]{1,8}))?$/\<close> splits the text at its first full
  stop; group 2 is absent when there is none. (\<open>parseKasAmount\<close> reads
  \<open>"".padEnd(8, "0") || "0"\<close>, eight zeroes, for an absent group.)
\<close>

definition parseKasAmount :: "string \<Rightarrow> string result" where
  "parseKasAmount value =
     (let whole = takeWhile (\<lambda>c. c \<noteq> CHR ''.'') value;
          rest = dropWhile (\<lambda>c. c \<noteq> CHR ''.'') value;
          fraction = tl rest
      in if \<not> canonical_decimal whole
            \<or> (rest \<noteq> [] \<and> \<not> (fraction \<noteq> [] \<and> length fraction \<le> 8 \<and> list_all is_digit fraction))
         then Inl PlainError
         else let amount = BigInt whole * SOMPI_PER_KAS + BigInt (pad_end 8 fraction)
              in if amount = 0 \<or> 2 ^ 64 - 1 < amount then Inl PlainError
                 else Inr (nat_to_string amount))"

section \<open>The fraction\<close>

lemma takeWhile_zeroes: "takeWhile (\<lambda>c. c = CHR ''0'') s = replicate (length (takeWhile (\<lambda>c. c = CHR ''0'') s)) (CHR ''0'')"
  by (induction s) auto

lemma strip_zeroes_replicate:
  obtains k where "s = strip_zeroes s @ replicate k (CHR ''0'')"
proof -
  let ?P = "\<lambda>c. c = CHR ''0''"
  have "rev s = takeWhile ?P (rev s) @ dropWhile ?P (rev s)" by simp
  then have "s = rev (dropWhile ?P (rev s)) @ rev (takeWhile ?P (rev s))"
    by (metis rev_append rev_rev_ident)
  then have "s = strip_zeroes s @ replicate (length (takeWhile ?P (rev s))) (CHR ''0'')"
    using takeWhile_zeroes [of "rev s"] by (metis strip_zeroes_def rev_replicate)
  then show ?thesis using that by blast
qed

lemma pad_end_strip: "length s = n \<Longrightarrow> pad_end n (strip_zeroes s) = s"
proof -
  assume n: "length s = n"
  obtain k where s: "s = strip_zeroes s @ replicate k (CHR ''0'')" by (rule strip_zeroes_replicate)
  then have "n = length (strip_zeroes s) + k"
    using n by (metis length_append length_replicate)
  then show ?thesis using s by (simp add: pad_end_def)
qed

lemma length_strip_zeroes: "length (strip_zeroes s) \<le> length s"
  using strip_zeroes_replicate [of s] by (metis length_append le_add1)

lemma strip_zeroes_digits: "list_all is_digit s \<Longrightarrow> list_all is_digit (strip_zeroes s)"
  by (auto simp: strip_zeroes_def list_all_iff dest: set_dropWhileD)

lemma strip_zeroes_eq_Nil: "strip_zeroes s = [] \<Longrightarrow> BigInt s = 0"
  using strip_zeroes_replicate [of s] by (metis BigInt_replicate_zero append_Nil)

lemma digit_not_stop: "is_digit c \<Longrightarrow> c \<noteq> CHR ''.''"
  by (auto simp: is_digit_def in_range_def code_unit_def)

lemma pad_start_facts:
  assumes "n < 100000000"
  shows "length (pad_start 8 (nat_to_string n)) = 8" "BigInt (pad_start 8 (nat_to_string n)) = n"
    "list_all is_digit (pad_start 8 (nat_to_string n))"
proof -
  show "length (pad_start 8 (nat_to_string n)) = 8"
    using assms length_nat_to_string [of n 8] by (simp add: pad_start_def)
  show "BigInt (pad_start 8 (nat_to_string n)) = n"
    by (simp add: pad_start_def BigInt_append)
  have "list_all is_digit (replicate k (CHR ''0''))" for k
    by (induction k) simp_all
  then show "list_all is_digit (pad_start 8 (nat_to_string n))"
    by (simp add: pad_start_def)
qed

lemma takeWhile_digits:
  "list_all is_digit w \<Longrightarrow> takeWhile (\<lambda>c. c \<noteq> CHR ''.'') (w @ CHR ''.'' # f) = w"
  "list_all is_digit w \<Longrightarrow> dropWhile (\<lambda>c. c \<noteq> CHR ''.'') (w @ CHR ''.'' # f) = CHR ''.'' # f"
  "list_all is_digit w \<Longrightarrow> takeWhile (\<lambda>c. c \<noteq> CHR ''.'') w = w"
  "list_all is_digit w \<Longrightarrow> dropWhile (\<lambda>c. c \<noteq> CHR ''.'') w = []"
  by (induction w) (auto simp: digit_not_stop)

lemma parse_format:
  assumes "0 < n" and "n < 2 ^ 64"
  shows "parseKasAmount (formatKas (int n)) = Inr (nat_to_string n)"
proof (cases "n mod SOMPI_PER_KAS = 0")
  case True
  let ?w = "nat_to_string (n div SOMPI_PER_KAS)"
  have n: "n div SOMPI_PER_KAS * SOMPI_PER_KAS = n" using True by auto
  have "formatKas (int n) = ?w" using True by (simp add: formatKas_def)
  then show ?thesis using assms n
    by (simp add: parseKasAmount_def takeWhile_digits pad_end_def)
next
  case False
  let ?w = "nat_to_string (n div SOMPI_PER_KAS)" and ?r = "n mod SOMPI_PER_KAS"
  let ?p = "pad_start 8 (nat_to_string ?r)"
  have r: "?r < 100000000" by (simp add: SOMPI_PER_KAS_def)
  note p = pad_start_facts [OF r]
  have f: "formatKas (int n) = ?w @ CHR ''.'' # strip_zeroes ?p"
    using False by (simp add: formatKas_def)
  have "strip_zeroes ?p \<noteq> []" using strip_zeroes_eq_Nil p(2) False by force
  moreover have "length (strip_zeroes ?p) \<le> 8" using length_strip_zeroes [of ?p] p(1) by simp
  moreover have "list_all is_digit (strip_zeroes ?p)" using p(3) by (rule strip_zeroes_digits)
  moreover have "BigInt (pad_end 8 (strip_zeroes ?p)) = ?r" using pad_end_strip [OF p(1)] p(2) by simp
  moreover have "n div SOMPI_PER_KAS * SOMPI_PER_KAS + ?r = n" by simp
  ultimately show ?thesis using assms
    by (simp add: f parseKasAmount_def takeWhile_digits)
qed

lemma parse_range:
  "parseKasAmount s = Inr a \<Longrightarrow> canonical_decimal a \<and> 0 < BigInt a \<and> BigInt a < 2 ^ 64"
  by (auto simp: parseKasAmount_def Let_def)

end
