(* ===== verification/Lifecycles.thy ===== *)
theory Lifecycles
  imports Prelude
begin

text \<open>
  The transition tables of the program's state machines: Purchases
  (\<open>src/purchase/state-machine.ts\<close>), Transfers (\<open>src/transfer/state-machine.ts\<close>), and those
  of \<open>src/purchase/journal.ts\<close>: Effects, Payment Attempts, Policy Changes, Vault Migrations,
  batch Treasury Movements and direct Treasury Operations. Two locales state what the tables
  have in common: every state that is not terminal can move on towards a terminal one
  (\<open>lifecycle\<close>), and some tables only ever move forward (\<open>forward_lifecycle\<close>).
\<close>

section \<open>What a lifecycle promises\<close>

fun run_of :: "('s \<Rightarrow> 's list) \<Rightarrow> 's list \<Rightarrow> bool" where
  "run_of allowed (s # t # rest) \<longleftrightarrow> t \<in> set (allowed s) \<and> run_of allowed (t # rest)"
| "run_of allowed _ \<longleftrightarrow> True"

locale lifecycle =
  fixes allowed :: "'s \<Rightarrow> 's list"
    and distance :: "'s \<Rightarrow> nat"
  assumes progress: "allowed s \<noteq> [] \<Longrightarrow> \<exists>t \<in> set (allowed s). distance t < distance s"
begin

lemma terminal_absorbing: "run_of allowed (s # rest) \<Longrightarrow> allowed s = [] \<Longrightarrow> rest = []"
  by (cases rest) auto

lemma finishing_run:
  "\<exists>rest. run_of allowed (s # rest) \<and> allowed (last (s # rest)) = [] \<and> length rest \<le> distance s"
proof (induction "distance s" arbitrary: s rule: less_induct)
  case less
  show ?case
  proof (cases "allowed s = []")
    case True
    then show ?thesis by (intro exI [of _ "[]"]) simp
  next
    case False
    then obtain t where t: "t \<in> set (allowed s)" "distance t < distance s"
      using progress by blast
    then obtain rest where "run_of allowed (t # rest)" "allowed (last (t # rest)) = []"
      "length rest \<le> distance t"
      using less by blast
    with t show ?thesis by (intro exI [of _ "t # rest"]) simp
  qed
qed

end

locale forward_lifecycle = lifecycle +
  assumes forward: "t \<in> set (allowed s) \<Longrightarrow> distance t < distance s"
begin

lemma run_bounded: "run_of allowed (s # rest) \<Longrightarrow> length rest \<le> distance s"
proof (induction rest arbitrary: s)
  case (Cons t rest)
  then have "length rest \<le> distance t" "distance t < distance s"
    using forward by auto
  then show ?case by simp
qed simp

lemma run_later_smaller:
  "run_of allowed (s # rest) \<Longrightarrow> t \<in> set rest \<Longrightarrow> distance t < distance s"
proof (induction rest arbitrary: s)
  case (Cons u rest)
  then have "distance u < distance s" using forward by auto
  with Cons show ?case by fastforce
qed simp

lemma run_distinct: "run_of allowed (s # rest) \<Longrightarrow> distinct (s # rest)"
proof (induction rest arbitrary: s)
  case (Cons t rest)
  have "s \<notin> set (t # rest)" using run_later_smaller [OF Cons.prems] by blast
  moreover have "distinct (t # rest)" using Cons.IH [of t] Cons.prems by simp
  ultimately show ?case by simp
qed simp

end

section \<open>Purchases\<close>

datatype purchase_state =
    Pur_created | Pur_terms_bound | Pur_awaiting_authority | Pur_authorised
  | Pur_execution_prepared | Pur_submitted | Pur_settled | Pur_fulfilled | Pur_receipted
  | Pur_denied | Pur_cancelled | Pur_expired | Pur_failed_recoverable | Pur_failed_terminal

fun purchase_allowed :: "purchase_state \<Rightarrow> purchase_state list" where
  "purchase_allowed Pur_created = [Pur_terms_bound, Pur_cancelled]"
| "purchase_allowed Pur_terms_bound = [Pur_awaiting_authority, Pur_expired, Pur_cancelled]"
| "purchase_allowed Pur_awaiting_authority =
     [Pur_authorised, Pur_denied, Pur_expired, Pur_cancelled]"
| "purchase_allowed Pur_authorised = [Pur_execution_prepared, Pur_expired, Pur_cancelled]"
| "purchase_allowed Pur_execution_prepared =
     [Pur_submitted, Pur_expired, Pur_cancelled, Pur_failed_recoverable]"
| "purchase_allowed Pur_submitted = [Pur_settled, Pur_failed_recoverable]"
| "purchase_allowed Pur_settled = [Pur_fulfilled, Pur_failed_recoverable]"
| "purchase_allowed Pur_fulfilled = [Pur_receipted]"
| "purchase_allowed Pur_receipted = []"
| "purchase_allowed Pur_denied = []"
| "purchase_allowed Pur_cancelled = []"
| "purchase_allowed Pur_expired = []"
| "purchase_allowed Pur_failed_recoverable =
     [Pur_execution_prepared, Pur_submitted, Pur_settled, Pur_expired, Pur_failed_terminal]"
| "purchase_allowed Pur_failed_terminal = []"

definition canTransitionPurchase :: "purchase_state \<Rightarrow> purchase_state \<Rightarrow> bool" where
  "canTransitionPurchase from_state to_state \<longleftrightarrow>
     from_state = to_state \<or> to_state \<in> set (purchase_allowed from_state)"

definition assertPurchaseTransition :: "purchase_state \<Rightarrow> purchase_state \<Rightarrow> unit result" where
  "assertPurchaseTransition from_state to_state =
     require (canTransitionPurchase from_state to_state) PlainError"

definition terminalPurchaseState :: "purchase_state \<Rightarrow> bool" where
  "terminalPurchaseState s \<longleftrightarrow> purchase_allowed s = []"

fun purchase_distance :: "purchase_state \<Rightarrow> nat" where
  "purchase_distance Pur_created = 1"
| "purchase_distance Pur_terms_bound = 1"
| "purchase_distance Pur_awaiting_authority = 1"
| "purchase_distance Pur_authorised = 1"
| "purchase_distance Pur_execution_prepared = 1"
| "purchase_distance Pur_submitted = 3"
| "purchase_distance Pur_settled = 2"
| "purchase_distance Pur_fulfilled = 1"
| "purchase_distance Pur_failed_recoverable = 1"
| "purchase_distance _ = 0"

interpretation purchase_lifecycle: lifecycle purchase_allowed purchase_distance
proof
  fix s show "purchase_allowed s \<noteq> [] \<Longrightarrow>
    \<exists>t \<in> set (purchase_allowed s). purchase_distance t < purchase_distance s"
    by (cases s) auto
qed

section \<open>Transfers\<close>

datatype transfer_state =
    Tr_created | Tr_awaiting_authority | Tr_authorised | Tr_denied | Tr_funds_reserved
  | Tr_prepared | Tr_submitted | Tr_settled | Tr_receipted | Tr_failed_recoverable
  | Tr_failed_terminal

fun transfer_allowed :: "transfer_state \<Rightarrow> transfer_state list" where
  "transfer_allowed Tr_created = [Tr_awaiting_authority]"
| "transfer_allowed Tr_awaiting_authority =
     [Tr_authorised, Tr_denied, Tr_failed_recoverable, Tr_failed_terminal]"
| "transfer_allowed Tr_authorised = [Tr_funds_reserved, Tr_failed_terminal]"
| "transfer_allowed Tr_denied = []"
| "transfer_allowed Tr_funds_reserved =
     [Tr_prepared, Tr_submitted, Tr_settled, Tr_failed_recoverable, Tr_failed_terminal]"
| "transfer_allowed Tr_prepared =
     [Tr_submitted, Tr_settled, Tr_failed_recoverable, Tr_failed_terminal]"
| "transfer_allowed Tr_submitted = [Tr_settled, Tr_failed_recoverable, Tr_failed_terminal]"
| "transfer_allowed Tr_settled = [Tr_receipted, Tr_failed_recoverable]"
| "transfer_allowed Tr_receipted = []"
| "transfer_allowed Tr_failed_recoverable =
     [Tr_funds_reserved, Tr_prepared, Tr_submitted, Tr_settled, Tr_receipted, Tr_failed_terminal]"
| "transfer_allowed Tr_failed_terminal = []"

definition assertTransferTransition :: "transfer_state \<Rightarrow> transfer_state \<Rightarrow> unit result" where
  "assertTransferTransition from_state to_state =
     require (to_state \<in> set (transfer_allowed from_state)) PlainError"

fun transfer_distance :: "transfer_state \<Rightarrow> nat" where
  "transfer_distance Tr_created = 2"
| "transfer_distance Tr_denied = 0"
| "transfer_distance Tr_receipted = 0"
| "transfer_distance Tr_failed_terminal = 0"
| "transfer_distance _ = 1"

interpretation transfer_lifecycle: lifecycle transfer_allowed transfer_distance
proof
  fix s show "transfer_allowed s \<noteq> [] \<Longrightarrow>
    \<exists>t \<in> set (transfer_allowed s). transfer_distance t < transfer_distance s"
    by (cases s) auto
qed

section \<open>Effects and Payment Attempts\<close>

datatype effect_state =
    Eff_planned | Eff_executing | Eff_submitted | Eff_ambiguous | Eff_retryable | Eff_observed
  | Eff_failed_terminal | Eff_abandoned

fun effect_allowed :: "effect_state \<Rightarrow> effect_state list" where
  "effect_allowed Eff_planned = [Eff_executing, Eff_abandoned]"
| "effect_allowed Eff_executing =
     [Eff_submitted, Eff_ambiguous, Eff_retryable, Eff_observed, Eff_failed_terminal]"
| "effect_allowed Eff_submitted =
     [Eff_ambiguous, Eff_retryable, Eff_observed, Eff_failed_terminal]"
| "effect_allowed Eff_ambiguous = [Eff_retryable, Eff_observed, Eff_failed_terminal]"
| "effect_allowed Eff_retryable = [Eff_executing, Eff_failed_terminal, Eff_abandoned]"
| "effect_allowed Eff_observed = []"
| "effect_allowed Eff_failed_terminal = []"
| "effect_allowed Eff_abandoned = []"

definition assertEffectTransition :: "effect_state \<Rightarrow> effect_state \<Rightarrow> unit result" where
  "assertEffectTransition from_state to_state =
     require (from_state = to_state \<or> to_state \<in> set (effect_allowed from_state))
       JournalInvariantError"

fun effect_distance :: "effect_state \<Rightarrow> nat" where
  "effect_distance Eff_observed = 0"
| "effect_distance Eff_failed_terminal = 0"
| "effect_distance Eff_abandoned = 0"
| "effect_distance _ = 1"

interpretation effect_lifecycle: lifecycle effect_allowed effect_distance
proof
  fix s show "effect_allowed s \<noteq> [] \<Longrightarrow>
    \<exists>t \<in> set (effect_allowed s). effect_distance t < effect_distance s"
    by (cases s) auto
qed

datatype attempt_state = Att_planned | Att_prepared | Att_submitted | Att_observed | Att_failed

fun attempt_allowed :: "attempt_state \<Rightarrow> attempt_state list" where
  "attempt_allowed Att_planned = [Att_prepared, Att_failed]"
| "attempt_allowed Att_prepared = [Att_submitted, Att_failed]"
| "attempt_allowed Att_submitted = [Att_observed]"
| "attempt_allowed Att_observed = []"
| "attempt_allowed Att_failed = []"

definition assertAttemptTransition ::
  "attempt_state \<Rightarrow> attempt_state \<Rightarrow> bool \<Rightarrow> unit result" where
  "assertAttemptTransition from_state to_state proofBackedSubmittedFailure =
     (if from_state = Att_submitted \<and> to_state = Att_failed \<and> proofBackedSubmittedFailure
      then Inr ()
      else require (to_state \<in> set (attempt_allowed from_state)) JournalInvariantError)"

fun attempt_distance :: "attempt_state \<Rightarrow> nat" where
  "attempt_distance Att_planned = 3"
| "attempt_distance Att_prepared = 2"
| "attempt_distance Att_submitted = 1"
| "attempt_distance _ = 0"

interpretation attempt_lifecycle: forward_lifecycle attempt_allowed attempt_distance
proof
  fix s t
  show "attempt_allowed s \<noteq> [] \<Longrightarrow>
    \<exists>t \<in> set (attempt_allowed s). attempt_distance t < attempt_distance s"
    by (cases s) auto
  show "t \<in> set (attempt_allowed s) \<Longrightarrow> attempt_distance t < attempt_distance s"
    by (cases s) auto
qed

section \<open>Policy Changes and Vault Migrations\<close>

datatype policy_change_state =
    PC_created | PC_awaiting_authority | PC_authorised | PC_applied | PC_denied | PC_expired
  | PC_failed

fun policy_change_allowed :: "policy_change_state \<Rightarrow> policy_change_state list" where
  "policy_change_allowed PC_created = [PC_awaiting_authority, PC_failed]"
| "policy_change_allowed PC_awaiting_authority =
     [PC_authorised, PC_denied, PC_expired, PC_failed]"
| "policy_change_allowed PC_authorised = [PC_applied, PC_failed]"
| "policy_change_allowed PC_applied = []"
| "policy_change_allowed PC_denied = []"
| "policy_change_allowed PC_expired = []"
| "policy_change_allowed PC_failed = []"

definition assertPolicyChangeTransition ::
  "policy_change_state \<Rightarrow> policy_change_state \<Rightarrow> unit result" where
  "assertPolicyChangeTransition from_state to_state =
     require (from_state = to_state \<or> to_state \<in> set (policy_change_allowed from_state))
       JournalInvariantError"

fun policy_change_distance :: "policy_change_state \<Rightarrow> nat" where
  "policy_change_distance PC_created = 3"
| "policy_change_distance PC_awaiting_authority = 2"
| "policy_change_distance PC_authorised = 1"
| "policy_change_distance _ = 0"

interpretation policy_change_lifecycle:
  forward_lifecycle policy_change_allowed policy_change_distance
proof
  fix s t
  show "policy_change_allowed s \<noteq> [] \<Longrightarrow>
    \<exists>t \<in> set (policy_change_allowed s). policy_change_distance t < policy_change_distance s"
    by (cases s) auto
  show "t \<in> set (policy_change_allowed s) \<Longrightarrow>
    policy_change_distance t < policy_change_distance s"
    by (cases s) auto
qed

datatype vault_migration_state =
    VM_created | VM_awaiting_authority | VM_awaiting_owner | VM_executing
  | VM_reconciliation_required | VM_applied | VM_denied | VM_expired | VM_failed

fun vault_migration_allowed :: "vault_migration_state \<Rightarrow> vault_migration_state list" where
  "vault_migration_allowed VM_created = [VM_awaiting_authority, VM_failed]"
| "vault_migration_allowed VM_awaiting_authority =
     [VM_awaiting_owner, VM_denied, VM_expired, VM_failed]"
| "vault_migration_allowed VM_awaiting_owner = [VM_executing, VM_expired, VM_failed]"
| "vault_migration_allowed VM_executing = [VM_applied, VM_reconciliation_required, VM_failed]"
| "vault_migration_allowed VM_reconciliation_required = [VM_applied, VM_failed]"
| "vault_migration_allowed VM_applied = []"
| "vault_migration_allowed VM_denied = []"
| "vault_migration_allowed VM_expired = []"
| "vault_migration_allowed VM_failed = []"

definition assertVaultMigrationTransition ::
  "vault_migration_state \<Rightarrow> vault_migration_state \<Rightarrow> unit result" where
  "assertVaultMigrationTransition from_state to_state =
     require (from_state = to_state \<or> to_state \<in> set (vault_migration_allowed from_state))
       JournalInvariantError"

fun vault_migration_distance :: "vault_migration_state \<Rightarrow> nat" where
  "vault_migration_distance VM_created = 5"
| "vault_migration_distance VM_awaiting_authority = 4"
| "vault_migration_distance VM_awaiting_owner = 3"
| "vault_migration_distance VM_executing = 2"
| "vault_migration_distance VM_reconciliation_required = 1"
| "vault_migration_distance _ = 0"

interpretation vault_migration_lifecycle:
  forward_lifecycle vault_migration_allowed vault_migration_distance
proof
  fix s t
  show "vault_migration_allowed s \<noteq> [] \<Longrightarrow>
    \<exists>t \<in> set (vault_migration_allowed s).
      vault_migration_distance t < vault_migration_distance s"
    by (cases s) auto
  show "t \<in> set (vault_migration_allowed s) \<Longrightarrow>
    vault_migration_distance t < vault_migration_distance s"
    by (cases s) auto
qed

section \<open>Batch Treasury Movements\<close>

datatype movement_state =
    Mov_planned | Mov_submitted | Mov_ambiguous | Mov_accepted | Mov_failed_terminal

fun movement_allowed :: "movement_state \<Rightarrow> movement_state list" where
  "movement_allowed Mov_planned =
     [Mov_submitted, Mov_ambiguous, Mov_accepted, Mov_failed_terminal]"
| "movement_allowed Mov_submitted = [Mov_ambiguous, Mov_accepted, Mov_failed_terminal]"
| "movement_allowed Mov_ambiguous = [Mov_accepted, Mov_failed_terminal]"
| "movement_allowed Mov_accepted = []"
| "movement_allowed Mov_failed_terminal = []"

definition assertBatchMovementTransition ::
  "movement_state \<Rightarrow> movement_state \<Rightarrow> unit result" where
  "assertBatchMovementTransition from_state to_state =
     require (to_state \<in> set (movement_allowed from_state)) JournalInvariantError"

fun movement_distance :: "movement_state \<Rightarrow> nat" where
  "movement_distance Mov_planned = 3"
| "movement_distance Mov_submitted = 2"
| "movement_distance Mov_ambiguous = 1"
| "movement_distance _ = 0"

interpretation movement_lifecycle: forward_lifecycle movement_allowed movement_distance
proof
  fix s t
  show "movement_allowed s \<noteq> [] \<Longrightarrow>
    \<exists>t \<in> set (movement_allowed s). movement_distance t < movement_distance s"
    by (cases s) auto
  show "t \<in> set (movement_allowed s) \<Longrightarrow> movement_distance t < movement_distance s"
    by (cases s) auto
qed

section \<open>Direct Treasury Operations\<close>

datatype treasury_operation_state =
    Op_intent | Op_prepared | Op_submission_planned | Op_submitted | Op_observed
  | Op_completed | Op_failed_terminal

definition directTreasuryTransitionAllowed ::
  "treasury_operation_state \<Rightarrow> treasury_operation_state \<Rightarrow> bool" where
  "directTreasuryTransitionAllowed from_state to_state \<longleftrightarrow>
     from_state = to_state
     \<or> from_state = Op_intent \<and> to_state \<in> {Op_intent, Op_prepared, Op_failed_terminal}
     \<or> from_state = Op_prepared \<and> to_state = Op_submission_planned
     \<or> from_state = Op_submission_planned
         \<and> to_state \<in> {Op_prepared, Op_submitted, Op_observed, Op_failed_terminal}
     \<or> from_state = Op_submitted \<and> to_state \<in> {Op_prepared, Op_observed, Op_failed_terminal}
     \<or> from_state = Op_observed \<and> to_state = Op_completed"

definition unresolved_state :: "treasury_operation_state \<Rightarrow> bool" where
  "unresolved_state s \<longleftrightarrow> s \<noteq> Op_completed \<and> s \<noteq> Op_failed_terminal"

lemma directTreasuryTransition_terminal:
  "directTreasuryTransitionAllowed s t \<Longrightarrow> \<not> unresolved_state s \<Longrightarrow> t = s"
  by (auto simp: directTreasuryTransitionAllowed_def unresolved_state_def)

end
