(* ===== verification/Fencing.thy ===== *)
theory Fencing
  imports Main
begin

text \<open>
  The contract every fenced lease of the program keeps: a key has one holder and one
  generation at a time, a generation never goes back, and a token whose generation has been
  passed is never honoured again. The named leases of the journal and the driver lease of a
  direct Treasury Operation are interpretations of it.
\<close>

locale fenced_lease =
  fixes generation :: "'s \<Rightarrow> 'k \<Rightarrow> int"
    and holds :: "'s \<Rightarrow> 'k \<Rightarrow> 'h \<Rightarrow> int \<Rightarrow> int \<Rightarrow> bool"
    and good :: "'s \<Rightarrow> bool"
    and step :: "'s \<Rightarrow> 's \<Rightarrow> bool"
  assumes holds_one_holder:
      "holds s k h g t \<Longrightarrow> holds s k h' g' t' \<Longrightarrow> h = h'"
    and holds_current: "holds s k h g t \<Longrightarrow> g = generation s k"
    and holds_antimono: "holds s k h g t \<Longrightarrow> t' \<le> t \<Longrightarrow> holds s k h g t'"
    and step_good: "good s \<Longrightarrow> step s s' \<Longrightarrow> good s'"
    and step_generation: "good s \<Longrightarrow> step s s' \<Longrightarrow> generation s k \<le> generation s' k"
    and step_takeover:
      "good s \<Longrightarrow> step s s' \<Longrightarrow> holds s k h g t \<Longrightarrow> holds s' k h' g' t'
       \<Longrightarrow> h \<noteq> h' \<Longrightarrow> generation s k < generation s' k"
begin

lemma mutual_exclusion:
  "holds s k h g t \<Longrightarrow> holds s k h' g' t' \<Longrightarrow> h = h' \<and> g = g'"
  using holds_one_holder holds_current by metis

lemma run_good: "step\<^sup>*\<^sup>* s s' \<Longrightarrow> good s \<Longrightarrow> good s'"
  by (induction rule: rtranclp_induct) (auto intro: step_good)

lemma run_generation: "step\<^sup>*\<^sup>* s s' \<Longrightarrow> good s \<Longrightarrow> generation s k \<le> generation s' k"
proof (induction rule: rtranclp_induct)
  case (step y z)
  then have "good y" using run_good by blast
  with step show ?case using step_generation [of y z k] by linarith
qed simp

lemma stale_token_fenced:
  assumes "good s" and "step\<^sup>*\<^sup>* s s'" and "g < generation s k"
  shows "\<not> holds s' k h g t"
  using run_generation [OF assms(2,1), of k] holds_current [of s' k h g t] assms(3) by linarith

lemma takeover_fences_previous:
  assumes "good s" and "holds s k h g t" and "step s s1" and "holds s1 k h' g' t'" and "h \<noteq> h'"
    and "step\<^sup>*\<^sup>* s1 s2"
  shows "\<not> holds s2 k h g t2"
proof -
  have "g < generation s1 k"
    using step_takeover [OF assms(1,3,2,4,5)] holds_current [OF assms(2)] by simp
  moreover have "good s1" using step_good assms(1,3) .
  ultimately show ?thesis using stale_token_fenced assms(6) by blast
qed

end

text \<open>
  The contract of a register that is written by compare-and-swap on a version: whoever wrote
  with an expected version is the only one who ever did.
\<close>

locale cas_register =
  fixes version :: "'s \<Rightarrow> nat"
    and cas :: "'s \<Rightarrow> nat \<Rightarrow> 's \<Rightarrow> bool"
    and step :: "'s \<Rightarrow> 's \<Rightarrow> bool"
  assumes cas_expected: "cas s e s' \<Longrightarrow> version s = e \<and> e < version s'"
    and step_version: "step s s' \<Longrightarrow> version s \<le> version s'"
begin

lemma run_version: "step\<^sup>*\<^sup>* s s' \<Longrightarrow> version s \<le> version s'"
  by (induction rule: rtranclp_induct) (auto dest: step_version)

lemma at_most_one_writer: "cas s e s1 \<Longrightarrow> step\<^sup>*\<^sup>* s1 s2 \<Longrightarrow> \<not> cas s2 e s3"
  using cas_expected [of s e s1] cas_expected [of s2 e s3] run_version [of s1 s2] by auto

end

end
