(* ===== verification/Journal_State.thy ===== *)
theory Journal_State
  imports Decimals Lifecycles
begin

text \<open>
  The state of the journal (\<open>src/purchase/journal.ts\<close>, tables of
  \<open>src/purchase/journal-schema.ts\<close>): one record per table row, one list per table, in
  insertion order. A row also stands for the record the code builds from it, since the
  \<open>\<dots>FromRow\<close> functions only rename columns (where they check the row, the check is a
  definition of its own). Nullable columns are options. Timestamps are readings of the clock,
  as \<open>int\<close>, so that a bad reading can be rejected; they are arguments of the operations.
\<close>

section \<open>Treasury policy\<close>

record policy_definition =
  pd_max_per_payment :: string
  pd_max_per_hour :: string
  pd_allowlist :: "string list"

record policy_snapshot =
  pol_digest :: string
  pol_version :: nat
  pol_max_per_payment :: string
  pol_max_per_hour :: string
  pol_allowlist :: "string list"
  pol_activated_at :: int

record active_policy =
  act_digest :: string
  act_updated_at :: int
  act_generation :: nat

section \<open>Treasury Reservations, Settlements, recovery accounting\<close>

datatype reservation_state = Res_active | Res_in_flight | Res_spent | Res_released | Res_expired

record reservation_row =
  rs_id :: string
  rs_purchase_id :: string
  rs_policy_digest :: string
  rs_approval_evidence :: "string option"
  rs_approval_profile :: "string option"
  rs_approval_verifier :: "string option"
  rs_payee :: string
  rs_amount :: string
  rs_additional_cost_ceiling :: string
  rs_funding_source :: string
  rs_state :: reservation_state
  rs_expires_at :: int
  rs_created_at :: int
  rs_updated_at :: int
  rs_in_flight_at :: "int option"
  rs_spent_at :: "int option"
  rs_release_evidence :: "string option"

datatype mechanism = Single_transaction | Channel_voucher
datatype assurance = Assure_accepted | Assure_confirmed | Assure_channel_commitment

record settlement_row =
  st_effect_id :: string
  st_reservation_id :: string
  st_purchase_id :: string
  st_attempt :: int
  st_execution_id :: string
  st_mechanism :: mechanism
  st_profile :: string
  st_transaction_id :: "string option"
  st_commitment_id :: "string option"
  st_outpoint :: "string option"
  st_amount :: string
  st_additional_cost :: string
  st_asset :: string
  st_payee :: string
  st_network :: string
  st_assurance :: assurance
  st_funding_source :: string
  st_evidence_digest :: string
  st_evidence_profile :: string
  st_evidence_verifier :: string
  st_observed_at :: int

record recovery_accounting_row =
  ra_effect_id :: string
  ra_reservation_id :: string
  ra_purchase_id :: string
  ra_attempt :: int
  ra_transaction_id :: string
  ra_outpoint :: string
  ra_returned_amount :: string
  ra_staging_fee :: string
  ra_recovery_fee :: string
  ra_additional_cost :: string
  ra_finality :: string
  ra_evidence_digest :: string
  ra_observed_at :: int

section \<open>Direct Treasury Operations\<close>

datatype treasury_kind = Wallet_send | Vault_send | Vault_deposit | Batch_refund

record treasury_operation_row =
  op_key :: string
  op_request_digest :: string
  op_kind :: treasury_kind
  op_destination :: string
  op_requested_amount :: string
  op_keep_float :: "string option"
  op_fee_ceiling :: string
  op_retry_limit :: int
  op_cancellation_requested :: bool
  op_preparation_fenced :: bool
  op_driver_owner :: "string option"
  op_driver_generation :: int
  op_driver_lease_expires :: "int option"
  op_capability_generation :: "int option"
  op_submission_in_flight :: bool
  op_resolved_amount :: "string option"
  op_fee :: "string option"
  op_transaction_id :: "string option"
  op_prepared_digest :: "string option"
  op_prepared_ref :: "string option"
  op_prepared_byte_length :: "int option"
  op_policy_digest :: string
  op_authorization_digest :: "string option"
  op_state :: treasury_operation_state
  op_retry_count :: int
  op_created_at :: int
  op_updated_at :: int
  op_completed_at :: "int option"

record operation_transition_row =
  ot_key :: string
  ot_from :: "treasury_operation_state option"
  ot_to :: treasury_operation_state
  ot_reason :: string
  ot_created_at :: int

datatype observation_status = Obs_observed | Obs_not_submitted | Obs_pending | Obs_superseded

record operation_observation_row =
  oo_key :: string
  oo_status :: observation_status
  oo_detail_digest :: string
  oo_detail_json :: string
  oo_observed_at :: int

section \<open>Leases, Effects, Payment Attempts\<close>

record lease_row =
  ls_name :: string
  ls_holder :: string
  ls_generation :: nat
  ls_expires_at :: int
  ls_updated_at :: int

record lease_token =
  lt_name :: string
  lt_holder :: string
  lt_generation :: nat
  lt_expires_at :: int

record effect_row =
  ef_id :: string
  ef_purchase_id :: string
  ef_attempt :: "int option"
  ef_kind :: string
  ef_idempotency_key :: string
  ef_state :: effect_state
  ef_version :: nat
  ef_payload_digest :: string
  ef_prepared_ref :: string
  ef_prepared_byte_length :: int
  ef_claim_lease :: "string option"
  ef_claim_generation :: "nat option"
  ef_submission_digest :: "string option"
  ef_result_digest :: "string option"
  ef_error_code :: "string option"
  ef_created_at :: int
  ef_updated_at :: int
  ef_executing_at :: "int option"
  ef_submitted_at :: "int option"
  ef_observed_at :: "int option"

record effect_transition_row =
  et_effect_id :: string
  et_from :: "effect_state option"
  et_to :: effect_state
  et_reason :: string
  et_detail :: "string option"
  et_created_at :: int

datatype effect_observation_status =
    EO_observed | EO_pending | EO_not_found_retryable | EO_not_found_ambiguous | EO_conflict
  | EO_application_failure

record effect_observation_row =
  eo_effect_id :: string
  eo_status :: effect_observation_status
  eo_result :: "string option"
  eo_detail :: "string option"
  eo_lease_name :: string
  eo_lease_generation :: nat
  eo_observed_at :: int

record attempt_row =
  at_purchase_id :: string
  at_attempt :: int
  at_identifier :: string
  at_state :: attempt_state
  at_version :: nat
  at_failure_code :: "string option"
  at_created_at :: int
  at_updated_at :: int

record attempt_transition_row =
  att_purchase_id :: string
  att_attempt :: int
  att_from :: "attempt_state option"
  att_to :: attempt_state
  att_reason :: string
  att_detail :: "string option"
  att_created_at :: int

record preparation_row =
  pp_purchase_id :: string
  pp_attempt :: int
  pp_reservation_id :: string
  pp_requirements_digest :: string
  pp_payload_digest :: string
  pp_prepared_ref :: string
  pp_prepared_byte_length :: int
  pp_execution_id :: string
  pp_mechanism :: mechanism
  pp_profile :: string
  pp_transaction_id :: "string option"
  pp_amount :: string
  pp_asset :: string
  pp_network :: string
  pp_payee :: string
  pp_required_assurance :: assurance
  pp_funding_source :: string
  pp_created_at :: int

section \<open>Purchases and what authorises them\<close>

record purchase_row =
  pu_id :: string
  pu_request_key :: string
  pu_resource_url :: string
  pu_method :: string
  pu_resource_fingerprint :: string
  pu_expected_merchant_id :: "string option"
  pu_expected_merchant_origin :: "string option"
  pu_state :: purchase_state
  pu_version :: nat
  pu_created_at :: int
  pu_updated_at :: int

record purchase_transition_row =
  pt_purchase_id :: string
  pt_from :: "purchase_state option"
  pt_to :: purchase_state
  pt_reason :: string
  pt_detail :: "string option"
  pt_created_at :: int

record checkout_terms_row =
  ct_purchase_id :: string
  ct_merchant_id :: string
  ct_merchant_name :: string
  ct_merchant_origin :: string
  ct_resource_fingerprint :: string
  ct_amount :: string
  ct_asset :: string
  ct_network :: string
  ct_pay_to :: string
  ct_expires_at_text :: string
  ct_expires_at :: int
  ct_checkout_digest :: string
  ct_checkout_evidence_digest :: string
  ct_checkout_profile :: string
  ct_checkout_verifier :: string
  ct_requirements_digest :: string
  ct_requirements_profile :: string
  ct_requirements_verifier :: string
  ct_created_at :: int

record execution_plan_row =
  xp_purchase_id :: string
  xp_plan_digest :: string
  xp_mechanism :: mechanism
  xp_profile :: string
  xp_requirements_digest :: string
  xp_maximum_charge :: string
  xp_assurance :: assurance
  xp_channel_id :: "string option"
  xp_active_txid :: "string option"
  xp_active_output_index :: "int option"
  xp_active_script :: "string option"
  xp_channel_funding :: "string option"
  xp_refund_timeout_daa :: "string option"
  xp_claim_fee_reserve :: "string option"
  xp_created_at :: int

datatype finality_floor = Floor_accepted | Floor_depth_confirmed

record authorization_request_row =
  ar_purchase_id :: string
  ar_checkout_digest :: string
  ar_request_digest :: string
  ar_nonce_digest :: string
  ar_media_type :: string
  ar_body_digest :: string
  ar_additional_cost_ceiling :: string
  ar_finality_floor :: finality_floor
  ar_plan_digest :: string
  ar_mechanism :: mechanism
  ar_profile :: string
  ar_assurance :: assurance
  ar_maximum_charge :: string
  ar_channel_id :: "string option"
  ar_channel_epoch :: "string option"
  ar_expires_at :: int
  ar_created_at :: int

datatype purchase_decision = Dec_approved | Dec_denied | Dec_expired

record authorization_row =
  au_purchase_id :: string
  au_decision :: purchase_decision
  au_authority_id :: string
  au_checkout_digest :: string
  au_approved_facts_digest :: string
  au_evidence_digest :: string
  au_verification_profile :: string
  au_verifier_id :: string
  au_request_digest :: string
  au_nonce_digest :: string
  au_expires_at :: int
  au_decided_at :: int

record fulfilment_row =
  ff_purchase_id :: string
  ff_attempt :: int
  ff_http_status :: int
  ff_resource_fingerprint :: string
  ff_body_digest :: string
  ff_body_byte_length :: int
  ff_media_type :: string
  ff_evidence_digest :: string
  ff_evidence_profile :: string
  ff_evidence_verifier :: string
  ff_created_at :: int

record receipt_row =
  rc_purchase_id :: string
  rc_canonical_digest :: string
  rc_evidence_digest :: string
  rc_profile :: string
  rc_issuer :: "string option"
  rc_verifier_id :: string
  rc_checkout_digest :: string
  rc_authorization_digest :: string
  rc_settlement_digest :: string
  rc_fulfilment_digest :: string
  rc_created_at :: int

record evidence_link_row =
  el_purchase_id :: string
  el_digest :: string
  el_kind :: string
  el_attempt :: "int option"
  el_media_type :: string
  el_profile :: string
  el_issuer :: "string option"
  el_attached_at :: int

record evidence_verification_row =
  ev_digest :: string
  ev_verifier_id :: string
  ev_profile :: string
  ev_detail_digest :: string
  ev_verified_at :: int

text \<open>A plan row carries the idempotency key of its Effect, as the code's join does.\<close>

record evidence_artifact_row =
  ea_digest :: string
  ea_media_type :: string
  ea_profile :: string
  ea_issuer :: "string option"
  ea_byte_length :: int
  ea_storage_ref :: string
  ea_created_at :: int

datatype admission_intent_state =
    Adm_offered | Adm_staged | Adm_committed | Adm_cancelled | Adm_expired | Adm_failed_terminal

record admission_intent_row =
  am_admission_id :: string
  am_purchase_id :: string
  am_request_key :: string
  am_resource_url :: string
  am_method :: string
  am_resource_fingerprint :: string
  am_expected_merchant_id :: "string option"
  am_expected_merchant_origin :: "string option"
  am_evidence_digest :: string
  am_evidence_byte_length :: int
  am_evidence_storage_ref :: string
  am_evidence_media_type :: string
  am_evidence_profile :: string
  am_evidence_issuer :: "string option"
  am_evidence_kind :: string
  am_state :: admission_intent_state
  am_owner :: string
  am_deadline :: int
  am_outcome :: "string option"
  am_created_at :: int
  am_updated_at :: int

datatype admission_resource = Prevalidation_purchase | Evidence_bytes

datatype admission_lease_state =
    AL_offered | AL_admitted | AL_active | AL_completed | AL_cancelled | AL_expired
  | AL_failed_terminal

record admission_lease_row =
  al_id :: string
  al_owner :: string
  al_resource :: admission_resource
  al_purchase_id :: "string option"
  al_digest :: "string option"
  al_storage_ref :: "string option"
  al_quantity :: int
  al_state :: admission_lease_state
  al_deadline :: "int option"
  al_outcome :: "string option"
  al_created_at :: int
  al_updated_at :: int

record admission_budget_row =
  ab_purchase_limit :: int
  ab_evidence_limit :: int
  ab_retry_limit :: int
  ab_reserved_purchases :: int
  ab_reserved_bytes :: int
  ab_committed_bytes :: int
  ab_updated_at :: int

record recovery_plan_row =
  rp_effect_id :: string
  rp_purchase_id :: string
  rp_attempt :: int
  rp_reservation_id :: string
  rp_staging_effect_id :: string
  rp_payload_digest :: string
  rp_prepared_ref :: string
  rp_prepared_byte_length :: int
  rp_exact_transaction_id :: "string option"
  rp_recovery_transaction_id :: string
  rp_recovery_outpoint :: string
  rp_recovery_amount :: string
  rp_staging_fee :: string
  rp_recovery_fee :: string
  rp_cost_ceiling :: string
  rp_required_finality :: string
  rp_created_at :: int

datatype recovery_status =
    Rec_safe_to_submit | Rec_pending | Rec_exact_payment_won | Rec_recovery_won | Rec_conflict

record recovery_observation_row =
  ro_effect_id :: string
  ro_status :: recovery_status
  ro_evidence_digest :: string
  ro_readiness_proof :: "string option"
  ro_readiness_observed_at :: "int option"
  ro_readiness_expires_at :: "int option"
  ro_winning_transaction_id :: "string option"
  ro_winning_finality :: "string option"
  ro_recovery_outpoint :: "string option"
  ro_recovery_amount :: "string option"
  ro_conflict_reason :: "string option"
  ro_lease_name :: string
  ro_lease_generation :: nat
  ro_observed_at :: int

record staging_plan_row =
  sp_effect_id :: string
  sp_purchase_id :: string
  sp_attempt :: int
  sp_reservation_id :: string
  sp_idempotency_key :: string
  sp_payload_digest :: string
  sp_prepared_ref :: string
  sp_prepared_byte_length :: int
  sp_planned_transaction_id :: string
  sp_expected_outpoint :: string
  sp_staging_amount :: string
  sp_funding_source :: string
  sp_created_at :: int

record staging_observation_row =
  so_effect_id :: string
  so_purchase_id :: string
  so_attempt :: int
  so_reservation_id :: string
  so_transaction_id :: string
  so_outpoint :: string
  so_staging_amount :: string
  so_funding_source :: string
  so_evidence_digest :: string
  so_evidence_profile :: string
  so_evidence_verifier :: string
  so_observed_at :: int

record reconciliation_row =
  rr_purchase_id :: string
  rr_effect_id :: "string option"
  rr_outcome :: string
  rr_detail :: "string option"
  rr_lease_name :: string
  rr_lease_generation :: nat
  rr_created_at :: int

section \<open>Batch Treasury Movements\<close>

datatype movement_kind = Mov_deposit | Mov_topup | Mov_voucher | Mov_claim | Mov_refund

record movement_row =
  mv_id :: string
  mv_channel_id :: string
  mv_purchase_id :: "string option"
  mv_kind :: movement_kind
  mv_state :: movement_state
  mv_request_digest :: string
  mv_txid_before :: "string option"
  mv_index_before :: "int option"
  mv_txid_after :: "string option"
  mv_index_after :: "int option"
  mv_maximum_authorized :: "string option"
  mv_actual_charge :: "string option"
  mv_voucher_ceiling :: "string option"
  mv_transaction_id :: "string option"
  mv_prepared_digest :: "string option"
  mv_evidence_digest :: "string option"
  mv_created_at :: int
  mv_updated_at :: int

section \<open>Transfers\<close>

datatype transfer_decision = Transfer_approved | Transfer_denied

record transfer_row =
  tf_id :: string
  tf_request_key :: string
  tf_request_digest :: string
  tf_state :: transfer_state
  tf_destination :: string
  tf_amount :: string
  tf_asset :: string
  tf_network :: string
  tf_source_vault_address :: string
  tf_source_vault_digest :: string
  tf_fee_ceiling :: string
  tf_maximum_total :: string
  tf_expires_at :: int
  tf_policy_digest :: string
  tf_manifest_revision :: int
  tf_manifest_digest :: string
  tf_finality_floor :: finality_floor
  tf_treasury_operation_key :: "string option"
  tf_transaction_id :: "string option"
  tf_actual_fee :: "string option"
  tf_failure_code :: "string option"
  tf_version :: nat
  tf_created_at :: int
  tf_updated_at :: int

record transfer_transition_row =
  tt_transfer_id :: string
  tt_from :: "transfer_state option"
  tt_to :: transfer_state
  tt_reason :: string
  tt_detail :: "string option"
  tt_created_at :: int

record transfer_authorization_row =
  ta_transfer_id :: string
  ta_facts_json :: string
  ta_facts_digest :: string
  ta_decision :: transfer_decision
  ta_authority_id :: string
  ta_denial_code :: "string option"
  ta_evidence :: string
  ta_evidence_digest :: string
  ta_verification_profile :: string
  ta_verifier_id :: string
  ta_decided_at :: int
  ta_expires_at :: int

section \<open>The journal\<close>

record journal =
  policies :: "policy_snapshot list"
  active :: "active_policy option"
  reservations :: "reservation_row list"
  settlements :: "settlement_row list"
  recoveries :: "recovery_accounting_row list"
  operations :: "treasury_operation_row list"
  operation_log :: "operation_transition_row list"
  operation_observations :: "operation_observation_row list"
  leases :: "lease_row list"
  effects :: "effect_row list"
  effect_log :: "effect_transition_row list"
  effect_observations :: "effect_observation_row list"
  attempts :: "attempt_row list"
  attempt_log :: "attempt_transition_row list"
  preparations :: "preparation_row list"
  purchases :: "purchase_row list"
  purchase_log :: "purchase_transition_row list"
  checkout_terms :: "checkout_terms_row list"
  authorization_requests :: "authorization_request_row list"
  authorizations :: "authorization_row list"
  artifacts :: "evidence_artifact_row list"
  evidence_links :: "evidence_link_row list"
  evidence_verifications :: "evidence_verification_row list"
  staging_plans :: "staging_plan_row list"
  staging_observations :: "staging_observation_row list"
  execution_plans :: "execution_plan_row list"
  fulfilments :: "fulfilment_row list"
  receipts :: "receipt_row list"
  reconciliation_runs :: "reconciliation_row list"
  movements :: "movement_row list"
  transfers :: "transfer_row list"
  transfer_log :: "transfer_transition_row list"
  transfer_authorizations :: "transfer_authorization_row list"
  recovery_plans :: "recovery_plan_row list"
  recovery_observations :: "recovery_observation_row list"
  budget :: "admission_budget_row option"
  admission_leases :: "admission_lease_row list"
  admission_intents :: "admission_intent_row list"

text \<open>A freshly created database.\<close>

definition empty_journal :: journal where
  "empty_journal =
     \<lparr> policies = [], active = None, reservations = [], settlements = [], recoveries = [],
       operations = [], operation_log = [], operation_observations = [], leases = [],
       effects = [], effect_log = [], effect_observations = [], attempts = [],
       attempt_log = [], preparations = [], purchases = [], purchase_log = [],
       checkout_terms = [], authorization_requests = [], authorizations = [],
       artifacts = [], evidence_links = [], evidence_verifications = [], staging_plans = [],
       staging_observations = [], execution_plans = [], fulfilments = [], receipts = [],
       reconciliation_runs = [], movements = [], transfers = [], transfer_log = [],
       transfer_authorizations = [], recovery_plans = [], recovery_observations = [],
       budget = None, admission_leases = [], admission_intents = [] \<rparr>"

text \<open>\<open>this.timestamp()\<close>: a clock reading, rejected when it is not a safe non-negative integer.\<close>

definition timestamp :: "int \<Rightarrow> int result" where
  "timestamp v = (if \<not> is_safe_integer v \<or> v < 0 then Inl JournalInvariantError else Inr v)"

lemma timestamp_eq_Inr [simp]: "timestamp v = Inr t \<longleftrightarrow> t = v \<and> 0 \<le> v \<and> is_safe_integer v"
  by (auto simp: timestamp_def)

definition HOUR :: int where
  "HOUR = 60 * 60 * 1000"

end
