(* ===== verification/Leases.thy ===== *)
theory Leases
  imports Journal_State Fencing
begin

text \<open>
  The named leases of \<open>src/purchase/journal.ts\<close> that fence the writers of Effects and of the
  reconciliation: \<open>acquireLease\<close>, \<open>renewLease\<close>, \<open>releaseLease\<close> and the assertions on a token.
  They interpret the contract of \<open>Fencing\<close>.
\<close>

definition validateLeaseFields :: "string \<Rightarrow> string \<Rightarrow> int \<Rightarrow> unit result" where
  "validateLeaseFields name holder ttlMs =
     rbind (assertSafeIdentity name 300) (\<lambda>_.
     rbind (assertSafeIdentity holder 200) (\<lambda>_.
       if \<not> is_safe_integer ttlMs \<or> ttlMs \<le> 0 then Inl JournalInvariantError else Inr ()))"

definition find_lease :: "journal \<Rightarrow> string \<Rightarrow> lease_row option" where
  "find_lease J name = find_row (\<lambda>r. ls_name r = name) (leases J)"

definition acquireLeaseInternal ::
  "journal \<Rightarrow> string \<Rightarrow> string \<Rightarrow> int \<Rightarrow> int \<Rightarrow> (journal \<times> lease_token option) result" where
  "acquireLeaseInternal J name holder ttlMs now =
     rbind (validateLeaseFields name holder ttlMs) (\<lambda>_.
     rbind (safeExpiry now ttlMs) (\<lambda>expiresAtMs.
     case find_lease J name of
       None \<Rightarrow>
         Inr (J\<lparr>leases := leases J @
                [\<lparr>ls_name = name, ls_holder = holder, ls_generation = 1,
                  ls_expires_at = expiresAtMs, ls_updated_at = now\<rparr>]\<rparr>,
              Some \<lparr>lt_name = name, lt_holder = holder, lt_generation = 1,
                    lt_expires_at = expiresAtMs\<rparr>)
     | Some row \<Rightarrow>
         if ls_expires_at row > now then Inr (J, None)
         else
           let generation = ls_generation row + 1;
               here = (\<lambda>r. ls_name r = name \<and> ls_generation r = ls_generation row
                           \<and> ls_expires_at r = ls_expires_at row)
           in if changes here (leases J) \<noteq> 1 then Inl JournalFencingError
              else Inr (J\<lparr>leases := update_rows here
                           (\<lambda>r. r\<lparr>ls_holder := holder, ls_generation := generation,
                                  ls_expires_at := expiresAtMs, ls_updated_at := now\<rparr>)
                           (leases J)\<rparr>,
                        Some \<lparr>lt_name = name, lt_holder = holder, lt_generation = generation,
                              lt_expires_at = expiresAtMs\<rparr>)))"

definition acquireLease ::
  "journal \<Rightarrow> string \<Rightarrow> string \<Rightarrow> int \<Rightarrow> int \<Rightarrow> (journal \<times> lease_token option) result" where
  "acquireLease J name holder ttlMs clock =
     rbind (timestamp clock) (\<lambda>now. acquireLeaseInternal J name holder ttlMs now)"

definition assertLeaseInternal :: "journal \<Rightarrow> lease_token \<Rightarrow> int \<Rightarrow> unit result" where
  "assertLeaseInternal J token now =
     (case find_lease J (lt_name token) of
        None \<Rightarrow> Inl JournalFencingError
      | Some row \<Rightarrow>
          if ls_holder row \<noteq> lt_holder token \<or> ls_generation row \<noteq> lt_generation token
             \<or> ls_expires_at row \<le> now
          then Inl JournalFencingError else Inr ())"

definition token_row :: "lease_token \<Rightarrow> int \<Rightarrow> lease_row \<Rightarrow> bool" where
  "token_row token now r \<longleftrightarrow>
     ls_name r = lt_name token \<and> ls_holder r = lt_holder token
     \<and> ls_generation r = lt_generation token \<and> ls_expires_at r > now"

definition renewLease ::
  "journal \<Rightarrow> lease_token \<Rightarrow> int \<Rightarrow> int \<Rightarrow> (journal \<times> lease_token) result" where
  "renewLease J token ttlMs clock =
     rbind (validateLeaseFields (lt_name token) (lt_holder token) ttlMs) (\<lambda>_.
     rbind (timestamp clock) (\<lambda>now.
     rbind (assertLeaseInternal J token now) (\<lambda>_.
     rbind (safeExpiry now ttlMs) (\<lambda>expiresAtMs.
       if changes (token_row token now) (leases J) \<noteq> 1 then Inl JournalFencingError
       else Inr (J\<lparr>leases := update_rows (token_row token now)
                    (\<lambda>r. r\<lparr>ls_expires_at := expiresAtMs, ls_updated_at := now\<rparr>) (leases J)\<rparr>,
                 token\<lparr>lt_expires_at := expiresAtMs\<rparr>)))))"

definition releaseLease :: "journal \<Rightarrow> lease_token \<Rightarrow> int \<Rightarrow> (journal \<times> bool) result" where
  "releaseLease J token clock =
     rbind (timestamp clock) (\<lambda>now.
       Inr (J\<lparr>leases := update_rows (token_row token now)
               (\<lambda>r. r\<lparr>ls_expires_at := now, ls_updated_at := now\<rparr>) (leases J)\<rparr>,
            changes (token_row token now) (leases J) = 1))"

definition assertRecoveryLease :: "journal \<Rightarrow> lease_token \<Rightarrow> string option \<Rightarrow> int \<Rightarrow> unit result"
where
  "assertRecoveryLease J token purchaseId clock =
     (if lt_name token \<noteq> ''purchase-reconciliation''
         \<and> (case purchaseId of None \<Rightarrow> True
            | Some p \<Rightarrow> lt_name token \<noteq> ''purchase-reconciliation:'' @ p)
      then Inl JournalFencingError
      else rbind (timestamp clock) (\<lambda>now. assertLeaseInternal J token now))"

section \<open>The contract\<close>

definition lease_generation :: "journal \<Rightarrow> string \<Rightarrow> int" where
  "lease_generation J name = (case find_lease J name of None \<Rightarrow> 0 | Some r \<Rightarrow> int (ls_generation r))"

definition lease_holds :: "journal \<Rightarrow> string \<Rightarrow> string \<Rightarrow> int \<Rightarrow> int \<Rightarrow> bool" where
  "lease_holds J name holder generation now \<longleftrightarrow>
     (case find_lease J name of None \<Rightarrow> False
      | Some r \<Rightarrow> ls_holder r = holder \<and> int (ls_generation r) = generation \<and> now < ls_expires_at r)"

lemma assertLeaseInternal_holds:
  "assertLeaseInternal J token now = Inr ()
     \<longleftrightarrow> lease_holds J (lt_name token) (lt_holder token) (int (lt_generation token)) now"
  by (auto simp: assertLeaseInternal_def lease_holds_def split: option.splits)

definition leases_ok :: "journal \<Rightarrow> bool" where
  "leases_ok J \<longleftrightarrow>
     distinct (map ls_name (leases J)) \<and> (\<forall>r \<in> set (leases J). 1 \<le> ls_generation r)"

inductive lease_step :: "journal \<Rightarrow> journal \<Rightarrow> bool" where
  lease_acquired: "acquireLease J name holder ttl clock = Inr (J', token) \<Longrightarrow> lease_step J J'"
| lease_renewed: "renewLease J token ttl clock = Inr (J', token') \<Longrightarrow> lease_step J J'"
| lease_released: "releaseLease J token clock = Inr (J', released) \<Longrightarrow> lease_step J J'"
| lease_untouched: "leases J' = leases J \<Longrightarrow> lease_step J J'"

lemma find_lease_update:
  assumes "\<And>r. ls_name (f r) = ls_name r"
  shows "find_lease (J\<lparr>leases := update_rows p f (leases J)\<rparr>) name
           = map_option (\<lambda>r. if p r then f r else r) (find_lease J name)"
  using assms by (simp add: find_lease_def find_row_update_rows)

lemma acquire_cases:
  assumes "acquireLeaseInternal J name holder ttl now = Inr (J', token)"
  obtains (fresh) "find_lease J name = None" and "now < now + ttl"
      "J' = J\<lparr>leases := leases J @ [\<lparr>ls_name = name, ls_holder = holder, ls_generation = 1,
               ls_expires_at = now + ttl, ls_updated_at = now\<rparr>]\<rparr>"
      "token = Some \<lparr>lt_name = name, lt_holder = holder, lt_generation = 1,
                     lt_expires_at = now + ttl\<rparr>"
  | (busy) row where "find_lease J name = Some row" and "now < ls_expires_at row" and "J' = J"
      and "token = None"
  | (takeover) row where "find_lease J name = Some row" and "ls_expires_at row \<le> now"
      "J' = J\<lparr>leases := update_rows (\<lambda>r. ls_name r = name \<and> ls_generation r = ls_generation row
                           \<and> ls_expires_at r = ls_expires_at row)
                    (\<lambda>r. r\<lparr>ls_holder := holder, ls_generation := ls_generation row + 1,
                           ls_expires_at := now + ttl, ls_updated_at := now\<rparr>) (leases J)\<rparr>"
      "token = Some \<lparr>lt_name = name, lt_holder = holder, lt_generation = ls_generation row + 1,
                     lt_expires_at = now + ttl\<rparr>"
proof (cases "find_lease J name")
  case None
  with assms show thesis
    by (intro fresh) (auto simp: acquireLeaseInternal_def validateLeaseFields_def safeExpiry_def)
next
  case (Some row)
  show thesis
  proof (cases "now < ls_expires_at row")
    case True
    with assms Some show thesis by (intro busy) (auto simp: acquireLeaseInternal_def)
  next
    case False
    with assms Some show thesis
      by (intro takeover) (auto simp: acquireLeaseInternal_def safeExpiry_def Let_def)
  qed
qed

lemma find_lease_cong: "leases J' = leases J \<Longrightarrow> find_lease J' = find_lease J"
  by (simp add: find_lease_def fun_eq_iff)

lemma find_lease_append:
  "find_lease (J\<lparr>leases := leases J @ [r]\<rparr>) name
     = (case find_lease J name of Some x \<Rightarrow> Some x | None \<Rightarrow> if ls_name r = name then Some r else None)"
  by (simp add: find_lease_def find_row_append split: option.splits)

lemma find_lease_name: "find_lease J name = Some r \<Longrightarrow> ls_name r = name \<and> r \<in> set (leases J)"
  by (auto simp: find_lease_def dest: find_row_SomeD)

text \<open>
  What a step does to one lease, whatever operation it was: the row is left alone, created,
  taken over with the next generation, or only its expiry moves.
\<close>

lemma lease_step_row:
  assumes "lease_step J J'"
  shows "find_lease J' k = find_lease J k
    \<or> find_lease J k = None
    \<or> (\<exists>r r'. find_lease J k = Some r \<and> find_lease J' k = Some r'
         \<and> (ls_generation r' = ls_generation r + 1
            \<or> ls_generation r' = ls_generation r \<and> ls_holder r' = ls_holder r))"
  using assms
proof cases
  case (lease_acquired name holder ttl clock token)
  then obtain now where "acquireLeaseInternal J name holder ttl now = Inr (J', token)"
    by (auto simp: acquireLease_def)
  then show ?thesis
  proof (cases rule: acquire_cases)
    case fresh
    then show ?thesis by (auto simp: find_lease_append split: option.splits)
  next
    case (busy row)
    then show ?thesis by simp
  next
    case (takeover row)
    then show ?thesis by (cases "find_lease J k") (auto simp: find_lease_update)
  qed
next
  case (lease_renewed token ttl clock token')
  then show ?thesis
    by (cases "find_lease J k") (auto simp: renewLease_def find_lease_update)
next
  case (lease_released token clock released)
  then show ?thesis
    by (cases "find_lease J k") (auto simp: releaseLease_def find_lease_update)
next
  case lease_untouched
  then show ?thesis using find_lease_cong [of J' J] by simp
qed

lemma leases_ok_update:
  assumes "leases_ok J" and "\<And>r. ls_name (f r) = ls_name r"
    and "\<And>r. r \<in> set (leases J) \<Longrightarrow> p r \<Longrightarrow> 1 \<le> ls_generation (f r)"
  shows "leases_ok (J\<lparr>leases := update_rows p f (leases J)\<rparr>)"
  using assms by (simp add: leases_ok_def map_key_update_rows ball_update_rows)

lemma lease_step_ok: "leases_ok J \<Longrightarrow> lease_step J J' \<Longrightarrow> leases_ok J'"
proof -
  assume ok: "leases_ok J" and step: "lease_step J J'"
  from step show ?thesis
  proof cases
    case (lease_acquired name holder ttl clock token)
    then obtain now where "acquireLeaseInternal J name holder ttl now = Inr (J', token)"
      by (auto simp: acquireLease_def)
    then show ?thesis
    proof (cases rule: acquire_cases)
      case fresh
      then have "name \<notin> ls_name ` set (leases J)"
        by (auto simp: find_lease_def find_row_None_iff)
      with fresh ok show ?thesis by (auto simp: leases_ok_def)
    next
      case (busy row)
      with ok show ?thesis by simp
    next
      case (takeover row)
      with ok show ?thesis by (simp add: leases_ok_update)
    qed
  next
    case (lease_renewed token ttl clock token')
    with ok show ?thesis by (auto simp: renewLease_def leases_ok_def map_key_update_rows dest!: set_update_rowsD)
  next
    case (lease_released token clock released)
    with ok show ?thesis by (auto simp: releaseLease_def leases_ok_def map_key_update_rows dest!: set_update_rowsD)
  next
    case lease_untouched
    with ok show ?thesis by (simp add: leases_ok_def)
  qed
qed

interpretation journal_lease: fenced_lease lease_generation lease_holds leases_ok lease_step
proof
  fix s s' :: journal and k h h' :: string and g g' t t' :: int
  show "lease_holds s k h g t \<Longrightarrow> lease_holds s k h' g' t' \<Longrightarrow> h = h'"
    by (auto simp: lease_holds_def split: option.splits)
  show "lease_holds s k h g t \<Longrightarrow> g = lease_generation s k"
    by (auto simp: lease_holds_def lease_generation_def split: option.splits)
  show "lease_holds s k h g t \<Longrightarrow> t' \<le> t \<Longrightarrow> lease_holds s k h g t'"
    by (auto simp: lease_holds_def split: option.splits)
  show "leases_ok s \<Longrightarrow> lease_step s s' \<Longrightarrow> leases_ok s'" by (rule lease_step_ok)
  show "leases_ok s \<Longrightarrow> lease_step s s' \<Longrightarrow> lease_generation s k \<le> lease_generation s' k"
    using lease_step_row [of s s' k]
    by (auto simp: lease_generation_def split: option.splits)
  show "leases_ok s \<Longrightarrow> lease_step s s' \<Longrightarrow> lease_holds s k h g t \<Longrightarrow> lease_holds s' k h' g' t'
    \<Longrightarrow> h \<noteq> h' \<Longrightarrow> lease_generation s k < lease_generation s' k"
    using lease_step_row [of s s' k]
    by (auto simp: lease_holds_def lease_generation_def split: option.splits)
qed

text \<open>A live lease refuses every other acquirer; an expired one is handed over.\<close>

lemma acquire_live_refused:
  assumes "lease_holds J name h g now" and "acquireLeaseInternal J name holder ttl now = Inr (J', token)"
  shows "J' = J \<and> token = None"
  using assms(2,1) by (cases rule: acquire_cases) (auto simp: lease_holds_def)

lemma acquire_token_holds:
  assumes "acquireLeaseInternal J name holder ttl now = Inr (J', Some token)"
  shows "lt_name token = name \<and> lt_holder token = holder
    \<and> lease_holds J' name holder (int (lt_generation token)) now
    \<and> lease_generation J name < int (lt_generation token)"
proof -
  have ttl: "0 < ttl"
    using assms by (auto simp: acquireLeaseInternal_def validateLeaseFields_def)
  from assms show ?thesis
  proof (cases rule: acquire_cases)
    case fresh
    with ttl show ?thesis
      by (simp add: lease_holds_def lease_generation_def find_lease_append)
  next
    case (takeover row)
    with ttl show ?thesis
      by (auto simp: lease_holds_def lease_generation_def find_lease_update dest: find_lease_name)
  qed simp
qed

end
