(* ===== verification/Identity.thy ===== *)
theory Identity
  imports Decimals
begin

text \<open>
  Identities (\<open>src/purchase/identity.ts\<close>): the checks of a Purchase identity and a request key,
  and the payment identifier that binds a Payment Attempt to its Purchase. \<open>H\<close> stands for
  SHA-256 in base64url of a byte string. Strings are lists of bytes here, as the code hashes
  the UTF-8 encoding; what it hashes are ASCII identities.
\<close>

definition is_purchase_id :: "string \<Rightarrow> bool" where
  "is_purchase_id s \<longleftrightarrow> tagged ''pur_'' is_base64url 22 s"

definition assertPurchaseId :: "string \<Rightarrow> string result" where
  "assertPurchaseId value = (if is_purchase_id value then Inr value else Inl PlainError)"

definition is_request_key :: "string \<Rightarrow> bool" where
  "is_request_key s \<longleftrightarrow> s \<noteq> [] \<and> length s \<le> 160 \<and> list_all is_key_char s"

definition assertPurchaseRequestKey :: "string \<Rightarrow> string result" where
  "assertPurchaseRequestKey value = (if is_request_key value then Inr value else Inl PlainError)"

text \<open>\<open>writeUInt32BE\<close>\<close>

definition uint32_be :: "nat \<Rightarrow> string" where
  "uint32_be n =
     [char_of (n div 16777216), char_of (n div 65536 mod 256), char_of (n div 256 mod 256),
      char_of (n mod 256)]"

definition appendLengthPrefixed :: "string \<Rightarrow> string \<Rightarrow> string result" where
  "appendLengthPrefixed hashed bytes =
     (if length bytes > 4294967295 then Inl PlainError
      else Inr (hashed @ uint32_be (length bytes) @ bytes))"

fun append_all :: "string \<Rightarrow> string list \<Rightarrow> string result" where
  "append_all hashed [] = Inr hashed"
| "append_all hashed (field # fields) =
     rbind (appendLengthPrefixed hashed field) (\<lambda>h. append_all h fields)"

definition domainDigest :: "(string \<Rightarrow> string) \<Rightarrow> string \<Rightarrow> string list \<Rightarrow> string result" where
  "domainDigest H domain fields =
     rbind (append_all [] (domain # fields)) (\<lambda>hashed. Inr (''sha256:'' @ H hashed))"

definition evidenceDigest :: "(string \<Rightarrow> string) \<Rightarrow> string \<Rightarrow> string" where
  "evidenceDigest H bytes = ''sha256:'' @ H bytes"

definition createPaymentIdentifier ::
  "(string \<Rightarrow> string) \<Rightarrow> string \<Rightarrow> int \<Rightarrow> string result" where
  "createPaymentIdentifier H purchaseId n =
     (if \<not> is_safe_integer n \<or> n < 1 then Inl PlainError
      else rbind (domainDigest H ''sompi:payment-identifier:v1''
                    [purchaseId, nat_to_string (nat n)]) (\<lambda>digest.
           Inr (''pay_'' @ drop (length ''sha256:'') digest)))"

section \<open>What is hashed determines the fields\<close>

lemma char_of_inj_256:
  assumes "m < 256" and "n < 256" and "(char_of m :: char) = char_of n"
  shows "m = (n::nat)"
proof -
  have "(of_char (char_of m :: char) :: nat) = of_char (char_of n :: char)" using assms(3) by simp
  then show ?thesis using assms(1,2) by simp
qed

lemma div_digit:
  assumes "m div (k * 256) = n div (k * 256)" and "m div k mod 256 = n div k mod (256::nat)"
  shows "m div k = n div k"
proof -
  have "m div k = m div k div 256 * 256 + m div k mod 256" by simp
  also have "\<dots> = n div k div 256 * 256 + n div k mod 256"
    using assms by (simp add: div_mult2_eq)
  finally show ?thesis by simp
qed

lemma uint32_be_inj:
  assumes "m \<le> 4294967295" and "n \<le> 4294967295" and "uint32_be m = uint32_be n"
  shows "m = n"
proof -
  have bytes: "(char_of (m div 16777216) :: char) = char_of (n div 16777216)"
    "(char_of (m div 65536 mod 256) :: char) = char_of (n div 65536 mod 256)"
    "(char_of (m div 256 mod 256) :: char) = char_of (n div 256 mod 256)"
    "(char_of (m mod 256) :: char) = char_of (n mod 256)"
    using assms(3) unfolding uint32_be_def by (simp_all only: list.inject)
  have top: "m div 16777216 < 256" "n div 16777216 < 256" using assms(1,2) by linarith+
  have "m div 16777216 = n div 16777216" using char_of_inj_256 top bytes(1) by blast
  moreover have "m div 65536 mod 256 = n div 65536 mod 256"
    using char_of_inj_256 [OF _ _ bytes(2)] by simp
  ultimately have "m div 65536 = n div 65536" using div_digit [of m 65536 n] by simp
  moreover have "m div 256 mod 256 = n div 256 mod 256"
    using char_of_inj_256 [OF _ _ bytes(3)] by simp
  ultimately have "m div 256 = n div 256" using div_digit [of m 256 n] by simp
  moreover have "m mod 256 = n mod 256"
    using char_of_inj_256 [OF _ _ bytes(4)] by simp
  ultimately show ?thesis using div_digit [of m 1 n] by simp
qed

text \<open>The text that is hashed, when every field fits.\<close>

definition prefixed :: "string list \<Rightarrow> string" where
  "prefixed fields = concat (map (\<lambda>f. uint32_be (length f) @ f) fields)"

lemma append_all_eq:
  "append_all h fields = Inr x \<longleftrightarrow>
     x = h @ prefixed fields \<and> (\<forall>f \<in> set fields. length f \<le> 4294967295)"
  by (induction fields arbitrary: h) (auto simp: appendLengthPrefixed_def prefixed_def)

lemma prefixed_Cons: "prefixed (f # fs) = uint32_be (length f) @ f @ prefixed fs"
  by (simp add: prefixed_def)

lemma prefixed_inj:
  assumes "prefixed fs = prefixed gs"
    and "\<forall>f \<in> set fs. length f \<le> 4294967295" and "\<forall>g \<in> set gs. length g \<le> 4294967295"
  shows "fs = gs"
  using assms
proof (induction fs arbitrary: gs)
  case Nil
  then show ?case by (cases gs) (auto simp: prefixed_def uint32_be_def)
next
  case (Cons f fs)
  then obtain g gs' where gs: "gs = g # gs'"
    by (cases gs) (auto simp: prefixed_def uint32_be_def)
  have "length (uint32_be (length f)) = length (uint32_be (length g))"
    by (simp add: uint32_be_def)
  with Cons.prems(1) have "uint32_be (length f) = uint32_be (length g)"
    and rest: "f @ prefixed fs = g @ prefixed gs'"
    unfolding gs prefixed_Cons by (auto simp: append_eq_append_conv)
  then have "length f = length g" using uint32_be_inj Cons.prems gs by auto
  with rest have "f = g" "prefixed fs = prefixed gs'" by simp_all
  then show ?case using Cons gs by auto
qed

text \<open>Two texts the hash does not tell apart.\<close>

definition collision :: "(string \<Rightarrow> string) \<Rightarrow> string \<Rightarrow> string \<Rightarrow> bool" where
  "collision H x y \<longleftrightarrow> x \<noteq> y \<and> H x = H y"

text \<open>
  Equal identifiers are of the same Purchase and attempt, or what was hashed is a collision.
\<close>

lemma payment_identifier_collision:
  assumes "createPaymentIdentifier H p m = Inr i" and "createPaymentIdentifier H q n = Inr i"
  shows "(p = q \<and> m = n)
    \<or> collision H (prefixed [''sompi:payment-identifier:v1'', p, nat_to_string (nat m)])
        (prefixed [''sompi:payment-identifier:v1'', q, nat_to_string (nat n)])"
proof -
  let ?d = "''sompi:payment-identifier:v1''"
  let ?x = "[?d, p, nat_to_string (nat m)]" and ?y = "[?d, q, nat_to_string (nat n)]"
  from assms have H: "H (prefixed ?x) = H (prefixed ?y)"
    and small: "\<forall>f \<in> set ?x. length f \<le> 4294967295" "\<forall>f \<in> set ?y. length f \<le> 4294967295"
    and pos: "1 \<le> m" "1 \<le> n"
    unfolding createPaymentIdentifier_def domainDigest_def
    by (auto simp only: rbind_eq_Inr append_all_eq if_Inl_eq_Inr append_Nil sum.inject append_eq_conv_conj
        not_less length_append)
  show ?thesis
  proof (cases "prefixed ?x = prefixed ?y")
    case True
    then have "?x = ?y" by (rule prefixed_inj) (use small in simp_all)
    with pos show ?thesis by (simp add: nat_eq_iff)
  next
    case False
    with H show ?thesis unfolding collision_def by blast
  qed
qed

end
