(* ===== verification/Json.thy ===== *)
theory Json
  imports Identity
begin

text \<open>
  JSON as the code writes it: \<open>JSON.stringify\<close> of plain data, in insertion order, and the
  deterministic serializer of \<open>src/purchase/canonical-json.ts\<close>, which sorts the keys and rejects
  what is not JSON data. Numbers are the integers the code serializes; strings are bytes, as
  elsewhere. What a text determines is proved once, so that a digest of a JSON text binds the
  value behind it.
\<close>

section \<open>Strings\<close>

definition hex_char :: "nat \<Rightarrow> char" where
  "hex_char d = (if d < 10 then char_of (48 + d) else char_of (87 + d))"

text \<open>\<open>JSON.stringify\<close> escapes the quote, the backslash and the control characters.\<close>

definition json_char :: "char \<Rightarrow> string" where
  "json_char c =
     (let n = code_unit c in
      if c = CHR 0x22 \<or> c = CHR 0x5C then [CHR 0x5C, c]
      else if n = 8 then [CHR 0x5C, CHR ''b'']
      else if n = 9 then [CHR 0x5C, CHR ''t'']
      else if n = 10 then [CHR 0x5C, CHR ''n'']
      else if n = 12 then [CHR 0x5C, CHR ''f'']
      else if n = 13 then [CHR 0x5C, CHR ''r'']
      else if n < 32 then CHR 0x5C # ''u00'' @ [hex_char (n div 16), hex_char (n mod 16)]
      else [c])"

fun json_body :: "string \<Rightarrow> string" where
  "json_body [] = []"
| "json_body (c # s) = json_char c @ json_body s"

definition json_quote :: "string \<Rightarrow> string" where
  "json_quote s = CHR 0x22 # json_body s @ [CHR 0x22]"

lemma hex_char_inj: "a < 16 \<Longrightarrow> b < 16 \<Longrightarrow> hex_char a = hex_char b \<Longrightarrow> a = b"
  using char_of_inj_256 [of "48 + a" "48 + b"] char_of_inj_256 [of "48 + a" "87 + b"]
    char_of_inj_256 [of "87 + a" "48 + b"] char_of_inj_256 [of "87 + a" "87 + b"]
  by (auto simp: hex_char_def split: if_splits)

lemma code_unit_inj: "code_unit c = code_unit d \<Longrightarrow> c = d"
  by (simp add: code_unit_def)

lemma json_char_cases:
  obtains (plain) "json_char c = [c]" "c \<noteq> CHR 0x5C"
  | (short) e where "json_char c = [CHR 0x5C, e]" "e \<noteq> CHR ''u''"
      "code_unit c = (if e = CHR ''b'' then 8 else if e = CHR ''t'' then 9
        else if e = CHR ''n'' then 10 else if e = CHR ''f'' then 12
        else if e = CHR ''r'' then 13 else code_unit e)"
  | (hex) "json_char c = CHR 0x5C # ''u00'' @ [hex_char (code_unit c div 16), hex_char (code_unit c mod 16)]"
      "code_unit c < 32"
proof -
  consider "c = CHR 0x22" | "c = CHR 0x5C" | "code_unit c \<in> {8, 9, 10, 12, 13}"
    | "c \<noteq> CHR 0x22" "c \<noteq> CHR 0x5C" "code_unit c \<notin> {8, 9, 10, 12, 13}" by blast
  then show thesis
  proof cases
    case 1
    then show thesis by (intro short [of "CHR 0x22"]) (simp_all add: json_char_def)
  next
    case 2
    then show thesis by (intro short [of "CHR 0x5C"]) (simp_all add: json_char_def)
  next
    case 3
    then have "c \<noteq> CHR 0x22" "c \<noteq> CHR 0x5C" by (auto simp: code_unit_def)
    with 3 show thesis
      using short [of "CHR ''b''"] short [of "CHR ''t''"] short [of "CHR ''n''"]
        short [of "CHR ''f''"] short [of "CHR ''r''"]
      by (auto simp: json_char_def)
  next
    case 4
    then show thesis using plain hex by (cases "code_unit c < 32") (auto simp: json_char_def Let_def)
  qed
qed

lemma json_char_cancel:
  assumes "json_char c @ s = json_char d @ s'"
  shows "c = d \<and> s = s'"
proof -
  have hex: "code_unit c = code_unit d"
    if "hex_char (code_unit c div 16) = hex_char (code_unit d div 16)"
      "hex_char (code_unit c mod 16) = hex_char (code_unit d mod 16)"
      "code_unit c < 32" "code_unit d < 32"
  proof -
    have "code_unit c div 16 = code_unit d div 16" "code_unit c mod 16 = code_unit d mod 16"
      using hex_char_inj that by (simp_all add: less_mult_imp_div_less)
    then show ?thesis by (metis mult_div_mod_eq)
  qed
  have "code_unit c = code_unit d \<and> s = s'"
    by (cases c rule: json_char_cases; cases d rule: json_char_cases)
      (use assms hex in \<open>auto simp del: One_nat_def\<close>)
  then show ?thesis using code_unit_inj by blast
qed

lemma json_char_nonempty: "json_char c \<noteq> [] \<and> hd (json_char c) \<noteq> CHR 0x22"
  by (auto simp: json_char_def Let_def)

lemma json_body_cancel:
  "json_body s @ CHR 0x22 # r = json_body s' @ CHR 0x22 # r' \<Longrightarrow> s = s' \<and> r = r'"
proof (induction s arbitrary: s')
  case Nil
  show ?case
  proof (cases s')
    case (Cons d t)
    then show ?thesis using Nil json_char_nonempty [of d] by (cases "json_char d") auto
  qed (use Nil in simp)
next
  case (Cons c s)
  show ?case
  proof (cases s')
    case Nil
    then show ?thesis using Cons.prems json_char_nonempty [of c] by (cases "json_char c") auto
  next
    case (Cons d t)
    then have "json_char c @ (json_body s @ CHR 0x22 # r) = json_char d @ (json_body t @ CHR 0x22 # r')"
      using Cons.prems by simp
    from json_char_cancel [OF this] show ?thesis using Cons.IH Cons by blast
  qed
qed

lemma json_quote_cancel: "json_quote s @ r = json_quote s' @ r' \<Longrightarrow> s = s' \<and> r = r'"
  using json_body_cancel [of s r s' r'] by (simp add: json_quote_def)

lemma json_quote_head: "json_quote s = CHR 0x22 # tl (json_quote s)"
  by (simp add: json_quote_def)

section \<open>Values\<close>

datatype json =
    J_null
  | J_bool bool
  | J_int int
  | J_string string
  | J_array "json list"
  | J_object "(string \<times> json) list"

definition int_text :: "int \<Rightarrow> string" where
  "int_text i = (if i < 0 then CHR ''-'' # nat_to_string (nat (- i)) else nat_to_string (nat i))"

text \<open>\<open>JSON.stringify\<close> of plain data\<close>

fun json_text :: "json \<Rightarrow> string"
  and json_items :: "json list \<Rightarrow> string"
  and json_fields :: "(string \<times> json) list \<Rightarrow> string"
where
  "json_text J_null = ''null''"
| "json_text (J_bool b) = (if b then ''true'' else ''false'')"
| "json_text (J_int i) = int_text i"
| "json_text (J_string s) = json_quote s"
| "json_text (J_array xs) = CHR ''['' # json_items xs"
| "json_text (J_object fs) = CHR ''{'' # json_fields fs"
| "json_items [] = '']''"
| "json_items (x # xs) = json_text x @ (if xs = [] then [] else '','') @ json_items xs"
| "json_fields [] = ''}''"
| "json_fields ((k, x) # fs) =
     json_quote k @ '':'' @ json_text x @ (if fs = [] then [] else '','') @ json_fields fs"

text \<open>What may follow a value inside a text.\<close>

definition delimited :: "string \<Rightarrow> bool" where
  "delimited r \<longleftrightarrow> r = [] \<or> hd r \<in> {CHR '','', CHR '']'', CHR ''}''}"

lemma delimited_simps [simp]:
  "delimited []" "delimited (CHR '','' # r)" "delimited (CHR '']'' # r)" "delimited (CHR ''}'' # r)"
  by (simp_all add: delimited_def)

lemma digits_cancel:
  assumes "list_all is_digit a" and "list_all is_digit b" and "delimited r" and "delimited r'"
    and "a @ r = b @ r'"
  shows "a = b \<and> r = r'"
proof -
  have span: "takeWhile is_digit (s @ q) = s" if "list_all is_digit s" "delimited q" for s q
  proof -
    have "q = [] \<or> \<not> is_digit (hd q)"
      using that(2) by (auto simp: delimited_def is_digit_def in_range_def code_unit_def)
    then have "takeWhile is_digit q = []" by (cases q) auto
    moreover have "takeWhile is_digit (s @ q) = s @ takeWhile is_digit q"
      using that(1) by (intro takeWhile_append2) (auto simp: list_all_iff)
    ultimately show ?thesis by simp
  qed
  have "a = b" using span [OF assms(1,3)] span [OF assms(2,4)] assms(5) by simp
  then show ?thesis using assms(5) by simp
qed

lemma nat_to_string_hd_digit: "is_digit (hd (nat_to_string n))"
  using nat_to_string_digits [of n] nat_to_string_nonempty [of n]
  by (cases "nat_to_string n") auto

lemma int_text_cancel:
  assumes "delimited r" and "delimited r'" and "int_text i @ r = int_text j @ r'"
  shows "i = j \<and> r = r'"
proof -
  have minus: "hd (nat_to_string n @ q) \<noteq> CHR ''-''" for n q
    using nat_to_string_hd_digit [of n] nat_to_string_nonempty [of n]
    by (auto simp: hd_append is_digit_def in_range_def code_unit_def)
  have eq: "nat_to_string m = nat_to_string n \<and> r = r'" if "nat_to_string m @ r = nat_to_string n @ r'" for m n
    using digits_cancel [OF _ _ assms(1,2) that] by simp
  show ?thesis
  proof (cases "i < 0"; cases "j < 0")
    assume "i < 0" "j < 0"
    then show ?thesis using assms(3) eq [of "nat (- i)" "nat (- j)"]
      by (auto simp: int_text_def)
  next
    assume "\<not> i < 0" "\<not> j < 0"
    then show ?thesis using assms(3) eq [of "nat i" "nat j"] by (auto simp: int_text_def)
  next
    assume c: "i < 0" "\<not> j < 0"
    then have "hd (nat_to_string (nat j) @ r') = CHR ''-''"
      using arg_cong [OF assms(3), of hd] by (simp add: int_text_def)
    then show ?thesis using minus by blast
  next
    assume c: "\<not> i < 0" "j < 0"
    then have "hd (nat_to_string (nat i) @ r) = CHR ''-''"
      using arg_cong [OF assms(3), of hd] by (simp add: int_text_def)
    then show ?thesis using minus by blast
  qed
qed

text \<open>The first character tells the constructor.\<close>

fun json_kind :: "json \<Rightarrow> nat" where
  "json_kind J_null = 0"
| "json_kind (J_bool b) = (if b then 1 else 2)"
| "json_kind (J_int i) = 3"
| "json_kind (J_string s) = 4"
| "json_kind (J_array xs) = 5"
| "json_kind (J_object fs) = 6"

definition kind_of :: "char \<Rightarrow> nat" where
  "kind_of c =
     (if c = CHR ''n'' then 0 else if c = CHR ''t'' then 1 else if c = CHR ''f'' then 2
      else if c = CHR ''-'' \<or> is_digit c then 3 else if c = CHR 0x22 then 4
      else if c = CHR ''['' then 5 else if c = CHR ''{'' then 6 else 7)"

lemma int_text_nonempty [simp]: "int_text i \<noteq> []"
  by (simp add: int_text_def)

lemma json_text_nonempty [simp]: "json_text x \<noteq> []"
  by (cases x) (simp_all add: json_quote_def)

lemma not_digits [simp]:
  "\<not> is_digit (CHR ''n'')" "\<not> is_digit (CHR ''t'')" "\<not> is_digit (CHR ''f'')"
  "\<not> is_digit (CHR 0x22)" "\<not> is_digit (CHR ''['')" "\<not> is_digit (CHR ''{'')"
  "\<not> is_digit (CHR '']'')" "\<not> is_digit (CHR ''}'')" "\<not> is_digit (CHR ''-'')"
  "\<not> is_digit (CHR '','')"
  by (simp_all add: is_digit_def in_range_def code_unit_def)

lemma kind_of_digit: "is_digit c \<Longrightarrow> kind_of c = 3"
  by (cases "c \<in> {CHR ''n'', CHR ''t'', CHR ''f''}") (auto simp: kind_of_def)

lemma kind_of_int: "kind_of (hd (int_text i)) = 3"
proof (cases "i < 0")
  case True
  then show ?thesis by (simp add: int_text_def kind_of_def)
next
  case False
  then show ?thesis using kind_of_digit [OF nat_to_string_hd_digit] by (simp add: int_text_def)
qed

lemma kind_of_text: "kind_of (hd (json_text x @ r)) = json_kind x"
proof (cases x)
  case (J_int i)
  then show ?thesis using kind_of_int by (simp add: hd_append)
qed (simp_all add: json_quote_def kind_of_def)

lemma same_kind: "json_text x @ r = json_text y @ r' \<Longrightarrow> json_kind x = json_kind y"
  using kind_of_text [of x r] kind_of_text [of y r'] by simp

lemma kind_cases:
  "json_kind x = 0 \<Longrightarrow> x = J_null" "json_kind x = 1 \<Longrightarrow> x = J_bool True"
  "json_kind x = 2 \<Longrightarrow> x = J_bool False" "json_kind x = 3 \<Longrightarrow> \<exists>i. x = J_int i"
  "json_kind x = 4 \<Longrightarrow> \<exists>s. x = J_string s" "json_kind x = 5 \<Longrightarrow> \<exists>xs. x = J_array xs"
  "json_kind x = 6 \<Longrightarrow> \<exists>fs. x = J_object fs"
  by (cases x; simp split: if_splits)+

lemma items_head: "hd (json_items xs @ r) \<noteq> CHR '',''"
proof (cases xs)
  case (Cons x ys)
  have "kind_of (CHR '','') = 7" by (simp add: kind_of_def)
  moreover have "json_kind x < 7" by (cases x) auto
  ultimately show ?thesis
    using kind_of_text [of x "(if ys = [] then [] else '','') @ json_items ys @ r"] Cons by auto
qed simp

lemma fields_head: "hd (json_fields fs @ r) \<noteq> CHR '',''"
  by (cases fs) (auto simp: json_quote_def)

lemma no_text_closes: "json_text x @ r \<noteq> CHR '']'' # q"
proof
  assume "json_text x @ r = CHR '']'' # q"
  then have "json_kind x = kind_of (CHR '']'')" using kind_of_text [of x r] by simp
  moreover have "kind_of (CHR '']'') = 7" by (simp add: kind_of_def)
  moreover have "json_kind x < 7" by (cases x) auto
  ultimately show False by simp
qed

lemma separator_cancel:
  assumes "(if xs = [] then [] else '','') @ a = (if ys = [] then [] else '','') @ b"
    and "hd a \<noteq> CHR '',''" and "hd b \<noteq> CHR '',''"
  shows "a = b"
proof -
  from assms(1) consider "a = b" | "a = CHR '','' # b" | "CHR '','' # a = b"
    by (cases "xs = []"; cases "ys = []") auto
  then show ?thesis using assms(2,3) by cases auto
qed

lemma separator_delimited: "delimited ((if xs = [] then [] else '','') @ json_items xs @ r)"
  "delimited ((if fs = [] then [] else '','') @ json_fields fs @ r)"
  by (cases xs; simp) (cases fs; simp)

lemma json_cancel:
  "json_text x @ r = json_text y @ r' \<Longrightarrow> delimited r \<Longrightarrow> delimited r' \<Longrightarrow> x = y \<and> r = r'"
  "json_items xs @ r = json_items ys @ r' \<Longrightarrow> xs = ys \<and> r = r'"
  "json_fields fs @ r = json_fields gs @ r' \<Longrightarrow> fs = gs \<and> r = r'"
proof (induction x and xs and fs arbitrary: y r r' and ys r r' and gs r r'
    rule: json_text_json_items_json_fields.induct)
  case 1
  have y: "y = J_null" using same_kind [OF 1(1)] kind_cases(1) [of y] by simp
  show ?case using 1(1) unfolding y by simp
next
  case (2 b)
  have y: "y = J_bool b"
    using same_kind [OF 2(1)] by (cases b) (simp_all add: kind_cases(2,3) [OF sym])
  show ?case using 2(1) unfolding y by (cases b) simp_all
next
  case (3 i)
  obtain j where y: "y = J_int j" using same_kind [OF 3(1)] kind_cases(4) [of y] by auto
  have "int_text i @ r = int_text j @ r'" using 3(1) unfolding y by (simp only: json_text.simps)
  from int_text_cancel [OF 3(2,3) this] y show ?case by blast
next
  case (4 s)
  obtain t where y: "y = J_string t" using same_kind [OF 4(1)] kind_cases(5) [of y] by auto
  have "json_quote s @ r = json_quote t @ r'" using 4(1) unfolding y by (simp only: json_text.simps)
  from json_quote_cancel [OF this] y show ?case by blast
next
  case (5 xs)
  obtain ys where "y = J_array ys" using same_kind [OF 5(2)] kind_cases(6) [of y] by auto
  with 5(2) 5(1) [of r ys r'] show ?case by simp
next
  case (6 fs)
  obtain gs where "y = J_object gs" using same_kind [OF 6(2)] kind_cases(7) [of y] by auto
  with 6(2) 6(1) [of r gs r'] show ?case by simp
next
  case 7
  show ?case
  proof (cases ys)
    case (Cons y zs)
    then show ?thesis
      using 7 no_text_closes [of y "(if zs = [] then [] else '','') @ json_items zs @ r'" r]
      by simp
  qed (use 7 in simp)
next
  case (8 x xs)
  show ?case
  proof (cases ys)
    case Nil
    then show ?thesis
      using 8(3) no_text_closes [of x "(if xs = [] then [] else '','') @ json_items xs @ r" r']
      by simp
  next
    case (Cons y zs)
    let ?q = "(if xs = [] then [] else '','') @ json_items xs @ r"
    let ?q' = "(if zs = [] then [] else '','') @ json_items zs @ r'"
    have "json_text x @ ?q = json_text y @ ?q'" using 8(3) Cons by simp
    from 8(1) [OF this separator_delimited(1) separator_delimited(1)]
    have e: "x = y" "?q = ?q'" by blast+
    from 8(2) [OF separator_cancel [OF e(2) items_head items_head]] e(1) Cons show ?thesis by simp
  qed
next
  case 9
  then show ?case by (cases gs) (auto simp: json_quote_def)
next
  case (10 k x fs)
  show ?case
  proof (cases gs)
    case Nil
    then show ?thesis using 10(3) by (simp add: json_quote_def)
  next
    case (Cons g hs)
    obtain k' y where g: "g = (k', y)" by force
    let ?q = "(if fs = [] then [] else '','') @ json_fields fs @ r"
    let ?q' = "(if hs = [] then [] else '','') @ json_fields hs @ r'"
    have "json_quote k @ '':'' @ json_text x @ ?q = json_quote k' @ '':'' @ json_text y @ ?q'"
      using 10(3) Cons g by simp
    from json_quote_cancel [OF this] have k: "k = k'" "json_text x @ ?q = json_text y @ ?q'" by auto
    from 10(1) [OF k(2) separator_delimited(2) separator_delimited(2)]
    have e: "x = y" "?q = ?q'" by blast+
    from 10(2) [OF separator_cancel [OF e(2) fields_head fields_head]] e(1) k(1) g Cons
    show ?thesis by simp
  qed
qed

lemma json_text_inj: "json_text x = json_text y \<Longrightarrow> x = y"
  using json_cancel(1) [of x "[]" y "[]"] by simp

end
