(* ===== verification/Policies.thy ===== *)
theory Policies
  imports Journal_State Fencing Json
begin

text \<open>
  The treasury policy of \<open>src/purchase/journal.ts\<close>: immutable snapshots addressed by the
  digest of their canonical JSON, and the activation pointer with its generation
  (\<open>installPolicy\<close>, \<open>activatePolicyIfCurrent\<close>, \<open>requireActivePolicy\<close>). \<open>H\<close> is
  \<open>evidenceDigest\<close>, the SHA-256 of the crypto library.
\<close>

section \<open>Canonical policies\<close>

text \<open>\<open>JSON.stringify\<close> of a canonical policy.\<close>

definition policy_json :: "policy_definition \<Rightarrow> string" where
  "policy_json p =
     json_text (J_object
       [(''maxPerPaymentAtomic'', J_string (pd_max_per_payment p)),
        (''maxPerHourAtomic'', J_string (pd_max_per_hour p)),
        (''allowlist'', J_array (map J_string (pd_allowlist p)))])"

text \<open>The text determines the policy.\<close>

lemma policy_json_inj: "policy_json p = policy_json q \<Longrightarrow> p = q"
proof -
  assume "policy_json p = policy_json q"
  from json_text_inj [OF this [unfolded policy_json_def]]
  have "map J_string (pd_allowlist p) = map J_string (pd_allowlist q)"
    "pd_max_per_payment p = pd_max_per_payment q" "pd_max_per_hour p = pd_max_per_hour q"
    by simp_all
  moreover have "inj J_string" by (simp add: inj_def)
  ultimately show ?thesis by (simp add: inj_map_eq_map)
qed

fun assertAllowlist :: "string list \<Rightarrow> unit result" where
  "assertAllowlist [] = Inr ()"
| "assertAllowlist (payee # rest) = rbind (assertBoundedText payee 300) (\<lambda>_. assertAllowlist rest)"

definition canonicalPolicy :: "policy_definition \<Rightarrow> policy_definition result" where
  "canonicalPolicy definition =
     rbind (decimalBigInt (pd_max_per_payment definition) False) (\<lambda>_.
     rbind (decimalBigInt (pd_max_per_hour definition) False) (\<lambda>_.
     rbind (assertAllowlist (remdups (pd_allowlist definition))) (\<lambda>_.
       Inr \<lparr>pd_max_per_payment = pd_max_per_payment definition,
            pd_max_per_hour = pd_max_per_hour definition,
            pd_allowlist = sort (remdups (pd_allowlist definition))\<rparr>)))"

section \<open>Snapshots and activation\<close>

definition findPolicy :: "journal \<Rightarrow> string \<Rightarrow> policy_snapshot option" where
  "findPolicy J digest = find_row (\<lambda>p. pol_digest p = digest) (policies J)"

definition requirePolicy :: "journal \<Rightarrow> string \<Rightarrow> policy_snapshot result" where
  "requirePolicy J digest =
     (case findPolicy J digest of None \<Rightarrow> Inl JournalNotFoundError | Some p \<Rightarrow> Inr p)"

definition findActivePolicy :: "journal \<Rightarrow> policy_snapshot option" where
  "findActivePolicy J = Option.bind (active J) (\<lambda>a. findPolicy J (act_digest a))"

definition requireActivePolicy :: "journal \<Rightarrow> policy_snapshot result" where
  "requireActivePolicy J =
     (case findActivePolicy J of None \<Rightarrow> Inl PolicyReservationError | Some p \<Rightarrow> Inr p)"

definition requireActivePolicyActivation :: "journal \<Rightarrow> (policy_snapshot \<times> nat) result" where
  "requireActivePolicyActivation J =
     (case active J of
        None \<Rightarrow> Inl PolicyReservationError
      | Some a \<Rightarrow>
          (case findPolicy J (act_digest a) of
             None \<Rightarrow> Inl PolicyReservationError
           | Some p \<Rightarrow>
               if \<not> is_safe_integer (int (act_generation a)) \<or> act_generation a < 1
               then Inl PolicyReservationError
               else Inr (p, act_generation a)))"

text \<open>\<open>COALESCE(MAX(version), 0) + 1\<close>\<close>

definition next_policy_version :: "journal \<Rightarrow> nat" where
  "next_policy_version J = fold max (map pol_version (policies J)) 0 + 1"

definition insert_policy_snapshot ::
  "journal \<Rightarrow> string \<Rightarrow> policy_definition \<Rightarrow> int \<Rightarrow> journal \<times> policy_snapshot" where
  "insert_policy_snapshot J digest canonical now =
     (let snapshot = \<lparr>pol_digest = digest, pol_version = next_policy_version J,
                      pol_max_per_payment = pd_max_per_payment canonical,
                      pol_max_per_hour = pd_max_per_hour canonical,
                      pol_allowlist = pd_allowlist canonical, pol_activated_at = now\<rparr>
      in (J\<lparr>policies := policies J @ [snapshot]\<rparr>, snapshot))"

definition find_or_insert_policy ::
  "journal \<Rightarrow> string \<Rightarrow> policy_definition \<Rightarrow> int \<Rightarrow> journal \<times> policy_snapshot" where
  "find_or_insert_policy J digest canonical now =
     (case findPolicy J digest of
        Some snapshot \<Rightarrow> (J, snapshot)
      | None \<Rightarrow> insert_policy_snapshot J digest canonical now)"

definition installPolicy ::
  "(string \<Rightarrow> string) \<Rightarrow> journal \<Rightarrow> policy_definition \<Rightarrow> int \<Rightarrow> (journal \<times> policy_snapshot) result"
where
  "installPolicy H J definition clock =
     rbind (canonicalPolicy definition) (\<lambda>canonical.
     let digest = H (policy_json canonical) in
     rbind (timestamp clock) (\<lambda>now.
     let (J1, snapshot) = find_or_insert_policy J digest canonical now in
     case active J1 of
       None \<Rightarrow>
         Inr (J1\<lparr>active := Some \<lparr>act_digest = digest, act_updated_at = now, act_generation = 1\<rparr>\<rparr>,
              snapshot)
     | Some current \<Rightarrow>
         if act_digest current \<noteq> digest
         then Inr (J1\<lparr>active := Some \<lparr>act_digest = digest, act_updated_at = now,
                                       act_generation = act_generation current + 1\<rparr>\<rparr>, snapshot)
         else Inr (J1, snapshot)))"

definition activatePolicySnapshotIfCurrent ::
  "(string \<Rightarrow> string) \<Rightarrow> journal \<Rightarrow> string \<Rightarrow> nat \<Rightarrow> policy_definition \<Rightarrow> int
    \<Rightarrow> (journal \<times> policy_snapshot) result" where
  "activatePolicySnapshotIfCurrent H J expectedDigest expectedGeneration canonical clock =
     rbind (requireActivePolicy J) (\<lambda>current.
     rbind (requireActivePolicyActivation J) (\<lambda>activation.
     if pol_digest current \<noteq> expectedDigest \<or> snd activation \<noteq> expectedGeneration
     then Inl PolicyReservationError
     else
       let digest = H (policy_json canonical) in
       rbind (timestamp clock) (\<lambda>now.
       let (J1, snapshot) = find_or_insert_policy J digest canonical now in
       case active J1 of
         None \<Rightarrow> Inl PolicyReservationError
       | Some a \<Rightarrow>
           if \<not> (act_digest a = expectedDigest \<and> act_generation a = expectedGeneration)
           then Inl PolicyReservationError
           else Inr (J1\<lparr>active := Some \<lparr>act_digest = digest, act_updated_at = now,
                                         act_generation = act_generation a + 1\<rparr>\<rparr>,
                     snapshot))))"

definition activatePolicyIfCurrent ::
  "(string \<Rightarrow> string) \<Rightarrow> journal \<Rightarrow> string \<Rightarrow> policy_definition \<Rightarrow> int
    \<Rightarrow> (journal \<times> policy_snapshot) result" where
  "activatePolicyIfCurrent H J expectedDigest definition clock =
     rbind (assertDigest expectedDigest) (\<lambda>_.
     rbind (canonicalPolicy definition) (\<lambda>canonical.
     rbind (requireActivePolicyActivation J) (\<lambda>activation.
       activatePolicySnapshotIfCurrent H J expectedDigest (snd activation) canonical clock)))"

section \<open>What activation guarantees\<close>

definition activation_generation :: "journal \<Rightarrow> nat" where
  "activation_generation J = (case active J of None \<Rightarrow> 0 | Some a \<Rightarrow> act_generation a)"

definition policy_limits_ok :: "policy_snapshot \<Rightarrow> bool" where
  "policy_limits_ok p \<longleftrightarrow>
     canonical_decimal (pol_max_per_payment p) \<and> 0 < BigInt (pol_max_per_payment p)
     \<and> canonical_decimal (pol_max_per_hour p) \<and> 0 < BigInt (pol_max_per_hour p)"

definition policies_ok :: "journal \<Rightarrow> bool" where
  "policies_ok J \<longleftrightarrow>
     distinct (map pol_digest (policies J)) \<and> (\<forall>p \<in> set (policies J). policy_limits_ok p)
     \<and> (\<forall>a. active J = Some a \<longrightarrow> act_digest a \<in> pol_digest ` set (policies J))"

lemma findPolicy_SomeD: "findPolicy J d = Some p \<Longrightarrow> p \<in> set (policies J) \<and> pol_digest p = d"
  by (auto simp: findPolicy_def dest: find_row_SomeD)

lemma findPolicy_None: "findPolicy J d = None \<longleftrightarrow> d \<notin> pol_digest ` set (policies J)"
  by (auto simp: findPolicy_def find_row_None_iff)

lemma canonicalPolicy_limits:
  "canonicalPolicy d = Inr c \<Longrightarrow>
     canonical_decimal (pd_max_per_payment c) \<and> 0 < BigInt (pd_max_per_payment c)
     \<and> canonical_decimal (pd_max_per_hour c) \<and> 0 < BigInt (pd_max_per_hour c)"
  by (auto simp: canonicalPolicy_def)

lemma find_or_insert_policy_facts:
  assumes "find_or_insert_policy J digest c now = (J1, snapshot)"
  shows "active J1 = active J" "pol_digest snapshot = digest" "snapshot \<in> set (policies J1)"
    "set (policies J) \<subseteq> set (policies J1)" "findPolicy J1 digest = Some snapshot"
    "findPolicy J d = Some p \<Longrightarrow> findPolicy J1 d = Some p"
    "policies_ok J \<Longrightarrow> canonicalPolicy def = Inr c \<Longrightarrow> policies_ok J1"
    "J1 = J\<lparr>policies := policies J1\<rparr>"
proof -
  consider (found) "findPolicy J digest = Some snapshot" "J1 = J"
    | (new) "findPolicy J digest = None"
        "J1 = J\<lparr>policies := policies J @ [snapshot]\<rparr>" "pol_digest snapshot = digest"
        "pol_max_per_payment snapshot = pd_max_per_payment c"
        "pol_max_per_hour snapshot = pd_max_per_hour c"
    using assms
    by (cases "findPolicy J digest")
      (auto simp: find_or_insert_policy_def insert_policy_snapshot_def Let_def)
  note cases = this
  show "active J1 = active J" using cases by cases auto
  show "pol_digest snapshot = digest" using cases by cases (auto dest: findPolicy_SomeD)
  show "snapshot \<in> set (policies J1)" using cases by cases (auto dest: findPolicy_SomeD)
  show "set (policies J) \<subseteq> set (policies J1)" using cases by cases auto
  show "findPolicy J1 digest = Some snapshot"
    using cases by cases (auto simp: findPolicy_def find_row_append)
  show "findPolicy J d = Some p \<Longrightarrow> findPolicy J1 d = Some p"
    using cases by cases (auto simp: findPolicy_def find_row_append)
  show "policies_ok J \<Longrightarrow> canonicalPolicy def = Inr c \<Longrightarrow> policies_ok J1"
    using cases
    by cases (auto simp: policies_ok_def policy_limits_ok_def findPolicy_None
              dest: canonicalPolicy_limits)
  show "J1 = J\<lparr>policies := policies J1\<rparr>" using cases by cases auto
qed

lemma installPolicy_inv:
  assumes "installPolicy H J d clock = Inr (J', snapshot)"
  obtains c J1 where "canonicalPolicy d = Inr c"
    "find_or_insert_policy J (H (policy_json c)) c clock = (J1, snapshot)"
    "J' = J1\<lparr>active := active J'\<rparr>"
    "activation_generation J' = activation_generation J \<and> active J' = active J1
     \<or> activation_generation J' = activation_generation J + 1"
    "\<exists>a. active J' = Some a \<and> act_digest a = H (policy_json c)"
proof -
  from assms obtain c where c: "canonicalPolicy d = Inr c"
    by (auto simp: installPolicy_def)
  obtain J1 s1 where f: "find_or_insert_policy J (H (policy_json c)) c clock = (J1, s1)"
    by fastforce
  note act = find_or_insert_policy_facts(1) [OF f]
  from assms c f have "s1 = snapshot"
    by (auto simp: installPolicy_def Let_def split: option.splits if_splits)
  moreover have "J' = J1\<lparr>active := active J'\<rparr>"
    using assms c f by (auto simp: installPolicy_def Let_def split: option.splits if_splits)
  moreover have "activation_generation J' = activation_generation J \<and> active J' = active J1
     \<or> activation_generation J' = activation_generation J + 1"
    using assms c f act
    by (auto simp: installPolicy_def activation_generation_def Let_def split: option.splits if_splits)
  moreover have "\<exists>a. active J' = Some a \<and> act_digest a = H (policy_json c)"
    using assms c f by (auto simp: installPolicy_def Let_def split: option.splits if_splits)
  ultimately show thesis using that c f by blast
qed

lemma activate_inv:
  assumes "activatePolicySnapshotIfCurrent H J exp_digest exp_gen c clock = Inr (J', snapshot)"
  obtains J1 a where "active J = Some a" "act_digest a = exp_digest" "act_generation a = exp_gen"
    "find_or_insert_policy J (H (policy_json c)) c clock = (J1, snapshot)"
    "J' = J1\<lparr>active := Some \<lparr>act_digest = H (policy_json c), act_updated_at = clock,
                               act_generation = exp_gen + 1\<rparr>\<rparr>"
proof -
  obtain J1 s1 where f: "find_or_insert_policy J (H (policy_json c)) c clock = (J1, s1)"
    by fastforce
  note act = find_or_insert_policy_facts(1) [OF f]
  from assms f act obtain a where a: "active J = Some a" "act_digest a = exp_digest"
    "act_generation a = exp_gen" "s1 = snapshot"
    "J' = J1\<lparr>active := Some \<lparr>act_digest = H (policy_json c), act_updated_at = clock,
                               act_generation = exp_gen + 1\<rparr>\<rparr>"
    by (auto simp: activatePolicySnapshotIfCurrent_def Let_def split: option.splits)
  with f show thesis by (intro that) auto
qed

inductive policy_step :: "journal \<Rightarrow> journal \<Rightarrow> bool" where
  policy_installed: "installPolicy H J d clock = Inr (J', p) \<Longrightarrow> policy_step J J'"
| policy_activated:
    "activatePolicySnapshotIfCurrent H J d g c clock = Inr (J', p) \<Longrightarrow> policy_step J J'"
| policy_untouched: "active J' = active J \<Longrightarrow> policy_step J J'"

definition policy_cas :: "journal \<Rightarrow> nat \<Rightarrow> journal \<Rightarrow> bool" where
  "policy_cas J g J' \<longleftrightarrow>
     (\<exists>H d c clock p. activatePolicySnapshotIfCurrent H J d g c clock = Inr (J', p))"

interpretation policy_register: cas_register activation_generation policy_cas policy_step
proof
  fix s s' :: journal and e
  show "policy_cas s e s' \<Longrightarrow> activation_generation s = e \<and> e < activation_generation s'"
    by (auto simp: policy_cas_def activation_generation_def elim!: activate_inv)
  show "policy_step s s' \<Longrightarrow> activation_generation s \<le> activation_generation s'"
  proof (induction rule: policy_step.induct)
    case (policy_installed H J d clock J' p)
    then show ?case by (rule installPolicy_inv) auto
  next
    case (policy_activated H J d g c clock J' p)
    then show ?case by (auto simp: activation_generation_def elim!: activate_inv)
  next
    case (policy_untouched J' J)
    then show ?case by (simp add: activation_generation_def)
  qed
qed

end
