(* ===== verification/Canonical_Json.thy ===== *)
theory Canonical_Json
  imports Json "HOL-Library.Multiset"
begin

text \<open>
  \<open>canonicalEvidenceJson\<close> (\<open>src/purchase/canonical-json.ts\<close>): the deterministic serializer of
  evidence facts. It accepts the JSON data model only. What a JavaScript value may be beyond it is
  a constructor of its own: a number that is not finite, an array with a hole or with properties
  of its own, a reference back to an ancestor (a cycle), and anything that is not a plain object.
  Paths only appear in messages and are left out; numbers are integers.
\<close>

datatype js =
    JS_null
  | JS_bool bool
  | JS_int int
  | JS_not_finite
  | JS_string string
  | JS_array "js option list" bool
  | JS_object "(string \<times> js) list"
  | JS_cycle
  | JS_other

lemma size_sort_key [simp]: "size_list g (sort_key f xs) = size_list g xs"
proof -
  have "size_list g (insort_key f x ys) = size_list g (x # ys)" for x ys
    by (induction ys) auto
  then show ?thesis by (induction xs) auto
qed

lemma size_fields: "size_list (\<lambda>f. Suc (size (snd f))) fs = size_list (size_prod (\<lambda>x. 0) size) fs"
  by (induction fs) auto

text \<open>\<open>items.join(",")\<close>\<close>

fun join_comma :: "string list \<Rightarrow> string" where
  "join_comma [] = []"
| "join_comma [t] = t"
| "join_comma (t # u # ts) = t @ '','' @ join_comma (u # ts)"

text \<open>\<open>Object.keys(record).sort()\<close> orders by code unit.\<close>

function (sequential) js_serialize :: "js \<Rightarrow> string result"
  and js_items :: "js option list \<Rightarrow> string list result"
  and js_fields :: "(string \<times> js) list \<Rightarrow> string list result"
where
  "js_serialize JS_null = Inr ''null''"
| "js_serialize (JS_bool b) = Inr (if b then ''true'' else ''false'')"
| "js_serialize (JS_int i) = Inr (int_text i)"
| "js_serialize JS_not_finite = Inl PlainError"
| "js_serialize (JS_string s) = Inr (json_quote s)"
| "js_serialize (JS_array xs own) =
     rbind (js_items xs) (\<lambda>items.
       if own then Inl PlainError else Inr (''['' @ join_comma items @ '']''))"
| "js_serialize (JS_object fs) =
     rbind (js_fields (sort_key fst fs)) (\<lambda>items. Inr (''{'' @ join_comma items @ ''}''))"
| "js_serialize JS_cycle = Inl PlainError"
| "js_serialize JS_other = Inl PlainError"
| "js_items [] = Inr []"
| "js_items (None # xs) = Inl PlainError"
| "js_items (Some x # xs) =
     rbind (js_serialize x) (\<lambda>t. rbind (js_items xs) (\<lambda>ts. Inr (t # ts)))"
| "js_fields [] = Inr []"
| "js_fields ((k, x) # fs) =
     rbind (js_serialize x) (\<lambda>t. rbind (js_fields fs) (\<lambda>ts. Inr ((json_quote k @ '':'' @ t) # ts)))"
  by pat_completeness auto
termination
  by (relation "measure (case_sum size (case_sum (size_list (size_option size)) (size_list (\<lambda>f. Suc (size (snd f))))))")
    (auto simp: size_fields)

definition canonicalEvidenceJson :: "js \<Rightarrow> string result" where
  "canonicalEvidenceJson value = js_serialize value"

section \<open>The data behind a value\<close>

text \<open>The JSON data a value stands for, its keys in order; \<open>None\<close> where it is no JSON data.\<close>

fun js_data :: "js \<Rightarrow> json option"
  and js_data_items :: "js option list \<Rightarrow> json list option"
  and js_data_fields :: "(string \<times> js) list \<Rightarrow> (string \<times> json) list option"
where
  "js_data JS_null = Some J_null"
| "js_data (JS_bool b) = Some (J_bool b)"
| "js_data (JS_int i) = Some (J_int i)"
| "js_data (JS_string s) = Some (J_string s)"
| "js_data (JS_array xs own) = (if own then None else map_option J_array (js_data_items xs))"
| "js_data (JS_object fs) = map_option (\<lambda>d. J_object (sort_key fst d)) (js_data_fields fs)"
| "js_data _ = None"
| "js_data_items [] = Some []"
| "js_data_items (None # xs) = None"
| "js_data_items (Some x # xs) =
     Option.bind (js_data x) (\<lambda>d. map_option (\<lambda>ds. d # ds) (js_data_items xs))"
| "js_data_fields [] = Some []"
| "js_data_fields ((k, x) # fs) =
     Option.bind (js_data x) (\<lambda>d. map_option (\<lambda>ds. (k, d) # ds) (js_data_fields fs))"

text \<open>Sorting the fields before or after reading them is the same.\<close>

lemma js_data_fields_insort:
  "js_data_fields (insort_key fst f fs)
     = Option.bind (js_data (snd f)) (\<lambda>d.
         map_option (insort_key fst (fst f, d)) (js_data_fields fs))"
proof (induction fs)
  case Nil
  then show ?case by (cases f) (simp split: option.splits)
next
  case (Cons g fs)
  obtain k x where g: "g = (k, x)" by force
  obtain l y where f: "f = (l, y)" by force
  show ?case
    using Cons unfolding g f
    by (cases "js_data x"; cases "js_data y"; cases "js_data_fields fs") auto
qed

lemma js_data_fields_sort:
  "js_data_fields (sort_key fst fs) = map_option (sort_key fst) (js_data_fields fs)"
proof (induction fs)
  case (Cons f fs)
  obtain k x where f: "f = (k, x)" by force
  show ?case
    using Cons js_data_fields_insort [of f "sort_key fst fs"] unfolding f
    by (cases "js_data x"; cases "js_data_fields fs") auto
qed simp

lemma join_items: "join_comma (map json_text xs) @ '']'' = json_items xs"
  by (induction xs rule: induct_list012) auto

lemma join_fields:
  "join_comma (map (\<lambda>(k, x). json_quote k @ '':'' @ json_text x) fs) @ ''}'' = json_fields fs"
  by (induction fs rule: induct_list012) auto

text \<open>The serializer is \<open>JSON.stringify\<close> of the data with its keys in order.\<close>

lemma js_serialize_data:
  "js_serialize v = (case js_data v of None \<Rightarrow> Inl PlainError | Some d \<Rightarrow> Inr (json_text d))"
  "js_items xs = (case js_data_items xs of None \<Rightarrow> Inl PlainError | Some ds \<Rightarrow> Inr (map json_text ds))"
  "js_fields fs = (case js_data_fields fs of None \<Rightarrow> Inl PlainError
      | Some ds \<Rightarrow> Inr (map (\<lambda>(k, x). json_quote k @ '':'' @ json_text x) ds))"
proof (induction v and xs and fs rule: js_serialize_js_items_js_fields.induct)
  case (6 xs own)
  then show ?case using join_items by (auto split: option.splits)
next
  case (7 fs)
  then show ?case using join_fields by (auto simp: js_data_fields_sort split: option.splits)
qed (auto split: option.splits)

lemma canonical_json_data:
  "canonicalEvidenceJson v = Inr t \<longleftrightarrow> (\<exists>d. js_data v = Some d \<and> t = json_text d)"
  by (auto simp: canonicalEvidenceJson_def js_serialize_data split: option.splits)

lemma canonical_json_same_data:
  assumes "canonicalEvidenceJson v = Inr t" and "canonicalEvidenceJson w = Inr t"
  shows "js_data v = js_data w"
proof -
  obtain d where d: "js_data v = Some d" "t = json_text d"
    using assms(1) unfolding canonical_json_data by blast
  obtain e where e: "js_data w = Some e" "t = json_text e"
    using assms(2) unfolding canonical_json_data by blast
  have "d = e" using json_text_inj [of d e] d(2) e(2) by simp
  then show ?thesis using d(1) e(1) by simp
qed

text \<open>The order in which an object's fields were written does not matter.\<close>

lemma sort_key_permuted:
  assumes "mset fs = mset gs" and "distinct (map fst fs)"
  shows "sort_key fst fs = sort_key (fst :: string \<times> 'b \<Rightarrow> string) gs"
proof (rule properties_for_sort_key [symmetric])
  show "mset (sort_key fst fs) = mset gs" using assms(1) by simp
  show "sorted (map fst (sort_key fst fs))" by simp
  have d: "distinct (map fst gs)"
    using assms by (metis distinct_map mset_eq_imp_distinct_iff mset_map)
  fix k assume "k \<in> set (sort_key fst fs)"
  have one: "length (filter (\<lambda>x. fst k = fst x) hs) \<le> 1" if "distinct (map fst hs)" for hs :: "(string \<times> 'b) list"
    using that by (induction hs) (auto simp: filter_empty_conv)
  have "mset (filter (\<lambda>x. fst k = fst x) (sort_key fst fs)) = mset (filter (\<lambda>x. fst k = fst x) gs)"
    using assms(1) by (simp add: mset_filter)
  then show "filter (\<lambda>x. fst k = fst x) (sort_key fst fs) = filter (\<lambda>x. fst k = fst x) gs"
    using one [OF d]
    by (cases "filter (\<lambda>x. fst k = fst x) gs"; cases "filter (\<lambda>x. fst k = fst x) (sort_key fst fs)")
      (auto simp: Suc_le_eq)
qed

lemma canonical_json_order:
  assumes "mset fs = mset gs" and "distinct (map fst fs)"
  shows "canonicalEvidenceJson (JS_object fs) = canonicalEvidenceJson (JS_object gs)"
  using sort_key_permuted [OF assms] by (simp add: canonicalEvidenceJson_def)

end
