(* ===== verification/Requests.thy ===== *)
theory Requests
  imports Identity
begin

text \<open>
  The identity of a requested resource (\<open>src/purchase/identity.ts\<close>): canonical URLs, methods and
  media types, and the fingerprint that binds them with the digest of the body. The platform's
  \<open>URL\<close> parser is the parameter \<open>parse_url\<close>: \<open>None\<close> where the constructor throws, else the parts
  the code reads, with \<open>url_href\<close> the \<open>href\<close> after the fragment has been cleared.
\<close>

record url_parts =
  url_protocol :: string
  url_username :: string
  url_password :: string
  url_href :: string
  url_origin :: string

type_synonym url_parser = "string \<Rightarrow> url_parts option"

definition canonicalRequestUrl :: "url_parser \<Rightarrow> string \<Rightarrow> string result" where
  "canonicalRequestUrl parse_url raw =
     (case parse_url raw of
        None \<Rightarrow> Inl PlainError
      | Some url \<Rightarrow>
          if url_protocol url \<noteq> ''https:'' \<and> url_protocol url \<noteq> ''http:'' then Inl PlainError
          else if url_username url \<noteq> [] \<or> url_password url \<noteq> [] then Inl PlainError
          else Inr (url_href url))"

section \<open>Media types\<close>

definition lower :: "char \<Rightarrow> char" where
  "lower c = (if is_upper c then char_of (code_unit c + 32) else c)"

definition upper :: "char \<Rightarrow> char" where
  "upper c = (if is_lower c then char_of (code_unit c - 32) else c)"

text \<open>\<open>[!#$%&'*+.^_`|~0-9a-z-]\<close>\<close>

definition is_token_char :: "char \<Rightarrow> bool" where
  "is_token_char c \<longleftrightarrow>
     is_digit c \<or> is_lower c
     \<or> code_unit c \<in> {33, 35, 36, 37, 38, 39, 42, 43, 45, 46, 94, 95, 96, 124, 126}"

definition is_token :: "string \<Rightarrow> bool" where
  "is_token s \<longleftrightarrow> s \<noteq> [] \<and> list_all is_token_char s"

fun split_at :: "char \<Rightarrow> string \<Rightarrow> string list" where
  "split_at c [] = [[]]"
| "split_at c (x # s) =
     (if x = c then [] # split_at c s
      else case split_at c s of [] \<Rightarrow> [[x]] | part # parts \<Rightarrow> (x # part) # parts)"

text \<open>The part before the first \<open>c\<close> and what follows it, if there is one.\<close>

definition split_first :: "char \<Rightarrow> string \<Rightarrow> (string \<times> string) option" where
  "split_first c s =
     (case dropWhile (\<lambda>x. x \<noteq> c) s of
        [] \<Rightarrow> None | _ # after \<Rightarrow> Some (takeWhile (\<lambda>x. x \<noteq> c) s, after))"

definition is_essence :: "string \<Rightarrow> bool" where
  "is_essence s \<longleftrightarrow>
     (case split_first (CHR ''/'') s of None \<Rightarrow> False | Some (a, b) \<Rightarrow> is_token a \<and> is_token b)"

definition media_parameter :: "string \<Rightarrow> string result" where
  "media_parameter part =
     (case split_first (CHR ''='') (trim part) of
        None \<Rightarrow> Inl PlainError
      | Some (leading, trailing) \<Rightarrow>
          if leading = [] \<or> trailing = [] then Inl PlainError
          else
            let name = map lower (trim leading); value = trim trailing in
            if \<not> is_token name \<or> list_ex (\<lambda>c. code_unit c \<in> {59, 13, 10}) value
            then Inl PlainError
            else Inr (name @ ''='' @ value))"

fun media_parameters :: "string list \<Rightarrow> string list result" where
  "media_parameters [] = Inr []"
| "media_parameters (p # ps) =
     rbind (media_parameter p) (\<lambda>q. rbind (media_parameters ps) (\<lambda>qs. Inr (q # qs)))"

fun join_with :: "string \<Rightarrow> string list \<Rightarrow> string" where
  "join_with sep [] = []"
| "join_with sep [t] = t"
| "join_with sep (t # u # ts) = t @ sep @ join_with sep (u # ts)"

definition canonicalMediaType :: "string option \<Rightarrow> string option result" where
  "canonicalMediaType input =
     (case input of
        None \<Rightarrow> Inr None
      | Some raw \<Rightarrow>
          if raw = [] \<or> length raw > 200 \<or> trim raw \<noteq> raw \<or> list_ex is_control raw
          then Inl PlainError
          else
            let parts = split_at (CHR '';'') raw; essence = map lower (hd parts) in
            if \<not> is_essence essence then Inl PlainError
            else rbind (media_parameters (tl parts)) (\<lambda>parameters.
              Inr (Some (if parameters = [] then essence
                         else essence @ ''; '' @ join_with ''; '' parameters))))"

section \<open>Fingerprints\<close>

text \<open>\<open>/^[A-Z][A-Z0-9!#$%&'*+.^_`|~-]{0,31}$/\<close>\<close>

definition is_method :: "string \<Rightarrow> bool" where
  "is_method s \<longleftrightarrow>
     s \<noteq> [] \<and> length s \<le> 32 \<and> is_upper (hd s)
     \<and> list_all (\<lambda>c. is_upper c \<or> is_token_char c \<and> \<not> is_lower c) (tl s)"

definition requestFingerprintFromBodyDigest ::
  "(string \<Rightarrow> string) \<Rightarrow> url_parser \<Rightarrow> string \<Rightarrow> string \<Rightarrow> string option \<Rightarrow> string \<Rightarrow> string result"
where
  "requestFingerprintFromBodyDigest H parse_url url0 method0 mediaType0 bodyDigest =
     rbind (canonicalRequestUrl parse_url url0) (\<lambda>url.
     let method = map upper (trim method0) in
     if \<not> is_method method then Inl PlainError
     else if \<not> is_sha256_digest bodyDigest then Inl PlainError
     else
     rbind (canonicalMediaType mediaType0) (\<lambda>mediaType.
     domainDigest H ''sompi:purchase-request:v2''
       [method, url, (case mediaType of None \<Rightarrow> [] | Some m \<Rightarrow> m),
        drop (length ''sha256:'') bodyDigest]))"

definition requestFingerprint ::
  "(string \<Rightarrow> string) \<Rightarrow> url_parser \<Rightarrow> string \<Rightarrow> string \<Rightarrow> string option \<Rightarrow> string option \<Rightarrow> string result"
where
  "requestFingerprint H parse_url url method mediaType body =
     requestFingerprintFromBodyDigest H parse_url url method mediaType
       (evidenceDigest H (case body of None \<Rightarrow> [] | Some bytes \<Rightarrow> bytes))"

section \<open>Canonical media types are fixed points\<close>

lemma dropWhile_ends: "dropWhile P s = [] \<or> \<not> P (hd (dropWhile P s))"
  using hd_dropWhile [of P s] by blast

lemma trim_ends: "trim s = [] \<or> \<not> is_space (hd (trim s)) \<and> \<not> is_space (last (trim s))"
proof -
  let ?a = "dropWhile is_space s"
  have last_ok: "trim s = [] \<or> \<not> is_space (last (trim s))"
    using dropWhile_ends [of is_space "rev ?a"] by (auto simp: trim_def last_rev)
  obtain p where p: "rev ?a = p @ dropWhile is_space (rev ?a)"
    by (metis takeWhile_dropWhile_id)
  then have "?a = trim s @ rev p" unfolding trim_def by (metis rev_append rev_rev_ident)
  then have "trim s = [] \<or> hd (trim s) = hd ?a \<and> ?a \<noteq> []" by (cases "trim s") auto
  with dropWhile_ends [of is_space s] have "trim s = [] \<or> \<not> is_space (hd (trim s))" by auto
  with last_ok show ?thesis by blast
qed

lemma trim_id: "s \<noteq> [] \<Longrightarrow> \<not> is_space (hd s) \<Longrightarrow> \<not> is_space (last s) \<Longrightarrow> trim s = s"
proof -
  assume s: "s \<noteq> []" "\<not> is_space (hd s)" "\<not> is_space (last s)"
  have "dropWhile is_space s = s" using s by (cases s) auto
  moreover have "dropWhile is_space (rev s) = rev s"
    using s by (cases "rev s") (auto simp: hd_rev [symmetric])
  ultimately show ?thesis by (simp add: trim_def)
qed

lemma trim_nonempty:
  assumes "s \<noteq> []" and "\<not> is_space (last s)"
  shows "trim s \<noteq> []"
proof -
  let ?d = "dropWhile is_space s"
  have "?d \<noteq> []" using assms last_in_set [of s] unfolding dropWhile_eq_Nil_conv by blast
  then have "hd ?d \<in> set (rev ?d)" "\<not> is_space (hd ?d)"
    using hd_dropWhile [of is_space s] by simp_all
  then have "dropWhile is_space (rev ?d) \<noteq> []" unfolding dropWhile_eq_Nil_conv by blast
  then show ?thesis by (simp add: trim_def)
qed

lemma trim_space [simp]: "is_space c \<Longrightarrow> trim (c # s) = trim s"
  by (simp add: trim_def)

lemma set_trim: "set (trim s) \<subseteq> set s"
  by (auto simp: trim_def dest!: set_dropWhileD)

lemma split_first_Some:
  "split_first c s = Some (a, b) \<longleftrightarrow> s = a @ c # b \<and> c \<notin> set a"
proof
  assume "split_first c s = Some (a, b)"
  then obtain x where x: "dropWhile (\<lambda>x. x \<noteq> c) s = x # b" "a = takeWhile (\<lambda>x. x \<noteq> c) s"
    by (auto simp: split_first_def split: list.splits)
  moreover have "x = c" using hd_dropWhile [of "\<lambda>x. x \<noteq> c" s] x(1) by auto
  ultimately show "s = a @ c # b \<and> c \<notin> set a"
    using takeWhile_dropWhile_id [of "\<lambda>x. x \<noteq> c" s] by (auto dest: set_takeWhileD)
next
  assume s: "s = a @ c # b \<and> c \<notin> set a"
  then have "takeWhile (\<lambda>x. x \<noteq> c) s = a" "dropWhile (\<lambda>x. x \<noteq> c) s = c # b"
    by (auto simp: takeWhile_append dropWhile_append)
  then show "split_first c s = Some (a, b)" by (simp add: split_first_def)
qed

lemma split_at_none: "c \<notin> set s \<Longrightarrow> split_at c s = [s]"
  by (induction s) auto

lemma split_at_append: "c \<notin> set s \<Longrightarrow> split_at c (s @ c # t) = s # split_at c t"
  by (induction s) auto

lemma token_char_plain:
  assumes "is_token_char c"
  shows "\<not> is_space c \<and> \<not> is_control c \<and> c \<noteq> CHR '';'' \<and> c \<noteq> CHR ''='' \<and> \<not> is_upper c"
proof -
  have codes: "code_unit (CHR '';'') = 59" "code_unit (CHR ''='') = 61"
    by (simp_all add: code_unit_def)
  consider "48 \<le> code_unit c \<and> code_unit c \<le> 57" | "97 \<le> code_unit c \<and> code_unit c \<le> 122"
    | "code_unit c \<in> {33, 35, 36, 37, 38, 39, 42, 43, 45, 46, 94, 95, 96, 124, 126}"
    using assms unfolding is_token_char_def is_digit_def is_lower_def in_range_def by blast
  then have n: "code_unit c \<notin> {59, 61, 32, 160, 127}" "13 < code_unit c" "31 < code_unit c"
      "\<not> (65 \<le> code_unit c \<and> code_unit c \<le> 90)"
    by (cases; auto)+
  then have "c \<noteq> CHR '';''" "c \<noteq> CHR ''=''" using codes by auto
  moreover have "\<not> is_space c" "\<not> is_control c" "\<not> is_upper c"
    using n by (auto simp: is_space_def is_control_def is_upper_def in_range_def)
  ultimately show ?thesis by blast
qed

lemma lower_token: "list_all is_token_char s \<Longrightarrow> map lower s = s"
  by (induction s) (auto simp: lower_def dest: token_char_plain)

definition plain_media :: "string \<Rightarrow> bool" where
  "plain_media s \<longleftrightarrow> s \<noteq> [] \<and> \<not> is_space (hd s) \<and> \<not> is_space (last s)
     \<and> list_all (\<lambda>c. \<not> is_control c \<and> c \<noteq> CHR '';'') s"

lemma plain_token: "is_token s \<Longrightarrow> plain_media s"
proof -
  assume "is_token s"
  then have s: "s \<noteq> []" "\<forall>c \<in> set s. is_token_char c" by (auto simp: is_token_def list_all_iff)
  then have "hd s \<in> set s" "last s \<in> set s" by simp_all
  with s show ?thesis using token_char_plain unfolding plain_media_def list_all_iff by blast
qed

lemma plain_join:
  "plain_media a \<Longrightarrow> plain_media b \<Longrightarrow> \<not> is_control c \<Longrightarrow> c \<noteq> CHR '';'' \<Longrightarrow> plain_media (a @ c # b)"
  by (auto simp: plain_media_def)

lemma plain_essence:
  assumes "is_essence s"
  shows "plain_media s \<and> map lower s = s"
proof -
  obtain a b where s: "s = a @ CHR ''/'' # b" and t: "is_token a" "is_token b"
    using assms by (auto simp: is_essence_def split_first_Some split: option.splits)
  have "\<not> is_control (CHR ''/'')" "lower (CHR ''/'') = CHR ''/''" by code_simp+
  moreover have "map lower a = a" "map lower b = b"
    using t by (simp_all add: is_token_def lower_token)
  moreover have "plain_media (a @ CHR ''/'' # b)"
    using t plain_token calculation(1) by (intro plain_join) simp_all
  ultimately show ?thesis by (simp add: s)
qed

lemma media_parameter_canonical:
  assumes "media_parameter p = Inr q" and "\<not> list_ex is_control p"
  shows "plain_media q \<and> media_parameter (CHR '' '' # q) = Inr q"
proof -
  obtain a b where ab: "trim p = a @ CHR ''='' # b" and ne: "b \<noteq> []"
    and name: "is_token (map lower (trim a))"
    and semi: "\<not> list_ex (\<lambda>c. code_unit c \<in> {59, 13, 10}) (trim b)"
    and q: "q = map lower (trim a) @ ''='' @ trim b"
    using assms(1) by (auto simp: media_parameter_def Let_def split_first_Some split: option.splits)
  let ?n = "map lower (trim a)"
  have n: "plain_media ?n" "CHR ''='' \<notin> set ?n" "list_all is_token_char ?n"
    using name plain_token token_char_plain [of "CHR ''=''"]
    by (auto simp: is_token_def list_all_iff simp del: set_map)
  have "\<not> is_space (last b)" using trim_ends [of p] ne unfolding ab by auto
  then have "trim b \<noteq> []" using ne trim_nonempty by blast
  moreover have "list_all (\<lambda>c. \<not> is_control c \<and> c \<noteq> CHR '';'') (trim b)"
  proof -
    have "set (trim b) \<subseteq> set p" using set_trim [of b] set_trim [of p] unfolding ab by auto
    then show ?thesis
      using assms(2) semi by (auto simp: list_all_iff list_ex_iff code_unit_def)
  qed
  ultimately have v: "plain_media (trim b)" using trim_ends [of b] by (auto simp: plain_media_def)
  have plain: "plain_media q"
    unfolding q using plain_join [OF n(1) v, of "CHR ''=''"] by (simp add: is_control_def code_unit_def)
  have "trim (CHR '' '' # q) = q"
    using plain trim_id [of q] by (simp add: plain_media_def is_space_def code_unit_def)
  moreover have "split_first (CHR ''='') q = Some (?n, trim b)"
    unfolding q split_first_Some using n(2) by simp
  moreover have "trim ?n = ?n" "trim (trim b) = trim b" "?n \<noteq> []" "trim b \<noteq> []"
    using n(1) v trim_id by (auto simp: plain_media_def)
  moreover have "map lower ?n = ?n" using lower_token n(3) .
  ultimately have "media_parameter (CHR '' '' # q) = Inr q"
    using name semi by (simp add: media_parameter_def Let_def q del: map_map)
  with plain show ?thesis by blast
qed

lemma media_parameters_canonical:
  assumes "media_parameters ps = Inr qs" and "\<forall>p \<in> set ps. \<not> list_ex is_control p"
  shows "(\<forall>q \<in> set qs. plain_media q) \<and> media_parameters (map ((#) (CHR '' '')) qs) = Inr qs"
  using assms
proof (induction ps arbitrary: qs)
  case (Cons p ps)
  then obtain q rest where "qs = q # rest" "media_parameter p = Inr q" "media_parameters ps = Inr rest"
    by auto
  with Cons media_parameter_canonical [of p q] show ?case by auto
qed simp

lemma set_split_at: "p \<in> set (split_at c s) \<Longrightarrow> set p \<subseteq> set s"
proof (induction s arbitrary: p)
  case (Cons x s)
  show ?case
  proof (cases "x = c")
    case True
    then show ?thesis using Cons by auto
  next
    case False
    have "split_at c s \<noteq> []" by (cases s) (auto split: list.split)
    then obtain q qs where q: "split_at c s = q # qs" by (cases "split_at c s") auto
    then have "p = x # q \<or> p \<in> set qs" using Cons.prems False by simp
    then show ?thesis using Cons.IH [of q] Cons.IH [of p] q by auto
  qed
qed simp

lemma split_joined:
  assumes "CHR '';'' \<notin> set e" and "\<forall>q \<in> set qs. CHR '';'' \<notin> set q" and "qs \<noteq> []"
  shows "split_at (CHR '';'') (e @ ''; '' @ join_with ''; '' qs) = e # map ((#) (CHR '' '')) qs"
  using assms
proof (induction qs arbitrary: e rule: induct_list012)
  case (2 q)
  have "split_at (CHR '';'') (e @ CHR '';'' # (CHR '' '' # q)) = e # split_at (CHR '';'') (CHR '' '' # q)"
    using 2 by (intro split_at_append)
  moreover have "split_at (CHR '';'') (CHR '' '' # q) = [CHR '' '' # q]"
    using 2 by (intro split_at_none) simp
  ultimately show ?case by simp
next
  case (3 q r qs)
  let ?rest = "(CHR '' '' # q) @ ''; '' @ join_with ''; '' (r # qs)"
  have "split_at (CHR '';'') (e @ CHR '';'' # ?rest) = e # split_at (CHR '';'') ?rest"
    using 3(3) by (rule split_at_append)
  moreover have "split_at (CHR '';'') ?rest = (CHR '' '' # q) # map ((#) (CHR '' '')) (r # qs)"
    by (rule 3(2)) (use 3(4) in auto)
  ultimately show ?case by simp
qed simp

lemma separator_plain: "\<not> is_control (CHR '';'')" "\<not> is_control (CHR '' '')"
  by code_simp+

lemma last_joined: "qs \<noteq> [] \<Longrightarrow> \<forall>q \<in> set qs. plain_media q \<Longrightarrow>
    join_with ''; '' qs \<noteq> [] \<and> \<not> is_space (last (join_with ''; '' qs))
    \<and> \<not> list_ex is_control (join_with ''; '' qs)"
proof (induction qs rule: induct_list012)
  case (2 q)
  then show ?case by (auto simp: plain_media_def list_all_iff list_ex_iff)
next
  case (3 q r qs)
  have "\<not> list_ex is_control q" using 3(4) by (auto simp: plain_media_def list_all_iff list_ex_iff)
  with 3(2) 3(4) separator_plain show ?case by simp
qed simp

lemma media_type_fixed_point:
  assumes "canonicalMediaType (Some r) = Inr (Some c)" and "length c \<le> 200"
  shows "canonicalMediaType (Some c) = Inr (Some c)"
proof -
  let ?e = "map lower (hd (split_at (CHR '';'') r))"
  obtain qs where e: "is_essence ?e" and qs: "media_parameters (tl (split_at (CHR '';'') r)) = Inr qs"
    and ctrl: "\<not> list_ex is_control r"
    and c: "c = (if qs = [] then ?e else ?e @ ''; '' @ join_with ''; '' qs)"
    using assms(1) by (auto simp: canonicalMediaType_def Let_def)
  have "\<not> list_ex is_control p" if "p \<in> set (tl (split_at (CHR '';'') r))" for p
  proof -
    have "p \<in> set (split_at (CHR '';'') r)" using that by (cases "split_at (CHR '';'') r") auto
    then have "set p \<subseteq> set r" by (rule set_split_at)
    then show ?thesis using ctrl by (auto simp: list_ex_iff)
  qed
  with media_parameters_canonical [OF qs]
  have ps: "\<forall>q \<in> set qs. plain_media q" "media_parameters (map ((#) (CHR '' '')) qs) = Inr qs"
    by blast+
  have plain: "plain_media ?e" "map lower ?e = ?e" using plain_essence e by blast+
  then have semi: "CHR '';'' \<notin> set ?e" by (auto simp: plain_media_def list_all_iff)
  have parts: "split_at (CHR '';'') c = ?e # map ((#) (CHR '' '')) qs"
    using split_joined [OF semi, of qs] split_at_none [OF semi] ps(1)
    by (auto simp: c plain_media_def list_all_iff)
  have "c \<noteq> []" "trim c = c" "\<not> list_ex is_control c"
    using plain(1) last_joined [OF _ ps(1)]
    by (auto simp: c plain_media_def list_all_iff list_ex_iff is_control_def code_unit_def
        intro!: trim_id)
  then show ?thesis
    using assms(2) parts e ps(2) plain(2) c
    by (simp add: canonicalMediaType_def Let_def del: map_map)
qed

section \<open>What a fingerprint binds\<close>

lemma domain_digest_collision:
  assumes "domainDigest H d fs = Inr x" and "domainDigest H d gs = Inr x"
  shows "fs = gs \<or> collision H (prefixed (d # fs)) (prefixed (d # gs))"
proof -
  have eq: "H (prefixed (d # fs)) = H (prefixed (d # gs))"
    and small: "\<forall>f \<in> set (d # fs). length f \<le> 4294967295" "\<forall>f \<in> set (d # gs). length f \<le> 4294967295"
    using assms unfolding domainDigest_def rbind_eq_Inr append_all_eq append_Nil sum.inject
    by (metis same_append_eq)+
  show ?thesis
  proof (cases "prefixed (d # fs) = prefixed (d # gs)")
    case True
    from prefixed_inj [OF this small] show ?thesis by simp
  next
    case False
    with eq show ?thesis unfolding collision_def by blast
  qed
qed

text \<open>What a fingerprint is computed of.\<close>

definition fingerprint_fields ::
  "url_parser \<Rightarrow> string \<Rightarrow> string \<Rightarrow> string option \<Rightarrow> string \<Rightarrow> string list result" where
  "fingerprint_fields parse_url url0 method0 mediaType0 bodyDigest =
     rbind (canonicalRequestUrl parse_url url0) (\<lambda>url.
     rbind (canonicalMediaType mediaType0) (\<lambda>mediaType.
       Inr [map upper (trim method0), url, (case mediaType of None \<Rightarrow> [] | Some m \<Rightarrow> m),
            drop (length ''sha256:'') bodyDigest]))"

lemma fingerprint_binds:
  assumes "requestFingerprintFromBodyDigest H parse u m t b = Inr x"
    and "requestFingerprintFromBodyDigest H parse u' m' t' b' = Inr x"
  obtains fs gs where "fingerprint_fields parse u m t b = Inr fs"
    and "fingerprint_fields parse u' m' t' b' = Inr gs"
    and "fs = gs \<and> b = b' \<or> collision H (prefixed (''sompi:purchase-request:v2'' # fs))
           (prefixed (''sompi:purchase-request:v2'' # gs))"
proof -
  obtain url c where u: "canonicalRequestUrl parse u = Inr url" "canonicalMediaType t = Inr c"
      "is_sha256_digest b"
    and d: "domainDigest H ''sompi:purchase-request:v2'' [map upper (trim m), url,
        (case c of None \<Rightarrow> [] | Some x \<Rightarrow> x), drop (length ''sha256:'') b] = Inr x"
    using assms(1) unfolding requestFingerprintFromBodyDigest_def Let_def
    by (auto simp del: list.size)
  obtain url' c' where u': "canonicalRequestUrl parse u' = Inr url'" "canonicalMediaType t' = Inr c'"
      "is_sha256_digest b'"
    and d': "domainDigest H ''sompi:purchase-request:v2'' [map upper (trim m'), url',
        (case c' of None \<Rightarrow> [] | Some x \<Rightarrow> x), drop (length ''sha256:'') b'] = Inr x"
    using assms(2) unfolding requestFingerprintFromBodyDigest_def Let_def
    by (auto simp del: list.size)
  have "fingerprint_fields parse u m t b = Inr [map upper (trim m), url,
        (case c of None \<Rightarrow> [] | Some x \<Rightarrow> x), drop (length ''sha256:'') b]"
    "fingerprint_fields parse u' m' t' b' = Inr [map upper (trim m'), url',
        (case c' of None \<Rightarrow> [] | Some x \<Rightarrow> x), drop (length ''sha256:'') b']"
    using u u' by (simp_all add: fingerprint_fields_def del: list.size)
  note fields = this
  from domain_digest_collision [OF d d'] show ?thesis
  proof
    assume e: "[map upper (trim m), url, (case c of None \<Rightarrow> [] | Some x \<Rightarrow> x), drop (length ''sha256:'') b]
      = [map upper (trim m'), url', (case c' of None \<Rightarrow> [] | Some x \<Rightarrow> x), drop (length ''sha256:'') b']"
    then have "b = b'"
      using u(3) u'(3) tagged_drop_inj [of "''sha256:''" is_base64url 43 b b']
      by (simp add: is_sha256_digest_def del: list.size)
    with that [OF fields] e show ?thesis by blast
  next
    assume "collision H (prefixed [''sompi:purchase-request:v2'', map upper (trim m), url,
        (case c of None \<Rightarrow> [] | Some x \<Rightarrow> x), drop (length ''sha256:'') b])
      (prefixed [''sompi:purchase-request:v2'', map upper (trim m'), url',
        (case c' of None \<Rightarrow> [] | Some x \<Rightarrow> x), drop (length ''sha256:'') b'])"
    with that [OF fields] show ?thesis by blast
  qed
qed

end
