(* ===== verification/Finality.thy ===== *)
theory Finality
  imports Prelude
begin

text \<open>
  Payment finality (\<open>src/purchase/finality.ts\<close>): the ranks, and \<open>paymentFinalityMeets\<close> on the
  names the journal passes it. The ranks make the finalities a linear order.
\<close>

datatype payment_finality = Fin_mempool | Fin_accepted | Fin_confirmed

fun finality_rank :: "payment_finality \<Rightarrow> nat" where
  "finality_rank Fin_mempool = 0"
| "finality_rank Fin_accepted = 1"
| "finality_rank Fin_confirmed = 2"

instantiation payment_finality :: linorder
begin

definition less_eq_payment_finality :: "payment_finality \<Rightarrow> payment_finality \<Rightarrow> bool" where
  "less_eq_payment_finality a b \<longleftrightarrow> finality_rank a \<le> finality_rank b"

definition less_payment_finality :: "payment_finality \<Rightarrow> payment_finality \<Rightarrow> bool" where
  "less_payment_finality a b \<longleftrightarrow> finality_rank a < finality_rank b"

instance
proof
  fix x y z :: payment_finality
  show "(x < y) = (x \<le> y \<and> \<not> y \<le> x)"
    by (auto simp: less_eq_payment_finality_def less_payment_finality_def)
  show "x \<le> x" "x \<le> y \<Longrightarrow> y \<le> z \<Longrightarrow> x \<le> z" "x \<le> y \<or> y \<le> x"
    by (auto simp: less_eq_payment_finality_def)
  show "x \<le> y \<Longrightarrow> y \<le> x \<Longrightarrow> x = y"
    by (cases x; cases y) (auto simp: less_eq_payment_finality_def)
qed

end

definition requirePaymentFinality :: "string \<Rightarrow> payment_finality result" where
  "requirePaymentFinality value =
     (if value = ''mempool'' then Inr Fin_mempool
      else if value = ''accepted'' then Inr Fin_accepted
      else if value = ''confirmed'' then Inr Fin_confirmed
      else Inl PlainError)"

definition paymentFinalityMeets :: "string \<Rightarrow> string \<Rightarrow> bool result" where
  "paymentFinalityMeets actual required =
     rbind (requirePaymentFinality actual) (\<lambda>a.
     rbind (requirePaymentFinality required) (\<lambda>r.
       Inr (finality_rank a \<ge> finality_rank r)))"

lemma paymentFinalityMeets_order:
  "paymentFinalityMeets actual required = Inr b \<longleftrightarrow>
     (\<exists>a r. requirePaymentFinality actual = Inr a \<and> requirePaymentFinality required = Inr r
            \<and> b = (r \<le> a))"
  by (auto simp: paymentFinalityMeets_def less_eq_payment_finality_def)

end
