(* ===== verification/Execution_Plans.thy ===== *)
theory Execution_Plans
  imports Json Journal_State Finality
begin

text \<open>
  The execution plan of a Purchase (\<open>src/purchase/execution-plan.ts\<close>): the protocol-neutral
  facts that are authorised before anything is executed, their validation, their canonical JSON
  and digest, and the row they are stored in (\<open>requireExecutionPlan\<close> of
  \<open>src/purchase/journal.ts\<close>). \<open>H\<close> is SHA-256 in base64url.
\<close>

record channel_epoch =
  ce_channel_id :: string
  ce_txid :: string
  ce_index :: int
  ce_script :: string
  ce_funding :: string
  ce_refund_timeout :: string

record execution_plan =
  pl_mechanism :: mechanism
  pl_profile :: string
  pl_requirements_digest :: string
  pl_maximum_charge :: string
  pl_assurance :: assurance
  pl_channel :: "channel_epoch option"
  pl_claim_fee_reserve :: "string option"

record canonical_plan = execution_plan +
  pl_digest :: string

fun mechanism_name :: "mechanism \<Rightarrow> string" where
  "mechanism_name Single_transaction = ''single-transaction''"
| "mechanism_name Channel_voucher = ''channel-voucher''"

fun assurance_name :: "assurance \<Rightarrow> string" where
  "assurance_name Assure_accepted = ''accepted''"
| "assurance_name Assure_confirmed = ''confirmed''"
| "assurance_name Assure_channel_commitment = ''channel-commitment''"

fun purchaseExecutionProtocolFinality :: "assurance \<Rightarrow> payment_finality" where
  "purchaseExecutionProtocolFinality Assure_confirmed = Fin_confirmed"
| "purchaseExecutionProtocolFinality Assure_accepted = Fin_accepted"
| "purchaseExecutionProtocolFinality Assure_channel_commitment = Fin_accepted"

section \<open>Validation\<close>

definition UINT64_MAX :: nat where
  "UINT64_MAX = 2 ^ 64 - 1"

text \<open>\<open>/^[A-Za-z0-9][A-Za-z0-9._:/-]*$/\<close>, of at most \<open>n\<close> characters\<close>

definition is_identity_path :: "string \<Rightarrow> nat \<Rightarrow> bool" where
  "is_identity_path s n \<longleftrightarrow>
     s \<noteq> [] \<and> length s \<le> n \<and> is_alnum (hd s)
     \<and> list_all (\<lambda>c. is_key_char c \<or> c = CHR ''/'') (tl s)"

text \<open>\<open>/^0000(?:[a-f0-9]{2})+$/\<close>\<close>

definition is_serialized_script :: "string \<Rightarrow> bool" where
  "is_serialized_script s \<longleftrightarrow>
     starts_with ''0000'' s \<and> 6 \<le> length s \<and> even (length s) \<and> list_all is_hex (drop 4 s)"

definition atomic :: "string option \<Rightarrow> bool \<Rightarrow> string result" where
  "atomic value positive =
     (case value of
        None \<Rightarrow> Inl PlainError
      | Some s \<Rightarrow>
          if \<not> canonical_decimal s then Inl PlainError
          else if BigInt s > UINT64_MAX \<or> positive \<and> BigInt s = 0 then Inl PlainError
          else Inr s)"

definition canonical_channel ::
  "channel_epoch \<Rightarrow> string option \<Rightarrow> string \<Rightarrow> (channel_epoch \<times> string) result" where
  "canonical_channel epoch reserve maximumChargeAtomic =
     (if \<not> is_transaction_id (ce_channel_id epoch) \<or> \<not> is_transaction_id (ce_txid epoch)
         \<or> ce_index epoch < 0 \<or> ce_index epoch > 4294967295
         \<or> \<not> is_serialized_script (ce_script epoch)
      then Inl PlainError
      else
      rbind (atomic (Some (ce_funding epoch)) True) (\<lambda>funding.
      rbind (atomic (Some (ce_refund_timeout epoch)) True) (\<lambda>timeout.
      rbind (atomic reserve False) (\<lambda>claimFeeReserveAtomic.
      if BigInt maximumChargeAtomic + BigInt claimFeeReserveAtomic > BigInt funding
      then Inl PlainError
      else Inr (epoch\<lparr>ce_funding := funding, ce_refund_timeout := timeout\<rparr>,
                claimFeeReserveAtomic)))))"

definition canonical_facts :: "'a execution_plan_scheme \<Rightarrow> execution_plan result" where
  "canonical_facts input =
     (if \<not> is_identity_path (pl_profile input) 160 then Inl PlainError
      else if \<not> is_sha256_digest (pl_requirements_digest input) then Inl PlainError
      else
      rbind (atomic (Some (pl_maximum_charge input)) True) (\<lambda>maximumChargeAtomic.
      let facts = (\<lambda>channel reserve.
        \<lparr>pl_mechanism = pl_mechanism input, pl_profile = pl_profile input,
         pl_requirements_digest = pl_requirements_digest input,
         pl_maximum_charge = maximumChargeAtomic, pl_assurance = pl_assurance input,
         pl_channel = channel, pl_claim_fee_reserve = reserve\<rparr>) in
      case pl_mechanism input of
        Single_transaction \<Rightarrow>
          if pl_channel input \<noteq> None \<or> pl_claim_fee_reserve input \<noteq> None
             \<or> pl_assurance input = Assure_channel_commitment
          then Inl PlainError else Inr (facts None None)
      | Channel_voucher \<Rightarrow>
          if pl_assurance input \<noteq> Assure_channel_commitment then Inl PlainError
          else case pl_channel input of
                 None \<Rightarrow> Inl PlainError
               | Some epoch \<Rightarrow>
                   rbind (canonical_channel epoch (pl_claim_fee_reserve input) maximumChargeAtomic)
                     (\<lambda>(e, reserve). Inr (facts (Some e) (Some reserve)))))"

section \<open>Canonical JSON\<close>

definition channel_json :: "channel_epoch \<Rightarrow> json" where
  "channel_json e =
     J_object
       [(''channelId'', J_string (ce_channel_id e)),
        (''activeOutpoint'', J_object [(''txid'', J_string (ce_txid e)), (''index'', J_int (ce_index e))]),
        (''activeScriptPublicKey'', J_string (ce_script e)),
        (''fundingAmountAtomic'', J_string (ce_funding e)),
        (''refundTimeoutDaa'', J_string (ce_refund_timeout e))]"

definition optional_field :: "string \<Rightarrow> json option \<Rightarrow> (string \<times> json) list" where
  "optional_field k v = (case v of None \<Rightarrow> [] | Some x \<Rightarrow> [(k, x)])"

definition plan_json :: "'a execution_plan_scheme \<Rightarrow> json" where
  "plan_json p =
     J_object
       ([(''mechanism'', J_string (mechanism_name (pl_mechanism p))),
         (''profile'', J_string (pl_profile p)),
         (''requirementsDigest'', J_string (pl_requirements_digest p)),
         (''maximumChargeAtomic'', J_string (pl_maximum_charge p)),
         (''settlementAssurance'', J_string (assurance_name (pl_assurance p)))]
        @ optional_field ''channelEpoch'' (map_option channel_json (pl_channel p))
        @ optional_field ''claimFeeReserveAtomic'' (map_option J_string (pl_claim_fee_reserve p)))"

definition canonicalPurchaseExecutionPlan ::
  "(string \<Rightarrow> string) \<Rightarrow> 'a execution_plan_scheme \<Rightarrow> canonical_plan result" where
  "canonicalPurchaseExecutionPlan H input =
     rbind (canonical_facts input) (\<lambda>facts.
       Inr (execution_plan.extend facts
              (canonical_plan.fields (evidenceDigest H (json_text (plan_json facts))))))"

definition channelEpochDigest ::
  "(string \<Rightarrow> string) \<Rightarrow> 'a execution_plan_scheme \<Rightarrow> string option result" where
  "channelEpochDigest H plan =
     rbind (canonicalPurchaseExecutionPlan H plan) (\<lambda>canonical.
       Inr (map_option (\<lambda>e. evidenceDigest H (json_text (channel_json e))) (pl_channel canonical)))"

section \<open>The stored plan\<close>

record plan_record = canonical_plan +
  pl_purchase_id :: string
  pl_evidence_digest :: string
  pl_created_at :: int

text \<open>A \<open>NULL\<close> where a channel needs a value fails the validation, as the empty string does.\<close>

definition or_empty :: "string option \<Rightarrow> string" where
  "or_empty x = (case x of None \<Rightarrow> [] | Some s \<Rightarrow> s)"

definition plan_of_row :: "execution_plan_row \<Rightarrow> execution_plan" where
  "plan_of_row r =
     \<lparr>pl_mechanism = xp_mechanism r, pl_profile = xp_profile r,
      pl_requirements_digest = xp_requirements_digest r,
      pl_maximum_charge = xp_maximum_charge r, pl_assurance = xp_assurance r,
      pl_channel =
        (case xp_channel_id r of
           None \<Rightarrow> None
         | Some c \<Rightarrow> Some
             \<lparr>ce_channel_id = c, ce_txid = or_empty (xp_active_txid r),
              ce_index = (case xp_active_output_index r of None \<Rightarrow> - 1 | Some n \<Rightarrow> n),
              ce_script = or_empty (xp_active_script r), ce_funding = or_empty (xp_channel_funding r),
              ce_refund_timeout = or_empty (xp_refund_timeout_daa r)\<rparr>),
      pl_claim_fee_reserve = (if xp_channel_id r = None then None else xp_claim_fee_reserve r)\<rparr>"

definition purchaseExecutionPlanFromRow ::
  "(string \<Rightarrow> string) \<Rightarrow> execution_plan_row \<Rightarrow> plan_record result" where
  "purchaseExecutionPlanFromRow H row =
     rbind (canonicalPurchaseExecutionPlan H (plan_of_row row)) (\<lambda>plan.
       if pl_digest plan \<noteq> xp_plan_digest row then Inl JournalInvariantError
       else Inr (canonical_plan.extend plan
                   (plan_record.fields (xp_purchase_id row) (xp_plan_digest row)
                      (xp_created_at row))))"

definition requireExecutionPlan ::
  "(string \<Rightarrow> string) \<Rightarrow> journal \<Rightarrow> string \<Rightarrow> plan_record result" where
  "requireExecutionPlan H J purchaseId =
     (case find_row (\<lambda>r. xp_purchase_id r = purchaseId) (execution_plans J) of
        None \<Rightarrow> Inl JournalNotFoundError
      | Some row \<Rightarrow> purchaseExecutionPlanFromRow H row)"

text \<open>The row that \<open>bindCheckoutTerms\<close> inserts for a canonical plan.\<close>

definition execution_plan_row_of :: "string \<Rightarrow> canonical_plan \<Rightarrow> int \<Rightarrow> execution_plan_row" where
  "execution_plan_row_of purchaseId p now =
     (let c = pl_channel p in
      \<lparr>xp_purchase_id = purchaseId, xp_plan_digest = pl_digest p, xp_mechanism = pl_mechanism p,
       xp_profile = pl_profile p, xp_requirements_digest = pl_requirements_digest p,
       xp_maximum_charge = pl_maximum_charge p, xp_assurance = pl_assurance p,
       xp_channel_id = map_option ce_channel_id c, xp_active_txid = map_option ce_txid c,
       xp_active_output_index = map_option ce_index c, xp_active_script = map_option ce_script c,
       xp_channel_funding = map_option ce_funding c,
       xp_refund_timeout_daa = map_option ce_refund_timeout c,
       xp_claim_fee_reserve = pl_claim_fee_reserve p, xp_created_at = now\<rparr>)"

section \<open>What a canonical plan guarantees\<close>

text \<open>Validation accepts or rejects; it never changes a fact.\<close>

lemma atomic_eq [simp]:
  "atomic v positive = Inr s \<longleftrightarrow>
     v = Some s \<and> canonical_decimal s \<and> BigInt s \<le> UINT64_MAX \<and> (positive \<longrightarrow> 0 < BigInt s)"
  by (auto simp: atomic_def split: option.splits)

lemma canonical_facts_same:
  assumes "canonical_facts p = Inr q"
  shows "q = execution_plan.truncate p"
  using assms
  by (cases "pl_mechanism p")
    (auto simp: canonical_facts_def canonical_channel_def execution_plan.defs Let_def
      split: option.splits if_splits)

lemma canonical_plan_facts:
  assumes "canonicalPurchaseExecutionPlan H p = Inr c"
  shows "execution_plan.truncate c = execution_plan.truncate p"
    and "canonical_facts p = Inr (execution_plan.truncate p)"
    and "pl_digest c = evidenceDigest H (json_text (plan_json p))"
proof -
  obtain q where q: "canonical_facts p = Inr q"
    and c: "c = execution_plan.extend q (canonical_plan.fields (evidenceDigest H (json_text (plan_json q))))"
    using assms by (auto simp: canonicalPurchaseExecutionPlan_def)
  note qp = canonical_facts_same [OF q]
  have j: "plan_json q = plan_json p" by (simp add: qp plan_json_def execution_plan.defs)
  show "execution_plan.truncate c = execution_plan.truncate p"
    by (simp add: c qp execution_plan.defs canonical_plan.defs)
  show "canonical_facts p = Inr (execution_plan.truncate p)" using q qp by simp
  show "pl_digest c = evidenceDigest H (json_text (plan_json p))"
    unfolding c j by (simp add: execution_plan.defs canonical_plan.defs)
qed

text \<open>A channel's funding covers the charge and the reserve for claiming it, in 64 bits.\<close>

lemma canonical_channel_funded:
  assumes "canonicalPurchaseExecutionPlan H p = Inr c" and "pl_mechanism p = Channel_voucher"
  obtains e reserve where "pl_channel p = Some e" and "pl_claim_fee_reserve p = Some reserve"
    and "BigInt (pl_maximum_charge p) + BigInt reserve \<le> BigInt (ce_funding e)"
    and "BigInt (ce_funding e) \<le> UINT64_MAX" and "0 < BigInt (pl_maximum_charge p)"
  using canonical_plan_facts(2) [OF assms(1)] assms(2) that
  by (auto simp: canonical_facts_def canonical_channel_def Let_def split: option.splits if_splits)

lemma mechanism_name_inj: "mechanism_name a = mechanism_name b \<Longrightarrow> a = b"
  by (cases a; cases b) auto

lemma assurance_name_inj: "assurance_name a = assurance_name b \<Longrightarrow> a = b"
  by (cases a; cases b) auto

lemma channel_json_inj: "channel_json a = channel_json b \<Longrightarrow> a = b"
  by (simp add: channel_json_def)

lemma plan_json_inj:
  assumes "plan_json p = plan_json (q :: 'b execution_plan_scheme)"
  shows "execution_plan.truncate p = execution_plan.truncate q"
  using assms mechanism_name_inj [of "pl_mechanism p" "pl_mechanism q"]
    assurance_name_inj [of "pl_assurance p" "pl_assurance q"] channel_json_inj
  unfolding plan_json_def execution_plan.defs
  by (auto simp: optional_field_def split: option.splits)

text \<open>Equal digests are of equal plans, or exhibit a collision of the hash.\<close>

lemma plan_digest_binds:
  assumes "canonicalPurchaseExecutionPlan H p = Inr c" and "canonicalPurchaseExecutionPlan H q = Inr d"
    and "pl_digest c = pl_digest d"
  shows "execution_plan.truncate p = execution_plan.truncate q
    \<or> collision H (json_text (plan_json p)) (json_text (plan_json q))"
proof -
  have "H (json_text (plan_json p)) = H (json_text (plan_json q))"
    using canonical_plan_facts(3) [OF assms(1)] canonical_plan_facts(3) [OF assms(2)] assms(3)
    by (simp add: evidenceDigest_def)
  then show ?thesis unfolding collision_def using json_text_inj plan_json_inj by blast
qed

text \<open>What is stored reads back.\<close>

lemma canonical_facts_truncate [simp]:
  "canonical_facts (execution_plan.truncate p) = canonical_facts p"
  unfolding canonical_facts_def execution_plan.defs execution_plan.select_convs Let_def ..

lemma canonical_plan_again:
  assumes "canonicalPurchaseExecutionPlan H p = Inr c"
  shows "canonicalPurchaseExecutionPlan H (execution_plan.truncate c) = Inr c"
  using assms canonical_plan_facts(1) [OF assms]
  by (simp add: canonicalPurchaseExecutionPlan_def)

lemma stored_plan_reads_back:
  assumes "canonicalPurchaseExecutionPlan H p = Inr c"
  shows "purchaseExecutionPlanFromRow H (execution_plan_row_of i c now)
     = Inr (canonical_plan.extend c (plan_record.fields i (pl_digest c) now))"
proof -
  have "pl_channel p = None \<Longrightarrow> pl_claim_fee_reserve p = None"
    using canonical_plan_facts(2) [OF assms]
    by (auto simp: canonical_facts_def Let_def split: mechanism.splits if_splits)
  moreover have "pl_channel c = pl_channel p" "pl_claim_fee_reserve c = pl_claim_fee_reserve p"
    using canonical_plan_facts(1) [OF assms] by (simp_all add: execution_plan.defs)
  ultimately have "plan_of_row (execution_plan_row_of i c now) = execution_plan.truncate c"
    by (auto simp: plan_of_row_def execution_plan_row_of_def or_empty_def execution_plan.defs Let_def
        split: option.splits)
  then show ?thesis
    using canonical_plan_again [OF assms]
    by (simp add: purchaseExecutionPlanFromRow_def execution_plan_row_of_def Let_def)
qed

end
