(* ===== verification/Evidence.thy ===== *)
theory Evidence
  imports Journal_State
begin

text \<open>
  Evidence in the journal (\<open>src/purchase/journal.ts\<close>): artifacts addressed by their digest, their
  links to Purchases and attempts, and the verifications recorded for them. \<open>evidence_intact\<close>
  stands for the evidence store: whether the file of a digest is there with a given length and
  hashes to the digest (\<open>evidenceStore.verify\<close>).
\<close>

section \<open>Lookups\<close>

definition findEvidence :: "journal \<Rightarrow> string \<Rightarrow> evidence_artifact_row option" where
  "findEvidence J digest = find_row (\<lambda>r. ea_digest r = digest) (artifacts J)"

definition requireEvidence :: "journal \<Rightarrow> string \<Rightarrow> evidence_artifact_row result" where
  "requireEvidence J digest =
     (case findEvidence J digest of None \<Rightarrow> Inl JournalNotFoundError | Some r \<Rightarrow> Inr r)"

text \<open>An attachment is a link joined with its artifact.\<close>

definition findEvidenceAttachmentForKind ::
  "journal \<Rightarrow> string \<Rightarrow> string \<Rightarrow> string \<Rightarrow> int option
    \<Rightarrow> (evidence_link_row \<times> evidence_artifact_row) option" where
  "findEvidenceAttachmentForKind J purchaseId digest kind attempt =
     (case findEvidence J digest of
        None \<Rightarrow> None
      | Some artifact \<Rightarrow>
          map_option (\<lambda>l. (l, artifact))
            (find_row (\<lambda>l. el_purchase_id l = purchaseId \<and> el_digest l = digest
                            \<and> el_kind l = kind \<and> el_attempt l = attempt) (evidence_links J)))"

definition requireEvidenceAttachment ::
  "journal \<Rightarrow> string \<Rightarrow> string \<Rightarrow> string \<Rightarrow> int option
    \<Rightarrow> (evidence_link_row \<times> evidence_artifact_row) result" where
  "requireEvidenceAttachment J purchaseId digest kind attempt =
     (case findEvidenceAttachmentForKind J purchaseId digest kind attempt of
        None \<Rightarrow> Inl JournalNotFoundError | Some a \<Rightarrow> Inr a)"

definition artifact_intact :: "(string \<Rightarrow> int \<Rightarrow> bool) \<Rightarrow> journal \<Rightarrow> string \<Rightarrow> bool" where
  "artifact_intact evidence_intact J digest \<longleftrightarrow>
     (case findEvidence J digest of
        None \<Rightarrow> False | Some artifact \<Rightarrow> evidence_intact digest (ea_byte_length artifact))"

definition evidenceLinked ::
  "(string \<Rightarrow> int \<Rightarrow> bool) \<Rightarrow> journal \<Rightarrow> string \<Rightarrow> string \<Rightarrow> string \<Rightarrow> int option \<Rightarrow> bool" where
  "evidenceLinked evidence_intact J purchaseId digest kind attempt \<longleftrightarrow>
     list_ex (\<lambda>l. el_purchase_id l = purchaseId \<and> el_digest l = digest \<and> el_kind l = kind
                  \<and> el_attempt l = attempt) (evidence_links J)
     \<and> artifact_intact evidence_intact J digest"

text \<open>
  \<open>isVerifiedEvidenceLinked\<close> with its optional filters: \<open>attempt\<close> is \<open>undefined\<close> (no
  filter), \<open>null\<close> (links of the Purchase itself) or a number.
\<close>

datatype attempt_filter = Any_attempt | No_attempt | Attempt int

definition attempt_matches :: "attempt_filter \<Rightarrow> int option \<Rightarrow> bool" where
  "attempt_matches f a =
     (case f of Any_attempt \<Rightarrow> True | No_attempt \<Rightarrow> a = None | Attempt n \<Rightarrow> a = Some n)"

definition option_matches :: "string option \<Rightarrow> string \<Rightarrow> bool" where
  "option_matches f v = (case f of None \<Rightarrow> True | Some x \<Rightarrow> v = x)"

definition isVerifiedEvidenceLinked ::
  "(string \<Rightarrow> int \<Rightarrow> bool) \<Rightarrow> journal \<Rightarrow> string \<Rightarrow> string \<Rightarrow> attempt_filter \<Rightarrow> string option
    \<Rightarrow> string option \<Rightarrow> string option \<Rightarrow> bool" where
  "isVerifiedEvidenceLinked evidence_intact J purchaseId digest attempt kind profile verifier \<longleftrightarrow>
     list_ex (\<lambda>l. el_purchase_id l = purchaseId \<and> el_digest l = digest
                  \<and> attempt_matches attempt (el_attempt l) \<and> option_matches kind (el_kind l)
                  \<and> list_ex (\<lambda>v. ev_digest v = el_digest l
                                \<and> option_matches profile (ev_profile v)
                                \<and> option_matches verifier (ev_verifier_id v))
                      (evidence_verifications J))
       (evidence_links J)
     \<and> artifact_intact evidence_intact J digest"

end
