(* ===== verification/Contracts.thy ===== *)
theory Contracts
  imports Requests Execution_Plans
begin

text \<open>
  The contracts between the Purchase module and its adapters (\<open>src/purchase/contracts.ts\<close>):
  Checkout Terms, the facts an authorization binds and their digest, the decision of an authority
  and the prepared payment. \<open>date_parse\<close> is \<open>Date.parse\<close> (\<open>None\<close> for \<open>NaN\<close>), \<open>parse_url\<close> the URL
  parser, \<open>H\<close> SHA-256 in base64url.
\<close>

section \<open>Timestamps\<close>

type_synonym date_parser = "string \<Rightarrow> int option"

record rfc3339 =
  tm_year :: nat
  tm_month :: nat
  tm_day :: nat
  tm_hour :: nat
  tm_minute :: nat
  tm_second :: nat
  tm_offset_hour :: nat
  tm_offset_minute :: nat

definition digits_at :: "nat \<Rightarrow> nat \<Rightarrow> string \<Rightarrow> nat option" where
  "digits_at i n s =
     (let d = take n (drop i s) in
      if length d = n \<and> list_all is_digit d then Some (BigInt d) else None)"

definition char_at :: "nat \<Rightarrow> string \<Rightarrow> char \<Rightarrow> bool" where
  "char_at i s c \<longleftrightarrow> i < length s \<and> s ! i = c"

text \<open>\<open>(?:Z|[+-]\d{2}:\d{2})$\<close>\<close>

definition rfc3339_zone :: "string \<Rightarrow> (nat \<times> nat) option" where
  "rfc3339_zone z =
     (if z = ''Z'' then Some (0, 0)
      else if length z = 6 \<and> (char_at 0 z (CHR ''+'') \<or> char_at 0 z (CHR ''-'')) \<and> char_at 3 z (CHR '':'')
      then (case (digits_at 1 2 z, digits_at 4 2 z) of (Some h, Some m) \<Rightarrow> Some (h, m) | _ \<Rightarrow> None)
      else None)"

text \<open>\<open>/^\d{4}-\d{2}-\d{2}T\d{2}:\d{2}:\d{2}(?:\.\d{1,9})?(?:Z|[+-]\d{2}:\d{2})$/\<close>\<close>

definition rfc3339_fields :: "string \<Rightarrow> rfc3339 option" where
  "rfc3339_fields s =
     (let rest = drop 19 s;
          fraction = takeWhile is_digit (tl rest);
          zone = (if char_at 0 rest (CHR ''.'') then dropWhile is_digit (tl rest) else rest)
      in if char_at 4 s (CHR ''-'') \<and> char_at 7 s (CHR ''-'') \<and> char_at 10 s (CHR ''T'')
            \<and> char_at 13 s (CHR '':'') \<and> char_at 16 s (CHR '':'')
            \<and> (char_at 0 rest (CHR ''.'') \<longrightarrow> fraction \<noteq> [] \<and> length fraction \<le> 9)
         then (case (digits_at 0 4 s, digits_at 5 2 s, digits_at 8 2 s, digits_at 11 2 s,
                     digits_at 14 2 s, digits_at 17 2 s, rfc3339_zone zone) of
                 (Some y, Some mo, Some d, Some h, Some mi, Some se, Some (oh, om)) \<Rightarrow>
                   Some \<lparr>tm_year = y, tm_month = mo, tm_day = d, tm_hour = h, tm_minute = mi,
                         tm_second = se, tm_offset_hour = oh, tm_offset_minute = om\<rparr>
               | _ \<Rightarrow> None)
         else None)"

definition isLeapYear :: "nat \<Rightarrow> bool" where
  "isLeapYear year \<longleftrightarrow> year mod 4 = 0 \<and> (year mod 100 \<noteq> 0 \<or> year mod 400 = 0)"

definition daysInMonth :: "nat \<Rightarrow> nat \<Rightarrow> nat" where
  "daysInMonth year month =
     (if month = 2 then (if isLeapYear year then 29 else 28)
      else if month \<in> {4, 6, 9, 11} then 30 else 31)"

definition calendar_ok :: "rfc3339 \<Rightarrow> bool" where
  "calendar_ok t \<longleftrightarrow>
     tm_year t \<noteq> 0 \<and> 1 \<le> tm_month t \<and> tm_month t \<le> 12 \<and> 1 \<le> tm_day t
     \<and> tm_day t \<le> daysInMonth (tm_year t) (tm_month t) \<and> tm_hour t \<le> 23 \<and> tm_minute t \<le> 59
     \<and> tm_second t \<le> 59 \<and> tm_offset_hour t \<le> 23 \<and> tm_offset_minute t \<le> 59"

definition requireFutureRfc3339 :: "date_parser \<Rightarrow> string \<Rightarrow> int \<Rightarrow> string result" where
  "requireFutureRfc3339 date_parse value now =
     (case rfc3339_fields value of
        None \<Rightarrow> Inl PurchaseContractError
      | Some t \<Rightarrow>
          if \<not> calendar_ok t then Inl PurchaseContractError
          else case date_parse value of
                 None \<Rightarrow> Inl PurchaseContractError
               | Some expires \<Rightarrow> if expires \<le> now then Inl PurchaseContractError else Inr value)"

text \<open>\<open>strictTimestamp\<close> of the journal, on the same pattern.\<close>

definition strictTimestamp :: "date_parser \<Rightarrow> string \<Rightarrow> int result" where
  "strictTimestamp date_parse value =
     (if rfc3339_fields value = None then Inl JournalInvariantError
      else case date_parse value of
             None \<Rightarrow> Inl JournalInvariantError
           | Some t \<Rightarrow> if \<not> is_safe_integer t \<or> t < 0 then Inl JournalInvariantError else Inr t)"

section \<open>Field checks\<close>

definition contract_check :: "bool \<Rightarrow> 'a \<Rightarrow> 'a result" where
  "contract_check c v = (if c then Inr v else Inl PurchaseContractError)"

definition requirePurchaseId :: "string \<Rightarrow> string result" where
  "requirePurchaseId value =
     (case assertPurchaseId value of Inl _ \<Rightarrow> Inl PurchaseContractError | Inr v \<Rightarrow> Inr v)"

definition requireDigest :: "string \<Rightarrow> string result" where
  "requireDigest value = contract_check (is_sha256_digest value) value"

definition requirePositiveDecimal :: "string \<Rightarrow> string result" where
  "requirePositiveDecimal value =
     contract_check (canonical_decimal value \<and> value \<noteq> ''0'' \<and> length value \<le> 78) value"

definition requireNonNegativeDecimal :: "string \<Rightarrow> string result" where
  "requireNonNegativeDecimal value =
     contract_check (canonical_decimal value \<and> length value \<le> 78) value"

definition requireBoundedIdentity :: "string \<Rightarrow> nat \<Rightarrow> string result" where
  "requireBoundedIdentity value maximumLength =
     contract_check (is_identity_path value maximumLength) value"

definition requireBoundedText :: "string \<Rightarrow> nat \<Rightarrow> string result" where
  "requireBoundedText value maximumLength =
     contract_check (value \<noteq> [] \<and> length value \<le> maximumLength \<and> \<not> list_ex is_control value
                     \<and> trim value = value) value"

definition requireCanonicalOrigin :: "url_parser \<Rightarrow> string \<Rightarrow> string result" where
  "requireCanonicalOrigin parse_url value =
     (if value = [] \<or> length value > 256 then Inl PurchaseContractError
      else case parse_url value of
             None \<Rightarrow> Inl PurchaseContractError
           | Some url \<Rightarrow>
               if (url_protocol url \<noteq> ''https:'' \<and> url_protocol url \<noteq> ''http:'')
                  \<or> url_username url \<noteq> [] \<or> url_password url \<noteq> [] \<or> value \<noteq> url_origin url
               then Inl PurchaseContractError else Inr value)"

definition canonicalResourceUrl :: "url_parser \<Rightarrow> string \<Rightarrow> string result" where
  "canonicalResourceUrl parse_url value =
     (case canonicalRequestUrl parse_url value of
        Inl _ \<Rightarrow> Inl PurchaseContractError
      | Inr canonical \<Rightarrow> contract_check (canonical = value) canonical)"

definition canonicalMethod :: "string \<Rightarrow> string result" where
  "canonicalMethod value = contract_check (is_method value) value"

text \<open>\<open>canonicalMediaType(value || undefined) ?? ""\<close> equals \<open>value\<close>\<close>

definition media_type_canonical :: "string \<Rightarrow> bool" where
  "media_type_canonical value \<longleftrightarrow>
     (case canonicalMediaType (if value = [] then None else Some value) of
        Inl _ \<Rightarrow> False
      | Inr m \<Rightarrow> (case m of None \<Rightarrow> [] | Some c \<Rightarrow> c) = value)"

definition canonicalAuthorizationMediaType :: "string \<Rightarrow> string result" where
  "canonicalAuthorizationMediaType value = contract_check (media_type_canonical value) value"

section \<open>Checkout Terms\<close>

record merchant =
  mi_id :: string
  mi_name :: string
  mi_origin :: string

record terms =
  ts_merchant :: merchant
  ts_resource_fingerprint :: string
  ts_amount :: string
  ts_asset :: string
  ts_network :: string
  ts_pay_to :: string
  ts_expires_at :: string
  ts_checkout_digest :: string

record terms_expectation =
  te_purchase_id :: string
  te_resource_fingerprint :: string
  te_merchant_id :: "string option"
  te_merchant_origin :: "string option"

definition validateMerchant :: "url_parser \<Rightarrow> merchant \<Rightarrow> merchant result" where
  "validateMerchant parse_url candidate =
     rbind (requireBoundedIdentity (mi_id candidate) 160) (\<lambda>i.
     rbind (requireBoundedText (mi_name candidate) 160) (\<lambda>name.
     rbind (requireCanonicalOrigin parse_url (mi_origin candidate)) (\<lambda>origin.
       Inr \<lparr>mi_id = i, mi_name = name, mi_origin = origin\<rparr>)))"

definition validateCheckoutTerms ::
  "url_parser \<Rightarrow> date_parser \<Rightarrow> terms_expectation \<Rightarrow> terms \<Rightarrow> int \<Rightarrow> terms result" where
  "validateCheckoutTerms parse_url date_parse expectation candidate now =
     rbind (requirePurchaseId (te_purchase_id expectation)) (\<lambda>_.
     rbind (requireDigest (te_resource_fingerprint expectation)) (\<lambda>expectedFingerprint.
     rbind (requireDigest (ts_resource_fingerprint candidate)) (\<lambda>resourceFingerprint.
     if resourceFingerprint \<noteq> expectedFingerprint then Inl PurchaseContractError
     else
     rbind (validateMerchant parse_url (ts_merchant candidate)) (\<lambda>m.
     rbind (case te_merchant_id expectation of
              None \<Rightarrow> Inr ()
            | Some e \<Rightarrow> rbind (requireBoundedIdentity e 160) (\<lambda>expected.
                contract_check (mi_id m = expected) ())) (\<lambda>_.
     rbind (case te_merchant_origin expectation of
              None \<Rightarrow> Inr ()
            | Some e \<Rightarrow> rbind (requireCanonicalOrigin parse_url e) (\<lambda>expected.
                contract_check (mi_origin m = expected) ())) (\<lambda>_.
     rbind (requirePositiveDecimal (ts_amount candidate)) (\<lambda>amountAtomic.
     rbind (requireBoundedIdentity (ts_asset candidate) 64) (\<lambda>asset.
     rbind (requireBoundedIdentity (ts_network candidate) 128) (\<lambda>network.
     rbind (requireBoundedIdentity (ts_pay_to candidate) 256) (\<lambda>payTo.
     rbind (requireFutureRfc3339 date_parse (ts_expires_at candidate) now) (\<lambda>expiresAt.
     rbind (requireDigest (ts_checkout_digest candidate)) (\<lambda>checkoutDigest.
       Inr \<lparr>ts_merchant = m, ts_resource_fingerprint = resourceFingerprint,
            ts_amount = amountAtomic, ts_asset = asset, ts_network = network, ts_pay_to = payTo,
            ts_expires_at = expiresAt, ts_checkout_digest = checkoutDigest\<rparr>))))))))))))"

definition terms_json :: "terms \<Rightarrow> json" where
  "terms_json t =
     J_object
       [(''merchant'', J_object
          [(''id'', J_string (mi_id (ts_merchant t))), (''name'', J_string (mi_name (ts_merchant t))),
           (''origin'', J_string (mi_origin (ts_merchant t)))]),
        (''resourceFingerprint'', J_string (ts_resource_fingerprint t)),
        (''amountAtomic'', J_string (ts_amount t)), (''asset'', J_string (ts_asset t)),
        (''network'', J_string (ts_network t)), (''payTo'', J_string (ts_pay_to t)),
        (''expiresAt'', J_string (ts_expires_at t)),
        (''checkoutDigest'', J_string (ts_checkout_digest t))]"

definition checkoutTermsFactsDigest :: "(string \<Rightarrow> string) \<Rightarrow> terms \<Rightarrow> string" where
  "checkoutTermsFactsDigest H t = evidenceDigest H (json_text (terms_json t))"

section \<open>Finality floors\<close>

fun floor_rank :: "finality_floor \<Rightarrow> nat" where
  "floor_rank Floor_accepted = 0"
| "floor_rank Floor_depth_confirmed = 1"

instantiation finality_floor :: linorder
begin

definition less_eq_finality_floor :: "finality_floor \<Rightarrow> finality_floor \<Rightarrow> bool" where
  "less_eq_finality_floor a b \<longleftrightarrow> floor_rank a \<le> floor_rank b"

definition less_finality_floor :: "finality_floor \<Rightarrow> finality_floor \<Rightarrow> bool" where
  "less_finality_floor a b \<longleftrightarrow> floor_rank a < floor_rank b"

instance
proof
  fix x y z :: finality_floor
  show "(x < y) = (x \<le> y \<and> \<not> y \<le> x)"
    by (auto simp: less_eq_finality_floor_def less_finality_floor_def)
  show "x \<le> x" "x \<le> y \<Longrightarrow> y \<le> z \<Longrightarrow> x \<le> z" "x \<le> y \<or> y \<le> x"
    by (auto simp: less_eq_finality_floor_def)
  show "x \<le> y \<Longrightarrow> y \<le> x \<Longrightarrow> x = y"
    by (cases x; cases y) (auto simp: less_eq_finality_floor_def)
qed

end

fun floor_name :: "finality_floor \<Rightarrow> string" where
  "floor_name Floor_accepted = ''accepted''"
| "floor_name Floor_depth_confirmed = ''depth-confirmed''"

definition chainEvidenceEffectiveFloor :: "payment_finality \<Rightarrow> finality_floor \<Rightarrow> finality_floor" where
  "chainEvidenceEffectiveFloor protocolFinality operatorFloor =
     (if protocolFinality = Fin_confirmed \<or> operatorFloor = Floor_depth_confirmed
      then Floor_depth_confirmed else Floor_accepted)"

text \<open>The effective floor is the stronger of what the Merchant and the operator ask for.\<close>

lemma effective_floor_max:
  "chainEvidenceEffectiveFloor p f
     = max (if p = Fin_confirmed then Floor_depth_confirmed else Floor_accepted) f"
  by (cases f) (auto simp: chainEvidenceEffectiveFloor_def max_def less_eq_finality_floor_def)

section \<open>The facts of an authorization\<close>

record execution_facts =
  xf_plan_digest :: string
  xf_mechanism :: mechanism
  xf_profile :: string
  xf_assurance :: assurance
  xf_maximum_charge :: string
  xf_channel_id :: "string option"
  xf_channel_epoch :: "string option"

record authorization_request = execution_facts +
  rq_purchase_id :: string
  rq_url :: string
  rq_method :: string
  rq_media_type :: string
  rq_body_digest :: string
  rq_terms :: terms
  rq_request_digest :: string
  rq_nonce_digest :: string
  rq_cost_ceiling :: string
  rq_operator_floor :: finality_floor
  rq_effective_floor :: finality_floor
  rq_depth_daa :: string
  rq_created_at :: int
  rq_expires_at :: int

record authorization_facts = execution_facts +
  af_purchase_id :: string
  af_url :: string
  af_method :: string
  af_media_type :: string
  af_body_digest :: string
  af_resource_fingerprint :: string
  af_merchant_id :: string
  af_merchant_origin :: string
  af_amount :: string
  af_asset :: string
  af_network :: string
  af_pay_to :: string
  af_expires_at :: string
  af_checkout_digest :: string
  af_request_digest :: string
  af_nonce_digest :: string
  af_cost_ceiling :: string
  af_operator_floor :: finality_floor
  af_effective_floor :: finality_floor
  af_depth_daa :: string

definition canonicalAuthorizationExecution ::
  "'a execution_facts_scheme \<Rightarrow> execution_facts result" where
  "canonicalAuthorizationExecution request =
     rbind (requireDigest (xf_plan_digest request)) (\<lambda>plan_digest.
     rbind (requireBoundedIdentity (xf_profile request) 160) (\<lambda>profile.
     rbind (requirePositiveDecimal (xf_maximum_charge request)) (\<lambda>charge.
     let facts = (\<lambda>channel epoch.
       \<lparr>xf_plan_digest = plan_digest, xf_mechanism = xf_mechanism request, xf_profile = profile,
        xf_assurance = xf_assurance request, xf_maximum_charge = charge,
        xf_channel_id = channel, xf_channel_epoch = epoch\<rparr>) in
     case xf_mechanism request of
       Single_transaction \<Rightarrow>
         if xf_assurance request = Assure_channel_commitment \<or> xf_channel_id request \<noteq> None
            \<or> xf_channel_epoch request \<noteq> None
         then Inl PurchaseContractError else Inr (facts None None)
     | Channel_voucher \<Rightarrow>
         if xf_assurance request \<noteq> Assure_channel_commitment then Inl PurchaseContractError
         else case (xf_channel_id request, xf_channel_epoch request) of
                (Some channel, Some epoch) \<Rightarrow>
                  rbind (requireBoundedIdentity channel 160) (\<lambda>c.
                  rbind (requireDigest epoch) (\<lambda>e. Inr (facts (Some c) (Some e))))
              | _ \<Rightarrow> Inl PurchaseContractError)))"

text \<open>The floor a request or a candidate states must be the effective one.\<close>

definition floor_checked :: "assurance \<Rightarrow> finality_floor \<Rightarrow> finality_floor \<Rightarrow> unit result" where
  "floor_checked assured operator effective =
     contract_check
       (effective = chainEvidenceEffectiveFloor (purchaseExecutionProtocolFinality assured) operator) ()"

definition authorizationFacts ::
  "url_parser \<Rightarrow> date_parser \<Rightarrow> authorization_request \<Rightarrow> authorization_facts result" where
  "authorizationFacts parse_url date_parse request =
     (let t = rq_terms request in
     rbind (requirePurchaseId (rq_purchase_id request)) (\<lambda>purchaseId.
     rbind (canonicalResourceUrl parse_url (rq_url request)) (\<lambda>url.
     rbind (canonicalMethod (rq_method request)) (\<lambda>method.
     if \<not> is_safe_integer (rq_expires_at request) \<or> rq_expires_at request \<le> 0
     then Inl PurchaseContractError
     else if \<not> is_safe_integer (rq_created_at request) \<or> rq_created_at request \<le> 0
             \<or> rq_created_at request \<ge> rq_expires_at request
     then Inl PurchaseContractError
     else if (case date_parse (ts_expires_at t) of None \<Rightarrow> False
              | Some e \<Rightarrow> rq_expires_at request > e)
     then Inl PurchaseContractError
     else
     rbind (canonicalAuthorizationExecution request) (\<lambda>execution.
     rbind (floor_checked (xf_assurance execution) (rq_operator_floor request)
              (rq_effective_floor request)) (\<lambda>_.
     rbind (canonicalAuthorizationMediaType (rq_media_type request)) (\<lambda>mediaType.
     rbind (requireDigest (rq_body_digest request)) (\<lambda>bodyDigest.
     rbind (requireDigest (ts_resource_fingerprint t)) (\<lambda>fingerprint.
     rbind (requireBoundedIdentity (mi_id (ts_merchant t)) 160) (\<lambda>merchantId.
     rbind (requireCanonicalOrigin parse_url (mi_origin (ts_merchant t))) (\<lambda>merchantOrigin.
     rbind (requirePositiveDecimal (ts_amount t)) (\<lambda>amount.
     rbind (requireBoundedIdentity (ts_asset t) 64) (\<lambda>asset.
     rbind (requireBoundedIdentity (ts_network t) 128) (\<lambda>network.
     rbind (requireBoundedIdentity (ts_pay_to t) 256) (\<lambda>payTo.
     rbind (requireDigest (ts_checkout_digest t)) (\<lambda>checkoutDigest.
     rbind (requireDigest (rq_request_digest request)) (\<lambda>requestDigest.
     rbind (requireDigest (rq_nonce_digest request)) (\<lambda>nonceDigest.
     rbind (requireNonNegativeDecimal (rq_cost_ceiling request)) (\<lambda>ceiling.
     rbind (requirePositiveDecimal (rq_depth_daa request)) (\<lambda>depth.
     Inr (execution_facts.extend execution
       (authorization_facts.fields purchaseId url method mediaType bodyDigest fingerprint merchantId
          merchantOrigin amount asset network payTo (ts_expires_at t) checkoutDigest requestDigest
          nonceDigest ceiling (rq_operator_floor request) (rq_effective_floor request)
          depth))))))))))))))))))))))"

definition authorization_facts_json :: "authorization_facts \<Rightarrow> json" where
  "authorization_facts_json f =
     J_object
       ([(''purchaseId'', J_string (af_purchase_id f)), (''resourceUrl'', J_string (af_url f)),
         (''method'', J_string (af_method f)), (''requestMediaType'', J_string (af_media_type f)),
         (''requestBodyDigest'', J_string (af_body_digest f)),
         (''resourceFingerprint'', J_string (af_resource_fingerprint f)),
         (''merchantId'', J_string (af_merchant_id f)),
         (''merchantOrigin'', J_string (af_merchant_origin f)),
         (''amountAtomic'', J_string (af_amount f)), (''asset'', J_string (af_asset f)),
         (''network'', J_string (af_network f)), (''payTo'', J_string (af_pay_to f)),
         (''expiresAt'', J_string (af_expires_at f)),
         (''checkoutDigest'', J_string (af_checkout_digest f)),
         (''requestDigest'', J_string (af_request_digest f)),
         (''nonceDigest'', J_string (af_nonce_digest f)),
         (''additionalCostCeilingAtomic'', J_string (af_cost_ceiling f)),
         (''operatorFinalityFloor'', J_string (floor_name (af_operator_floor f))),
         (''effectiveFinalityFloor'', J_string (floor_name (af_effective_floor f))),
         (''depthConfirmationDaa'', J_string (af_depth_daa f)),
         (''executionPlanDigest'', J_string (xf_plan_digest f)),
         (''executionMechanism'', J_string (mechanism_name (xf_mechanism f))),
         (''executionProfile'', J_string (xf_profile f)),
         (''settlementAssurance'', J_string (assurance_name (xf_assurance f))),
         (''maximumAuthorizedChargeAtomic'', J_string (xf_maximum_charge f))]
        @ optional_field ''channelId'' (map_option J_string (xf_channel_id f))
        @ optional_field ''channelEpochDigest'' (map_option J_string (xf_channel_epoch f)))"

definition authorizationFactsDigest ::
  "(string \<Rightarrow> string) \<Rightarrow> url_parser \<Rightarrow> date_parser \<Rightarrow> authorization_request \<Rightarrow> string result" where
  "authorizationFactsDigest H parse_url date_parse request =
     rbind (authorizationFacts parse_url date_parse request) (\<lambda>facts.
       Inr (evidenceDigest H (json_text (authorization_facts_json facts))))"

section \<open>Decisions\<close>

record authorization_decision =
  dd_purchase_id :: string
  dd_checkout_digest :: string
  dd_decision :: purchase_decision
  dd_authority_id :: string
  dd_evidence_digest :: string
  dd_facts :: authorization_facts

definition validateAuthorizationFacts ::
  "url_parser \<Rightarrow> authorization_facts \<Rightarrow> authorization_facts result" where
  "validateAuthorizationFacts parse_url candidate =
     rbind (canonicalAuthorizationExecution candidate) (\<lambda>execution.
     rbind (floor_checked (xf_assurance execution) (af_operator_floor candidate)
              (af_effective_floor candidate)) (\<lambda>_.
     rbind (requirePurchaseId (af_purchase_id candidate)) (\<lambda>purchaseId.
     rbind (canonicalResourceUrl parse_url (af_url candidate)) (\<lambda>url.
     rbind (canonicalMethod (af_method candidate)) (\<lambda>method.
     rbind (canonicalAuthorizationMediaType (af_media_type candidate)) (\<lambda>mediaType.
     rbind (requireDigest (af_body_digest candidate)) (\<lambda>bodyDigest.
     rbind (requireDigest (af_resource_fingerprint candidate)) (\<lambda>fingerprint.
     rbind (requireBoundedIdentity (af_merchant_id candidate) 160) (\<lambda>merchantId.
     rbind (requireCanonicalOrigin parse_url (af_merchant_origin candidate)) (\<lambda>merchantOrigin.
     rbind (requirePositiveDecimal (af_amount candidate)) (\<lambda>amount.
     rbind (requireBoundedIdentity (af_asset candidate) 64) (\<lambda>asset.
     rbind (requireBoundedIdentity (af_network candidate) 128) (\<lambda>network.
     rbind (requireBoundedIdentity (af_pay_to candidate) 256) (\<lambda>payTo.
     rbind (requireDigest (af_checkout_digest candidate)) (\<lambda>checkoutDigest.
     rbind (requireDigest (af_request_digest candidate)) (\<lambda>requestDigest.
     rbind (requireDigest (af_nonce_digest candidate)) (\<lambda>nonceDigest.
     rbind (requireNonNegativeDecimal (af_cost_ceiling candidate)) (\<lambda>ceiling.
     rbind (requirePositiveDecimal (af_depth_daa candidate)) (\<lambda>depth.
     Inr (execution_facts.extend execution
       (authorization_facts.fields purchaseId url method mediaType bodyDigest fingerprint merchantId
          merchantOrigin amount asset network payTo (af_expires_at candidate) checkoutDigest
          requestDigest nonceDigest ceiling (af_operator_floor candidate)
          (af_effective_floor candidate) depth)))))))))))))))))))))"

text \<open>\<open>candidateFacts[key] === expectedFacts[key]\<close> for every key of the expected facts\<close>

definition agrees_where_present :: "'a option \<Rightarrow> 'a option \<Rightarrow> bool" where
  "agrees_where_present expected actual \<longleftrightarrow> expected = None \<or> actual = expected"

definition facts_agree :: "authorization_facts \<Rightarrow> authorization_facts \<Rightarrow> bool" where
  "facts_agree expected candidate \<longleftrightarrow>
     candidate\<lparr>xf_channel_id := None, xf_channel_epoch := None\<rparr>
       = expected\<lparr>xf_channel_id := None, xf_channel_epoch := None\<rparr>
     \<and> agrees_where_present (xf_channel_id expected) (xf_channel_id candidate)
     \<and> agrees_where_present (xf_channel_epoch expected) (xf_channel_epoch candidate)"

definition validateAuthorizationDecision ::
  "url_parser \<Rightarrow> date_parser \<Rightarrow> authorization_request \<Rightarrow> authorization_decision
    \<Rightarrow> authorization_decision result" where
  "validateAuthorizationDecision parse_url date_parse request candidate =
     rbind (requirePurchaseId (dd_purchase_id candidate)) (\<lambda>purchaseId.
     rbind (requirePurchaseId (rq_purchase_id request)) (\<lambda>requested.
     if purchaseId \<noteq> requested then Inl PurchaseContractError
     else
     rbind (requireDigest (dd_checkout_digest candidate)) (\<lambda>checkoutDigest.
     if checkoutDigest \<noteq> ts_checkout_digest (rq_terms request) then Inl PurchaseContractError
     else if dd_decision candidate \<noteq> Dec_approved \<and> dd_decision candidate \<noteq> Dec_denied
     then Inl PurchaseContractError
     else
     rbind (authorizationFacts parse_url date_parse request) (\<lambda>expectedFacts.
     rbind (validateAuthorizationFacts parse_url (dd_facts candidate)) (\<lambda>candidateFacts.
     if \<not> facts_agree expectedFacts candidateFacts then Inl PurchaseContractError
     else
     rbind (requireBoundedIdentity (dd_authority_id candidate) 160) (\<lambda>authorityId.
     rbind (requireDigest (dd_evidence_digest candidate)) (\<lambda>evidence.
     Inr \<lparr>dd_purchase_id = purchaseId, dd_checkout_digest = checkoutDigest,
          dd_decision = dd_decision candidate, dd_authority_id = authorityId,
          dd_evidence_digest = evidence, dd_facts = candidateFacts\<rparr>)))))))"

section \<open>Prepared payments\<close>

record prepared_payment =
  py_purchase_id :: string
  py_checkout_digest :: string
  py_resource_fingerprint :: string
  py_amount :: string
  py_asset :: string
  py_network :: string
  py_pay_to :: string
  py_payment_identifier :: string
  py_execution_id :: string
  py_prepared_digest :: string
  py_funding_source :: string

record execution_request =
  xq_purchase_id :: string
  xq_terms :: terms
  xq_request :: authorization_request
  xq_authorization :: authorization_decision
  xq_payment_identifier :: string

definition validatePreparedPayment ::
  "url_parser \<Rightarrow> date_parser \<Rightarrow> execution_request \<Rightarrow> prepared_payment \<Rightarrow> int
    \<Rightarrow> prepared_payment result" where
  "validatePreparedPayment parse_url date_parse request candidate now =
     rbind (requirePurchaseId (xq_purchase_id request)) (\<lambda>purchaseId.
     rbind (validateAuthorizationDecision parse_url date_parse (xq_request request)
              (xq_authorization request)) (\<lambda>authorization.
     if rq_purchase_id (xq_request request) \<noteq> purchaseId
        \<or> ts_checkout_digest (rq_terms (xq_request request)) \<noteq> ts_checkout_digest (xq_terms request)
     then Inl PurchaseContractError
     else if dd_decision authorization \<noteq> Dec_approved then Inl PurchaseContractError
     else
     rbind (requireFutureRfc3339 date_parse (ts_expires_at (xq_terms request)) now) (\<lambda>_.
     rbind (requirePurchaseId (py_purchase_id candidate)) (\<lambda>_.
     rbind (requireDigest (py_checkout_digest candidate)) (\<lambda>_.
     rbind (requireDigest (py_resource_fingerprint candidate)) (\<lambda>_.
     rbind (requirePositiveDecimal (py_amount candidate)) (\<lambda>_.
     rbind (requireBoundedIdentity (py_asset candidate) 64) (\<lambda>_.
     rbind (requireBoundedIdentity (py_network candidate) 128) (\<lambda>_.
     rbind (requireBoundedIdentity (py_pay_to candidate) 256) (\<lambda>_.
     rbind (requireBoundedIdentity (py_execution_id candidate) 160) (\<lambda>_.
     rbind (requireDigest (py_prepared_digest candidate)) (\<lambda>_.
     rbind (contract_check (py_funding_source candidate = ''vault-treasury'') ()) (\<lambda>_.
     rbind (requireBoundedIdentity (py_payment_identifier candidate) 160) (\<lambda>_.
     let t = xq_terms request in
     if py_purchase_id candidate = purchaseId
        \<and> py_checkout_digest candidate = ts_checkout_digest t
        \<and> py_resource_fingerprint candidate = ts_resource_fingerprint t
        \<and> py_amount candidate = ts_amount t \<and> py_asset candidate = ts_asset t
        \<and> py_network candidate = ts_network t \<and> py_pay_to candidate = ts_pay_to t
        \<and> py_payment_identifier candidate = xq_payment_identifier request
     then Inr candidate else Inl PurchaseContractError))))))))))))))"

section \<open>What the contracts establish\<close>

lemma contract_check_eq [simp]: "contract_check c v = Inr w \<longleftrightarrow> c \<and> w = v"
  by (auto simp: contract_check_def)

lemma requirePurchaseId_eq [simp]: "requirePurchaseId v = Inr w \<longleftrightarrow> is_purchase_id v \<and> w = v"
  by (auto simp: requirePurchaseId_def assertPurchaseId_def)

lemma requireDigest_eq [simp]: "requireDigest v = Inr w \<longleftrightarrow> is_sha256_digest v \<and> w = v"
  by (auto simp: requireDigest_def)

lemma requireBoundedIdentity_eq [simp]:
  "requireBoundedIdentity v n = Inr w \<longleftrightarrow> is_identity_path v n \<and> w = v"
  by (auto simp: requireBoundedIdentity_def)

lemma requireDecimal_eq [simp]:
  "requirePositiveDecimal v = Inr w \<longleftrightarrow> canonical_decimal v \<and> v \<noteq> ''0'' \<and> length v \<le> 78 \<and> w = v"
  "requireNonNegativeDecimal v = Inr w \<longleftrightarrow> canonical_decimal v \<and> length v \<le> 78 \<and> w = v"
  by (auto simp: requirePositiveDecimal_def requireNonNegativeDecimal_def)

lemma canonical_checks_eq [simp]:
  "canonicalMethod v = Inr w \<longleftrightarrow> is_method v \<and> w = v"
  "canonicalAuthorizationMediaType v = Inr w \<longleftrightarrow> media_type_canonical v \<and> w = v"
  "canonicalResourceUrl p v = Inr w \<longleftrightarrow> canonicalRequestUrl p v = Inr v \<and> w = v"
  by (auto simp: canonicalMethod_def canonicalAuthorizationMediaType_def canonicalResourceUrl_def
      split: sum.splits)

definition origin_ok :: "url_parser \<Rightarrow> string \<Rightarrow> bool" where
  "origin_ok p v \<longleftrightarrow> requireCanonicalOrigin p v = Inr v"

lemma requireCanonicalOrigin_eq [simp]:
  "requireCanonicalOrigin p v = Inr w \<longleftrightarrow> origin_ok p v \<and> w = v"
  by (auto simp: origin_ok_def requireCanonicalOrigin_def split: option.splits if_splits)

definition execution_ok :: "'a execution_facts_scheme \<Rightarrow> bool" where
  "execution_ok r \<longleftrightarrow>
     is_sha256_digest (xf_plan_digest r) \<and> is_identity_path (xf_profile r) 160
     \<and> canonical_decimal (xf_maximum_charge r) \<and> xf_maximum_charge r \<noteq> ''0''
     \<and> length (xf_maximum_charge r) \<le> 78
     \<and> (case xf_mechanism r of
          Single_transaction \<Rightarrow>
            xf_assurance r \<noteq> Assure_channel_commitment \<and> xf_channel_id r = None
            \<and> xf_channel_epoch r = None
        | Channel_voucher \<Rightarrow>
            xf_assurance r = Assure_channel_commitment
            \<and> (\<exists>c e. xf_channel_id r = Some c \<and> xf_channel_epoch r = Some e
                   \<and> is_identity_path c 160 \<and> is_sha256_digest e))"

lemma execution_eq [simp]:
  "canonicalAuthorizationExecution r = Inr x \<longleftrightarrow> execution_ok r \<and> x = execution_facts.truncate r"
  by (cases "xf_mechanism r"; cases "xf_channel_id r"; cases "xf_channel_epoch r")
    (auto simp: canonicalAuthorizationExecution_def execution_ok_def execution_facts.defs Let_def)

lemma floor_checked_eq [simp]:
  "floor_checked a p e = Inr u \<longleftrightarrow>
     e = chainEvidenceEffectiveFloor (purchaseExecutionProtocolFinality a) p"
  by (simp add: floor_checked_def)

text \<open>Validated facts are the candidate's facts, unchanged.\<close>

lemma validated_facts_same:
  assumes "validateAuthorizationFacts p c = Inr f"
  shows "f = c" and "execution_ok c"
proof -
  have "execution_ok c \<and> f = execution_facts.extend (execution_facts.truncate c)
      (authorization_facts.fields (af_purchase_id c) (af_url c) (af_method c) (af_media_type c)
        (af_body_digest c) (af_resource_fingerprint c) (af_merchant_id c) (af_merchant_origin c)
        (af_amount c) (af_asset c) (af_network c) (af_pay_to c) (af_expires_at c)
        (af_checkout_digest c) (af_request_digest c) (af_nonce_digest c) (af_cost_ceiling c)
        (af_operator_floor c) (af_effective_floor c) (af_depth_daa c))"
    using assms unfolding validateAuthorizationFacts_def by auto
  then show "f = c" "execution_ok c"
    by (simp_all add: execution_facts.defs authorization_facts.defs)
qed

lemma truncate_assurance: "xf_assurance (execution_facts.truncate r) = xf_assurance r"
  by (simp add: execution_facts.defs)

text \<open>What a request's facts are, and what holds of them.\<close>

lemma request_facts:
  assumes "authorizationFacts p d r = Inr f"
  shows "execution_ok f" and "af_amount f = ts_amount (rq_terms r)"
    and "af_pay_to f = ts_pay_to (rq_terms r)" and "af_purchase_id f = rq_purchase_id r"
    and "af_checkout_digest f = ts_checkout_digest (rq_terms r)"
    and "xf_maximum_charge f = xf_maximum_charge r" and "xf_plan_digest f = xf_plan_digest r"
    and "af_cost_ceiling f = rq_cost_ceiling r" and "af_url f = rq_url r"
    and "af_body_digest f = rq_body_digest r" and "af_request_digest f = rq_request_digest r"
    and "af_effective_floor f = rq_effective_floor r"
    and "rq_effective_floor r
      = chainEvidenceEffectiveFloor (purchaseExecutionProtocolFinality (xf_assurance r))
          (rq_operator_floor r)"
proof -
  have ext: "execution_ok (execution_facts.extend (execution_facts.truncate r) m) \<longleftrightarrow> execution_ok r" for m
    unfolding execution_ok_def execution_facts.defs execution_facts.select_convs ..
  have f: "execution_ok r \<and> f = execution_facts.extend (execution_facts.truncate r)
      (authorization_facts.fields (rq_purchase_id r) (rq_url r) (rq_method r) (rq_media_type r)
        (rq_body_digest r) (ts_resource_fingerprint (rq_terms r)) (mi_id (ts_merchant (rq_terms r)))
        (mi_origin (ts_merchant (rq_terms r))) (ts_amount (rq_terms r)) (ts_asset (rq_terms r))
        (ts_network (rq_terms r)) (ts_pay_to (rq_terms r)) (ts_expires_at (rq_terms r))
        (ts_checkout_digest (rq_terms r)) (rq_request_digest r) (rq_nonce_digest r)
        (rq_cost_ceiling r) (rq_operator_floor r)
        (chainEvidenceEffectiveFloor (purchaseExecutionProtocolFinality (xf_assurance r))
          (rq_operator_floor r)) (rq_depth_daa r))
     \<and> rq_effective_floor r
         = chainEvidenceEffectiveFloor (purchaseExecutionProtocolFinality (xf_assurance r))
             (rq_operator_floor r)"
    using assms unfolding authorizationFacts_def Let_def
    by (simp add: truncate_assurance split: if_splits)
      (elim conjE, simp only:)
  show "execution_ok f"
    unfolding conjunct1 [OF conjunct2 [OF f]] ext using conjunct1 [OF f] .
  show "af_amount f = ts_amount (rq_terms r)" "af_pay_to f = ts_pay_to (rq_terms r)"
    "af_purchase_id f = rq_purchase_id r" "af_checkout_digest f = ts_checkout_digest (rq_terms r)"
    "xf_maximum_charge f = xf_maximum_charge r" "xf_plan_digest f = xf_plan_digest r"
    "af_cost_ceiling f = rq_cost_ceiling r" "af_url f = rq_url r"
    "af_body_digest f = rq_body_digest r" "af_request_digest f = rq_request_digest r"
    "af_effective_floor f = rq_effective_floor r"
    "rq_effective_floor r
      = chainEvidenceEffectiveFloor (purchaseExecutionProtocolFinality (xf_assurance r))
          (rq_operator_floor r)"
    unfolding conjunct1 [OF conjunct2 [OF f]] using conjunct2 [OF conjunct2 [OF f]]
    by (simp_all only: execution_facts.defs authorization_facts.defs execution_facts.select_convs
        authorization_facts.select_convs)
qed

text \<open>
  A decision is only accepted for exactly the facts of the request: the comparison skips the
  channel keys an expected single transaction does not have, and the candidate cannot have them
  either.
\<close>

lemma decision_facts_exact:
  assumes "validateAuthorizationDecision p d r c = Inr c'"
  shows "authorizationFacts p d r = Inr (dd_facts c)" and "c' = c"
    and "dd_decision c \<in> {Dec_approved, Dec_denied}"
    and "dd_checkout_digest c = ts_checkout_digest (rq_terms r)"
    and "dd_purchase_id c = rq_purchase_id r"
proof -
  obtain e f where e: "authorizationFacts p d r = Inr e"
    and vf: "validateAuthorizationFacts p (dd_facts c) = Inr f" and agreef: "facts_agree e f"
    and c'f: "c' = c\<lparr>dd_facts := f\<rparr>" and dec: "dd_decision c \<in> {Dec_approved, Dec_denied}"
    and ids: "dd_checkout_digest c = ts_checkout_digest (rq_terms r)"
      "dd_purchase_id c = rq_purchase_id r"
    using assms unfolding validateAuthorizationDecision_def by auto
  note same = validated_facts_same(1) [OF vf]
  note v = vf [unfolded same] and agree = agreef [unfolded same]
  have c': "c' = c" using c'f same by simp
  have ok: "execution_ok e" "execution_ok (dd_facts c)"
    using request_facts(1) [OF e] validated_facts_same(2) [OF v] by blast+
  have m: "xf_mechanism (dd_facts c) = xf_mechanism e"
    using agree by (cases "dd_facts c"; cases e) (simp add: facts_agree_def)
  have "xf_channel_id (dd_facts c) = xf_channel_id e"
    "xf_channel_epoch (dd_facts c) = xf_channel_epoch e"
    using agree ok m
    by (cases "xf_mechanism e"; auto simp: execution_ok_def facts_agree_def agrees_where_present_def)+
  then have "dd_facts c = e"
    using agree by (cases "dd_facts c"; cases e) (simp add: facts_agree_def)
  with e show "authorizationFacts p d r = Inr (dd_facts c)" by simp
  show "c' = c" "dd_decision c \<in> {Dec_approved, Dec_denied}"
    "dd_checkout_digest c = ts_checkout_digest (rq_terms r)" "dd_purchase_id c = rq_purchase_id r"
    using c' dec ids by blast+
qed

lemma prepared_payment_matches:
  assumes "validatePreparedPayment p d q y now = Inr y'"
  shows "y' = y" and "py_amount y = ts_amount (xq_terms q)" and "py_pay_to y = ts_pay_to (xq_terms q)"
    and "py_purchase_id y = xq_purchase_id q"
    and "py_payment_identifier y = xq_payment_identifier q"
    and "dd_decision (xq_authorization q) = Dec_approved"
    and "authorizationFacts p d (xq_request q) = Inr (dd_facts (xq_authorization q))"
  using assms decision_facts_exact [of p d "xq_request q" "xq_authorization q"]
  unfolding validatePreparedPayment_def Let_def by auto

section \<open>What a digest of facts binds\<close>

lemma floor_name_inj: "floor_name a = floor_name b \<Longrightarrow> a = b"
  by (cases a; cases b) auto

lemma facts_json_inj:
  assumes "authorization_facts_json f = authorization_facts_json g"
    and "xf_channel_id f = None \<longleftrightarrow> xf_channel_epoch f = None"
    and "xf_channel_id g = None \<longleftrightarrow> xf_channel_epoch g = None"
  shows "f = g"
  using assms mechanism_name_inj [of "xf_mechanism f" "xf_mechanism g"]
    assurance_name_inj [of "xf_assurance f" "xf_assurance g"]
    floor_name_inj [of "af_operator_floor f" "af_operator_floor g"]
    floor_name_inj [of "af_effective_floor f" "af_effective_floor g"]
  unfolding authorization_facts_json_def
  by (intro authorization_facts.equality) (auto simp: optional_field_def split: option.splits)

lemma execution_ok_channel: "execution_ok f \<Longrightarrow> xf_channel_id f = None \<longleftrightarrow> xf_channel_epoch f = None"
  by (cases "xf_mechanism f") (auto simp: execution_ok_def)

text \<open>Equal digests are of equal facts, or exhibit a collision of the hash.\<close>

lemma facts_digest_binds:
  assumes "authorizationFactsDigest H p d r = Inr x" and "authorizationFactsDigest H p d r' = Inr x"
  obtains f g where "authorizationFacts p d r = Inr f" and "authorizationFacts p d r' = Inr g"
    and "f = g \<or> collision H (json_text (authorization_facts_json f))
                    (json_text (authorization_facts_json g))"
proof -
  obtain f g where f: "authorizationFacts p d r = Inr f" and g: "authorizationFacts p d r' = Inr g"
    and eq: "H (json_text (authorization_facts_json f)) = H (json_text (authorization_facts_json g))"
    using assms by (auto simp: authorizationFactsDigest_def evidenceDigest_def)
  show ?thesis
  proof (cases "json_text (authorization_facts_json f) = json_text (authorization_facts_json g)")
    case True
    have "f = g"
      using facts_json_inj [OF json_text_inj [OF True]] execution_ok_channel
        request_facts(1) [OF f] request_facts(1) [OF g] by blast
    with that [OF f g] show ?thesis by simp
  next
    case False
    with that [OF f g] eq show ?thesis unfolding collision_def by blast
  qed
qed

text \<open>The same for Checkout Terms.\<close>

lemma terms_digest_binds:
  assumes "checkoutTermsFactsDigest H t = checkoutTermsFactsDigest H u"
  shows "t = u \<or> collision H (json_text (terms_json t)) (json_text (terms_json u))"
proof (cases "json_text (terms_json t) = json_text (terms_json u)")
  case True
  from json_text_inj [OF this] have "t = u"
    by (intro terms.equality merchant.equality) (auto simp: terms_json_def)
  then show ?thesis ..
next
  case False
  then show ?thesis
    using assms by (auto simp: checkoutTermsFactsDigest_def evidenceDigest_def collision_def)
qed

end
