(* ===== verification/Treasury_Capacity.thy ===== *)
theory Treasury_Capacity
  imports Policies
begin

text \<open>
  The rolling-hour capacity of the treasury policy (\<open>src/purchase/journal.ts\<close>): what the
  open reservations, the settlements and recovery costs of the last hour and the direct
  Treasury Operations use of it (\<open>policyCapacityUsedInternal\<close>), the guard on a direct
  movement (\<open>assertDirectTreasuryCapacity\<close>), and the Treasury Reservations of Purchases
  (\<open>reservePolicy\<close>, \<open>releaseActiveReservation\<close>, \<open>expireReservations\<close>).
\<close>

section \<open>Capacity in use\<close>

definition reservation_counted :: "int \<Rightarrow> reservation_row \<Rightarrow> bool" where
  "reservation_counted now r \<longleftrightarrow>
     (rs_state r = Res_active \<and> rs_expires_at r > now) \<or> rs_state r = Res_in_flight"

definition reservation_cost :: "reservation_row \<Rightarrow> nat" where
  "reservation_cost r = BigInt (rs_amount r) + BigInt (rs_additional_cost_ceiling r)"

definition settlement_cost :: "settlement_row \<Rightarrow> nat" where
  "settlement_cost r = BigInt (st_amount r) + BigInt (st_additional_cost r)"

text \<open>Returned principal and refunds do not count as spending; their fees do.\<close>

definition fee_only :: "treasury_kind \<Rightarrow> bool" where
  "fee_only kind \<longleftrightarrow> kind = Vault_deposit \<or> kind = Batch_refund"

definition operation_open :: "treasury_operation_row \<Rightarrow> bool" where
  "operation_open r \<longleftrightarrow>
     op_state r \<in> {Op_intent, Op_prepared, Op_submission_planned, Op_submitted, Op_observed}"

definition operation_counted :: "string option \<Rightarrow> int \<Rightarrow> treasury_operation_row \<Rightarrow> bool" where
  "operation_counted excludeOperationKey cutoff r \<longleftrightarrow>
     op_key r \<noteq> (case excludeOperationKey of None \<Rightarrow> '''' | Some k \<Rightarrow> k)
     \<and> (operation_open r
        \<or> op_state r = Op_completed
          \<and> (case op_completed_at r of None \<Rightarrow> False | Some t \<Rightarrow> cutoff \<le> t))"

definition operation_amount :: "treasury_operation_row \<Rightarrow> nat" where
  "operation_amount r =
     (if fee_only (op_kind r) then 0
      else case op_resolved_amount r of
             Some a \<Rightarrow> BigInt a
           | None \<Rightarrow> if op_requested_amount r = ''max'' then 0 else BigInt (op_requested_amount r))"

definition operation_fee :: "treasury_operation_row \<Rightarrow> nat" where
  "operation_fee r =
     (if op_state r = Op_completed
      then (case op_fee r of Some f \<Rightarrow> BigInt f | None \<Rightarrow> BigInt (op_fee_ceiling r))
      else BigInt (op_fee_ceiling r))"

definition operation_cost :: "treasury_operation_row \<Rightarrow> nat" where
  "operation_cost r = operation_amount r + operation_fee r"

definition policyCapacityUsedInternal :: "journal \<Rightarrow> int \<Rightarrow> string option \<Rightarrow> nat" where
  "policyCapacityUsedInternal J now excludeOperationKey =
     (let cutoff = now - HOUR in
      sum_where (reservation_counted now) reservation_cost (reservations J)
      + sum_where (\<lambda>s. cutoff \<le> st_observed_at s) settlement_cost (settlements J)
      + sum_where (\<lambda>r. cutoff \<le> ra_observed_at r) (\<lambda>r. BigInt (ra_additional_cost r)) (recoveries J)
      + sum_where (operation_counted excludeOperationKey cutoff) operation_cost (operations J))"

definition treasuryOperationSpentLastHour :: "journal \<Rightarrow> int \<Rightarrow> nat result" where
  "treasuryOperationSpentLastHour J clock =
     rbind (timestamp clock) (\<lambda>now.
       Inr (sum_where
             (\<lambda>r. op_state r = Op_completed
                  \<and> (case op_completed_at r of None \<Rightarrow> False | Some t \<Rightarrow> now - HOUR \<le> t))
             (\<lambda>r. (if fee_only (op_kind r) then 0
                   else case op_resolved_amount r of Some a \<Rightarrow> BigInt a | None \<Rightarrow> 0)
                  + (case op_fee r of Some f \<Rightarrow> BigInt f | None \<Rightarrow> 0))
             (operations J)))"

definition expireReservationsInternal :: "journal \<Rightarrow> int \<Rightarrow> journal" where
  "expireReservationsInternal J now =
     J\<lparr>reservations := update_rows (\<lambda>r. rs_state r = Res_active \<and> rs_expires_at r \<le> now)
         (\<lambda>r. r\<lparr>rs_state := Res_expired, rs_updated_at := now\<rparr>) (reservations J)\<rparr>"

definition expireReservations :: "journal \<Rightarrow> int \<Rightarrow> (journal \<times> nat) result" where
  "expireReservations J clock =
     rbind (timestamp clock) (\<lambda>now.
       Inr (expireReservationsInternal J now,
            changes (\<lambda>r. rs_state r = Res_active \<and> rs_expires_at r \<le> now) (reservations J)))"

text \<open>\<open>policyCapacityUsed\<close> and \<open>treasuryPolicyCapacityUsed\<close> have the same body.\<close>

definition policyCapacityUsed :: "journal \<Rightarrow> int \<Rightarrow> (journal \<times> nat) result" where
  "policyCapacityUsed J clock =
     rbind (timestamp clock) (\<lambda>now.
       let J1 = expireReservationsInternal J now
       in Inr (J1, policyCapacityUsedInternal J1 now None))"

definition treasuryPendingCapacityUsed :: "journal \<Rightarrow> int \<Rightarrow> (journal \<times> nat) result" where
  "treasuryPendingCapacityUsed J clock =
     rbind (timestamp clock) (\<lambda>now.
       let J1 = expireReservationsInternal J now
       in Inr (J1,
            sum_where (reservation_counted now) reservation_cost (reservations J1)
            + sum_where operation_open (\<lambda>r. operation_amount r + BigInt (op_fee_ceiling r))
                (operations J1)))"

section \<open>The guard on a direct movement\<close>

definition assertDirectTreasuryCapacity ::
  "journal \<Rightarrow> policy_snapshot \<Rightarrow> treasury_kind \<Rightarrow> string \<Rightarrow> string \<Rightarrow> string \<Rightarrow> int
    \<Rightarrow> string option \<Rightarrow> unit result" where
  "assertDirectTreasuryCapacity J policy kind destination amountAtomic feeAtomic now
       excludeOperationKey =
     (if \<not> fee_only kind \<and> pol_allowlist policy \<noteq> []
         \<and> destination \<notin> set (pol_allowlist policy)
      then Inl PolicyReservationError
      else
      rbind (decimalBigInt amountAtomic (kind = Vault_deposit)) (\<lambda>amount.
      rbind (decimalBigInt feeAtomic True) (\<lambda>fee.
      let policyAmount = (if fee_only kind then 0 else amount);
          gross = policyAmount + fee in
      rbind (decimalBigInt (pol_max_per_payment policy) False) (\<lambda>maxPerPayment.
      rbind (decimalBigInt (pol_max_per_hour policy) False) (\<lambda>maxPerHour.
        if policyAmount > maxPerPayment then Inl PolicyReservationError
        else if policyCapacityUsedInternal J now excludeOperationKey + gross > maxPerHour
        then Inl PolicyReservationError
        else Inr ())))))"

record operation_preflight =
  pf_kind :: treasury_kind
  pf_destination :: string
  pf_amount :: string
  pf_fee_ceiling :: string
  pf_policy_digest :: string

definition validateTreasuryOperationPreflight :: "operation_preflight \<Rightarrow> unit result" where
  "validateTreasuryOperationPreflight i =
     rbind (assertBoundedText (pf_destination i) 300) (\<lambda>_.
     rbind (decimalBigInt (pf_amount i) (pf_kind i = Vault_deposit)) (\<lambda>_.
     rbind (decimalBigInt (pf_fee_ceiling i) True) (\<lambda>_.
     assertDigest (pf_policy_digest i))))"

definition preflightTreasuryOperation :: "journal \<Rightarrow> operation_preflight \<Rightarrow> int \<Rightarrow> unit result" where
  "preflightTreasuryOperation J i clock =
     rbind (validateTreasuryOperationPreflight i) (\<lambda>_.
     rbind (requireActivePolicy J) (\<lambda>policy.
     if pol_digest policy \<noteq> pf_policy_digest i then Inl PolicyReservationError
     else rbind (timestamp clock) (\<lambda>now.
       assertDirectTreasuryCapacity J policy (pf_kind i) (pf_destination i) (pf_amount i)
         (pf_fee_ceiling i) now None)))"

end
