(* ===== verification/Reservations.thy ===== *)
theory Reservations
  imports Treasury_Capacity Evidence
begin

text \<open>
  Treasury Reservations for Purchases (\<open>src/purchase/journal.ts\<close>): the facts a reservation is
  bound to (Checkout Terms, Purchase Authorization, verified evidence), \<open>reservePolicy\<close>,
  \<open>releaseActiveReservation\<close> and the lookups. \<open>evidence_intact\<close> stands for the evidence
  store: whether the artifact with a digest is recorded and its file verifies.
\<close>

definition requirePurchase :: "journal \<Rightarrow> string \<Rightarrow> purchase_row result" where
  "requirePurchase J i =
     (case find_row (\<lambda>r. pu_id r = i) (purchases J) of
        None \<Rightarrow> Inl JournalNotFoundError | Some r \<Rightarrow> Inr r)"

definition findCheckoutTerms :: "journal \<Rightarrow> string \<Rightarrow> checkout_terms_row option" where
  "findCheckoutTerms J i = find_row (\<lambda>r. ct_purchase_id r = i) (checkout_terms J)"

definition requireCheckoutTerms :: "journal \<Rightarrow> string \<Rightarrow> checkout_terms_row result" where
  "requireCheckoutTerms J i =
     (case findCheckoutTerms J i of None \<Rightarrow> Inl JournalNotFoundError | Some r \<Rightarrow> Inr r)"

definition findAuthorizationRequest :: "journal \<Rightarrow> string \<Rightarrow> authorization_request_row option" where
  "findAuthorizationRequest J i =
     find_row (\<lambda>r. ar_purchase_id r = i) (authorization_requests J)"

definition requireAuthorizationRequest :: "journal \<Rightarrow> string \<Rightarrow> authorization_request_row result"
where
  "requireAuthorizationRequest J i =
     (case findAuthorizationRequest J i of None \<Rightarrow> Inl JournalNotFoundError | Some r \<Rightarrow> Inr r)"

definition findAuthorization :: "journal \<Rightarrow> string \<Rightarrow> authorization_row option" where
  "findAuthorization J i = find_row (\<lambda>r. au_purchase_id r = i) (authorizations J)"

definition requireAuthorization :: "journal \<Rightarrow> string \<Rightarrow> authorization_row result" where
  "requireAuthorization J i =
     (case findAuthorization J i of None \<Rightarrow> Inl JournalNotFoundError | Some r \<Rightarrow> Inr r)"

definition findReservation :: "journal \<Rightarrow> string \<Rightarrow> reservation_row option" where
  "findReservation J i = find_row (\<lambda>r. rs_id r = i) (reservations J)"

definition requireReservation :: "journal \<Rightarrow> string \<Rightarrow> reservation_row result" where
  "requireReservation J i =
     (case findReservation J i of None \<Rightarrow> Inl JournalNotFoundError | Some r \<Rightarrow> Inr r)"

text \<open>
  \<open>findReservationForPurchase\<close>: \<open>ORDER BY\<close> the rank of the state, then the newest first;
  among equals SQLite may return either, the model the first inserted.
\<close>

fun reservation_rank :: "reservation_state \<Rightarrow> nat" where
  "reservation_rank Res_spent = 0"
| "reservation_rank Res_in_flight = 1"
| "reservation_rank Res_active = 2"
| "reservation_rank Res_released = 3"
| "reservation_rank Res_expired = 4"

definition reservation_before :: "reservation_row \<Rightarrow> reservation_row \<Rightarrow> bool" where
  "reservation_before a b \<longleftrightarrow>
     reservation_rank (rs_state a) < reservation_rank (rs_state b)
     \<or> reservation_rank (rs_state a) = reservation_rank (rs_state b)
       \<and> rs_created_at a > rs_created_at b"

definition findReservationForPurchase :: "journal \<Rightarrow> string \<Rightarrow> reservation_row option" where
  "findReservationForPurchase J i =
     (case filter (\<lambda>r. rs_purchase_id r = i) (reservations J) of
        [] \<Rightarrow> None
      | r # rest \<Rightarrow> Some (fold (\<lambda>x best. if reservation_before x best then x else best) rest r))"

section \<open>Prepared material\<close>

text \<open>
  \<open>store\<close> is the prepared-material store: the digest, reference and length it filed the bytes
  under, or \<open>None\<close> when no store is configured or the file system fails.
\<close>

definition storePreparedMaterial ::
  "(string \<Rightarrow> (string \<times> string \<times> int) option) \<Rightarrow> string \<Rightarrow> string
    \<Rightarrow> (string \<times> string \<times> int) result" where
  "storePreparedMaterial store bytes expectedDigest =
     (case store bytes of
        None \<Rightarrow> Inl JournalInvariantError
      | Some stored \<Rightarrow>
          if fst stored \<noteq> expectedDigest then Inl JournalInvariantError else Inr stored)"

text \<open>
  \<open>verified\<close> is the store's check of a digest and length: the reference of the intact file, or
  \<open>None\<close> where the store is missing, or the file is absent or altered.
\<close>

definition readPreparedMaterial ::
  "(string \<Rightarrow> int \<Rightarrow> string option) \<Rightarrow> string \<Rightarrow> string \<Rightarrow> int \<Rightarrow> unit result" where
  "readPreparedMaterial verified digest storageRef byteLength =
     (case verified digest byteLength of
        None \<Rightarrow> Inl JournalInvariantError
      | Some ref \<Rightarrow> if ref \<noteq> storageRef then Inl JournalInvariantError else Inr ())"

section \<open>Reserving\<close>

record reservation_input =
  ri_id :: string
  ri_purchase_id :: string
  ri_policy_digest :: string
  ri_payee :: string
  ri_amount :: string
  ri_additional_cost_ceiling :: string
  ri_funding_source :: string
  ri_expires_at :: int
  ri_approval_evidence :: "string option"
  ri_approval_profile :: "string option"
  ri_approval_verifier :: "string option"

text \<open>An optional string is falsy when absent or empty.\<close>

definition truthy :: "string option \<Rightarrow> bool" where
  "truthy x = (case x of None \<Rightarrow> False | Some s \<Rightarrow> s \<noteq> [])"

definition assert_when_truthy :: "string option \<Rightarrow> (string \<Rightarrow> unit result) \<Rightarrow> unit result" where
  "assert_when_truthy x check = (if truthy x then check (the x) else Inr ())"

definition validatePolicyReservationInput :: "reservation_input \<Rightarrow> unit result" where
  "validatePolicyReservationInput i =
     rbind (assertCode (ri_id i)) (\<lambda>_.
     rbind (assertDigest (ri_policy_digest i)) (\<lambda>_.
     rbind (assertBoundedText (ri_payee i) 300) (\<lambda>_.
     rbind (decimalBigInt (ri_amount i) False) (\<lambda>_.
     rbind (decimalBigInt (ri_additional_cost_ceiling i) True) (\<lambda>_.
     rbind (require (ri_funding_source i = ''vault-treasury'') JournalInvariantError) (\<lambda>_.
     rbind (require (is_safe_integer (ri_expires_at i) \<and> 0 \<le> ri_expires_at i)
             PolicyReservationError) (\<lambda>_.
     rbind (assert_when_truthy (ri_approval_evidence i) assertDigest) (\<lambda>_.
     let parts = length (filter (\<lambda>x. x \<noteq> None)
                   [ri_approval_evidence i, ri_approval_profile i, ri_approval_verifier i]) in
     if parts \<noteq> 0 \<and> parts \<noteq> 3 then Inl PolicyReservationError
     else
       rbind (assert_when_truthy (ri_approval_profile i) (\<lambda>s. assertSafeIdentity s 200)) (\<lambda>_.
       assert_when_truthy (ri_approval_verifier i) (\<lambda>s. assertSafeIdentity s 200))))))))))"

definition assertSameReservation :: "reservation_row \<Rightarrow> reservation_input \<Rightarrow> unit result" where
  "assertSameReservation existing i =
     (if rs_purchase_id existing \<noteq> ri_purchase_id i
         \<or> rs_policy_digest existing \<noteq> ri_policy_digest i
         \<or> rs_approval_evidence existing \<noteq> ri_approval_evidence i
         \<or> rs_approval_profile existing \<noteq> ri_approval_profile i
         \<or> rs_approval_verifier existing \<noteq> ri_approval_verifier i
         \<or> rs_payee existing \<noteq> ri_payee i
         \<or> rs_amount existing \<noteq> ri_amount i
         \<or> rs_additional_cost_ceiling existing \<noteq> ri_additional_cost_ceiling i
         \<or> rs_expires_at existing \<noteq> ri_expires_at i
      then Inl JournalInvariantError else Inr ())"

definition assertReservationBinding ::
  "journal \<Rightarrow> reservation_input \<Rightarrow> unit result" where
  "assertReservationBinding J i =
     rbind (requirePurchase J (ri_purchase_id i)) (\<lambda>purchase.
     if pu_state purchase \<noteq> Pur_authorised \<and> pu_state purchase \<noteq> Pur_execution_prepared
     then Inl PolicyReservationError
     else
     rbind (requireCheckoutTerms J (ri_purchase_id i)) (\<lambda>terms.
     rbind (requireAuthorization J (ri_purchase_id i)) (\<lambda>authorization.
     rbind (requireAuthorizationRequest J (ri_purchase_id i)) (\<lambda>authorizationRequest.
     if au_decision authorization \<noteq> Dec_approved then Inl PolicyReservationError
     else if ri_amount i \<noteq> ct_amount terms \<or> ri_payee i \<noteq> ct_pay_to terms
     then Inl PolicyReservationError
     else if BigInt (ri_additional_cost_ceiling i)
             > BigInt (ar_additional_cost_ceiling authorizationRequest)
     then Inl PolicyReservationError
     else if ri_approval_evidence i \<noteq> Some (au_evidence_digest authorization)
             \<or> ri_approval_profile i \<noteq> Some (au_verification_profile authorization)
             \<or> ri_approval_verifier i \<noteq> Some (au_verifier_id authorization)
     then Inl PolicyReservationError
     else if ri_expires_at i > ct_expires_at terms then Inl PolicyReservationError
     else Inr ()))))"

definition reservation_of :: "reservation_input \<Rightarrow> int \<Rightarrow> reservation_row" where
  "reservation_of i now =
     \<lparr>rs_id = ri_id i, rs_purchase_id = ri_purchase_id i, rs_policy_digest = ri_policy_digest i,
      rs_approval_evidence = ri_approval_evidence i, rs_approval_profile = ri_approval_profile i,
      rs_approval_verifier = ri_approval_verifier i, rs_payee = ri_payee i,
      rs_amount = ri_amount i, rs_additional_cost_ceiling = ri_additional_cost_ceiling i,
      rs_funding_source = ri_funding_source i, rs_state = Res_active,
      rs_expires_at = ri_expires_at i, rs_created_at = now, rs_updated_at = now,
      rs_in_flight_at = None, rs_spent_at = None, rs_release_evidence = None\<rparr>"

definition reservePolicy ::
  "(string \<Rightarrow> int \<Rightarrow> bool) \<Rightarrow> journal \<Rightarrow> reservation_input \<Rightarrow> int \<Rightarrow> (journal \<times> reservation_row) result"
where
  "reservePolicy evidence_intact J i clock =
     rbind (validatePolicyReservationInput i) (\<lambda>_.
     rbind (assertReservationBinding J i) (\<lambda>_.
     rbind (requireActivePolicy J) (\<lambda>policy.
     if pol_digest policy \<noteq> ri_policy_digest i then Inl PolicyReservationError
     else
     rbind (timestamp clock) (\<lambda>now.
     let J1 = expireReservationsInternal J now in
     if ri_expires_at i \<le> now then Inl PolicyReservationError
     else case findReservation J1 (ri_id i) of
       Some existing \<Rightarrow> rbind (assertSameReservation existing i) (\<lambda>_. Inr (J1, existing))
     | None \<Rightarrow>
       if find_row (\<lambda>r. rs_purchase_id r = ri_purchase_id i
                       \<and> rs_state r \<in> {Res_active, Res_in_flight, Res_spent})
            (reservations J1) \<noteq> None
       then Inl PolicyReservationError
       else if pol_allowlist policy \<noteq> [] \<and> ri_payee i \<notin> set (pol_allowlist policy)
       then Inl PolicyReservationError
       else
       rbind (decimalBigInt (ri_amount i) False) (\<lambda>amount.
       rbind (decimalBigInt (ri_additional_cost_ceiling i) True) (\<lambda>additionalCost.
       let gross = amount + additionalCost in
       rbind (decimalBigInt (pol_max_per_payment policy) False) (\<lambda>maxPerPayment.
       rbind (decimalBigInt (pol_max_per_hour policy) False) (\<lambda>maxPerHour.
       if gross > maxPerPayment then Inl PolicyReservationError
       else if \<not> truthy (ri_approval_evidence i)
               \<or> \<not> isVerifiedEvidenceLinked evidence_intact J1 (ri_purchase_id i)
                     (the (ri_approval_evidence i)) No_attempt (Some ''purchase-authorization'')
                     (ri_approval_profile i) (ri_approval_verifier i)
       then Inl PolicyReservationError
       else if policyCapacityUsedInternal J1 now None + gross > maxPerHour
       then Inl PolicyReservationError
       else
         let row = reservation_of i now
         in Inr (J1\<lparr>reservations := reservations J1 @ [row]\<rparr>, row)))))))))"

definition release_reservation_row :: "string \<Rightarrow> int \<Rightarrow> journal \<Rightarrow> journal" where
  "release_reservation_row i now J =
     J\<lparr>reservations := update_rows (\<lambda>r. rs_id r = i \<and> rs_state r = Res_active)
         (\<lambda>r. r\<lparr>rs_state := Res_released, rs_updated_at := now\<rparr>) (reservations J)\<rparr>"

definition releaseActiveReservation ::
  "journal \<Rightarrow> string \<Rightarrow> int \<Rightarrow> (journal \<times> reservation_row) result" where
  "releaseActiveReservation J i clock =
     rbind (requireReservation J i) (\<lambda>reservation.
     if rs_state reservation = Res_released then Inr (J, reservation)
     else if rs_state reservation \<noteq> Res_active then Inl PolicyReservationError
     else
     rbind (timestamp clock) (\<lambda>now.
     if changes (\<lambda>r. rs_id r = i \<and> rs_state r = Res_active) (reservations J) \<noteq> 1
     then Inl JournalInvariantError
     else
       let J1 = release_reservation_row i now J
       in rbind (requireReservation J1 i) (\<lambda>row. Inr (J1, row))))"

end
