(* ===== verification/Effects.thy ===== *)
theory Effects
  imports Leases Reservations
begin

text \<open>
  Effects (\<open>src/purchase/journal.ts\<close>): every external action is planned with an idempotency
  key and durable bytes, claimed under a lease of its own, and resolved by the executor that
  holds the claim or, once the claim has lapsed, by the reconciliation under its lease. Where a
  call reads the clock several times it takes the readings in their order. \<open>fresh\<close> is the
  opaque identity drawn for a new Effect.
\<close>

section \<open>Lookups\<close>

definition TREASURY_STAGING_EFFECT_KIND :: string where
  "TREASURY_STAGING_EFFECT_KIND = ''treasury-staging''"

definition TREASURY_STAGING_RECOVERY_EFFECT_KIND :: string where
  "TREASURY_STAGING_RECOVERY_EFFECT_KIND = ''treasury-staging-recovery''"

definition effect_at :: "journal \<Rightarrow> string \<Rightarrow> effect_row option" where
  "effect_at J i = find_row (\<lambda>r. ef_id r = i) (effects J)"

definition requireEffect :: "journal \<Rightarrow> string \<Rightarrow> effect_row result" where
  "requireEffect J i =
     (case effect_at J i of None \<Rightarrow> Inl JournalNotFoundError | Some r \<Rightarrow> Inr r)"

definition findPaymentAttempt :: "journal \<Rightarrow> string \<Rightarrow> int \<Rightarrow> attempt_row option" where
  "findPaymentAttempt J purchaseId n =
     find_row (\<lambda>r. at_purchase_id r = purchaseId \<and> at_attempt r = n) (attempts J)"

definition requirePaymentAttempt :: "journal \<Rightarrow> string \<Rightarrow> int \<Rightarrow> attempt_row result" where
  "requirePaymentAttempt J purchaseId n =
     (case findPaymentAttempt J purchaseId n of
        None \<Rightarrow> Inl JournalNotFoundError | Some r \<Rightarrow> Inr r)"

text \<open>\<open>ORDER BY created_at_ms, id\<close>\<close>

fun insert_effect :: "effect_row \<Rightarrow> effect_row list \<Rightarrow> effect_row list" where
  "insert_effect r [] = [r]"
| "insert_effect r (x # xs) =
     (if ef_created_at r < ef_created_at x
         \<or> ef_created_at r = ef_created_at x \<and> ef_id r \<le> ef_id x
      then r # x # xs else x # insert_effect r xs)"

definition order_effects :: "effect_row list \<Rightarrow> effect_row list" where
  "order_effects rs = foldr insert_effect rs []"

definition effectsForPurchase :: "journal \<Rightarrow> string \<Rightarrow> effect_row list result" where
  "effectsForPurchase J purchaseId =
     rbind (requirePurchase J purchaseId) (\<lambda>_.
       Inr (order_effects (filter (\<lambda>r. ef_purchase_id r = purchaseId) (effects J))))"

definition recoverableEffects :: "journal \<Rightarrow> string option \<Rightarrow> effect_row list" where
  "recoverableEffects J purchaseId =
     order_effects (filter (\<lambda>r. (truthy purchaseId \<longrightarrow> purchaseId = Some (ef_purchase_id r))
                                \<and> ef_state r \<notin> {Eff_observed, Eff_abandoned}) (effects J))"

section \<open>Who may write\<close>

definition effectClaimActiveInternal :: "journal \<Rightarrow> effect_row \<Rightarrow> int \<Rightarrow> bool" where
  "effectClaimActiveInternal J effect now =
     (case ef_claim_lease effect of
        None \<Rightarrow> False
      | Some name \<Rightarrow>
          if name = [] then False
          else case ef_claim_generation effect of
                 None \<Rightarrow> False
               | Some g \<Rightarrow>
                   (case find_lease J name of
                      None \<Rightarrow> False
                    | Some lease \<Rightarrow> ls_generation lease = g \<and> ls_expires_at lease > now))"

definition effectClaimActive :: "journal \<Rightarrow> string \<Rightarrow> int \<Rightarrow> bool result" where
  "effectClaimActive J i clock =
     rbind (requireEffect J i) (\<lambda>effect.
     rbind (timestamp clock) (\<lambda>now. Inr (effectClaimActiveInternal J effect now)))"

definition effect_lease_name :: "string \<Rightarrow> string" where
  "effect_lease_name i = ''effect:'' @ i"

definition recovery_lease :: "string \<Rightarrow> string \<Rightarrow> bool" where
  "recovery_lease name purchaseId \<longleftrightarrow>
     name = ''purchase-reconciliation'' \<or> name = ''purchase-reconciliation:'' @ purchaseId"

definition assertEffectWriter :: "journal \<Rightarrow> string \<Rightarrow> lease_token \<Rightarrow> int \<Rightarrow> int \<Rightarrow> unit result" where
  "assertEffectWriter J effectId token clock0 clock1 =
     rbind (timestamp clock0) (\<lambda>now0.
     rbind (assertLeaseInternal J token now0) (\<lambda>_.
     rbind (requireEffect J effectId) (\<lambda>effect.
     if recovery_lease (lt_name token) (ef_purchase_id effect)
     then rbind (timestamp clock1) (\<lambda>now1.
            if effectClaimActiveInternal J effect now1 then Inl JournalEffectBusyError else Inr ())
     else if lt_name token \<noteq> effect_lease_name effectId
             \<or> ef_claim_lease effect \<noteq> Some (lt_name token)
             \<or> ef_claim_generation effect \<noteq> Some (lt_generation token)
     then Inl JournalFencingError
     else Inr ())))"

section \<open>Changing an Effect\<close>

definition insertEffectTransition ::
  "string \<Rightarrow> effect_state option \<Rightarrow> effect_state \<Rightarrow> string \<Rightarrow> string option \<Rightarrow> int \<Rightarrow> journal
    \<Rightarrow> journal result" where
  "insertEffectTransition effectId from_state to_state reasonCode detailDigest now J =
     rbind (assertCode reasonCode) (\<lambda>_.
     rbind (assert_when_truthy detailDigest assertDigest) (\<lambda>_.
       Inr (J\<lparr>effect_log := effect_log J @
                [\<lparr>et_effect_id = effectId, et_from = from_state, et_to = to_state,
                  et_reason = reasonCode, et_detail = detailDigest, et_created_at = now\<rparr>]\<rparr>)))"

record effect_updates =
  eu_submission :: "string option"
  eu_result :: "string option"
  eu_error :: "string option"

definition no_updates :: effect_updates where
  "no_updates = \<lparr>eu_submission = None, eu_result = None, eu_error = None\<rparr>"

text \<open>\<open>COALESCE(?, column)\<close>\<close>

definition coalesce :: "'a option \<Rightarrow> 'a option \<Rightarrow> 'a option" where
  "coalesce new old = (case new of None \<Rightarrow> old | Some x \<Rightarrow> Some x)"

definition effect_here :: "effect_row \<Rightarrow> effect_row \<Rightarrow> bool" where
  "effect_here effect r \<longleftrightarrow>
     ef_id r = ef_id effect \<and> ef_state r = ef_state effect \<and> ef_version r = ef_version effect"

definition moved_effect ::
  "effect_state \<Rightarrow> effect_updates \<Rightarrow> int \<Rightarrow> effect_row \<Rightarrow> effect_row" where
  "moved_effect to_state u now r =
     r\<lparr>ef_state := to_state, ef_version := ef_version r + 1,
       ef_submission_digest := coalesce (eu_submission u) (ef_submission_digest r),
       ef_result_digest := coalesce (eu_result u) (ef_result_digest r),
       ef_error_code := coalesce (eu_error u) (ef_error_code r),
       ef_submitted_at := (if to_state = Eff_submitted then Some now else ef_submitted_at r),
       ef_observed_at := (if to_state = Eff_observed then Some now else ef_observed_at r),
       ef_updated_at := now\<rparr>"

text \<open>The \<open>CHECK\<close> constraints of the table \<open>effects\<close> on a state and the facts it needs.\<close>

definition effect_checks :: "effect_row \<Rightarrow> bool" where
  "effect_checks r \<longleftrightarrow>
     0 \<le> ef_prepared_byte_length r
     \<and> (case ef_attempt r of None \<Rightarrow> True | Some n \<Rightarrow> 1 \<le> n)
     \<and> (ef_claim_lease r = None) = (ef_claim_generation r = None)
     \<and> (ef_state r \<in> {Eff_planned, Eff_abandoned} \<or> ef_claim_lease r \<noteq> None)
     \<and> (ef_state r = Eff_submitted \<longrightarrow> ef_submission_digest r \<noteq> None)
     \<and> (ef_state r = Eff_observed \<longrightarrow> ef_result_digest r \<noteq> None)
     \<and> (ef_state r \<in> {Eff_failed_terminal, Eff_abandoned} \<longrightarrow> ef_error_code r \<noteq> None)"

definition updateEffectState ::
  "journal \<Rightarrow> effect_row \<Rightarrow> effect_state \<Rightarrow> string \<Rightarrow> string option \<Rightarrow> int \<Rightarrow> effect_updates
    \<Rightarrow> journal result" where
  "updateEffectState J effect to_state reasonCode detailDigest now u =
     rbind (assertEffectTransition (ef_state effect) to_state) (\<lambda>_.
     if \<not> (\<forall>r \<in> set (effects J). effect_here effect r \<longrightarrow> effect_checks (moved_effect to_state u now r))
     then Inl SqliteConstraintError
     else if changes (effect_here effect) (effects J) \<noteq> 1 then Inl JournalInvariantError
     else insertEffectTransition (ef_id effect) (Some (ef_state effect)) to_state reasonCode
            detailDigest now
            (J\<lparr>effects := update_rows (effect_here effect) (moved_effect to_state u now) (effects J)\<rparr>))"

text \<open>\<open>INSERT OR IGNORE\<close> under the index \<open>one_effect_observation_fact\<close>.\<close>

definition insertEffectObservation ::
  "string \<Rightarrow> effect_observation_status \<Rightarrow> string option \<Rightarrow> string option \<Rightarrow> lease_token \<Rightarrow> int
    \<Rightarrow> journal \<Rightarrow> journal" where
  "insertEffectObservation effectId status result_digest detailDigest lease now J =
     (let text_of = (\<lambda>x. case x of None \<Rightarrow> [] | Some s \<Rightarrow> s) in
      if list_ex (\<lambda>o'. eo_effect_id o' = effectId \<and> eo_status o' = status
                      \<and> text_of (eo_result o') = text_of result_digest
                      \<and> text_of (eo_detail o') = text_of detailDigest) (effect_observations J)
      then J
      else J\<lparr>effect_observations := effect_observations J @
               [\<lparr>eo_effect_id = effectId, eo_status = status, eo_result = result_digest,
                 eo_detail = detailDigest, eo_lease_name = lt_name lease,
                 eo_lease_generation = lt_generation lease, eo_observed_at = now\<rparr>]\<rparr>)"

section \<open>Planning\<close>

record effect_input =
  ei_purchase_id :: string
  ei_attempt :: "int option"
  ei_kind :: string
  ei_idempotency_key :: string
  ei_payload_digest :: string
  ei_bytes :: string

definition validateEffectInput :: "effect_input \<Rightarrow> unit result" where
  "validateEffectInput i =
     rbind (assertCode (ei_kind i)) (\<lambda>_.
     rbind (assertSafeIdentity (ei_idempotency_key i) 300) (\<lambda>_.
     rbind (assertDigest (ei_payload_digest i)) (\<lambda>_.
     if \<not> is_safe_integer (int (length (ei_bytes i))) \<or> length (ei_bytes i) < 1
     then Inl JournalInvariantError
     else case ei_attempt i of
            None \<Rightarrow> Inr ()
          | Some n \<Rightarrow> if \<not> is_safe_integer n \<or> n < 1 then Inl JournalInvariantError else Inr ())))"

definition assertSameEffect ::
  "effect_row \<Rightarrow> effect_input \<Rightarrow> string \<times> string \<times> int \<Rightarrow> unit result" where
  "assertSameEffect existing i stored =
     (if ef_purchase_id existing \<noteq> ei_purchase_id i
         \<or> ef_attempt existing \<noteq> ei_attempt i
         \<or> ef_kind existing \<noteq> ei_kind i
         \<or> ef_payload_digest existing \<noteq> ei_payload_digest i
         \<or> ef_prepared_ref existing \<noteq> fst (snd stored)
         \<or> ef_prepared_byte_length existing \<noteq> snd (snd stored)
      then Inl JournalInvariantError else Inr ())"

definition new_effect :: "effect_input \<Rightarrow> string \<Rightarrow> string \<times> string \<times> int \<Rightarrow> int \<Rightarrow> effect_row" where
  "new_effect i fresh stored now =
     \<lparr>ef_id = fresh, ef_purchase_id = ei_purchase_id i, ef_attempt = ei_attempt i,
      ef_kind = ei_kind i, ef_idempotency_key = ei_idempotency_key i, ef_state = Eff_planned,
      ef_version = 0, ef_payload_digest = ei_payload_digest i, ef_prepared_ref = fst (snd stored),
      ef_prepared_byte_length = snd (snd stored), ef_claim_lease = None,
      ef_claim_generation = None, ef_submission_digest = None, ef_result_digest = None,
      ef_error_code = None, ef_created_at = now, ef_updated_at = now, ef_executing_at = None,
      ef_submitted_at = None, ef_observed_at = None\<rparr>"

definition planEffect ::
  "(string \<Rightarrow> (string \<times> string \<times> int) option) \<Rightarrow> journal \<Rightarrow> effect_input \<Rightarrow> string \<Rightarrow> int
    \<Rightarrow> (journal \<times> effect_row) result" where
  "planEffect store J i fresh clock =
     rbind (validateEffectInput i) (\<lambda>_.
     if ei_kind i = TREASURY_STAGING_EFFECT_KIND then Inl JournalInvariantError
     else
     rbind (storePreparedMaterial store (ei_bytes i) (ei_payload_digest i)) (\<lambda>stored.
     rbind (requirePurchase J (ei_purchase_id i)) (\<lambda>_.
     rbind (case ei_attempt i of
              None \<Rightarrow> Inr ()
            | Some n \<Rightarrow> rbind (requirePaymentAttempt J (ei_purchase_id i) n) (\<lambda>_. Inr ())) (\<lambda>_.
     case find_row (\<lambda>r. ef_idempotency_key r = ei_idempotency_key i) (effects J) of
       Some existing \<Rightarrow> rbind (assertSameEffect existing i stored) (\<lambda>_. Inr (J, existing))
     | None \<Rightarrow>
       rbind (timestamp clock) (\<lambda>now.
       let row = new_effect i fresh stored now in
       if effect_at J fresh \<noteq> None \<or> \<not> effect_checks row then Inl SqliteConstraintError
       else
       rbind (insertEffectTransition fresh None Eff_planned ''effect_planned''
                (Some (ei_payload_digest i)) now (J\<lparr>effects := effects J @ [row]\<rparr>)) (\<lambda>J1.
       rbind (requireEffect J1 fresh) (\<lambda>r. Inr (J1, r))))))))"

section \<open>Claiming\<close>

definition claimed_effect :: "lease_token \<Rightarrow> int \<Rightarrow> effect_row \<Rightarrow> effect_row" where
  "claimed_effect lease now r =
     r\<lparr>ef_state := Eff_executing, ef_version := ef_version r + 1,
       ef_claim_lease := Some (lt_name lease), ef_claim_generation := Some (lt_generation lease),
       ef_executing_at := Some now, ef_updated_at := now\<rparr>"

definition claimEffectInternal ::
  "journal \<Rightarrow> effect_row \<Rightarrow> string \<Rightarrow> int \<Rightarrow> int
    \<Rightarrow> (journal \<times> (effect_row \<times> lease_token) option) result" where
  "claimEffectInternal J effect holder ttlMs clock =
     (if ef_state effect \<noteq> Eff_planned \<and> ef_state effect \<noteq> Eff_retryable
      then Inl JournalInvariantError
      else
      rbind (timestamp clock) (\<lambda>now.
      rbind (acquireLeaseInternal J (effect_lease_name (ef_id effect)) holder ttlMs now) (\<lambda>(J1, token).
      case token of
        None \<Rightarrow> Inr (J1, None)
      | Some lease \<Rightarrow>
          if changes (effect_here effect) (effects J1) \<noteq> 1 then Inl JournalInvariantError
          else
          rbind (insertEffectTransition (ef_id effect) (Some (ef_state effect)) Eff_executing
                   ''effect_claimed'' (Some (ef_payload_digest effect)) now
                   (J1\<lparr>effects := update_rows (effect_here effect) (claimed_effect lease now)
                                   (effects J1)\<rparr>)) (\<lambda>J2.
          rbind (requireEffect J2 (ef_id effect)) (\<lambda>r. Inr (J2, Some (r, lease)))))))"

definition claimEffect ::
  "journal \<Rightarrow> string \<Rightarrow> string \<Rightarrow> int \<Rightarrow> int
    \<Rightarrow> (journal \<times> (effect_row \<times> lease_token) option) result" where
  "claimEffect J i holder ttlMs clock =
     rbind (requireEffect J i) (\<lambda>effect.
     if ef_attempt effect \<noteq> None then Inl JournalInvariantError
     else claimEffectInternal J effect holder ttlMs clock)"

section \<open>Resolving\<close>

definition transitionClaimedEffect ::
  "journal \<Rightarrow> string \<Rightarrow> lease_token \<Rightarrow> effect_state \<Rightarrow> effect_state \<Rightarrow> string \<Rightarrow> string option
    \<Rightarrow> effect_updates \<Rightarrow> int \<Rightarrow> int \<Rightarrow> int \<Rightarrow> (journal \<times> effect_row) result" where
  "transitionClaimedEffect J effectId lease expectedState to_state reasonCode detailDigest u
       clock0 clock1 clock =
     rbind (assertEffectWriter J effectId lease clock0 clock1) (\<lambda>_.
     rbind (requireEffect J effectId) (\<lambda>current.
     if ef_state current = to_state
     then (if truthy (eu_submission u) \<and> ef_submission_digest current \<noteq> eu_submission u
           then Inl JournalInvariantError else Inr (J, current))
     else if ef_state current \<noteq> expectedState then Inl JournalInvariantError
     else
     rbind (timestamp clock) (\<lambda>now.
     rbind (updateEffectState J current to_state reasonCode detailDigest now u) (\<lambda>J1.
     rbind (requireEffect J1 (ef_id current)) (\<lambda>r. Inr (J1, r))))))"

definition markEffectSubmitted ::
  "journal \<Rightarrow> string \<Rightarrow> lease_token \<Rightarrow> string \<Rightarrow> int \<Rightarrow> int \<Rightarrow> int \<Rightarrow> (journal \<times> effect_row) result"
where
  "markEffectSubmitted J effectId lease submissionDigest clock0 clock1 clock =
     rbind (assertDigest submissionDigest) (\<lambda>_.
     transitionClaimedEffect J effectId lease Eff_executing Eff_submitted
       ''effect_submission_acknowledged'' (Some submissionDigest)
       (no_updates\<lparr>eu_submission := Some submissionDigest\<rparr>) clock0 clock1 clock)"

definition markEffectAmbiguous ::
  "journal \<Rightarrow> string \<Rightarrow> lease_token \<Rightarrow> string option \<Rightarrow> int \<Rightarrow> int \<Rightarrow> int
    \<Rightarrow> (journal \<times> effect_row) result" where
  "markEffectAmbiguous J effectId lease detailDigest clock0 clock1 clock =
     rbind (assert_when_truthy detailDigest assertDigest) (\<lambda>_.
     rbind (assertEffectWriter J effectId lease clock0 clock1) (\<lambda>_.
     rbind (requireEffect J effectId) (\<lambda>current.
     if ef_state current = Eff_ambiguous then Inr (J, current)
     else if ef_state current \<noteq> Eff_executing \<and> ef_state current \<noteq> Eff_submitted
     then Inl JournalInvariantError
     else
     rbind (timestamp clock) (\<lambda>now.
     rbind (updateEffectState J current Eff_ambiguous ''execution_ambiguous'' detailDigest now
              no_updates) (\<lambda>J1.
     let J2 = insertEffectObservation (ef_id current) EO_pending None detailDigest lease now J1 in
     rbind (requireEffect J2 (ef_id current)) (\<lambda>r. Inr (J2, r)))))))"

datatype effect_observation =
    Observed string "string option"
  | Pending "string option"
  | Not_found bool "string option"
  | Conflict "string option"
  | Application_failure string string

fun observation_detail :: "effect_observation \<Rightarrow> string option" where
  "observation_detail (Observed _ d) = d"
| "observation_detail (Pending d) = d"
| "observation_detail (Not_found _ d) = d"
| "observation_detail (Conflict d) = d"
| "observation_detail (Application_failure _ d) = Some d"

definition validateObservation :: "effect_observation \<Rightarrow> unit result" where
  "validateObservation ob =
     rbind (case ob of Observed r _ \<Rightarrow> assertDigest r | _ \<Rightarrow> Inr ()) (\<lambda>_.
     rbind (assert_when_truthy (observation_detail ob) assertDigest) (\<lambda>_.
     case ob of
       Application_failure code d \<Rightarrow> rbind (assertCode code) (\<lambda>_. assertDigest d)
     | _ \<Rightarrow> Inr ()))"

record mapped_observation =
  mo_status :: effect_observation_status
  mo_next :: effect_state
  mo_result :: "string option"
  mo_detail :: "string option"
  mo_error :: "string option"

fun mapObservation :: "effect_observation \<Rightarrow> mapped_observation" where
  "mapObservation (Observed r d) =
     \<lparr>mo_status = EO_observed, mo_next = Eff_observed, mo_result = Some r, mo_detail = d,
      mo_error = None\<rparr>"
| "mapObservation (Pending d) =
     \<lparr>mo_status = EO_pending, mo_next = Eff_ambiguous, mo_result = None, mo_detail = d,
      mo_error = None\<rparr>"
| "mapObservation (Not_found safeToRetry d) =
     \<lparr>mo_status = (if safeToRetry then EO_not_found_retryable else EO_not_found_ambiguous),
      mo_next = (if safeToRetry then Eff_retryable else Eff_ambiguous), mo_result = None,
      mo_detail = d, mo_error = None\<rparr>"
| "mapObservation (Conflict d) =
     \<lparr>mo_status = EO_conflict, mo_next = Eff_ambiguous, mo_result = None, mo_detail = d,
      mo_error = None\<rparr>"
| "mapObservation (Application_failure code d) =
     \<lparr>mo_status = EO_application_failure, mo_next = Eff_ambiguous, mo_result = None,
      mo_detail = Some d, mo_error = Some code\<rparr>"

fun status_name :: "effect_observation_status \<Rightarrow> string" where
  "status_name EO_observed = ''observed''"
| "status_name EO_pending = ''pending''"
| "status_name EO_not_found_retryable = ''not_found_retryable''"
| "status_name EO_not_found_ambiguous = ''not_found_ambiguous''"
| "status_name EO_conflict = ''conflict''"
| "status_name EO_application_failure = ''application_failure''"

definition is_observed :: "effect_observation \<Rightarrow> bool" where
  "is_observed ob = (case ob of Observed _ _ \<Rightarrow> True | _ \<Rightarrow> False)"

definition recordEffectObservation ::
  "journal \<Rightarrow> string \<Rightarrow> lease_token \<Rightarrow> effect_observation \<Rightarrow> int \<Rightarrow> int \<Rightarrow> int
    \<Rightarrow> (journal \<times> effect_row) result" where
  "recordEffectObservation J effectId lease ob clock0 clock1 clock =
     rbind (validateObservation ob) (\<lambda>_.
     rbind (assertEffectWriter J effectId lease clock0 clock1) (\<lambda>_.
     rbind (requireEffect J effectId) (\<lambda>effect.
     if is_observed ob \<and> ef_attempt effect \<noteq> None then Inl JournalInvariantError
     else if ef_state effect = Eff_observed
     then (case ob of
             Observed r _ \<Rightarrow>
               if ef_result_digest effect \<noteq> Some r then Inl JournalInvariantError
               else Inr (J, effect)
           | _ \<Rightarrow> Inl JournalInvariantError)
     else if ef_state effect = Eff_failed_terminal then Inl JournalInvariantError
     else if ef_state effect = Eff_planned \<or> ef_state effect = Eff_retryable
     then Inl JournalInvariantError
     else
     rbind (timestamp clock) (\<lambda>now.
     let m = mapObservation ob;
         J1 = insertEffectObservation effectId (mo_status m) (mo_result m) (mo_detail m) lease now J
     in
     rbind (updateEffectState J1 effect (mo_next m) (''observation_'' @ status_name (mo_status m))
              (coalesce (mo_detail m) (mo_result m)) now
              (no_updates\<lparr>eu_result := mo_result m, eu_error := mo_error m\<rparr>)) (\<lambda>J2.
     rbind (requireEffect J2 effectId) (\<lambda>r. Inr (J2, r)))))))"

definition recordReconciliation ::
  "journal \<Rightarrow> lease_token \<Rightarrow> string \<Rightarrow> string option \<Rightarrow> string \<Rightarrow> string option \<Rightarrow> int \<Rightarrow> int
    \<Rightarrow> (journal \<times> reconciliation_row) result" where
  "recordReconciliation J lease purchaseId effectId outcome detailDigest clock0 clock =
     rbind (assertCode outcome) (\<lambda>_.
     rbind (assert_when_truthy detailDigest assertDigest) (\<lambda>_.
     rbind (assertRecoveryLease J lease (if purchaseId = [] then None else Some purchaseId) clock0) (\<lambda>_.
     rbind (requirePurchase J purchaseId) (\<lambda>_.
     rbind (if truthy effectId
            then rbind (requireEffect J (the effectId)) (\<lambda>effect.
                   if ef_purchase_id effect \<noteq> purchaseId then Inl JournalInvariantError else Inr ())
            else Inr ()) (\<lambda>_.
     rbind (timestamp clock) (\<lambda>now.
     if effectId \<noteq> None \<and> effect_at J (the effectId) = None then Inl SqliteConstraintError
     else
     let row = \<lparr>rr_purchase_id = purchaseId, rr_effect_id = effectId, rr_outcome = outcome,
                rr_detail = detailDigest, rr_lease_name = lt_name lease,
                rr_lease_generation = lt_generation lease, rr_created_at = now\<rparr>
     in Inr (J\<lparr>reconciliation_runs := reconciliation_runs J @ [row]\<rparr>, row)))))))"

end
