(* ===== verification/Attempts.thy ===== *)
theory Attempts
  imports Effects Identity
begin

text \<open>
  Payment Attempts (\<open>src/purchase/journal.ts\<close>): creation under the identifier bound to the
  Purchase, the failure of an attempt that was never submitted, and the checked move every
  other operation uses (\<open>transitionAttemptInternal\<close>).
\<close>

definition insertAttemptTransition ::
  "string \<Rightarrow> int \<Rightarrow> attempt_state option \<Rightarrow> attempt_state \<Rightarrow> string \<Rightarrow> string option \<Rightarrow> int
    \<Rightarrow> journal \<Rightarrow> journal" where
  "insertAttemptTransition purchaseId n from_state to_state reasonCode detailDigest now J =
     J\<lparr>attempt_log := attempt_log J @
         [\<lparr>att_purchase_id = purchaseId, att_attempt = n, att_from = from_state, att_to = to_state,
           att_reason = reasonCode, att_detail = detailDigest, att_created_at = now\<rparr>]\<rparr>"

definition attempt_here :: "attempt_row \<Rightarrow> attempt_row \<Rightarrow> bool" where
  "attempt_here attempt r \<longleftrightarrow>
     at_purchase_id r = at_purchase_id attempt \<and> at_attempt r = at_attempt attempt
     \<and> at_state r = at_state attempt \<and> at_version r = at_version attempt"

definition moved_attempt ::
  "attempt_state \<Rightarrow> string option \<Rightarrow> int \<Rightarrow> attempt_row \<Rightarrow> attempt_row" where
  "moved_attempt to_state failureCode now r =
     r\<lparr>at_state := to_state, at_version := at_version r + 1, at_failure_code := failureCode,
       at_updated_at := now\<rparr>"

definition transitionAttemptInternal ::
  "journal \<Rightarrow> attempt_row \<Rightarrow> attempt_state \<Rightarrow> string \<Rightarrow> string option \<Rightarrow> int \<Rightarrow> string option \<Rightarrow> bool
    \<Rightarrow> journal result" where
  "transitionAttemptInternal J attempt to_state reasonCode detailDigest now failureCode
       proofBackedSubmittedFailure =
     rbind (assertAttemptTransition (at_state attempt) to_state proofBackedSubmittedFailure) (\<lambda>_.
     if changes (attempt_here attempt) (attempts J) \<noteq> 1 then Inl JournalInvariantError
     else Inr (insertAttemptTransition (at_purchase_id attempt) (at_attempt attempt)
                 (Some (at_state attempt)) to_state reasonCode detailDigest now
                 (J\<lparr>attempts := update_rows (attempt_here attempt)
                      (moved_attempt to_state failureCode now) (attempts J)\<rparr>)))"

record attempt_input =
  ai_purchase_id :: string
  ai_attempt :: int
  ai_identifier :: string

definition new_attempt :: "attempt_input \<Rightarrow> int \<Rightarrow> attempt_row" where
  "new_attempt i now =
     \<lparr>at_purchase_id = ai_purchase_id i, at_attempt = ai_attempt i, at_identifier = ai_identifier i,
      at_state = Att_planned, at_version = 0, at_failure_code = None, at_created_at = now,
      at_updated_at = now\<rparr>"

definition createPaymentAttempt ::
  "(string \<Rightarrow> string) \<Rightarrow> journal \<Rightarrow> attempt_input \<Rightarrow> int \<Rightarrow> (journal \<times> attempt_row) result" where
  "createPaymentAttempt H J i clock =
     (if \<not> is_safe_integer (ai_attempt i) \<or> ai_attempt i < 1 then Inl JournalInvariantError
      else
      rbind (createPaymentIdentifier H (ai_purchase_id i) (ai_attempt i)) (\<lambda>expectedIdentifier.
      if ai_identifier i \<noteq> expectedIdentifier then Inl JournalInvariantError
      else
      rbind (requirePurchase J (ai_purchase_id i)) (\<lambda>purchase.
      if pu_state purchase \<noteq> Pur_authorised \<and> pu_state purchase \<noteq> Pur_execution_prepared
      then Inl JournalInvariantError
      else case findPaymentAttempt J (ai_purchase_id i) (ai_attempt i) of
        Some existing \<Rightarrow>
          if at_identifier existing \<noteq> ai_identifier i then Inl JournalInvariantError
          else Inr (J, existing)
      | None \<Rightarrow>
          rbind (timestamp clock) (\<lambda>now.
          if find_row (\<lambda>r. at_identifier r = ai_identifier i) (attempts J) \<noteq> None
          then Inl SqliteConstraintError
          else
          let J1 = insertAttemptTransition (ai_purchase_id i) (ai_attempt i) None Att_planned
                     ''attempt_created'' None now
                     (J\<lparr>attempts := attempts J @ [new_attempt i now]\<rparr>)
          in rbind (requirePaymentAttempt J1 (ai_purchase_id i) (ai_attempt i)) (\<lambda>r.
             Inr (J1, r))))))"

definition failPaymentAttempt ::
  "journal \<Rightarrow> string \<Rightarrow> int \<Rightarrow> attempt_state \<Rightarrow> string \<Rightarrow> string option \<Rightarrow> int
    \<Rightarrow> (journal \<times> attempt_row) result" where
  "failPaymentAttempt J purchaseId attemptNumber expectedState failureCode detailDigest clock =
     (if expectedState \<noteq> Att_planned \<and> expectedState \<noteq> Att_prepared
      then Inl JournalInvariantError
      else
      rbind (assertCode failureCode) (\<lambda>_.
      rbind (assert_when_truthy detailDigest assertDigest) (\<lambda>_.
      rbind (requirePaymentAttempt J purchaseId attemptNumber) (\<lambda>attempt.
      if at_state attempt = Att_failed
      then (if at_failure_code attempt \<noteq> Some failureCode then Inl JournalInvariantError
            else Inr (J, attempt))
      else if at_state attempt \<noteq> expectedState then Inl JournalInvariantError
      else
      rbind (timestamp clock) (\<lambda>now.
      rbind (transitionAttemptInternal J attempt Att_failed failureCode detailDigest now
               (Some failureCode) False) (\<lambda>J1.
      rbind (requirePaymentAttempt J1 purchaseId attemptNumber) (\<lambda>r. Inr (J1, r))))))))"

text \<open>\<open>ORDER BY attempt\<close>\<close>

fun insert_attempt :: "attempt_row \<Rightarrow> attempt_row list \<Rightarrow> attempt_row list" where
  "insert_attempt r [] = [r]"
| "insert_attempt r (x # xs) =
     (if at_attempt r \<le> at_attempt x then r # x # xs else x # insert_attempt r xs)"

definition paymentAttempts :: "journal \<Rightarrow> string \<Rightarrow> attempt_row list result" where
  "paymentAttempts J purchaseId =
     rbind (requirePurchase J purchaseId) (\<lambda>_.
       Inr (foldr insert_attempt (filter (\<lambda>r. at_purchase_id r = purchaseId) (attempts J)) []))"

section \<open>Every operation is one step of the attempts\<close>

definition attempt_key :: "attempt_row \<Rightarrow> string \<times> int" where
  "attempt_key r = (at_purchase_id r, at_attempt r)"

definition attempt_state_of :: "journal \<Rightarrow> string \<times> int \<Rightarrow> attempt_state option" where
  "attempt_state_of J k = map_option at_state (find_row (\<lambda>r. attempt_key r = k) (attempts J))"

definition attempt_log_pairs :: "journal \<Rightarrow> ((string \<times> int) \<times> attempt_state) list" where
  "attempt_log_pairs J = map (\<lambda>e. ((att_purchase_id e, att_attempt e), att_to e)) (attempt_log J)"

definition attempt_moves :: "attempt_state \<Rightarrow> attempt_state \<Rightarrow> bool" where
  "attempt_moves s t \<longleftrightarrow> t \<in> set (attempt_allowed s) \<or> s = Att_submitted \<and> t = Att_failed"

definition attempts_inv :: "journal \<Rightarrow> bool" where
  "attempts_inv J \<longleftrightarrow>
     distinct (map attempt_key (attempts J)) \<and> distinct (map at_identifier (attempts J))"

inductive attempt_delta :: "journal \<Rightarrow> journal \<Rightarrow> bool" where
  attempts_unchanged:
    "attempts J' = attempts J \<Longrightarrow> attempt_log J' = attempt_log J \<Longrightarrow> attempt_delta J J'"
| attempt_created:
    "find_row (\<lambda>x. attempt_key x = attempt_key r) (attempts J) = None \<Longrightarrow>
     find_row (\<lambda>x. at_identifier x = at_identifier r) (attempts J) = None \<Longrightarrow>
     at_state r = Att_planned \<Longrightarrow> attempts J' = attempts J @ [r] \<Longrightarrow>
     attempt_log J' = attempt_log J @ [e] \<Longrightarrow>
     (att_purchase_id e, att_attempt e) = attempt_key r \<Longrightarrow> att_to e = Att_planned \<Longrightarrow>
     attempt_delta J J'"
| attempt_moved:
    "r \<in> set (attempts J) \<Longrightarrow> attempt_moves (at_state r) to_state \<Longrightarrow>
     attempts J' = update_rows (attempt_here r) (moved_attempt to_state failureCode now) (attempts J) \<Longrightarrow>
     attempt_log J' = attempt_log J @ [e] \<Longrightarrow>
     (att_purchase_id e, att_attempt e) = attempt_key r \<Longrightarrow> att_to e = to_state \<Longrightarrow>
     attempt_delta J J'"

lemma attempt_found:
  "findPaymentAttempt J p n = find_row (\<lambda>r. attempt_key r = (p, n)) (attempts J)"
  by (simp add: findPaymentAttempt_def attempt_key_def)

lemma attempt_unique:
  assumes "attempts_inv J" and "r \<in> set (attempts J)"
  shows "find_row (\<lambda>x. attempt_key x = attempt_key r) (attempts J) = Some r"
  using assms find_row_key_unique by (auto simp: attempts_inv_def)

lemma attempt_delta_inv:
  assumes "attempt_delta J J'" and "attempts_inv J"
  shows "attempts_inv J'"
  using assms(1)
proof cases
  case attempts_unchanged
  with assms(2) show ?thesis by (simp add: attempts_inv_def)
next
  case (attempt_created r e)
  then show ?thesis
    using assms(2) by (auto simp: attempts_inv_def find_row_None_iff)
next
  case (attempt_moved r to_state failureCode now e)
  have "map attempt_key (attempts J') = map attempt_key (attempts J)"
    "map at_identifier (attempts J') = map at_identifier (attempts J)"
    unfolding attempt_moved(3)
    by (rule map_key_update_rows, simp add: moved_attempt_def attempt_key_def)+
  with assms(2) show ?thesis by (simp only: attempts_inv_def)
qed

lemma attempt_delta_logged:
  assumes "attempt_delta J J'" and inv: "attempts_inv J"
  shows "attempt_state_of J' = attempt_state_of J \<and> attempt_log_pairs J' = attempt_log_pairs J
    \<or> (\<exists>k y. attempt_state_of J' = (attempt_state_of J)(k \<mapsto> y)
           \<and> attempt_log_pairs J' = attempt_log_pairs J @ [(k, y)]
           \<and> (case attempt_state_of J k of None \<Rightarrow> y = Att_planned | Some x \<Rightarrow> attempt_moves x y))"
  using assms(1)
proof cases
  case attempts_unchanged
  then show ?thesis by (simp add: attempt_state_of_def attempt_log_pairs_def fun_eq_iff)
next
  case (attempt_created r e)
  then have "attempt_state_of J' = (attempt_state_of J)(attempt_key r \<mapsto> Att_planned)"
    by (auto simp: attempt_state_of_def find_row_append fun_eq_iff split: option.splits)
  moreover have "attempt_state_of J (attempt_key r) = None"
    using attempt_created by (simp add: attempt_state_of_def)
  ultimately show ?thesis
    using attempt_created by (intro disjI2 exI [of _ "attempt_key r"]) (auto simp: attempt_log_pairs_def)
next
  case (attempt_moved r to_state failureCode now e)
  note here = attempt_unique [OF inv attempt_moved(1)]
  have keys: "distinct (map attempt_key (attempts J))" using inv by (simp add: attempts_inv_def)
  have "find_row (\<lambda>x. attempt_key x = k) (attempts J')
      = (if k = attempt_key r then Some (moved_attempt to_state failureCode now r)
         else find_row (\<lambda>x. attempt_key x = k) (attempts J))" for k
    unfolding attempt_moved(3)
    by (rule find_row_update_keyed [OF keys attempt_moved(1)])
      (simp_all add: attempt_here_def moved_attempt_def attempt_key_def)
  then have "attempt_state_of J' = (attempt_state_of J)(attempt_key r \<mapsto> to_state)"
    by (simp add: attempt_state_of_def moved_attempt_def fun_eq_iff)
  moreover have "attempt_state_of J (attempt_key r) = Some (at_state r)"
    using here by (simp add: attempt_state_of_def)
  ultimately show ?thesis
    using attempt_moved by (intro disjI2 exI [of _ "attempt_key r"]) (auto simp: attempt_log_pairs_def)
qed

lemma transitionAttempt_eq:
  assumes "transitionAttemptInternal J attempt to_state reason d now failureCode backed = Inr J'"
  shows "attempt_moves (at_state attempt) to_state
    \<and> J' = J\<lparr>attempts := update_rows (attempt_here attempt) (moved_attempt to_state failureCode now)
                (attempts J),
             attempt_log := attempt_log J @ [\<lparr>att_purchase_id = at_purchase_id attempt,
               att_attempt = at_attempt attempt, att_from = Some (at_state attempt),
               att_to = to_state, att_reason = reason, att_detail = d, att_created_at = now\<rparr>]\<rparr>"
  using assms
  by (auto simp: transitionAttemptInternal_def assertAttemptTransition_def attempt_moves_def
      insertAttemptTransition_def split: if_splits)

end
