(* ===== verification/Purchases.thy ===== *)
theory Purchases
  imports Attempts Execution_Plans
begin

text \<open>
  The life of a Purchase (\<open>src/purchase/journal.ts\<close>): the facts a state requires
  (\<open>assertPurchaseStateFacts\<close>), the checked transition, and the operations that end a Purchase
  before an external effect: cancellation, expiry before and after treasury staging, and the
  abandonment of what was never claimed.
\<close>

section \<open>Lookups\<close>

definition findPaymentPreparation :: "journal \<Rightarrow> string \<Rightarrow> int \<Rightarrow> preparation_row option" where
  "findPaymentPreparation J purchaseId n =
     find_row (\<lambda>r. pp_purchase_id r = purchaseId \<and> pp_attempt r = n) (preparations J)"

definition requirePaymentPreparation :: "journal \<Rightarrow> string \<Rightarrow> int \<Rightarrow> preparation_row result" where
  "requirePaymentPreparation J purchaseId n =
     (case findPaymentPreparation J purchaseId n of
        None \<Rightarrow> Inl JournalNotFoundError | Some r \<Rightarrow> Inr r)"

definition findTreasuryStagingPlan :: "journal \<Rightarrow> string \<Rightarrow> int \<Rightarrow> staging_plan_row option" where
  "findTreasuryStagingPlan J purchaseId n =
     find_row (\<lambda>r. sp_purchase_id r = purchaseId \<and> sp_attempt r = n) (staging_plans J)"

definition requireTreasuryStagingPlan :: "journal \<Rightarrow> string \<Rightarrow> int \<Rightarrow> staging_plan_row result" where
  "requireTreasuryStagingPlan J purchaseId n =
     (case findTreasuryStagingPlan J purchaseId n of
        None \<Rightarrow> Inl JournalNotFoundError | Some r \<Rightarrow> Inr r)"

definition findTreasuryStagingObservation ::
  "journal \<Rightarrow> string \<Rightarrow> int \<Rightarrow> staging_observation_row option" where
  "findTreasuryStagingObservation J purchaseId n =
     find_row (\<lambda>r. so_purchase_id r = purchaseId \<and> so_attempt r = n) (staging_observations J)"

definition findSettlement :: "journal \<Rightarrow> string \<Rightarrow> settlement_row option" where
  "findSettlement J reservationId =
     find_row (\<lambda>r. st_reservation_id r = reservationId) (settlements J)"

text \<open>\<open>ORDER BY id DESC LIMIT 1\<close>\<close>

definition findSettlementForPurchase :: "journal \<Rightarrow> string \<Rightarrow> settlement_row option" where
  "findSettlementForPurchase J purchaseId =
     find_row (\<lambda>r. st_purchase_id r = purchaseId) (rev (settlements J))"

definition findFulfilment :: "journal \<Rightarrow> string \<Rightarrow> fulfilment_row option" where
  "findFulfilment J purchaseId = find_row (\<lambda>r. ff_purchase_id r = purchaseId) (fulfilments J)"

definition receipts_of :: "journal \<Rightarrow> string \<Rightarrow> receipt_row list result" where
  "receipts_of J purchaseId =
     rbind (requirePurchase J purchaseId) (\<lambda>_.
       Inr (filter (\<lambda>r. rc_purchase_id r = purchaseId) (receipts J)))"

section \<open>The facts a state requires\<close>

definition effect_engaged :: "effect_state \<Rightarrow> bool" where
  "effect_engaged s \<longleftrightarrow>
     s \<in> {Eff_executing, Eff_submitted, Eff_ambiguous, Eff_retryable, Eff_observed,
          Eff_failed_terminal}"

text \<open>The facts read at the start of \<open>assertPurchaseStateFacts\<close>.\<close>

record purchase_facts =
  fx_terms :: "checkout_terms_row option"
  fx_request :: "authorization_request_row option"
  fx_authorization :: "authorization_row option"
  fx_reservation :: "reservation_row option"
  fx_attempt :: "attempt_row option"
  fx_preparation :: "preparation_row option"
  fx_effects :: "effect_row list"
  fx_staging_plan :: "staging_plan_row option"
  fx_staging_observation :: "staging_observation_row option"
  fx_settlement :: "settlement_row option"
  fx_fulfilment :: "fulfilment_row option"
  fx_receipts :: "receipt_row list"

definition last_of :: "'a list \<Rightarrow> 'a option" where
  "last_of xs = (if xs = [] then None else Some (last xs))"

definition purchaseFacts :: "(string \<Rightarrow> string) \<Rightarrow> journal \<Rightarrow> string \<Rightarrow> purchase_facts result" where
  "purchaseFacts H J purchaseId =
     (let terms = findCheckoutTerms J purchaseId in
      rbind (if terms \<noteq> None then rbind (requireExecutionPlan H J purchaseId) (\<lambda>_. Inr ())
             else Inr ()) (\<lambda>_.
      rbind (paymentAttempts J purchaseId) (\<lambda>atts.
      rbind (effectsForPurchase J purchaseId) (\<lambda>effs.
      rbind (receipts_of J purchaseId) (\<lambda>recs.
      let latest = last_of atts in
      Inr \<lparr>fx_terms = terms,
           fx_request = findAuthorizationRequest J purchaseId,
           fx_authorization = findAuthorization J purchaseId,
           fx_reservation = findReservationForPurchase J purchaseId,
           fx_attempt = latest,
           fx_preparation =
             (case latest of None \<Rightarrow> None
              | Some a \<Rightarrow> findPaymentPreparation J purchaseId (at_attempt a)),
           fx_effects = filter (\<lambda>e. ef_attempt e = map_option at_attempt latest) effs,
           fx_staging_plan =
             (case latest of None \<Rightarrow> None
              | Some a \<Rightarrow> findTreasuryStagingPlan J purchaseId (at_attempt a)),
           fx_staging_observation =
             (case latest of None \<Rightarrow> None
              | Some a \<Rightarrow> findTreasuryStagingObservation J purchaseId (at_attempt a)),
           fx_settlement = findSettlementForPurchase J purchaseId,
           fx_fulfilment = findFulfilment J purchaseId,
           fx_receipts = recs\<rparr>)))))"

definition fx_staging_effect :: "purchase_facts \<Rightarrow> effect_row option" where
  "fx_staging_effect fx =
     (case fx_staging_plan fx of None \<Rightarrow> None
      | Some plan \<Rightarrow> find_row (\<lambda>e. ef_id e = sp_effect_id plan) (fx_effects fx))"

definition fx_payment_effects :: "purchase_facts \<Rightarrow> effect_row list" where
  "fx_payment_effects fx =
     filter (\<lambda>e. ef_kind e \<noteq> TREASURY_STAGING_EFFECT_KIND
                 \<and> ef_kind e \<noteq> TREASURY_STAGING_RECOVERY_EFFECT_KIND) (fx_effects fx)"

definition attempt_in :: "purchase_facts \<Rightarrow> attempt_state list \<Rightarrow> bool" where
  "attempt_in fx states \<longleftrightarrow>
     (case fx_attempt fx of None \<Rightarrow> False | Some a \<Rightarrow> at_state a \<in> set states)"

definition reservation_in :: "purchase_facts \<Rightarrow> reservation_state list \<Rightarrow> bool" where
  "reservation_in fx states \<longleftrightarrow>
     (case fx_reservation fx of None \<Rightarrow> False | Some r \<Rightarrow> rs_state r \<in> set states)"

text \<open>\<open>stagingEffect?.state === "observed" && stagingObservation?.effectId === stagingEffect.id\<close>\<close>

definition staging_observed :: "purchase_facts \<Rightarrow> bool" where
  "staging_observed fx \<longleftrightarrow>
     (case fx_staging_effect fx of None \<Rightarrow> False
      | Some e \<Rightarrow> ef_state e = Eff_observed
          \<and> map_option so_effect_id (fx_staging_observation fx) = Some (ef_id e))"

definition stagingInProgress :: "purchase_facts \<Rightarrow> bool" where
  "stagingInProgress fx \<longleftrightarrow>
     attempt_in fx [Att_planned]
     \<and> (case (fx_staging_plan fx, fx_staging_effect fx, fx_reservation fx) of
          (Some plan, Some e, Some r) \<Rightarrow>
            rs_id r = sp_reservation_id plan
            \<and> (rs_state r = Res_active \<and> ef_state e = Eff_planned
               \<or> rs_state r = Res_in_flight \<and> effect_engaged (ef_state e))
            \<and> (ef_state e \<noteq> Eff_observed
               \<or> map_option so_effect_id (fx_staging_observation fx) = Some (ef_id e))
        | _ \<Rightarrow> False)"

definition firstSubmissionInProgress :: "purchase_facts \<Rightarrow> bool" where
  "firstSubmissionInProgress fx \<longleftrightarrow>
     attempt_in fx [Att_submitted, Att_observed, Att_failed]
     \<and> reservation_in fx [Res_in_flight, Res_spent, Res_released]
     \<and> list_ex (\<lambda>e. effect_engaged (ef_state e)) (fx_payment_effects fx)"

definition readyToSubmit :: "purchase_facts \<Rightarrow> bool" where
  "readyToSubmit fx \<longleftrightarrow>
     attempt_in fx [Att_prepared]
     \<and> (reservation_in fx [Res_active]
        \<or> reservation_in fx [Res_in_flight] \<and> staging_observed fx)
     \<and> list_ex (\<lambda>e. ef_state e = Eff_planned \<or> ef_state e = Eff_retryable) (fx_payment_effects fx)"

definition stagedPreparationAwaitingEffect :: "purchase_facts \<Rightarrow> bool" where
  "stagedPreparationAwaitingEffect fx \<longleftrightarrow>
     fx_preparation fx \<noteq> None \<and> attempt_in fx [Att_prepared]
     \<and> reservation_in fx [Res_in_flight] \<and> staging_observed fx \<and> fx_payment_effects fx = []"

definition decided :: "purchase_facts \<Rightarrow> purchase_decision \<Rightarrow> bool" where
  "decided fx d \<longleftrightarrow> map_option au_decision (fx_authorization fx) = Some d"

definition open_voucher :: "journal \<Rightarrow> string \<Rightarrow> bool" where
  "open_voucher J purchaseId \<longleftrightarrow>
     list_ex (\<lambda>m. mv_purchase_id m = Some purchaseId \<and> mv_kind m = Mov_voucher
                  \<and> mv_state m \<in> {Mov_planned, Mov_submitted, Mov_ambiguous}) (movements J)"

definition settled_facts :: "purchase_facts \<Rightarrow> bool" where
  "settled_facts fx \<longleftrightarrow>
     fx_settlement fx \<noteq> None \<and> attempt_in fx [Att_observed] \<and> reservation_in fx [Res_spent]
     \<and> list_ex (\<lambda>e. ef_state e = Eff_observed) (fx_payment_effects fx)"

definition state_facts_hold :: "purchase_facts \<Rightarrow> purchase_state \<Rightarrow> bool" where
  "state_facts_hold fx state \<longleftrightarrow>
     (case state of
        Pur_terms_bound \<Rightarrow> fx_terms fx \<noteq> None
      | Pur_awaiting_authority \<Rightarrow> fx_terms fx \<noteq> None \<and> fx_request fx \<noteq> None
      | Pur_authorised \<Rightarrow> decided fx Dec_approved
      | Pur_denied \<Rightarrow> decided fx Dec_denied
      | Pur_execution_prepared \<Rightarrow>
          stagingInProgress fx
          \<or> fx_preparation fx \<noteq> None
            \<and> (readyToSubmit fx \<or> firstSubmissionInProgress fx
               \<or> stagedPreparationAwaitingEffect fx)
      | Pur_submitted \<Rightarrow> fx_preparation fx \<noteq> None \<and> firstSubmissionInProgress fx
      | Pur_settled \<Rightarrow> settled_facts fx
      | Pur_fulfilled \<Rightarrow> settled_facts fx \<and> fx_fulfilment fx \<noteq> None
      | Pur_receipted \<Rightarrow> settled_facts fx \<and> fx_fulfilment fx \<noteq> None \<and> length (fx_receipts fx) = 1
      | _ \<Rightarrow> True)"

definition assertPurchaseStateFacts :: "(string \<Rightarrow> string) \<Rightarrow> journal \<Rightarrow> string \<Rightarrow> purchase_state \<Rightarrow> unit result" where
  "assertPurchaseStateFacts H J purchaseId state =
     rbind (purchaseFacts H J purchaseId) (\<lambda>fx.
     if state \<in> {Pur_cancelled, Pur_expired, Pur_denied, Pur_failed_terminal}
        \<and> open_voucher J purchaseId
     then Inl JournalInvariantError
     else require (state_facts_hold fx state) JournalInvariantError)"

section \<open>The transition\<close>

definition insertPurchaseTransition ::
  "string \<Rightarrow> purchase_state option \<Rightarrow> purchase_state \<Rightarrow> string \<Rightarrow> string option \<Rightarrow> int \<Rightarrow> journal
    \<Rightarrow> journal" where
  "insertPurchaseTransition purchaseId from_state to_state reasonCode detailDigest now J =
     J\<lparr>purchase_log := purchase_log J @
         [\<lparr>pt_purchase_id = purchaseId, pt_from = from_state, pt_to = to_state,
           pt_reason = reasonCode, pt_detail = detailDigest, pt_created_at = now\<rparr>]\<rparr>"

definition purchase_here :: "purchase_row \<Rightarrow> purchase_row \<Rightarrow> bool" where
  "purchase_here current r \<longleftrightarrow>
     pu_id r = pu_id current \<and> pu_state r = pu_state current \<and> pu_version r = pu_version current"

definition moved_purchase :: "purchase_state \<Rightarrow> int \<Rightarrow> purchase_row \<Rightarrow> purchase_row" where
  "moved_purchase to_state now r =
     r\<lparr>pu_state := to_state, pu_version := pu_version r + 1, pu_updated_at := now\<rparr>"

definition transitionPurchase ::
  "(string \<Rightarrow> string) \<Rightarrow> journal \<Rightarrow> string \<Rightarrow> purchase_state \<Rightarrow> purchase_state \<Rightarrow> string \<Rightarrow> string option \<Rightarrow> int
    \<Rightarrow> (journal \<times> purchase_row) result" where
  "transitionPurchase H J i expectedState to_state reasonCode detailDigest clock =
     rbind (assertCode reasonCode) (\<lambda>_.
     rbind (assert_when_truthy detailDigest assertDigest) (\<lambda>_.
     rbind (requirePurchase J i) (\<lambda>current.
     if pu_state current \<noteq> expectedState then Inl JournalInvariantError
     else if pu_state current = to_state then Inr (J, current)
     else if assertPurchaseTransition (pu_state current) to_state \<noteq> Inr ()
     then Inl JournalInvariantError
     else
     rbind (assertPurchaseStateFacts H J i to_state) (\<lambda>_.
     rbind (timestamp clock) (\<lambda>now.
     if changes (purchase_here current) (purchases J) \<noteq> 1 then Inl JournalInvariantError
     else
     let J1 = insertPurchaseTransition i (Some (pu_state current)) to_state reasonCode detailDigest
                now (J\<lparr>purchases := update_rows (purchase_here current) (moved_purchase to_state now)
                                     (purchases J)\<rparr>)
     in rbind (requirePurchase J1 i) (\<lambda>r. Inr (J1, r)))))))"

section \<open>Ending a Purchase before an external effect\<close>

definition terminalizeNeverSubmittedBatchVoucherMovement ::
  "journal \<Rightarrow> string \<Rightarrow> int \<Rightarrow> journal result" where
  "terminalizeNeverSubmittedBatchVoucherMovement J purchaseId now =
     (case filter (\<lambda>m. mv_purchase_id m = Some purchaseId \<and> mv_kind m = Mov_voucher) (movements J) of
        [] \<Rightarrow> Inr J
      | [movement] \<Rightarrow>
          if mv_state movement = Mov_failed_terminal then Inr J
          else if mv_state movement \<noteq> Mov_planned then Inl JournalEffectBusyError
          else
            let here = (\<lambda>m. mv_id m = mv_id movement \<and> mv_state m = Mov_planned) in
            if changes here (movements J) \<noteq> 1 then Inl JournalFencingError
            else Inr (J\<lparr>movements := update_rows here
                   (\<lambda>m. m\<lparr>mv_state := Mov_failed_terminal, mv_updated_at := now\<rparr>) (movements J)\<rparr>)
      | _ \<Rightarrow> Inl JournalInvariantError)"

definition effect_unclaimed :: "effect_row \<Rightarrow> bool" where
  "effect_unclaimed e \<longleftrightarrow> ef_state e \<in> {Eff_planned, Eff_retryable, Eff_abandoned}"

fun abandon_effects ::
  "string \<Rightarrow> string option \<Rightarrow> string \<Rightarrow> int \<Rightarrow> effect_row list \<Rightarrow> journal \<Rightarrow> journal result" where
  "abandon_effects reason detailDigest errorCode now [] J = Inr J"
| "abandon_effects reason detailDigest errorCode now (e # es) J =
     rbind (if ef_state e = Eff_planned \<or> ef_state e = Eff_retryable
            then updateEffectState J e Eff_abandoned reason
                   (coalesce detailDigest (Some (ef_payload_digest e))) now
                   (no_updates\<lparr>eu_error := Some errorCode\<rparr>)
            else Inr J)
       (abandon_effects reason detailDigest errorCode now es)"

text \<open>Releasing the Purchase's active reservation, where nothing irreversible happened to it.\<close>

definition release_for_purchase :: "journal \<Rightarrow> string \<Rightarrow> int \<Rightarrow> error \<Rightarrow> journal result" where
  "release_for_purchase J purchaseId now busy =
     (case findReservationForPurchase J purchaseId of
        None \<Rightarrow> Inr J
      | Some reservation \<Rightarrow>
          if rs_state reservation = Res_active
          then (if changes (\<lambda>r. rs_id r = rs_id reservation \<and> rs_state r = Res_active)
                     (reservations J) \<noteq> 1
                then Inl JournalInvariantError
                else Inr (release_reservation_row (rs_id reservation) now J))
          else if rs_state reservation \<noteq> Res_released \<and> rs_state reservation \<noteq> Res_expired
          then Inl busy
          else Inr J)"

definition cancelPurchaseBeforeExternalEffect ::
  "(string \<Rightarrow> string) \<Rightarrow> journal \<Rightarrow> string \<Rightarrow> int \<Rightarrow> int \<Rightarrow> (journal \<times> purchase_row) result" where
  "cancelPurchaseBeforeExternalEffect H J purchaseId clock0 clock =
     rbind (requirePurchase J purchaseId) (\<lambda>purchase.
     if pu_state purchase = Pur_cancelled then Inr (J, purchase)
     else if pu_state purchase \<notin> {Pur_created, Pur_terms_bound, Pur_awaiting_authority,
               Pur_authorised, Pur_execution_prepared}
     then Inl JournalEffectBusyError
     else
     rbind (effectsForPurchase J purchaseId) (\<lambda>effs.
     if \<not> list_all effect_unclaimed effs then Inl JournalEffectBusyError
     else
     rbind (timestamp clock0) (\<lambda>now.
     let detailDigest = map_option ct_checkout_digest (findCheckoutTerms J purchaseId) in
     rbind (terminalizeNeverSubmittedBatchVoucherMovement J purchaseId now) (\<lambda>J1.
     rbind (abandon_effects ''purchase_cancelled_before_external_effect'' detailDigest
              ''cancelled_before_external_effect'' now effs J1) (\<lambda>J2.
     rbind (paymentAttempts J2 purchaseId) (\<lambda>atts.
     if length atts > 1 then Inl JournalInvariantError
     else
     rbind (case atts of
              [] \<Rightarrow> Inr J2
            | attempt # _ \<Rightarrow>
                if at_state attempt = Att_planned \<or> at_state attempt = Att_prepared
                then transitionAttemptInternal J2 attempt Att_failed
                       ''purchase_cancelled_before_external_effect'' detailDigest now
                       (Some ''cancelled_before_external_effect'') False
                else if at_state attempt \<noteq> Att_failed then Inl JournalEffectBusyError
                else Inr J2) (\<lambda>J3.
     rbind (release_for_purchase J3 purchaseId now JournalEffectBusyError) (\<lambda>J4.
     transitionPurchase H J4 purchaseId (pu_state purchase) Pur_cancelled
       ''purchase_cancelled_before_external_effect'' detailDigest clock))))))))"

definition expirePurchaseBeforeTreasury ::
  "(string \<Rightarrow> string) \<Rightarrow> journal \<Rightarrow> string \<Rightarrow> int \<Rightarrow> int \<Rightarrow> (journal \<times> purchase_row) result" where
  "expirePurchaseBeforeTreasury H J purchaseId clock0 clock =
     rbind (requirePurchase J purchaseId) (\<lambda>purchase.
     rbind (requireCheckoutTerms J purchaseId) (\<lambda>terms.
     rbind (requireAuthorization J purchaseId) (\<lambda>authorization.
     rbind (timestamp clock0) (\<lambda>now.
     if pu_state purchase \<noteq> Pur_authorised
        \<or> min (ct_expires_at terms) (au_expires_at authorization) > now
     then Inl JournalInvariantError
     else
     rbind (paymentAttempts J purchaseId) (\<lambda>atts.
     if length atts > 1 then Inl JournalInvariantError
     else
     rbind (case atts of
              [] \<Rightarrow> Inr J
            | attempt # _ \<Rightarrow>
                if at_state attempt = Att_planned
                then transitionAttemptInternal J attempt Att_failed
                       ''checkout_expired_before_treasury'' (Some (ct_checkout_digest terms)) now
                       (Some ''checkout_expired_before_treasury'') False
                else if at_state attempt \<noteq> Att_failed then Inl JournalInvariantError
                else Inr J) (\<lambda>J1.
     rbind (release_for_purchase J1 purchaseId now JournalInvariantError) (\<lambda>J2.
     transitionPurchase H J2 purchaseId Pur_authorised Pur_expired
       ''checkout_expired_before_treasury'' (Some (ct_checkout_digest terms)) clock)))))))"

text \<open>From the staging facts of the one attempt to the abandonment of its planned Effect.\<close>

definition block_attempt ::
  "journal \<Rightarrow> string \<Rightarrow> checkout_terms_row \<Rightarrow> attempt_row \<Rightarrow> int \<Rightarrow> journal result" where
  "block_attempt J purchaseId terms attempt now =
     (case findTreasuryStagingObservation J purchaseId (at_attempt attempt) of
        None \<Rightarrow> Inl JournalInvariantError
      | Some staging \<Rightarrow>
        rbind (requireEffect J (so_effect_id staging)) (\<lambda>stagingEffect.
        if ef_state stagingEffect \<noteq> Eff_observed then Inl JournalInvariantError
        else
        rbind (effectsForPurchase J purchaseId) (\<lambda>effs.
        let paymentEffects = filter (\<lambda>e. ef_attempt e = Some (at_attempt attempt)
                                         \<and> ef_kind e = ''kaspa-x402-payment'') effs in
        if length paymentEffects > 1 \<or> list_ex (\<lambda>e. ef_state e \<noteq> Eff_planned) paymentEffects
        then Inl JournalInvariantError
        else if at_state attempt \<noteq> Att_planned \<and> at_state attempt \<noteq> Att_prepared
        then Inl JournalInvariantError
        else
        rbind (transitionAttemptInternal J attempt Att_failed
                 ''checkout_expired_after_staging'' (Some (ct_checkout_digest terms)) now
                 (Some ''checkout_expired_after_staging'') False) (\<lambda>J1.
        case paymentEffects of
          [] \<Rightarrow> Inr J1
        | e # _ \<Rightarrow>
            updateEffectState J1 e Eff_abandoned ''checkout_expired_after_staging''
              (Some (ct_checkout_digest terms)) now
              (no_updates\<lparr>eu_error := Some ''checkout_expired_after_staging''\<rparr>)))))"

definition blockExpiredStagedPurchase ::
  "(string \<Rightarrow> string) \<Rightarrow> journal \<Rightarrow> string \<Rightarrow> int \<Rightarrow> int \<Rightarrow> (journal \<times> purchase_row) result" where
  "blockExpiredStagedPurchase H J purchaseId clock0 clock =
     rbind (requirePurchase J purchaseId) (\<lambda>purchase.
     rbind (requireCheckoutTerms J purchaseId) (\<lambda>terms.
     rbind (requireAuthorization J purchaseId) (\<lambda>authorization.
     rbind (timestamp clock0) (\<lambda>now.
     if pu_state purchase \<noteq> Pur_execution_prepared
        \<or> min (ct_expires_at terms) (au_expires_at authorization) > now
     then Inl JournalInvariantError
     else
     rbind (paymentAttempts J purchaseId) (\<lambda>atts.
     case atts of
       [attempt] \<Rightarrow>
         rbind (block_attempt J purchaseId terms attempt now) (\<lambda>J2.
         transitionPurchase H J2 purchaseId Pur_execution_prepared Pur_failed_recoverable
           ''checkout_expired_after_staging'' (Some (ct_checkout_digest terms)) clock)
     | _ \<Rightarrow> Inl JournalInvariantError)))))"

text \<open>
  \<open>abandonExpiredPreparedPayment\<close> reads the clock for the expiry of reservations, for the
  changes and in the transition.
\<close>

definition abandonExpiredPreparedPayment ::
  "(string \<Rightarrow> string) \<Rightarrow> journal \<Rightarrow> string \<Rightarrow> string \<Rightarrow> int \<Rightarrow> int \<Rightarrow> int \<Rightarrow> (journal \<times> purchase_row) result" where
  "abandonExpiredPreparedPayment H J effectId reservationId clock0 clock1 clock =
     rbind (requireEffect J effectId) (\<lambda>effect.
     case ef_attempt effect of
       None \<Rightarrow> Inl JournalInvariantError
     | Some n \<Rightarrow>
     rbind (requirePurchase J (ef_purchase_id effect)) (\<lambda>purchase.
     rbind (requirePaymentPreparation J (ef_purchase_id effect) n) (\<lambda>preparation.
     rbind (requirePaymentAttempt J (ef_purchase_id effect) n) (\<lambda>attempt.
     rbind (timestamp clock0) (\<lambda>now0.
     let J1 = expireReservationsInternal J now0 in
     rbind (requireReservation J1 reservationId) (\<lambda>reservation.
     if pu_state purchase \<noteq> Pur_execution_prepared \<or> ef_state effect \<noteq> Eff_planned
        \<or> at_state attempt \<noteq> Att_prepared \<or> pp_reservation_id preparation \<noteq> reservationId
        \<or> rs_state reservation \<noteq> Res_expired
     then Inl JournalInvariantError
     else
     rbind (timestamp clock1) (\<lambda>now.
     let reason = ''reservation_expired_before_submission'';
         digest = Some (rs_policy_digest reservation) in
     rbind (terminalizeNeverSubmittedBatchVoucherMovement J1 (pu_id purchase) now) (\<lambda>J2.
     rbind (transitionAttemptInternal J2 attempt Att_failed reason digest now (Some reason) False) (\<lambda>J3.
     rbind (updateEffectState J3 effect Eff_abandoned reason digest now
              (no_updates\<lparr>eu_error := Some reason\<rparr>)) (\<lambda>J4.
     transitionPurchase H J4 (pu_id purchase) Pur_execution_prepared Pur_expired reason digest
       clock))))))))))"

definition abandonExpiredTreasuryStaging ::
  "(string \<Rightarrow> string) \<Rightarrow> journal \<Rightarrow> string \<Rightarrow> string \<Rightarrow> int \<Rightarrow> int \<Rightarrow> int \<Rightarrow> (journal \<times> purchase_row) result" where
  "abandonExpiredTreasuryStaging H J effectId reservationId clock0 clock1 clock =
     rbind (requireEffect J effectId) (\<lambda>effect.
     case ef_attempt effect of
       None \<Rightarrow> Inl JournalInvariantError
     | Some n \<Rightarrow>
     if ef_kind effect \<noteq> TREASURY_STAGING_EFFECT_KIND then Inl JournalInvariantError
     else
     rbind (requirePurchase J (ef_purchase_id effect)) (\<lambda>purchase.
     rbind (requireTreasuryStagingPlan J (ef_purchase_id effect) n) (\<lambda>plan.
     rbind (requirePaymentAttempt J (ef_purchase_id effect) n) (\<lambda>attempt.
     rbind (timestamp clock0) (\<lambda>now0.
     let J1 = expireReservationsInternal J now0 in
     rbind (requireReservation J1 reservationId) (\<lambda>reservation.
     if pu_state purchase \<noteq> Pur_execution_prepared \<or> sp_effect_id plan \<noteq> ef_id effect
        \<or> sp_reservation_id plan \<noteq> reservationId \<or> ef_state effect \<noteq> Eff_planned
        \<or> at_state attempt \<noteq> Att_planned \<or> rs_state reservation \<noteq> Res_expired
     then Inl JournalInvariantError
     else
     rbind (timestamp clock1) (\<lambda>now.
     let reason = ''reservation_expired_before_treasury_staging'';
         digest = Some (rs_policy_digest reservation) in
     rbind (transitionAttemptInternal J1 attempt Att_failed reason digest now (Some reason) False) (\<lambda>J2.
     rbind (updateEffectState J2 effect Eff_abandoned reason digest now
              (no_updates\<lparr>eu_error := Some reason\<rparr>)) (\<lambda>J3.
     transitionPurchase H J3 (pu_id purchase) Pur_execution_prepared Pur_expired reason digest
       clock)))))))))"

section \<open>Every operation is a step of the Purchases\<close>

definition purchase_state_of :: "journal \<Rightarrow> string \<Rightarrow> purchase_state option" where
  "purchase_state_of J i = map_option pu_state (find_row (\<lambda>r. pu_id r = i) (purchases J))"

definition purchase_log_pairs :: "journal \<Rightarrow> (string \<times> purchase_state) list" where
  "purchase_log_pairs J = map (\<lambda>e. (pt_purchase_id e, pt_to e)) (purchase_log J)"

definition purchase_moves :: "purchase_state \<Rightarrow> purchase_state \<Rightarrow> bool" where
  "purchase_moves s t \<longleftrightarrow> t \<in> set (purchase_allowed s)"

definition purchases_inv :: "journal \<Rightarrow> bool" where
  "purchases_inv J \<longleftrightarrow> distinct (map pu_id (purchases J))"

inductive purchase_delta :: "journal \<Rightarrow> journal \<Rightarrow> bool" where
  purchases_unchanged:
    "purchases J' = purchases J \<Longrightarrow> purchase_log J' = purchase_log J \<Longrightarrow> purchase_delta J J'"
| purchase_created:
    "find_row (\<lambda>x. pu_id x = pu_id r) (purchases J) = None \<Longrightarrow> pu_state r = Pur_created \<Longrightarrow>
     purchases J' = purchases J @ [r] \<Longrightarrow> purchase_log J' = purchase_log J @ [e] \<Longrightarrow>
     pt_purchase_id e = pu_id r \<Longrightarrow> pt_to e = Pur_created \<Longrightarrow> purchase_delta J J'"
| purchase_moved:
    "r \<in> set (purchases J) \<Longrightarrow> purchase_moves (pu_state r) to_state \<Longrightarrow>
     purchaseFacts H J (pu_id r) = Inr fx \<Longrightarrow> state_facts_hold fx to_state \<Longrightarrow>
     purchases J' = update_rows (purchase_here r) (moved_purchase to_state now) (purchases J) \<Longrightarrow>
     purchase_log J' = purchase_log J @ [e] \<Longrightarrow> pt_purchase_id e = pu_id r \<Longrightarrow>
     pt_to e = to_state \<Longrightarrow> purchase_delta J J'"

lemma requirePurchase_eq [simp]:
  "requirePurchase J i = Inr r \<longleftrightarrow> find_row (\<lambda>x. pu_id x = i) (purchases J) = Some r"
  by (auto simp: requirePurchase_def split: option.splits)

lemma purchase_delta_inv: "purchase_delta J J' \<Longrightarrow> purchases_inv J \<Longrightarrow> purchases_inv J'"
proof (induction rule: purchase_delta.induct)
  case (purchase_created r J J' e)
  then show ?case by (auto simp: purchases_inv_def find_row_None_iff)
next
  case (purchase_moved r J to_state H fx J' now e)
  have "map pu_id (purchases J') = map pu_id (purchases J)"
    unfolding purchase_moved(5) by (rule map_key_update_rows) (simp add: moved_purchase_def)
  with purchase_moved show ?case by (simp only: purchases_inv_def)
qed (simp add: purchases_inv_def)

lemma purchase_delta_logged:
  assumes "purchase_delta J J'" and inv: "purchases_inv J"
  shows "purchase_state_of J' = purchase_state_of J \<and> purchase_log_pairs J' = purchase_log_pairs J
    \<or> (\<exists>k y. purchase_state_of J' = (purchase_state_of J)(k \<mapsto> y)
           \<and> purchase_log_pairs J' = purchase_log_pairs J @ [(k, y)]
           \<and> (case purchase_state_of J k of None \<Rightarrow> y = Pur_created | Some x \<Rightarrow> purchase_moves x y))"
  using assms(1)
proof cases
  case purchases_unchanged
  then show ?thesis by (simp add: purchase_state_of_def purchase_log_pairs_def fun_eq_iff)
next
  case (purchase_created r e)
  then have "purchase_state_of J' = (purchase_state_of J)(pu_id r \<mapsto> Pur_created)"
    by (auto simp: purchase_state_of_def find_row_append fun_eq_iff split: option.splits)
  moreover have "purchase_state_of J (pu_id r) = None"
    using purchase_created by (simp add: purchase_state_of_def)
  ultimately show ?thesis
    using purchase_created by (intro disjI2 exI [of _ "pu_id r"]) (auto simp: purchase_log_pairs_def)
next
  case (purchase_moved r to_state H fx now e)
  have keys: "distinct (map pu_id (purchases J))" using inv by (simp add: purchases_inv_def)
  have "find_row (\<lambda>x. pu_id x = k) (purchases J')
      = (if k = pu_id r then Some (moved_purchase to_state now r)
         else find_row (\<lambda>x. pu_id x = k) (purchases J))" for k
    unfolding purchase_moved(5)
    by (rule find_row_update_keyed [OF keys purchase_moved(1)])
      (simp_all add: purchase_here_def moved_purchase_def)
  then have "purchase_state_of J' = (purchase_state_of J)(pu_id r \<mapsto> to_state)"
    by (simp add: purchase_state_of_def moved_purchase_def fun_eq_iff)
  moreover have "purchase_state_of J (pu_id r) = Some (pu_state r)"
    using find_row_key_unique [OF keys purchase_moved(1)] by (simp add: purchase_state_of_def)
  ultimately show ?thesis
    using purchase_moved by (intro disjI2 exI [of _ "pu_id r"]) (auto simp: purchase_log_pairs_def)
qed

lemma transitionPurchase_eq:
  assumes "transitionPurchase H J i expected to_state reason d now = Inr (J', r)"
  obtains (same) "J' = J" and "pu_state r = to_state" and "expected = to_state"
    and "find_row (\<lambda>x. pu_id x = i) (purchases J) = Some r"
  | (moved) current where "find_row (\<lambda>x. pu_id x = i) (purchases J) = Some current"
    and "pu_state current = expected" and "purchase_moves expected to_state"
    and "assertPurchaseStateFacts H J i to_state = Inr ()"
    and "J' = J\<lparr>purchases := update_rows (purchase_here current) (moved_purchase to_state now)
                (purchases J),
             purchase_log := purchase_log J @ [\<lparr>pt_purchase_id = i,
               pt_from = Some (pu_state current), pt_to = to_state,
               pt_reason = reason, pt_detail = d, pt_created_at = now\<rparr>]\<rparr>"
proof -
  from assms obtain current where cur: "find_row (\<lambda>x. pu_id x = i) (purchases J) = Some current"
    "pu_state current = expected" by (auto simp: transitionPurchase_def)
  show thesis
  proof (cases "expected = to_state")
    case True
    with assms cur have "J' = J" "r = current" by (auto simp: transitionPurchase_def)
    with cur True show thesis by (intro same) auto
  next
    case False
    with assms cur have "canTransitionPurchase expected to_state"
      and "assertPurchaseStateFacts H J i to_state = Inr ()"
      and "J' = J\<lparr>purchases := update_rows (purchase_here current) (moved_purchase to_state now)
                (purchases J),
             purchase_log := purchase_log J @ [\<lparr>pt_purchase_id = i,
               pt_from = Some (pu_state current), pt_to = to_state,
               pt_reason = reason, pt_detail = d, pt_created_at = now\<rparr>]\<rparr>"
      unfolding transitionPurchase_def
      by (auto simp: assertPurchaseTransition_def insertPurchaseTransition_def Let_def)
    with cur False show thesis
      by (intro moved) (auto simp: canTransitionPurchase_def purchase_moves_def)
  qed
qed

end
