(* ===== verification/Admission.thy ===== *)
theory Admission
  imports Purchases Evidence Requests
begin

text \<open>
  Admission to the journal (\<open>src/purchase/journal.ts\<close>): creating a Purchase, the budgets on
  Purchases and evidence bytes, the admission leases that account for them, the two-phase
  admission of a Purchase together with its request evidence, and the reconciliation at startup.

  \<open>admission\<close> says whether the journal was opened with admission budgets. Identities that the
  code draws at random and the process id are arguments. The evidence store is three parameters:
  \<open>stores bytes\<close> (\<open>evidenceStore.store\<close> succeeds), \<open>evidence_intact\<close> (\<open>verify\<close>) and
  \<open>removable\<close> (\<open>removeUnreferenced\<close> succeeds); an evidence directory is configured. Operations
  that are several transactions return the journal they leave beside their result.
\<close>

record purchase_input =
  ci_id :: string
  ci_request_key :: string
  ci_resource_url :: string
  ci_method :: string
  ci_resource_fingerprint :: string
  ci_expected_merchant_id :: "string option"
  ci_expected_merchant_origin :: "string option"

record evidence_input =
  ei_bytes :: string
  ei_media_type :: string
  ei_profile :: string
  ei_issuer :: "string option"
  ei_kind :: string
  ei_attempt :: "int option"

section \<open>Validation\<close>

definition as_invariant :: "'a result \<Rightarrow> 'a result" where
  "as_invariant m = (case m of Inl _ \<Rightarrow> Inl JournalInvariantError | Inr x \<Rightarrow> Inr x)"

definition validateCreatePurchase :: "url_parser \<Rightarrow> purchase_input \<Rightarrow> unit result" where
  "validateCreatePurchase parse_url input =
     rbind (as_invariant (assertPurchaseId (ci_id input))) (\<lambda>_.
     rbind (as_invariant (assertPurchaseRequestKey (ci_request_key input))) (\<lambda>_.
     rbind (as_invariant (canonicalRequestUrl parse_url (ci_resource_url input))) (\<lambda>canonicalUrl.
     if canonicalUrl \<noteq> ci_resource_url input then Inl JournalInvariantError
     else if \<not> is_method (ci_method input) then Inl JournalInvariantError
     else
     rbind (assertDigest (ci_resource_fingerprint input)) (\<lambda>_.
     rbind (case ci_expected_merchant_id input of
              None \<Rightarrow> Inr () | Some m \<Rightarrow> assertBoundedText m 200) (\<lambda>_.
     case ci_expected_merchant_origin input of
       None \<Rightarrow> Inr ()
     | Some o' \<Rightarrow>
         (case parse_url o' of
            None \<Rightarrow> Inl JournalInvariantError
          | Some url \<Rightarrow> require (url_origin url = o') JournalInvariantError))))))"

definition validateEvidenceMetadata :: "evidence_input \<Rightarrow> unit result" where
  "validateEvidenceMetadata input =
     rbind (assertBoundedText (ei_media_type input) 200) (\<lambda>_.
     rbind (assertBoundedText (ei_profile input) 200) (\<lambda>_.
     rbind (assertCode (ei_kind input)) (\<lambda>_.
     rbind (case ei_issuer input of None \<Rightarrow> Inr () | Some i \<Rightarrow> assertBoundedText i 200) (\<lambda>_.
     rbind (case ei_attempt input of
              None \<Rightarrow> Inr ()
            | Some n \<Rightarrow> require (is_safe_integer n \<and> 1 \<le> n) JournalInvariantError) (\<lambda>_.
       require (is_safe_integer (int (length (ei_bytes input)))) JournalInvariantError)))))"

definition findPurchase :: "journal \<Rightarrow> string \<Rightarrow> purchase_row option" where
  "findPurchase J i = find_row (\<lambda>r. pu_id r = i) (purchases J)"

definition findPurchaseByRequestKey :: "journal \<Rightarrow> string \<Rightarrow> purchase_row option" where
  "findPurchaseByRequestKey J k = find_row (\<lambda>r. pu_request_key r = k) (purchases J)"

definition same_purchase_intent :: "purchase_row \<Rightarrow> purchase_input \<Rightarrow> bool" where
  "same_purchase_intent existing input \<longleftrightarrow>
     pu_resource_url existing = ci_resource_url input \<and> pu_method existing = ci_method input
     \<and> pu_resource_fingerprint existing = ci_resource_fingerprint input
     \<and> pu_expected_merchant_id existing = ci_expected_merchant_id input
     \<and> pu_expected_merchant_origin existing = ci_expected_merchant_origin input"

definition assertSamePurchaseIntent :: "purchase_row \<Rightarrow> purchase_input \<Rightarrow> unit result" where
  "assertSamePurchaseIntent existing input =
     require (same_purchase_intent existing input) JournalRequestConflictError"

definition new_purchase :: "purchase_input \<Rightarrow> int \<Rightarrow> purchase_row" where
  "new_purchase input now =
     \<lparr>pu_id = ci_id input, pu_request_key = ci_request_key input,
      pu_resource_url = ci_resource_url input, pu_method = ci_method input,
      pu_resource_fingerprint = ci_resource_fingerprint input,
      pu_expected_merchant_id = ci_expected_merchant_id input,
      pu_expected_merchant_origin = ci_expected_merchant_origin input,
      pu_state = Pur_created, pu_version = 0, pu_created_at = now, pu_updated_at = now\<rparr>"

section \<open>The budget\<close>

text \<open>The \<open>CHECK\<close>s of the budget row: an update that takes a counter below zero is an error.\<close>

definition budget_ok :: "admission_budget_row \<Rightarrow> bool" where
  "budget_ok b \<longleftrightarrow> 0 \<le> ab_reserved_purchases b \<and> 0 \<le> ab_reserved_bytes b \<and> 0 \<le> ab_committed_bytes b"

definition charge_budget ::
  "(admission_budget_row \<Rightarrow> admission_budget_row) \<Rightarrow> int \<Rightarrow> journal \<Rightarrow> journal result" where
  "charge_budget f now J =
     (case budget J of
        None \<Rightarrow> Inr J
      | Some b \<Rightarrow>
          if budget_ok (f b) then Inr (J\<lparr>budget := Some ((f b)\<lparr>ab_updated_at := now\<rparr>)\<rparr>)
          else Inl SqliteConstraintError)"

definition add_purchases :: "int \<Rightarrow> admission_budget_row \<Rightarrow> admission_budget_row" where
  "add_purchases n b = b\<lparr>ab_reserved_purchases := ab_reserved_purchases b + n\<rparr>"

definition add_bytes :: "int \<Rightarrow> int \<Rightarrow> admission_budget_row \<Rightarrow> admission_budget_row" where
  "add_bytes reserved committed b =
     b\<lparr>ab_reserved_bytes := ab_reserved_bytes b + reserved,
       ab_committed_bytes := ab_committed_bytes b + committed\<rparr>"

definition update_leases ::
  "(admission_lease_row \<Rightarrow> bool) \<Rightarrow> (admission_lease_row \<Rightarrow> admission_lease_row) \<Rightarrow> journal \<Rightarrow> journal"
where
  "update_leases p f J = J\<lparr>admission_leases := update_rows p f (admission_leases J)\<rparr>"

definition lease_in :: "string \<Rightarrow> admission_lease_state \<Rightarrow> admission_lease_row \<Rightarrow> bool" where
  "lease_in i s r \<longleftrightarrow> al_id r = i \<and> al_state r = s"

definition end_lease ::
  "admission_lease_state \<Rightarrow> string \<Rightarrow> int \<Rightarrow> admission_lease_row \<Rightarrow> admission_lease_row" where
  "end_lease s outcome now r = r\<lparr>al_state := s, al_outcome := Some outcome, al_updated_at := now\<rparr>"

definition findLease :: "journal \<Rightarrow> string \<Rightarrow> admission_lease_row option" where
  "findLease J i = find_row (\<lambda>r. al_id r = i) (admission_leases J)"

text \<open>\<open>lease_id\<close> is the primary key.\<close>

definition insert_lease :: "admission_lease_row \<Rightarrow> journal \<Rightarrow> journal result" where
  "insert_lease l J =
     (if findLease J (al_id l) \<noteq> None then Inl SqliteConstraintError
      else Inr (J\<lparr>admission_leases := admission_leases J @ [l]\<rparr>))"

definition activate_lease :: "string \<Rightarrow> int \<Rightarrow> journal \<Rightarrow> journal" where
  "activate_lease i now J =
     update_leases (\<lambda>r. al_id r = i) (\<lambda>r. r\<lparr>al_state := AL_active, al_updated_at := now\<rparr>) J"

definition journal_owner :: "string \<Rightarrow> string" where
  "journal_owner pid = ''purchase-journal:'' @ pid"

section \<open>Creating a Purchase\<close>

definition admitPurchaseInternal ::
  "bool \<Rightarrow> string \<Rightarrow> journal \<Rightarrow> purchase_input \<Rightarrow> int \<Rightarrow> (journal \<times> string option) result" where
  "admitPurchaseInternal admission pid J input now =
     (if \<not> admission then Inr (J, None)
      else case budget J of
        None \<Rightarrow> Inl JournalInvariantError
      | Some b \<Rightarrow>
          if ab_reserved_purchases b \<ge> ab_purchase_limit b then Inl PurchaseAdmissionError
          else
            let leaseId = ''purchase:'' @ ci_id input in
            rbind (insert_lease
              \<lparr>al_id = leaseId, al_owner = journal_owner pid, al_resource = Prevalidation_purchase,
               al_purchase_id = Some (ci_id input), al_digest = None, al_storage_ref = None,
               al_quantity = 1, al_state = AL_admitted, al_deadline = Some (now + 60000),
               al_outcome = None, al_created_at = now, al_updated_at = now\<rparr> J) (\<lambda>J1.
            rbind (charge_budget (add_purchases 1) now (activate_lease leaseId now J1)) (\<lambda>J2.
              Inr (J2, Some leaseId))))"

definition completePurchaseAdmissionInternal ::
  "journal \<Rightarrow> string option \<Rightarrow> int \<Rightarrow> journal result" where
  "completePurchaseAdmissionInternal J leaseId now =
     (case leaseId of
        None \<Rightarrow> Inr J
      | Some l \<Rightarrow>
          if changes (lease_in l AL_active) (admission_leases J) \<noteq> 1 then Inl JournalInvariantError
          else Inr (update_leases (lease_in l AL_active)
                      (end_lease AL_completed ''purchase_retained'' now) J))"

definition createPurchase ::
  "bool \<Rightarrow> string \<Rightarrow> url_parser \<Rightarrow> journal \<Rightarrow> purchase_input \<Rightarrow> int \<Rightarrow> (journal \<times> purchase_row) result"
where
  "createPurchase admission pid parse_url J input clock =
     rbind (validateCreatePurchase parse_url input) (\<lambda>_.
     case findPurchaseByRequestKey J (ci_request_key input) of
       Some existing \<Rightarrow> rbind (assertSamePurchaseIntent existing input) (\<lambda>_. Inr (J, existing))
     | None \<Rightarrow>
         if findPurchase J (ci_id input) \<noteq> None then Inl JournalInvariantError
         else
         rbind (timestamp clock) (\<lambda>now.
         rbind (admitPurchaseInternal admission pid
                  (J\<lparr>purchases := purchases J @ [new_purchase input now]\<rparr>) input now)
           (\<lambda>(J1, admissionLease).
         rbind (completePurchaseAdmissionInternal
                  (insertPurchaseTransition (ci_id input) None Pur_created ''purchase_created'' None
                     now J1) admissionLease now) (\<lambda>J2.
         rbind (requirePurchase J2 (ci_id input)) (\<lambda>r. Inr (J2, r))))))"

section \<open>Evidence\<close>

text \<open>
  \<open>evidenceHasDurableOwner\<close>: something in the journal still needs the blob of a digest.
\<close>

definition lease_pending :: "admission_lease_row \<Rightarrow> bool" where
  "lease_pending l \<longleftrightarrow> al_state l \<in> {AL_offered, AL_admitted, AL_active}"

definition intent_pending :: "admission_intent_row \<Rightarrow> bool" where
  "intent_pending m \<longleftrightarrow> am_state m \<in> {Adm_offered, Adm_staged}"

definition evidenceHasDurableOwner :: "journal \<Rightarrow> string \<Rightarrow> bool" where
  "evidenceHasDurableOwner J digest \<longleftrightarrow>
     list_ex (\<lambda>a. ea_digest a = digest) (artifacts J)
     \<or> list_ex (\<lambda>l. el_digest l = digest) (evidence_links J)
     \<or> list_ex (\<lambda>l. al_digest l = Some digest \<and> lease_pending l) (admission_leases J)
     \<or> list_ex (\<lambda>m. am_evidence_digest m = digest \<and> intent_pending m) (admission_intents J)"

text \<open>Removes the blob unless something needs it; the digest removed is part of the result.\<close>

definition remove_orphan ::
  "(string \<Rightarrow> bool) \<Rightarrow> journal \<Rightarrow> string option \<Rightarrow> string option result" where
  "remove_orphan removable J digest =
     (case digest of
        None \<Rightarrow> Inr None
      | Some d \<Rightarrow>
          if evidenceHasDurableOwner J d then Inr None
          else if removable d then Inr (Some d) else Inl PlainError)"

definition admitEvidenceInternal ::
  "bool \<Rightarrow> string \<Rightarrow> journal \<Rightarrow> string \<Rightarrow> string \<Rightarrow> int \<Rightarrow> string \<Rightarrow> int
    \<Rightarrow> (journal \<times> string option) result" where
  "admitEvidenceInternal admission pid J purchaseId digest byteLength nonce clock =
     (if \<not> admission then Inr (J, None)
      else
      rbind (requirePurchase J purchaseId) (\<lambda>_.
      let quantity = (if findEvidence J digest \<noteq> None then 0 else byteLength) in
      case budget J of
        None \<Rightarrow> Inl JournalInvariantError
      | Some b \<Rightarrow>
          if ab_reserved_bytes b + ab_committed_bytes b + quantity > ab_evidence_limit b
          then Inl EvidenceAdmissionError
          else
          let leaseId = ''evidence:'' @ pid @ '':'' @ nonce in
          rbind (timestamp clock) (\<lambda>now.
          rbind (storageRefForDigest digest) (\<lambda>storageRef.
          rbind (insert_lease
            \<lparr>al_id = leaseId, al_owner = journal_owner pid, al_resource = Evidence_bytes,
             al_purchase_id = Some purchaseId, al_digest = Some digest,
             al_storage_ref = Some storageRef, al_quantity = quantity, al_state = AL_admitted,
             al_deadline = Some (now + 60000), al_outcome = None, al_created_at = now,
             al_updated_at = now\<rparr> J) (\<lambda>J1.
          let J2 = activate_lease leaseId now J1 in
          if quantity > 0
          then rbind (charge_budget (add_bytes quantity 0) now J2) (\<lambda>J3. Inr (J3, Some leaseId))
          else Inr (J2, Some leaseId))))))"

definition completeEvidenceAdmissionInternal ::
  "journal \<Rightarrow> string option \<Rightarrow> bool \<Rightarrow> int \<Rightarrow> journal result" where
  "completeEvidenceAdmissionInternal J leaseId uniqueBlob now =
     (case leaseId of
        None \<Rightarrow> Inr J
      | Some l \<Rightarrow>
          (case findLease J l of
             None \<Rightarrow> Inl JournalInvariantError
           | Some lease \<Rightarrow>
               if al_state lease \<noteq> AL_active then Inl JournalInvariantError
               else
               let J1 = update_leases (lease_in l AL_active)
                    (end_lease AL_completed
                       (if uniqueBlob then ''blob_committed'' else ''blob_deduplicated'') now) J in
               if changes (lease_in l AL_active) (admission_leases J) \<noteq> 1
               then Inl JournalInvariantError
               else if al_quantity lease > 0
               then charge_budget (add_bytes (- al_quantity lease)
                      (if uniqueBlob then al_quantity lease else 0)) now J1
               else Inr J1))"

definition cancelEvidenceAdmission ::
  "bool \<Rightarrow> (string \<Rightarrow> bool) \<Rightarrow> journal \<Rightarrow> string option \<Rightarrow> string \<Rightarrow> int
    \<Rightarrow> (journal \<times> string option) result" where
  "cancelEvidenceAdmission admission removable J leaseId outcome clock =
     (case leaseId of
        None \<Rightarrow> Inr (J, None)
      | Some l \<Rightarrow>
          if \<not> admission then Inr (J, None)
          else case findLease J l of
            None \<Rightarrow> Inr (J, None)
          | Some lease \<Rightarrow>
              if al_state lease \<noteq> AL_active then Inr (J, None)
              else
              rbind (timestamp clock) (\<lambda>now.
              let J1 = update_leases (lease_in l AL_active) (end_lease AL_cancelled outcome now) J in
              rbind (if al_quantity lease > 0
                     then charge_budget (add_bytes (- al_quantity lease) 0) now J1
                     else Inr J1) (\<lambda>J2.
              rbind (remove_orphan removable J2 (al_digest lease)) (\<lambda>removed.
                Inr (J2, removed)))))"

definition same_evidence_blob :: "evidence_artifact_row \<Rightarrow> int \<Rightarrow> string \<Rightarrow> bool" where
  "same_evidence_blob existing byteLength storageRef \<longleftrightarrow>
     ea_byte_length existing = byteLength \<and> ea_storage_ref existing = storageRef"

text \<open>
  The artifact of a digest: the one there, when it is the same blob, or a new row. The result
  says whether it was there.
\<close>

definition find_or_insert_artifact ::
  "journal \<Rightarrow> string \<Rightarrow> int \<Rightarrow> string \<Rightarrow> int \<Rightarrow> (journal \<times> bool) result" where
  "find_or_insert_artifact J digest byteLength storageRef clock =
     (case findEvidence J digest of
        Some existing \<Rightarrow>
          if same_evidence_blob existing byteLength storageRef then Inr (J, True)
          else Inl JournalInvariantError
      | None \<Rightarrow>
          rbind (timestamp clock) (\<lambda>now.
          if list_ex (\<lambda>a. ea_storage_ref a = storageRef) (artifacts J) then Inl SqliteConstraintError
          else
            Inr (J\<lparr>artifacts := artifacts J @
                   [\<lparr>ea_digest = digest, ea_media_type = ''application/octet-stream'',
                     ea_profile = ''urn:sompi:evidence-blob:1'', ea_issuer = None,
                     ea_byte_length = byteLength, ea_storage_ref = storageRef,
                     ea_created_at = now\<rparr>]\<rparr>, False)))"

text \<open>\<open>INSERT OR IGNORE\<close> under the two unique indexes on links.\<close>

definition insert_link :: "evidence_link_row \<Rightarrow> journal \<Rightarrow> journal" where
  "insert_link l J =
     (if list_ex (\<lambda>x. el_purchase_id x = el_purchase_id l \<and> el_digest x = el_digest l
                      \<and> el_kind x = el_kind l \<and> el_attempt x = el_attempt l) (evidence_links J)
      then J else J\<lparr>evidence_links := evidence_links J @ [l]\<rparr>)"

definition same_evidence_attachment :: "evidence_link_row \<Rightarrow> evidence_input \<Rightarrow> bool" where
  "same_evidence_attachment l input \<longleftrightarrow>
     el_media_type l = ei_media_type input \<and> el_profile l = ei_profile input
     \<and> el_issuer l = ei_issuer input \<and> el_kind l = ei_kind input \<and> el_attempt l = ei_attempt input"

definition evidence_link_of ::
  "string \<Rightarrow> string \<Rightarrow> evidence_input \<Rightarrow> int \<Rightarrow> evidence_link_row" where
  "evidence_link_of purchaseId digest input now =
     \<lparr>el_purchase_id = purchaseId, el_digest = digest, el_kind = ei_kind input,
      el_attempt = ei_attempt input, el_media_type = ei_media_type input,
      el_profile = ei_profile input, el_issuer = ei_issuer input, el_attached_at = now\<rparr>"

text \<open>The transaction of \<open>storeEvidence\<close> that attaches stored bytes.\<close>

definition attach_evidence ::
  "(string \<Rightarrow> string) \<Rightarrow> journal \<Rightarrow> string \<Rightarrow> evidence_input \<Rightarrow> string option \<Rightarrow> int \<Rightarrow> int \<Rightarrow> int
    \<Rightarrow> (journal \<times> (evidence_link_row \<times> evidence_artifact_row)) result" where
  "attach_evidence H J purchaseId input lease c0 c1 c2 =
     (let digest = evidenceDigest H (ei_bytes input); byteLength = int (length (ei_bytes input)) in
     rbind (storageRefForDigest digest) (\<lambda>storageRef.
     rbind (requirePurchase J purchaseId) (\<lambda>_.
     rbind (case ei_attempt input of
              None \<Rightarrow> Inr () | Some n \<Rightarrow> rbind (requirePaymentAttempt J purchaseId n) (\<lambda>_. Inr ())) (\<lambda>_.
     rbind (find_or_insert_artifact J digest byteLength storageRef c0) (\<lambda>(J1, existed).
     rbind (timestamp c1) (\<lambda>attachedAt.
     let J2 = insert_link (evidence_link_of purchaseId digest input attachedAt) J1 in
     rbind (requireEvidenceAttachment J2 purchaseId digest (ei_kind input) (ei_attempt input))
       (\<lambda>attachment.
     if \<not> same_evidence_attachment (fst attachment) input then Inl JournalInvariantError
     else
     rbind (timestamp c2) (\<lambda>now.
     rbind (completeEvidenceAdmissionInternal J2 lease (\<not> existed) now) (\<lambda>J3.
       Inr (J3, attachment))))))))))"

text \<open>
  \<open>storeEvidence\<close>: admission, the bytes, the attachment; when the bytes or the attachment fail
  the admission is cancelled and the error goes on. The readings of the clock are those of the
  three transactions.
\<close>

definition storeEvidence ::
  "(string \<Rightarrow> string) \<Rightarrow> bool \<Rightarrow> string \<Rightarrow> (string \<Rightarrow> bool) \<Rightarrow> (string \<Rightarrow> bool) \<Rightarrow> journal \<Rightarrow> string
    \<Rightarrow> evidence_input \<Rightarrow> string \<Rightarrow> int \<Rightarrow> int \<Rightarrow> int \<Rightarrow> int \<Rightarrow> int
    \<Rightarrow> journal \<times> (evidence_link_row \<times> evidence_artifact_row) result" where
  "storeEvidence H admission pid stores removable J purchaseId input nonce c0 c1 c2 c3 c4 =
     (let cancelled = (\<lambda>J1 lease outcome e.
        case cancelEvidenceAdmission admission removable J1 lease outcome c4 of
          Inl e' \<Rightarrow> (J1, Inl e') | Inr (J2, _) \<Rightarrow> (J2, Inl e)) in
     case validateEvidenceMetadata input of
       Inl e \<Rightarrow> (J, Inl e)
     | Inr _ \<Rightarrow>
         (case admitEvidenceInternal admission pid J purchaseId (evidenceDigest H (ei_bytes input))
                 (int (length (ei_bytes input))) nonce c0 of
            Inl e \<Rightarrow> (J, Inl e)
          | Inr (J1, lease) \<Rightarrow>
              if \<not> stores (ei_bytes input) then cancelled J1 lease ''write_failed'' PlainError
              else
                (case attach_evidence H J1 purchaseId input lease c1 c2 c3 of
                   Inl e \<Rightarrow> cancelled J1 lease ''journal_write_failed'' e
                 | Inr (J2, attachment) \<Rightarrow> (J2, Inr attachment))))"

definition recordEvidenceVerification ::
  "(string \<Rightarrow> int \<Rightarrow> bool) \<Rightarrow> journal \<Rightarrow> evidence_verification_row \<Rightarrow> int \<Rightarrow> journal result" where
  "recordEvidenceVerification evidence_intact J v clock =
     rbind (assertDigest (ev_digest v)) (\<lambda>_.
     rbind (assertBoundedText (ev_verifier_id v) 200) (\<lambda>_.
     rbind (assertBoundedText (ev_profile v) 200) (\<lambda>_.
     rbind (assertDigest (ev_detail_digest v)) (\<lambda>_.
     rbind (requireEvidence J (ev_digest v)) (\<lambda>artifact.
     if \<not> evidence_intact (ev_digest v) (ea_byte_length artifact) then Inl PlainError
     else
     rbind (timestamp clock) (\<lambda>now.
       if list_ex (\<lambda>x. ev_digest x = ev_digest v \<and> ev_verifier_id x = ev_verifier_id v
                       \<and> ev_profile x = ev_profile v \<and> ev_detail_digest x = ev_detail_digest v)
            (evidence_verifications J)
       then Inr J
       else Inr (J\<lparr>evidence_verifications := evidence_verifications J @
                     [v\<lparr>ev_verified_at := now\<rparr>]\<rparr>)))))))"

section \<open>Admitting a Purchase with its evidence\<close>

definition find_intent :: "journal \<Rightarrow> string \<Rightarrow> admission_intent_row option" where
  "find_intent J i = find_row (\<lambda>m. am_admission_id m = i) (admission_intents J)"

definition findPurchaseAdmissionIntentByRequestKey :: "journal \<Rightarrow> string \<Rightarrow> admission_intent_row option"
where
  "findPurchaseAdmissionIntentByRequestKey J k =
     find_row (\<lambda>m. am_request_key m = k) (admission_intents J)"

definition new_intent ::
  "string \<Rightarrow> string \<Rightarrow> purchase_input \<Rightarrow> evidence_input \<Rightarrow> string \<Rightarrow> string \<Rightarrow> int \<Rightarrow> admission_intent_row"
where
  "new_intent digest storageRef p e admissionId owner now =
     \<lparr>am_admission_id = admissionId, am_purchase_id = ci_id p, am_request_key = ci_request_key p,
      am_resource_url = ci_resource_url p, am_method = ci_method p,
      am_resource_fingerprint = ci_resource_fingerprint p,
      am_expected_merchant_id = ci_expected_merchant_id p,
      am_expected_merchant_origin = ci_expected_merchant_origin p,
      am_evidence_digest = digest, am_evidence_byte_length = int (length (ei_bytes e)),
      am_evidence_storage_ref = storageRef, am_evidence_media_type = ei_media_type e,
      am_evidence_profile = ei_profile e, am_evidence_issuer = ei_issuer e,
      am_evidence_kind = ei_kind e, am_state = Adm_offered, am_owner = owner,
      am_deadline = now + 60000, am_outcome = None, am_created_at = now, am_updated_at = now\<rparr>"

definition same_admission_intent ::
  "admission_intent_row \<Rightarrow> purchase_input \<Rightarrow> evidence_input \<Rightarrow> string \<Rightarrow> string \<Rightarrow> bool" where
  "same_admission_intent m p e digest storageRef \<longleftrightarrow>
     am_resource_url m = ci_resource_url p \<and> am_method m = ci_method p
     \<and> am_resource_fingerprint m = ci_resource_fingerprint p
     \<and> am_expected_merchant_id m = ci_expected_merchant_id p
     \<and> am_expected_merchant_origin m = ci_expected_merchant_origin p
     \<and> am_evidence_digest m = digest \<and> am_evidence_byte_length m = int (length (ei_bytes e))
     \<and> am_evidence_storage_ref m = storageRef \<and> am_evidence_media_type m = ei_media_type e
     \<and> am_evidence_profile m = ei_profile e \<and> am_evidence_issuer m = ei_issuer e
     \<and> am_evidence_kind m = ei_kind e"

datatype offered = Offered_purchase purchase_row | Offered_admission string string | Offered_created

text \<open>
  The first transaction of \<open>createPurchaseWithEvidence\<close>. The digest is one the code has just
  computed, so that \<open>storageRefForDigest\<close> is not where it fails.
\<close>

definition offer_admission ::
  "(string \<Rightarrow> string) \<Rightarrow> journal \<Rightarrow> purchase_input \<Rightarrow> evidence_input \<Rightarrow> string \<Rightarrow> string \<Rightarrow> int
    \<Rightarrow> (journal \<times> offered) result" where
  "offer_admission H J p e admissionId owner now =
     (let digest = evidenceDigest H (ei_bytes e) in
     rbind (storageRefForDigest digest) (\<lambda>storageRef.
     case findPurchaseByRequestKey J (ci_request_key p) of
       Some raced \<Rightarrow> rbind (assertSamePurchaseIntent raced p) (\<lambda>_. Inr (J, Offered_purchase raced))
     | None \<Rightarrow>
     (case findPurchaseAdmissionIntentByRequestKey J (ci_request_key p) of
       Some pending \<Rightarrow>
         if \<not> same_admission_intent pending p e digest storageRef
         then Inl JournalRequestConflictError
         else if am_state pending = Adm_committed
         then rbind (requirePurchase J (am_purchase_id pending)) (\<lambda>r. Inr (J, Offered_purchase r))
         else if intent_pending pending
         then Inr (J, Offered_admission (am_admission_id pending) (am_owner pending))
         else Inl JournalInvariantError
     | None \<Rightarrow>
     if findPurchase J (ci_id p) \<noteq> None then Inl JournalInvariantError
     else case budget J of
       None \<Rightarrow> Inl JournalInvariantError
     | Some b \<Rightarrow>
         let quantity = (if findEvidence J digest \<noteq> None then 0 else int (length (ei_bytes e))) in
         if ab_reserved_purchases b + 1 > ab_purchase_limit b then Inl PurchaseAdmissionError
         else if ab_reserved_bytes b + ab_committed_bytes b + quantity > ab_evidence_limit b
         then Inl EvidenceAdmissionError
         else if list_ex (\<lambda>m. am_admission_id m = admissionId \<or> am_purchase_id m = ci_id p)
                   (admission_intents J)
         then Inl SqliteConstraintError
         else
         rbind (insert_lease
           \<lparr>al_id = ''evidence:'' @ admissionId, al_owner = owner, al_resource = Evidence_bytes,
            al_purchase_id = None, al_digest = Some digest, al_storage_ref = Some storageRef,
            al_quantity = quantity, al_state = AL_active, al_deadline = Some (now + 60000),
            al_outcome = None, al_created_at = now, al_updated_at = now\<rparr>
           (J\<lparr>admission_intents := admission_intents J @
                [new_intent digest storageRef p e admissionId owner now]\<rparr>)) (\<lambda>J1.
         rbind (charge_budget (add_bytes quantity 0 \<circ> add_purchases 1) now J1) (\<lambda>J2.
           Inr (J2, Offered_created))))))"

definition intent_here :: "string \<Rightarrow> admission_intent_row \<Rightarrow> bool" where
  "intent_here i m \<longleftrightarrow> am_admission_id m = i \<and> intent_pending m"

definition update_intents ::
  "(admission_intent_row \<Rightarrow> bool) \<Rightarrow> (admission_intent_row \<Rightarrow> admission_intent_row) \<Rightarrow> journal \<Rightarrow> journal"
where
  "update_intents p f J = J\<lparr>admission_intents := update_rows p f (admission_intents J)\<rparr>"

definition end_intent ::
  "admission_intent_state \<Rightarrow> string \<Rightarrow> int \<Rightarrow> admission_intent_row \<Rightarrow> admission_intent_row" where
  "end_intent s outcome now m = m\<lparr>am_state := s, am_outcome := Some outcome, am_updated_at := now\<rparr>"

text \<open>The second transaction: the bytes are stored, the intent is staged.\<close>

definition stage_admission ::
  "(string \<Rightarrow> string) \<Rightarrow> journal \<Rightarrow> purchase_input \<Rightarrow> evidence_input \<Rightarrow> string \<Rightarrow> string \<Rightarrow> int
    \<Rightarrow> (journal \<times> purchase_row option) result" where
  "stage_admission H J p e admissionId owner clock =
     (let digest = evidenceDigest H (ei_bytes e) in
     case find_intent J admissionId of
       None \<Rightarrow> Inl JournalInvariantError
     | Some current \<Rightarrow>
         rbind (storageRefForDigest digest) (\<lambda>storageRef.
         if \<not> same_admission_intent current p e digest storageRef
         then Inl JournalRequestConflictError
         else if am_state current = Adm_committed
         then rbind (requirePurchase J (am_purchase_id current)) (\<lambda>r. Inr (J, Some r))
         else if am_owner current \<noteq> owner then Inl JournalInvariantError
         else if am_state current = Adm_offered
         then rbind (timestamp clock) (\<lambda>now.
           let here = (\<lambda>m. am_admission_id m = admissionId \<and> am_state m = Adm_offered
                           \<and> am_owner m = owner) in
           if changes here (admission_intents J) \<noteq> 1 then Inl JournalInvariantError
           else Inr (update_intents here (\<lambda>m. m\<lparr>am_state := Adm_staged, am_updated_at := now\<rparr>) J, None))
         else if am_state current \<noteq> Adm_staged then Inl JournalInvariantError
         else Inr (J, None)))"

definition intent_input :: "admission_intent_row \<Rightarrow> purchase_input" where
  "intent_input m =
     \<lparr>ci_id = am_purchase_id m, ci_request_key = am_request_key m,
      ci_resource_url = am_resource_url m, ci_method = am_method m,
      ci_resource_fingerprint = am_resource_fingerprint m,
      ci_expected_merchant_id = am_expected_merchant_id m,
      ci_expected_merchant_origin = am_expected_merchant_origin m\<rparr>"

definition intent_link :: "admission_intent_row \<Rightarrow> int \<Rightarrow> evidence_link_row" where
  "intent_link m now =
     \<lparr>el_purchase_id = am_purchase_id m, el_digest = am_evidence_digest m,
      el_kind = am_evidence_kind m, el_attempt = None, el_media_type = am_evidence_media_type m,
      el_profile = am_evidence_profile m, el_issuer = am_evidence_issuer m, el_attached_at = now\<rparr>"

text \<open>Publishes the Purchase of an intent, unless it is there already.\<close>

definition publish_purchase :: "journal \<Rightarrow> admission_intent_row \<Rightarrow> int \<Rightarrow> journal result" where
  "publish_purchase J m now =
     (case findPurchaseByRequestKey J (am_request_key m) of
        Some existing \<Rightarrow>
          rbind (assertSamePurchaseIntent existing (intent_input m)) (\<lambda>_.
            if pu_id existing \<noteq> am_purchase_id m then Inl JournalInvariantError else Inr J)
      | None \<Rightarrow>
          if findPurchase J (am_purchase_id m) \<noteq> None then Inl SqliteConstraintError
          else Inr (insertPurchaseTransition (am_purchase_id m) None Pur_created ''purchase_created''
                      None now (J\<lparr>purchases := purchases J @ [new_purchase (intent_input m) now]\<rparr>)))"

text \<open>The completed lease that keeps the Purchase counted.\<close>

definition retain_count :: "journal \<Rightarrow> admission_intent_row \<Rightarrow> int \<Rightarrow> journal result" where
  "retain_count J m now =
     (let leaseId = ''purchase:'' @ am_purchase_id m in
     case findLease J leaseId of
       None \<Rightarrow>
         insert_lease
           \<lparr>al_id = leaseId, al_owner = am_owner m, al_resource = Prevalidation_purchase,
            al_purchase_id = Some (am_purchase_id m), al_digest = None, al_storage_ref = None,
            al_quantity = 1, al_state = AL_completed, al_deadline = None,
            al_outcome = Some ''purchase_retained'', al_created_at = now, al_updated_at = now\<rparr> J
     | Some l \<Rightarrow>
         if al_purchase_id l \<noteq> Some (am_purchase_id m) \<or> al_state l \<noteq> AL_completed
         then Inl JournalInvariantError else Inr J)"

text \<open>Completes the evidence lease of an intent.\<close>

definition settle_evidence_lease ::
  "journal \<Rightarrow> admission_intent_row \<Rightarrow> bool \<Rightarrow> int \<Rightarrow> journal result" where
  "settle_evidence_lease J m existed now =
     (let leaseId = ''evidence:'' @ am_admission_id m in
     case findLease J leaseId of
       None \<Rightarrow> Inl JournalInvariantError
     | Some lease \<Rightarrow>
         let J1 = update_leases (\<lambda>r. lease_in leaseId AL_active r \<and> al_purchase_id r = None)
                    (\<lambda>r. r\<lparr>al_purchase_id := Some (am_purchase_id m)\<rparr>) J in
         if al_state lease = AL_active
         then
           let J2 = update_leases (lease_in leaseId AL_active)
                (end_lease AL_completed (if existed then ''blob_deduplicated'' else ''blob_committed'') now) J1
           in if al_quantity lease > 0
              then charge_budget (add_bytes (- al_quantity lease)
                     (if existed then 0 else al_quantity lease)) now J2
              else Inr J2
         else if al_state lease \<noteq> AL_completed then Inl JournalInvariantError
         else Inr J1)"

text \<open>
  The last transaction. \<open>c0\<close> and \<open>c1\<close> are the readings of the clock before and inside the
  transaction that decide whether another owner's admission may be taken over.
\<close>

definition commitPurchaseAdmissionIntent ::
  "(string \<Rightarrow> int \<Rightarrow> bool) \<Rightarrow> journal \<Rightarrow> string \<Rightarrow> string \<Rightarrow> int \<Rightarrow> int \<Rightarrow> int
    \<Rightarrow> (journal \<times> purchase_row) result" where
  "commitPurchaseAdmissionIntent evidence_intact J admissionId owner c0 c1 clock =
     (let foreign = (\<lambda>m c. if am_owner m = owner then Inr ()
        else rbind (timestamp c) (\<lambda>t. require (am_deadline m \<le> t) JournalInvariantError)) in
     case find_intent J admissionId of
       None \<Rightarrow> Inl JournalInvariantError
     | Some m \<Rightarrow>
         if am_state m = Adm_committed
         then rbind (requirePurchase J (am_purchase_id m)) (\<lambda>r. Inr (J, r))
         else
         rbind (foreign m c0) (\<lambda>_.
         if \<not> evidence_intact (am_evidence_digest m) (am_evidence_byte_length m) then Inl PlainError
         else
         rbind (storageRefForDigest (am_evidence_digest m)) (\<lambda>storageRef.
         rbind (foreign m c1) (\<lambda>_.
         rbind (timestamp clock) (\<lambda>now.
         rbind (publish_purchase J m now) (\<lambda>J1.
         rbind (retain_count J1 m now) (\<lambda>J2.
         rbind (find_or_insert_artifact J2 (am_evidence_digest m) (am_evidence_byte_length m)
                  storageRef now) (\<lambda>(J3, existed).
         rbind (settle_evidence_lease (insert_link (intent_link m now) J3) m existed now) (\<lambda>J4.
         if changes (intent_here admissionId) (admission_intents J4) \<noteq> 1
         then Inl JournalInvariantError
         else
         let J5 = update_intents (intent_here admissionId)
                    (end_intent Adm_committed ''purchase_and_evidence_retained'' now) J4 in
         rbind (requirePurchase J5 (am_purchase_id m)) (\<lambda>r. Inr (J5, r)))))))))))"

definition cancelPurchaseAdmission ::
  "bool \<Rightarrow> (string \<Rightarrow> bool) \<Rightarrow> journal \<Rightarrow> string \<Rightarrow> string \<Rightarrow> int \<Rightarrow> (journal \<times> string option) result"
where
  "cancelPurchaseAdmission admission removable J admissionId outcome clock =
     (if \<not> admission then Inr (J, None)
      else case find_intent J admissionId of
        None \<Rightarrow> Inr (J, None)
      | Some pending \<Rightarrow>
          if am_state pending = Adm_committed \<or> am_state pending = Adm_cancelled then Inr (J, None)
          else
          rbind (timestamp clock) (\<lambda>now.
          let leaseId = ''evidence:'' @ admissionId;
              lease = findLease J leaseId;
              J1 = update_intents (intent_here admissionId) (end_intent Adm_cancelled outcome now) J in
          rbind (charge_budget (add_purchases (- 1)) now J1) (\<lambda>J2.
          rbind (case lease of
                   None \<Rightarrow> Inr J2
                 | Some l \<Rightarrow>
                     if al_state l \<noteq> AL_active then Inr J2
                     else
                       let J3 = update_leases (lease_in leaseId AL_active)
                                  (end_lease AL_cancelled outcome now) J2 in
                       if al_quantity l > 0
                       then charge_budget (add_bytes (- al_quantity l) 0) now J3
                       else Inr J3) (\<lambda>J4.
          rbind (remove_orphan removable J4 (Option.bind lease al_digest)) (\<lambda>removed.
            Inr (J4, removed))))))"

text \<open>
  \<open>createPurchaseWithEvidence\<close> run without interruption. \<open>t0\<close> \<dots> are the readings of the clock in
  order; \<open>se\<close> stands for \<open>storeEvidence\<close> on the journal and Purchase it is given.
\<close>

record admission_clock =
  tick_offer :: int
  tick_stage :: int
  tick_commit_before :: int
  tick_commit_inside :: int
  tick_commit :: int
  tick_cancel :: int

definition attach_when_missing ::
  "(journal \<Rightarrow> string \<Rightarrow> journal \<times> (evidence_link_row \<times> evidence_artifact_row) result) \<Rightarrow> journal
    \<Rightarrow> purchase_row \<Rightarrow> string \<Rightarrow> evidence_input \<Rightarrow> journal \<times> purchase_row result" where
  "attach_when_missing se J r digest e =
     (if findEvidenceAttachmentForKind J (pu_id r) digest (ei_kind e) (ei_attempt e) \<noteq> None
      then (J, Inr r)
      else case se J (pu_id r) of
        (J1, Inl err) \<Rightarrow> (J1, Inl err)
      | (J1, Inr _) \<Rightarrow> (J1, Inr r))"

definition stage_and_commit ::
  "(string \<Rightarrow> string) \<Rightarrow> (string \<Rightarrow> bool) \<Rightarrow> (string \<Rightarrow> int \<Rightarrow> bool) \<Rightarrow> journal \<Rightarrow> purchase_input
    \<Rightarrow> evidence_input \<Rightarrow> string \<Rightarrow> string \<Rightarrow> admission_clock \<Rightarrow> journal \<times> purchase_row result" where
  "stage_and_commit H stores evidence_intact J p e admissionId owner k =
     (if \<not> stores (ei_bytes e) then (J, Inl PlainError)
      else case stage_admission H J p e admissionId owner (tick_stage k) of
        Inl err \<Rightarrow> (J, Inl err)
      | Inr (J1, Some committed) \<Rightarrow> (J1, Inr committed)
      | Inr (J1, None) \<Rightarrow>
          (case commitPurchaseAdmissionIntent evidence_intact J1 admissionId owner
                  (tick_commit_before k) (tick_commit_inside k) (tick_commit k) of
             Inl err \<Rightarrow> (J1, Inl err)
           | Inr (J2, r) \<Rightarrow> (J2, Inr r)))"

definition createPurchaseWithEvidence ::
  "(string \<Rightarrow> string) \<Rightarrow> url_parser \<Rightarrow> bool \<Rightarrow> string \<Rightarrow> (string \<Rightarrow> bool) \<Rightarrow> (string \<Rightarrow> int \<Rightarrow> bool)
    \<Rightarrow> (string \<Rightarrow> bool)
    \<Rightarrow> (journal \<Rightarrow> string \<Rightarrow> journal \<times> (evidence_link_row \<times> evidence_artifact_row) result)
    \<Rightarrow> journal \<Rightarrow> purchase_input \<Rightarrow> evidence_input \<Rightarrow> string \<Rightarrow> string \<Rightarrow> admission_clock
    \<Rightarrow> journal \<times> purchase_row result" where
  "createPurchaseWithEvidence H parse_url admission pid stores evidence_intact removable se J p e
       admissionId owner k =
     (let digest = evidenceDigest H (ei_bytes e) in
     case rbind (validateCreatePurchase parse_url p) (\<lambda>_. validateEvidenceMetadata e) of
       Inl err \<Rightarrow> (J, Inl err)
     | Inr _ \<Rightarrow>
     if \<not> admission
     then (case createPurchase admission pid parse_url J p (tick_offer k) of
             Inl err \<Rightarrow> (J, Inl err)
           | Inr (J1, r) \<Rightarrow>
               (case se J1 (pu_id r) of
                  (J2, Inl err) \<Rightarrow> (J2, Inl err) | (J2, Inr _) \<Rightarrow> (J2, Inr r)))
     else
     (case findPurchaseByRequestKey J (ci_request_key p) of
        Some existing \<Rightarrow>
          if \<not> same_purchase_intent existing p then (J, Inl JournalRequestConflictError)
          else attach_when_missing se J existing digest e
      | None \<Rightarrow>
          (case rbind (timestamp (tick_offer k)) (\<lambda>now. offer_admission H J p e admissionId owner now) of
             Inl err \<Rightarrow> (J, Inl err)
           | Inr (J1, Offered_purchase r) \<Rightarrow> attach_when_missing se J1 r digest e
           | Inr (J1, Offered_admission i w) \<Rightarrow> stage_and_commit H stores evidence_intact J1 p e i w k
           | Inr (J1, Offered_created) \<Rightarrow>
               (case stage_and_commit H stores evidence_intact J1 p e admissionId owner k of
                  (J2, Inr r) \<Rightarrow> (J2, Inr r)
                | (J2, Inl err) \<Rightarrow>
                    (case cancelPurchaseAdmission admission removable J2 admissionId
                            ''failed_terminal'' (tick_cancel k) of
                       Inl err' \<Rightarrow> (J2, Inl err')
                     | Inr (J3, _) \<Rightarrow> (J3, Inl err))))))"

section \<open>Opening the journal\<close>

record admission_limits =
  lim_purchases :: int
  lim_bytes :: int
  lim_retries :: int

definition ensureAdmissionBudget :: "journal \<Rightarrow> admission_limits \<Rightarrow> int \<Rightarrow> journal result" where
  "ensureAdmissionBudget J limits clock =
     (case budget J of
        Some b \<Rightarrow>
          if ab_purchase_limit b \<noteq> lim_purchases limits \<or> ab_evidence_limit b \<noteq> lim_bytes limits
             \<or> ab_retry_limit b \<noteq> lim_retries limits
          then Inl JournalInvariantError else Inr J
      | None \<Rightarrow>
          rbind (timestamp clock) (\<lambda>now.
            if lim_purchases limits \<le> 0 \<or> lim_bytes limits \<le> 0 \<or> lim_retries limits \<le> 0
            then Inl SqliteConstraintError
            else Inr (J\<lparr>budget := Some
              \<lparr>ab_purchase_limit = lim_purchases limits, ab_evidence_limit = lim_bytes limits,
               ab_retry_limit = lim_retries limits, ab_reserved_purchases = 0,
               ab_reserved_bytes = 0, ab_committed_bytes = 0, ab_updated_at = now\<rparr>\<rparr>)))"

text \<open>
  \<open>reconcilePurchaseAdmissionIntents\<close>: each intent whose deadline has passed is committed when
  its bytes are there, else cancelled. Every commit and cancellation is a transaction of its own;
  \<open>clock\<close> is read for each of them.
\<close>

fun reconcile_intents ::
  "(string \<Rightarrow> int \<Rightarrow> bool) \<Rightarrow> (string \<Rightarrow> bool) \<Rightarrow> int \<Rightarrow> admission_intent_row list \<Rightarrow> journal
    \<Rightarrow> journal \<times> unit result" where
  "reconcile_intents evidence_intact removable now [] J = (J, Inr ())"
| "reconcile_intents evidence_intact removable now (m # ms) J =
     (if am_deadline m > now then reconcile_intents evidence_intact removable now ms J
      else
        case (if evidence_intact (am_evidence_digest m) (am_evidence_byte_length m)
              then commitPurchaseAdmissionIntent evidence_intact J (am_admission_id m) (am_owner m)
                     now now now
              else Inl PlainError) of
          Inr (J1, _) \<Rightarrow> reconcile_intents evidence_intact removable now ms J1
        | Inl _ \<Rightarrow>
            (case cancelPurchaseAdmission True removable J (am_admission_id m) ''restart_recovery'' now of
               Inl err \<Rightarrow> (J, Inl err)
             | Inr (J1, _) \<Rightarrow> reconcile_intents evidence_intact removable now ms J1))"

definition reconcilePurchaseAdmissionIntents ::
  "(string \<Rightarrow> int \<Rightarrow> bool) \<Rightarrow> (string \<Rightarrow> bool) \<Rightarrow> journal \<Rightarrow> int \<Rightarrow> journal \<times> unit result" where
  "reconcilePurchaseAdmissionIntents evidence_intact removable J clock =
     (case timestamp clock of
        Inl err \<Rightarrow> (J, Inl err)
      | Inr now \<Rightarrow>
          reconcile_intents evidence_intact removable now
            (filter intent_pending (admission_intents J)) J)"

text \<open>One pending lease at startup: completed, cancelled, or left alone while it may be live.\<close>

definition pending_here :: "string \<Rightarrow> admission_lease_row \<Rightarrow> bool" where
  "pending_here i r \<longleftrightarrow> al_id r = i \<and> lease_pending r"

definition reconcile_lease ::
  "(string \<Rightarrow> bool) \<Rightarrow> int \<Rightarrow> admission_lease_row \<Rightarrow> journal \<Rightarrow> journal result" where
  "reconcile_lease removable now l J =
     (let settle = (\<lambda>s outcome. update_leases (pending_here (al_id l)) (end_lease s outcome now) J) in
     if (case al_deadline l of None \<Rightarrow> False | Some d \<Rightarrow> d > now) then Inr J
     else case al_resource l of
       Prevalidation_purchase \<Rightarrow>
         if (case al_purchase_id l of None \<Rightarrow> False | Some p \<Rightarrow> findPurchase J p \<noteq> None)
         then Inr (settle AL_completed ''purchase_retained'')
         else Inr (settle AL_cancelled ''restart_recovery'')
     | Evidence_bytes \<Rightarrow>
         let artifact = (case al_digest l of None \<Rightarrow> False | Some d \<Rightarrow> findEvidence J d \<noteq> None);
             linked = (case (al_purchase_id l, al_digest l) of
                (Some p, Some d) \<Rightarrow>
                  list_ex (\<lambda>x. el_purchase_id x = p \<and> el_digest x = d) (evidence_links J)
              | _ \<Rightarrow> False) in
         if linked \<and> artifact then Inr (settle AL_completed ''restart_recovered'')
         else
           let J1 = settle AL_cancelled ''restart_recovered'' in
           if artifact then Inr J1
           else rbind (remove_orphan removable J1 (al_digest l)) (\<lambda>_. Inr J1))"

fun reconcile_leases ::
  "(string \<Rightarrow> bool) \<Rightarrow> int \<Rightarrow> admission_lease_row list \<Rightarrow> journal \<Rightarrow> journal result" where
  "reconcile_leases removable now [] J = Inr J"
| "reconcile_leases removable now (l # ls) J =
     rbind (reconcile_lease removable now l J) (\<lambda>J1. reconcile_leases removable now ls J1)"

definition counted_purchases :: "journal \<Rightarrow> int" where
  "counted_purchases J =
     int (changes (\<lambda>l. al_resource l = Prevalidation_purchase
            \<and> al_state l \<notin> {AL_cancelled, AL_expired, AL_failed_terminal}) (admission_leases J))
     + int (changes intent_pending (admission_intents J))"

definition reserved_bytes :: "journal \<Rightarrow> int" where
  "reserved_bytes J =
     sum_list (map al_quantity
       (filter (\<lambda>l. al_resource l = Evidence_bytes \<and> lease_pending l) (admission_leases J)))"

definition committed_bytes :: "journal \<Rightarrow> int" where
  "committed_bytes J = sum_list (map ea_byte_length (artifacts J))"

definition recount :: "journal \<Rightarrow> admission_budget_row \<Rightarrow> admission_budget_row" where
  "recount J b = b\<lparr>ab_reserved_purchases := counted_purchases J, ab_reserved_bytes := reserved_bytes J,
                   ab_committed_bytes := committed_bytes J\<rparr>"

definition reconcileAdmissionLeases :: "(string \<Rightarrow> bool) \<Rightarrow> journal \<Rightarrow> int \<Rightarrow> journal result" where
  "reconcileAdmissionLeases removable J clock =
     rbind (timestamp clock) (\<lambda>now.
     rbind (reconcile_leases removable now (filter lease_pending (admission_leases J)) J) (\<lambda>J1.
       charge_budget (recount J1) now J1))"

record admission_status =
  as_purchases_used :: int
  as_purchases_budget :: int
  as_purchases_saturated :: bool
  as_bytes_used :: int
  as_bytes_reserved :: int
  as_bytes_budget :: int
  as_bytes_saturated :: bool

definition admissionStatus :: "bool \<Rightarrow> journal \<Rightarrow> admission_status option result" where
  "admissionStatus admission J =
     (if \<not> admission then Inr None
      else case budget J of
        None \<Rightarrow> Inl JournalInvariantError
      | Some b \<Rightarrow>
          let used = ab_reserved_bytes b + ab_committed_bytes b in
          Inr (Some
            \<lparr>as_purchases_used = ab_reserved_purchases b,
             as_purchases_budget = ab_purchase_limit b,
             as_purchases_saturated = (ab_reserved_purchases b \<ge> ab_purchase_limit b),
             as_bytes_used = used, as_bytes_reserved = ab_reserved_bytes b,
             as_bytes_budget = ab_evidence_limit b,
             as_bytes_saturated = (used \<ge> ab_evidence_limit b)\<rparr>))"

end
