(* ===== verification/Admission_Invariants.thy ===== *)
theory Admission_Invariants
  imports Admission
begin

text \<open>
  What admission keeps true: the counters of the budget row are the Purchases and the evidence
  bytes that the leases, intents and artifacts account for, and they stay within the limits.
  \<open>admission_step\<close> has one case for each transaction of \<open>Admission\<close>; the transactions of other
  writers come in between as further steps.
\<close>

section \<open>Weighted sums of rows\<close>

definition total :: "('r \<Rightarrow> int) \<Rightarrow> 'r list \<Rightarrow> int" where
  "total w t = sum_list (map w t)"

lemma total_simps [simp]:
  "total w [] = 0" "total w (r # t) = w r + total w t" "total w (s @ t) = total w s + total w t"
  by (simp_all add: total_def)

lemma total_update_same:
  "(\<And>r. r \<in> set t \<Longrightarrow> p r \<Longrightarrow> w (f r) = w r) \<Longrightarrow> total w (update_rows p f t) = total w t"
  by (induction t) auto

lemma total_update_one:
  assumes "distinct (map key t)" and "r \<in> set t" and "p r"
    and "\<And>x. x \<in> set t \<Longrightarrow> p x \<Longrightarrow> key x = key r"
  shows "total w (update_rows p f t) = total w t - w r + w (f r)"
  using assms
proof (induction t)
  case (Cons y t)
  show ?case
  proof (cases "r = y")
    case True
    have "key y \<notin> key ` set t" using Cons.prems(1) by simp
    then have "\<And>x. x \<in> set t \<Longrightarrow> \<not> p x"
      using Cons.prems(4) True by (metis image_eqI list.set_intros(2))
    then have "update_rows p f t = t" by (rule update_rows_id)
    then show ?thesis using True Cons.prems(3) by simp
  next
    case False
    then have r: "r \<in> set t" using Cons.prems(2) by simp
    have y: "\<not> p y" using Cons.prems(1) Cons.prems(4) [of y] r by auto
    have "total w (update_rows p f t) = total w t - w r + w (f r)"
      by (rule Cons.IH [OF _ r Cons.prems(3)]) (use Cons.prems(1,4) in simp_all)
    then show ?thesis using y by simp
  qed
qed simp

lemma total_filter: "total (\<lambda>r. if p r then w r else 0) t = sum_list (map w (filter p t))"
  by (induction t) auto

lemma total_changes: "total (\<lambda>r. if p r then 1 else 0) t = int (changes p t)"
  by (induction t) auto

lemma total_update_mono:
  "(\<And>r. r \<in> set t \<Longrightarrow> p r \<Longrightarrow> w (f r) \<le> w r) \<Longrightarrow> total w (update_rows p f t) \<le> total w t"
proof (induction t)
  case (Cons r t)
  then have "total w (update_rows p f t) \<le> total w t" by simp
  then show ?case using Cons.prems [of r] by auto
qed simp

section \<open>The accounts\<close>

definition byte_weight :: "admission_lease_row \<Rightarrow> int" where
  "byte_weight l = (if al_resource l = Evidence_bytes \<and> lease_pending l then al_quantity l else 0)"

definition count_weight :: "admission_lease_row \<Rightarrow> int" where
  "count_weight l = (if al_resource l = Prevalidation_purchase
     \<and> al_state l \<notin> {AL_cancelled, AL_expired, AL_failed_terminal} then 1 else 0)"

definition intent_weight :: "admission_intent_row \<Rightarrow> int" where
  "intent_weight m = (if intent_pending m then 1 else 0)"

lemma accounts:
  "reserved_bytes J = total byte_weight (admission_leases J)"
  "committed_bytes J = total ea_byte_length (artifacts J)"
  "counted_purchases J = total count_weight (admission_leases J) + total intent_weight (admission_intents J)"
proof -
  show "reserved_bytes J = total byte_weight (admission_leases J)"
    unfolding reserved_bytes_def byte_weight_def total_filter ..
  show "committed_bytes J = total ea_byte_length (artifacts J)"
    by (simp add: committed_bytes_def total_def)
  show "counted_purchases J
      = total count_weight (admission_leases J) + total intent_weight (admission_intents J)"
    unfolding counted_purchases_def count_weight_def intent_weight_def total_changes ..
qed

definition within_budget :: "journal \<Rightarrow> bool" where
  "within_budget J \<longleftrightarrow>
     (case budget J of
        None \<Rightarrow> False
      | Some b \<Rightarrow>
          counted_purchases J \<le> ab_reserved_purchases b
          \<and> ab_reserved_purchases b \<le> ab_purchase_limit b
          \<and> ab_reserved_bytes b = reserved_bytes J \<and> ab_committed_bytes b = committed_bytes J
          \<and> reserved_bytes J + committed_bytes J \<le> ab_evidence_limit b)"

lemma within_budget_iff:
  "within_budget J \<longleftrightarrow> (\<exists>b. budget J = Some b
     \<and> total count_weight (admission_leases J) + total intent_weight (admission_intents J)
         \<le> ab_reserved_purchases b
     \<and> ab_reserved_purchases b \<le> ab_purchase_limit b
     \<and> ab_reserved_bytes b = total byte_weight (admission_leases J)
     \<and> ab_committed_bytes b = total ea_byte_length (artifacts J)
     \<and> total byte_weight (admission_leases J) + total ea_byte_length (artifacts J)
         \<le> ab_evidence_limit b)"
  by (cases "budget J") (simp_all add: within_budget_def accounts)

definition leases_well :: "journal \<Rightarrow> bool" where
  "leases_well J \<longleftrightarrow>
     distinct (map al_id (admission_leases J))
     \<and> (\<forall>l \<in> set (admission_leases J).
          0 \<le> al_quantity l \<and> al_state l \<in> {AL_active, AL_completed, AL_cancelled}
          \<and> (al_resource l = Prevalidation_purchase \<longrightarrow> al_state l = AL_completed))"

definition intent_lease :: "admission_intent_row \<Rightarrow> string" where
  "intent_lease m = ''evidence:'' @ am_admission_id m"

text \<open>The evidence lease of a pending intent holds what the artifact will take.\<close>

definition intent_backed :: "journal \<Rightarrow> admission_intent_row \<Rightarrow> bool" where
  "intent_backed J m \<longleftrightarrow>
     (case findLease J (intent_lease m) of
        None \<Rightarrow> False
      | Some l \<Rightarrow>
          al_resource l = Evidence_bytes \<and> al_purchase_id l = None \<and> al_state l \<noteq> AL_completed
          \<and> (findEvidence J (am_evidence_digest m) = None
               \<longrightarrow> al_quantity l = am_evidence_byte_length m))"

definition intents_well :: "journal \<Rightarrow> bool" where
  "intents_well J \<longleftrightarrow>
     distinct (map am_admission_id (admission_intents J))
     \<and> (\<forall>m \<in> set (admission_intents J).
          0 \<le> am_evidence_byte_length m
          \<and> am_state m \<in> {Adm_offered, Adm_staged, Adm_committed, Adm_cancelled}
          \<and> (intent_pending m \<longrightarrow> intent_backed J m))"

definition admission_inv :: "journal \<Rightarrow> bool" where
  "admission_inv J \<longleftrightarrow> leases_well J \<and> intents_well J \<and> within_budget J"

section \<open>Primitive changes\<close>

lemma charge_budget_Inr:
  assumes "charge_budget f now J = Inr J'" and "budget J = Some b"
  shows "J' = J\<lparr>budget := Some ((f b)\<lparr>ab_updated_at := now\<rparr>)\<rparr>"
  using assms by (auto simp: charge_budget_def)

lemma findLease_cong: "admission_leases J' = admission_leases J \<Longrightarrow> findLease J' = findLease J"
  by (simp add: findLease_def fun_eq_iff)

lemma findLease_D: "findLease J i = Some l \<Longrightarrow> l \<in> set (admission_leases J) \<and> al_id l = i"
  by (auto simp: findLease_def dest: find_row_SomeD)

lemma findEvidence_cong: "artifacts J' = artifacts J \<Longrightarrow> findEvidence J' = findEvidence J"
  by (simp add: findEvidence_def fun_eq_iff)

lemma findEvidence_grows:
  "artifacts J' = artifacts J @ as \<Longrightarrow> findEvidence J' d = None \<Longrightarrow> findEvidence J d = None"
  by (auto simp: findEvidence_def find_row_append split: option.splits)

lemma insert_lease_Inr:
  "insert_lease l J = Inr J' \<longleftrightarrow>
     findLease J (al_id l) = None \<and> J' = J\<lparr>admission_leases := admission_leases J @ [l]\<rparr>"
  by (auto simp: insert_lease_def)

lemma findLease_fresh: "findLease J i = None \<longleftrightarrow> i \<notin> al_id ` set (admission_leases J)"
  by (auto simp: findLease_def find_row_None_iff)

text \<open>The rows a transaction leaves and the accounts of a journal depend on three tables only.\<close>

lemma intent_backed_cong:
  assumes "findLease J' (intent_lease m) = findLease J (intent_lease m)"
    and "artifacts J' = artifacts J @ as" and "intent_backed J m"
  shows "intent_backed J' m"
  using assms(3) findEvidence_grows [OF assms(2)] unfolding intent_backed_def assms(1)
  by (auto split: option.splits)

lemma admission_inv_cong:
  assumes "admission_leases J' = admission_leases J" and "admission_intents J' = admission_intents J"
    and "artifacts J' = artifacts J" and "budget J' = budget J"
  shows "admission_inv J' \<longleftrightarrow> admission_inv J"
proof -
  have "intent_backed J' = intent_backed J"
    unfolding intent_backed_def findLease_cong [OF assms(1)] findEvidence_cong [OF assms(3)] ..
  then show ?thesis
    unfolding admission_inv_def leases_well_def intents_well_def within_budget_def accounts assms
    by (simp only:)
qed

section \<open>Leases and intents after a change\<close>

lemma findLease_update:
  assumes "admission_leases J' = update_rows p f (admission_leases J)" and "\<And>l. al_id (f l) = al_id l"
  shows "findLease J' i = map_option (\<lambda>l. if p l then f l else l) (findLease J i)"
  unfolding findLease_def assms(1) by (rule find_row_update_rows) (simp add: assms(2))

text \<open>A lease an update may touch without taking it from a pending intent.\<close>

definition keeps_backing :: "admission_lease_row \<Rightarrow> admission_lease_row \<Rightarrow> bool" where
  "keeps_backing l l' \<longleftrightarrow>
     al_id l' = al_id l \<and> al_resource l' = al_resource l \<and> al_quantity l' = al_quantity l
     \<and> (al_purchase_id l = None \<longrightarrow> al_purchase_id l' = None \<and> al_state l' \<noteq> AL_completed)"

lemma intent_backed_update:
  assumes "admission_leases J' = update_rows p f (admission_leases J)"
    and "artifacts J' = artifacts J @ as" and "\<And>l. al_id (f l) = al_id l"
    and "\<And>l. findLease J (intent_lease m) = Some l \<Longrightarrow> p l \<Longrightarrow> keeps_backing l (f l)"
    and "intent_backed J m"
  shows "intent_backed J' m"
proof -
  obtain l where l: "findLease J (intent_lease m) = Some l" "al_resource l = Evidence_bytes"
      "al_purchase_id l = None" "al_state l \<noteq> AL_completed"
      "findEvidence J (am_evidence_digest m) = None \<longrightarrow> al_quantity l = am_evidence_byte_length m"
    using assms(5) by (auto simp: intent_backed_def split: option.splits)
  have "findLease J' (intent_lease m) = Some (if p l then f l else l)"
    using findLease_update [OF assms(1,3)] l(1) by simp
  then show ?thesis
    using l assms(4) [OF l(1)] findEvidence_grows [OF assms(2)]
    by (auto simp: intent_backed_def keeps_backing_def)
qed

lemma intent_backed_append:
  assumes "admission_leases J' = admission_leases J @ ls" and "artifacts J' = artifacts J @ as"
    and "intent_backed J m"
  shows "intent_backed J' m"
proof (rule intent_backed_cong [OF _ assms(2,3)])
  show "findLease J' (intent_lease m) = findLease J (intent_lease m)"
    using assms(3) unfolding findLease_def intent_backed_def assms(1) find_row_append
    by (auto split: option.splits)
qed

lemma leases_well_update:
  assumes "leases_well J" and "admission_leases J' = update_rows p f (admission_leases J)"
    and "\<And>l. l \<in> set (admission_leases J) \<Longrightarrow> p l \<Longrightarrow>
      al_quantity (f l) = al_quantity l \<and> al_resource (f l) = al_resource l
      \<and> al_state (f l) \<in> {AL_completed, AL_cancelled}
      \<and> (al_resource l = Prevalidation_purchase \<longrightarrow> al_state (f l) = AL_completed)"
    and "\<And>l. al_id (f l) = al_id l"
  shows "leases_well J'"
  using assms(1,3) unfolding leases_well_def assms(2) map_key_update_rows [of al_id, OF assms(4)]
    ball_update_rows
  by auto

lemma leases_well_append:
  assumes "leases_well J" and "admission_leases J' = admission_leases J @ [l]"
    and "findLease J (al_id l) = None" and "0 \<le> al_quantity l"
    and "al_resource l = Prevalidation_purchase \<and> al_state l = AL_completed
         \<or> al_resource l = Evidence_bytes \<and> al_state l = AL_active"
  shows "leases_well J'"
  using assms unfolding leases_well_def assms(2) findLease_fresh by auto

lemma intents_well_same:
  assumes "intents_well J" and "admission_intents J' = admission_intents J"
    and "\<And>m. intent_backed J m \<Longrightarrow> intent_backed J' m"
  shows "intents_well J'"
  using assms by (auto simp: intents_well_def)

lemma intents_well_update:
  assumes "intents_well J" and "admission_intents J' = update_rows p f (admission_intents J)"
    and "\<And>m. am_admission_id (f m) = am_admission_id m"
    and "\<And>m. m \<in> set (admission_intents J) \<Longrightarrow> p m \<Longrightarrow>
      am_evidence_byte_length (f m) = am_evidence_byte_length m
      \<and> (am_state (f m) \<in> {Adm_committed, Adm_cancelled}
         \<or> am_state (f m) = Adm_staged \<and> intent_backed J' (f m))"
    and "\<And>m. m \<in> set (admission_intents J) \<Longrightarrow> \<not> p m \<Longrightarrow> intent_backed J m \<Longrightarrow> intent_backed J' m"
  shows "intents_well J'"
  using assms(1,4,5)
  unfolding intents_well_def assms(2) map_key_update_rows [of am_admission_id, OF assms(3)] ball_update_rows
  by (fastforce simp: intent_pending_def)

text \<open>The accounts after the change of one row.\<close>

lemma total_one_lease:
  assumes "leases_well J" and "findLease J i = Some l" and "p l" and "\<And>x. p x \<Longrightarrow> al_id x = i"
  shows "total w (update_rows p f (admission_leases J)) = total w (admission_leases J) - w l + w (f l)"
  by (rule total_update_one [of al_id]) (use assms findLease_D [OF assms(2)] in \<open>auto simp: leases_well_def\<close>)

lemma find_intent_D: "find_intent J i = Some m \<Longrightarrow> m \<in> set (admission_intents J) \<and> am_admission_id m = i"
  by (auto simp: find_intent_def dest: find_row_SomeD)

lemma total_one_intent:
  assumes "intents_well J" and "find_intent J i = Some m" and "p m" and "\<And>x. p x \<Longrightarrow> am_admission_id x = i"
  shows "total w (update_rows p f (admission_intents J)) = total w (admission_intents J) - w m + w (f m)"
  by (rule total_update_one [of am_admission_id])
    (use assms find_intent_D [OF assms(2)] in \<open>auto simp: intents_well_def\<close>)

lemma update_fresh:
  assumes "findLease J i = None" and "\<And>x. p x \<Longrightarrow> al_id x = i"
  shows "update_rows p f (admission_leases J) = admission_leases J"
  by (rule update_rows_id) (use assms findLease_fresh in blast)

lemma update_rows_append [simp]: "update_rows p f (s @ t) = update_rows p f s @ update_rows p f t"
  by (simp add: update_rows_def)

lemma within_budgetD:
  assumes "within_budget J"
  obtains b where "budget J = Some b" and "counted_purchases J \<le> ab_reserved_purchases b"
    and "ab_reserved_purchases b \<le> ab_purchase_limit b" and "ab_reserved_bytes b = reserved_bytes J"
    and "ab_committed_bytes b = committed_bytes J"
    and "reserved_bytes J + committed_bytes J \<le> ab_evidence_limit b"
  using assms by (auto simp: within_budget_def split: option.splits)

section \<open>Creating a Purchase\<close>

lemma createPurchase_cases:
  assumes "createPurchase True pid parse_url J input clock = Inr (J', r)"
  obtains (existing) "J' = J" and "findPurchaseByRequestKey J (ci_request_key input) = Some r"
      "same_purchase_intent r input"
  | (new) b l where "budget J = Some b" and "ab_reserved_purchases b < ab_purchase_limit b"
      and "findLease J (al_id l) = None" and "al_resource l = Prevalidation_purchase"
      and "al_state l = AL_completed" and "al_quantity l = 1"
      and "r = new_purchase input clock" and "findPurchase J (ci_id input) = None"
      and "findPurchaseByRequestKey J (ci_request_key input) = None"
      and "J' = J\<lparr>purchases := purchases J @ [r],
          purchase_log := purchase_log J @ [\<lparr>pt_purchase_id = ci_id input, pt_from = None,
            pt_to = Pur_created, pt_reason = ''purchase_created'', pt_detail = None,
            pt_created_at = clock\<rparr>],
          admission_leases := admission_leases J @ [l],
          budget := Some (b\<lparr>ab_reserved_purchases := ab_reserved_purchases b + 1,
                             ab_updated_at := clock\<rparr>)\<rparr>"
proof (cases "findPurchaseByRequestKey J (ci_request_key input)")
  case (Some x)
  then show thesis using assms by (intro existing) (auto simp: createPurchase_def assertSamePurchaseIntent_def)
next
  case None
  define i where "i = ''purchase:'' @ ci_id input"
  define l where "l = \<lparr>al_id = i, al_owner = journal_owner pid, al_resource = Prevalidation_purchase,
      al_purchase_id = Some (ci_id input), al_digest = None, al_storage_ref = None,
      al_quantity = 1, al_state = AL_completed, al_deadline = Some (clock + 60000),
      al_outcome = Some ''purchase_retained'', al_created_at = clock, al_updated_at = clock\<rparr>"
  let ?p = "new_purchase input clock"
  let ?J = "J\<lparr>purchases := purchases J @ [?p]\<rparr>"
  obtain J1 lease J2 where find: "findPurchase J (ci_id input) = None"
    and a: "admitPurchaseInternal True pid ?J input clock = Inr (J1, lease)"
    and c: "completePurchaseAdmissionInternal
        (insertPurchaseTransition (ci_id input) None Pur_created ''purchase_created'' None clock J1)
        lease clock = Inr J2"
    and r: "requirePurchase J2 (ci_id input) = Inr r" and J': "J' = J2"
    using assms None by (auto simp: createPurchase_def split: if_splits)
  obtain b where b: "budget J = Some b" "ab_reserved_purchases b < ab_purchase_limit b"
    and fresh: "findLease J i = None" and lease: "lease = Some i"
    and J1: "J1 = (activate_lease i clock (?J\<lparr>admission_leases := admission_leases J @
        [\<lparr>al_id = i, al_owner = journal_owner pid, al_resource = Prevalidation_purchase,
          al_purchase_id = Some (ci_id input), al_digest = None, al_storage_ref = None,
          al_quantity = 1, al_state = AL_admitted, al_deadline = Some (clock + 60000),
          al_outcome = None, al_created_at = clock, al_updated_at = clock\<rparr>]\<rparr>))
        \<lparr>budget := Some ((add_purchases 1 b)\<lparr>ab_updated_at := clock\<rparr>)\<rparr>"
    using a unfolding admitPurchaseInternal_def i_def [symmetric]
    by (auto simp: insert_lease_Inr Let_def charge_budget_def
        activate_lease_def update_leases_def findLease_def split: option.splits if_splits)
  have same: "update_rows p f (admission_leases J) = admission_leases J"
    if "\<And>x. p x \<Longrightarrow> al_id x = i" for p f
    using update_fresh [OF fresh that] .
  have sameA: "update_rows (\<lambda>r. al_id r = i) f (admission_leases J) = admission_leases J" for f
    by (rule same)
  have sameB: "update_rows (lease_in i AL_active) f (admission_leases J) = admission_leases J" for f
    by (rule same) (simp add: lease_in_def)
  have J2: "J2 = J\<lparr>purchases := purchases J @ [?p],
          purchase_log := purchase_log J @ [\<lparr>pt_purchase_id = ci_id input, pt_from = None,
            pt_to = Pur_created, pt_reason = ''purchase_created'', pt_detail = None,
            pt_created_at = clock\<rparr>],
          admission_leases := admission_leases J @
            [l],
          budget := Some (b\<lparr>ab_reserved_purchases := ab_reserved_purchases b + 1,
                             ab_updated_at := clock\<rparr>)\<rparr>"
    using c unfolding lease J1
    by (simp add: completePurchaseAdmissionInternal_def insertPurchaseTransition_def update_leases_def
        activate_lease_def sameA sameB lease_in_def end_lease_def add_purchases_def
        split: if_splits)
      (clarify, cases J, simp add: l_def)
  have "r = ?p"
    using r find by (auto simp: requirePurchase_def J2 findPurchase_def find_row_append new_purchase_def
        split: option.splits)
  then show thesis
    using b fresh J2 J' find None by (intro new [of b l]) (simp_all add: l_def)
qed

lemma create_purchase_inv:
  assumes "createPurchase True pid parse_url J input clock = Inr (J', r)" and inv: "admission_inv J"
  shows "admission_inv J'"
  using assms(1)
proof (cases rule: createPurchase_cases)
  case existing
  with inv show ?thesis by simp
next
  case (new b l)
  from inv have w: "leases_well J" "intents_well J" "within_budget J" by (simp_all add: admission_inv_def)
  have "leases_well J'"
    by (rule leases_well_append [OF w(1), of _ l]) (use new in simp_all)
  moreover have "intents_well J'"
    by (rule intents_well_same [OF w(2)])
      (use new intent_backed_append [of J' J "[l]" "[]"] in simp_all)
  moreover have "within_budget J'"
    using within_budgetD [OF w(3)] new
    by (auto simp: within_budget_def accounts count_weight_def byte_weight_def)
  ultimately show ?thesis by (simp add: admission_inv_def)
qed

section \<open>Offering, staging and cancelling\<close>

lemma offer_cases:
  assumes "offer_admission H J p e i owner now = Inr (J', res)"
  obtains (same) "J' = J"
  | (offered) b l m q where "budget J = Some b" and "findLease J (al_id l) = None"
      and "al_id l = intent_lease m" and "am_admission_id m \<notin> am_admission_id ` set (admission_intents J)"
      and "am_state m = Adm_offered" and "al_resource l = Evidence_bytes" and "al_purchase_id l = None"
      and "al_state l = AL_active" and "al_quantity l = q" and "0 \<le> q"
      and "0 \<le> am_evidence_byte_length m"
      and "findEvidence J (am_evidence_digest m) = None \<longrightarrow> q = am_evidence_byte_length m"
      and "ab_reserved_purchases b + 1 \<le> ab_purchase_limit b"
      and "ab_reserved_bytes b + ab_committed_bytes b + q \<le> ab_evidence_limit b"
      and "J' = J\<lparr>admission_intents := admission_intents J @ [m],
          admission_leases := admission_leases J @ [l],
          budget := Some (b\<lparr>ab_reserved_purchases := ab_reserved_purchases b + 1,
                             ab_reserved_bytes := ab_reserved_bytes b + q,
                             ab_updated_at := now\<rparr>)\<rparr>"
proof (cases "findPurchaseByRequestKey J (ci_request_key p) = None
    \<and> findPurchaseAdmissionIntentByRequestKey J (ci_request_key p) = None")
  case False
  then have "J' = J"
    using assms by (auto simp: offer_admission_def Let_def split: option.splits if_splits)
  then show thesis by (rule same)
next
  case True
  define d where "d = evidenceDigest H (ei_bytes e)"
  define q where "q = (if findEvidence J d \<noteq> None then 0 else int (length (ei_bytes e)))"
  obtain ref b where ref: "storageRefForDigest d = Inr ref" and b: "budget J = Some b"
    and lim: "\<not> ab_reserved_purchases b + 1 > ab_purchase_limit b"
      "\<not> ab_reserved_bytes b + ab_committed_bytes b + q > ab_evidence_limit b"
    and fresh: "\<not> list_ex (\<lambda>m. am_admission_id m = i \<or> am_purchase_id m = ci_id p) (admission_intents J)"
    and rest: "\<exists>J1. insert_lease
           \<lparr>al_id = ''evidence:'' @ i, al_owner = owner, al_resource = Evidence_bytes,
            al_purchase_id = None, al_digest = Some d, al_storage_ref = Some ref,
            al_quantity = q, al_state = AL_active, al_deadline = Some (now + 60000),
            al_outcome = None, al_created_at = now, al_updated_at = now\<rparr>
           (J\<lparr>admission_intents := admission_intents J @ [new_intent d ref p e i owner now]\<rparr>) = Inr J1
         \<and> charge_budget (add_bytes q 0 \<circ> add_purchases 1) now J1 = Inr J'"
    using assms True unfolding offer_admission_def Let_def d_def [symmetric] q_def [symmetric]
    by (auto split: option.splits if_splits)
  define l where "l = \<lparr>al_id = ''evidence:'' @ i, al_owner = owner, al_resource = Evidence_bytes,
            al_purchase_id = None, al_digest = Some d, al_storage_ref = Some ref,
            al_quantity = q, al_state = AL_active, al_deadline = Some (now + 60000),
            al_outcome = None, al_created_at = now, al_updated_at = now\<rparr>"
  define m where "m = new_intent d ref p e i owner now"
  let ?J = "J\<lparr>admission_intents := admission_intents J @ [m]\<rparr>"
  obtain J1 where J1: "insert_lease l ?J = Inr J1"
    and J': "charge_budget (add_bytes q 0 \<circ> add_purchases 1) now J1 = Inr J'"
    using rest unfolding l_def [symmetric] m_def [symmetric] by blast
  have f: "findLease ?J = findLease J" by (rule findLease_cong) simp
  note j1 = J1 [unfolded insert_lease_Inr f]
  have "budget J1 = Some b" using j1 b by simp
  from charge_budget_Inr [OF J' this] have J'1: "J' = J1\<lparr>budget := Some (((add_bytes q 0 \<circ> add_purchases 1) b)
      \<lparr>ab_updated_at := now\<rparr>)\<rparr>" .
  show thesis
  proof (rule offered [OF b])
    show "findLease J (al_id l) = None" using j1 by blast
    show "J' = J\<lparr>admission_intents := admission_intents J @ [m],
          admission_leases := admission_leases J @ [l],
          budget := Some (b\<lparr>ab_reserved_purchases := ab_reserved_purchases b + 1,
                             ab_reserved_bytes := ab_reserved_bytes b + q,
                             ab_updated_at := now\<rparr>)\<rparr>"
      unfolding J'1 using j1 by (cases J) (simp add: add_bytes_def add_purchases_def)
  qed (use fresh lim in \<open>auto simp: l_def m_def new_intent_def intent_lease_def q_def list_ex_iff\<close>)
qed

lemma offer_inv:
  assumes "offer_admission H J p e i owner now = Inr (J', res)" and inv: "admission_inv J"
  shows "admission_inv J'"
  using assms(1)
proof (cases rule: offer_cases)
  case same
  with inv show ?thesis by simp
next
  case (offered b l m q)
  from inv have w: "leases_well J" "intents_well J" "within_budget J" by (simp_all add: admission_inv_def)
  have leases: "admission_leases J' = admission_leases J @ [l]" and arts: "artifacts J' = artifacts J @ []"
    and intents: "admission_intents J' = admission_intents J @ [m]"
    using offered(15) by simp_all
  have "leases_well J'"
    by (rule leases_well_append [OF w(1) leases offered(2)]) (use offered in simp_all)
  moreover have "intents_well J'"
  proof -
    have "findLease J (intent_lease m) = None" using offered(2,3) by simp
    then have "findLease J' (intent_lease m) = Some l"
      using offered(3) by (simp add: findLease_def leases find_row_append)
    then have "intent_backed J' m"
      using offered findEvidence_cong [of J' J] arts by (simp add: intent_backed_def)
    then have "\<forall>x \<in> set (admission_intents J @ [m]). 0 \<le> am_evidence_byte_length x
        \<and> am_state x \<in> {Adm_offered, Adm_staged, Adm_committed, Adm_cancelled}
        \<and> (intent_pending x \<longrightarrow> intent_backed J' x)"
      using w(2) offered(5,11) intent_backed_append [OF leases arts]
      unfolding intents_well_def by simp
    moreover have "distinct (map am_admission_id (admission_intents J @ [m]))"
      using w(2) offered(4) by (simp add: intents_well_def)
    ultimately show ?thesis unfolding intents_well_def intents by blast
  qed
  moreover have "within_budget J'"
    using w(3) offered
    unfolding within_budget_iff leases intents arts
    by (auto simp: count_weight_def byte_weight_def intent_weight_def intent_pending_def
        lease_pending_def)
  ultimately show ?thesis by (simp add: admission_inv_def)
qed

lemma stage_inv:
  assumes "stage_admission H J p e i owner clock = Inr (J', res)" and inv: "admission_inv J"
  shows "admission_inv J'"
proof -
  let ?here = "\<lambda>m. am_admission_id m = i \<and> am_state m = Adm_offered \<and> am_owner m = owner"
  let ?f = "\<lambda>m. m\<lparr>am_state := Adm_staged, am_updated_at := clock\<rparr>"
  have "J' = J \<or> J' = update_intents ?here ?f J"
    using assms(1) by (auto simp: stage_admission_def Let_def split: option.splits if_splits)
  then show ?thesis
  proof
    assume J': "J' = update_intents ?here ?f J"
    from inv have w: "leases_well J" "intents_well J" "within_budget J" by (simp_all add: admission_inv_def)
    have same: "admission_leases J' = admission_leases J" "artifacts J' = artifacts J" "budget J' = budget J"
      and intents: "admission_intents J' = update_rows ?here ?f (admission_intents J)"
      by (simp_all add: J' update_intents_def)
    have b: "intent_backed J' m = intent_backed J m" for m
      unfolding intent_backed_def findLease_cong [OF same(1)] findEvidence_cong [OF same(2)] ..
    have "total intent_weight (admission_intents J') = total intent_weight (admission_intents J)"
      unfolding intents by (rule total_update_same) (simp add: intent_weight_def intent_pending_def)
    then have "within_budget J'"
      using w(3) unfolding within_budget_iff same by simp
    moreover have "intents_well J'"
    proof (rule intents_well_update [OF w(2) intents])
      fix m assume m: "m \<in> set (admission_intents J)" "?here m"
      then have "intent_backed J m" using w(2) by (auto simp: intents_well_def intent_pending_def)
      then have "intent_backed J' (?f m)" 
        unfolding b by (auto simp: intent_backed_def intent_lease_def split: option.splits)
      then show "am_evidence_byte_length (?f m) = am_evidence_byte_length m
        \<and> (am_state (?f m) \<in> {Adm_committed, Adm_cancelled}
           \<or> am_state (?f m) = Adm_staged \<and> intent_backed J' (?f m))" by simp
    qed (use b in simp_all)
    moreover have "leases_well J'" using w(1) unfolding leases_well_def same .
    ultimately show ?thesis by (simp add: admission_inv_def)
  qed (use inv in simp)
qed

text \<open>Ending one active lease: its bytes leave the reservation.\<close>

definition ends_lease :: "journal \<Rightarrow> journal \<Rightarrow> string \<Rightarrow> admission_lease_row \<Rightarrow> bool" where
  "ends_lease J J' i l \<longleftrightarrow>
     findLease J i = Some l \<and> al_state l = AL_active
     \<and> (\<exists>s outcome now. s \<in> {AL_completed, AL_cancelled}
          \<and> (s = AL_completed \<longrightarrow> al_purchase_id l \<noteq> None)
          \<and> admission_leases J' = update_rows (lease_in i AL_active) (end_lease s outcome now)
                                   (admission_leases J))"

lemma ends_lease_facts:
  assumes "ends_lease J J' i l" and "leases_well J"
  shows "leases_well J'"
    and "total byte_weight (admission_leases J')
      = total byte_weight (admission_leases J) - al_quantity l"
    and "total count_weight (admission_leases J') = total count_weight (admission_leases J)"
    and "artifacts J' = artifacts J @ as \<Longrightarrow> intent_backed J m \<Longrightarrow> intent_backed J' m"
proof -
  obtain s outcome now where l: "findLease J i = Some l" "al_state l = AL_active"
    and s: "s \<in> {AL_completed, AL_cancelled}" "s = AL_completed \<longrightarrow> al_purchase_id l \<noteq> None"
    and J': "admission_leases J' = update_rows (lease_in i AL_active) (end_lease s outcome now)
        (admission_leases J)"
    using assms(1) unfolding ends_lease_def by blast
  have row: "al_resource x = Evidence_bytes" if "x \<in> set (admission_leases J)" "al_state x = AL_active" for x
    using assms(2) that by (cases "al_resource x") (auto simp: leases_well_def)
  have res: "al_resource l = Evidence_bytes" using row findLease_D [OF l(1)] l(2) by blast
  show "leases_well J'"
    by (rule leases_well_update [OF assms(2) J']) (use s row in \<open>auto simp: lease_in_def end_lease_def\<close>)
  have tot: "total w (admission_leases J')
      = total w (admission_leases J) - w l + w (end_lease s outcome now l)" for w
    unfolding J'
    by (rule total_one_lease [OF assms(2) l(1)]) (use findLease_D [OF l(1)] l(2) in \<open>auto simp: lease_in_def\<close>)
  show "total byte_weight (admission_leases J') = total byte_weight (admission_leases J) - al_quantity l"
    unfolding tot using s res l(2) by (auto simp: byte_weight_def end_lease_def lease_pending_def)
  show "total count_weight (admission_leases J') = total count_weight (admission_leases J)"
    unfolding tot using res by (simp add: count_weight_def end_lease_def)
  show "intent_backed J' m" if "artifacts J' = artifacts J @ as" "intent_backed J m"
  proof (rule intent_backed_update [OF J' that(1) _ _ that(2)])
    fix x assume x: "findLease J (intent_lease m) = Some x" "lease_in i AL_active x"
    then have "x = l" using l(1) findLease_D [OF x(1)] findLease_D [OF l(1)] by (auto simp: lease_in_def)
    then show "keeps_backing x (end_lease s outcome now x)"
      using s by (auto simp: keeps_backing_def end_lease_def)
  qed (simp add: end_lease_def)
qed

lemma cancel_evidence_cases:
  assumes "cancelEvidenceAdmission True removable J lease outcome clock = Inr (J', removed)"
  obtains (same) "J' = J"
  | (cancelled) i l where "ends_lease J J' i l"
      and "J' = J\<lparr>admission_leases := admission_leases J', budget := budget J'\<rparr>"
      and "budget J = None \<longrightarrow> budget J' = None"
      and "\<And>b. budget J = Some b \<Longrightarrow> \<exists>b'. budget J' = Some b'
        \<and> ab_purchase_limit b' = ab_purchase_limit b \<and> ab_evidence_limit b' = ab_evidence_limit b
        \<and> ab_reserved_purchases b' = ab_reserved_purchases b
        \<and> ab_committed_bytes b' = ab_committed_bytes b
        \<and> ab_reserved_bytes b' = ab_reserved_bytes b - max 0 (al_quantity l)"
proof (cases "\<exists>i l. lease = Some i \<and> findLease J i = Some l \<and> al_state l = AL_active")
  case False
  then have "J' = J"
    using assms by (auto simp: cancelEvidenceAdmission_def split: option.splits if_splits)
  then show thesis by (rule same)
next
  case True
  then obtain i l where l: "lease = Some i" "findLease J i = Some l" "al_state l = AL_active" by blast
  let ?J = "update_leases (lease_in i AL_active) (end_lease AL_cancelled outcome clock) J"
  have J2: "(if al_quantity l > 0 then charge_budget (add_bytes (- al_quantity l) 0) clock ?J
      else Inr ?J) = Inr J'"
    using assms l by (auto simp: cancelEvidenceAdmission_def Let_def)
  show thesis
  proof (rule cancelled)
    have "admission_leases J' = admission_leases ?J"
      using J2 by (auto simp: charge_budget_def split: if_splits option.splits)
    then show "ends_lease J J' i l"
      using l unfolding ends_lease_def by (auto simp: update_leases_def)
    show "J' = J\<lparr>admission_leases := admission_leases J', budget := budget J'\<rparr>"
      using J2 by (auto simp: charge_budget_def update_leases_def split: if_splits option.splits)
    show "budget J = None \<longrightarrow> budget J' = None"
      using J2 by (auto simp: charge_budget_def update_leases_def split: if_splits)
    show "\<exists>b'. budget J' = Some b'
        \<and> ab_purchase_limit b' = ab_purchase_limit b \<and> ab_evidence_limit b' = ab_evidence_limit b
        \<and> ab_reserved_purchases b' = ab_reserved_purchases b
        \<and> ab_committed_bytes b' = ab_committed_bytes b
        \<and> ab_reserved_bytes b' = ab_reserved_bytes b - max 0 (al_quantity l)"
      if "budget J = Some b" for b
      using J2 that by (auto simp: charge_budget_def update_leases_def add_bytes_def split: if_splits)
  qed
qed

lemma cancel_evidence_inv:
  assumes "cancelEvidenceAdmission True removable J lease outcome clock = Inr (J', removed)"
    and inv: "admission_inv J"
  shows "admission_inv J'"
  using assms(1)
proof (cases rule: cancel_evidence_cases)
  case same
  with inv show ?thesis by simp
next
  case (cancelled i l)
  from inv have w: "leases_well J" "intents_well J" "within_budget J" by (simp_all add: admission_inv_def)
  note facts = ends_lease_facts [OF cancelled(1) w(1)]
  have same: "admission_intents J' = admission_intents J" "artifacts J' = artifacts J"
    by (subst cancelled(2), simp)+
  have "0 \<le> al_quantity l"
    using w(1) findLease_D cancelled(1) by (auto simp: ends_lease_def leases_well_def)
  moreover obtain b where b: "budget J = Some b" using w(3) by (auto simp: within_budget_iff)
  ultimately have "within_budget J'"
    using w(3) cancelled(4) [OF b] facts(2,3) unfolding within_budget_iff same by auto
  moreover have "intents_well J'"
    by (rule intents_well_same [OF w(2) same(1)]) (use facts(4) [of "[]"] same(2) in simp)
  ultimately show ?thesis using facts(1) by (simp add: admission_inv_def)
qed

lemma intents_ended:
  assumes "intents_well J" and "find_intent J i = Some m" and "intent_pending m"
    and "admission_intents J' = update_rows (intent_here i) (end_intent s outcome now) (admission_intents J)"
    and "s \<in> {Adm_committed, Adm_cancelled}"
    and "\<And>x. x \<in> set (admission_intents J) \<Longrightarrow> am_admission_id x \<noteq> i \<Longrightarrow> intent_pending x
           \<Longrightarrow> intent_backed J x \<Longrightarrow> intent_backed J' x"
  shows "intents_well J'"
    and "total intent_weight (admission_intents J') = total intent_weight (admission_intents J) - 1"
proof -
  have m: "m \<in> set (admission_intents J)" "am_admission_id m = i" using find_intent_D assms(2) by blast+
  show "total intent_weight (admission_intents J') = total intent_weight (admission_intents J) - 1"
    unfolding assms(4)
    by (subst total_one_intent [OF assms(1,2)])
      (use assms(3,5) m in \<open>auto simp: intent_here_def intent_weight_def intent_pending_def end_intent_def\<close>)
  have "\<forall>x \<in> set (admission_intents J'). 0 \<le> am_evidence_byte_length x
        \<and> am_state x \<in> {Adm_offered, Adm_staged, Adm_committed, Adm_cancelled}
        \<and> (intent_pending x \<longrightarrow> intent_backed J' x)"
    unfolding assms(4) ball_update_rows
  proof
    fix x assume x: "x \<in> set (admission_intents J)"
    then have ok: "0 \<le> am_evidence_byte_length x"
        "am_state x \<in> {Adm_offered, Adm_staged, Adm_committed, Adm_cancelled}"
        "intent_pending x \<longrightarrow> intent_backed J x"
      using assms(1) unfolding intents_well_def by blast+
    show "if intent_here i x
      then 0 \<le> am_evidence_byte_length (end_intent s outcome now x)
        \<and> am_state (end_intent s outcome now x) \<in> {Adm_offered, Adm_staged, Adm_committed, Adm_cancelled}
        \<and> (intent_pending (end_intent s outcome now x) \<longrightarrow> intent_backed J' (end_intent s outcome now x))
      else 0 \<le> am_evidence_byte_length x
        \<and> am_state x \<in> {Adm_offered, Adm_staged, Adm_committed, Adm_cancelled}
        \<and> (intent_pending x \<longrightarrow> intent_backed J' x)"
    proof (cases "intent_here i x")
      case True
      then show ?thesis using ok assms(5) by (auto simp: end_intent_def intent_pending_def)
    next
      case False
      then show ?thesis using ok assms(6) [OF x] by (auto simp: intent_here_def)
    qed
  qed
  moreover have "distinct (map am_admission_id (admission_intents J'))"
    using assms(1) unfolding assms(4) intents_well_def
    by (subst map_key_update_rows) (simp_all add: end_intent_def)
  ultimately show "intents_well J'" by (simp add: intents_well_def)
qed

text \<open>\<open>charge_budget\<close> on a journal with a budget.\<close>

lemma charge_effect:
  assumes "charge_budget f now J = Inr J'"
  shows "J' = J\<lparr>budget := budget J'\<rparr>"
    and "budget J' = map_option (\<lambda>b. (f b)\<lparr>ab_updated_at := now\<rparr>) (budget J)"
  using assms by (auto simp: charge_budget_def split: option.splits if_splits)

lemma cancel_purchase_inv:
  assumes "cancelPurchaseAdmission True removable J i outcome clock = Inr (J', removed)"
    and inv: "admission_inv J"
  shows "admission_inv J'"
proof -
  from inv have w: "leases_well J" "intents_well J" "within_budget J" by (simp_all add: admission_inv_def)
  consider (same) "J' = J" | (cancel) m where "find_intent J i = Some m"
      "am_state m \<noteq> Adm_committed" "am_state m \<noteq> Adm_cancelled"
    using assms(1) by (auto simp: cancelPurchaseAdmission_def split: option.splits if_splits)
  then show ?thesis
  proof cases
    case same
    with inv show ?thesis by simp
  next
    case (cancel m)
    have "am_state m \<in> {Adm_offered, Adm_staged, Adm_committed, Adm_cancelled}"
      using w(2) find_intent_D [OF cancel(1)] unfolding intents_well_def by blast
    then have pend: "intent_pending m" using cancel by (auto simp: intent_pending_def)
    define k where "k = ''evidence:'' @ i"
    let ?J1 = "update_intents (intent_here i) (end_intent Adm_cancelled outcome clock) J"
    obtain J2 where J2: "charge_budget (add_purchases (- 1)) clock ?J1 = Inr J2"
      and J': "(case findLease J k of
                   None \<Rightarrow> Inr J2
                 | Some l \<Rightarrow>
                     if al_state l \<noteq> AL_active then Inr J2
                     else
                       let J3 = update_leases (lease_in k AL_active)
                                  (end_lease AL_cancelled outcome clock) J2 in
                       if al_quantity l > 0
                       then charge_budget (add_bytes (- al_quantity l) 0) clock J3
                       else Inr J3) = Inr J'"
      using assms(1) cancel unfolding cancelPurchaseAdmission_def Let_def k_def by auto
    note e2 = charge_effect [OF J2]
    have J2f: "admission_leases J2 = admission_leases J" "artifacts J2 = artifacts J"
        "admission_intents J2 = admission_intents ?J1"
      by (subst e2(1), simp add: update_intents_def)+
    have fl: "findLease J2 = findLease J" by (rule findLease_cong) (rule J2f)
    obtain b where b: "budget J = Some b" using w(3) by (auto simp: within_budget_iff)
    have b2: "budget J2 = Some ((add_purchases (- 1) b)\<lparr>ab_updated_at := clock\<rparr>)"
      using e2(2) b by (simp add: update_intents_def)
    have rest: "artifacts J' = artifacts J @ [] \<and> admission_intents J' = admission_intents ?J1
      \<and> leases_well J' \<and> (\<forall>x. intent_backed J x \<longrightarrow> intent_backed J' x)
      \<and> (\<exists>b'. budget J' = Some b' \<and> ab_purchase_limit b' = ab_purchase_limit b
          \<and> ab_evidence_limit b' = ab_evidence_limit b
          \<and> ab_reserved_purchases b' = ab_reserved_purchases b - 1
          \<and> ab_committed_bytes b' = ab_committed_bytes b
          \<and> ab_reserved_bytes b' - ab_reserved_bytes b
              = total byte_weight (admission_leases J') - total byte_weight (admission_leases J)
          \<and> total byte_weight (admission_leases J') \<le> total byte_weight (admission_leases J)
          \<and> total count_weight (admission_leases J') = total count_weight (admission_leases J))"
    proof (cases "\<exists>l. findLease J k = Some l \<and> al_state l = AL_active")
      case False
      then have "J' = J2" using J' by (auto split: option.splits)
      then show ?thesis
        using J2f b2 w(1) intent_backed_append [of J' J "[]" "[]"]
        by (simp add: add_purchases_def leases_well_def)
    next
      case True
      then obtain l where l: "findLease J k = Some l" "al_state l = AL_active" by blast
      let ?J3 = "update_leases (lease_in k AL_active) (end_lease AL_cancelled outcome clock) J2"
      have J3: "(if al_quantity l > 0 then charge_budget (add_bytes (- al_quantity l) 0) clock ?J3
          else Inr ?J3) = Inr J'"
        using J' l by (simp add: Let_def)
      then have fs: "J' = ?J3\<lparr>budget := budget J'\<rparr>"
        by (cases "al_quantity l > 0") (auto dest: charge_effect(1))
      have ls: "admission_leases J' = update_rows (lease_in k AL_active)
          (end_lease AL_cancelled outcome clock) (admission_leases J)"
        by (subst fs) (simp add: update_leases_def J2f)
      have ends: "ends_lease J J' k l" unfolding ends_lease_def using l ls by blast
      note facts = ends_lease_facts [OF ends w(1)]
      have q: "0 \<le> al_quantity l" using w(1) findLease_D [OF l(1)] by (auto simp: leases_well_def)
      have arts: "artifacts J' = artifacts J @ []" by (subst fs) (simp add: update_leases_def J2f)
      have ints: "admission_intents J' = admission_intents ?J1"
        by (subst fs) (simp add: update_leases_def J2f)
      have "\<exists>b'. budget J' = Some b' \<and> ab_purchase_limit b' = ab_purchase_limit b
          \<and> ab_evidence_limit b' = ab_evidence_limit b
          \<and> ab_reserved_purchases b' = ab_reserved_purchases b - 1
          \<and> ab_committed_bytes b' = ab_committed_bytes b
          \<and> ab_reserved_bytes b' = ab_reserved_bytes b - al_quantity l"
        using J3 b2 q
        by (cases "al_quantity l > 0")
          (auto dest!: charge_effect(2) simp: update_leases_def add_bytes_def add_purchases_def)
      then show ?thesis using facts(1-3) facts(4) [OF arts] arts ints q by auto
    qed
    have ints: "admission_intents J' = update_rows (intent_here i) (end_intent Adm_cancelled outcome clock)
        (admission_intents J)"
      using rest by (simp add: update_intents_def)
    have iw: "intents_well J'"
        "total intent_weight (admission_intents J') = total intent_weight (admission_intents J) - 1"
      by (rule intents_ended [OF w(2) cancel(1) pend ints]; use rest in simp)+
    have "within_budget J'"
      using w(3) rest iw(2) b unfolding within_budget_iff by auto
    with iw(1) rest show ?thesis by (simp add: admission_inv_def)
  qed
qed

section \<open>Evidence leases\<close>

text \<open>What \<open>storeEvidence\<close> knows of its own lease, from its admission to its attachment.\<close>

definition own_lease :: "journal \<Rightarrow> string \<Rightarrow> string \<Rightarrow> string \<Rightarrow> int \<Rightarrow> bool" where
  "own_lease J i purchaseId digest byteLength \<longleftrightarrow>
     (case findLease J i of
        None \<Rightarrow> False
      | Some l \<Rightarrow>
          al_purchase_id l = Some purchaseId \<and> al_digest l = Some digest
          \<and> (findEvidence J digest = None \<longrightarrow> al_quantity l = byteLength))"

lemma admit_evidence_cases:
  assumes "admitEvidenceInternal True pid J purchaseId digest byteLength nonce now = Inr (J', lease)"
    and "0 \<le> byteLength"
  obtains b l where "budget J = Some b" and "lease = Some (al_id l)" and "findLease J (al_id l) = None"
    and "al_resource l = Evidence_bytes" and "al_state l = AL_active" and "al_purchase_id l = Some purchaseId"
    and "al_digest l = Some digest" and "0 \<le> al_quantity l"
    and "findEvidence J digest = None \<longrightarrow> al_quantity l = byteLength"
    and "ab_reserved_bytes b + ab_committed_bytes b + al_quantity l \<le> ab_evidence_limit b"
    and "J' = J\<lparr>admission_leases := admission_leases J @ [l], budget := budget J'\<rparr>"
    and "\<exists>t. budget J' = Some (b\<lparr>ab_reserved_bytes := ab_reserved_bytes b + al_quantity l,
                                  ab_updated_at := t\<rparr>)"
proof -
  define i where "i = ''evidence:'' @ pid @ '':'' @ nonce"
  define q where "q = (if findEvidence J digest \<noteq> None then 0 else byteLength)"
  obtain b ref J1 where b: "budget J = Some b"
    and lim: "\<not> ab_reserved_bytes b + ab_committed_bytes b + q > ab_evidence_limit b"
    and J1: "insert_lease \<lparr>al_id = i, al_owner = journal_owner pid, al_resource = Evidence_bytes,
             al_purchase_id = Some purchaseId, al_digest = Some digest,
             al_storage_ref = Some ref, al_quantity = q, al_state = AL_admitted,
             al_deadline = Some (now + 60000), al_outcome = None, al_created_at = now,
             al_updated_at = now\<rparr> J = Inr J1"
    and J': "(if q > 0 then rbind (charge_budget (add_bytes q 0) now (activate_lease i now J1))
              (\<lambda>J3. Inr (J3, Some i)) else Inr (activate_lease i now J1, Some i)) = Inr (J', lease)"
    using assms(1) unfolding admitEvidenceInternal_def i_def [symmetric] q_def [symmetric] Let_def
    by auto
  define l where "l = \<lparr>al_id = i, al_owner = journal_owner pid, al_resource = Evidence_bytes,
             al_purchase_id = Some purchaseId, al_digest = Some digest,
             al_storage_ref = Some ref, al_quantity = q, al_state = AL_active,
             al_deadline = Some (now + 60000), al_outcome = None, al_created_at = now,
             al_updated_at = now\<rparr>"
  have fresh: "findLease J i = None" using J1 by (simp add: insert_lease_Inr)
  have "update_rows (\<lambda>r. al_id r = i) f (admission_leases J) = admission_leases J" for f
    using update_fresh [OF fresh] .
  then have act: "activate_lease i now J1 = J\<lparr>admission_leases := admission_leases J @ [l]\<rparr>"
    using J1 by (auto simp: insert_lease_Inr activate_lease_def update_leases_def l_def)
  have q: "0 \<le> q" using assms(2) by (simp add: q_def)
  have bJ: "\<exists>t. budget J' = Some (b\<lparr>ab_reserved_bytes := ab_reserved_bytes b + q, ab_updated_at := t\<rparr>)"
  proof (cases "q > 0")
    case True
    then show ?thesis
      using J' b unfolding act by (auto simp: add_bytes_def dest!: charge_effect(2))
  next
    case False
    then show ?thesis
      using J' b q unfolding act by (auto intro!: exI [of _ "ab_updated_at b"])
  qed
  show thesis
  proof (rule that [OF b])
    show "J' = J\<lparr>admission_leases := admission_leases J @ [l], budget := budget J'\<rparr>"
      using J' unfolding act by (auto split: if_splits dest!: charge_effect(1))
    show "lease = Some (al_id l)" using J' by (auto simp: l_def split: if_splits)
  qed (use fresh lim q bJ in \<open>auto simp: l_def q_def\<close>)
qed

lemma admit_evidence_inv:
  assumes "admitEvidenceInternal True pid J purchaseId digest byteLength nonce now = Inr (J', lease)"
    and "0 \<le> byteLength" and inv: "admission_inv J"
  shows "admission_inv J'"
    and "\<exists>i. lease = Some i \<and> own_lease J' i purchaseId digest byteLength"
proof -
  obtain b l where l: "budget J = Some b" "lease = Some (al_id l)" "findLease J (al_id l) = None"
    "al_resource l = Evidence_bytes" "al_state l = AL_active" "al_purchase_id l = Some purchaseId"
    "al_digest l = Some digest" "0 \<le> al_quantity l"
    "findEvidence J digest = None \<longrightarrow> al_quantity l = byteLength"
    "ab_reserved_bytes b + ab_committed_bytes b + al_quantity l \<le> ab_evidence_limit b"
    and J': "J' = J\<lparr>admission_leases := admission_leases J @ [l], budget := budget J'\<rparr>"
    and b': "\<exists>t. budget J' = Some (b\<lparr>ab_reserved_bytes := ab_reserved_bytes b + al_quantity l,
                                  ab_updated_at := t\<rparr>)"
    by (rule admit_evidence_cases [OF assms(1,2)])
  from inv have w: "leases_well J" "intents_well J" "within_budget J" by (simp_all add: admission_inv_def)
  have f: "admission_leases J' = admission_leases J @ [l]" "artifacts J' = artifacts J @ []"
      "admission_intents J' = admission_intents J"
    by (subst J', simp)+
  have "leases_well J'" by (rule leases_well_append [OF w(1) f(1) l(3,8)]) (use l in simp)
  moreover have "intents_well J'"
    by (rule intents_well_same [OF w(2) f(3)]) (rule intent_backed_append [OF f(1,2)])
  moreover have "within_budget J'"
    using w(3) l b' unfolding within_budget_iff f
    by (auto simp: count_weight_def byte_weight_def lease_pending_def)
  ultimately show "admission_inv J'" by (simp add: admission_inv_def)
  have "findLease J' (al_id l) = Some l"
    using l(3) by (simp add: findLease_def f find_row_append)
  then show "\<exists>i. lease = Some i \<and> own_lease J' i purchaseId digest byteLength"
    using l f findEvidence_cong [of J' J] by (auto simp: own_lease_def)
qed

text \<open>The artifact of a blob, there or new.\<close>

lemma artifact_cases:
  assumes "find_or_insert_artifact J digest byteLength ref clock = Inr (J', existed)"
  obtains (there) "existed" and "J' = J" and "findEvidence J digest \<noteq> None"
  | (new) a where "\<not> existed" and "findEvidence J digest = None" and "ea_byte_length a = byteLength"
      and "J' = J\<lparr>artifacts := artifacts J @ [a]\<rparr>"
proof (cases "findEvidence J digest")
  case None
  then show thesis
    using assms
    by (intro new [of "\<lparr>ea_digest = digest, ea_media_type = ''application/octet-stream'',
          ea_profile = ''urn:sompi:evidence-blob:1'', ea_issuer = None, ea_byte_length = byteLength,
          ea_storage_ref = ref, ea_created_at = clock\<rparr>"])
      (auto simp: find_or_insert_artifact_def split: if_splits)
next
  case (Some a)
  then show thesis
    using assms by (intro there) (auto simp: find_or_insert_artifact_def split: if_splits)
qed

lemma insert_link_cases: "insert_link l J = J\<lparr>evidence_links := evidence_links (insert_link l J)\<rparr>"
  by (simp add: insert_link_def)

lemma insert_link_same [simp]:
  "admission_leases (insert_link l J) = admission_leases J"
  "admission_intents (insert_link l J) = admission_intents J"
  "artifacts (insert_link l J) = artifacts J" "budget (insert_link l J) = budget J"
  "purchases (insert_link l J) = purchases J"
  by (simp_all add: insert_link_def)

lemma complete_evidence_facts:
  assumes "completeEvidenceAdmissionInternal J (Some i) unique now = Inr J'"
    and "budget J = Some b" and "leases_well J" and "\<And>l. findLease J i = Some l \<Longrightarrow> al_purchase_id l \<noteq> None"
  obtains l b' where "ends_lease J J' i l"
    and "J' = J\<lparr>admission_leases := admission_leases J', budget := Some b'\<rparr>"
    and "ab_purchase_limit b' = ab_purchase_limit b" and "ab_evidence_limit b' = ab_evidence_limit b"
    and "ab_reserved_purchases b' = ab_reserved_purchases b"
    and "ab_reserved_bytes b' = ab_reserved_bytes b - al_quantity l"
    and "ab_committed_bytes b' = ab_committed_bytes b + (if unique then al_quantity l else 0)"
proof -
  let ?o = "if unique then ''blob_committed'' else ''blob_deduplicated''"
  let ?J = "update_leases (lease_in i AL_active) (end_lease AL_completed ?o now) J"
  obtain l where l: "findLease J i = Some l" "al_state l = AL_active"
    and J': "(if al_quantity l > 0
              then charge_budget (add_bytes (- al_quantity l) (if unique then al_quantity l else 0)) now ?J
              else Inr ?J) = Inr J'"
    using assms(1) by (auto simp: completeEvidenceAdmissionInternal_def Let_def split: option.splits)
  have q: "0 \<le> al_quantity l" using assms(3) findLease_D [OF l(1)] by (auto simp: leases_well_def)
  have fs: "J' = ?J\<lparr>budget := budget J'\<rparr>"
    using J' by (cases "al_quantity l > 0") (auto dest: charge_effect(1))
  have ls: "admission_leases J' = update_rows (lease_in i AL_active) (end_lease AL_completed ?o now)
      (admission_leases J)"
    by (subst fs) (simp add: update_leases_def)
  have "\<exists>b'. budget J' = Some b' \<and> ab_purchase_limit b' = ab_purchase_limit b
    \<and> ab_evidence_limit b' = ab_evidence_limit b
    \<and> ab_reserved_purchases b' = ab_reserved_purchases b
    \<and> ab_reserved_bytes b' = ab_reserved_bytes b - al_quantity l
    \<and> ab_committed_bytes b' = ab_committed_bytes b + (if unique then al_quantity l else 0)"
    using J' assms(2) q
    by (cases "al_quantity l > 0")
      (auto dest!: charge_effect(2) simp: update_leases_def add_bytes_def)
  moreover have "ends_lease J J' i l" unfolding ends_lease_def using l ls assms(4) by blast
  moreover have "J' = J\<lparr>admission_leases := admission_leases J', budget := budget J'\<rparr>"
    by (subst fs) (simp add: update_leases_def ls)
  ultimately show thesis using that by metis
qed

text \<open>
  An artifact that appears and the lease that reserved its bytes: together they leave what is
  reserved and committed as it was.
\<close>

lemma blob_recorded:
  assumes inv: "leases_well J" "within_budget J" and b: "budget J = Some b"
    and art: "existed \<and> artifacts J' = artifacts J
      \<or> \<not> existed \<and> artifacts J' = artifacts J @ [a] \<and> ea_byte_length a = al_quantity l"
    and ends: "ends_lease J J' i l"
    and b': "budget J' = Some b'" "ab_purchase_limit b' = ab_purchase_limit b"
      "ab_evidence_limit b' = ab_evidence_limit b"
      "ab_reserved_purchases b' = ab_reserved_purchases b"
      "ab_reserved_bytes b' = ab_reserved_bytes b - al_quantity l"
      "ab_committed_bytes b' = ab_committed_bytes b + (if existed then 0 else al_quantity l)"
    and ints: "total intent_weight (admission_intents J') \<le> total intent_weight (admission_intents J)"
  shows "within_budget J'"
proof -
  note facts = ends_lease_facts [OF ends inv(1)]
  have "0 \<le> al_quantity l" using inv(1) findLease_D ends by (auto simp: ends_lease_def leases_well_def)
  then show ?thesis
    using inv(2) b art b' ints facts(2,3) unfolding within_budget_iff by auto
qed

lemma attach_inv:
  assumes "attach_evidence H J purchaseId input (Some i) c0 c1 c2 = Inr (J', att)"
    and own: "own_lease J i purchaseId (evidenceDigest H (ei_bytes input)) (int (length (ei_bytes input)))"
    and inv: "admission_inv J"
  shows "admission_inv J'"
proof -
  from inv have w: "leases_well J" "intents_well J" "within_budget J" by (simp_all add: admission_inv_def)
  define d where "d = evidenceDigest H (ei_bytes input)"
  define n where "n = int (length (ei_bytes input))"
  obtain ref J1 existed where
    art: "find_or_insert_artifact J d n ref c0 = Inr (J1, existed)"
    and fin: "completeEvidenceAdmissionInternal (insert_link (evidence_link_of purchaseId d input c1) J1)
        (Some i) (\<not> existed) c2 = Inr J'"
    using assms(1) unfolding attach_evidence_def Let_def d_def [symmetric] n_def [symmetric]
    by (auto split: if_splits)
  let ?J2 = "insert_link (evidence_link_of purchaseId d input c1) J1"
  obtain b where b: "budget J = Some b" using w(3) by (auto simp: within_budget_iff)
  have J1: "admission_leases J1 = admission_leases J" "admission_intents J1 = admission_intents J"
      "budget J1 = budget J"
    using art by (cases rule: artifact_cases; simp)+
  have fl: "findLease ?J2 = findLease J" by (rule findLease_cong) (simp add: J1)
  have own': "al_purchase_id x \<noteq> None \<and> (findEvidence J d = None \<longrightarrow> al_quantity x = n)"
    if "findLease J i = Some x" for x
    using own that by (simp add: own_lease_def d_def n_def)
  obtain l b' where ends: "ends_lease ?J2 J' i l"
    and J': "J' = ?J2\<lparr>admission_leases := admission_leases J', budget := Some b'\<rparr>"
    and b': "ab_purchase_limit b' = ab_purchase_limit b" "ab_evidence_limit b' = ab_evidence_limit b"
      "ab_reserved_purchases b' = ab_reserved_purchases b"
      "ab_reserved_bytes b' = ab_reserved_bytes b - al_quantity l"
      "ab_committed_bytes b' = ab_committed_bytes b + (if \<not> existed then al_quantity l else 0)"
    by (rule complete_evidence_facts [OF fin])
      (use b J1 w(1) fl own' in \<open>simp_all add: leases_well_def\<close>)
  have ends': "ends_lease J J' i l" using ends unfolding ends_lease_def fl by (simp add: J1)
  have J'f: "admission_intents J' = admission_intents J" "artifacts J' = artifacts J1" "budget J' = Some b'"
    by (subst J', simp add: J1)+
  have l: "findLease J i = Some l" using ends' by (simp add: ends_lease_def)
  have arts: "existed \<and> artifacts J' = artifacts J
      \<or> \<not> existed \<and> (\<exists>a. artifacts J' = artifacts J @ [a] \<and> ea_byte_length a = al_quantity l)"
    using art by (cases rule: artifact_cases) (use J'f(2) own' [OF l] in auto)
  then obtain as where as: "artifacts J' = artifacts J @ as" by auto
  note facts = ends_lease_facts [OF ends' w(1)]
  have "within_budget J'"
    using blob_recorded [OF w(1,3) b _ ends' J'f(3) b'(1-4), of existed] arts b'(5) J'f(1) by auto
  moreover have "intents_well J'"
    by (rule intents_well_same [OF w(2) J'f(1)]) (rule facts(4) [OF as])
  ultimately show ?thesis using facts(1) by (simp add: admission_inv_def)
qed

section \<open>Committing an admission\<close>

lemma publish_same:
  assumes "publish_purchase J m now = Inr J'"
  shows "admission_leases J' = admission_leases J" "admission_intents J' = admission_intents J"
    "artifacts J' = artifacts J" "budget J' = budget J"
  using assms
  by (auto simp: publish_purchase_def insertPurchaseTransition_def split: option.splits if_splits)

lemma retain_cases:
  assumes "retain_count J m now = Inr J'"
  obtains (there) "J' = J"
  | (new) l where "findLease J (al_id l) = None" and "al_resource l = Prevalidation_purchase"
      and "al_state l = AL_completed" and "al_quantity l = 1"
      and "J' = J\<lparr>admission_leases := admission_leases J @ [l]\<rparr>"
proof (cases "findLease J (''purchase:'' @ am_purchase_id m)")
  case None
  define i where "i = ''purchase:'' @ am_purchase_id m"
  show thesis
    using assms None unfolding retain_count_def Let_def i_def [symmetric]
    by (intro new [of "\<lparr>al_id = i, al_owner = am_owner m, al_resource = Prevalidation_purchase,
            al_purchase_id = Some (am_purchase_id m), al_digest = None, al_storage_ref = None,
            al_quantity = 1, al_state = AL_completed, al_deadline = None,
            al_outcome = Some ''purchase_retained'', al_created_at = now, al_updated_at = now\<rparr>"])
      (auto simp: insert_lease_Inr)
next
  case (Some l)
  then show thesis
    using assms by (intro there) (auto simp: retain_count_def Let_def)
qed

definition claims_lease :: "string \<Rightarrow> string \<Rightarrow> journal \<Rightarrow> journal" where
  "claims_lease k purchaseId J =
     update_leases (\<lambda>r. lease_in k AL_active r \<and> al_purchase_id r = None)
       (\<lambda>r. r\<lparr>al_purchase_id := Some purchaseId\<rparr>) J"

lemma claims_lease_facts:
  assumes "leases_well J"
  shows "leases_well (claims_lease k p J)"
    and "total byte_weight (admission_leases (claims_lease k p J)) = total byte_weight (admission_leases J)"
    and "total count_weight (admission_leases (claims_lease k p J)) = total count_weight (admission_leases J)"
    and "findLease (claims_lease k p J) i = map_option (\<lambda>l. if lease_in k AL_active l \<and> al_purchase_id l = None
           then l\<lparr>al_purchase_id := Some p\<rparr> else l) (findLease J i)"
  subgoal
    using assms unfolding leases_well_def claims_lease_def update_leases_def
    by (simp add: map_key_update_rows ball_update_rows)
  subgoal
    unfolding claims_lease_def update_leases_def
    by (simp, rule total_update_same) (auto simp: byte_weight_def lease_pending_def)
  subgoal
    unfolding claims_lease_def update_leases_def
    by (simp, rule total_update_same) (simp add: count_weight_def)
  by (rule findLease_update) (simp_all add: claims_lease_def update_leases_def)

lemma settle_cases:
  assumes "settle_evidence_lease J m existed now = Inr J'"
    and "leases_well J" and "findLease J (intent_lease m) = Some l0" and "al_purchase_id l0 = None"
    and "al_state l0 \<noteq> AL_completed" and "budget J = Some b"
  obtains l b' where
    "ends_lease (claims_lease (intent_lease m) (am_purchase_id m) J) J' (intent_lease m) l"
    and "al_quantity l = al_quantity l0"
    and "J' = J\<lparr>admission_leases := admission_leases J', budget := Some b'\<rparr>"
    and "ab_purchase_limit b' = ab_purchase_limit b" and "ab_evidence_limit b' = ab_evidence_limit b"
    and "ab_reserved_purchases b' = ab_reserved_purchases b"
    and "ab_reserved_bytes b' = ab_reserved_bytes b - al_quantity l0"
    and "ab_committed_bytes b' = ab_committed_bytes b + (if existed then 0 else al_quantity l0)"
proof -
  define k where "k = intent_lease m"
  let ?C = "claims_lease k (am_purchase_id m) J"
  let ?o = "if existed then ''blob_deduplicated'' else ''blob_committed''"
  let ?J2 = "update_leases (lease_in k AL_active) (end_lease AL_completed ?o now) ?C"
  have active: "al_state l0 = AL_active"
    and J': "(if al_quantity l0 > 0
              then charge_budget (add_bytes (- al_quantity l0) (if existed then 0 else al_quantity l0)) now ?J2
              else Inr ?J2) = Inr J'"
    using assms(1,3,5)
    unfolding settle_evidence_lease_def Let_def intent_lease_def [symmetric] k_def [symmetric]
      claims_lease_def [symmetric]
    by (auto split: if_splits)
  have q: "0 \<le> al_quantity l0" using assms(2) findLease_D [OF assms(3)] by (auto simp: leases_well_def)
  have fs: "J' = ?J2\<lparr>budget := budget J'\<rparr>"
    using J' by (cases "al_quantity l0 > 0") (auto dest: charge_effect(1))
  have bJ: "budget ?J2 = Some b" using assms(6) by (simp add: update_leases_def claims_lease_def)
  have "\<exists>b'. budget J' = Some b' \<and> ab_purchase_limit b' = ab_purchase_limit b
    \<and> ab_evidence_limit b' = ab_evidence_limit b
    \<and> ab_reserved_purchases b' = ab_reserved_purchases b
    \<and> ab_reserved_bytes b' = ab_reserved_bytes b - al_quantity l0
    \<and> ab_committed_bytes b' = ab_committed_bytes b + (if existed then 0 else al_quantity l0)"
  proof (cases "al_quantity l0 > 0")
    case True
    then have "charge_budget (add_bytes (- al_quantity l0) (if existed then 0 else al_quantity l0)) now ?J2
        = Inr J'" using J' by simp
    from charge_effect(2) [OF this] show ?thesis unfolding bJ by (simp add: add_bytes_def)
  next
    case False
    then show ?thesis using J' bJ q by auto
  qed
  moreover have "ends_lease ?C J' k (l0\<lparr>al_purchase_id := Some (am_purchase_id m)\<rparr>)"
  proof -
    have "findLease ?C k = Some (l0\<lparr>al_purchase_id := Some (am_purchase_id m)\<rparr>)"
      using assms(3,4) active findLease_D [OF assms(3)]
      by (simp add: claims_lease_facts(4) [OF assms(2)] k_def lease_in_def)
    moreover have "admission_leases J' = update_rows (lease_in k AL_active)
        (end_lease AL_completed ?o now) (admission_leases ?C)"
      by (subst fs) (simp add: update_leases_def)
    ultimately show ?thesis using active unfolding ends_lease_def by auto
  qed
  moreover have "J' = J\<lparr>admission_leases := admission_leases J', budget := budget J'\<rparr>"
    by (subst fs, subst (2) fs) (simp add: update_leases_def claims_lease_def)
  ultimately show thesis unfolding k_def [symmetric] by (metis that [folded k_def] admission_lease_row.select_convs(7) admission_lease_row.surjective
      admission_lease_row.update_convs(4))
qed

lemma charge_intents: "charge_budget f now J = Inr J' \<Longrightarrow> admission_intents J' = admission_intents J"
  by (subst charge_effect(1)) simp_all

lemma settle_intents:
  assumes "settle_evidence_lease J m existed now = Inr J'"
  shows "admission_intents J' = admission_intents J"
proof -
  obtain l where l: "findLease J (''evidence:'' @ am_admission_id m) = Some l"
    using assms unfolding settle_evidence_lease_def Let_def by (auto split: option.splits)
  have up: "admission_intents (update_leases p f K) = admission_intents K" for p f K
    by (simp add: update_leases_def)
  from assms show ?thesis
    unfolding settle_evidence_lease_def Let_def l option.case
    by (cases "al_state l = AL_active"; cases "al_quantity l > 0"; cases "al_state l = AL_completed")
      (simp_all only: if_True if_False simp_thms not_True_eq_False not_False_eq_True sum.inject sum.distinct,
        auto dest!: charge_intents simp only: up)
qed

lemma commit_inv:
  assumes "commitPurchaseAdmissionIntent intact J i owner c0 c1 now = Inr (J', r)"
    and inv: "admission_inv J"
  shows "admission_inv J'"
proof -
  from inv have w: "leases_well J" "intents_well J" "within_budget J" by (simp_all add: admission_inv_def)
  obtain m where m: "find_intent J i = Some m"
    using assms(1) by (auto simp: commitPurchaseAdmissionIntent_def Let_def split: option.splits)
  show ?thesis
  proof (cases "am_state m = Adm_committed")
    case True
    then show ?thesis using assms(1) m inv by (auto simp: commitPurchaseAdmissionIntent_def Let_def)
  next
    case False
    obtain ref J1 J2 J3 existed J4 where
      p: "publish_purchase J m now = Inr J1" and c: "retain_count J1 m now = Inr J2"
      and a: "find_or_insert_artifact J2 (am_evidence_digest m) (am_evidence_byte_length m) ref now
        = Inr (J3, existed)"
      and s: "settle_evidence_lease (insert_link (intent_link m now) J3) m existed now = Inr J4"
      and one: "changes (intent_here i) (admission_intents J4) = 1"
      and J': "J' = update_intents (intent_here i)
                    (end_intent Adm_committed ''purchase_and_evidence_retained'' now) J4"
      using assms(1) m False unfolding commitPurchaseAdmissionIntent_def Let_def
      by (simp del: One_nat_def) blast
    let ?K = "insert_link (intent_link m now) J3"
    note p1 = publish_same [OF p]
    have J2: "admission_intents J2 = admission_intents J" "artifacts J2 = artifacts J" "budget J2 = budget J"
      using c by (cases rule: retain_cases; simp add: p1)+
    obtain ls where ls: "admission_leases J2 = admission_leases J @ ls" and ls1: "leases_well J2"
      and lsw: "total byte_weight ls = 0" "total count_weight ls \<le> 1"
      using c
    proof (cases rule: retain_cases)
      case there
      then show thesis using that [of "[]"] w(1) p1 by (simp add: leases_well_def)
    next
      case (new l)
      have "leases_well J1" using w(1) p1 by (simp add: leases_well_def)
      then have "leases_well J2"
        by (rule leases_well_append [of _ _ l]) (use new in simp_all)
      with new show thesis
        using that [of "[l]"] p1 by (simp add: byte_weight_def count_weight_def)
    qed
    have K: "admission_leases ?K = admission_leases J2" "admission_intents ?K = admission_intents J"
        "budget ?K = budget J" "artifacts ?K = artifacts J3"
      using a J2 by (cases rule: artifact_cases; simp)+
    have K3: "admission_intents J3 = admission_intents J"
      using a J2 by (cases rule: artifact_cases; simp)
    have mi: "m \<in> set (admission_intents J)" "am_admission_id m = i" using find_intent_D [OF m] by auto
    have pend: "intent_pending m"
    proof -
      have "am_state m \<in> {Adm_offered, Adm_staged, Adm_committed, Adm_cancelled}"
        using w(2) mi unfolding intents_well_def by blast
      moreover have "am_state m \<noteq> Adm_cancelled"
      proof
        assume canc: "am_state m = Adm_cancelled"
        have "admission_intents J4 = admission_intents J"
          using settle_intents [OF s] by (simp only: K)
        then obtain x where "x \<in> set (admission_intents J)" "intent_here i x"
          using one changes_pos_iff [of "intent_here i" "admission_intents J4"] by auto
        moreover have "x = m" if "x \<in> set (admission_intents J)" "am_admission_id x = i" for x
          using w(2) mi that by (auto simp: intents_well_def distinct_map inj_on_def)
        ultimately show False using canc by (auto simp: intent_here_def intent_pending_def)
      qed
      ultimately show ?thesis using False by (auto simp: intent_pending_def)
    qed
    then have bkd: "intent_backed J m" using w(2) mi by (simp add: intents_well_def)
    then obtain l0 where l0: "findLease J (intent_lease m) = Some l0" "al_purchase_id l0 = None"
        "al_state l0 \<noteq> AL_completed"
        "findEvidence J (am_evidence_digest m) = None \<longrightarrow> al_quantity l0 = am_evidence_byte_length m"
      by (auto simp: intent_backed_def split: option.splits)
    have Kl: "findLease ?K (intent_lease m) = Some l0"
      using l0(1) unfolding findLease_def K(1) ls by (simp add: find_row_append)
    have Kw: "leases_well ?K" using ls1 unfolding leases_well_def K(1) .
    obtain b where b: "budget J = Some b" using w(3) by (auto simp: within_budget_iff)
    have bK: "budget ?K = Some b" using b by (simp only: K(3))
    let ?C = "claims_lease (intent_lease m) (am_purchase_id m) ?K"
    obtain l b' where ends: "ends_lease ?C J4 (intent_lease m) l" and ql: "al_quantity l = al_quantity l0"
      and J4: "J4 = ?K\<lparr>admission_leases := admission_leases J4, budget := Some b'\<rparr>"
      and b': "ab_purchase_limit b' = ab_purchase_limit b" "ab_evidence_limit b' = ab_evidence_limit b"
        "ab_reserved_purchases b' = ab_reserved_purchases b"
        "ab_reserved_bytes b' = ab_reserved_bytes b - al_quantity l0"
        "ab_committed_bytes b' = ab_committed_bytes b + (if existed then 0 else al_quantity l0)"
      by (rule settle_cases [OF s Kw Kl l0(2,3) bK])
    note cl = claims_lease_facts [OF Kw, of "intent_lease m" "am_purchase_id m"]
    note facts = ends_lease_facts [OF ends cl(1)]
    have J4f: "admission_intents J4 = admission_intents J" "artifacts J4 = artifacts J3" "budget J4 = Some b'"
      by (subst J4, simp add: K3)+
    have J'f: "admission_leases J' = admission_leases J4" "artifacts J' = artifacts J3" "budget J' = Some b'"
        "admission_intents J' = update_rows (intent_here i)
          (end_intent Adm_committed ''purchase_and_evidence_retained'' now) (admission_intents J)"
      by (simp_all add: J' update_intents_def J4f)
    have arts: "existed \<and> artifacts J' = artifacts J
        \<or> \<not> existed \<and> (\<exists>x. artifacts J' = artifacts J @ [x] \<and> ea_byte_length x = al_quantity l0)"
      using a
    proof (cases rule: artifact_cases)
      case there
      then show ?thesis by (simp add: J'f J2)
    next
      case (new x)
      then have "findEvidence J (am_evidence_digest m) = None"
        using findEvidence_cong [OF J2(2)] by simp
      then show ?thesis using new l0(4) by (simp add: J'f J2)
    qed
    then obtain as where as: "artifacts J' = artifacts J @ as" by auto
    have backed: "intent_backed J' x"
      if x: "am_admission_id x \<noteq> i" "intent_backed J x" for x
    proof -
      have "intent_lease x \<noteq> intent_lease m" using x(1) mi by (simp add: intent_lease_def)
      then have "findLease ?C (intent_lease x) = findLease ?K (intent_lease x)"
        using findLease_D [of ?K "intent_lease x"]
        by (cases "findLease ?K (intent_lease x)") (auto simp: cl(4) lease_in_def)
      moreover have "findLease J4 (intent_lease x) = findLease ?C (intent_lease x)"
      proof -
        obtain st out t where "admission_leases J4 = update_rows (lease_in (intent_lease m) AL_active)
            (end_lease st out t) (admission_leases ?C)"
          using ends unfolding ends_lease_def by blast
        from findLease_update [OF this, of "intent_lease x"] \<open>intent_lease x \<noteq> intent_lease m\<close>
        show ?thesis
          using findLease_D [of ?C "intent_lease x"]
          by (cases "findLease ?C (intent_lease x)") (auto simp: lease_in_def end_lease_def)
      qed
      moreover have "findLease ?K (intent_lease x) = findLease J (intent_lease x)"
        using x(2) unfolding findLease_def K(1) ls intent_backed_def
        by (auto simp: find_row_append split: option.splits)
      moreover have "findLease J' = findLease J4" by (rule findLease_cong) (rule J'f(1))
      ultimately have "findLease J' (intent_lease x) = findLease J (intent_lease x)" by simp
      then show ?thesis by (rule intent_backed_cong [OF _ as x(2)])
    qed
    have iw: "intents_well J'"
        "total intent_weight (admission_intents J') = total intent_weight (admission_intents J) - 1"
      by (rule intents_ended [OF w(2) m pend J'f(4)]; use backed in simp)+
    have "leases_well J'" using facts(1) by (simp add: leases_well_def J'f)
    moreover have "within_budget J'"
    proof -
      have lw: "total byte_weight (admission_leases J')
            = total byte_weight (admission_leases J) - al_quantity l0"
          "total count_weight (admission_leases J') \<le> total count_weight (admission_leases J) + 1"
        unfolding J'f(1) facts(2,3) cl(2,3) K(1) ls ql using lsw by simp_all
      have "0 \<le> al_quantity l0"
        using w(1) findLease_D [OF l0(1)] by (auto simp: leases_well_def)
      then show ?thesis
        using w(3) b b' arts lw iw(2) unfolding within_budget_iff J'f(3) by auto
    qed
    ultimately show ?thesis using iw(1) by (simp add: admission_inv_def)
  qed
qed

section \<open>Reconciliation at startup\<close>

lemma update_rows_cong:
  "(\<And>r. r \<in> set t \<Longrightarrow> p r = q r) \<Longrightarrow> update_rows p f t = update_rows q f t"
  by (induction t) auto

lemma reconcile_lease_cases:
  assumes "reconcile_lease removable now l J = Inr J'" and well: "leases_well J"
    and l: "l \<in> set (admission_leases J)" "lease_pending l"
  obtains "J' = J"
  | "ends_lease J J' (al_id l) l" and "J' = J\<lparr>admission_leases := admission_leases J'\<rparr>"
proof -
  let ?s = "\<lambda>s outcome. update_leases (pending_here (al_id l)) (end_lease s outcome now) J"
  have rows: "al_state x = AL_active" if "x \<in> set (admission_leases J)" "lease_pending x" for x
    using well that by (auto simp: leases_well_def lease_pending_def)
  have act: "al_state l = AL_active" using rows l by blast
  then have res: "al_resource l = Evidence_bytes"
    using well l(1) by (cases "al_resource l") (auto simp: leases_well_def)
  consider "J' = J" | "\<exists>o'. J' = ?s AL_completed o'" "al_purchase_id l \<noteq> None"
    | "\<exists>o'. J' = ?s AL_cancelled o'"
    using assms(1) res
    by (auto simp: reconcile_lease_def Let_def split: option.splits if_splits)
  then show thesis
  proof cases
    case 1
    then show thesis by (rule that(1))
  next
    case settled: 2
    then obtain o' where J': "J' = ?s AL_completed o'" by blast
    have "findLease J (al_id l) = Some l"
      unfolding findLease_def using well l(1) by (intro find_row_key_unique) (simp_all add: leases_well_def)
    moreover have "admission_leases J' = update_rows (lease_in (al_id l) AL_active)
        (end_lease AL_completed o' now) (admission_leases J)"
      unfolding J' update_leases_def
      by (simp, rule update_rows_cong) (use rows in \<open>auto simp: pending_here_def lease_in_def lease_pending_def\<close>)
    ultimately show thesis
      using act settled(2) J' by (intro that(2)) (auto simp: ends_lease_def update_leases_def)
  next
    case 3
    then obtain o' where J': "J' = ?s AL_cancelled o'" by blast
    have "findLease J (al_id l) = Some l"
      unfolding findLease_def using well l(1) by (intro find_row_key_unique) (simp_all add: leases_well_def)
    moreover have "admission_leases J' = update_rows (lease_in (al_id l) AL_active)
        (end_lease AL_cancelled o' now) (admission_leases J)"
      unfolding J' update_leases_def
      by (simp, rule update_rows_cong) (use rows in \<open>auto simp: pending_here_def lease_in_def lease_pending_def\<close>)
    ultimately show thesis
      using act J' by (intro that(2)) (auto simp: ends_lease_def update_leases_def)
  qed
qed

lemma reconcile_leases_facts:
  assumes "reconcile_leases removable now ls J = Inr J'" and "leases_well J" and "intents_well J"
    and "set ls \<subseteq> set (admission_leases J)" and "distinct (map al_id ls)" and "\<forall>l \<in> set ls. lease_pending l"
  shows "leases_well J' \<and> intents_well J' \<and> artifacts J' = artifacts J \<and> budget J' = budget J
    \<and> admission_intents J' = admission_intents J
    \<and> total count_weight (admission_leases J') = total count_weight (admission_leases J)
    \<and> total byte_weight (admission_leases J') \<le> total byte_weight (admission_leases J)"
  using assms
proof (induction ls arbitrary: J)
  case (Cons l ls)
  obtain J1 where J1: "reconcile_lease removable now l J = Inr J1"
    and rest: "reconcile_leases removable now ls J1 = Inr J'"
    using Cons.prems(1) by auto
  have l: "l \<in> set (admission_leases J)" "lease_pending l" using Cons.prems by simp_all
  from J1 Cons.prems(2) l show ?case
  proof (cases rule: reconcile_lease_cases)
    case 1
    then show ?thesis using Cons rest by simp
  next
    case 2
    note facts = ends_lease_facts [OF 2(1) Cons.prems(2)]
    have same: "artifacts J1 = artifacts J @ []" "budget J1 = budget J"
        "admission_intents J1 = admission_intents J"
      by (subst 2(2), simp)+
    have ints: "intents_well J1"
      by (rule intents_well_same [OF Cons.prems(3) same(3)]) (rule facts(4) [OF same(1)])
    have "set ls \<subseteq> set (admission_leases J1)"
    proof
      fix x assume x: "x \<in> set ls"
      have "al_id l \<notin> al_id ` set ls" using Cons.prems(5) by simp
      with x have "al_id x \<noteq> al_id l" by (metis image_eqI)
      moreover have "x \<in> set (admission_leases J)" using x Cons.prems(4) by auto
      moreover obtain s out t where "admission_leases J1
          = update_rows (lease_in (al_id l) AL_active) (end_lease s out t) (admission_leases J)"
        using 2(1) unfolding ends_lease_def by blast
      ultimately show "x \<in> set (admission_leases J1)"
        by (auto simp: update_rows_def lease_in_def intro!: image_eqI [of _ _ x])
    qed
    moreover have "distinct (map al_id ls)" "\<forall>l \<in> set ls. lease_pending l"
      using Cons.prems(5,6) by simp_all
    moreover have "0 \<le> al_quantity l" using Cons.prems(2) l(1) by (auto simp: leases_well_def)
    ultimately show ?thesis using Cons.IH [OF rest facts(1) ints] facts(2,3) same by simp
  qed
qed simp

lemma reconcile_inv:
  assumes "reconcileAdmissionLeases removable J now = Inr J'" and inv: "admission_inv J"
  shows "admission_inv J'"
proof -
  from inv have w: "leases_well J" "intents_well J" "within_budget J" by (simp_all add: admission_inv_def)
  obtain J1 where J1: "reconcile_leases removable now (filter lease_pending (admission_leases J)) J = Inr J1"
    and J': "charge_budget (recount J1) now J1 = Inr J'"
    using assms(1) by (auto simp: reconcileAdmissionLeases_def)
  have "distinct (map al_id (filter lease_pending (admission_leases J)))"
    using w(1) by (simp add: leases_well_def distinct_map_filter)
  then have f: "leases_well J1 \<and> intents_well J1 \<and> artifacts J1 = artifacts J \<and> budget J1 = budget J
    \<and> admission_intents J1 = admission_intents J
    \<and> total count_weight (admission_leases J1) = total count_weight (admission_leases J)
    \<and> total byte_weight (admission_leases J1) \<le> total byte_weight (admission_leases J)"
    by (intro reconcile_leases_facts [OF J1 w(1,2)]) auto
  have same: "admission_leases J' = admission_leases J1" "artifacts J' = artifacts J1"
      "admission_intents J' = admission_intents J1"
    by (subst charge_effect(1) [OF J'], simp)+
  have backed: "intent_backed J' m = intent_backed J1 m" for m
    unfolding intent_backed_def findLease_cong [OF same(1)] findEvidence_cong [OF same(2)] ..
  have "leases_well J1" "intents_well J1" using f by blast+
  then have "leases_well J'" "intents_well J'"
    unfolding leases_well_def intents_well_def same backed by blast+
  moreover have "within_budget J'"
    using w(3) f charge_effect(2) [OF J']
    unfolding within_budget_iff same by (auto simp: recount_def accounts)
  ultimately show ?thesis by (simp add: admission_inv_def)
qed

section \<open>Every run\<close>

text \<open>
  The transactions of admission as one relation. \<open>adm_other\<close> is any transaction that leaves the
  tables of admission alone; the modelled operations on Purchases, Effects, operations and
  policies are of this kind.
\<close>

inductive admission_step :: "journal \<Rightarrow> journal \<Rightarrow> bool" where
  adm_created: "createPurchase True pid parse_url J input clock = Inr (J', r) \<Longrightarrow> admission_step J J'"
| adm_offered: "offer_admission H J p e i owner now = Inr (J', res) \<Longrightarrow> admission_step J J'"
| adm_staged: "stage_admission H J p e i owner now = Inr (J', opt) \<Longrightarrow> admission_step J J'"
| adm_committed:
    "commitPurchaseAdmissionIntent intact J i owner c0 c1 now = Inr (J', r) \<Longrightarrow> admission_step J J'"
| adm_cancelled:
    "cancelPurchaseAdmission True removable J i outcome now = Inr (J', removed) \<Longrightarrow> admission_step J J'"
| adm_admitted:
    "admitEvidenceInternal True pid J purchaseId digest byteLength nonce now = Inr (J', lease) \<Longrightarrow>
     0 \<le> byteLength \<Longrightarrow> admission_step J J'"
| adm_attached:
    "attach_evidence H J purchaseId input (Some i) c0 c1 c2 = Inr (J', att) \<Longrightarrow>
     own_lease J i purchaseId (evidenceDigest H (ei_bytes input)) (int (length (ei_bytes input))) \<Longrightarrow>
     admission_step J J'"
| adm_evidence_cancelled:
    "cancelEvidenceAdmission True removable J lease outcome now = Inr (J', removed) \<Longrightarrow>
     admission_step J J'"
| adm_reconciled: "reconcileAdmissionLeases removable J now = Inr J' \<Longrightarrow> admission_step J J'"
| adm_other:
    "admission_leases J' = admission_leases J \<Longrightarrow> admission_intents J' = admission_intents J \<Longrightarrow>
     artifacts J' = artifacts J \<Longrightarrow> budget J' = budget J \<Longrightarrow> admission_step J J'"

inductive admitted_run :: "admission_limits \<Rightarrow> journal \<Rightarrow> bool" for limits where
  opened: "ensureAdmissionBudget empty_journal limits now = Inr J \<Longrightarrow> admitted_run limits J"
| stepped: "admitted_run limits J \<Longrightarrow> admission_step J J' \<Longrightarrow> admitted_run limits J'"

lemma admission_step_inv: "admission_step J J' \<Longrightarrow> admission_inv J \<Longrightarrow> admission_inv J'"
proof (induction rule: admission_step.induct)
  case adm_created
  then show ?case by (rule create_purchase_inv)
next
  case adm_offered
  then show ?case by (rule offer_inv)
next
  case adm_staged
  then show ?case by (rule stage_inv)
next
  case adm_committed
  then show ?case by (rule commit_inv)
next
  case adm_cancelled
  then show ?case by (rule cancel_purchase_inv)
next
  case adm_admitted
  then show ?case by (rule admit_evidence_inv(1))
next
  case adm_attached
  then show ?case by (rule attach_inv)
next
  case adm_evidence_cancelled
  then show ?case by (rule cancel_evidence_inv)
next
  case adm_reconciled
  then show ?case by (rule reconcile_inv)
next
  case adm_other
  then show ?case using admission_inv_cong by blast
qed

lemma opened_inv:
  assumes "ensureAdmissionBudget empty_journal limits now = Inr J"
  shows "admission_inv J"
proof -
  have "leases_well J" "intents_well J" "within_budget J"
    using assms
    by (auto simp: ensureAdmissionBudget_def empty_journal_def leases_well_def intents_well_def
        within_budget_iff)
  then show ?thesis by (simp add: admission_inv_def)
qed

lemma admitted_run_inv: "admitted_run limits J \<Longrightarrow> admission_inv J"
  by (induction rule: admitted_run.induct) (auto intro: opened_inv admission_step_inv)

text \<open>The operations made of several transactions are runs of these steps.\<close>

lemma store_evidence_run:
  assumes "storeEvidence H True pid stores removable J purchaseId input nonce c0 c1 c2 c3 c4 = (J', res)"
    and inv: "admission_inv J"
  shows "admission_step\<^sup>*\<^sup>* J J'"
proof -
  let ?d = "evidenceDigest H (ei_bytes input)" and ?n = "int (length (ei_bytes input))"
  consider (none) "J' = J"
    | (admitted) J1 lease where "admitEvidenceInternal True pid J purchaseId ?d ?n nonce c0 = Inr (J1, lease)"
      "J' = J1 \<or> (\<exists>o' removed. cancelEvidenceAdmission True removable J1 lease o' c4 = Inr (J', removed))
       \<or> (\<exists>att. attach_evidence H J1 purchaseId input lease c1 c2 c3 = Inr (J', att))"
    using assms(1)
    by (auto simp: storeEvidence_def Let_def split: sum.splits prod.splits if_splits)
  then show ?thesis
  proof cases
    case none
    then show ?thesis by simp
  next
    case (admitted J1 lease)
    have s: "admission_step J J1" by (rule adm_admitted [OF admitted(1)]) simp
    obtain i where i: "lease = Some i" "own_lease J1 i purchaseId ?d ?n"
      using admit_evidence_inv(2) [OF admitted(1) _ inv] by auto
    have "J' = J1 \<or> admission_step J1 J'"
      using admitted(2) i adm_attached adm_evidence_cancelled by blast
    with s show ?thesis by (auto intro: converse_rtranclp_into_rtranclp)
  qed
qed

lemma stage_and_commit_run:
  assumes "stage_and_commit H stores intact J p e i owner k = (J', res)"
  shows "admission_step\<^sup>*\<^sup>* J J'"
proof -
  consider "J' = J" | opt where "stage_admission H J p e i owner (tick_stage k) = Inr (J', opt)"
    | J1 opt r where "stage_admission H J p e i owner (tick_stage k) = Inr (J1, opt)"
      "commitPurchaseAdmissionIntent intact J1 i owner (tick_commit_before k) (tick_commit_inside k)
        (tick_commit k) = Inr (J', r)"
    using assms
    by (auto simp: stage_and_commit_def split: if_splits sum.splits prod.splits option.splits)
  then show ?thesis
    by cases (auto intro: adm_staged adm_committed converse_rtranclp_into_rtranclp)
qed

lemma create_with_evidence_run:
  assumes "createPurchaseWithEvidence H parse_url True pid stores intact removable se J p e i owner k
      = (J', res)"
    and se: "\<And>K purchaseId K' r. admission_inv K \<Longrightarrow> se K purchaseId = (K', r) \<Longrightarrow> admission_step\<^sup>*\<^sup>* K K'"
    and inv: "admission_inv J"
  shows "admission_step\<^sup>*\<^sup>* J J'"
proof -
  have attach: "admission_step\<^sup>*\<^sup>* K K'"
    if "attach_when_missing se K r d e = (K', x)" "admission_inv K" for K r d K' x
    using that se by (auto simp: attach_when_missing_def split: if_splits prod.splits sum.splits)
  let ?offer = "rbind (timestamp (tick_offer k)) (\<lambda>now. offer_admission H J p e i owner now)"
  consider (none) "J' = J"
    | (attached) K r d x where "admission_step\<^sup>*\<^sup>* J K" "admission_inv K" "attach_when_missing se K r d e = (J', x)"
    | (committed) K i' w x where "admission_step\<^sup>*\<^sup>* J K"
        "stage_and_commit H stores intact K p e i' w k = (J', x)"
    | (cancelled) K K' i' w x o' removed where "admission_step\<^sup>*\<^sup>* J K"
        "stage_and_commit H stores intact K p e i' w k = (K', x)"
        "cancelPurchaseAdmission True removable K' i o' (tick_cancel k) = Inr (J', removed)"
  proof (cases "rbind (validateCreatePurchase parse_url p) (\<lambda>_. validateEvidenceMetadata e)")
    case (Inl err)
    then show thesis using assms(1) none by (simp add: createPurchaseWithEvidence_def)
  next
    case valid: (Inr u)
    show thesis
    proof (cases "findPurchaseByRequestKey J (ci_request_key p)")
      case (Some x)
      then show thesis
        using assms(1) valid none attached [of J] inv
        by (auto simp: createPurchaseWithEvidence_def Let_def split: if_splits)
    next
      case new: None
      show thesis
      proof (cases ?offer)
        case (Inl err)
        then show thesis using assms(1) valid new none by (simp add: createPurchaseWithEvidence_def Let_def)
      next
        case (Inr y)
        obtain J1 off where y: "y = (J1, off)" by force
        have "offer_admission H J p e i owner (tick_offer k) = Inr (J1, off)" using Inr y by auto
        then have s: "admission_step J J1" by (rule adm_offered)
        then have s1: "admission_step\<^sup>*\<^sup>* J J1" and inv1: "admission_inv J1"
          using admission_step_inv inv by blast+
        show thesis
        proof (cases off)
          case (Offered_purchase r)
          then show thesis
            using assms(1) valid new Inr y attached [OF s1 inv1]
            by (simp add: createPurchaseWithEvidence_def Let_def)
        next
          case (Offered_admission i' w)
          then show thesis
            using assms(1) valid new Inr y committed [OF s1]
            by (simp add: createPurchaseWithEvidence_def Let_def)
        next
          case Offered_created
          obtain K' x where sc: "stage_and_commit H stores intact J1 p e i owner k = (K', x)" by force
          show thesis
            using assms(1) valid new Inr y Offered_created sc committed [OF s1]
              cancelled [OF s1 sc]
            by (auto simp: createPurchaseWithEvidence_def Let_def split: sum.splits prod.splits)
        qed
      qed
    qed
  qed
  then show ?thesis
  proof cases
    case (attached K r d x)
    then show ?thesis using attach by (meson rtranclp_trans)
  next
    case (committed K i' w x)
    then show ?thesis using stage_and_commit_run by (meson rtranclp_trans)
  next
    case (cancelled K K' i' w x o' removed)
    then show ?thesis
      using stage_and_commit_run adm_cancelled by (meson rtranclp.rtrancl_into_rtrancl rtranclp_trans)
  qed simp
qed

section \<open>One Purchase for a request key\<close>

lemma create_purchase_again:
  assumes "createPurchase True pid parse_url J input clock = Inr (J', r)"
  shows "createPurchase True pid' parse_url J' input clock' = Inr (J', r)"
    and "ci_request_key input' = ci_request_key input \<Longrightarrow> \<not> same_purchase_intent r input' \<Longrightarrow>
      validateCreatePurchase parse_url input' = Inr () \<Longrightarrow>
      createPurchase True pid' parse_url J' input' clock' = Inl JournalRequestConflictError"
proof -
  have v: "validateCreatePurchase parse_url input = Inr ()" using assms by (auto simp: createPurchase_def)
  have found: "findPurchaseByRequestKey J' (ci_request_key input) = Some r" "same_purchase_intent r input"
    using assms
    by (cases rule: createPurchase_cases;
        auto simp: findPurchaseByRequestKey_def find_row_append new_purchase_def same_purchase_intent_def)+
  show "createPurchase True pid' parse_url J' input clock' = Inr (J', r)"
    using v found by (simp add: createPurchase_def assertSamePurchaseIntent_def)
  show "createPurchase True pid' parse_url J' input' clock' = Inl JournalRequestConflictError"
    if "ci_request_key input' = ci_request_key input" "\<not> same_purchase_intent r input'"
      "validateCreatePurchase parse_url input' = Inr ()"
    using that found by (simp add: createPurchase_def assertSamePurchaseIntent_def)
qed

end
