(* ===== verification/Admission_Limits.thy ===== *)
theory Admission_Limits
  imports Admission_Invariants
begin

text \<open>
  The limits of the admission budget are fixed when the journal is opened: no transaction of
  admission changes them, so the counters stay within the limits the operator configured.
\<close>

definition budget_limits :: "journal \<Rightarrow> admission_limits option" where
  "budget_limits J = map_option (\<lambda>b. \<lparr>lim_purchases = ab_purchase_limit b,
     lim_bytes = ab_evidence_limit b, lim_retries = ab_retry_limit b\<rparr>) (budget J)"

named_theorems keeps_limits \<open>steps that leave the limits of the budget as they are\<close>

lemma charge_keeps_limits:
  assumes "charge_budget f now J = Inr J'"
    and "\<And>b. ab_purchase_limit (f b) = ab_purchase_limit b \<and> ab_evidence_limit (f b) = ab_evidence_limit b
              \<and> ab_retry_limit (f b) = ab_retry_limit b"
  shows "budget_limits J' = budget_limits J"
  using assms by (auto simp: charge_budget_def budget_limits_def split: option.splits if_splits)

lemma charges_keep_limits [keeps_limits]:
  "charge_budget (add_purchases n) now J = Inr J' \<Longrightarrow> budget_limits J' = budget_limits J"
  "charge_budget (add_bytes r c) now J = Inr J' \<Longrightarrow> budget_limits J' = budget_limits J"
  "charge_budget (add_bytes r c \<circ> add_purchases n) now J = Inr J' \<Longrightarrow> budget_limits J' = budget_limits J"
  "charge_budget (recount K) now J = Inr J' \<Longrightarrow> budget_limits J' = budget_limits J"
  by (erule charge_keeps_limits, simp add: add_purchases_def add_bytes_def recount_def)+

lemma updates_keep_limits [simp]:
  "budget_limits (update_leases p f J) = budget_limits J"
  "budget_limits (update_intents q g J) = budget_limits J"
  "budget_limits (activate_lease i now J) = budget_limits J"
  "budget_limits (insert_link l J) = budget_limits J"
  "budget_limits (insertPurchaseTransition i s s' w d now J) = budget_limits J"
  by (simp_all add: budget_limits_def update_leases_def update_intents_def activate_lease_def
      insert_link_def insertPurchaseTransition_def)

lemma tables_keep_limits [simp]:
  "budget_limits (J\<lparr>purchases := ps\<rparr>) = budget_limits J"
  "budget_limits (J\<lparr>admission_intents := ms\<rparr>) = budget_limits J"
  by (simp_all add: budget_limits_def)

lemma inserts_keep_limits [keeps_limits]:
  "insert_lease l J = Inr J' \<Longrightarrow> budget_limits J' = budget_limits J"
  "find_or_insert_artifact J d n s c = Inr (J', existed) \<Longrightarrow> budget_limits J' = budget_limits J"
  "completePurchaseAdmissionInternal J lease now = Inr J' \<Longrightarrow> budget_limits J' = budget_limits J"
  "completeEvidenceAdmissionInternal J lease u now = Inr J' \<Longrightarrow> budget_limits J' = budget_limits J"
  by (auto simp: insert_lease_def budget_limits_def find_or_insert_artifact_def Let_def
      completePurchaseAdmissionInternal_def update_leases_def split: option.splits if_splits)
   (auto simp: completeEvidenceAdmissionInternal_def Let_def split: option.splits if_splits
     dest!: charges_keep_limits(2), simp_all add: budget_limits_def update_leases_def)


lemma reconciled_keep_limits:
  "reconcile_lease removable now l J = Inr J' \<Longrightarrow> budget_limits J' = budget_limits J"
  "reconcile_leases removable now ls J = Inr J' \<Longrightarrow> budget_limits J' = budget_limits J"
proof -
  show one: "reconcile_lease removable now l J = Inr J' \<Longrightarrow> budget_limits J' = budget_limits J"
    for l J J'
    by (cases "al_resource l") (auto simp: reconcile_lease_def Let_def split: if_splits)
  show "reconcile_leases removable now ls J = Inr J' \<Longrightarrow> budget_limits J' = budget_limits J"
    by (induction ls arbitrary: J) (auto dest: one)
qed

lemma admitted_keeps_limits [keeps_limits]:
  "admitPurchaseInternal True pid J input now = Inr (J', lease) \<Longrightarrow> budget_limits J' = budget_limits J"
  by (auto simp: admitPurchaseInternal_def Let_def split: option.splits if_splits dest!: keeps_limits)

lemma created_keeps_limits:
  "createPurchase True pid parse_url J input clock = Inr (J', r) \<Longrightarrow> budget_limits J' = budget_limits J"
  unfolding createPurchase_def
  by (cases "findPurchaseByRequestKey J (ci_request_key input)")
    (auto simp del: requirePurchase_eq split: if_splits dest!: keeps_limits)

lemma publishing_keeps_limits [keeps_limits]:
  "publish_purchase J m now = Inr J' \<Longrightarrow> budget_limits J' = budget_limits J"
  "retain_count J m now = Inr J' \<Longrightarrow> budget_limits J' = budget_limits J"
  "settle_evidence_lease J m existed now = Inr J' \<Longrightarrow> budget_limits J' = budget_limits J"
  by (auto simp: publish_purchase_def split: option.splits if_splits)
    (auto simp: retain_count_def settle_evidence_lease_def Let_def
      split: option.splits if_splits dest!: keeps_limits)

lemma committed_keeps_limits:
  assumes "commitPurchaseAdmissionIntent intact J i owner c0 c1 now = Inr (J', r)"
  shows "budget_limits J' = budget_limits J"
proof (cases "find_intent J i")
  case None
  then show ?thesis using assms by (simp add: commitPurchaseAdmissionIntent_def Let_def)
next
  case (Some m)
  then show ?thesis using assms
    unfolding commitPurchaseAdmissionIntent_def Let_def
    by (auto simp del: requirePurchase_eq split: if_splits dest!: keeps_limits)
qed

text \<open>The release of bytes at the end of a lease.\<close>

lemma release_keeps_limits [keeps_limits]:
  "(if 0 < n then charge_budget (add_bytes (- n) 0) now J else Inr J) = Inr J' \<Longrightarrow>
   budget_limits J' = budget_limits J"
  by (auto split: if_splits dest: keeps_limits)

lemma cancelled_keeps_limits:
  assumes "cancelPurchaseAdmission True removable J i outcome now = Inr (J', removed)"
  shows "budget_limits J' = budget_limits J"
proof (cases "find_intent J i")
  case None
  then show ?thesis using assms by (simp add: cancelPurchaseAdmission_def)
next
  case (Some m)
  show ?thesis
  proof (cases "am_state m = Adm_committed \<or> am_state m = Adm_cancelled")
    case True
    then show ?thesis using assms Some by (simp add: cancelPurchaseAdmission_def)
  next
    case False
    let ?J1 = "update_intents (intent_here i) (end_intent Adm_cancelled outcome now) J"
    let ?ended = "\<lambda>K. update_leases (lease_in (''evidence:'' @ i) AL_active)
      (end_lease AL_cancelled outcome now) K"
    obtain J2 where 2: "charge_budget (add_purchases (- 1)) now ?J1 = Inr J2"
      and 4: "(case findLease J (''evidence:'' @ i) of
          None \<Rightarrow> Inr J2
        | Some l \<Rightarrow>
            if al_state l \<noteq> AL_active then Inr J2
            else if 0 < al_quantity l
              then charge_budget (add_bytes (- al_quantity l) 0) now (?ended J2)
              else Inr (?ended J2)) = Inr J'"
      using assms Some False unfolding cancelPurchaseAdmission_def Let_def by simp blast
    have "budget_limits J' = budget_limits J2"
      using 4 by (auto split: option.splits if_splits dest: keeps_limits)
    also have "\<dots> = budget_limits J" using charges_keep_limits(1) [OF 2] by simp
    finally show ?thesis .
  qed
qed

lemma evidence_cancelled_keeps_limits:
  assumes "cancelEvidenceAdmission True removable J lease outcome now = Inr (J', removed)"
  shows "budget_limits J' = budget_limits J"
proof (cases "Option.bind lease (findLease J)")
  case None
  then show ?thesis using assms
    by (cases lease) (simp_all add: cancelEvidenceAdmission_def)
next
  case (Some l)
  then obtain i where "lease = Some i" "findLease J i = Some l" by (cases lease) auto
  then show ?thesis using assms
    by (auto simp: cancelEvidenceAdmission_def Let_def split: if_split_asm dest!: keeps_limits)
qed

lemma admission_step_limits: "admission_step J J' \<Longrightarrow> budget_limits J' = budget_limits J"
proof (induction rule: admission_step.induct)
  case adm_created
  then show ?case by (rule created_keeps_limits)
next
  case adm_offered
  then show ?case
    by (auto simp: offer_admission_def Let_def split: option.splits if_splits dest!: keeps_limits)
next
  case adm_staged
  then show ?case by (auto simp: stage_admission_def Let_def split: option.splits if_splits)
next
  case adm_committed
  then show ?case by (rule committed_keeps_limits)
next
  case adm_cancelled
  then show ?case by (rule cancelled_keeps_limits)
next
  case adm_admitted
  then show ?case
    by (auto simp: admitEvidenceInternal_def Let_def split: option.splits if_splits dest!: keeps_limits)
next
  case adm_attached
  then show ?case
    by (auto simp: attach_evidence_def Let_def split: option.splits if_splits dest!: keeps_limits)
next
  case adm_evidence_cancelled
  then show ?case by (rule evidence_cancelled_keeps_limits)
next
  case adm_reconciled
  then show ?case
    by (auto simp: reconcileAdmissionLeases_def dest!: keeps_limits reconciled_keep_limits)
next
  case adm_other
  then show ?case by (simp add: budget_limits_def)
qed

lemma admitted_run_limits: "admitted_run limits J \<Longrightarrow> budget_limits J = Some limits"
proof (induction rule: admitted_run.induct)
  case (opened now J)
  then show ?case
    by (auto simp: ensureAdmissionBudget_def empty_journal_def budget_limits_def split: if_splits)
qed (simp add: admission_step_limits)

lemma admitted_run_bounds:
  assumes "admitted_run limits J"
  shows "counted_purchases J \<le> lim_purchases limits"
    and "reserved_bytes J + committed_bytes J \<le> lim_bytes limits"
  using admitted_run_inv [OF assms] admitted_run_limits [OF assms]
  by (auto simp: admission_inv_def within_budget_def budget_limits_def split: option.splits)

end
