(* ===== verification/Contract_Examples.thy ===== *)
theory Contract_Examples
  imports Contracts Admission_Invariants
begin

text \<open>
  Small concrete values of the contracts, with which their properties are exercised: a hash that
  tells lengths modulo 64 apart, a URL parser that accepts what it is given, a Merchant's terms, a plan of each
  mechanism, a request and its decision.
\<close>

definition raw_hash :: "string \<Rightarrow> string" where
  "raw_hash s = replicate 41 (CHR ''A'')
     @ [''ABCDEFGHIJKLMNOPQRSTUVWXYZabcdefghijklmnopqrstuvwxyz0123456789-_'' ! (length s mod 64)] @ ''E''"

definition toy_digest :: string where
  "toy_digest = evidenceDigest raw_hash ''''"

definition toy_url :: url_parser where
  "toy_url s = Some \<lparr>url_protocol = ''https:'', url_username = [], url_password = [], url_href = s,
     url_origin = s\<rparr>"

definition toy_date :: date_parser where
  "toy_date s = Some 90000"

section \<open>Plans\<close>

definition toy_plan :: execution_plan where
  "toy_plan = \<lparr>pl_mechanism = Single_transaction, pl_profile = ''urn:x402:exact'',
     pl_requirements_digest = toy_digest, pl_maximum_charge = ''500000'',
     pl_assurance = Assure_accepted, pl_channel = None, pl_claim_fee_reserve = None\<rparr>"

definition toy_channel :: channel_epoch where
  "toy_channel = \<lparr>ce_channel_id = replicate 64 (CHR ''a''), ce_txid = replicate 64 (CHR ''b''),
     ce_index = 0, ce_script = ''000020'', ce_funding = ''900000'', ce_refund_timeout = ''1000''\<rparr>"

definition voucher_plan :: execution_plan where
  "voucher_plan = toy_plan\<lparr>pl_mechanism := Channel_voucher, pl_assurance := Assure_channel_commitment,
     pl_channel := Some toy_channel, pl_claim_fee_reserve := Some ''1000''\<rparr>"

lemma toy_plan_canonical: "\<exists>c. canonicalPurchaseExecutionPlan raw_hash toy_plan = Inr c"
proof -
  have "case canonicalPurchaseExecutionPlan raw_hash toy_plan of Inl _ \<Rightarrow> False | Inr _ \<Rightarrow> True"
    by code_simp
  then show ?thesis by (auto split: sum.splits)
qed

lemma voucher_plan_canonical: "\<exists>c. canonicalPurchaseExecutionPlan raw_hash voucher_plan = Inr c"
proof -
  have "case canonicalPurchaseExecutionPlan raw_hash voucher_plan of Inl _ \<Rightarrow> False | Inr _ \<Rightarrow> True"
    by code_simp
  then show ?thesis by (auto split: sum.splits)
qed

section \<open>Terms, request and decision\<close>

definition toy_terms :: terms where
  "toy_terms = \<lparr>ts_merchant = \<lparr>mi_id = ''shop'', mi_name = ''Shop'', mi_origin = ''https://shop.example''\<rparr>,
     ts_resource_fingerprint = toy_digest, ts_amount = ''500000'', ts_asset = ''KAS'',
     ts_network = ''kaspa:testnet-10'', ts_pay_to = ''kaspatest:qqqq'',
     ts_expires_at = ''2026-01-01T00:00:00Z'', ts_checkout_digest = toy_digest\<rparr>"

definition toy_purchase_id :: string where
  "toy_purchase_id = ''pur_'' @ replicate 21 (CHR ''A'') @ ''Q''"

definition toy_request :: authorization_request where
  "toy_request = \<lparr>xf_plan_digest = toy_digest, xf_mechanism = Single_transaction,
     xf_profile = ''urn:x402:exact'', xf_assurance = Assure_accepted, xf_maximum_charge = ''500000'',
     xf_channel_id = None, xf_channel_epoch = None, rq_purchase_id = toy_purchase_id,
     rq_url = ''https://shop.example/item'', rq_method = ''GET'', rq_media_type = [],
     rq_body_digest = toy_digest, rq_terms = toy_terms, rq_request_digest = toy_digest,
     rq_nonce_digest = toy_digest, rq_cost_ceiling = ''2000'', rq_operator_floor = Floor_accepted,
     rq_effective_floor = Floor_accepted, rq_depth_daa = ''10'', rq_created_at = 1000,
     rq_expires_at = 60000\<rparr>"

definition toy_facts :: authorization_facts where
  "toy_facts = projr (authorizationFacts toy_url toy_date toy_request)"

lemma toy_facts_of_request: "authorizationFacts toy_url toy_date toy_request = Inr toy_facts"
proof -
  have "case authorizationFacts toy_url toy_date toy_request of Inl _ \<Rightarrow> False | Inr _ \<Rightarrow> True"
    by code_simp
  then show ?thesis by (auto simp: toy_facts_def split: sum.splits)
qed

definition toy_decision :: authorization_decision where
  "toy_decision = \<lparr>dd_purchase_id = toy_purchase_id, dd_checkout_digest = toy_digest,
     dd_decision = Dec_approved, dd_authority_id = ''owner'', dd_evidence_digest = toy_digest,
     dd_facts = toy_facts\<rparr>"

definition toy_execution :: execution_request where
  "toy_execution = \<lparr>xq_purchase_id = toy_purchase_id, xq_terms = toy_terms, xq_request = toy_request,
     xq_authorization = toy_decision, xq_payment_identifier = ''pay-1''\<rparr>"

definition toy_payment :: prepared_payment where
  "toy_payment = \<lparr>py_purchase_id = toy_purchase_id, py_checkout_digest = toy_digest,
     py_resource_fingerprint = toy_digest, py_amount = ''500000'', py_asset = ''KAS'',
     py_network = ''kaspa:testnet-10'', py_pay_to = ''kaspatest:qqqq'', py_payment_identifier = ''pay-1'',
     py_execution_id = ''exec-1'', py_prepared_digest = toy_digest, py_funding_source = ''vault-treasury''\<rparr>"

lemma toy_decision_valid:
  "\<exists>c. validateAuthorizationDecision toy_url toy_date toy_request toy_decision = Inr c"
proof -
  have "case validateAuthorizationDecision toy_url toy_date toy_request toy_decision of
      Inl _ \<Rightarrow> False | Inr _ \<Rightarrow> True" by code_simp
  then show ?thesis by (auto split: sum.splits)
qed

lemma toy_payment_valid:
  "\<exists>y. validatePreparedPayment toy_url toy_date toy_execution toy_payment 5000 = Inr y"
proof -
  have "case validatePreparedPayment toy_url toy_date toy_execution toy_payment 5000 of
      Inl _ \<Rightarrow> False | Inr _ \<Rightarrow> True" by code_simp
  then show ?thesis by (auto split: sum.splits)
qed

section \<open>Admission\<close>

definition toy_limits :: admission_limits where
  "toy_limits = \<lparr>lim_purchases = 2, lim_bytes = 100, lim_retries = 3\<rparr>"


definition toy_opened :: journal where
  "toy_opened = projr (ensureAdmissionBudget empty_journal toy_limits 1000)"

definition toy_input :: purchase_input where
  "toy_input = \<lparr>ci_id = toy_purchase_id, ci_request_key = ''order-0001'',
     ci_resource_url = ''https://shop.example/item'', ci_method = ''GET'',
     ci_resource_fingerprint = toy_digest, ci_expected_merchant_id = None,
     ci_expected_merchant_origin = None\<rparr>"

definition toy_purchased :: journal where
  "toy_purchased = fst (projr (createPurchase True ''1'' toy_url toy_opened toy_input 2000))"

definition toy_row :: purchase_row where
  "toy_row = snd (projr (createPurchase True ''1'' toy_url toy_opened toy_input 2000))"

lemma toy_purchase_created:
  "createPurchase True ''1'' toy_url toy_opened toy_input 2000 = Inr (toy_purchased, toy_row)"
proof -
  have "case createPurchase True ''1'' toy_url toy_opened toy_input 2000 of
      Inl _ \<Rightarrow> False | Inr _ \<Rightarrow> True" by code_simp
  then show ?thesis by (auto simp: toy_purchased_def toy_row_def split: sum.splits)
qed

lemma toy_purchased_run: "admitted_run toy_limits toy_purchased"
proof -
  have "case ensureAdmissionBudget empty_journal toy_limits 1000 of Inl _ \<Rightarrow> False | Inr _ \<Rightarrow> True"
    by code_simp
  then have "ensureAdmissionBudget empty_journal toy_limits 1000 = Inr toy_opened"
    by (auto simp: toy_opened_def split: sum.splits)
  then have "admitted_run toy_limits toy_opened" by (rule opened)
  then show ?thesis by (rule stepped [OF _ adm_created [OF toy_purchase_created]])
qed

end
