(* ===== verification/Authority_Trail.thy ===== *)
theory Authority_Trail
  imports Purchases
begin

text \<open>
  The paper trail around a payment: before it the Checkout Terms with the execution plan, the
  request to the authority, its decision and the prepared payment, after it the Fulfilment and the
  Receipt. The tables
  are append-only, one row of each per Purchase; \<open>trail_delta\<close> says what a new row must agree
  with, and \<open>trail_inv\<close> what therefore holds between the tables, the Purchases, the reservations
  and the settlements.
\<close>

definition trail :: "journal \<Rightarrow> checkout_terms_row list \<times> execution_plan_row list
    \<times> authorization_request_row list \<times> authorization_row list \<times> fulfilment_row list
    \<times> receipt_row list \<times> preparation_row list" where
  "trail J = (checkout_terms J, execution_plans J, authorization_requests J, authorizations J,
              fulfilments J, receipts J, preparations J)"

definition findExecutionPlanRow :: "journal \<Rightarrow> string \<Rightarrow> execution_plan_row option" where
  "findExecutionPlanRow J i = find_row (\<lambda>r. xp_purchase_id r = i) (execution_plans J)"

definition purchase_at :: "journal \<Rightarrow> string \<Rightarrow> purchase_row option" where
  "purchase_at J i = find_row (\<lambda>r. pu_id r = i) (purchases J)"

definition receipt_at :: "journal \<Rightarrow> string \<Rightarrow> receipt_row option" where
  "receipt_at J i = find_row (\<lambda>r. rc_purchase_id r = i) (receipts J)"

lemmas trail_lookups = findCheckoutTerms_def findExecutionPlanRow_def findAuthorizationRequest_def
  findAuthorization_def findFulfilment_def receipt_at_def

section \<open>What a row agrees with\<close>

definition terms_bound :: "journal \<Rightarrow> checkout_terms_row \<Rightarrow> bool" where
  "terms_bound J t \<longleftrightarrow>
     (\<exists>pu. purchase_at J (ct_purchase_id t) = Some pu
        \<and> ct_resource_fingerprint t = pu_resource_fingerprint pu)
     \<and> (\<exists>x. findExecutionPlanRow J (ct_purchase_id t) = Some x \<and> xp_maximum_charge x = ct_amount t
        \<and> xp_requirements_digest x = ct_requirements_digest t)
     \<and> ct_checkout_digest t = ct_checkout_evidence_digest t"

definition request_bound :: "journal \<Rightarrow> authorization_request_row \<Rightarrow> bool" where
  "request_bound J q \<longleftrightarrow>
     (\<exists>t x. findCheckoutTerms J (ar_purchase_id q) = Some t
        \<and> findExecutionPlanRow J (ar_purchase_id q) = Some x
        \<and> ar_checkout_digest q = ct_checkout_digest t \<and> ar_expires_at q \<le> ct_expires_at t
        \<and> ar_plan_digest q = xp_plan_digest x \<and> ar_maximum_charge q = xp_maximum_charge x)"

definition decision_bound :: "journal \<Rightarrow> authorization_row \<Rightarrow> bool" where
  "decision_bound J a \<longleftrightarrow>
     (\<exists>q. findAuthorizationRequest J (au_purchase_id a) = Some q
        \<and> au_checkout_digest a = ar_checkout_digest q \<and> au_request_digest a = ar_request_digest q
        \<and> au_nonce_digest a = ar_nonce_digest q \<and> au_expires_at a = ar_expires_at q)"

definition approved :: "journal \<Rightarrow> string \<Rightarrow> bool" where
  "approved J i \<longleftrightarrow> (\<exists>a. findAuthorization J i = Some a \<and> au_decision a = Dec_approved)"

definition reservation_bound :: "journal \<Rightarrow> reservation_row \<Rightarrow> bool" where
  "reservation_bound J r \<longleftrightarrow>
     (\<exists>t q. findCheckoutTerms J (rs_purchase_id r) = Some t
        \<and> findAuthorizationRequest J (rs_purchase_id r) = Some q \<and> approved J (rs_purchase_id r)
        \<and> rs_amount r = ct_amount t \<and> rs_payee r = ct_pay_to t
        \<and> BigInt (rs_additional_cost_ceiling r) \<le> BigInt (ar_additional_cost_ceiling q)
        \<and> rs_expires_at r \<le> ct_expires_at t)"

definition preparation_bound :: "journal \<Rightarrow> preparation_row \<Rightarrow> bool" where
  "preparation_bound J y \<longleftrightarrow>
     (\<exists>r \<in> set (reservations J). rs_id r = pp_reservation_id y
        \<and> rs_purchase_id r = pp_purchase_id y \<and> rs_amount r = pp_amount y
        \<and> rs_payee r = pp_payee y)"

definition fulfilment_bound :: "journal \<Rightarrow> fulfilment_row \<Rightarrow> bool" where
  "fulfilment_bound J f \<longleftrightarrow>
     (\<exists>t. findCheckoutTerms J (ff_purchase_id f) = Some t
        \<and> ff_resource_fingerprint f = ct_resource_fingerprint t)"

definition receipt_bound :: "journal \<Rightarrow> receipt_row \<Rightarrow> bool" where
  "receipt_bound J r \<longleftrightarrow>
     (\<exists>t a f. findCheckoutTerms J (rc_purchase_id r) = Some t
        \<and> findAuthorization J (rc_purchase_id r) = Some a
        \<and> findFulfilment J (rc_purchase_id r) = Some f
        \<and> rc_checkout_digest r = ct_checkout_digest t
        \<and> rc_authorization_digest r = au_evidence_digest a
        \<and> rc_fulfilment_digest r = ff_body_digest f)
     \<and> (\<exists>s \<in> set (settlements J). st_purchase_id s = rc_purchase_id r
        \<and> rc_settlement_digest r = st_evidence_digest s)"

text \<open>The states of a Purchase that only an approval leads to.\<close>

definition engaged :: "purchase_state \<Rightarrow> bool" where
  "engaged s \<longleftrightarrow> s \<in> {Pur_authorised, Pur_execution_prepared, Pur_submitted, Pur_settled,
     Pur_fulfilled, Pur_receipted, Pur_failed_recoverable, Pur_failed_terminal}"

text \<open>What the state of a Purchase presupposes.\<close>

definition purchase_backed :: "journal \<Rightarrow> purchase_row \<Rightarrow> bool" where
  "purchase_backed J pu \<longleftrightarrow>
     (engaged (pu_state pu) \<longrightarrow> approved J (pu_id pu))
     \<and> (pu_state pu = Pur_receipted \<longrightarrow> receipt_at J (pu_id pu) \<noteq> None)"

section \<open>The step of the trail\<close>

inductive trail_delta :: "journal \<Rightarrow> journal \<Rightarrow> bool" where
  trail_kept: "trail J' = trail J \<Longrightarrow> trail_delta J J'"
| terms_recorded:
    "findCheckoutTerms J (ct_purchase_id t) = None \<Longrightarrow>
     purchase_at J (ct_purchase_id t) = Some pu \<Longrightarrow>
     ct_resource_fingerprint t = pu_resource_fingerprint pu \<Longrightarrow>
     ct_checkout_digest t = ct_checkout_evidence_digest t \<Longrightarrow>
     findExecutionPlanRow J (ct_purchase_id t) = None \<Longrightarrow>
     xp_purchase_id x = ct_purchase_id t \<Longrightarrow> xp_maximum_charge x = ct_amount t \<Longrightarrow>
     xp_requirements_digest x = ct_requirements_digest t \<Longrightarrow>
     trail J' = (checkout_terms J @ [t], execution_plans J @ [x], authorization_requests J,
                 authorizations J, fulfilments J, receipts J, preparations J) \<Longrightarrow> trail_delta J J'"
| request_recorded:
    "findAuthorizationRequest J (ar_purchase_id q) = None \<Longrightarrow> request_bound J q \<Longrightarrow>
     ar_request_digest q \<notin> ar_request_digest ` set (authorization_requests J) \<Longrightarrow>
     ar_nonce_digest q \<notin> ar_nonce_digest ` set (authorization_requests J) \<Longrightarrow>
     trail J' = (checkout_terms J, execution_plans J, authorization_requests J @ [q],
                 authorizations J, fulfilments J, receipts J, preparations J) \<Longrightarrow> trail_delta J J'"
| decision_recorded:
    "findAuthorization J (au_purchase_id a) = None \<Longrightarrow> decision_bound J a \<Longrightarrow>
     trail J' = (checkout_terms J, execution_plans J, authorization_requests J,
                 authorizations J @ [a], fulfilments J, receipts J, preparations J) \<Longrightarrow> trail_delta J J'"
| fulfilment_recorded:
    "findFulfilment J (ff_purchase_id f) = None \<Longrightarrow> fulfilment_bound J f \<Longrightarrow>
     trail J' = (checkout_terms J, execution_plans J, authorization_requests J,
                 authorizations J, fulfilments J @ [f], receipts J, preparations J) \<Longrightarrow> trail_delta J J'"
| preparation_recorded:
    "preparation_bound J y \<Longrightarrow>
     trail J' = (checkout_terms J, execution_plans J, authorization_requests J,
                 authorizations J, fulfilments J, receipts J, preparations J @ [y]) \<Longrightarrow>
     trail_delta J J'"
| receipt_recorded:
    "receipt_at J (rc_purchase_id r) = None \<Longrightarrow> receipt_bound J r \<Longrightarrow>
     trail J' = (checkout_terms J, execution_plans J, authorization_requests J,
                 authorizations J, fulfilments J, receipts J @ [r], preparations J) \<Longrightarrow> trail_delta J J'"

section \<open>The invariant\<close>

definition trail_keys :: "journal \<Rightarrow> bool" where
  "trail_keys J \<longleftrightarrow>
     distinct (map ct_purchase_id (checkout_terms J))
     \<and> distinct (map ar_purchase_id (authorization_requests J))
     \<and> distinct (map ar_request_digest (authorization_requests J))
     \<and> distinct (map ar_nonce_digest (authorization_requests J))
     \<and> distinct (map au_purchase_id (authorizations J))
     \<and> distinct (map ff_purchase_id (fulfilments J)) \<and> distinct (map rc_purchase_id (receipts J))"

definition trail_inv :: "journal \<Rightarrow> bool" where
  "trail_inv J \<longleftrightarrow>
     trail_keys J
     \<and> (\<forall>t \<in> set (checkout_terms J). terms_bound J t)
     \<and> (\<forall>x \<in> set (execution_plans J). findCheckoutTerms J (xp_purchase_id x) \<noteq> None)
     \<and> (\<forall>q \<in> set (authorization_requests J). request_bound J q)
     \<and> (\<forall>a \<in> set (authorizations J). decision_bound J a)
     \<and> (\<forall>f \<in> set (fulfilments J). fulfilment_bound J f)
     \<and> (\<forall>r \<in> set (receipts J). receipt_bound J r)
     \<and> (\<forall>y \<in> set (preparations J). preparation_bound J y)
     \<and> (\<forall>r \<in> set (reservations J). reservation_bound J r)
     \<and> (\<forall>pu \<in> set (purchases J). purchase_backed J pu)"

text \<open>Nothing found is lost.\<close>

definition trail_grows :: "journal \<Rightarrow> journal \<Rightarrow> bool" where
  "trail_grows J J' \<longleftrightarrow>
     (\<forall>i r. findCheckoutTerms J i = Some r \<longrightarrow> findCheckoutTerms J' i = Some r)
     \<and> (\<forall>i r. findExecutionPlanRow J i = Some r \<longrightarrow> findExecutionPlanRow J' i = Some r)
     \<and> (\<forall>i r. findAuthorizationRequest J i = Some r \<longrightarrow> findAuthorizationRequest J' i = Some r)
     \<and> (\<forall>i r. findAuthorization J i = Some r \<longrightarrow> findAuthorization J' i = Some r)
     \<and> (\<forall>i r. findFulfilment J i = Some r \<longrightarrow> findFulfilment J' i = Some r)
     \<and> (\<forall>i r. receipt_at J i = Some r \<longrightarrow> receipt_at J' i = Some r)"

lemma trail_delta_grows: "trail_delta J J' \<Longrightarrow> trail_grows J J'"
  by (induction rule: trail_delta.induct)
    (auto simp: trail_grows_def trail_lookups trail_def find_row_append)

text \<open>Purchases keep what identifies them.\<close>

definition purchases_kept :: "journal \<Rightarrow> journal \<Rightarrow> bool" where
  "purchases_kept J J' \<longleftrightarrow>
     (\<forall>i r. purchase_at J i = Some r \<longrightarrow>
        (\<exists>r'. purchase_at J' i = Some r' \<and> pu_resource_fingerprint r' = pu_resource_fingerprint r))"

lemma purchases_kept_same: "purchases J' = purchases J \<Longrightarrow> purchases_kept J J'"
  by (simp add: purchases_kept_def purchase_at_def)

lemma bound_mono:
  assumes "trail_grows J J'"
  shows "request_bound J q \<Longrightarrow> request_bound J' q"
    and "decision_bound J a \<Longrightarrow> decision_bound J' a"
    and "approved J i \<Longrightarrow> approved J' i"
    and "reservation_bound J r \<Longrightarrow> reservation_bound J' r"
    and "purchases_kept J J' \<Longrightarrow> terms_bound J t \<Longrightarrow> terms_bound J' t"
    and "fulfilment_bound J f \<Longrightarrow> fulfilment_bound J' f"
    and "set (settlements J) \<subseteq> set (settlements J') \<Longrightarrow> receipt_bound J c \<Longrightarrow> receipt_bound J' c"
    and "purchase_backed J pu \<Longrightarrow> purchase_backed J' pu"
proof -
  show approved: "approved J i \<Longrightarrow> approved J' i" for i
    using assms by (auto simp: trail_grows_def approved_def)
  show "request_bound J q \<Longrightarrow> request_bound J' q" "decision_bound J a \<Longrightarrow> decision_bound J' a"
    using assms by (force simp: trail_grows_def request_bound_def decision_bound_def)+
  show "reservation_bound J r \<Longrightarrow> reservation_bound J' r"
    using assms approved by (force simp: trail_grows_def reservation_bound_def)
  show "purchases_kept J J' \<Longrightarrow> terms_bound J t \<Longrightarrow> terms_bound J' t"
    using assms unfolding trail_grows_def terms_bound_def purchases_kept_def by metis
  show "fulfilment_bound J f \<Longrightarrow> fulfilment_bound J' f"
    using assms by (force simp: trail_grows_def fulfilment_bound_def)
  show "set (settlements J) \<subseteq> set (settlements J') \<Longrightarrow> receipt_bound J c \<Longrightarrow> receipt_bound J' c"
    using assms unfolding trail_grows_def receipt_bound_def by (metis subsetD)
  show "purchase_backed J pu \<Longrightarrow> purchase_backed J' pu"
    using assms approved unfolding trail_grows_def purchase_backed_def by blast
qed

text \<open>The invariant after a step of the trail.\<close>

lemma trail_rows_inv:
  assumes "trail_delta J J'" and inv: "trail_inv J" and same: "purchases J' = purchases J"
    and "settlements J' = settlements J" and "reservations J' = reservations J"
  shows "trail_keys J'" and "\<forall>t \<in> set (checkout_terms J'). terms_bound J' t"
    and "\<forall>x \<in> set (execution_plans J'). findCheckoutTerms J' (xp_purchase_id x) \<noteq> None"
    and "\<forall>q \<in> set (authorization_requests J'). request_bound J' q"
    and "\<forall>a \<in> set (authorizations J'). decision_bound J' a"
    and "\<forall>f \<in> set (fulfilments J'). fulfilment_bound J' f"
    and "\<forall>r \<in> set (receipts J'). receipt_bound J' r"
    and "\<forall>y \<in> set (preparations J'). preparation_bound J' y"
proof -
  note grows = trail_delta_grows [OF assms(1)]
  note mono = bound_mono [OF grows]
  have kept: "purchases_kept J J'" by (rule purchases_kept_same [OF same])
  show "trail_keys J'"
    using assms(1) inv
    by (cases rule: trail_delta.cases)
      (auto simp: trail_inv_def trail_keys_def trail_def trail_lookups find_row_None_iff)
  show "\<forall>t \<in> set (checkout_terms J'). terms_bound J' t"
    using assms(1)
  proof cases
    case (terms_recorded t pu x)
    have "terms_bound J' t"
      using terms_recorded same
      by (auto simp: terms_bound_def purchase_at_def findExecutionPlanRow_def trail_def find_row_append)
    then show ?thesis
      using inv mono(5) [OF kept] terms_recorded(9) by (auto simp: trail_inv_def trail_def)
  qed (use inv mono(5) [OF kept] in \<open>auto simp: trail_inv_def trail_def\<close>)
  show "\<forall>x \<in> set (execution_plans J'). findCheckoutTerms J' (xp_purchase_id x) \<noteq> None"
    using assms(1) inv
    by (cases rule: trail_delta.cases)
      (auto simp: trail_inv_def trail_def findCheckoutTerms_def find_row_append)
  show "\<forall>q \<in> set (authorization_requests J'). request_bound J' q"
    using assms(1) inv mono(1)
    by (cases rule: trail_delta.cases) (auto simp: trail_inv_def trail_def)
  show "\<forall>a \<in> set (authorizations J'). decision_bound J' a"
    using assms(1) inv mono(2)
    by (cases rule: trail_delta.cases) (auto simp: trail_inv_def trail_def)
  show "\<forall>f \<in> set (fulfilments J'). fulfilment_bound J' f"
    using assms(1) inv mono(6)
    by (cases rule: trail_delta.cases) (auto simp: trail_inv_def trail_def)
  have "preparation_bound J' = preparation_bound J"
    using assms(5) by (simp add: preparation_bound_def fun_eq_iff)
  with assms(1) inv show "\<forall>y \<in> set (preparations J'). preparation_bound J' y"
    by (cases rule: trail_delta.cases) (auto simp: trail_inv_def trail_def)
  have "receipt_bound J c \<Longrightarrow> receipt_bound J' c" for c using mono(7) assms(4) by simp
  with assms(1) inv show "\<forall>r \<in> set (receipts J'). receipt_bound J' r"
    by (cases rule: trail_delta.cases) (auto simp: trail_inv_def trail_def)
qed

lemma trail_delta_inv:
  assumes "trail_delta J J'" and inv: "trail_inv J" and "purchases J' = purchases J"
    and "reservations J' = reservations J" and "settlements J' = settlements J"
  shows "trail_inv J'"
  using trail_rows_inv [OF assms(1-3,5,4)] inv assms(3,4)
    bound_mono(4,8) [OF trail_delta_grows [OF assms(1)]]
  unfolding trail_inv_def by auto

text \<open>Purchases and reservations move while the trail stays.\<close>

definition same_booking :: "reservation_row \<Rightarrow> reservation_row \<Rightarrow> bool" where
  "same_booking r r' \<longleftrightarrow>
     rs_id r' = rs_id r \<and> rs_purchase_id r' = rs_purchase_id r \<and> rs_amount r' = rs_amount r \<and> rs_payee r' = rs_payee r
     \<and> rs_additional_cost_ceiling r' = rs_additional_cost_ceiling r
     \<and> rs_expires_at r' = rs_expires_at r"

lemma same_booking_refl [simp]: "same_booking r r"
  by (simp add: same_booking_def)

lemma trail_inv_same:
  assumes "trail J' = trail J" and inv: "trail_inv J" and "purchases_kept J J'"
    and "set (settlements J) \<subseteq> set (settlements J')"
    and "\<forall>r \<in> set (reservations J'). reservation_bound J' r"
    and "\<forall>pu \<in> set (purchases J'). purchase_backed J' pu"
    and "\<And>r. r \<in> set (reservations J) \<Longrightarrow> \<exists>r' \<in> set (reservations J'). same_booking r r'"
  shows "trail_inv J'"
proof -
  have eq: "checkout_terms J' = checkout_terms J" "execution_plans J' = execution_plans J" "authorization_requests J' = authorization_requests J"
      "authorizations J' = authorizations J" "fulfilments J' = fulfilments J" "receipts J' = receipts J"
      "preparations J' = preparations J"
    using assms(1) by (simp_all add: trail_def)
  note mono = bound_mono [OF trail_delta_grows [OF trail_kept [OF assms(1)]]]
  have "preparation_bound J' y" if "preparation_bound J y" for y
    using that assms(7) unfolding preparation_bound_def same_booking_def by metis
  then show ?thesis
    using inv assms(5,6) mono(1,2,6) mono(5) [OF assms(3)] mono(7) [OF assms(4)]
    unfolding trail_inv_def trail_keys_def eq findCheckoutTerms_def by blast
qed

lemma trail_inv_frame:
  assumes "trail J' = trail J" and "purchases J' = purchases J" and inv: "trail_inv J"
    and "set (settlements J) \<subseteq> set (settlements J')"
    and "\<And>r'. r' \<in> set (reservations J') \<Longrightarrow>
      reservation_bound J r' \<or> (\<exists>r \<in> set (reservations J). same_booking r r')"
    and "\<And>r. r \<in> set (reservations J) \<Longrightarrow> \<exists>r' \<in> set (reservations J'). same_booking r r'"
  shows "trail_inv J'"
proof (rule trail_inv_same [OF assms(1) inv purchases_kept_same [OF assms(2)] assms(4)])
  note mono = bound_mono [OF trail_delta_grows [OF trail_kept [OF assms(1)]]]
  show "\<forall>r \<in> set (reservations J'). reservation_bound J' r"
  proof
    fix r' assume "r' \<in> set (reservations J')"
    from assms(5) [OF this] have "reservation_bound J r'"
      using inv by (auto simp: trail_inv_def same_booking_def reservation_bound_def)
    then show "reservation_bound J' r'" by (rule mono(4))
  qed
  show "\<forall>pu \<in> set (purchases J'). purchase_backed J' pu"
    using inv mono(8) unfolding assms(2) trail_inv_def by blast
qed (rule assms(6))

lemma trail_inv_rest:
  assumes "trail J' = trail J" and "purchases J' = purchases J"
    and "reservations J' = reservations J" and "settlements J' = settlements J" and "trail_inv J"
  shows "trail_inv J'"
  by (rule trail_inv_frame [OF assms(1,2,5)]) (use assms(3,4) in \<open>auto simp: same_booking_def\<close>)

lemma trail_inv_updated:
  assumes "trail J' = trail J" and "purchases J' = purchases J" and "trail_inv J"
    and "set (settlements J) \<subseteq> set (settlements J')"
    and "reservations J' = update_rows u f (reservations J)"
    and "\<And>r. r \<in> set (reservations J) \<Longrightarrow> u r \<Longrightarrow> same_booking r (f r)"
  shows "trail_inv J'"
  by (rule trail_inv_frame [OF assms(1-4)])
    (use assms(5,6) in \<open>auto simp: update_rows_def same_booking_def\<close>)

text \<open>A Purchase that moves.\<close>

lemma purchase_delta_kept:
  assumes "purchase_delta J J'" and "purchases_inv J"
  shows "purchases_kept J J'"
  using assms(1)
proof cases
  case purchases_unchanged
  then show ?thesis by (simp add: purchases_kept_same)
next
  case (purchase_created r e)
  then show ?thesis by (auto simp: purchases_kept_def purchase_at_def find_row_append)
next
  case (purchase_moved r to_state H fx now e)
  have keys: "distinct (map pu_id (purchases J))" using assms(2) by (simp add: purchases_inv_def)
  have "find_row (\<lambda>x. pu_id x = k) (purchases J')
      = (if k = pu_id r then Some (moved_purchase to_state now r)
         else find_row (\<lambda>x. pu_id x = k) (purchases J))" for k
    unfolding purchase_moved(5)
    by (rule find_row_update_keyed [OF keys purchase_moved(1)])
      (simp_all add: purchase_here_def moved_purchase_def)
  moreover have "find_row (\<lambda>x. pu_id x = pu_id r) (purchases J) = Some r"
    using find_row_key_unique [OF keys purchase_moved(1)] .
  ultimately show ?thesis by (simp add: purchases_kept_def purchase_at_def moved_purchase_def)
qed

lemma engaged_moves:
  "purchase_moves s s' \<Longrightarrow> engaged s' \<Longrightarrow> engaged s \<or> s' = Pur_authorised"
  by (cases s; cases s') (simp_all add: purchase_moves_def engaged_def)

lemma purchase_delta_backed:
  assumes "purchase_delta J J'" and "trail J' = trail J" and "trail_inv J"
  shows "\<forall>pu \<in> set (purchases J'). purchase_backed J' pu"
proof -
  have same: "purchase_backed J' = purchase_backed J"
    using assms(2) by (simp add: purchase_backed_def approved_def trail_lookups trail_def fun_eq_iff)
  have was: "purchase_backed J pu" if "pu \<in> set (purchases J)" for pu
    using that assms(3) by (simp add: trail_inv_def)
  from assms(1) show ?thesis
  proof cases
    case purchases_unchanged
    then show ?thesis using was by (simp add: same)
  next
    case (purchase_created r e)
    then show ?thesis using was by (auto simp: same purchase_backed_def engaged_def)
  next
    case (purchase_moved r to_state H fx now e)
    have facts: "fx_authorization fx = findAuthorization J (pu_id r)"
        "fx_receipts fx = filter (\<lambda>x. rc_purchase_id x = pu_id r) (receipts J)"
      using purchase_moved(3) by (auto simp: purchaseFacts_def receipts_of_def Let_def)
    have "approved J (pu_id r)" if "engaged to_state"
      using engaged_moves [OF purchase_moved(2) that] was [OF purchase_moved(1)] purchase_moved(4) facts(1)
      by (auto simp: approved_def decided_def state_facts_hold_def purchase_backed_def)
    moreover have "receipt_at J (pu_id r) \<noteq> None" if "to_state = Pur_receipted"
    proof -
      have "filter (\<lambda>x. rc_purchase_id x = pu_id r) (receipts J) \<noteq> []"
        using purchase_moved(4) that unfolding facts(2) [symmetric] by (auto simp: state_facts_hold_def)
      then show ?thesis by (auto simp: receipt_at_def find_row_None_iff filter_empty_conv)
    qed
    ultimately have moved: "purchase_backed J (moved_purchase to_state now x)" if "pu_id x = pu_id r" for x
      using that by (simp add: purchase_backed_def moved_purchase_def)
    show ?thesis
      unfolding same purchase_moved(5) ball_update_rows using was moved by (auto simp: purchase_here_def)
  qed
qed

lemma trail_inv_empty: "trail_inv empty_journal"
  by (simp add: trail_inv_def trail_keys_def empty_journal_def)

end
