(* ===== verification/Payments.thy ===== *)
theory Payments
  imports Purchases Finality
begin

text \<open>
  Paying (\<open>src/purchase/journal.ts\<close>): the claims that move capacity from \<open>active\<close> to
  \<open>in_flight\<close> together with the Effect (\<open>beginTreasuryStaging\<close>, \<open>beginPaymentSubmission\<close>), the
  verified Settlement that spends it (\<open>recordPurchaseSettlement\<close>) and the proof-backed release
  of capacity whose payment was never found (\<open>releaseInFlightReservation\<close>).
\<close>

section \<open>Claiming capacity and the Effect together\<close>

definition TREASURY_STAGING_EVIDENCE_KIND :: string where
  "TREASURY_STAGING_EVIDENCE_KIND = ''treasury-staging-output''"

definition in_flight_row :: "string \<Rightarrow> int \<Rightarrow> journal \<Rightarrow> journal" where
  "in_flight_row i now J =
     J\<lparr>reservations := update_rows (\<lambda>r. rs_id r = i \<and> rs_state r = Res_active)
         (\<lambda>r. r\<lparr>rs_state := Res_in_flight, rs_in_flight_at := Some now, rs_updated_at := now\<rparr>)
         (reservations J)\<rparr>"

definition take_in_flight :: "journal \<Rightarrow> reservation_row \<Rightarrow> string \<Rightarrow> int \<Rightarrow> journal result" where
  "take_in_flight J reservation i now =
     (if rs_state reservation = Res_active
      then (if changes (\<lambda>r. rs_id r = i \<and> rs_state r = Res_active) (reservations J) \<noteq> 1
            then Inl JournalInvariantError else Inr (in_flight_row i now J))
      else Inr J)"

text \<open>The verified staged output a payment may be built on.\<close>

definition stagedReservation ::
  "(string \<Rightarrow> int \<Rightarrow> bool) \<Rightarrow> journal \<Rightarrow> string \<Rightarrow> int \<Rightarrow> reservation_row \<Rightarrow> bool result" where
  "stagedReservation evidence_intact J purchaseId n reservation =
     (if rs_state reservation \<noteq> Res_in_flight then Inr False
      else case (findTreasuryStagingPlan J purchaseId n, findTreasuryStagingObservation J purchaseId n) of
             (Some plan, Some observation) \<Rightarrow>
               if sp_reservation_id plan \<noteq> rs_id reservation
                  \<or> so_effect_id observation \<noteq> sp_effect_id plan
               then Inr False
               else rbind (requireEffect J (sp_effect_id plan)) (\<lambda>e.
                 Inr (ef_state e = Eff_observed
                      \<and> isVerifiedEvidenceLinked evidence_intact J purchaseId
                          (so_evidence_digest observation) (Attempt n)
                          (Some TREASURY_STAGING_EVIDENCE_KIND)
                          (Some (so_evidence_profile observation))
                          (Some (so_evidence_verifier observation))))
           | _ \<Rightarrow> Inr False)"

definition directReservation :: "journal \<Rightarrow> string \<Rightarrow> int \<Rightarrow> reservation_row \<Rightarrow> bool" where
  "directReservation J purchaseId n reservation \<longleftrightarrow>
     rs_state reservation = Res_active \<and> findTreasuryStagingPlan J purchaseId n = None
     \<and> findTreasuryStagingObservation J purchaseId n = None"

definition submission_guard ::
  "(string \<Rightarrow> int \<Rightarrow> bool) \<Rightarrow> journal \<Rightarrow> effect_row \<Rightarrow> int \<Rightarrow> attempt_row \<Rightarrow> reservation_row \<Rightarrow> int
    \<Rightarrow> unit result" where
  "submission_guard evidence_intact J effect n attempt reservation now =
     (if ef_state effect = Eff_planned
      then
        let direct = directReservation J (ef_purchase_id effect) n reservation in
        rbind (stagedReservation evidence_intact J (ef_purchase_id effect) n reservation) (\<lambda>staged.
        if at_state attempt \<noteq> Att_prepared \<or> (\<not> direct \<and> \<not> staged)
        then Inl JournalInvariantError
        else if direct \<and> rs_expires_at reservation \<le> now then Inl PolicyReservationError
        else if direct
        then rbind (requireActivePolicy J) (\<lambda>policy.
               if rs_policy_digest reservation \<noteq> pol_digest policy
               then Inl PolicyReservationError else Inr ())
        else Inr ())
      else if ef_state effect = Eff_retryable
      then (if at_state attempt \<noteq> Att_submitted \<or> rs_state reservation \<noteq> Res_in_flight
            then Inl JournalInvariantError else Inr ())
      else Inr ())"

text \<open>
  The reservation is read before the expired ones are marked, as in the code; \<open>clock0\<close> is the
  reading of the guard, \<open>clock\<close> that of \<open>claimEffectInternal\<close>.
\<close>

definition beginPaymentSubmission ::
  "(string \<Rightarrow> int \<Rightarrow> bool) \<Rightarrow> (string \<Rightarrow> int \<Rightarrow> string option) \<Rightarrow> journal \<Rightarrow> string \<Rightarrow> string \<Rightarrow> string
    \<Rightarrow> int \<Rightarrow> int \<Rightarrow> int \<Rightarrow> (journal \<times> (effect_row \<times> lease_token) option) result" where
  "beginPaymentSubmission evidence_intact verified J effectId reservationId holder ttlMs clock0 clock =
     rbind (requireEffect J effectId) (\<lambda>effect.
     case ef_attempt effect of
       None \<Rightarrow> Inl JournalInvariantError
     | Some n \<Rightarrow>
     if ef_kind effect = TREASURY_STAGING_EFFECT_KIND then Inl JournalInvariantError
     else
     rbind (requirePaymentAttempt J (ef_purchase_id effect) n) (\<lambda>attempt.
     rbind (requirePaymentPreparation J (ef_purchase_id effect) n) (\<lambda>preparation.
     rbind (readPreparedMaterial verified (pp_payload_digest preparation)
              (pp_prepared_ref preparation) (pp_prepared_byte_length preparation)) (\<lambda>_.
     rbind (readPreparedMaterial verified (ef_payload_digest effect) (ef_prepared_ref effect)
              (ef_prepared_byte_length effect)) (\<lambda>_.
     if pp_reservation_id preparation \<noteq> reservationId then Inl JournalInvariantError
     else
     rbind (requireReservation J reservationId) (\<lambda>reservation.
     if rs_purchase_id reservation \<noteq> ef_purchase_id effect then Inl JournalInvariantError
     else if ef_payload_digest effect \<noteq> pp_payload_digest preparation
             \<or> ef_prepared_ref effect \<noteq> pp_prepared_ref preparation
     then Inl JournalInvariantError
     else
     rbind (timestamp clock0) (\<lambda>now.
     let J1 = expireReservationsInternal J now in
     rbind (submission_guard evidence_intact J1 effect n attempt reservation now) (\<lambda>_.
     rbind (claimEffectInternal J1 effect holder ttlMs clock) (\<lambda>(J2, claimed).
     case claimed of
       None \<Rightarrow> Inr (J2, None)
     | Some (e, lease) \<Rightarrow>
       rbind (take_in_flight J2 reservation reservationId now) (\<lambda>J3.
       rbind (if at_state attempt = Att_prepared
              then transitionAttemptInternal J3 attempt Att_submitted ''payment_submission_claimed''
                     (Some (ef_payload_digest effect)) now None False
              else Inr J3) (\<lambda>J4.
       rbind (requireEffect J4 effectId) (\<lambda>e'. Inr (J4, Some (e', lease))))))))))))))"

definition staging_guard ::
  "journal \<Rightarrow> effect_row \<Rightarrow> attempt_row \<Rightarrow> reservation_row \<Rightarrow> int \<Rightarrow> unit result" where
  "staging_guard J effect attempt reservation now =
     (if ef_state effect = Eff_planned
      then (if at_state attempt \<noteq> Att_planned \<or> rs_state reservation \<noteq> Res_active
            then Inl JournalInvariantError
            else if rs_expires_at reservation \<le> now then Inl PolicyReservationError
            else rbind (requireActivePolicy J) (\<lambda>policy.
                   if rs_policy_digest reservation \<noteq> pol_digest policy
                   then Inl PolicyReservationError else Inr ()))
      else if ef_state effect = Eff_retryable
      then (if at_state attempt \<noteq> Att_planned \<or> rs_state reservation \<noteq> Res_in_flight
            then Inl JournalInvariantError else Inr ())
      else Inr ())"

definition beginTreasuryStaging ::
  "(string \<Rightarrow> int \<Rightarrow> string option) \<Rightarrow> journal \<Rightarrow> string \<Rightarrow> string \<Rightarrow> string \<Rightarrow> int \<Rightarrow> int \<Rightarrow> int
    \<Rightarrow> (journal \<times> (effect_row \<times> lease_token) option) result" where
  "beginTreasuryStaging verified J effectId reservationId holder ttlMs clock0 clock =
     rbind (requireEffect J effectId) (\<lambda>effect.
     case ef_attempt effect of
       None \<Rightarrow> Inl JournalInvariantError
     | Some n \<Rightarrow>
     if ef_kind effect \<noteq> TREASURY_STAGING_EFFECT_KIND then Inl JournalInvariantError
     else
     rbind (requireTreasuryStagingPlan J (ef_purchase_id effect) n) (\<lambda>plan.
     rbind (requirePaymentAttempt J (ef_purchase_id effect) n) (\<lambda>attempt.
     rbind (readPreparedMaterial verified (sp_payload_digest plan) (sp_prepared_ref plan)
              (sp_prepared_byte_length plan)) (\<lambda>_.
     rbind (readPreparedMaterial verified (ef_payload_digest effect) (ef_prepared_ref effect)
              (ef_prepared_byte_length effect)) (\<lambda>_.
     if sp_effect_id plan \<noteq> ef_id effect \<or> sp_reservation_id plan \<noteq> reservationId
        \<or> ef_payload_digest effect \<noteq> sp_payload_digest plan
        \<or> ef_prepared_ref effect \<noteq> sp_prepared_ref plan
        \<or> ef_prepared_byte_length effect \<noteq> sp_prepared_byte_length plan
     then Inl JournalInvariantError
     else
     rbind (timestamp clock0) (\<lambda>now.
     let J1 = expireReservationsInternal J now in
     rbind (requireReservation J1 reservationId) (\<lambda>reservation.
     if rs_purchase_id reservation \<noteq> ef_purchase_id effect
        \<or> rs_funding_source reservation \<noteq> sp_funding_source plan
     then Inl JournalInvariantError
     else
     rbind (staging_guard J1 effect attempt reservation now) (\<lambda>_.
     rbind (claimEffectInternal J1 effect holder ttlMs clock) (\<lambda>(J2, claimed).
     case claimed of
       None \<Rightarrow> Inr (J2, None)
     | Some (e, lease) \<Rightarrow>
       rbind (take_in_flight J2 reservation reservationId now) (\<lambda>J3.
       rbind (requireEffect J3 effectId) (\<lambda>e'. Inr (J3, Some (e', lease)))))))))))))"

section \<open>Settlement\<close>

record settlement_input =
  si_effect_id :: string
  si_reservation_id :: string
  si_execution_id :: string
  si_mechanism :: mechanism
  si_profile :: string
  si_transaction_id :: "string option"
  si_commitment_id :: "string option"
  si_outpoint :: "string option"
  si_amount :: string
  si_additional_cost :: string
  si_asset :: string
  si_payee :: string
  si_network :: string
  si_assurance :: assurance
  si_funding_source :: string
  si_evidence_digest :: string
  si_evidence_profile :: string
  si_evidence_verifier :: string

text \<open>\<open>new RegExp(`^${transactionId}:[0-9]+$`)\<close>, the identity being hexadecimal\<close>

definition outpoint_of :: "string \<Rightarrow> string \<Rightarrow> bool" where
  "outpoint_of transactionId s \<longleftrightarrow>
     starts_with (transactionId @ '':'') s \<and> length transactionId + 1 < length s
     \<and> list_all is_digit (drop (length transactionId + 1) s)"

definition validatePurchaseSettlementInput :: "settlement_input \<Rightarrow> unit result" where
  "validatePurchaseSettlementInput i =
     rbind (assertCode (si_reservation_id i)) (\<lambda>_.
     rbind (assertTransactionId (si_execution_id i)) (\<lambda>_.
     rbind (assertSafeIdentity (si_profile i) 160) (\<lambda>_.
     rbind (case si_mechanism i of
              Single_transaction \<Rightarrow>
                (case si_transaction_id i of
                   None \<Rightarrow> Inl JournalInvariantError
                 | Some tx \<Rightarrow>
                     if si_commitment_id i \<noteq> None \<or> si_assurance i = Assure_channel_commitment
                     then Inl JournalInvariantError
                     else rbind (assertTransactionId tx) (\<lambda>_.
                          if si_execution_id i \<noteq> tx then Inl JournalInvariantError else Inr ()))
            | Channel_voucher \<Rightarrow>
                (case si_commitment_id i of
                   None \<Rightarrow> Inl JournalInvariantError
                 | Some c \<Rightarrow>
                     if si_transaction_id i \<noteq> None \<or> si_assurance i \<noteq> Assure_channel_commitment
                     then Inl JournalInvariantError
                     else assertTransactionId c)) (\<lambda>_.
     rbind (case si_outpoint i of
              None \<Rightarrow> Inr ()
            | Some outpoint \<Rightarrow>
                (case si_transaction_id i of
                   None \<Rightarrow> Inl JournalInvariantError
                 | Some tx \<Rightarrow> rbind (assertSafeIdentity outpoint 200) (\<lambda>_.
                     require (outpoint_of tx outpoint) JournalInvariantError))) (\<lambda>_.
     rbind (decimalBigInt (si_amount i) False) (\<lambda>_.
     rbind (decimalBigInt (si_additional_cost i) True) (\<lambda>_.
     rbind (assertSafeIdentity (si_asset i) 40) (\<lambda>_.
     rbind (assertBoundedText (si_payee i) 300) (\<lambda>_.
     rbind (assertSafeIdentity (si_network i) 100) (\<lambda>_.
     rbind (require (si_funding_source i = ''vault-treasury'') JournalInvariantError) (\<lambda>_.
     rbind (assertDigest (si_evidence_digest i)) (\<lambda>_.
     rbind (assertSafeIdentity (si_evidence_profile i) 200) (\<lambda>_.
     assertSafeIdentity (si_evidence_verifier i) 200)))))))))))))"

definition settlementAssuranceMeets :: "assurance \<Rightarrow> assurance \<Rightarrow> bool result" where
  "settlementAssuranceMeets actual required =
     (if required = Assure_channel_commitment \<or> actual = Assure_channel_commitment
      then Inr (actual = required)
      else paymentFinalityMeets (assurance_name actual) (assurance_name required))"

definition assertSameSettlement :: "settlement_row \<Rightarrow> settlement_input \<Rightarrow> unit result" where
  "assertSameSettlement existing i =
     (if st_effect_id existing \<noteq> si_effect_id i
         \<or> st_reservation_id existing \<noteq> si_reservation_id i
         \<or> st_execution_id existing \<noteq> si_execution_id i
         \<or> st_mechanism existing \<noteq> si_mechanism i
         \<or> st_profile existing \<noteq> si_profile i
         \<or> st_transaction_id existing \<noteq> si_transaction_id i
         \<or> st_commitment_id existing \<noteq> si_commitment_id i
         \<or> st_outpoint existing \<noteq> si_outpoint i
         \<or> st_amount existing \<noteq> si_amount i
         \<or> st_additional_cost existing \<noteq> si_additional_cost i
         \<or> st_asset existing \<noteq> si_asset i
         \<or> st_payee existing \<noteq> si_payee i
         \<or> st_network existing \<noteq> si_network i
         \<or> st_assurance existing \<noteq> si_assurance i
         \<or> st_funding_source existing \<noteq> si_funding_source i
         \<or> st_evidence_digest existing \<noteq> si_evidence_digest i
         \<or> st_evidence_profile existing \<noteq> si_evidence_profile i
         \<or> st_evidence_verifier existing \<noteq> si_evidence_verifier i
      then Inl JournalInvariantError else Inr ())"

definition settlement_of :: "settlement_input \<Rightarrow> effect_row \<Rightarrow> int \<Rightarrow> int \<Rightarrow> settlement_row" where
  "settlement_of i effect n now =
     \<lparr>st_effect_id = si_effect_id i, st_reservation_id = si_reservation_id i,
      st_purchase_id = ef_purchase_id effect, st_attempt = n,
      st_execution_id = si_execution_id i, st_mechanism = si_mechanism i,
      st_profile = si_profile i, st_transaction_id = si_transaction_id i,
      st_commitment_id = si_commitment_id i, st_outpoint = si_outpoint i,
      st_amount = si_amount i, st_additional_cost = si_additional_cost i,
      st_asset = si_asset i, st_payee = si_payee i, st_network = si_network i,
      st_assurance = si_assurance i, st_funding_source = si_funding_source i,
      st_evidence_digest = si_evidence_digest i, st_evidence_profile = si_evidence_profile i,
      st_evidence_verifier = si_evidence_verifier i, st_observed_at = now\<rparr>"

text \<open>
  The \<open>UNIQUE\<close> columns of \<open>purchase_settlements\<close> and the reference to the reservation of the
  same Purchase.
\<close>

definition settlement_conflict :: "journal \<Rightarrow> settlement_row \<Rightarrow> bool" where
  "settlement_conflict J s \<longleftrightarrow>
     list_ex (\<lambda>x. st_effect_id x = st_effect_id s \<or> st_reservation_id x = st_reservation_id s
                  \<or> st_execution_id x = st_execution_id s
                  \<or> st_transaction_id s \<noteq> None \<and> st_transaction_id x = st_transaction_id s
                  \<or> st_commitment_id s \<noteq> None \<and> st_commitment_id x = st_commitment_id s)
       (settlements J)
     \<or> \<not> list_ex (\<lambda>r. rs_id r = st_reservation_id s \<and> rs_purchase_id r = st_purchase_id s)
          (reservations J)"

definition settlement_matches ::
  "settlement_input \<Rightarrow> preparation_row \<Rightarrow> bool result" where
  "settlement_matches i p =
     rbind (settlementAssuranceMeets (si_assurance i) (pp_required_assurance p)) (\<lambda>assured.
       Inr (pp_reservation_id p = si_reservation_id i
            \<and> pp_execution_id p = si_execution_id i
            \<and> pp_mechanism p = si_mechanism i
            \<and> pp_profile p = si_profile i
            \<and> pp_transaction_id p = si_transaction_id i
            \<and> (case si_mechanism i of
                 Single_transaction \<Rightarrow> pp_amount p = si_amount i
               | Channel_voucher \<Rightarrow> 0 < BigInt (si_amount i) \<and> BigInt (si_amount i) \<le> BigInt (pp_amount p))
            \<and> pp_asset p = si_asset i
            \<and> pp_payee p = si_payee i
            \<and> pp_network p = si_network i
            \<and> assured
            \<and> pp_funding_source p = si_funding_source i))"

definition spent_row :: "string \<Rightarrow> int \<Rightarrow> journal \<Rightarrow> journal" where
  "spent_row i now J =
     J\<lparr>reservations := update_rows (\<lambda>r. rs_id r = i \<and> rs_state r = Res_in_flight)
         (\<lambda>r. r\<lparr>rs_state := Res_spent, rs_spent_at := Some now, rs_updated_at := now\<rparr>)
         (reservations J)\<rparr>"

definition recordPurchaseSettlement ::
  "(string \<Rightarrow> int \<Rightarrow> bool) \<Rightarrow> journal \<Rightarrow> lease_token \<Rightarrow> settlement_input \<Rightarrow> int \<Rightarrow> int \<Rightarrow> int
    \<Rightarrow> (journal \<times> settlement_row) result" where
  "recordPurchaseSettlement evidence_intact J lease i clock0 clock1 clock =
     rbind (validatePurchaseSettlementInput i) (\<lambda>_.
     rbind (assertEffectWriter J (si_effect_id i) lease clock0 clock1) (\<lambda>_.
     rbind (requireEffect J (si_effect_id i)) (\<lambda>effect.
     case ef_attempt effect of
       None \<Rightarrow> Inl JournalInvariantError
     | Some n \<Rightarrow>
     case findSettlement J (si_reservation_id i) of
       Some existing \<Rightarrow>
         rbind (assertSameSettlement existing i) (\<lambda>_.
         if ef_state effect \<noteq> Eff_observed \<or> ef_result_digest effect \<noteq> Some (si_evidence_digest i)
         then Inl JournalInvariantError else Inr (J, existing))
     | None \<Rightarrow>
     if ef_state effect \<notin> {Eff_executing, Eff_submitted, Eff_ambiguous}
     then Inl JournalInvariantError
     else
     rbind (requirePaymentAttempt J (ef_purchase_id effect) n) (\<lambda>attempt.
     if at_state attempt \<noteq> Att_submitted then Inl JournalInvariantError
     else
     rbind (requirePaymentPreparation J (ef_purchase_id effect) n) (\<lambda>preparation.
     rbind (settlement_matches i preparation) (\<lambda>matches.
     if \<not> matches then Inl JournalInvariantError
     else
     rbind (requireReservation J (si_reservation_id i)) (\<lambda>reservation.
     if rs_state reservation \<noteq> Res_in_flight then Inl JournalInvariantError
     else
     rbind (decimalBigInt (si_amount i) False) (\<lambda>amount.
     rbind (decimalBigInt (si_additional_cost i) True) (\<lambda>additionalCost.
     if (case si_mechanism i of
           Single_transaction \<Rightarrow> amount \<noteq> BigInt (rs_amount reservation)
         | Channel_voucher \<Rightarrow> amount = 0 \<or> amount > BigInt (rs_amount reservation))
        \<or> additionalCost > BigInt (rs_additional_cost_ceiling reservation)
     then Inl PolicyReservationError
     else if \<not> isVerifiedEvidenceLinked evidence_intact J (ef_purchase_id effect)
                 (si_evidence_digest i) (Attempt n) (Some ''kaspa-settlement'')
                 (Some (si_evidence_profile i)) (Some (si_evidence_verifier i))
     then Inl JournalInvariantError
     else
     rbind (timestamp clock) (\<lambda>now.
     let row = settlement_of i effect n now in
     if settlement_conflict J row then Inl SqliteConstraintError
     else if changes (\<lambda>r. rs_id r = si_reservation_id i \<and> rs_state r = Res_in_flight)
               (reservations J) \<noteq> 1
     then Inl JournalInvariantError
     else
     let J1 = spent_row (si_reservation_id i) now (J\<lparr>settlements := settlements J @ [row]\<rparr>) in
     rbind (transitionAttemptInternal J1 attempt Att_observed ''settlement_observed''
              (Some (si_evidence_digest i)) now None False) (\<lambda>J2.
     let J3 = insertEffectObservation (ef_id effect) EO_observed (Some (si_evidence_digest i))
                (Some (si_evidence_digest i)) lease now J2 in
     rbind (updateEffectState J3 effect Eff_observed ''settlement_spend_observed''
              (Some (si_evidence_digest i)) now
              (no_updates\<lparr>eu_result := Some (si_evidence_digest i)\<rparr>)) (\<lambda>J4.
     Inr (J4, row)))))))))))))"

section \<open>Proof-backed release\<close>

definition released_row :: "string \<Rightarrow> string \<Rightarrow> int \<Rightarrow> journal \<Rightarrow> journal" where
  "released_row i proofDigest now J =
     J\<lparr>reservations := update_rows (\<lambda>r. rs_id r = i \<and> rs_state r = Res_in_flight)
         (\<lambda>r. r\<lparr>rs_state := Res_released, rs_release_evidence := Some proofDigest,
                rs_updated_at := now\<rparr>) (reservations J)\<rparr>"

definition releaseInFlightReservation ::
  "journal \<Rightarrow> string \<Rightarrow> string \<Rightarrow> lease_token \<Rightarrow> string \<Rightarrow> int \<Rightarrow> int \<Rightarrow> int
    \<Rightarrow> (journal \<times> reservation_row) result" where
  "releaseInFlightReservation J reservationId effectId lease proofDigest clock0 clock1 clock =
     rbind (assertDigest proofDigest) (\<lambda>_.
     rbind (assertEffectWriter J effectId lease clock0 clock1) (\<lambda>_.
     rbind (requireEffect J effectId) (\<lambda>effect.
     if ef_state effect \<noteq> Eff_retryable then Inl PolicyReservationError
     else
     rbind (requireReservation J reservationId) (\<lambda>reservation.
     if rs_state reservation = Res_released then Inr (J, reservation)
     else if rs_state reservation \<noteq> Res_in_flight then Inl PolicyReservationError
     else case ef_attempt effect of
       None \<Rightarrow> Inl PolicyReservationError
     | Some n \<Rightarrow>
     rbind (requirePaymentPreparation J (ef_purchase_id effect) n) (\<lambda>preparation.
     if pp_reservation_id preparation \<noteq> reservationId then Inl PolicyReservationError
     else if find_row (\<lambda>ob. eo_effect_id ob = effectId \<and> eo_status ob = EO_not_found_retryable
                            \<and> eo_detail ob = Some proofDigest) (effect_observations J) = None
     then Inl PolicyReservationError
     else
     rbind (timestamp clock) (\<lambda>now.
     let J1 = released_row reservationId proofDigest now J;
         reason = ''payment_abandoned_after_not_found'' in
     rbind (requirePaymentAttempt J1 (ef_purchase_id effect) n) (\<lambda>attempt.
     if at_state attempt \<noteq> Att_submitted then Inl JournalInvariantError
     else
     rbind (transitionAttemptInternal J1 attempt Att_failed reason (Some proofDigest) now
              (Some reason) True) (\<lambda>J2.
     rbind (updateEffectState J2 effect Eff_failed_terminal reason (Some proofDigest) now
              (no_updates\<lparr>eu_error := Some reason\<rparr>)) (\<lambda>J3.
     rbind (requireReservation J3 reservationId) (\<lambda>r. Inr (J3, r)))))))))))"

end
