(* ===== verification/Operation_Records.thy ===== *)
theory Operation_Records
  imports Reservations
begin

text \<open>
  Records of direct Treasury Operations (\<open>src/purchase/journal.ts\<close>): the validators of an
  intent and of prepared material, the checks of \<open>treasuryOperationFromRow\<close> that every read
  of a row performs, lookups, and the log of transitions.
\<close>

record operation_intent =
  in_key :: string
  in_request_digest :: string
  in_kind :: treasury_kind
  in_destination :: string
  in_requested_amount :: string
  in_keep_float :: "string option"
  in_fee_ceiling :: string
  in_retry_limit :: int
  in_policy_digest :: string
  in_authorization_digest :: "string option"

record driver_lease =
  dl_owner :: string
  dl_generation :: int
  dl_expires_at :: int

text \<open>\<open>/^[A-Za-z0-9._:-]{1,160}$/\<close>\<close>

definition is_operation_key :: "string \<Rightarrow> bool" where
  "is_operation_key s \<longleftrightarrow> s \<noteq> [] \<and> length s \<le> 160 \<and> list_all is_key_char s"

definition assertTreasuryOperationKey :: "string \<Rightarrow> unit result" where
  "assertTreasuryOperationKey value = require (is_operation_key value) JournalInvariantError"

text \<open>\<open>/^kaspatest:[a-z0-9]+$/\<close>, at most 256 long\<close>

definition is_testnet_address :: "string \<Rightarrow> bool" where
  "is_testnet_address s \<longleftrightarrow>
     length s \<le> 256 \<and> starts_with ''kaspatest:'' s \<and> 10 < length s
     \<and> list_all is_address_char (drop 10 s)"

definition validateTreasuryOperationIntent :: "operation_intent \<Rightarrow> unit result" where
  "validateTreasuryOperationIntent i =
     rbind (assertTreasuryOperationKey (in_key i)) (\<lambda>_.
     rbind (assertDigest (in_request_digest i)) (\<lambda>_.
     rbind (require (is_testnet_address (in_destination i)) JournalInvariantError) (\<lambda>_.
     rbind (if in_requested_amount i \<noteq> ''max''
            then rbind (decimalBigInt (in_requested_amount i) False) (\<lambda>_. Inr ())
            else Inr ()) (\<lambda>_.
     if in_kind i \<noteq> Vault_deposit \<and> in_requested_amount i = ''max''
     then Inl JournalInvariantError
     else
     rbind (case in_keep_float i of
              None \<Rightarrow> Inr ()
            | Some k \<Rightarrow> if in_kind i \<noteq> Vault_deposit then Inl JournalInvariantError
                        else rbind (decimalBigInt k True) (\<lambda>_. Inr ())) (\<lambda>_.
     rbind (decimalBigInt (in_fee_ceiling i) False) (\<lambda>_.
     if \<not> is_safe_integer (in_retry_limit i) \<or> in_retry_limit i \<le> 0 \<or> in_retry_limit i > 128
     then Inl JournalInvariantError
     else
     rbind (assertDigest (in_policy_digest i)) (\<lambda>_.
     case in_authorization_digest i of
       None \<Rightarrow> Inr ()
     | Some d \<Rightarrow> rbind (assertDigest d) (\<lambda>_.
         if in_kind i \<noteq> Vault_send then Inl JournalInvariantError else Inr ()))))))))"

record prepared_operation =
  pr_bytes :: string
  pr_transaction_id :: string
  pr_amount :: string
  pr_fee :: string
  pr_policy_digest :: string

definition validatePreparedTreasuryOperation :: "prepared_operation \<Rightarrow> unit result" where
  "validatePreparedTreasuryOperation p =
     (if length (pr_bytes p) = 0 \<or> length (pr_bytes p) > 2000000 then Inl JournalInvariantError
      else
      rbind (assertTransactionId (pr_transaction_id p)) (\<lambda>_.
      rbind (decimalBigInt (pr_amount p) False) (\<lambda>_.
      rbind (decimalBigInt (pr_fee p) True) (\<lambda>_.
      assertDigest (pr_policy_digest p)))))"

definition assertSameTreasuryOperationIntent ::
  "treasury_operation_row \<Rightarrow> operation_intent \<Rightarrow> unit result" where
  "assertSameTreasuryOperationIntent existing i =
     (if op_request_digest existing \<noteq> in_request_digest i
         \<or> op_kind existing \<noteq> in_kind i
         \<or> op_destination existing \<noteq> in_destination i
         \<or> op_requested_amount existing \<noteq> in_requested_amount i
         \<or> op_keep_float existing \<noteq> in_keep_float i
         \<or> op_retry_limit existing \<noteq> in_retry_limit i
         \<or> op_authorization_digest existing \<noteq> in_authorization_digest i
      then Inl JournalInvariantError else Inr ())"

definition driverOwns :: "treasury_operation_row \<Rightarrow> driver_lease \<Rightarrow> int \<Rightarrow> bool" where
  "driverOwns r d now \<longleftrightarrow>
     op_driver_owner r = Some (dl_owner d) \<and> op_driver_generation r = dl_generation d
     \<and> (case op_driver_lease_expires r of None \<Rightarrow> False | Some t \<Rightarrow> t > now)"

section \<open>Reading a row\<close>

definition row_intent :: "treasury_operation_row \<Rightarrow> operation_intent" where
  "row_intent r =
     \<lparr>in_key = op_key r, in_request_digest = op_request_digest r, in_kind = op_kind r,
      in_destination = op_destination r, in_requested_amount = op_requested_amount r,
      in_keep_float = op_keep_float r, in_fee_ceiling = op_fee_ceiling r,
      in_retry_limit = op_retry_limit r, in_policy_digest = op_policy_digest r,
      in_authorization_digest = op_authorization_digest r\<rparr>"

definition check_opt :: "string option \<Rightarrow> (string \<Rightarrow> 'b result) \<Rightarrow> unit result" where
  "check_opt x check = (case x of None \<Rightarrow> Inr () | Some s \<Rightarrow> rbind (check s) (\<lambda>_. Inr ()))"

definition treasuryOperationFromRow ::
  "treasury_operation_row \<Rightarrow> treasury_operation_row result" where
  "treasuryOperationFromRow r =
     rbind (validateTreasuryOperationIntent (row_intent r)) (\<lambda>_.
     rbind (check_opt (op_resolved_amount r) (\<lambda>a. decimalBigInt a False)) (\<lambda>_.
     rbind (check_opt (op_fee r) (\<lambda>f. decimalBigInt f True)) (\<lambda>_.
     rbind (check_opt (op_transaction_id r) assertTransactionId) (\<lambda>_.
     rbind (check_opt (op_prepared_digest r) assertDigest) (\<lambda>_.
     if \<not> is_safe_integer (op_retry_count r) \<or> op_retry_count r < 0
     then Inl JournalInvariantError
     else if \<not> is_safe_integer (op_retry_limit r) \<or> op_retry_limit r \<le> 0
     then Inl JournalInvariantError
     else if (op_driver_owner r = None) \<noteq> (op_driver_lease_expires r = None)
             \<or> \<not> is_safe_integer (op_driver_generation r) \<or> op_driver_generation r < 0
     then Inl JournalInvariantError
     else if op_driver_owner r \<noteq> None
             \<and> (case op_driver_lease_expires r of
                  None \<Rightarrow> True | Some t \<Rightarrow> \<not> is_safe_integer t \<or> t \<le> 0)
     then Inl JournalInvariantError
     else if (case op_capability_generation r of
                None \<Rightarrow> False
              | Some g \<Rightarrow> g < 1 \<or> g > op_driver_generation r
                  \<or> op_state r \<notin> {Op_submission_planned, Op_submitted, Op_observed, Op_completed})
     then Inl JournalInvariantError
     else if op_submission_in_flight r
             \<and> (op_state r \<noteq> Op_submission_planned \<or> op_capability_generation r = None
                \<or> op_prepared_digest r = None)
     then Inl JournalInvariantError
     else if op_state r \<noteq> Op_submission_planned \<and> op_submission_in_flight r
     then Inl JournalInvariantError
     else Inr r)))))"

definition findTreasuryOperation :: "journal \<Rightarrow> string \<Rightarrow> treasury_operation_row option result"
where
  "findTreasuryOperation J key =
     rbind (assertTreasuryOperationKey key) (\<lambda>_.
     case find_row (\<lambda>r. op_key r = key) (operations J) of
       None \<Rightarrow> Inr None
     | Some row \<Rightarrow> rbind (treasuryOperationFromRow row) (\<lambda>r. Inr (Some r)))"

definition requireTreasuryOperation :: "journal \<Rightarrow> string \<Rightarrow> treasury_operation_row result" where
  "requireTreasuryOperation J key =
     rbind (findTreasuryOperation J key) (\<lambda>found.
     case found of None \<Rightarrow> Inl JournalNotFoundError | Some r \<Rightarrow> Inr r)"

definition unresolvedTreasuryOperationCount :: "journal \<Rightarrow> nat" where
  "unresolvedTreasuryOperationCount J =
     changes (\<lambda>r. unresolved_state (op_state r)) (operations J)"

definition insertTreasuryOperationTransition ::
  "string \<Rightarrow> treasury_operation_state option \<Rightarrow> treasury_operation_state \<Rightarrow> string \<Rightarrow> int
    \<Rightarrow> journal \<Rightarrow> journal" where
  "insertTreasuryOperationTransition key from_state to_state reason now J =
     J\<lparr>operation_log := operation_log J @
         [\<lparr>ot_key = key, ot_from = from_state, ot_to = to_state, ot_reason = reason,
           ot_created_at = now\<rparr>]\<rparr>"

text \<open>
  \<open>UPDATE treasury_operations \<dots> WHERE operation_key = ? AND \<dots>\<close> followed by the check that
  one row changed; the driver clause is the optional \<open>AND driver_owner = ? AND
  driver_generation = ?\<close>.
\<close>

definition driver_clause :: "driver_lease option \<Rightarrow> treasury_operation_row \<Rightarrow> bool" where
  "driver_clause driver r \<longleftrightarrow>
     (case driver of None \<Rightarrow> True
      | Some d \<Rightarrow> op_driver_owner r = Some (dl_owner d) \<and> op_driver_generation r = dl_generation d)"

definition update_operation ::
  "string \<Rightarrow> (treasury_operation_row \<Rightarrow> bool) \<Rightarrow> (treasury_operation_row \<Rightarrow> treasury_operation_row)
    \<Rightarrow> journal \<Rightarrow> journal" where
  "update_operation key cond f J =
     J\<lparr>operations := update_rows (\<lambda>r. op_key r = key \<and> cond r) f (operations J)\<rparr>"

definition operation_changes ::
  "string \<Rightarrow> (treasury_operation_row \<Rightarrow> bool) \<Rightarrow> journal \<Rightarrow> nat" where
  "operation_changes key cond J = changes (\<lambda>r. op_key r = key \<and> cond r) (operations J)"

text \<open>\<open>if (driver && !driverOwns(current, driver, this.timestamp())) throw\<close>\<close>

definition assertDriver ::
  "driver_lease option \<Rightarrow> treasury_operation_row \<Rightarrow> int \<Rightarrow> unit result" where
  "assertDriver driver current clock =
     (case driver of
        None \<Rightarrow> Inr ()
      | Some d \<Rightarrow> rbind (timestamp clock) (\<lambda>now.
          if \<not> driverOwns current d now then Inl JournalInvariantError else Inr ()))"

end
