(* ===== verification/Treasury_Operations.thy ===== *)
theory Treasury_Operations
  imports Operation_Records
begin

text \<open>
  The durable life of a direct Treasury Operation (\<open>src/purchase/journal.ts\<close>, lines 3122 to
  3967): claiming the intent with its capacity, the driver lease, preparing or failing the
  preparation, cancelling, planning the submission, claiming the one effect capability,
  recording the submission, the observations and the completion. An operation is a function
  from a journal to a new journal and its result; \<open>Inl\<close> is an exception, after which SQLite
  has rolled the transaction back. Where a call reads the clock twice, it has two clock
  arguments, in the order of the readings.
\<close>

definition reread :: "string \<Rightarrow> journal \<Rightarrow> (journal \<times> treasury_operation_row) result" where
  "reread key J = rbind (requireTreasuryOperation J key) (\<lambda>r. Inr (J, r))"

section \<open>Intent\<close>

text \<open>
  An approved Transfer authorization with this evidence digest, joined through the Transfer
  that is bound to the operation.
\<close>

definition approvedTransferAuthorization :: "journal \<Rightarrow> string \<Rightarrow> string \<Rightarrow> bool" where
  "approvedTransferAuthorization J key digest \<longleftrightarrow>
     list_ex (\<lambda>t. tf_treasury_operation_key t = Some key
                  \<and> list_ex (\<lambda>a. ta_transfer_id a = tf_id t \<and> ta_evidence_digest a = digest
                                \<and> ta_decision a = Transfer_approved) (transfer_authorizations J))
       (transfers J)"

definition new_operation :: "operation_intent \<Rightarrow> int \<Rightarrow> treasury_operation_row" where
  "new_operation i now =
     \<lparr>op_key = in_key i, op_request_digest = in_request_digest i, op_kind = in_kind i,
      op_destination = in_destination i, op_requested_amount = in_requested_amount i,
      op_keep_float = in_keep_float i, op_fee_ceiling = in_fee_ceiling i,
      op_retry_limit = in_retry_limit i, op_cancellation_requested = False,
      op_preparation_fenced = False, op_driver_owner = None, op_driver_generation = 0,
      op_driver_lease_expires = None, op_capability_generation = None,
      op_submission_in_flight = False,
      op_resolved_amount =
        (if in_requested_amount i = ''max'' then None else Some (in_requested_amount i)),
      op_fee = None, op_transaction_id = None, op_prepared_digest = None, op_prepared_ref = None,
      op_prepared_byte_length = None, op_policy_digest = in_policy_digest i,
      op_authorization_digest = in_authorization_digest i, op_state = Op_intent,
      op_retry_count = 0, op_created_at = now, op_updated_at = now, op_completed_at = None\<rparr>"

text \<open>
  The constraints an insert can violate: the primary key, \<open>UNIQUE (request_digest)\<close> and the
  index \<open>one_unresolved_treasury_operation\<close>.
\<close>

definition operation_insert_conflict :: "journal \<Rightarrow> treasury_operation_row \<Rightarrow> bool" where
  "operation_insert_conflict J r \<longleftrightarrow>
     list_ex (\<lambda>x. op_key x = op_key r \<or> op_request_digest x = op_request_digest r
                  \<or> unresolved_state (op_state x)) (operations J)"

definition claimTreasuryOperationIntent ::
  "journal \<Rightarrow> operation_intent \<Rightarrow> int \<Rightarrow> (journal \<times> treasury_operation_row) result" where
  "claimTreasuryOperationIntent J i clock =
     rbind (validateTreasuryOperationIntent i) (\<lambda>_.
     rbind (findTreasuryOperation J (in_key i)) (\<lambda>found.
     case found of
       Some existing \<Rightarrow>
         rbind (assertSameTreasuryOperationIntent existing i) (\<lambda>_. Inr (J, existing))
     | None \<Rightarrow>
       rbind (requireActivePolicy J) (\<lambda>policy.
       if pol_digest policy \<noteq> in_policy_digest i then Inl PolicyReservationError
       else
       rbind (timestamp clock) (\<lambda>now.
       let J1 = expireReservationsInternal J now in
       if (case in_authorization_digest i of None \<Rightarrow> False
           | Some d \<Rightarrow> \<not> approvedTransferAuthorization J1 (in_key i) d)
       then Inl PolicyReservationError
       else
       rbind (assertDirectTreasuryCapacity J1 policy (in_kind i) (in_destination i)
                (if in_requested_amount i = ''max'' then ''0'' else in_requested_amount i)
                (in_fee_ceiling i) now None) (\<lambda>_.
       if operation_insert_conflict J1 (new_operation i now) then Inl PolicyReservationError
       else
         reread (in_key i)
           (insertTreasuryOperationTransition (in_key i) None Op_intent
              ''intent_and_capacity_recorded'' now
              (J1\<lparr>operations := operations J1 @ [new_operation i now]\<rparr>)))))))"

section \<open>The driver lease\<close>

record driver_claim =
  dc_acquired :: bool
  dc_record :: treasury_operation_row
  dc_lease :: "driver_lease option"

definition claimTreasuryOperationDriver ::
  "journal \<Rightarrow> string \<Rightarrow> string \<Rightarrow> int \<Rightarrow> int \<Rightarrow> (journal \<times> driver_claim) result" where
  "claimTreasuryOperationDriver J key owner leaseTtlMs clock =
     rbind (assertTreasuryOperationKey key) (\<lambda>_.
     if \<not> is_operation_key owner then Inl JournalInvariantError
     else if \<not> is_safe_integer leaseTtlMs \<or> leaseTtlMs < 1000 \<or> leaseTtlMs > 10 * 60000
     then Inl JournalInvariantError
     else
     rbind (requireTreasuryOperation J key) (\<lambda>current.
     let refused = (\<lambda>r. \<lparr>dc_acquired = False, dc_record = r, dc_lease = None\<rparr>) in
     if op_state current = Op_completed \<or> op_state current = Op_failed_terminal
     then Inr (J, refused current)
     else
     rbind (timestamp clock) (\<lambda>now.
     let live = (case op_driver_lease_expires current of None \<Rightarrow> False | Some t \<Rightarrow> t > now) in
     if op_driver_owner current \<noteq> None \<and> live \<and> op_driver_owner current \<noteq> Some owner
     then Inr (J, refused current)
     else
       let sameLiveOwner = (op_driver_owner current = Some owner \<and> live);
           generation = (if sameLiveOwner then op_driver_generation current
                         else op_driver_generation current + 1);
           expiresAtMs = now + leaseTtlMs;
           free = (\<lambda>r. op_driver_owner r = None
                       \<or> (case op_driver_lease_expires r of None \<Rightarrow> False | Some t \<Rightarrow> t \<le> now)
                       \<or> op_driver_owner r = Some owner)
       in if operation_changes key free J \<noteq> 1
          then rbind (requireTreasuryOperation J key) (\<lambda>r. Inr (J, refused r))
          else
            let J1 = update_operation key free
              (\<lambda>r. r\<lparr>op_driver_owner := Some owner, op_driver_generation := generation,
                     op_driver_lease_expires := Some expiresAtMs,
                     op_capability_generation :=
                       (if op_state r \<in> {Op_intent, Op_prepared} then None
                        else op_capability_generation r),
                     op_updated_at := now\<rparr>) J
            in rbind (requireTreasuryOperation J1 key) (\<lambda>record.
               Inr (J1, \<lparr>dc_acquired = True, dc_record = record,
                         dc_lease = Some \<lparr>dl_owner = owner, dl_generation = generation,
                                          dl_expires_at = expiresAtMs\<rparr>\<rparr>)))))"

definition lease_live :: "int \<Rightarrow> treasury_operation_row \<Rightarrow> bool" where
  "lease_live now r \<longleftrightarrow>
     (case op_driver_lease_expires r of None \<Rightarrow> False | Some t \<Rightarrow> t > now)"

definition renewTreasuryOperationDriver ::
  "journal \<Rightarrow> driver_lease \<Rightarrow> string \<Rightarrow> int \<Rightarrow> (journal \<times> treasury_operation_row) result" where
  "renewTreasuryOperationDriver J lease key clock =
     rbind (assertTreasuryOperationKey key) (\<lambda>_.
     rbind (timestamp clock) (\<lambda>now.
     let here = (\<lambda>r. driver_clause (Some lease) r \<and> lease_live now r) in
     if operation_changes key here J \<noteq> 1 then Inl JournalInvariantError
     else reread key (update_operation key here
            (\<lambda>r. r\<lparr>op_driver_lease_expires := Some (now + 60000), op_updated_at := now\<rparr>) J)))"

definition releaseTreasuryOperationDriver ::
  "journal \<Rightarrow> driver_lease \<Rightarrow> string \<Rightarrow> int \<Rightarrow> (journal \<times> treasury_operation_row) result" where
  "releaseTreasuryOperationDriver J lease key clock =
     rbind (assertTreasuryOperationKey key) (\<lambda>_.
     rbind (timestamp clock) (\<lambda>now.
       reread key (update_operation key (driver_clause (Some lease))
         (\<lambda>r. r\<lparr>op_driver_owner := None, op_driver_lease_expires := None,
                op_updated_at := now\<rparr>) J)))"

section \<open>Preparation\<close>

text \<open>
  What SQLite checks of the update: \<open>UNIQUE\<close> on the transaction and the reference, a positive
  length, and the trigger \<open>immutable_treasury_operation_preparation\<close>.
\<close>

definition preparation_conflict ::
  "journal \<Rightarrow> string \<Rightarrow> (treasury_operation_row \<Rightarrow> bool) \<Rightarrow> string \<Rightarrow> string \<Rightarrow> int \<Rightarrow> bool" where
  "preparation_conflict J key here transactionId ref byteLength \<longleftrightarrow>
     byteLength \<le> 0
     \<or> list_ex (\<lambda>r. op_key r = key \<and> here r \<and> op_prepared_digest r \<noteq> None) (operations J)
     \<or> list_ex (\<lambda>r. \<not> (op_key r = key \<and> here r)
                    \<and> (op_transaction_id r = Some transactionId \<or> op_prepared_ref r = Some ref))
         (operations J)"

definition recordPreparedTreasuryOperation ::
  "(string \<Rightarrow> string) \<Rightarrow> (string \<Rightarrow> (string \<times> string \<times> int) option) \<Rightarrow> journal \<Rightarrow> string
    \<Rightarrow> prepared_operation \<Rightarrow> driver_lease option \<Rightarrow> int \<Rightarrow> int
    \<Rightarrow> (journal \<times> treasury_operation_row) result" where
  "recordPreparedTreasuryOperation H store J key prepared driver clock0 clock =
     rbind (assertTreasuryOperationKey key) (\<lambda>_.
     rbind (validatePreparedTreasuryOperation prepared) (\<lambda>_.
     let digest = H (pr_bytes prepared) in
     rbind (requireTreasuryOperation J key) (\<lambda>current.
     rbind (assertDriver driver current clock0) (\<lambda>_.
     if op_preparation_fenced current then Inl JournalInvariantError
     else if op_state current \<noteq> Op_intent
     then (if op_prepared_digest current = Some digest
              \<and> op_transaction_id current = Some (pr_transaction_id prepared)
              \<and> op_resolved_amount current = Some (pr_amount prepared)
              \<and> op_fee current = Some (pr_fee prepared)
              \<and> op_policy_digest current = pr_policy_digest prepared
           then Inr (J, current) else Inl JournalInvariantError)
     else if op_cancellation_requested current then Inl JournalInvariantError
     else
     rbind (requirePolicy J (op_policy_digest current)) (\<lambda>policy.
     if op_policy_digest current \<noteq> pr_policy_digest prepared then Inl PolicyReservationError
     else if op_requested_amount current \<noteq> ''max''
             \<and> op_requested_amount current \<noteq> pr_amount prepared
     then Inl JournalInvariantError
     else if BigInt (pr_fee prepared) > BigInt (op_fee_ceiling current)
     then Inl PolicyReservationError
     else
     rbind (timestamp clock) (\<lambda>now.
     let J1 = expireReservationsInternal J now in
     rbind (assertDirectTreasuryCapacity J1 policy (op_kind current) (op_destination current)
              (pr_amount prepared) (op_fee_ceiling current) now (Some key)) (\<lambda>_.
     rbind (storePreparedMaterial store (pr_bytes prepared) digest) (\<lambda>stored.
     let here = (\<lambda>r. op_state r = Op_intent \<and> \<not> op_cancellation_requested r
                     \<and> \<not> op_preparation_fenced r \<and> driver_clause driver r) in
     if operation_changes key here J1 \<noteq> 1 then Inl JournalInvariantError
     else if preparation_conflict J1 key here (pr_transaction_id prepared)
               (fst (snd stored)) (snd (snd stored))
     then Inl SqliteConstraintError
     else reread key
       (insertTreasuryOperationTransition key (Some Op_intent) Op_prepared
          ''signed_material_persisted'' now
          (update_operation key here
             (\<lambda>r. r\<lparr>op_resolved_amount := Some (pr_amount prepared),
                    op_fee := Some (pr_fee prepared),
                    op_transaction_id := Some (pr_transaction_id prepared),
                    op_prepared_digest := Some (fst stored),
                    op_prepared_ref := Some (fst (snd stored)),
                    op_prepared_byte_length := Some (snd (snd stored)),
                    op_state := Op_prepared, op_updated_at := now\<rparr>) J1))))))))))"

definition recordTreasuryPreparationRetry ::
  "journal \<Rightarrow> string \<Rightarrow> string \<Rightarrow> driver_lease option \<Rightarrow> int \<Rightarrow> int
    \<Rightarrow> (journal \<times> treasury_operation_row) result" where
  "recordTreasuryPreparationRetry J key reasonCode driver clock0 clock =
     rbind (assertTreasuryOperationKey key) (\<lambda>_.
     rbind (assertCode reasonCode) (\<lambda>_.
     rbind (requireTreasuryOperation J key) (\<lambda>current.
     rbind (assertDriver driver current clock0) (\<lambda>_.
     if op_state current \<noteq> Op_intent then Inl JournalInvariantError
     else if op_retry_count current \<ge> op_retry_limit current then Inl JournalInvariantError
     else
     rbind (timestamp clock) (\<lambda>now.
     let here = (\<lambda>r. op_state r = Op_intent \<and> op_retry_count r < op_retry_limit r
                     \<and> driver_clause driver r) in
     if operation_changes key here J \<noteq> 1 then Inl JournalInvariantError
     else reread key
       (insertTreasuryOperationTransition key (Some Op_intent) Op_intent reasonCode now
          (update_operation key here
             (\<lambda>r. r\<lparr>op_retry_count := op_retry_count r + 1, op_updated_at := now\<rparr>) J)))))))"

definition terminal_preparation_reason :: "string \<Rightarrow> bool" where
  "terminal_preparation_reason reason \<longleftrightarrow>
     reason \<in> {''invalid_destination'', ''invalid_transaction_shape'', ''insufficient_funds'',
               ''not_funded'', ''invalid_runtime_state'', ''cancelled_before_effect'',
               ''retry_exhausted''}"

definition failTreasuryOperationPreparation ::
  "journal \<Rightarrow> string \<Rightarrow> string \<Rightarrow> driver_lease option \<Rightarrow> int \<Rightarrow> int
    \<Rightarrow> (journal \<times> treasury_operation_row) result" where
  "failTreasuryOperationPreparation J key reasonCode driver clock0 clock =
     rbind (assertTreasuryOperationKey key) (\<lambda>_.
     if \<not> terminal_preparation_reason reasonCode then Inl JournalInvariantError
     else
     rbind (requireTreasuryOperation J key) (\<lambda>current.
     rbind (assertDriver driver current clock0) (\<lambda>_.
     if op_state current = Op_failed_terminal then Inr (J, current)
     else if op_state current \<noteq> Op_intent then Inl JournalInvariantError
     else
     rbind (timestamp clock) (\<lambda>now.
     let here = (\<lambda>r. op_state r = Op_intent \<and> driver_clause driver r) in
     if operation_changes key here J \<noteq> 1 then Inl JournalInvariantError
     else reread key
       (insertTreasuryOperationTransition key (Some Op_intent) Op_failed_terminal reasonCode now
          (update_operation key here
             (\<lambda>r. r\<lparr>op_state := Op_failed_terminal, op_updated_at := now\<rparr>) J))))))"

definition fenceTreasuryOperationPreparation ::
  "journal \<Rightarrow> string \<Rightarrow> string \<Rightarrow> driver_lease option \<Rightarrow> int \<Rightarrow> int
    \<Rightarrow> (journal \<times> treasury_operation_row) result" where
  "fenceTreasuryOperationPreparation J key reasonCode driver clock0 clock =
     rbind (assertTreasuryOperationKey key) (\<lambda>_.
     rbind (assertCode reasonCode) (\<lambda>_.
     rbind (requireTreasuryOperation J key) (\<lambda>current.
     rbind (assertDriver driver current clock0) (\<lambda>_.
     if op_preparation_fenced current then Inr (J, current)
     else if op_state current \<noteq> Op_intent then Inl JournalInvariantError
     else
     rbind (timestamp clock) (\<lambda>now.
     let here = (\<lambda>r. op_state r = Op_intent \<and> \<not> op_cancellation_requested r
                     \<and> \<not> op_preparation_fenced r \<and> driver_clause driver r) in
     if operation_changes key here J \<noteq> 1 then Inl JournalInvariantError
     else reread key
       (insertTreasuryOperationTransition key (Some Op_intent) Op_intent reasonCode now
          (update_operation key here
             (\<lambda>r. r\<lparr>op_preparation_fenced := True, op_updated_at := now\<rparr>) J)))))))"

section \<open>Cancellation\<close>

definition mark_cancellation ::
  "journal \<Rightarrow> string \<Rightarrow> treasury_operation_row \<Rightarrow> int
    \<Rightarrow> (journal \<times> treasury_operation_row) result" where
  "mark_cancellation J key latest clock =
     rbind (timestamp clock) (\<lambda>now.
     let here = (\<lambda>r. \<not> op_cancellation_requested r) in
     if operation_changes key here J \<noteq> 1 then Inl JournalInvariantError
     else reread key
       (insertTreasuryOperationTransition key (Some (op_state latest)) (op_state latest)
          ''cancellation_requested'' now
          (update_operation key here
             (\<lambda>r. r\<lparr>op_cancellation_requested := True, op_updated_at := now\<rparr>) J)))"

definition requestTreasuryOperationCancellation ::
  "journal \<Rightarrow> string \<Rightarrow> int \<Rightarrow> (journal \<times> treasury_operation_row) result" where
  "requestTreasuryOperationCancellation J key clock =
     rbind (assertTreasuryOperationKey key) (\<lambda>_.
     rbind (requireTreasuryOperation J key) (\<lambda>latest.
     if op_state latest = Op_completed \<or> op_state latest = Op_failed_terminal
        \<or> op_cancellation_requested latest
     then Inr (J, latest)
     else mark_cancellation J key latest clock))"

definition cancelTreasuryOperation ::
  "journal \<Rightarrow> string \<Rightarrow> int \<Rightarrow> (journal \<times> treasury_operation_row) result" where
  "cancelTreasuryOperation J key clock =
     rbind (assertTreasuryOperationKey key) (\<lambda>_.
     rbind (requireTreasuryOperation J key) (\<lambda>current.
     if op_state current = Op_completed \<or> op_state current = Op_failed_terminal
     then Inr (J, current)
     else if op_state current = Op_intent \<and> op_preparation_fenced current
     then requestTreasuryOperationCancellation J key clock
     else if op_state current = Op_intent
     then failTreasuryOperationPreparation J key ''cancelled_before_effect'' None clock clock
     else
     rbind (requireTreasuryOperation J key) (\<lambda>latest.
     if op_cancellation_requested latest then Inr (J, latest)
     else mark_cancellation J key latest clock)))"

section \<open>Submission\<close>

text \<open>\<open>driver && !driverOwns(...)\<close> where the code answers \<open>false\<close> instead of throwing.\<close>

definition driver_lost ::
  "driver_lease option \<Rightarrow> treasury_operation_row \<Rightarrow> int \<Rightarrow> bool result" where
  "driver_lost driver current clock =
     (case driver of None \<Rightarrow> Inr False
      | Some d \<Rightarrow> rbind (timestamp clock) (\<lambda>now. Inr (\<not> driverOwns current d now)))"

definition planTreasuryOperationSubmission ::
  "journal \<Rightarrow> string \<Rightarrow> driver_lease option \<Rightarrow> int \<Rightarrow> int \<Rightarrow> (journal \<times> bool) result" where
  "planTreasuryOperationSubmission J key driver clock0 clock =
     rbind (assertTreasuryOperationKey key) (\<lambda>_.
     rbind (requireTreasuryOperation J key) (\<lambda>current.
     if op_state current \<noteq> Op_prepared \<or> op_cancellation_requested current
        \<or> op_preparation_fenced current
     then Inr (J, False)
     else
     rbind (driver_lost driver current clock0) (\<lambda>lost.
     if lost then Inr (J, False)
     else
     rbind (requirePolicy J (op_policy_digest current)) (\<lambda>policy.
     case op_resolved_amount current of
       None \<Rightarrow> Inl JournalInvariantError
     | Some amount \<Rightarrow>
     if amount = [] \<or> op_fee current = None then Inl JournalInvariantError
     else
     rbind (timestamp clock) (\<lambda>now.
     let J1 = expireReservationsInternal J now in
     rbind (assertDirectTreasuryCapacity J1 policy (op_kind current) (op_destination current)
              amount (op_fee_ceiling current) now (Some key)) (\<lambda>_.
     let here = (\<lambda>r. op_state r = Op_prepared \<and> \<not> op_cancellation_requested r
                     \<and> \<not> op_preparation_fenced r \<and> driver_clause driver r) in
     if operation_changes key here J1 \<noteq> 1 then Inr (J1, False)
     else Inr
       (insertTreasuryOperationTransition key (Some Op_prepared) Op_submission_planned
          ''submission_intent_committed'' now
          (update_operation key here
             (\<lambda>r. r\<lparr>op_state := Op_submission_planned, op_updated_at := now\<rparr>) J1),
        True)))))))"

definition claimTreasuryOperationEffectCapability ::
  "journal \<Rightarrow> string \<Rightarrow> driver_lease \<Rightarrow> int \<Rightarrow> int \<Rightarrow> (journal \<times> bool) result" where
  "claimTreasuryOperationEffectCapability J key driver clock0 clock =
     rbind (assertTreasuryOperationKey key) (\<lambda>_.
     rbind (requireTreasuryOperation J key) (\<lambda>current.
     rbind (timestamp clock0) (\<lambda>now0.
     if \<not> driverOwns current driver now0 \<or> op_state current \<noteq> Op_submission_planned
        \<or> op_cancellation_requested current \<or> op_preparation_fenced current
        \<or> op_submission_in_flight current
     then Inr (J, False)
     else
     rbind (timestamp clock) (\<lambda>now.
     let here = (\<lambda>r. op_state r = Op_submission_planned \<and> \<not> op_cancellation_requested r
                     \<and> \<not> op_preparation_fenced r \<and> driver_clause (Some driver) r
                     \<and> op_capability_generation r = None \<and> \<not> op_submission_in_flight r) in
     if operation_changes key here J \<noteq> 1 then Inr (J, False)
     else Inr
       (insertTreasuryOperationTransition key (Some Op_submission_planned) Op_submission_planned
          ''submission_in_flight'' now
          (update_operation key here
             (\<lambda>r. r\<lparr>op_capability_generation := Some (dl_generation driver),
                    op_submission_in_flight := True, op_updated_at := now\<rparr>) J),
        True)))))"

definition recordTreasuryOperationSubmissionAccepted ::
  "journal \<Rightarrow> string \<Rightarrow> string \<Rightarrow> driver_lease option \<Rightarrow> int \<Rightarrow> int
    \<Rightarrow> (journal \<times> treasury_operation_row) result" where
  "recordTreasuryOperationSubmissionAccepted J key transactionId driver clock0 clock =
     rbind (assertTreasuryOperationKey key) (\<lambda>_.
     rbind (assertTransactionId transactionId) (\<lambda>_.
     rbind (requireTreasuryOperation J key) (\<lambda>current.
     rbind (assertDriver driver current clock0) (\<lambda>_.
     if op_transaction_id current \<noteq> Some transactionId then Inl JournalInvariantError
     else if op_state current \<in> {Op_submitted, Op_observed, Op_completed} then Inr (J, current)
     else if op_state current \<noteq> Op_submission_planned then Inl JournalInvariantError
     else if op_preparation_fenced current
             \<or> (case driver of None \<Rightarrow> False
                 | Some d \<Rightarrow> op_capability_generation current \<noteq> Some (dl_generation d))
     then Inl JournalInvariantError
     else
     rbind (timestamp clock) (\<lambda>now.
     let here = (\<lambda>r. op_state r = Op_submission_planned \<and> \<not> op_preparation_fenced r
                     \<and> op_submission_in_flight r \<and> op_capability_generation r \<noteq> None
                     \<and> driver_clause driver r) in
     if operation_changes key here J \<noteq> 1 then Inl JournalInvariantError
     else reread key
       (insertTreasuryOperationTransition key (Some Op_submission_planned) Op_submitted
          ''rpc_accepted'' now
          (update_operation key here
             (\<lambda>r. r\<lparr>op_state := Op_submitted, op_submission_in_flight := False,
                    op_updated_at := now\<rparr>) J)))))))"

section \<open>Observation and completion\<close>

text \<open>\<open>INSERT OR IGNORE\<close> under \<open>UNIQUE (operation_key, status, detail_digest)\<close>.\<close>

definition insert_operation_observation :: "operation_observation_row \<Rightarrow> journal \<Rightarrow> journal" where
  "insert_operation_observation ob J =
     (if list_ex (\<lambda>x. oo_key x = oo_key ob \<and> oo_status x = oo_status ob
                      \<and> oo_detail_digest x = oo_detail_digest ob) (operation_observations J)
      then J else J\<lparr>operation_observations := operation_observations J @ [ob]\<rparr>)"

text \<open>
  \<open>ORDER BY sequence DESC LIMIT 1\<close>: the last superseding observation. The detail of an
  observation is passed as its canonical JSON text.
\<close>

definition last_superseded :: "journal \<Rightarrow> string \<Rightarrow> operation_observation_row option" where
  "last_superseded J key =
     find_row (\<lambda>x. oo_key x = key \<and> oo_status x = Obs_superseded) (rev (operation_observations J))"

definition recordTreasuryOperationObservation ::
  "(string \<Rightarrow> string) \<Rightarrow> journal \<Rightarrow> string \<Rightarrow> observation_status \<Rightarrow> string
    \<Rightarrow> driver_lease option \<Rightarrow> int \<Rightarrow> int \<Rightarrow> (journal \<times> treasury_operation_row) result" where
  "recordTreasuryOperationObservation H J key status detailJson driver clock0 clock =
     rbind (assertTreasuryOperationKey key) (\<lambda>_.
     if length detailJson > 16384 then Inl JournalInvariantError
     else
     let detailDigest = H detailJson in
     rbind (requireTreasuryOperation J key) (\<lambda>current.
     if op_state current = Op_failed_terminal \<and> status = Obs_superseded
     then (case last_superseded J key of
             None \<Rightarrow> Inl JournalInvariantError
           | Some existing \<Rightarrow>
               if oo_detail_digest existing \<noteq> detailDigest
                  \<or> oo_detail_json existing \<noteq> detailJson
               then Inl JournalInvariantError else Inr (J, current))
     else if op_state current \<notin> {Op_submission_planned, Op_submitted, Op_observed}
     then Inl JournalInvariantError
     else
     rbind (assertDriver driver current clock0) (\<lambda>_.
     rbind (timestamp clock) (\<lambda>now.
     let J1 = insert_operation_observation
                \<lparr>oo_key = key, oo_status = status, oo_detail_digest = detailDigest,
                 oo_detail_json = detailJson, oo_observed_at = now\<rparr> J;
         here = (\<lambda>r. op_state r = op_state current \<and> driver_clause driver r) in
     if status = Obs_pending \<or> op_state current = Op_observed then reread key J1
     else if status = Obs_superseded
     then (if operation_changes key here J1 \<noteq> 1 then Inl JournalInvariantError
           else reread key
             (insertTreasuryOperationTransition key (Some (op_state current)) Op_failed_terminal
                ''mutually_exclusive_chain_effect_accepted'' now
                (update_operation key here
                   (\<lambda>r. r\<lparr>op_state := Op_failed_terminal, op_submission_in_flight := False,
                          op_capability_generation := None, op_completed_at := Some now,
                          op_updated_at := now\<rparr>) J1)))
     else if status = Obs_not_submitted then reread key J1
     else if operation_changes key here J1 \<noteq> 1 then Inl JournalInvariantError
     else reread key
       (insertTreasuryOperationTransition key (Some (op_state current)) Op_observed
          ''chain_observed'' now
          (update_operation key here
             (\<lambda>r. r\<lparr>op_state := Op_observed, op_submission_in_flight := False,
                    op_updated_at := now\<rparr>) J1))))))"

definition completeTreasuryOperation ::
  "journal \<Rightarrow> string \<Rightarrow> driver_lease option \<Rightarrow> int \<Rightarrow> int
    \<Rightarrow> (journal \<times> treasury_operation_row) result" where
  "completeTreasuryOperation J key driver clock0 clock =
     rbind (assertTreasuryOperationKey key) (\<lambda>_.
     rbind (requireTreasuryOperation J key) (\<lambda>current.
     if op_state current = Op_completed then Inr (J, current)
     else if op_state current \<noteq> Op_observed then Inl JournalInvariantError
     else
     rbind (assertDriver driver current clock0) (\<lambda>_.
     rbind (timestamp clock) (\<lambda>now.
       reread key
         (insertTreasuryOperationTransition key (Some Op_observed) Op_completed
            ''local_commit_complete'' now
            (update_operation key (\<lambda>r. op_state r = Op_observed \<and> driver_clause driver r)
               (\<lambda>r. r\<lparr>op_state := Op_completed, op_updated_at := now,
                      op_completed_at := Some now\<rparr>) J))))))"

end
