(* ===== verification/Operation_Steps.thy ===== *)
theory Operation_Steps
  imports Treasury_Operations
begin

text \<open>
  What a successful call of a Treasury Operation method does, as an abstract step: it leaves
  the table of operations alone, adds a fresh intent, or changes one row in one of the ways of
  \<open>row_change\<close>. The refinement lemmas show every method of \<open>Treasury_Operations\<close> takes such a
  step; the invariants are then proved once per step.
\<close>

section \<open>Reading\<close>

definition row_readable :: "treasury_operation_row \<Rightarrow> bool" where
  "row_readable r \<longleftrightarrow> treasuryOperationFromRow r = Inr r"

lemma treasuryOperationFromRow_eq [simp]:
  "treasuryOperationFromRow r = Inr r' \<longleftrightarrow> r' = r \<and> row_readable r"
proof -
  have "treasuryOperationFromRow r = Inr r' \<Longrightarrow> r' = r"
    by (auto simp: treasuryOperationFromRow_def)
  then show ?thesis by (auto simp: row_readable_def)
qed

lemma assertTreasuryOperationKey_eq [simp]:
  "assertTreasuryOperationKey k = Inr () \<longleftrightarrow> is_operation_key k"
  by (simp add: assertTreasuryOperationKey_def)

definition operation_at :: "journal \<Rightarrow> string \<Rightarrow> treasury_operation_row option" where
  "operation_at J key = find_row (\<lambda>r. op_key r = key) (operations J)"

lemma requireTreasuryOperation_eq [simp]:
  "requireTreasuryOperation J key = Inr r
     \<longleftrightarrow> is_operation_key key \<and> operation_at J key = Some r \<and> row_readable r"
  by (auto simp: requireTreasuryOperation_def findTreasuryOperation_def operation_at_def
      split: option.splits)

lemma findTreasuryOperation_eq:
  "findTreasuryOperation J key = Inr x
     \<longleftrightarrow> is_operation_key key \<and> operation_at J key = x
        \<and> (\<forall>r. x = Some r \<longrightarrow> row_readable r)"
  by (auto simp: findTreasuryOperation_def operation_at_def split: option.splits)

lemma operation_at_key: "operation_at J k = Some r \<Longrightarrow> op_key r = k \<and> r \<in> set (operations J)"
  by (auto simp: operation_at_def dest: find_row_SomeD)

lemma reread_eq [simp]:
  "reread key J = Inr (J', r)
     \<longleftrightarrow> J' = J \<and> is_operation_key key \<and> operation_at J key = Some r \<and> row_readable r"
  by (auto simp: reread_def)

section \<open>The ways a row changes\<close>

definition log_entry ::
  "treasury_operation_row \<Rightarrow> treasury_operation_state \<Rightarrow> string \<Rightarrow> int \<Rightarrow> operation_transition_row"
where
  "log_entry r to_state reason now =
     \<lparr>ot_key = op_key r, ot_from = Some (op_state r), ot_to = to_state, ot_reason = reason,
      ot_created_at = now\<rparr>"

inductive row_change ::
  "int \<Rightarrow> treasury_operation_row \<Rightarrow> treasury_operation_row \<Rightarrow> operation_transition_row option \<Rightarrow> bool"
  for now where
  driver_claimed:
    "unresolved_state (op_state r) \<Longrightarrow>
     (\<forall>h. op_driver_owner r = Some h \<longrightarrow> lease_live now r \<longrightarrow> h = owner) \<Longrightarrow>
     g = (if op_driver_owner r = Some owner \<and> lease_live now r then op_driver_generation r
          else op_driver_generation r + 1) \<Longrightarrow>
     row_change now r
       (r\<lparr>op_driver_owner := Some owner, op_driver_generation := g,
          op_driver_lease_expires := Some t,
          op_capability_generation :=
            (if op_state r \<in> {Op_intent, Op_prepared} then None else op_capability_generation r),
          op_updated_at := now\<rparr>) None"
| driver_renewed:
    "driver_clause (Some d) r \<Longrightarrow> lease_live now r \<Longrightarrow>
     row_change now r (r\<lparr>op_driver_lease_expires := Some t, op_updated_at := now\<rparr>) None"
| driver_released:
    "driver_clause (Some d) r \<Longrightarrow>
     row_change now r
       (r\<lparr>op_driver_owner := None, op_driver_lease_expires := None, op_updated_at := now\<rparr>) None"
| prepared:
    "op_state r = Op_intent \<Longrightarrow> \<not> op_cancellation_requested r \<Longrightarrow> \<not> op_preparation_fenced r \<Longrightarrow>
     op_prepared_digest r = None \<Longrightarrow>
     (op_requested_amount r \<noteq> ''max'' \<longrightarrow> amount = op_requested_amount r) \<Longrightarrow>
     canonical_decimal amount \<Longrightarrow> 0 < BigInt amount \<Longrightarrow>
     BigInt fee \<le> BigInt (op_fee_ceiling r) \<Longrightarrow>
     row_change now r
       (r\<lparr>op_resolved_amount := Some amount, op_fee := Some fee, op_transaction_id := Some tx,
          op_prepared_digest := Some dig, op_prepared_ref := Some ref,
          op_prepared_byte_length := Some len, op_state := Op_prepared, op_updated_at := now\<rparr>)
       (Some (log_entry r Op_prepared ''signed_material_persisted'' now))"
| retried:
    "op_state r = Op_intent \<Longrightarrow> op_retry_count r < op_retry_limit r \<Longrightarrow>
     row_change now r (r\<lparr>op_retry_count := op_retry_count r + 1, op_updated_at := now\<rparr>)
       (Some (log_entry r Op_intent reason now))"
| preparation_failed:
    "op_state r = Op_intent \<Longrightarrow>
     row_change now r (r\<lparr>op_state := Op_failed_terminal, op_updated_at := now\<rparr>)
       (Some (log_entry r Op_failed_terminal reason now))"
| fenced:
    "op_state r = Op_intent \<Longrightarrow> \<not> op_cancellation_requested r \<Longrightarrow>
     row_change now r (r\<lparr>op_preparation_fenced := True, op_updated_at := now\<rparr>)
       (Some (log_entry r Op_intent reason now))"
| cancellation_requested:
    "unresolved_state (op_state r) \<Longrightarrow> \<not> op_cancellation_requested r \<Longrightarrow>
     row_change now r (r\<lparr>op_cancellation_requested := True, op_updated_at := now\<rparr>)
       (Some (log_entry r (op_state r) ''cancellation_requested'' now))"
| planned:
    "op_state r = Op_prepared \<Longrightarrow> \<not> op_cancellation_requested r \<Longrightarrow> \<not> op_preparation_fenced r \<Longrightarrow>
     row_change now r (r\<lparr>op_state := Op_submission_planned, op_updated_at := now\<rparr>)
       (Some (log_entry r Op_submission_planned ''submission_intent_committed'' now))"
| capability_claimed:
    "op_state r = Op_submission_planned \<Longrightarrow> \<not> op_cancellation_requested r \<Longrightarrow>
     \<not> op_preparation_fenced r \<Longrightarrow> driver_clause (Some d) r \<Longrightarrow>
     op_capability_generation r = None \<Longrightarrow> \<not> op_submission_in_flight r \<Longrightarrow>
     row_change now r
       (r\<lparr>op_capability_generation := Some (dl_generation d), op_submission_in_flight := True,
          op_updated_at := now\<rparr>)
       (Some (log_entry r Op_submission_planned ''submission_in_flight'' now))"
| submission_accepted:
    "op_state r = Op_submission_planned \<Longrightarrow> \<not> op_preparation_fenced r \<Longrightarrow>
     op_submission_in_flight r \<Longrightarrow> op_capability_generation r \<noteq> None \<Longrightarrow>
     row_change now r
       (r\<lparr>op_state := Op_submitted, op_submission_in_flight := False, op_updated_at := now\<rparr>)
       (Some (log_entry r Op_submitted ''rpc_accepted'' now))"
| superseded:
    "op_state r \<in> {Op_submission_planned, Op_submitted} \<Longrightarrow>
     row_change now r
       (r\<lparr>op_state := Op_failed_terminal, op_submission_in_flight := False,
          op_capability_generation := None, op_completed_at := Some now, op_updated_at := now\<rparr>)
       (Some (log_entry r Op_failed_terminal ''mutually_exclusive_chain_effect_accepted'' now))"
| observed:
    "op_state r \<in> {Op_submission_planned, Op_submitted} \<Longrightarrow>
     row_change now r
       (r\<lparr>op_state := Op_observed, op_submission_in_flight := False, op_updated_at := now\<rparr>)
       (Some (log_entry r Op_observed ''chain_observed'' now))"
| completed:
    "op_state r = Op_observed \<Longrightarrow>
     row_change now r
       (r\<lparr>op_state := Op_completed, op_updated_at := now, op_completed_at := Some now\<rparr>)
       (Some (log_entry r Op_completed ''local_commit_complete'' now))"

text \<open>
  The tables an operation method may not touch, or may only expire reservations of;
  \<open>other_tables\<close> is the journal without the tables it may touch.
\<close>

definition other_tables :: "journal \<Rightarrow> journal" where
  "other_tables J =
     J\<lparr>operations := [], operation_log := [], operation_observations := [], reservations := []\<rparr>"

lemma other_tables_update [simp]:
  "other_tables (J\<lparr>operations := a\<rparr>) = other_tables J"
  "other_tables (J\<lparr>operation_log := b\<rparr>) = other_tables J"
  "other_tables (J\<lparr>operation_observations := c\<rparr>) = other_tables J"
  "other_tables (J\<lparr>reservations := d\<rparr>) = other_tables J"
  by (simp_all add: other_tables_def)

definition rest_kept :: "int \<Rightarrow> journal \<Rightarrow> journal \<Rightarrow> bool" where
  "rest_kept now J J' \<longleftrightarrow>
     reservations J' \<in> {reservations J, reservations (expireReservationsInternal J now)}
     \<and> settlements J' = settlements J \<and> recoveries J' = recoveries J
     \<and> policies J' = policies J \<and> active J' = active J \<and> leases J' = leases J
     \<and> effects J' = effects J \<and> transfers J' = transfers J
     \<and> other_tables J' = other_tables J"

text \<open>A successful capacity check for an amount under a recorded policy.\<close>

definition capacity_granted ::
  "journal \<Rightarrow> int \<Rightarrow> string option \<Rightarrow> treasury_operation_row \<Rightarrow> bool" where
  "capacity_granted J now exclude r \<longleftrightarrow>
     (\<exists>p \<in> set (policies J).
        policyCapacityUsedInternal J now exclude + operation_amount r + BigInt (op_fee_ceiling r)
          \<le> BigInt (pol_max_per_hour p)
        \<and> operation_amount r \<le> BigInt (pol_max_per_payment p)
        \<and> (\<not> fee_only (op_kind r) \<longrightarrow> pol_allowlist p \<noteq> []
             \<longrightarrow> op_destination r \<in> set (pol_allowlist p)))"

inductive operation_delta :: "int \<Rightarrow> journal \<Rightarrow> journal \<Rightarrow> bool" for now where
  unchanged:
    "operations J' = operations J \<Longrightarrow> operation_log J' = operation_log J \<Longrightarrow>
     rest_kept now J J' \<Longrightarrow> operation_delta now J J'"
| added:
    "validateTreasuryOperationIntent i = Inr () \<Longrightarrow> operation_at J (in_key i) = None \<Longrightarrow>
     \<not> operation_insert_conflict J (new_operation i now) \<Longrightarrow>
     capacity_granted (expireReservationsInternal J now) now None (new_operation i now) \<Longrightarrow>
     0 \<le> now \<Longrightarrow>
     operations J' = operations J @ [new_operation i now] \<Longrightarrow>
     operation_log J' = operation_log J @
       [\<lparr>ot_key = in_key i, ot_from = None, ot_to = Op_intent,
         ot_reason = ''intent_and_capacity_recorded'', ot_created_at = now\<rparr>] \<Longrightarrow>
     reservations J' = reservations (expireReservationsInternal J now) \<Longrightarrow>
     rest_kept now J J' \<Longrightarrow> operation_delta now J J'"
| changed:
    "operation_at J (op_key r) = Some r \<Longrightarrow> row_readable r \<Longrightarrow> row_change now r r' entry \<Longrightarrow>
     row_readable r' \<Longrightarrow>
     operations J' = update_rows (\<lambda>x. op_key x = op_key r) (\<lambda>_. r') (operations J) \<Longrightarrow>
     operation_log J' = operation_log J @ (case entry of None \<Rightarrow> [] | Some e \<Rightarrow> [e]) \<Longrightarrow>
     rest_kept now J J' \<Longrightarrow> operation_delta now J J'"

section \<open>What a method returns is the stored row\<close>

text \<open>Every method that returns a record returns the readable row its journal now holds.\<close>

definition returns_stored :: "string \<Rightarrow> journal \<Rightarrow> treasury_operation_row \<Rightarrow> bool" where
  "returns_stored key J' r \<longleftrightarrow> operation_at J' key = Some r \<and> row_readable r"

lemma claim_intent_stored:
  "claimTreasuryOperationIntent J i clock = Inr (J', r) \<Longrightarrow> returns_stored (in_key i) J' r"
  unfolding claimTreasuryOperationIntent_def Let_def returns_stored_def
  by (auto simp: findTreasuryOperation_eq split: option.splits)

lemma claim_driver_stored:
  "claimTreasuryOperationDriver J key owner ttl clock = Inr (J', c) \<Longrightarrow>
     returns_stored key J' (dc_record c)"
  unfolding claimTreasuryOperationDriver_def Let_def returns_stored_def
  by (auto split: if_splits)

lemma renew_stored:
  "renewTreasuryOperationDriver J d key clock = Inr (J', r) \<Longrightarrow> returns_stored key J' r"
  unfolding renewTreasuryOperationDriver_def Let_def returns_stored_def by simp

lemma release_stored:
  "releaseTreasuryOperationDriver J d key clock = Inr (J', r) \<Longrightarrow> returns_stored key J' r"
  unfolding releaseTreasuryOperationDriver_def returns_stored_def by simp

lemma prepare_stored:
  "recordPreparedTreasuryOperation H store J key p driver clock0 clock = Inr (J', r) \<Longrightarrow>
     returns_stored key J' r"
  unfolding recordPreparedTreasuryOperation_def Let_def returns_stored_def
  by (auto split: if_splits)

lemma retry_stored:
  "recordTreasuryPreparationRetry J key reason driver clock0 clock = Inr (J', r) \<Longrightarrow>
     returns_stored key J' r"
  unfolding recordTreasuryPreparationRetry_def Let_def returns_stored_def by auto

lemma fail_stored:
  "failTreasuryOperationPreparation J key reason driver clock0 clock = Inr (J', r) \<Longrightarrow>
     returns_stored key J' r"
  unfolding failTreasuryOperationPreparation_def Let_def returns_stored_def
  by (auto split: if_splits)

lemma fence_stored:
  "fenceTreasuryOperationPreparation J key reason driver clock0 clock = Inr (J', r) \<Longrightarrow>
     returns_stored key J' r"
  unfolding fenceTreasuryOperationPreparation_def Let_def returns_stored_def
  by (auto split: if_splits)

lemma mark_cancellation_stored:
  "mark_cancellation J key c clock = Inr (J', r) \<Longrightarrow> returns_stored key J' r"
  unfolding mark_cancellation_def Let_def returns_stored_def by auto

lemma request_cancellation_stored:
  "requestTreasuryOperationCancellation J key clock = Inr (J', r) \<Longrightarrow> returns_stored key J' r"
  using mark_cancellation_stored unfolding requestTreasuryOperationCancellation_def
  by (auto simp: returns_stored_def split: if_splits)

lemma cancel_stored:
  "cancelTreasuryOperation J key clock = Inr (J', r) \<Longrightarrow> returns_stored key J' r"
  using mark_cancellation_stored request_cancellation_stored fail_stored
  unfolding cancelTreasuryOperation_def by (auto simp: returns_stored_def split: if_splits)

lemma accepted_stored:
  "recordTreasuryOperationSubmissionAccepted J key tx driver clock0 clock = Inr (J', r) \<Longrightarrow>
     returns_stored key J' r"
  unfolding recordTreasuryOperationSubmissionAccepted_def Let_def returns_stored_def
  by (auto split: if_splits)

lemma observation_stored:
  "recordTreasuryOperationObservation H J key status detail driver clock0 clock = Inr (J', r) \<Longrightarrow>
     returns_stored key J' r"
  unfolding recordTreasuryOperationObservation_def Let_def returns_stored_def
  by (auto split: if_splits option.splits)

lemma complete_stored:
  "completeTreasuryOperation J key driver clock0 clock = Inr (J', r) \<Longrightarrow> returns_stored key J' r"
  unfolding completeTreasuryOperation_def returns_stored_def by (auto split: if_splits)

section \<open>The invariant of a row\<close>

text \<open>
  Beyond being readable: a held driver lease has a generation, an intent carries nothing
  prepared, everything from \<open>prepared\<close> on carries all of it with the requested amount, the
  fee never exceeds the ceiling the capacity was reserved with, retries stay in their limit,
  a fenced preparation never advances, and a submission holds a capability.
\<close>

definition row_ok :: "treasury_operation_row \<Rightarrow> bool" where
  "row_ok r \<longleftrightarrow>
     row_readable r
     \<and> (op_driver_owner r \<noteq> None \<longrightarrow> 1 \<le> op_driver_generation r)
     \<and> (op_state r = Op_intent \<longrightarrow>
          op_prepared_digest r = None \<and> op_fee r = None \<and> op_transaction_id r = None
          \<and> op_resolved_amount r
              = (if op_requested_amount r = ''max'' then None else Some (op_requested_amount r)))
     \<and> (op_state r \<in> {Op_prepared, Op_submission_planned, Op_submitted, Op_observed, Op_completed}
          \<longrightarrow> op_prepared_digest r \<noteq> None \<and> op_fee r \<noteq> None \<and> op_transaction_id r \<noteq> None
              \<and> op_resolved_amount r \<noteq> None
              \<and> (op_requested_amount r \<noteq> ''max'' \<longrightarrow>
                   op_resolved_amount r = Some (op_requested_amount r)))
     \<and> (\<forall>f. op_fee r = Some f \<longrightarrow> BigInt f \<le> BigInt (op_fee_ceiling r))
     \<and> op_retry_count r \<le> op_retry_limit r
     \<and> (op_preparation_fenced r \<longrightarrow> op_state r \<in> {Op_intent, Op_failed_terminal})
     \<and> (op_state r = Op_submitted \<longrightarrow> op_capability_generation r \<noteq> None)
     \<and> (op_state r = Op_completed \<longrightarrow> op_completed_at r \<noteq> None)"

lemma readable_generation: "row_readable r \<Longrightarrow> 0 \<le> op_driver_generation r"
  by (simp add: row_readable_def treasuryOperationFromRow_def)

lemma claimed_row_ok:
  "row_ok r \<Longrightarrow> 1 \<le> g \<Longrightarrow>
   row_readable (r\<lparr>op_driver_owner := w, op_driver_generation := g, op_driver_lease_expires := t,
                   op_capability_generation :=
                     (if op_state r \<in> {Op_intent, Op_prepared} then None
                      else op_capability_generation r), op_updated_at := now\<rparr>) \<Longrightarrow>
   row_ok (r\<lparr>op_driver_owner := w, op_driver_generation := g, op_driver_lease_expires := t,
             op_capability_generation :=
               (if op_state r \<in> {Op_intent, Op_prepared} then None
                else op_capability_generation r), op_updated_at := now\<rparr>)"
  by (cases "op_state r") (simp_all add: row_ok_def)

lemma row_change_ok:
  assumes "row_change now r r' entry" and "row_ok r" and "row_readable r'"
  shows "row_ok r'"
  using assms(1)
proof cases
  case (driver_claimed owner g t)
  have "0 \<le> op_driver_generation r" using assms(2) readable_generation by (simp add: row_ok_def)
  moreover have "op_driver_owner r \<noteq> None \<Longrightarrow> 1 \<le> op_driver_generation r"
    using assms(2) by (simp add: row_ok_def)
  ultimately have "1 \<le> g" using driver_claimed(5) by (simp split: if_splits)
  then show ?thesis
    using claimed_row_ok [OF assms(2)] assms(3) unfolding driver_claimed(1) by blast
next
  case superseded
  with assms(2,3) show ?thesis by (cases "op_state r") (simp_all add: row_ok_def)
next
  case observed
  with assms(2,3) show ?thesis by (cases "op_state r") (simp_all add: row_ok_def)
qed (use assms(2,3) in \<open>simp_all add: row_ok_def\<close>)

end
