(* ===== verification/Operation_Refinement.thy ===== *)
theory Operation_Refinement
  imports Operation_Steps
begin

text \<open>
  Every method of \<open>Treasury_Operations\<close> refines \<open>operation_delta\<close>: one lemma per method.
\<close>

definition operation_keys_ok :: "journal \<Rightarrow> bool" where
  "operation_keys_ok J \<longleftrightarrow> distinct (map op_key (operations J))"

lemma operation_at_unique:
  "operation_keys_ok J \<Longrightarrow> operation_at J k = Some c \<Longrightarrow> r \<in> set (operations J) \<Longrightarrow> op_key r = k \<Longrightarrow> r = c"
  using find_row_key_unique [of op_key "operations J" r]
  by (auto simp: operation_keys_ok_def operation_at_def)

lemma update_at:
  assumes "operation_keys_ok J" and "operation_at J k = Some c"
  shows "operations (update_operation k cond f J)
     = (if cond c then update_rows (\<lambda>x. op_key x = k) (\<lambda>_. f c) (operations J) else operations J)"
proof -
  have "\<And>r. r \<in> set (operations J) \<Longrightarrow> op_key r = k \<Longrightarrow> r = c"
    using operation_at_unique assms by blast
  then show ?thesis
    by (auto simp: update_operation_def update_rows_def intro!: map_idI)
qed

lemma update_operation_at:
  assumes "operation_at J k = Some c" and "cond c" and "\<And>x. op_key (f x) = op_key x"
  shows "operation_at (update_operation k cond f J) k = Some (f c)"
  using assms operation_at_key [OF assms(1)]
  by (simp add: operation_at_def update_operation_def find_row_update_rows)

lemma operation_changes_iff:
  assumes "operation_keys_ok J" and "operation_at J k = Some c"
  shows "operation_changes k cond J = 1 \<longleftrightarrow> cond c"
proof
  assume "operation_changes k cond J = 1"
  then have "0 < operation_changes k cond J" by simp
  then obtain r where "r \<in> set (operations J)" "op_key r = k" "cond r"
    unfolding operation_changes_def changes_pos_iff by blast
  then show "cond c" using operation_at_unique [OF assms] by blast
next
  assume "cond c"
  have c: "c \<in> set (operations J)" "op_key c = k" using operation_at_key assms(2) by auto
  have "changes (\<lambda>r. op_key r = k \<and> cond r) (operations J) = 1"
    by (rule changes_eq_1_key [where key = op_key and r = c])
      (use assms(1) c \<open>cond c\<close> in \<open>auto simp: operation_keys_ok_def\<close>)
  then show "operation_changes k cond J = 1" by (simp add: operation_changes_def)
qed

lemma update_operation_rest [simp]:
  "operation_log (update_operation k cond f J) = operation_log J"
  "reservations (update_operation k cond f J) = reservations J"
  "settlements (update_operation k cond f J) = settlements J"
  "recoveries (update_operation k cond f J) = recoveries J"
  "policies (update_operation k cond f J) = policies J"
  "active (update_operation k cond f J) = active J"
  "leases (update_operation k cond f J) = leases J"
  "effects (update_operation k cond f J) = effects J"
  "transfers (update_operation k cond f J) = transfers J"
  "other_tables (update_operation k cond f J) = other_tables J"
  by (simp_all add: update_operation_def)

lemma insert_transition_rest [simp]:
  "operation_at (insertTreasuryOperationTransition k a b c d J) = operation_at J"
  "operations (insertTreasuryOperationTransition k a b c d J) = operations J"
  "reservations (insertTreasuryOperationTransition k a b c d J) = reservations J"
  "settlements (insertTreasuryOperationTransition k a b c d J) = settlements J"
  "recoveries (insertTreasuryOperationTransition k a b c d J) = recoveries J"
  "policies (insertTreasuryOperationTransition k a b c d J) = policies J"
  "active (insertTreasuryOperationTransition k a b c d J) = active J"
  "leases (insertTreasuryOperationTransition k a b c d J) = leases J"
  "effects (insertTreasuryOperationTransition k a b c d J) = effects J"
  "transfers (insertTreasuryOperationTransition k a b c d J) = transfers J"
  "other_tables (insertTreasuryOperationTransition k a b c d J) = other_tables J"
  "operation_log (insertTreasuryOperationTransition k a b c d J) = operation_log J @
     [\<lparr>ot_key = k, ot_from = a, ot_to = b, ot_reason = c, ot_created_at = d\<rparr>]"
  by (simp_all add: insertTreasuryOperationTransition_def operation_at_def fun_eq_iff)

lemma insert_observation_rest [simp]:
  "operations (insert_operation_observation ob J) = operations J"
  "operation_log (insert_operation_observation ob J) = operation_log J"
  "reservations (insert_operation_observation ob J) = reservations J"
  "settlements (insert_operation_observation ob J) = settlements J"
  "recoveries (insert_operation_observation ob J) = recoveries J"
  "policies (insert_operation_observation ob J) = policies J"
  "active (insert_operation_observation ob J) = active J"
  "leases (insert_operation_observation ob J) = leases J"
  "effects (insert_operation_observation ob J) = effects J"
  "transfers (insert_operation_observation ob J) = transfers J"
  "other_tables (insert_operation_observation ob J) = other_tables J"
  by (simp_all add: insert_operation_observation_def)

lemma expire_rest [simp]:
  "operations (expireReservationsInternal J now) = operations J"
  "operation_log (expireReservationsInternal J now) = operation_log J"
  "settlements (expireReservationsInternal J now) = settlements J"
  "recoveries (expireReservationsInternal J now) = recoveries J"
  "policies (expireReservationsInternal J now) = policies J"
  "active (expireReservationsInternal J now) = active J"
  "leases (expireReservationsInternal J now) = leases J"
  "effects (expireReservationsInternal J now) = effects J"
  "transfers (expireReservationsInternal J now) = transfers J"
  "other_tables (expireReservationsInternal J now) = other_tables J"
  "operation_at (expireReservationsInternal J now) = operation_at J"
  "operation_keys_ok (expireReservationsInternal J now) = operation_keys_ok J"
  by (simp_all add: expireReservationsInternal_def operation_at_def operation_keys_ok_def fun_eq_iff)

lemma observation_at [simp]:
  "operation_at (insert_operation_observation ob J) = operation_at J"
  "operation_keys_ok (insert_operation_observation ob J) = operation_keys_ok J"
  by (simp_all add: operation_at_def operation_keys_ok_def fun_eq_iff)

lemma rest_kept_refl [simp]:
  "rest_kept now J J" "rest_kept now J (expireReservationsInternal J now)"
  by (simp_all add: rest_kept_def)

text \<open>How a method that changes the row it has read ends.\<close>

lemma changed_by_update:
  assumes keys: "operation_keys_ok J1" and ops: "operations J1 = operations J"
    and "operation_log J1 = operation_log J" and "rest_kept now J J1"
    and at: "operation_at J k = Some c" and "row_readable c" and "cond c"
    and "row_change now c (f c) (Some \<lparr>ot_key = k, ot_from = a, ot_to = b, ot_reason = reason,
                                       ot_created_at = now\<rparr>)"
    and "row_readable (f c)"
  shows "operation_delta now J
           (insertTreasuryOperationTransition k a b reason now (update_operation k cond f J1))"
proof (rule operation_delta.changed [where r = c and r' = "f c"
      and entry = "Some \<lparr>ot_key = k, ot_from = a, ot_to = b, ot_reason = reason,
                         ot_created_at = now\<rparr>"])
  have k: "op_key c = k" using operation_at_key at by blast
  have at1: "operation_at J1 k = Some c" using at ops by (simp add: operation_at_def)
  show "operation_at J (op_key c) = Some c" using at k by simp
  show "operations (insertTreasuryOperationTransition k a b reason now (update_operation k cond f J1))
      = update_rows (\<lambda>x. op_key x = op_key c) (\<lambda>_. f c) (operations J)"
    using update_at [OF keys at1] \<open>cond c\<close> ops k by simp
  show "rest_kept now J
      (insertTreasuryOperationTransition k a b reason now (update_operation k cond f J1))"
    using assms(4) by (simp add: rest_kept_def)
qed (use assms in simp_all)

lemma changed_silently:
  assumes keys: "operation_keys_ok J"
    and at: "operation_at J k = Some c" and "row_readable c" and "cond c"
    and "row_change now c (f c) None" and "row_readable (f c)"
  shows "operation_delta now J (update_operation k cond f J)"
proof (rule operation_delta.changed [where r = c and r' = "f c" and entry = None])
  have k: "op_key c = k" using operation_at_key at by blast
  show "operation_at J (op_key c) = Some c" using at k by simp
  show "operations (update_operation k cond f J)
      = update_rows (\<lambda>x. op_key x = op_key c) (\<lambda>_. f c) (operations J)"
    using update_at [OF keys at] \<open>cond c\<close> k by simp
  show "rest_kept now J (update_operation k cond f J)" by (simp add: rest_kept_def)
qed (use assms in simp_all)

lemma same_journal: "operation_delta now J J"
  by (rule operation_delta.unchanged) simp_all

lemma assertDriver_clause: "assertDriver driver c clock = Inr () \<Longrightarrow> driver_clause driver c"
  by (cases driver) (auto simp: assertDriver_def driver_clause_def driverOwns_def)

definition operations_readable :: "journal \<Rightarrow> bool" where
  "operations_readable J \<longleftrightarrow> (\<forall>r \<in> set (operations J). row_readable r)"

lemma changes_at:
  assumes "operation_changes k cond J = 1"
  obtains c where "operation_at J k = Some c"
proof -
  have "0 < operation_changes k cond J" using assms by simp
  then have "\<exists>r \<in> set (operations J). op_key r = k"
    unfolding operation_changes_def changes_pos_iff by blast
  then have "operation_at J k \<noteq> None"
    unfolding operation_at_def find_row_None_iff by blast
  then show thesis using that by blast
qed

section \<open>The driver lease\<close>

lemma renew_delta:
  assumes keys: "operation_keys_ok J" and ok: "operations_readable J"
    and run: "renewTreasuryOperationDriver J d key clock = Inr (J', r)"
  shows "operation_delta clock J J'"
proof -
  let ?here = "\<lambda>r. driver_clause (Some d) r \<and> lease_live clock r"
  let ?f = "\<lambda>r. r\<lparr>op_driver_lease_expires := Some (clock + 60000), op_updated_at := clock\<rparr>"
  from run have n: "operation_changes key ?here J = 1"
    and J': "J' = update_operation key ?here ?f J"
    unfolding renewTreasuryOperationDriver_def Let_def by simp_all
  obtain c where c: "operation_at J key = Some c" using n by (rule changes_at)
  have here: "?here c" using iffD1 [OF operation_changes_iff [OF keys c] n] by simp
  then have "row_change clock c (?f c) None" by (intro driver_renewed) auto
  moreover have "row_readable c" using ok c by (auto simp: operations_readable_def dest: operation_at_key)
  moreover have "row_readable (?f c)"
    using renew_stored [OF run] update_operation_at [OF c, of ?here ?f] here
    unfolding returns_stored_def J' by simp
  ultimately show ?thesis
    unfolding J' using here by (intro changed_silently [OF keys c])
qed

lemma release_delta:
  assumes keys: "operation_keys_ok J" and ok: "operations_readable J"
    and run: "releaseTreasuryOperationDriver J d key clock = Inr (J', r)"
  shows "operation_delta clock J J'"
proof -
  let ?f = "\<lambda>r. r\<lparr>op_driver_owner := None, op_driver_lease_expires := None, op_updated_at := clock\<rparr>"
  from run have J': "J' = update_operation key (driver_clause (Some d)) ?f J"
    and r: "operation_at J' key = Some r"
    by (auto simp: releaseTreasuryOperationDriver_def)
  show ?thesis
  proof (cases "\<exists>c. operation_at J key = Some c \<and> driver_clause (Some d) c")
    case True
    then obtain c where c: "operation_at J key = Some c" "driver_clause (Some d) c" by blast
    then have "row_readable c" using ok by (auto simp: operations_readable_def dest: operation_at_key)
    moreover have "row_change clock c (?f c) None" using c(2) by (rule driver_released)
    moreover have "row_readable (?f c)"
      using release_stored [OF run] update_operation_at [OF c(1), of "driver_clause (Some d)" ?f] c(2)
      unfolding returns_stored_def J' by simp
    ultimately show ?thesis
      unfolding J' using c(2) by (intro changed_silently [OF keys c(1)])
  next
    case False
    have "operations J' = operations J"
    proof (cases "operation_at J key")
      case None
      then show ?thesis unfolding J'
        by (auto simp: update_operation_def operation_at_def find_row_None_iff intro!: update_rows_id)
    next
      case (Some c)
      with False show ?thesis unfolding J' by (simp add: update_at [OF keys])
    qed
    then show ?thesis
      by (rule operation_delta.unchanged) (simp_all add: J' rest_kept_def)
  qed
qed

lemma claim_driver_delta:
  assumes keys: "operation_keys_ok J"
    and run: "claimTreasuryOperationDriver J key owner ttl clock = Inr (J', claim)"
  shows "operation_delta clock J J'"
proof (cases "dc_acquired claim")
  case False
  with run have "J' = J"
    by (auto simp: claimTreasuryOperationDriver_def Let_def split: if_splits)
  then show ?thesis by (simp add: same_journal)
next
  case True
  from run obtain c where c: "operation_at J key = Some c" "row_readable c"
    by (auto simp: claimTreasuryOperationDriver_def)
  let ?live = "lease_live clock c"
  let ?g = "if op_driver_owner c = Some owner \<and> ?live then op_driver_generation c
            else op_driver_generation c + 1"
  let ?free = "\<lambda>r. op_driver_owner r = None
     \<or> (case op_driver_lease_expires r of None \<Rightarrow> False | Some t \<Rightarrow> t \<le> clock)
     \<or> op_driver_owner r = Some owner"
  let ?f = "\<lambda>r. r\<lparr>op_driver_owner := Some owner, op_driver_generation := ?g,
                  op_driver_lease_expires := Some (clock + ttl),
                  op_capability_generation :=
                    (if op_state r \<in> {Op_intent, Op_prepared} then None
                     else op_capability_generation r),
                  op_updated_at := clock\<rparr>"
  have st: "\<not> (op_state c = Op_completed \<or> op_state c = Op_failed_terminal)"
    and free: "\<not> (op_driver_owner c \<noteq> None \<and> ?live \<and> op_driver_owner c \<noteq> Some owner)"
    using run True c unfolding claimTreasuryOperationDriver_def Let_def lease_live_def
    by (auto split: if_splits)
  have n: "operation_changes key ?free J = 1" and J': "J' = update_operation key ?free ?f J"
    using run True c st free unfolding claimTreasuryOperationDriver_def Let_def lease_live_def
    by (auto split: if_splits)
  have "?free c" using iffD1 [OF operation_changes_iff [OF keys c(1)] n] by simp
  moreover from this have "row_readable (?f c)"
    using claim_driver_stored [OF run] update_operation_at [OF c(1), of ?free ?f]
    unfolding returns_stored_def J' by simp
  moreover have "row_change clock c (?f c) None"
    using st free by (intro driver_claimed) (auto simp: unresolved_state_def)
  ultimately show ?thesis unfolding J' using c(2) by (intro changed_silently [OF keys c(1)])
qed

section \<open>Preparation, cancellation, submission, observation\<close>

lemma changed_step:
  assumes keys: "operation_keys_ok J" and at: "operation_at J k = Some c" and "row_readable c"
    and n: "operation_changes k cond J1 = 1"
    and J1: "operations J1 = operations J" "operation_log J1 = operation_log J" "rest_kept now J J1"
    and J': "J' = insertTreasuryOperationTransition k (Some a) b reason now
                    (update_operation k cond f J1)"
    and a: "op_state c = a"
    and change: "cond c \<Longrightarrow> row_change now c (f c) (Some (log_entry c b reason now))"
    and key: "\<And>x. op_key (f x) = op_key x"
    and readable: "\<And>x. operation_at J' k = Some x \<Longrightarrow> row_readable x"
  shows "operation_delta now J J'"
proof -
  have keys1: "operation_keys_ok J1" using keys J1(1) by (simp add: operation_keys_ok_def)
  have at1: "operation_at J1 k = Some c" using at J1(1) by (simp add: operation_at_def)
  have here: "cond c" using iffD1 [OF operation_changes_iff [OF keys1 at1] n] .
  have "operation_at J' k = Some (f c)"
    using update_operation_at [OF at1, of cond f] here key J' by simp
  then have "row_readable (f c)" by (rule readable)
  moreover have "op_key c = k" using at operation_at_key by blast
  ultimately show ?thesis unfolding J' a [symmetric]
    using changed_by_update [OF keys1 J1 at, where cond = cond and f = f] here change [OF here]
      \<open>row_readable c\<close> by (simp add: log_entry_def)
qed

lemma retry_delta:
  assumes keys: "operation_keys_ok J"
    and run: "recordTreasuryPreparationRetry J key reason driver clock0 clock = Inr (J', r)"
  shows "operation_delta clock J J'"
proof -
  from run obtain c where c: "operation_at J key = Some c" "row_readable c"
    and st: "op_state c = Op_intent"
    by (auto simp: recordTreasuryPreparationRetry_def)
  let ?here = "\<lambda>r. op_state r = Op_intent \<and> op_retry_count r < op_retry_limit r
                   \<and> driver_clause driver r"
  let ?f = "\<lambda>r. r\<lparr>op_retry_count := op_retry_count r + 1, op_updated_at := clock\<rparr>"
  let ?J2 = "insertTreasuryOperationTransition key (Some Op_intent) Op_intent reason clock
               (update_operation key ?here ?f J)"
  have n: "operation_changes key ?here J = 1" and J': "J' = ?J2"
    using run c st unfolding recordTreasuryPreparationRetry_def Let_def by auto
  show ?thesis
    by (rule changed_step [OF keys c n _ _ _ J' st])
      (use st retry_stored [OF run] in \<open>simp_all add: retried returns_stored_def\<close>)
qed

lemma fail_delta:
  assumes keys: "operation_keys_ok J"
    and run: "failTreasuryOperationPreparation J key reason driver clock0 clock = Inr (J', r)"
  shows "operation_delta clock J J'"
proof -
  from run obtain c where c: "operation_at J key = Some c" "row_readable c"
    by (auto simp: failTreasuryOperationPreparation_def)
  show ?thesis
  proof (cases "op_state c = Op_failed_terminal")
    case True
    with run c have "J' = J" by (auto simp: failTreasuryOperationPreparation_def)
    then show ?thesis by (simp add: same_journal)
  next
    case False
    with run c have st: "op_state c = Op_intent" by (auto simp: failTreasuryOperationPreparation_def)
    let ?here = "\<lambda>r. op_state r = Op_intent \<and> driver_clause driver r"
    let ?f = "\<lambda>r. r\<lparr>op_state := Op_failed_terminal, op_updated_at := clock\<rparr>"
    let ?J2 = "insertTreasuryOperationTransition key (Some Op_intent) Op_failed_terminal reason clock
                 (update_operation key ?here ?f J)"
    have n: "operation_changes key ?here J = 1" and J': "J' = ?J2"
      using run c st unfolding failTreasuryOperationPreparation_def Let_def by auto
    show ?thesis
      by (rule changed_step [OF keys c n _ _ _ J' st])
        (use st fail_stored [OF run] in \<open>simp_all add: preparation_failed returns_stored_def\<close>)
  qed
qed

lemma fence_delta:
  assumes keys: "operation_keys_ok J"
    and run: "fenceTreasuryOperationPreparation J key reason driver clock0 clock = Inr (J', r)"
  shows "operation_delta clock J J'"
proof -
  from run obtain c where c: "operation_at J key = Some c" "row_readable c"
    by (auto simp: fenceTreasuryOperationPreparation_def)
  show ?thesis
  proof (cases "op_preparation_fenced c")
    case True
    with run c have "J' = J" by (auto simp: fenceTreasuryOperationPreparation_def)
    then show ?thesis by (simp add: same_journal)
  next
    case False
    with run c have st: "op_state c = Op_intent" by (auto simp: fenceTreasuryOperationPreparation_def)
    let ?here = "\<lambda>r. op_state r = Op_intent \<and> \<not> op_cancellation_requested r
                       \<and> \<not> op_preparation_fenced r \<and> driver_clause driver r"
    let ?f = "\<lambda>r. r\<lparr>op_preparation_fenced := True, op_updated_at := clock\<rparr>"
    let ?J2 = "insertTreasuryOperationTransition key (Some Op_intent) Op_intent reason clock
                 (update_operation key ?here ?f J)"
    have n: "operation_changes key ?here J = 1" and J': "J' = ?J2"
      using run c st False unfolding fenceTreasuryOperationPreparation_def Let_def by auto
    show ?thesis
      by (rule changed_step [OF keys c n _ _ _ J' st])
        (use st fence_stored [OF run] in \<open>simp_all add: fenced returns_stored_def\<close>)
  qed
qed

lemma mark_cancellation_delta:
  assumes keys: "operation_keys_ok J" and c: "operation_at J key = Some c" "row_readable c"
    and st: "unresolved_state (op_state c)"
    and run: "mark_cancellation J key c clock = Inr (J', r)"
  shows "operation_delta clock J J'"
proof -
  let ?here = "\<lambda>r. \<not> op_cancellation_requested r"
  let ?f = "\<lambda>r. r\<lparr>op_cancellation_requested := True, op_updated_at := clock\<rparr>"
  let ?J2 = "insertTreasuryOperationTransition key (Some (op_state c)) (op_state c) ''cancellation_requested'' clock
               (update_operation key ?here ?f J)"
  have n: "operation_changes key ?here J = 1" and J': "J' = ?J2"
    using run c st unfolding mark_cancellation_def Let_def by auto
  show ?thesis
    by (rule changed_step [OF keys c n _ _ _ J' refl])
      (use st mark_cancellation_stored [OF run] in \<open>simp_all add: cancellation_requested returns_stored_def\<close>)
qed

lemma request_cancellation_delta:
  assumes keys: "operation_keys_ok J"
    and run: "requestTreasuryOperationCancellation J key clock = Inr (J', r)"
  shows "operation_delta clock J J'"
proof -
  from run obtain c where c: "operation_at J key = Some c" "row_readable c"
    by (auto simp: requestTreasuryOperationCancellation_def)
  show ?thesis
  proof (cases "op_state c = Op_completed \<or> op_state c = Op_failed_terminal
                \<or> op_cancellation_requested c")
    case True
    with run c have "J' = J" by (auto simp: requestTreasuryOperationCancellation_def)
    then show ?thesis by (simp add: same_journal)
  next
    case False
    with run c have "mark_cancellation J key c clock = Inr (J', r)"
      by (auto simp: requestTreasuryOperationCancellation_def)
    then show ?thesis
      using False by (intro mark_cancellation_delta [OF keys c]) (auto simp: unresolved_state_def)
  qed
qed

lemma cancel_delta:
  assumes keys: "operation_keys_ok J"
    and run: "cancelTreasuryOperation J key clock = Inr (J', r)"
  shows "operation_delta clock J J'"
proof -
  from run obtain c where c: "operation_at J key = Some c" "row_readable c"
    by (auto simp: cancelTreasuryOperation_def)
  consider "J' = J"
    | "requestTreasuryOperationCancellation J key clock = Inr (J', r)"
    | "failTreasuryOperationPreparation J key ''cancelled_before_effect'' None clock clock = Inr (J', r)"
    | "mark_cancellation J key c clock = Inr (J', r)" "unresolved_state (op_state c)"
    using run c by (auto simp: cancelTreasuryOperation_def unresolved_state_def split: if_splits)
  then show ?thesis
  proof cases
    case 1
    then show ?thesis by (simp add: same_journal)
  next
    case 2
    then show ?thesis by (rule request_cancellation_delta [OF keys])
  next
    case 3
    then show ?thesis by (rule fail_delta [OF keys])
  next
    case 4
    then show ?thesis by (intro mark_cancellation_delta [OF keys c])
  qed
qed

lemma assertDirect_granted:
  assumes "assertDirectTreasuryCapacity J p kind dest amount fee now ex = Inr ()"
    and "p \<in> set (policies J)"
    and "op_kind r = kind" "op_destination r = dest" "op_fee_ceiling r = fee"
    and "fee_only kind \<or> operation_amount r = BigInt amount"
  shows "capacity_granted J now ex r"
  using assms unfolding capacity_granted_def
  by (intro bexI [of _ p])
    (auto simp: assertDirectTreasuryCapacity_def Let_def operation_amount_def add.assoc
      split: if_splits)

lemma requirePolicy_eq [simp]:
  "requirePolicy J d = Inr p \<longleftrightarrow> findPolicy J d = Some p"
  by (auto simp: requirePolicy_def split: option.splits)

lemma requireActivePolicy_eq [simp]:
  "requireActivePolicy J = Inr p \<longleftrightarrow> findActivePolicy J = Some p"
  by (auto simp: requireActivePolicy_def split: option.splits)

lemma findActivePolicy_mem: "findActivePolicy J = Some p \<Longrightarrow> p \<in> set (policies J)"
  by (auto simp: findActivePolicy_def bind_eq_Some_conv dest: findPolicy_SomeD)

definition intent_unprepared :: "journal \<Rightarrow> bool" where
  "intent_unprepared J \<longleftrightarrow>
     (\<forall>r \<in> set (operations J). op_state r = Op_intent \<longrightarrow> op_prepared_digest r = None)"

lemma prepare_delta:
  assumes keys: "operation_keys_ok J" and unprepared: "intent_unprepared J"
    and run: "recordPreparedTreasuryOperation H store J key p driver clock0 clock = Inr (J', r)"
  shows "operation_delta clock J J'"
proof -
  from run obtain c where c: "operation_at J key = Some c" "row_readable c"
    by (auto simp: recordPreparedTreasuryOperation_def Let_def)
  show ?thesis
  proof (cases "op_state c = Op_intent")
    case False
    with run c have "J' = J"
      by (auto simp: recordPreparedTreasuryOperation_def Let_def)
    then show ?thesis by (simp add: same_journal)
  next
    case True
    let ?J1 = "expireReservationsInternal J clock"
    let ?here = "\<lambda>r. op_state r = Op_intent \<and> \<not> op_cancellation_requested r
                     \<and> \<not> op_preparation_fenced r \<and> driver_clause driver r"
    let ?J2 = "\<lambda>stored. insertTreasuryOperationTransition key (Some Op_intent) Op_prepared
          ''signed_material_persisted'' clock
          (update_operation key ?here
             (\<lambda>r. r\<lparr>op_resolved_amount := Some (pr_amount p), op_fee := Some (pr_fee p),
                    op_transaction_id := Some (pr_transaction_id p),
                    op_prepared_digest := Some (fst stored),
                    op_prepared_ref := Some (fst (snd stored)),
                    op_prepared_byte_length := Some (snd (snd stored)),
                    op_state := Op_prepared, op_updated_at := clock\<rparr>) ?J1)"
    have "\<exists>stored. operation_changes key ?here ?J1 = 1 \<and> J' = ?J2 stored"
      using run c True unfolding recordPreparedTreasuryOperation_def Let_def by auto
    then obtain stored where n: "operation_changes key ?here ?J1 = 1" and J': "J' = ?J2 stored"
      by blast
    have amount: "op_requested_amount c \<noteq> ''max'' \<longrightarrow> op_requested_amount c = pr_amount p"
      and fee: "BigInt (pr_fee p) \<le> BigInt (op_fee_ceiling c)"
      and valid: "validatePreparedTreasuryOperation p = Inr ()"
      using run c True unfolding recordPreparedTreasuryOperation_def Let_def
      by (auto simp: not_less)
    have valid': "canonical_decimal (pr_amount p)" "0 < BigInt (pr_amount p)"
      using valid by (auto simp: validatePreparedTreasuryOperation_def)
    have "op_prepared_digest c = None"
      using unprepared c(1) True by (auto simp: intent_unprepared_def dest: operation_at_key)
    then show ?thesis
      using amount fee valid'
      by (intro changed_step [OF keys c n _ _ _ J' True]) (use prepare_stored [OF run] in \<open>simp_all add: prepared returns_stored_def\<close>)
  qed
qed

lemma planned_readable:
  "row_readable c \<Longrightarrow> op_state c = Op_prepared \<Longrightarrow>
   row_readable (c\<lparr>op_state := Op_submission_planned, op_updated_at := t\<rparr>)"
  by (auto simp: row_readable_def treasuryOperationFromRow_def row_intent_def split: option.splits)

lemma capability_readable:
  "row_ok c \<Longrightarrow> op_state c = Op_submission_planned \<Longrightarrow> driver_clause (Some d) c \<Longrightarrow>
   row_readable (c\<lparr>op_capability_generation := Some (dl_generation d),
                   op_submission_in_flight := True, op_updated_at := t\<rparr>)"
  unfolding row_ok_def row_readable_def
  by (simp add: treasuryOperationFromRow_def row_intent_def driver_clause_def)

lemma plan_delta:
  assumes keys: "operation_keys_ok J" and ok: "\<forall>r \<in> set (operations J). row_ok r"
    and run: "planTreasuryOperationSubmission J key driver clock0 clock = Inr (J', b)"
  shows "operation_delta clock J J'"
proof -
  from run obtain c where c: "operation_at J key = Some c" "row_readable c"
    by (auto simp: planTreasuryOperationSubmission_def)
  let ?J1 = "expireReservationsInternal J clock"
  let ?here = "\<lambda>r. op_state r = Op_prepared \<and> \<not> op_cancellation_requested r
                  \<and> \<not> op_preparation_fenced r \<and> driver_clause driver r"
  let ?J2 = "insertTreasuryOperationTransition key (Some Op_prepared) Op_submission_planned
          ''submission_intent_committed'' clock
          (update_operation key ?here
             (\<lambda>r. r\<lparr>op_state := Op_submission_planned, op_updated_at := clock\<rparr>) ?J1)"
  have "J' = J \<or> J' = ?J1
     \<or> operation_changes key ?here ?J1 = 1 \<and> op_state c = Op_prepared \<and> J' = ?J2"
    using run c unfolding planTreasuryOperationSubmission_def Let_def
    by (auto split: if_splits option.splits)
  then consider "J' = J" | "J' = ?J1"
    | "operation_changes key ?here ?J1 = 1" "op_state c = Op_prepared" "J' = ?J2" by blast
  then show ?thesis
  proof cases
    case 1
    then show ?thesis by (simp add: same_journal)
  next
    case 2
    then show ?thesis by (auto intro: operation_delta.unchanged)
  next
    case 3
    then show ?thesis
    proof (intro changed_step [OF keys c 3(1) _ _ _ 3(3) 3(2)])
      have keys1: "operation_keys_ok ?J1" and at1: "operation_at ?J1 key = Some c"
        using keys c(1) by simp_all
      fix x assume "operation_at J' key = Some x"
      moreover have here: "?here c"
        using iffD1 [OF operation_changes_iff [OF keys1 at1] 3(1)] by simp
      ultimately have "x = c\<lparr>op_state := Op_submission_planned, op_updated_at := clock\<rparr>"
        unfolding 3(3) using update_operation_at [of ?J1 key c ?here] c(1) by simp
      then show "row_readable x" using planned_readable [OF c(2) 3(2)] by simp
    qed (simp_all add: planned)
  qed
qed

lemma capability_delta:
  assumes keys: "operation_keys_ok J" and ok: "\<forall>r \<in> set (operations J). row_ok r"
    and run: "claimTreasuryOperationEffectCapability J key driver clock0 clock = Inr (J', b)"
  shows "operation_delta clock J J'"
proof -
  from run obtain c where c: "operation_at J key = Some c" "row_readable c"
    by (auto simp: claimTreasuryOperationEffectCapability_def)
  let ?here = "\<lambda>r. op_state r = Op_submission_planned \<and> \<not> op_cancellation_requested r
                     \<and> \<not> op_preparation_fenced r \<and> driver_clause (Some driver) r
                     \<and> op_capability_generation r = None \<and> \<not> op_submission_in_flight r"
  let ?J2 = "insertTreasuryOperationTransition key (Some Op_submission_planned) Op_submission_planned
          ''submission_in_flight'' clock
          (update_operation key ?here
             (\<lambda>r. r\<lparr>op_capability_generation := Some (dl_generation driver),
                    op_submission_in_flight := True, op_updated_at := clock\<rparr>) J)"
  have "J' = J
     \<or> operation_changes key ?here J = 1 \<and> op_state c = Op_submission_planned \<and> J' = ?J2"
    using run c unfolding claimTreasuryOperationEffectCapability_def Let_def
    by (auto split: if_splits)
  then consider "J' = J"
    | "operation_changes key ?here J = 1" "op_state c = Op_submission_planned" "J' = ?J2" by blast
  then show ?thesis
  proof cases
    case 1
    then show ?thesis by (simp add: same_journal)
  next
    case 2
    then show ?thesis
    proof (intro changed_step [OF keys c 2(1) _ _ _ 2(3) 2(2)])
      fix x assume "operation_at J' key = Some x"
      moreover have here: "?here c"
        using iffD1 [OF operation_changes_iff [OF keys c(1)] 2(1)] by simp
      ultimately have "x = c\<lparr>op_capability_generation := Some (dl_generation driver),
          op_submission_in_flight := True, op_updated_at := clock\<rparr>"
        unfolding 2(3) using update_operation_at [of J key c ?here] c(1) by simp
      moreover have "row_ok c" using ok c(1) operation_at_key by blast
      ultimately show "row_readable x" using capability_readable here by simp
    qed (simp_all add: capability_claimed)
  qed
qed

lemma accepted_delta:
  assumes keys: "operation_keys_ok J"
    and run: "recordTreasuryOperationSubmissionAccepted J key tx driver clock0 clock = Inr (J', r)"
  shows "operation_delta clock J J'"
proof -
  from run obtain c where c: "operation_at J key = Some c" "row_readable c"
    by (auto simp: recordTreasuryOperationSubmissionAccepted_def)
  let ?here = "\<lambda>r. op_state r = Op_submission_planned \<and> \<not> op_preparation_fenced r
                     \<and> op_submission_in_flight r \<and> op_capability_generation r \<noteq> None
                     \<and> driver_clause driver r"
  let ?J2 = "insertTreasuryOperationTransition key (Some Op_submission_planned) Op_submitted
          ''rpc_accepted'' clock
          (update_operation key ?here
             (\<lambda>r. r\<lparr>op_state := Op_submitted, op_submission_in_flight := False,
                    op_updated_at := clock\<rparr>) J)"
  have "J' = J
     \<or> operation_changes key ?here J = 1 \<and> op_state c = Op_submission_planned \<and> J' = ?J2"
    using run c unfolding recordTreasuryOperationSubmissionAccepted_def Let_def
    by (auto split: if_splits)
  then consider "J' = J"
    | "operation_changes key ?here J = 1" "op_state c = Op_submission_planned" "J' = ?J2" by blast
  then show ?thesis
  proof cases
    case 1
    then show ?thesis by (simp add: same_journal)
  next
    case 2
    then show ?thesis
      by (intro changed_step [OF keys c 2(1) _ _ _ 2(3) 2(2)]) (use accepted_stored [OF run] in \<open>simp_all add: submission_accepted returns_stored_def\<close>)
  qed
qed

lemma observation_delta:
  assumes keys: "operation_keys_ok J"
    and run: "recordTreasuryOperationObservation H J key status detail driver clock0 clock
                = Inr (J', r)"
  shows "operation_delta clock J J'"
proof -
  from run obtain c where c: "operation_at J key = Some c" "row_readable c"
    by (auto simp: recordTreasuryOperationObservation_def Let_def)
  let ?J1 = "insert_operation_observation
                \<lparr>oo_key = key, oo_status = status, oo_detail_digest = H detail,
                 oo_detail_json = detail, oo_observed_at = clock\<rparr> J"
  let ?here = "\<lambda>r. op_state r = op_state c \<and> driver_clause driver r"
  let ?S = "insertTreasuryOperationTransition key (Some (op_state c)) Op_failed_terminal
                ''mutually_exclusive_chain_effect_accepted'' clock
                (update_operation key ?here
                   (\<lambda>r. r\<lparr>op_state := Op_failed_terminal, op_submission_in_flight := False,
                          op_capability_generation := None, op_completed_at := Some clock,
                          op_updated_at := clock\<rparr>) ?J1)"
  let ?O = "insertTreasuryOperationTransition key (Some (op_state c)) Op_observed
                ''chain_observed'' clock
                (update_operation key ?here
                   (\<lambda>r. r\<lparr>op_state := Op_observed, op_submission_in_flight := False,
                          op_updated_at := clock\<rparr>) ?J1)"
  have "J' = J \<or> J' = ?J1
     \<or> operation_changes key ?here ?J1 = 1 \<and> op_state c \<in> {Op_submission_planned, Op_submitted}
        \<and> (J' = ?S \<or> J' = ?O)"
    using run c unfolding recordTreasuryOperationObservation_def Let_def
    by (cases status) (auto split: if_splits option.splits)
  then consider (same) "J' = J" | (logged) "J' = ?J1"
    | (lost) "operation_changes key ?here ?J1 = 1" "J' = ?S"
        "op_state c \<in> {Op_submission_planned, Op_submitted}"
    | (seen) "operation_changes key ?here ?J1 = 1" "J' = ?O"
        "op_state c \<in> {Op_submission_planned, Op_submitted}" by blast
  then show ?thesis
  proof cases
    case same
    then show ?thesis by (simp add: same_journal)
  next
    case logged
    then show ?thesis by (auto intro: operation_delta.unchanged simp: rest_kept_def)
  next
    case lost
    show ?thesis
      by (rule changed_step [OF keys c lost(1) _ _ _ lost(2) refl])
        (use lost(3) observation_stored [OF run] in
          \<open>simp_all add: superseded rest_kept_def returns_stored_def\<close>)
  next
    case seen
    show ?thesis
      by (rule changed_step [OF keys c seen(1) _ _ _ seen(2) refl])
        (use seen(3) observation_stored [OF run] in
          \<open>simp_all add: observed rest_kept_def returns_stored_def\<close>)
  qed
qed

lemma complete_delta:
  assumes keys: "operation_keys_ok J"
    and run: "completeTreasuryOperation J key driver clock0 clock = Inr (J', r)"
  shows "operation_delta clock J J'"
proof -
  from run obtain c where c: "operation_at J key = Some c" "row_readable c"
    by (auto simp: completeTreasuryOperation_def)
  let ?here = "\<lambda>r. op_state r = Op_observed \<and> driver_clause driver r"
  show ?thesis
  proof (cases "op_state c = Op_completed")
    case True
    with run c have "J' = J" by (auto simp: completeTreasuryOperation_def)
    then show ?thesis by (simp add: same_journal)
  next
    case False
    with run c have st: "op_state c = Op_observed" and own: "assertDriver driver c clock0 = Inr ()"
      and J': "J' = insertTreasuryOperationTransition key (Some Op_observed) Op_completed
            ''local_commit_complete'' clock
            (update_operation key ?here
               (\<lambda>r. r\<lparr>op_state := Op_completed, op_updated_at := clock,
                      op_completed_at := Some clock\<rparr>) J)"
      by (auto simp: completeTreasuryOperation_def)
    have n: "operation_changes key ?here J = 1"
      using iffD2 [OF operation_changes_iff [OF keys c(1)], of ?here] st own assertDriver_clause
      by simp
    show ?thesis
      by (rule changed_step [OF keys c n _ _ _ J' st]) (use complete_stored [OF run] in \<open>simp_all add: completed returns_stored_def\<close>)
  qed
qed

lemma claim_intent_delta:
  assumes run: "claimTreasuryOperationIntent J i clock = Inr (J', r)"
  shows "operation_delta clock J J'"
proof (cases "operation_at J (in_key i)")
  case (Some x)
  with run have "J' = J"
    by (auto simp: claimTreasuryOperationIntent_def findTreasuryOperation_eq)
  then show ?thesis by (simp add: same_journal)
next
  case None
  let ?J1 = "expireReservationsInternal J clock"
  let ?J2 = "insertTreasuryOperationTransition (in_key i) None Op_intent
              ''intent_and_capacity_recorded'' clock
              (?J1\<lparr>operations := operations ?J1 @ [new_operation i clock]\<rparr>)"
  from run None obtain policy where valid: "validateTreasuryOperationIntent i = Inr ()"
    and policy: "findActivePolicy J = Some policy"
    and cap: "assertDirectTreasuryCapacity ?J1 policy (in_kind i) (in_destination i)
                (if in_requested_amount i = ''max'' then ''0'' else in_requested_amount i)
                (in_fee_ceiling i) clock None = Inr ()"
    and fresh: "\<not> operation_insert_conflict ?J1 (new_operation i clock)"
    and J': "J' = ?J2" and clock: "0 \<le> clock"
    unfolding claimTreasuryOperationIntent_def Let_def
    by (auto simp: findTreasuryOperation_eq)
  have kind: "in_requested_amount i = ''max'' \<Longrightarrow> in_kind i = Vault_deposit"
    using valid by (auto simp: validateTreasuryOperationIntent_def)
  have "capacity_granted ?J1 clock None (new_operation i clock)"
    using policy kind
    by (intro assertDirect_granted [OF cap])
      (auto simp: new_operation_def findActivePolicy_mem operation_amount_def fee_only_def)
  moreover have "\<not> operation_insert_conflict J (new_operation i clock)"
    using fresh by (simp add: operation_insert_conflict_def)
  ultimately show ?thesis
    using valid None clock
    by (intro operation_delta.added [where i = i]) (simp_all add: J' rest_kept_def)
qed

end
