(* ===== verification/Operation_Invariants.thy ===== *)
theory Operation_Invariants
  imports Operation_Refinement
begin

text \<open>
  The invariants of the direct Treasury Operations: every row stays readable and well formed,
  at most one operation is unresolved, the log only holds allowed transitions and ends in
  the row's state, and it records at most one submission per operation. They hold of every
  journal reachable by calls of the methods.
\<close>

section \<open>What one change of a row keeps\<close>

definition same_intent :: "treasury_operation_row \<Rightarrow> treasury_operation_row \<Rightarrow> bool" where
  "same_intent r r' \<longleftrightarrow>
     op_key r' = op_key r \<and> op_request_digest r' = op_request_digest r \<and> op_kind r' = op_kind r
     \<and> op_destination r' = op_destination r \<and> op_requested_amount r' = op_requested_amount r
     \<and> op_keep_float r' = op_keep_float r \<and> op_fee_ceiling r' = op_fee_ceiling r
     \<and> op_retry_limit r' = op_retry_limit r \<and> op_policy_digest r' = op_policy_digest r
     \<and> op_authorization_digest r' = op_authorization_digest r \<and> op_created_at r' = op_created_at r"

definition same_material :: "treasury_operation_row \<Rightarrow> treasury_operation_row \<Rightarrow> bool" where
  "same_material r r' \<longleftrightarrow>
     op_prepared_digest r' = op_prepared_digest r \<and> op_prepared_ref r' = op_prepared_ref r
     \<and> op_prepared_byte_length r' = op_prepared_byte_length r
     \<and> op_transaction_id r' = op_transaction_id r \<and> op_resolved_amount r' = op_resolved_amount r
     \<and> op_fee r' = op_fee r"

lemma row_change_intent: "row_change now r r' e \<Longrightarrow> same_intent r r'"
  by (induction rule: row_change.induct) (simp_all add: same_intent_def)

lemma row_change_material:
  "row_change now r r' e \<Longrightarrow> op_prepared_digest r \<noteq> None \<Longrightarrow> same_material r r'"
  by (induction rule: row_change.induct) (simp_all add: same_material_def)

lemma row_change_key: "row_change now r r' e \<Longrightarrow> op_key r' = op_key r"
  using row_change_intent by (auto simp: same_intent_def)

lemma row_change_allowed:
  "row_change now r r' e \<Longrightarrow> directTreasuryTransitionAllowed (op_state r) (op_state r')"
  by (induction rule: row_change.induct) (auto simp: directTreasuryTransitionAllowed_def)

lemma row_change_log:
  "row_change now r r' e \<Longrightarrow>
     (case e of None \<Rightarrow> op_state r' = op_state r
      | Some x \<Rightarrow> ot_key x = op_key r \<and> ot_from x = Some (op_state r) \<and> ot_to x = op_state r')"
  by (induction rule: row_change.induct) (simp_all add: log_entry_def)

lemma row_change_resolved:
  "row_change now r r' e \<Longrightarrow> unresolved_state (op_state r') \<Longrightarrow> unresolved_state (op_state r)"
  using row_change_allowed directTreasuryTransition_terminal by metis

lemma row_change_generation:
  "row_change now r r' e \<Longrightarrow> op_driver_generation r \<le> op_driver_generation r'"
  by (induction rule: row_change.induct) auto

definition is_submission :: "operation_transition_row \<Rightarrow> bool" where
  "is_submission e \<longleftrightarrow>
     ot_from e = Some Op_submission_planned \<and> ot_to e = Op_submission_planned
     \<and> ot_reason e = ''submission_in_flight''"

definition submissions :: "journal \<Rightarrow> string \<Rightarrow> nat" where
  "submissions J key = length (filter (\<lambda>e. ot_key e = key \<and> is_submission e) (operation_log J))"

definition submission_count_ok :: "treasury_operation_row \<Rightarrow> nat \<Rightarrow> bool" where
  "submission_count_ok r n \<longleftrightarrow>
     n \<le> 1 \<and> (op_state r \<noteq> Op_failed_terminal \<longrightarrow> n = (if op_capability_generation r = None then 0 else 1))
     \<and> (op_submission_in_flight r \<longrightarrow> n = 1)"

lemma readable_capability:
  "row_readable r \<Longrightarrow> op_state r \<in> {Op_intent, Op_prepared, Op_failed_terminal} \<Longrightarrow>
     op_capability_generation r = None"
  by (auto simp: row_readable_def treasuryOperationFromRow_def split: option.splits)

lemma readable_in_flight:
  "row_readable r \<Longrightarrow> op_submission_in_flight r \<Longrightarrow>
     op_state r = Op_submission_planned \<and> op_capability_generation r \<noteq> None"
  by (auto simp: row_readable_def treasuryOperationFromRow_def)

lemma row_change_submissions:
  assumes "row_change now r r' e" and "row_readable r" and "submission_count_ok r n"
  shows "submission_count_ok r'
           (n + (case e of None \<Rightarrow> 0 | Some x \<Rightarrow> if is_submission x then 1 else 0))"
  using assms(1)
proof cases
  case (driver_claimed owner g t)
  have "op_state r \<in> {Op_intent, Op_prepared} \<Longrightarrow> op_capability_generation r = None"
    using readable_capability assms(2) by blast
  with assms(3) show ?thesis
    unfolding driver_claimed by (simp add: submission_count_ok_def)
next
  case superseded
  then show ?thesis using assms(3)
    by (auto simp: submission_count_ok_def is_submission_def log_entry_def split: if_splits)
next
  case preparation_failed
  then show ?thesis using assms(3) readable_in_flight [OF assms(2)]
    by (auto simp: submission_count_ok_def is_submission_def log_entry_def)
qed (use assms(2,3) in \<open>auto simp: submission_count_ok_def is_submission_def log_entry_def\<close>)

section \<open>The invariant of the journal\<close>

definition logged_state :: "journal \<Rightarrow> string \<Rightarrow> treasury_operation_state option" where
  "logged_state J key = map_option ot_to (find_row (\<lambda>e. ot_key e = key) (rev (operation_log J)))"

definition entry_allowed :: "operation_transition_row \<Rightarrow> bool" where
  "entry_allowed e \<longleftrightarrow>
     (case ot_from e of None \<Rightarrow> ot_to e = Op_intent
      | Some s \<Rightarrow> directTreasuryTransitionAllowed s (ot_to e))"

definition operations_inv :: "journal \<Rightarrow> bool" where
  "operations_inv J \<longleftrightarrow>
     operation_keys_ok J
     \<and> (\<forall>r \<in> set (operations J). row_ok r)
     \<and> unresolvedTreasuryOperationCount J \<le> 1
     \<and> (\<forall>e \<in> set (operation_log J). ot_key e \<in> op_key ` set (operations J) \<and> entry_allowed e)
     \<and> (\<forall>r \<in> set (operations J).
          submission_count_ok r (submissions J (op_key r))
          \<and> logged_state J (op_key r) = Some (op_state r))"

lemma intent_in_operation_key: "validateTreasuryOperationIntent i = Inr () \<Longrightarrow> is_operation_key (in_key i)"
  by (simp add: validateTreasuryOperationIntent_def)

lemma row_intent_new [simp]: "row_intent (new_operation i now) = i"
  by (simp add: row_intent_def new_operation_def)

lemma new_operation_ok:
  assumes "validateTreasuryOperationIntent i = Inr ()"
  shows "row_ok (new_operation i now)"
proof -
  have "in_requested_amount i \<noteq> ''max'' \<Longrightarrow>
      canonical_decimal (in_requested_amount i) \<and> 0 < BigInt (in_requested_amount i)"
    and limit: "is_safe_integer (in_retry_limit i)" "0 < in_retry_limit i"
    using assms unfolding validateTreasuryOperationIntent_def by (auto split: if_splits)
  then have "row_readable (new_operation i now)"
    using assms unfolding row_readable_def treasuryOperationFromRow_def row_intent_new
    by (simp add: new_operation_def check_opt_def is_safe_integer_def max_safe_integer_def)
  then show ?thesis
    using limit by (simp add: row_ok_def new_operation_def)
qed

lemma submissions_append:
  "operation_log J' = operation_log J @ es \<Longrightarrow>
     submissions J' k = submissions J k + length (filter (\<lambda>e. ot_key e = k \<and> is_submission e) es)"
  by (simp add: submissions_def)

lemma logged_state_append:
  "operation_log J' = operation_log J @ [e] \<Longrightarrow>
     logged_state J' k = (if ot_key e = k then Some (ot_to e) else logged_state J k)"
  by (simp add: logged_state_def)

lemma inv_unchanged:
  "operations_inv J \<Longrightarrow> operations J' = operations J \<Longrightarrow> operation_log J' = operation_log J \<Longrightarrow>
     operations_inv J'"
  by (simp add: operations_inv_def operation_keys_ok_def unresolvedTreasuryOperationCount_def
      submissions_def logged_state_def)

lemma inv_added:
  assumes inv: "operations_inv J" and valid: "validateTreasuryOperationIntent i = Inr ()"
    and fresh: "operation_at J (in_key i) = None"
    and free: "\<not> operation_insert_conflict J (new_operation i now)"
    and ops: "operations J' = operations J @ [new_operation i now]"
    and log: "operation_log J' = operation_log J @ [e]"
    and e: "ot_key e = in_key i" "ot_from e = None" "ot_to e = Op_intent"
  shows "operations_inv J'"
proof -
  let ?n = "new_operation i now"
  have key: "op_key ?n = in_key i" and st: "op_state ?n = Op_intent"
    and cap: "op_capability_generation ?n = None" "\<not> op_submission_in_flight ?n"
    by (simp_all add: new_operation_def)
  have new: "in_key i \<notin> op_key ` set (operations J)"
    using fresh by (auto simp: operation_at_def find_row_None_iff)
  have resolved: "\<forall>r \<in> set (operations J). \<not> unresolved_state (op_state r)"
    using free by (auto simp: operation_insert_conflict_def list_ex_iff)
  then have "changes (\<lambda>r. unresolved_state (op_state r)) (operations J) = 0"
    using changes_pos_iff [of "\<lambda>r. unresolved_state (op_state r)" "operations J"] by auto
  moreover have "\<And>e. e \<in> set (operation_log J) \<Longrightarrow> ot_key e \<noteq> in_key i"
    using inv new unfolding operations_inv_def by metis
  then have "submissions J (in_key i) = 0"
    by (auto simp: submissions_def filter_empty_conv)
  moreover have "\<And>k. submissions J' k = submissions J k"
    using submissions_append [OF log] e by (simp add: is_submission_def)
  moreover have "\<And>r. r \<in> set (operations J) \<Longrightarrow> op_key r \<noteq> in_key i" using new by (metis imageI)
  ultimately show ?thesis
    using inv new new_operation_ok [OF valid, of now] e key st cap
    by (auto simp: operations_inv_def operation_keys_ok_def ops log logged_state_append [OF log]
        unresolvedTreasuryOperationCount_def submission_count_ok_def entry_allowed_def)
qed

lemma inv_changed:
  assumes inv: "operations_inv J" and at: "operation_at J (op_key r) = Some r"
    and change: "row_change now r r' entry" and readable: "row_readable r'"
    and ops: "operations J' = update_rows (\<lambda>x. op_key x = op_key r) (\<lambda>_. r') (operations J)"
    and log: "operation_log J' = operation_log J @ (case entry of None \<Rightarrow> [] | Some e \<Rightarrow> [e])"
  shows "operations_inv J'"
proof -
  have keys: "operation_keys_ok J" and rows: "\<forall>r \<in> set (operations J). row_ok r"
    using inv by (auto simp: operations_inv_def)
  have r: "r \<in> set (operations J)" using operation_at_key at by blast
  have key: "op_key r' = op_key r" using row_change_key change by blast
  have ok: "row_ok r" and ok': "row_ok r'"
    using rows r row_change_ok change readable by blast+
  have uniq: "x = r" if "x \<in> set (operations J)" "op_key x = op_key r" for x
    using operation_at_unique keys at that by blast
  have "map op_key (operations J') = map op_key (operations J)"
    unfolding ops by (auto simp: update_rows_def key)
  then have keys': "operation_keys_ok J'" and dom: "op_key ` set (operations J') = op_key ` set (operations J)"
    using keys by (simp_all add: operation_keys_ok_def flip: set_map)
  have mem: "x = r' \<or> x \<in> set (operations J) \<and> op_key x \<noteq> op_key r"
    if "x \<in> set (operations J')" for x
    using that unfolding ops by (auto dest!: set_update_rowsD)
  have one: "unresolvedTreasuryOperationCount J' \<le> 1"
    using inv changes_update_le [of "operations J" "\<lambda>x. op_key x = op_key r"
        "\<lambda>x. unresolved_state (op_state x)" "\<lambda>_. r'"] row_change_resolved [OF change] uniq
    unfolding operations_inv_def unresolvedTreasuryOperationCount_def ops by force
  have sub: "submission_count_ok r (submissions J (op_key r))"
    and last: "logged_state J (op_key r) = Some (op_state r)"
    using inv r by (auto simp: operations_inv_def)
  have new: "submission_count_ok r' (submissions J' (op_key r))
      \<and> logged_state J' (op_key r) = Some (op_state r')
      \<and> (\<forall>k. k \<noteq> op_key r \<longrightarrow> submissions J' k = submissions J k \<and> logged_state J' k = logged_state J k)
      \<and> (\<forall>e \<in> set (operation_log J'). e \<in> set (operation_log J)
             \<or> ot_key e = op_key r \<and> entry_allowed e)"
  proof (cases entry)
    case None
    with log have l: "operation_log J' = operation_log J" by simp
    with None show ?thesis
      using row_change_submissions [OF change _ sub] row_change_log [OF change] ok last
      by (simp add: submissions_def logged_state_def row_ok_def)
  next
    case (Some e)
    with log have l: "operation_log J' = operation_log J @ [e]" by simp
    have e: "ot_key e = op_key r" "ot_from e = Some (op_state r)" "ot_to e = op_state r'"
      using row_change_log [OF change] Some by auto
    then have "entry_allowed e"
      using row_change_allowed [OF change] by (simp add: entry_allowed_def)
    moreover have "submission_count_ok r' (submissions J' (op_key r))"
      using row_change_submissions [OF change _ sub] Some ok e(1)
      by (simp add: submissions_append [OF l] row_ok_def split: if_splits)
    moreover have "submissions J' k = submissions J k" "logged_state J' k = logged_state J k"
      if "k \<noteq> op_key r" for k
      using that e(1) by (simp_all add: submissions_append [OF l] logged_state_append [OF l])
    moreover have "logged_state J' (op_key r) = Some (op_state r')"
      using e by (simp add: logged_state_append [OF l])
    ultimately show ?thesis using e(1) unfolding l by simp
  qed
  show ?thesis
    unfolding operations_inv_def
  proof (intro conjI ballI)
    fix x assume x: "x \<in> set (operations J')"
    show "row_ok x" using mem [OF x] rows ok' by blast
    show "submission_count_ok x (submissions J' (op_key x))"
      "logged_state J' (op_key x) = Some (op_state x)"
      using mem [OF x] new inv key unfolding operations_inv_def by auto
  next
    fix e assume "e \<in> set (operation_log J')"
    then show "ot_key e \<in> op_key ` set (operations J')" "entry_allowed e"
      using new inv r unfolding operations_inv_def dom by auto
  qed (use keys' one in simp_all)
qed

lemma operation_delta_inv:
  assumes "operation_delta now J J'" and "operations_inv J"
  shows "operations_inv J'"
  using assms(1)
proof cases
  case unchanged
  then show ?thesis using inv_unchanged assms(2) by blast
next
  case (added i)
  then show ?thesis by (intro inv_added [OF assms(2) added(1) added(2) added(3) added(6,7)]) simp_all
next
  case (changed r r' entry)
  then show ?thesis by (intro inv_changed [OF assms(2)])
qed

section \<open>Calls and reachable journals\<close>

inductive operation_call :: "int \<Rightarrow> journal \<Rightarrow> journal \<Rightarrow> bool" for now where
  call_claim_intent:
    "claimTreasuryOperationIntent J i now = Inr (J', r) \<Longrightarrow> operation_call now J J'"
| call_claim_driver:
    "claimTreasuryOperationDriver J key owner ttl now = Inr (J', c) \<Longrightarrow> operation_call now J J'"
| call_renew: "renewTreasuryOperationDriver J d key now = Inr (J', r) \<Longrightarrow> operation_call now J J'"
| call_release:
    "releaseTreasuryOperationDriver J d key now = Inr (J', r) \<Longrightarrow> operation_call now J J'"
| call_prepare:
    "recordPreparedTreasuryOperation H store J key p driver now0 now = Inr (J', r) \<Longrightarrow>
     operation_call now J J'"
| call_retry:
    "recordTreasuryPreparationRetry J key reason driver now0 now = Inr (J', r) \<Longrightarrow>
     operation_call now J J'"
| call_fail:
    "failTreasuryOperationPreparation J key reason driver now0 now = Inr (J', r) \<Longrightarrow>
     operation_call now J J'"
| call_fence:
    "fenceTreasuryOperationPreparation J key reason driver now0 now = Inr (J', r) \<Longrightarrow>
     operation_call now J J'"
| call_cancel: "cancelTreasuryOperation J key now = Inr (J', r) \<Longrightarrow> operation_call now J J'"
| call_request_cancellation:
    "requestTreasuryOperationCancellation J key now = Inr (J', r) \<Longrightarrow> operation_call now J J'"
| call_plan:
    "planTreasuryOperationSubmission J key driver now0 now = Inr (J', b) \<Longrightarrow>
     operation_call now J J'"
| call_capability:
    "claimTreasuryOperationEffectCapability J key d now0 now = Inr (J', b) \<Longrightarrow>
     operation_call now J J'"
| call_accepted:
    "recordTreasuryOperationSubmissionAccepted J key tx driver now0 now = Inr (J', r) \<Longrightarrow>
     operation_call now J J'"
| call_observation:
    "recordTreasuryOperationObservation H J key status detail driver now0 now = Inr (J', r) \<Longrightarrow>
     operation_call now J J'"
| call_complete:
    "completeTreasuryOperation J key driver now0 now = Inr (J', r) \<Longrightarrow> operation_call now J J'"

lemma inv_facts:
  assumes "operations_inv J"
  shows "operation_keys_ok J" "operations_readable J" "intent_unprepared J"
    "\<forall>r \<in> set (operations J). row_ok r"
  using assms by (auto simp: operations_inv_def operations_readable_def intent_unprepared_def row_ok_def)

lemma operation_call_delta:
  assumes "operation_call now J J'" and "operations_inv J"
  shows "operation_delta now J J'"
  using assms(1) inv_facts [OF assms(2)]
  by (cases rule: operation_call.cases)
    (blast intro: claim_intent_delta claim_driver_delta renew_delta release_delta prepare_delta
      retry_delta fail_delta fence_delta cancel_delta request_cancellation_delta plan_delta
      capability_delta accepted_delta observation_delta complete_delta)+

lemma operation_call_inv: "operation_call now J J' \<Longrightarrow> operations_inv J \<Longrightarrow> operations_inv J'"
  using operation_call_delta operation_delta_inv by blast

end
