(* ===== verification/Transition_Logs.thy ===== *)
theory Transition_Logs
  imports Main
begin

text \<open>
  The contract between a table of state machines and its append-only log of transitions: every
  state change is logged in the transaction that makes it, follows the transition table and
  starts from the state the row had. Under it the log of a key replays to the key's state. The
  Treasury Operations, the Effects, the Payment Attempts and the Purchases of the journal
  provide it.
\<close>

definition history :: "('k \<times> 'x) list \<Rightarrow> 'k \<Rightarrow> 'x list" where
  "history log k = map snd (filter (\<lambda>e. fst e = k) log)"

definition replays ::
  "('x \<Rightarrow> 'x \<Rightarrow> bool) \<Rightarrow> 'x \<Rightarrow> ('k \<times> 'x) list \<Rightarrow> ('k \<Rightarrow> 'x option) \<Rightarrow> bool" where
  "replays allowed initial log state \<longleftrightarrow>
     (\<forall>k. case state k of
            None \<Rightarrow> history log k = []
          | Some x \<Rightarrow> history log k \<noteq> [] \<and> hd (history log k) = initial
              \<and> last (history log k) = x \<and> successively allowed (history log k))"

lemma history_append: "history (log @ [(k', y)]) k = history log k @ (if k' = k then [y] else [])"
  by (simp add: history_def)

lemma replays_empty: "replays allowed initial [] (\<lambda>k. None)"
  by (simp add: replays_def history_def)

lemma replays_logged:
  assumes "replays allowed initial log state"
    and "case state k of None \<Rightarrow> y = initial | Some x \<Rightarrow> allowed x y"
  shows "replays allowed initial (log @ [(k, y)]) (state(k \<mapsto> y))"
  unfolding replays_def
proof
  fix j
  have "case state j of
            None \<Rightarrow> history log j = []
          | Some x \<Rightarrow> history log j \<noteq> [] \<and> hd (history log j) = initial
              \<and> last (history log j) = x \<and> successively allowed (history log j)"
    using assms(1) unfolding replays_def by blast
  then show "case (state(k \<mapsto> y)) j of
            None \<Rightarrow> history (log @ [(k, y)]) j = []
          | Some x \<Rightarrow> history (log @ [(k, y)]) j \<noteq> [] \<and> hd (history (log @ [(k, y)]) j) = initial
              \<and> last (history (log @ [(k, y)]) j) = x
              \<and> successively allowed (history (log @ [(k, y)]) j)"
    using assms(2)
    by (cases "state k") (auto simp: history_append successively_append_iff split: option.splits)
qed

locale logged_table =
  fixes state_of :: "'s \<Rightarrow> 'k \<Rightarrow> 'x option"
    and log_of :: "'s \<Rightarrow> ('k \<times> 'x) list"
    and allowed :: "'x \<Rightarrow> 'x \<Rightarrow> bool"
    and initial :: 'x
    and good :: "'s \<Rightarrow> bool"
    and step :: "'s \<Rightarrow> 's \<Rightarrow> bool"
  assumes step_good: "good s \<Longrightarrow> step s s' \<Longrightarrow> good s'"
    and step_logged: "good s \<Longrightarrow> step s s' \<Longrightarrow>
      state_of s' = state_of s \<and> log_of s' = log_of s
      \<or> (\<exists>k y. state_of s' = (state_of s)(k \<mapsto> y) \<and> log_of s' = log_of s @ [(k, y)]
             \<and> (case state_of s k of None \<Rightarrow> y = initial | Some x \<Rightarrow> allowed x y))"
begin

lemma step_replays:
  assumes "good s" and "step s s'" and "replays allowed initial (log_of s) (state_of s)"
  shows "replays allowed initial (log_of s') (state_of s')"
  using step_logged [OF assms(1,2)] assms(3) replays_logged by metis

lemma run_replays:
  "step\<^sup>*\<^sup>* s s' \<Longrightarrow> good s \<Longrightarrow> replays allowed initial (log_of s) (state_of s) \<Longrightarrow>
     good s' \<and> replays allowed initial (log_of s') (state_of s')"
  by (induction rule: rtranclp_induct) (auto intro: step_good step_replays)

text \<open>A log only grows, and what it held stays in front.\<close>

lemma run_log_prefix: "step\<^sup>*\<^sup>* s s' \<Longrightarrow> good s \<Longrightarrow> \<exists>es. log_of s' = log_of s @ es \<and> good s'"
proof (induction rule: rtranclp_induct)
  case (step y z)
  then obtain es where "log_of y = log_of s @ es" "good y" by blast
  then show ?case using step_logged [of y z] step_good [of y z] step.hyps(2) by auto
qed simp

text \<open>A terminal state is final.\<close>

lemma run_terminal:
  assumes "step\<^sup>*\<^sup>* s s'" and "good s" and "state_of s k = Some x" and "\<And>y. allowed x y \<Longrightarrow> y = x"
  shows "state_of s' k = Some x"
  using assms(1)
proof (induction rule: rtranclp_induct)
  case base
  then show ?case using assms(3) .
next
  case (step y z)
  have "good y" using run_log_prefix step.hyps(1) assms(2) by blast
  then show ?case using step_logged [of y z] step assms(4) by (auto split: if_splits)
qed

end

end
