(* ===== verification/Effect_Invariants.thy ===== *)
theory Effect_Invariants
  imports Effects Transition_Logs
begin

text \<open>
  What the Effect operations promise. Every operation is one step of \<open>effect_delta\<close>: nothing
  happens to the Effects, one is planned, or one is claimed or moved along the transition
  table, logged in the same transaction. The invariant: identities and idempotency keys are
  unique, the table's checks hold, and a claim is on the Effect's own lease with a generation
  that lease has reached. From it follow the fencing facts.
\<close>

section \<open>What an operation may touch\<close>

definition outside_effects :: "journal \<Rightarrow> journal" where
  "outside_effects J =
     J\<lparr>effects := [], effect_log := [], effect_observations := [], leases := [],
       reconciliation_runs := []\<rparr>"

lemma outside_effects_update [simp]:
  "outside_effects (J\<lparr>effects := e\<rparr>) = outside_effects J"
  "outside_effects (J\<lparr>effect_log := l\<rparr>) = outside_effects J"
  "outside_effects (J\<lparr>effect_observations := ob\<rparr>) = outside_effects J"
  "outside_effects (J\<lparr>leases := k\<rparr>) = outside_effects J"
  "outside_effects (J\<lparr>reconciliation_runs := r\<rparr>) = outside_effects J"
  by (simp_all add: outside_effects_def)

definition effect_keys_ok :: "journal \<Rightarrow> bool" where
  "effect_keys_ok J \<longleftrightarrow> distinct (map ef_id (effects J)) \<and> distinct (map ef_idempotency_key (effects J))"

lemma effect_at_facts: "effect_at J i = Some r \<Longrightarrow> ef_id r = i \<and> r \<in> set (effects J)"
  by (auto simp: effect_at_def dest: find_row_SomeD)

lemma effect_at_unique:
  "effect_keys_ok J \<Longrightarrow> effect_at J i = Some c \<Longrightarrow> r \<in> set (effects J) \<Longrightarrow> ef_id r = i \<Longrightarrow> r = c"
  using find_row_key_unique [of ef_id "effects J" r] by (auto simp: effect_keys_ok_def effect_at_def)

lemma requireEffect_eq [simp]: "requireEffect J i = Inr r \<longleftrightarrow> effect_at J i = Some r"
  by (auto simp: requireEffect_def split: option.splits)

lemma requirePaymentAttempt_eq [simp]:
  "requirePaymentAttempt J p n = Inr r \<longleftrightarrow> findPaymentAttempt J p n = Some r"
  by (auto simp: requirePaymentAttempt_def split: option.splits)

section \<open>The step\<close>

inductive effect_change :: "journal \<Rightarrow> int \<Rightarrow> effect_row \<Rightarrow> effect_row \<Rightarrow> bool" for J now where
  effect_claimed:
    "ef_state r \<in> {Eff_planned, Eff_retryable} \<Longrightarrow> lt_name lease = effect_lease_name (ef_id r) \<Longrightarrow>
     lease_generation J (lt_name lease) < int (lt_generation lease) \<Longrightarrow>
     \<not> effectClaimActiveInternal J r now \<Longrightarrow>
     effect_change J now r (claimed_effect lease now r)"
| effect_moved:
    "ef_state r = to_state \<or> to_state \<in> set (effect_allowed (ef_state r)) \<Longrightarrow>
     to_state \<noteq> Eff_executing \<Longrightarrow> to_state \<noteq> Eff_planned \<Longrightarrow>
     effect_checks (moved_effect to_state u now r) \<Longrightarrow>
     effect_change J now r (moved_effect to_state u now r)"

inductive effect_delta :: "int \<Rightarrow> journal \<Rightarrow> journal \<Rightarrow> bool" for now where
  effects_unchanged:
    "effects J' = effects J \<Longrightarrow> effect_log J' = effect_log J \<Longrightarrow> lease_step\<^sup>*\<^sup>* J J' \<Longrightarrow>
     effect_delta now J J'"
| effect_planned:
    "effect_at J (ef_id r) = None \<Longrightarrow> effect_checks r \<Longrightarrow> ef_state r = Eff_planned \<Longrightarrow>
     ef_claim_lease r = None \<Longrightarrow>
     (\<forall>x \<in> set (effects J). ef_idempotency_key x \<noteq> ef_idempotency_key r) \<Longrightarrow>
     effects J' = effects J @ [r] \<Longrightarrow>
     effect_log J' = effect_log J @ [e] \<Longrightarrow> et_effect_id e = ef_id r \<Longrightarrow> et_to e = Eff_planned \<Longrightarrow>
     lease_step\<^sup>*\<^sup>* J J' \<Longrightarrow> effect_delta now J J'"
| effect_changed:
    "effect_at J (ef_id r) = Some r \<Longrightarrow> effect_change J now r r' \<Longrightarrow>
     effects J' = update_rows (\<lambda>x. ef_id x = ef_id r) (\<lambda>_. r') (effects J) \<Longrightarrow>
     effect_log J' = effect_log J @ [e] \<Longrightarrow> et_effect_id e = ef_id r \<Longrightarrow>
     et_to e = ef_state r' \<Longrightarrow> lease_step\<^sup>*\<^sup>* J J' \<Longrightarrow>
     (\<forall>g. ef_claim_generation r' = Some g \<longrightarrow> ef_claim_generation r \<noteq> Some g \<longrightarrow>
        lease_generation J' (effect_lease_name (ef_id r)) = int g) \<Longrightarrow>
     effect_delta now J J'"

lemma effect_change_same: "effect_change J now r r' \<Longrightarrow> ef_id r' = ef_id r
    \<and> ef_idempotency_key r' = ef_idempotency_key r \<and> ef_purchase_id r' = ef_purchase_id r
    \<and> ef_attempt r' = ef_attempt r \<and> ef_kind r' = ef_kind r
    \<and> ef_payload_digest r' = ef_payload_digest r \<and> ef_prepared_ref r' = ef_prepared_ref r
    \<and> ef_prepared_byte_length r' = ef_prepared_byte_length r \<and> ef_created_at r' = ef_created_at r"
  by (induction rule: effect_change.induct) (simp_all add: claimed_effect_def moved_effect_def)

lemma effect_change_allowed:
  "effect_change J now r r' \<Longrightarrow>
     ef_state r' = ef_state r \<or> ef_state r' \<in> set (effect_allowed (ef_state r))"
  by (induction rule: effect_change.induct) (auto simp: claimed_effect_def moved_effect_def)

lemma updated_here:
  assumes "effect_keys_ok J" and "effect_at J (ef_id c) = Some c"
  shows "update_rows (effect_here c) f (effects J)
           = update_rows (\<lambda>x. ef_id x = ef_id c) (\<lambda>_. f c) (effects J)"
proof -
  have "\<And>r. r \<in> set (effects J) \<Longrightarrow> ef_id r = ef_id c \<Longrightarrow> r = c"
    using effect_at_unique assms by blast
  then show ?thesis by (auto simp: update_rows_def effect_here_def)
qed

lemma effect_at_updated:
  assumes "effect_at J (ef_id c) = Some c" and "ef_id r' = ef_id c"
    and "effects J' = update_rows (\<lambda>x. ef_id x = ef_id c) (\<lambda>_. r') (effects J)"
  shows "effect_at J' = (effect_at J)(ef_id c \<mapsto> r')"
proof
  fix i
  show "effect_at J' i = ((effect_at J)(ef_id c \<mapsto> r')) i"
  proof (cases "i = ef_id c")
    case True
    have "\<exists>r. effect_at J (ef_id c) = Some r" using assms(1) by blast
    then have "find_row (\<lambda>r. ef_id r = ef_id c)
        (update_rows (\<lambda>x. ef_id x = ef_id c) (\<lambda>_. r') rs) = Some r'"
      if "find_row (\<lambda>r. ef_id r = ef_id c) rs \<noteq> None" for rs
      using that assms(2) by (induction rs) auto
    then show ?thesis using assms(1,3) True by (simp add: effect_at_def)
  next
    case False
    have "find_row (\<lambda>r. ef_id r = i) (update_rows (\<lambda>x. ef_id x = ef_id c) (\<lambda>_. r') rs)
        = find_row (\<lambda>r. ef_id r = i) rs" for rs
      using False assms(2) by (induction rs) auto
    then show ?thesis using False assms(3) by (simp add: effect_at_def)
  qed
qed

section \<open>The invariant\<close>

definition claim_ok :: "journal \<Rightarrow> effect_row \<Rightarrow> bool" where
  "claim_ok J r \<longleftrightarrow>
     (case ef_claim_lease r of None \<Rightarrow> True | Some l \<Rightarrow> l = effect_lease_name (ef_id r))
     \<and> (case ef_claim_generation r of None \<Rightarrow> True
        | Some g \<Rightarrow> int g \<le> lease_generation J (effect_lease_name (ef_id r)))"

definition effect_log_pairs :: "journal \<Rightarrow> (string \<times> effect_state) list" where
  "effect_log_pairs J = map (\<lambda>e. (et_effect_id e, et_to e)) (effect_log J)"

definition effect_state_of :: "journal \<Rightarrow> string \<Rightarrow> effect_state option" where
  "effect_state_of J i = map_option ef_state (effect_at J i)"

definition effect_moves :: "effect_state \<Rightarrow> effect_state \<Rightarrow> bool" where
  "effect_moves s t \<longleftrightarrow> s = t \<or> t \<in> set (effect_allowed s)"

definition effects_inv :: "journal \<Rightarrow> bool" where
  "effects_inv J \<longleftrightarrow>
     effect_keys_ok J \<and> leases_ok J
     \<and> (\<forall>r \<in> set (effects J). effect_checks r \<and> claim_ok J r)"

lemma lease_run_generation:
  "lease_step\<^sup>*\<^sup>* J J' \<Longrightarrow> leases_ok J \<Longrightarrow> lease_generation J k \<le> lease_generation J' k"
  by (rule journal_lease.run_generation)

lemma claim_ok_run:
  assumes "claim_ok J r" and "lease_step\<^sup>*\<^sup>* J J'" and "leases_ok J"
  shows "claim_ok J' r"
  using assms(1) lease_run_generation [OF assms(2,3), of "effect_lease_name (ef_id r)"]
  by (auto simp: claim_ok_def split: option.splits)

lemma effect_change_checks:
  "effect_change J now r r' \<Longrightarrow> effect_checks r \<Longrightarrow> effect_checks r'"
proof (induction rule: effect_change.induct)
  case (effect_claimed r lease)
  then show ?case by (simp add: effect_checks_def claimed_effect_def)
qed
lemma effect_change_lease:
  "effect_change J now r r' \<Longrightarrow> claim_ok J r \<Longrightarrow>
     ef_claim_lease r' = None \<or> ef_claim_lease r' = Some (effect_lease_name (ef_id r'))"
  by (induction rule: effect_change.induct)
    (simp_all add: claim_ok_def claimed_effect_def moved_effect_def split: option.splits)

lemma effect_delta_inv:
  assumes "effect_delta now J J'" and inv: "effects_inv J"
  shows "effects_inv J'"
  using assms(1)
proof cases
  case effects_unchanged
  have "leases_ok J'" using journal_lease.run_good effects_unchanged(3) inv
    by (auto simp: effects_inv_def)
  with effects_unchanged inv show ?thesis
    by (auto simp: effects_inv_def effect_keys_ok_def intro: claim_ok_run)
next
  case (effect_planned r e)
  have leases: "leases_ok J'" using journal_lease.run_good effect_planned(10) inv
    by (auto simp: effects_inv_def)
  have "effect_keys_ok J'"
    using inv effect_planned(1,5) unfolding effects_inv_def effect_keys_ok_def effect_planned(6)
    by (auto simp: effect_at_def find_row_None_iff)
  moreover have "claim_ok J' r"
    using effect_planned(2,4) by (simp add: claim_ok_def effect_checks_def)
  moreover have "\<And>x. x \<in> set (effects J) \<Longrightarrow> claim_ok J' x"
    using inv claim_ok_run effect_planned(10) by (auto simp: effects_inv_def)
  ultimately show ?thesis
    using inv leases effect_planned(2) unfolding effects_inv_def effect_planned(6) by auto
next
  case (effect_changed r r' e)
  have leases: "leases_ok J'" using journal_lease.run_good effect_changed(7) inv
    by (auto simp: effects_inv_def)
  have r: "r \<in> set (effects J)" using effect_at_facts effect_changed(1) by blast
  then have ok: "effect_checks r" "claim_ok J r" using inv by (auto simp: effects_inv_def)
  have same: "ef_id r' = ef_id r" "ef_idempotency_key r' = ef_idempotency_key r"
    using effect_change_same effect_changed(2) by blast+
  have uniq: "x = r" if "x \<in> set (effects J)" "ef_id x = ef_id r" for x
    using effect_at_unique that effect_changed(1) inv by (auto simp: effects_inv_def)
  have "effect_keys_ok J'"
    unfolding effect_keys_ok_def effect_changed(3)
  proof
    have "map ef_id (update_rows (\<lambda>x. ef_id x = ef_id r) (\<lambda>_. r') (effects J))
        = map ef_id (effects J)"
      using same by (auto simp: update_rows_def)
    then show "distinct (map ef_id (update_rows (\<lambda>x. ef_id x = ef_id r) (\<lambda>_. r') (effects J)))"
      using inv by (simp add: effects_inv_def effect_keys_ok_def)
  next
    have "map ef_idempotency_key (update_rows (\<lambda>x. ef_id x = ef_id r) (\<lambda>_. r') (effects J))
        = map ef_idempotency_key (effects J)"
      using uniq same by (auto simp: update_rows_def)
    then show "distinct (map ef_idempotency_key
        (update_rows (\<lambda>x. ef_id x = ef_id r) (\<lambda>_. r') (effects J)))"
      using inv by (simp add: effects_inv_def effect_keys_ok_def)
  qed
  moreover have "claim_ok J' r'"
  proof -
    have "int g \<le> lease_generation J' (effect_lease_name (ef_id r))"
      if "ef_claim_generation r' = Some g" for g
      using that effect_changed(8) claim_ok_run [OF ok(2) effect_changed(7)] inv
      by (cases "ef_claim_generation r = Some g") (auto simp: claim_ok_def effects_inv_def)
    then show ?thesis
      using effect_change_lease [OF effect_changed(2) ok(2)] same
      by (auto simp: claim_ok_def split: option.splits)
  qed
  ultimately show ?thesis
    using inv leases effect_change_checks [OF effect_changed(2) ok(1)]
      claim_ok_run [OF _ effect_changed(7)]
    unfolding effects_inv_def effect_changed(3) by (auto dest!: set_update_rowsD)
qed

lemma effect_at_append:
  "effects J' = effects J @ [r] \<Longrightarrow> effect_at J (ef_id r) = None \<Longrightarrow>
     effect_at J' = (effect_at J)(ef_id r \<mapsto> r)"
  by (auto simp: effect_at_def find_row_append fun_eq_iff split: option.splits)

lemma effect_delta_logged:
  assumes "effect_delta now J J'"
  shows "effect_state_of J' = effect_state_of J \<and> effect_log_pairs J' = effect_log_pairs J
    \<or> (\<exists>k y. effect_state_of J' = (effect_state_of J)(k \<mapsto> y)
           \<and> effect_log_pairs J' = effect_log_pairs J @ [(k, y)]
           \<and> (case effect_state_of J k of None \<Rightarrow> y = Eff_planned | Some x \<Rightarrow> effect_moves x y))"
  using assms
proof cases
  case effects_unchanged
  then show ?thesis by (simp add: effect_state_of_def effect_log_pairs_def effect_at_def fun_eq_iff)
next
  case (effect_planned r e)
  then show ?thesis
    using effect_at_append [OF effect_planned(6,1)]
    by (intro disjI2 exI [of _ "ef_id r"] exI [of _ Eff_planned])
      (auto simp: effect_state_of_def effect_log_pairs_def fun_eq_iff)
next
  case (effect_changed r r' e)
  have "ef_id r' = ef_id r" using effect_change_same effect_changed(2) by blast
  note at = effect_at_updated [OF effect_changed(1) this effect_changed(3)]
  show ?thesis
    using effect_changed at effect_change_allowed [OF effect_changed(2)]
    by (intro disjI2 exI [of _ "ef_id r"] exI [of _ "ef_state r'"])
      (auto simp: effect_state_of_def effect_log_pairs_def effect_moves_def fun_eq_iff)
qed

end
