(* ===== verification/Effect_Refinement.thy ===== *)
theory Effect_Refinement
  imports Effect_Invariants
begin

text \<open>
  Every Effect operation takes a step of \<open>effect_delta\<close> and touches no table outside the Effects
  and the leases; what a successful write says about the writer's token.
\<close>

section \<open>Writers\<close>

lemma writer_cases:
  assumes "assertEffectWriter J i token clock0 clock1 = Inr ()"
  obtains effect where "effect_at J i = Some effect"
    and "lease_holds J (lt_name token) (lt_holder token) (int (lt_generation token)) clock0"
    and "recovery_lease (lt_name token) (ef_purchase_id effect)
           \<and> \<not> effectClaimActiveInternal J effect clock1
         \<or> lt_name token = effect_lease_name i \<and> ef_claim_lease effect = Some (lt_name token)
           \<and> ef_claim_generation effect = Some (lt_generation token)"
proof -
  from assms obtain effect where at: "effect_at J i = Some effect"
    and holds: "assertLeaseInternal J token clock0 = Inr ()"
    and w: "recovery_lease (lt_name token) (ef_purchase_id effect)
           \<and> \<not> effectClaimActiveInternal J effect clock1
         \<or> lt_name token = effect_lease_name i \<and> ef_claim_lease effect = Some (lt_name token)
           \<and> ef_claim_generation effect = Some (lt_generation token)"
    unfolding assertEffectWriter_def by (auto split: if_splits)
  with that show thesis using assertLeaseInternal_holds by blast
qed

lemma effectClaimActive_holds:
  assumes "claim_ok J r" and "effect_checks r"
  shows "effectClaimActiveInternal J r now
    \<longleftrightarrow> (\<exists>g h. ef_claim_generation r = Some g
           \<and> lease_holds J (effect_lease_name (ef_id r)) h (int g) now)"
  using assms unfolding effectClaimActiveInternal_def lease_holds_def claim_ok_def effect_checks_def
  by (auto simp: effect_lease_name_def split: option.splits)

section \<open>Moves\<close>

lemma insertEffectTransition_eq:
  "insertEffectTransition i s t reason d now J = Inr J' \<Longrightarrow>
     J' = J\<lparr>effect_log := effect_log J @
            [\<lparr>et_effect_id = i, et_from = s, et_to = t, et_reason = reason, et_detail = d,
              et_created_at = now\<rparr>]\<rparr>"
  by (auto simp: insertEffectTransition_def)

lemma insertEffectObservation_rest [simp]:
  "effects (insertEffectObservation i s a d l now J) = effects J"
  "effect_at (insertEffectObservation i s a d l now J) = effect_at J"
  "effect_log (insertEffectObservation i s a d l now J) = effect_log J"
  "leases (insertEffectObservation i s a d l now J) = leases J"
  "outside_effects (insertEffectObservation i s a d l now J) = outside_effects J"
  by (simp_all add: insertEffectObservation_def Let_def effect_at_def fun_eq_iff)

lemma leases_untouched: "leases J' = leases J \<Longrightarrow> lease_step\<^sup>*\<^sup>* J J'"
  by (rule r_into_rtranclp) (rule lease_untouched)

text \<open>What a successful \<open>updateEffectState\<close> did; \<open>J0\<close> has the same Effects and leases.\<close>

lemma updateEffectState_delta:
  assumes up: "updateEffectState J effect to_state reason d now u = Inr J'"
    and at: "effect_at J0 (ef_id effect) = Some effect" and keys: "effect_keys_ok J0"
    and same: "effects J = effects J0" "effect_log J = effect_log J0" "leases J = leases J0"
    and target: "to_state \<noteq> Eff_executing" "to_state \<noteq> Eff_planned"
  shows "effect_delta now J0 J' \<and> outside_effects J' = outside_effects J
    \<and> effect_at J' = (effect_at J0)(ef_id effect \<mapsto> moved_effect to_state u now effect)
    \<and> leases J' = leases J0"
proof -
  let ?r' = "moved_effect to_state u now effect"
  have "effect \<in> set (effects J)" using effect_at_facts at same by auto
  then have allowed: "ef_state effect = to_state \<or> to_state \<in> set (effect_allowed (ef_state effect))"
    and checks: "effect_checks ?r'"
    and J': "J' = J\<lparr>effects := update_rows (effect_here effect) (moved_effect to_state u now) (effects J),
        effect_log := effect_log J @ [\<lparr>et_effect_id = ef_id effect, et_from = Some (ef_state effect),
          et_to = to_state, et_reason = reason, et_detail = d, et_created_at = now\<rparr>]\<rparr>"
    using up by (auto simp: updateEffectState_def assertEffectTransition_def effect_here_def
        dest!: insertEffectTransition_eq)
  have effects': "effects J' = update_rows (\<lambda>x. ef_id x = ef_id effect) (\<lambda>_. ?r') (effects J0)"
    using updated_here [OF keys at, of "moved_effect to_state u now"] same by (simp add: J')
  moreover have "effect_change J0 now effect ?r'"
    using allowed target checks by (rule effect_moved)
  moreover have id: "ef_id ?r' = ef_id effect" by (simp add: moved_effect_def)
  ultimately show ?thesis
    using at same effect_at_updated [OF at id effects']
    by (auto intro!: effect_changed leases_untouched simp: J' moved_effect_def)
qed

lemma effect_delta_refl: "effect_delta now J J"
  by (rule effects_unchanged) simp_all

text \<open>Recording an observation beside the step changes nothing the step speaks of.\<close>

lemma effect_delta_same:
  assumes "effect_delta now J J1" and "leases J1 = leases J"
    and "effects J' = effects J1" and "effect_log J' = effect_log J1" and "leases J' = leases J1"
  shows "effect_delta now J J'"
proof -
  have run: "lease_step\<^sup>*\<^sup>* J J'" using assms(2,5) by (intro leases_untouched) simp
  have gen: "lease_generation J' = lease_generation J1"
    using assms(5) by (simp add: lease_generation_def find_lease_def fun_eq_iff)
  from assms(1) show ?thesis
  proof cases
    case effects_unchanged
    with assms(3,4) run show ?thesis by (intro effect_delta.effects_unchanged) auto
  next
    case (effect_planned r e)
    with assms(3,4) run show ?thesis by (intro effect_delta.effect_planned [where r = r and e = e]) auto
  next
    case (effect_changed r r' e)
    with assms(3,4) run gen show ?thesis by (intro effect_delta.effect_changed [where r = r and e = e]) auto
  qed
qed

lemma effects_untouched:
  "effects J' = effects J \<Longrightarrow> effect_log J' = effect_log J \<Longrightarrow> leases J' = leases J \<Longrightarrow>
     effect_delta now J J'"
  by (intro effects_unchanged leases_untouched)

section \<open>Claims\<close>

lemma acquireLeaseInternal_outside:
  assumes "acquireLeaseInternal J name holder ttl now = Inr (J', token)"
  shows "outside_effects J' = outside_effects J \<and> effects J' = effects J \<and> effect_log J' = effect_log J
    \<and> effect_at J' = effect_at J"
  using assms by (cases rule: acquire_cases) (simp_all add: effect_at_def fun_eq_iff)

lemma acquire_step:
  "acquireLeaseInternal J name holder ttl now = Inr (J', token) \<Longrightarrow> 0 \<le> now \<Longrightarrow> is_safe_integer now \<Longrightarrow>
     lease_step J J'"
  by (rule lease_acquired [where clock = now]) (auto simp: acquireLease_def)

lemma claim_cases:
  assumes cl: "claimEffectInternal J effect holder ttl now = Inr (J', claim)"
    and at: "effect_at J (ef_id effect) = Some effect" and keys: "effect_keys_ok J"
  obtains (busy) "claim = None" and "effects J' = effects J" and "effect_log J' = effect_log J"
      and "lease_step\<^sup>*\<^sup>* J J'" and "outside_effects J' = outside_effects J"
  | (claimed) lease where
      "claim = Some (claimed_effect lease now effect, lease)"
      and "ef_state effect \<in> {Eff_planned, Eff_retryable}"
      and "acquireLeaseInternal J (effect_lease_name (ef_id effect)) holder ttl now
             = Inr (J\<lparr>leases := leases J'\<rparr>, Some lease)"
      and "effects J' = update_rows (\<lambda>x. ef_id x = ef_id effect)
             (\<lambda>_. claimed_effect lease now effect) (effects J)"
      and "effect_log J' = effect_log J @ [\<lparr>et_effect_id = ef_id effect,
             et_from = Some (ef_state effect), et_to = Eff_executing, et_reason = ''effect_claimed'',
             et_detail = Some (ef_payload_digest effect), et_created_at = now\<rparr>]"
      and "lease_step\<^sup>*\<^sup>* J J'" and "outside_effects J' = outside_effects J"
proof -
  from cl obtain J1 token where st: "ef_state effect \<in> {Eff_planned, Eff_retryable}"
    and clock: "0 \<le> now" "is_safe_integer now"
    and ac: "acquireLeaseInternal J (effect_lease_name (ef_id effect)) holder ttl now = Inr (J1, token)"
    and rest: "(case token of
        None \<Rightarrow> Inr (J1, None)
      | Some lease \<Rightarrow>
          if changes (effect_here effect) (effects J1) \<noteq> 1 then Inl JournalInvariantError
          else
          rbind (insertEffectTransition (ef_id effect) (Some (ef_state effect)) Eff_executing
                   ''effect_claimed'' (Some (ef_payload_digest effect)) now
                   (J1\<lparr>effects := update_rows (effect_here effect) (claimed_effect lease now)
                                   (effects J1)\<rparr>)) (\<lambda>J2.
          rbind (requireEffect J2 (ef_id effect)) (\<lambda>r. Inr (J2, Some (r, lease))))) = Inr (J', claim)"
    unfolding claimEffectInternal_def by (auto simp del: One_nat_def)
  note out = acquireLeaseInternal_outside [OF ac]
  have step: "lease_step J J1" using acquire_step ac clock by blast
  show thesis
  proof (cases token)
    case None
    with rest have "J' = J1" "claim = None" by auto
    with out step show thesis by (intro busy) auto
  next
    case (Some lease)
    then obtain r where J': "J' = J1\<lparr>effects := update_rows (effect_here effect)
          (claimed_effect lease now) (effects J1), effect_log := effect_log J1 @ [\<lparr>et_effect_id =
          ef_id effect, et_from = Some (ef_state effect), et_to = Eff_executing,
          et_reason = ''effect_claimed'', et_detail = Some (ef_payload_digest effect),
          et_created_at = now\<rparr>]\<rparr>"
      and r: "effect_at J' (ef_id effect) = Some r" and c: "claim = Some (r, lease)"
      using rest by (auto split: if_splits dest!: insertEffectTransition_eq)
    have effects': "effects J' = update_rows (\<lambda>x. ef_id x = ef_id effect)
             (\<lambda>_. claimed_effect lease now effect) (effects J)"
      using updated_here [OF keys at, of "claimed_effect lease now"] out by (simp add: J')
    have "ef_id (claimed_effect lease now effect) = ef_id effect" by (simp add: claimed_effect_def)
    from effect_at_updated [OF at this effects'] r
    have "r = claimed_effect lease now effect" by simp
    moreover have J1: "J1 = J\<lparr>leases := leases J'\<rparr>"
      using ac by (cases rule: acquire_cases) (simp_all add: J')
    moreover have "lease_step\<^sup>*\<^sup>* J J'"
    proof (rule rtranclp_trans)
      show "lease_step\<^sup>*\<^sup>* J J1" using step by blast
      show "lease_step\<^sup>*\<^sup>* J1 J'" by (rule leases_untouched) (simp add: J')
    qed
    ultimately show thesis using claimed c st ac Some effects' out J' by auto
  qed
qed

text \<open>A claim is only granted when the Effect's lease has lapsed, and under a new generation.\<close>

lemma acquire_lapsed:
  assumes "acquireLeaseInternal J name holder ttl now = Inr (J', Some token)"
  shows "\<not> lease_holds J name h g now"
  using acquire_live_refused [OF _ assms] by blast

lemma claim_delta:
  assumes cl: "claimEffectInternal J effect holder ttl now = Inr (J', claim)"
    and at: "effect_at J (ef_id effect) = Some effect" and inv: "effects_inv J"
  shows "effect_delta now J J' \<and> outside_effects J' = outside_effects J"
proof -
  have keys: "effect_keys_ok J" and row: "claim_ok J effect" "effect_checks effect"
    using inv effect_at_facts [OF at] by (auto simp: effects_inv_def)
  from cl at keys show ?thesis
  proof (cases rule: claim_cases)
    case busy
    then show ?thesis by (auto intro: effects_unchanged)
  next
    case (claimed lease)
    have lease: "lt_name lease = effect_lease_name (ef_id effect)"
      "lease_generation J (lt_name lease) < int (lt_generation lease)"
      "lease_generation J' (lt_name lease) = int (lt_generation lease)"
      using acquire_token_holds [OF claimed(3)]
      by (auto simp: lease_holds_def lease_generation_def find_lease_def split: option.splits)
    have "\<not> effectClaimActiveInternal J effect now"
      using acquire_lapsed [OF claimed(3)] effectClaimActive_holds [OF row] by blast
    then have "effect_change J now effect (claimed_effect lease now effect)"
      using claimed(2) lease by (intro effect_claimed) auto
    moreover have "ef_claim_generation (claimed_effect lease now effect) = Some (lt_generation lease)"
      "ef_state (claimed_effect lease now effect) = Eff_executing"
      by (simp_all add: claimed_effect_def)
    ultimately have "effect_delta now J J'"
      using at claimed(4-6) lease by (intro effect_changed) auto
    with claimed(7) show ?thesis by simp
  qed
qed

section \<open>The operations\<close>

definition effect_ok :: "int \<Rightarrow> journal \<Rightarrow> journal \<Rightarrow> bool" where
  "effect_ok now J J' \<longleftrightarrow> effect_delta now J J' \<and> outside_effects J' = outside_effects J"

lemma effect_ok_refl [simp]: "effect_ok now J J"
  by (simp add: effect_ok_def effect_delta_refl)

lemma plan_effect_ok:
  assumes "planEffect store J i fresh now = Inr (J', r)"
  shows "effect_ok now J J'"
proof (cases "find_row (\<lambda>r. ef_idempotency_key r = ei_idempotency_key i) (effects J)")
  case (Some existing)
  with assms have "J' = J" by (auto simp: planEffect_def)
  then show ?thesis by simp
next
  case None
  then have fresh_key: "\<forall>x \<in> set (effects J). ef_idempotency_key x \<noteq> ei_idempotency_key i"
    by (simp add: find_row_None_iff)
  from assms None obtain stored where "effect_at J fresh = None"
    and "effect_checks (new_effect i fresh stored now)"
    and "J' = J\<lparr>effects := effects J @ [new_effect i fresh stored now],
        effect_log := effect_log J @ [\<lparr>et_effect_id = fresh, et_from = None, et_to = Eff_planned,
          et_reason = ''effect_planned'', et_detail = Some (ei_payload_digest i),
          et_created_at = now\<rparr>]\<rparr>"
    unfolding planEffect_def Let_def by (auto dest!: insertEffectTransition_eq)
  with fresh_key show ?thesis
    unfolding effect_ok_def
    by (auto intro!: effect_planned [where r = "new_effect i fresh stored now"] leases_untouched
        simp: new_effect_def)
qed

lemma claim_effect_ok:
  assumes "claimEffect J i holder ttl now = Inr (J', claim)" and "effects_inv J"
  shows "effect_ok now J J'"
proof -
  from assms(1) obtain effect where "effect_at J i = Some effect"
    and "claimEffectInternal J effect holder ttl now = Inr (J', claim)"
    by (auto simp: claimEffect_def)
  then show ?thesis using claim_delta assms(2) effect_at_facts unfolding effect_ok_def by metis
qed

lemma mark_submitted_ok:
  assumes call: "markEffectSubmitted J i lease d clock0 clock1 now = Inr (J', r)"
    and inv: "effects_inv J"
  shows "effect_ok now J J'"
proof -
  from call obtain current where at: "effect_at J i = Some current"
    and "J' = J \<or> (\<exists>u. updateEffectState J current Eff_submitted ''effect_submission_acknowledged''
                        (Some d) now u = Inr J')"
    unfolding markEffectSubmitted_def transitionClaimedEffect_def by (auto split: if_splits)
  then consider "J' = J" | u where "updateEffectState J current Eff_submitted
      ''effect_submission_acknowledged'' (Some d) now u = Inr J'" by blast
  then show ?thesis
  proof cases
    case 2
    then show ?thesis
      using updateEffectState_delta [OF 2, of J] at effect_at_facts [OF at] inv
      by (auto simp: effect_ok_def effects_inv_def)
  qed simp
qed

lemma mark_ambiguous_ok:
  assumes call: "markEffectAmbiguous J i lease d clock0 clock1 now = Inr (J', r)"
    and inv: "effects_inv J"
  shows "effect_ok now J J'"
proof -
  from call obtain current where at: "effect_at J i = Some current"
    and "J' = J \<or> (\<exists>J1. updateEffectState J current Eff_ambiguous ''execution_ambiguous'' d now
                         no_updates = Inr J1
                \<and> J' = insertEffectObservation (ef_id current) EO_pending None d lease now J1)"
    unfolding markEffectAmbiguous_def Let_def by (auto split: if_splits)
  then consider "J' = J" | J1 where "updateEffectState J current Eff_ambiguous ''execution_ambiguous''
      d now no_updates = Inr J1"
      "J' = insertEffectObservation (ef_id current) EO_pending None d lease now J1" by blast
  then show ?thesis
  proof cases
    case 2
    have d: "effect_delta now J J1" "outside_effects J1 = outside_effects J" "leases J1 = leases J"
      using updateEffectState_delta [OF 2(1), of J] at effect_at_facts [OF at] inv
      by (auto simp: effects_inv_def)
    have "effect_delta now J J'"
      using d(1,3) by (rule effect_delta_same) (simp_all add: 2(2))
    with d show ?thesis by (simp add: effect_ok_def 2(2))
  qed simp
qed

lemma observation_ok:
  assumes call: "recordEffectObservation J i lease ob clock0 clock1 now = Inr (J', r)"
    and inv: "effects_inv J"
  shows "effect_ok now J J'"
proof -
  let ?m = "mapObservation ob"
  let ?J1 = "insertEffectObservation i (mo_status ?m) (mo_result ?m) (mo_detail ?m) lease now J"
  from call obtain effect where at: "effect_at J i = Some effect"
    and "J' = J \<or> (\<exists>reason d u. updateEffectState ?J1 effect (mo_next ?m) reason d now u = Inr J')"
    unfolding recordEffectObservation_def Let_def
    by (auto split: if_splits effect_observation.splits)
  then consider "J' = J"
    | reason d u where "updateEffectState ?J1 effect (mo_next ?m) reason d now u = Inr J'" by blast
  then show ?thesis
  proof cases
    case 2
    have "mo_next ?m \<noteq> Eff_executing" "mo_next ?m \<noteq> Eff_planned"
      by (cases ob; simp)+
    then show ?thesis
      using updateEffectState_delta [OF 2, of J] at effect_at_facts [OF at] inv
      by (auto simp: effect_ok_def effects_inv_def)
  qed simp
qed

lemma reconciliation_ok:
  "recordReconciliation J lease p e outcome d clock0 now = Inr (J', r) \<Longrightarrow> effect_ok now J J'"
  unfolding recordReconciliation_def Let_def effect_ok_def
  by (auto intro!: effects_untouched split: if_splits)

lemma lease_calls_ok:
  "acquireLease J name holder ttl now = Inr (J', token) \<Longrightarrow> effect_ok now J J'"
  "renewLease J token0 ttl now = Inr (J', token1) \<Longrightarrow> effect_ok now J J'"
  "releaseLease J token0 now = Inr (J', released) \<Longrightarrow> effect_ok now J J'"
proof -
  assume a: "acquireLease J name holder ttl now = Inr (J', token)"
  then have "acquireLeaseInternal J name holder ttl now = Inr (J', token)"
    by (auto simp: acquireLease_def)
  from acquireLeaseInternal_outside [OF this] lease_acquired [OF a] show "effect_ok now J J'"
    by (auto simp: effect_ok_def intro: effects_unchanged)
next
  assume a: "renewLease J token0 ttl now = Inr (J', token1)"
  from lease_renewed [OF a] a show "effect_ok now J J'"
    by (auto simp: effect_ok_def renewLease_def intro: effects_unchanged)
next
  assume a: "releaseLease J token0 now = Inr (J', released)"
  from lease_released [OF a] a show "effect_ok now J J'"
    by (auto simp: effect_ok_def releaseLease_def intro: effects_unchanged)
qed

end
