(* ===== verification/Ledger.thy ===== *)
theory Ledger
  imports Main
begin

text \<open>
  The contract of a rolling budget: what is used only shrinks as time passes without a step, a
  limit never goes down, and a step either uses no more than before or leaves the use within
  the limit. Under it the use stays within the limit on every run whose clock does not go
  back. The treasury capacity of the journal is an interpretation.
\<close>

inductive timed_run ::
  "(int \<Rightarrow> 's \<Rightarrow> 's \<Rightarrow> bool) \<Rightarrow> int \<Rightarrow> 's \<Rightarrow> int \<Rightarrow> 's \<Rightarrow> bool" for step t s where
  run_start: "timed_run step t s t s"
| run_wait: "timed_run step t s u s' \<Longrightarrow> u \<le> v \<Longrightarrow> timed_run step t s v s'"
| run_step: "timed_run step t s u s' \<Longrightarrow> step u s' s'' \<Longrightarrow> timed_run step t s u s''"

lemma timed_run_trans:
  "timed_run step u s' v s'' \<Longrightarrow> timed_run step t s u s' \<Longrightarrow> timed_run step t s v s''"
  by (induction rule: timed_run.induct) (auto intro: run_wait run_step)

lemma timed_run_at: "t \<le> u \<Longrightarrow> step u s s' \<Longrightarrow> timed_run step t s u s'"
  by (rule run_step [OF run_wait [OF run_start]])

lemma timed_run_snoc:
  "timed_run step t s u s' \<Longrightarrow> u \<le> v \<Longrightarrow> step v s' s'' \<Longrightarrow> timed_run step t s v s''"
  by (rule run_step [OF run_wait])

lemma timed_run_le: "timed_run step t s u s' \<Longrightarrow> t \<le> u"
  by (induction rule: timed_run.induct) auto

lemma timed_run_untimed:
  "timed_run step t s u s' \<Longrightarrow> (\<lambda>a b. \<exists>now. step now a b)\<^sup>*\<^sup>* s s'"
proof (induction rule: timed_run.induct)
  case (run_step u s' s'')
  then show ?case by (metis (mono_tags, lifting) rtranclp.rtrancl_into_rtrancl)
qed auto

lemma timed_run_invariant:
  assumes "timed_run step t s u s'" and "P s" and "\<And>now a b. P a \<Longrightarrow> step now a b \<Longrightarrow> P b"
  shows "P s'"
  using assms(1,2) by (induction rule: timed_run.induct) (auto intro: assms(3))

locale budget_ledger =
  fixes used :: "int \<Rightarrow> 's \<Rightarrow> nat"
    and limit :: "'s \<Rightarrow> nat"
    and good :: "'s \<Rightarrow> bool"
    and step :: "int \<Rightarrow> 's \<Rightarrow> 's \<Rightarrow> bool"
  assumes used_lapses: "t \<le> u \<Longrightarrow> used u s \<le> used t s"
    and step_good: "good s \<Longrightarrow> step now s s' \<Longrightarrow> good s'"
    and step_limit: "good s \<Longrightarrow> step now s s' \<Longrightarrow> limit s \<le> limit s'"
    and step_used:
      "good s \<Longrightarrow> step now s s' \<Longrightarrow> used now s' \<le> used now s \<or> used now s' \<le> limit s'"
begin

lemma run_within_limit:
  assumes "timed_run step t s u s'" and "good s" and "used t s \<le> limit s"
  shows "good s' \<and> used u s' \<le> limit s'"
  using assms(1)
proof (induction rule: timed_run.induct)
  case run_start
  then show ?case using assms(2,3) by simp
next
  case (run_wait u s' v)
  then show ?case using used_lapses [of u v s'] by auto
next
  case (run_step u s' s'')
  then show ?case
    using step_good step_limit [of s' u s''] step_used [of s' u s''] by fastforce
qed

end

end
