(* ===== verification/Journal_Steps.thy ===== *)
theory Journal_Steps
  imports Authority_Trail Payments Operation_Invariants Effect_Refinement Ledger
begin

text \<open>
  The journal as one state machine. A step is a step of one of its parts at one clock reading;
  every operation is a run of such steps at its readings (\<open>Journal_Calls\<close>). Here: the step,
  the invariant of the whole journal, and the rolling-hour budget.
\<close>

section \<open>Frames\<close>

definition outside_attempts :: "journal \<Rightarrow> journal" where
  "outside_attempts J = J\<lparr>attempts := [], attempt_log := []\<rparr>"

definition outside_purchases :: "journal \<Rightarrow> journal" where
  "outside_purchases J = J\<lparr>purchases := [], purchase_log := []\<rparr>"

definition outside_budget :: "journal \<Rightarrow> journal" where
  "outside_budget J = J\<lparr>reservations := [], settlements := [], recoveries := []\<rparr>"

definition outside_policies :: "journal \<Rightarrow> journal" where
  "outside_policies J = J\<lparr>policies := [], active := None\<rparr>"

text \<open>The tables the parts above own; the other tables belong to operations not modelled.\<close>

definition owned_tables :: "journal \<Rightarrow> journal" where
  "owned_tables J =
     J\<lparr>preparations := [], checkout_terms := [], authorization_requests := [], authorizations := [],
       evidence_links := [], evidence_verifications := [], staging_plans := [],
       staging_observations := [], execution_plans := [], fulfilments := [], receipts := [],
       movements := [], transfers := [], transfer_log := [], transfer_authorizations := [],
       effect_observations := [], operation_observations := [], reconciliation_runs := [],
       artifacts := [], recovery_plans := [], recovery_observations := [], budget := None,
       admission_leases := [], admission_intents := []\<rparr>"

lemma owned_update [simp]:
  "owned_tables (J\<lparr>movements := m\<rparr>) = owned_tables J"
  "owned_tables (J\<lparr>effect_observations := ob\<rparr>) = owned_tables J"
  "owned_tables (J\<lparr>reconciliation_runs := r\<rparr>) = owned_tables J"
  by (simp_all add: owned_tables_def)

lemma outside_update [simp]:
  "outside_attempts (J\<lparr>attempts := a\<rparr>) = outside_attempts J"
  "outside_attempts (J\<lparr>attempt_log := b\<rparr>) = outside_attempts J"
  "outside_purchases (J\<lparr>purchases := c\<rparr>) = outside_purchases J"
  "outside_purchases (J\<lparr>purchase_log := d\<rparr>) = outside_purchases J"
  "outside_budget (J\<lparr>reservations := e\<rparr>) = outside_budget J"
  "outside_budget (J\<lparr>settlements := f\<rparr>) = outside_budget J"
  "outside_budget (J\<lparr>recoveries := k\<rparr>) = outside_budget J"
  "outside_policies (J\<lparr>policies := g\<rparr>) = outside_policies J"
  "outside_policies (J\<lparr>active := h\<rparr>) = outside_policies J"
  by (simp_all add: outside_attempts_def outside_purchases_def outside_budget_def
      outside_policies_def)

lemma attempts_frame:
  assumes "outside_attempts J' = outside_attempts J"
  shows "operations J' = operations J" "operation_log J' = operation_log J" "effects J' = effects J"
    "effect_log J' = effect_log J" "leases J' = leases J" "purchases J' = purchases J"
    "purchase_log J' = purchase_log J" "reservations J' = reservations J"
    "settlements J' = settlements J" "recoveries J' = recoveries J" "policies J' = policies J"
    "active J' = active J"
  using assms unfolding outside_attempts_def by (cases J; cases J'; simp)+

lemma purchases_frame:
  assumes "outside_purchases J' = outside_purchases J"
  shows "operations J' = operations J" "operation_log J' = operation_log J" "effects J' = effects J"
    "effect_log J' = effect_log J" "leases J' = leases J" "attempts J' = attempts J"
    "attempt_log J' = attempt_log J" "reservations J' = reservations J"
    "settlements J' = settlements J" "recoveries J' = recoveries J" "policies J' = policies J"
    "active J' = active J"
  using assms unfolding outside_purchases_def by (cases J; cases J'; simp)+

lemma effects_frame:
  assumes "outside_effects J' = outside_effects J"
  shows "operations J' = operations J" "operation_log J' = operation_log J"
    "purchases J' = purchases J" "purchase_log J' = purchase_log J" "attempts J' = attempts J"
    "attempt_log J' = attempt_log J" "reservations J' = reservations J"
    "settlements J' = settlements J" "recoveries J' = recoveries J" "policies J' = policies J"
    "active J' = active J"
  using assms unfolding outside_effects_def by (cases J; cases J'; simp)+

lemma budget_frame:
  assumes "outside_budget J' = outside_budget J"
  shows "operations J' = operations J" "operation_log J' = operation_log J" "effects J' = effects J"
    "effect_log J' = effect_log J" "leases J' = leases J" "attempts J' = attempts J"
    "attempt_log J' = attempt_log J" "purchases J' = purchases J"
    "purchase_log J' = purchase_log J" "policies J' = policies J" "active J' = active J"
  using assms unfolding outside_budget_def by (cases J; cases J'; simp)+

lemma policies_frame:
  assumes "outside_policies J' = outside_policies J"
  shows "operations J' = operations J" "operation_log J' = operation_log J" "effects J' = effects J"
    "effect_log J' = effect_log J" "leases J' = leases J" "attempts J' = attempts J"
    "attempt_log J' = attempt_log J" "purchases J' = purchases J"
    "purchase_log J' = purchase_log J" "reservations J' = reservations J"
    "settlements J' = settlements J" "recoveries J' = recoveries J"
  using assms unfolding outside_policies_def by (cases J; cases J'; simp)+

lemma owned_frame:
  assumes "owned_tables J' = owned_tables J"
  shows "operations J' = operations J" "operation_log J' = operation_log J" "effects J' = effects J"
    "effect_log J' = effect_log J" "leases J' = leases J" "attempts J' = attempts J"
    "attempt_log J' = attempt_log J" "purchases J' = purchases J"
    "purchase_log J' = purchase_log J" "reservations J' = reservations J"
    "settlements J' = settlements J" "recoveries J' = recoveries J" "policies J' = policies J"
    "active J' = active J"
  using assms unfolding owned_tables_def by (cases J; cases J'; simp)+

lemma operations_frame:
  assumes "other_tables J' = other_tables J"
  shows "effects J' = effects J" "effect_log J' = effect_log J" "leases J' = leases J"
    "attempts J' = attempts J" "attempt_log J' = attempt_log J" "purchases J' = purchases J"
    "purchase_log J' = purchase_log J" "settlements J' = settlements J"
    "recoveries J' = recoveries J" "policies J' = policies J" "active J' = active J"
  using assms unfolding other_tables_def by (cases J; cases J'; simp)+

lemma trail_frames:
  "outside_attempts J' = outside_attempts J \<Longrightarrow> trail J' = trail J"
  "outside_purchases J' = outside_purchases J \<Longrightarrow> trail J' = trail J"
  "outside_effects J' = outside_effects J \<Longrightarrow> trail J' = trail J"
  "outside_budget J' = outside_budget J \<Longrightarrow> trail J' = trail J"
  "outside_policies J' = outside_policies J \<Longrightarrow> trail J' = trail J"
  "other_tables J' = other_tables J \<Longrightarrow> trail J' = trail J"
  unfolding outside_attempts_def outside_purchases_def outside_effects_def outside_budget_def
    outside_policies_def other_tables_def trail_def by (cases J; cases J'; simp)+

section \<open>The step\<close>

text \<open>What may happen to one Treasury Reservation, apart from being spent.\<close>

definition reservation_move :: "int \<Rightarrow> reservation_row \<Rightarrow> reservation_row \<Rightarrow> bool" where
  "reservation_move now r r' \<longleftrightarrow>
     rs_id r' = rs_id r \<and> rs_purchase_id r' = rs_purchase_id r \<and> rs_amount r' = rs_amount r
     \<and> rs_additional_cost_ceiling r' = rs_additional_cost_ceiling r
     \<and> rs_policy_digest r' = rs_policy_digest r \<and> rs_payee r' = rs_payee r
     \<and> rs_expires_at r' = rs_expires_at r
     \<and> (rs_state r = Res_active \<and> rs_expires_at r \<le> now \<and> rs_state r' = Res_expired
        \<or> rs_state r = Res_active \<and> rs_state r' = Res_released
        \<or> rs_state r = Res_active \<and> now < rs_expires_at r \<and> rs_state r' = Res_in_flight
        \<or> rs_state r = Res_in_flight \<and> rs_state r' = Res_released)"

inductive journal_step :: "int \<Rightarrow> journal \<Rightarrow> journal \<Rightarrow> bool" for now where
  step_operation: "operation_delta now J J' \<Longrightarrow> journal_step now J J'"
| step_effect:
    "effect_delta now J J' \<Longrightarrow> outside_effects J' = outside_effects J \<Longrightarrow> journal_step now J J'"
| step_attempt:
    "attempt_delta J J' \<Longrightarrow> outside_attempts J' = outside_attempts J \<Longrightarrow> journal_step now J J'"
| step_purchase:
    "purchase_delta J J' \<Longrightarrow> outside_purchases J' = outside_purchases J \<Longrightarrow> journal_step now J J'"
| step_reserve:
    "p \<in> set (policies J) \<Longrightarrow> rs_state row = Res_active \<Longrightarrow>
     findReservation J (rs_id row) = None \<Longrightarrow>
     \<not> list_ex (\<lambda>r. rs_purchase_id r = rs_purchase_id row
                    \<and> rs_state r \<in> {Res_active, Res_in_flight, Res_spent}) (reservations J) \<Longrightarrow>
     rs_policy_digest row = pol_digest p \<Longrightarrow>
     (pol_allowlist p \<noteq> [] \<longrightarrow> rs_payee row \<in> set (pol_allowlist p)) \<Longrightarrow>
     reservation_cost row \<le> BigInt (pol_max_per_payment p) \<Longrightarrow>
     policyCapacityUsedInternal J now None + reservation_cost row \<le> BigInt (pol_max_per_hour p) \<Longrightarrow>
     reservation_bound J row \<Longrightarrow>
     journal_step now J (J\<lparr>reservations := reservations J @ [row]\<rparr>)"
| step_reservation:
    "(\<forall>r \<in> set (reservations J). u r \<longrightarrow> reservation_move now r (f r)) \<Longrightarrow>
     journal_step now J (J\<lparr>reservations := update_rows u f (reservations J)\<rparr>)"
| step_settle:
    "r \<in> set (reservations J) \<Longrightarrow> rs_state r = Res_in_flight \<Longrightarrow> rs_id r = st_reservation_id s \<Longrightarrow>
     rs_purchase_id r = st_purchase_id s \<Longrightarrow> findSettlement J (st_reservation_id s) = None \<Longrightarrow>
     BigInt (st_amount s) \<le> BigInt (rs_amount r) \<Longrightarrow>
     BigInt (st_additional_cost s) \<le> BigInt (rs_additional_cost_ceiling r) \<Longrightarrow>
     st_observed_at s = now \<Longrightarrow> st_payee s = rs_payee r \<Longrightarrow>
     journal_step now J
       (spent_row (st_reservation_id s) now (J\<lparr>settlements := settlements J @ [s]\<rparr>))"
| step_recover:
    "r \<in> set (reservations J) \<Longrightarrow> rs_state r = Res_in_flight \<Longrightarrow> rs_id r = ra_reservation_id a \<Longrightarrow>
     rs_purchase_id r = ra_purchase_id a \<Longrightarrow>
     \<not> list_ex (\<lambda>x. ra_reservation_id x = ra_reservation_id a) (recoveries J) \<Longrightarrow>
     BigInt (ra_additional_cost a) \<le> BigInt (rs_additional_cost_ceiling r) \<Longrightarrow>
     journal_step now J
       (released_row (ra_reservation_id a) d now (J\<lparr>recoveries := recoveries J @ [a]\<rparr>))"
| step_policy:
    "set (policies J) \<subseteq> set (policies J') \<Longrightarrow> (policies_ok J \<Longrightarrow> policies_ok J') \<Longrightarrow>
     policy_step J J' \<Longrightarrow> outside_policies J' = outside_policies J \<Longrightarrow> journal_step now J J'"
| step_elsewhere:
    "owned_tables J' = owned_tables J \<Longrightarrow> trail_delta J J' \<Longrightarrow> journal_step now J J'"

section \<open>The invariant\<close>

definition reservation_live :: "reservation_row \<Rightarrow> bool" where
  "reservation_live r \<longleftrightarrow> rs_state r \<in> {Res_active, Res_in_flight, Res_spent}"

text \<open>
  One reservation per identity and one live reservation per Purchase; every settlement belongs
  to a spent reservation of its Purchase and stays within it.
\<close>

definition settled_by :: "journal \<Rightarrow> settlement_row \<Rightarrow> bool" where
  "settled_by J s \<longleftrightarrow>
     (\<exists>r \<in> set (reservations J).
        rs_id r = st_reservation_id s \<and> rs_purchase_id r = st_purchase_id s
        \<and> rs_state r = Res_spent \<and> rs_payee r = st_payee s
        \<and> BigInt (st_amount s) \<le> BigInt (rs_amount r)
        \<and> BigInt (st_additional_cost s) \<le> BigInt (rs_additional_cost_ceiling r))"

text \<open>A recovery is accounted for once, within a reservation of its Purchase that it released.\<close>

definition recovered_by :: "journal \<Rightarrow> recovery_accounting_row \<Rightarrow> bool" where
  "recovered_by J a \<longleftrightarrow>
     (\<exists>r \<in> set (reservations J).
        rs_id r = ra_reservation_id a \<and> rs_purchase_id r = ra_purchase_id a
        \<and> rs_state r = Res_released
        \<and> BigInt (ra_additional_cost a) \<le> BigInt (rs_additional_cost_ceiling r))"

definition reservations_inv :: "journal \<Rightarrow> bool" where
  "reservations_inv J \<longleftrightarrow>
     distinct (map rs_id (reservations J))
     \<and> distinct (map rs_purchase_id (filter reservation_live (reservations J)))
     \<and> distinct (map st_reservation_id (settlements J))
     \<and> (\<forall>s \<in> set (settlements J). settled_by J s)
     \<and> distinct (map ra_reservation_id (recoveries J))
     \<and> (\<forall>a \<in> set (recoveries J). recovered_by J a)"

definition journal_inv :: "journal \<Rightarrow> bool" where
  "journal_inv J \<longleftrightarrow>
     operations_inv J \<and> effects_inv J \<and> attempts_inv J \<and> purchases_inv J \<and> policies_ok J
     \<and> reservations_inv J \<and> trail_inv J"

lemma operations_inv_cong:
  "operations J' = operations J \<Longrightarrow> operation_log J' = operation_log J \<Longrightarrow>
     operations_inv J' = operations_inv J"
  using inv_unchanged [of J J'] inv_unchanged [of J' J] by auto

lemma lease_generation_cong: "leases J' = leases J \<Longrightarrow> lease_generation J' = lease_generation J"
  by (simp add: lease_generation_def find_lease_def fun_eq_iff)

lemma effects_inv_cong:
  "effects J' = effects J \<Longrightarrow> leases J' = leases J \<Longrightarrow> effects_inv J' = effects_inv J"
proof -
  assume "effects J' = effects J" and l: "leases J' = leases J"
  moreover have "claim_ok J' = claim_ok J"
    using lease_generation_cong [OF l] by (simp add: claim_ok_def fun_eq_iff split: option.splits)
  ultimately show ?thesis by (simp add: effects_inv_def effect_keys_ok_def leases_ok_def)
qed

lemma attempts_inv_cong: "attempts J' = attempts J \<Longrightarrow> attempts_inv J' = attempts_inv J"
  by (simp add: attempts_inv_def)

lemma purchases_inv_cong: "purchases J' = purchases J \<Longrightarrow> purchases_inv J' = purchases_inv J"
  by (simp add: purchases_inv_def)

lemma policies_ok_cong:
  "policies J' = policies J \<Longrightarrow> active J' = active J \<Longrightarrow> policies_ok J' = policies_ok J"
  by (simp add: policies_ok_def)

lemma reservations_inv_cong:
  "reservations J' = reservations J \<Longrightarrow> settlements J' = settlements J \<Longrightarrow>
     recoveries J' = recoveries J \<Longrightarrow> reservations_inv J' = reservations_inv J"
  by (simp add: reservations_inv_def settled_by_def recovered_by_def)

lemmas inv_congs = operations_inv_cong effects_inv_cong attempts_inv_cong purchases_inv_cong
  policies_ok_cong reservations_inv_cong

lemma distinct_live_update:
  assumes "distinct (map rs_purchase_id (filter reservation_live t))"
    and "\<And>r. r \<in> set t \<Longrightarrow> u r \<Longrightarrow>
           rs_purchase_id (f r) = rs_purchase_id r \<and> (reservation_live (f r) \<longrightarrow> reservation_live r)"
  shows "distinct (map rs_purchase_id (filter reservation_live (update_rows u f t)))
    \<and> rs_purchase_id ` set (filter reservation_live (update_rows u f t))
        \<subseteq> rs_purchase_id ` set (filter reservation_live t)"
  using assms
proof (induction t)
  case (Cons r t)
  have ih: "distinct (map rs_purchase_id (filter reservation_live (update_rows u f t)))
    \<and> rs_purchase_id ` set (filter reservation_live (update_rows u f t))
        \<subseteq> rs_purchase_id ` set (filter reservation_live t)"
    using Cons by (auto split: if_splits)
  moreover have "rs_purchase_id r \<notin> rs_purchase_id ` set (filter reservation_live t)"
    if "reservation_live r" using Cons.prems(1) that by auto
  ultimately show ?case using Cons.prems(2) [of r] by (auto 0 3 split: if_splits)
qed simp

lemma reservations_inv_update:
  assumes inv: "reservations_inv J"
    and move: "\<forall>r \<in> set (reservations J). u r \<longrightarrow> reservation_move now r (f r)"
    and J': "reservations J' = update_rows u f (reservations J)" "settlements J' = settlements J"
      "recoveries J' = recoveries J"
  shows "reservations_inv J'"
proof -
  have ids: "map rs_id (reservations J') = map rs_id (reservations J)"
    using move unfolding J' by (auto simp: update_rows_def reservation_move_def)
  have live: "distinct (map rs_purchase_id (filter reservation_live (reservations J')))"
    unfolding J'(1)
    by (rule conjunct1 [OF distinct_live_update])
      (use inv move in \<open>auto simp: reservations_inv_def reservation_move_def reservation_live_def\<close>)
  have ended: "r \<in> set (reservations J')"
    if "r \<in> set (reservations J)" "rs_state r = Res_spent \<or> rs_state r = Res_released" for r
  proof -
    have "\<not> u r" using move that by (auto simp: reservation_move_def)
    with that(1) show ?thesis unfolding J'(1) update_rows_def by force
  qed
  have "settled_by J' s" if "s \<in> set (settlements J)" for s
    using inv that ended unfolding reservations_inv_def settled_by_def by blast
  moreover have "recovered_by J' a" if "a \<in> set (recoveries J)" for a
    using inv that ended unfolding reservations_inv_def recovered_by_def by blast
  ultimately show ?thesis using ids live inv unfolding reservations_inv_def J'(2,3) by simp
qed

lemma expire_move:
  "\<forall>r \<in> set (reservations J). (rs_state r = Res_active \<and> rs_expires_at r \<le> now) \<longrightarrow>
     reservation_move now r (r\<lparr>rs_state := Res_expired, rs_updated_at := now\<rparr>)"
  by (simp add: reservation_move_def)

lemma operation_reservations:
  "rest_kept now J J' \<Longrightarrow> reservations J' = reservations J
     \<or> reservations J' = update_rows (\<lambda>r. rs_state r = Res_active \<and> rs_expires_at r \<le> now)
         (\<lambda>r. r\<lparr>rs_state := Res_expired, rs_updated_at := now\<rparr>) (reservations J)"
  by (auto simp: rest_kept_def expireReservationsInternal_def)

lemma operation_delta_rest: "operation_delta now J J' \<Longrightarrow> rest_kept now J J'"
  by (induction rule: operation_delta.induct) auto

lemma reservations_inv_expired:
  assumes "rest_kept now J J'" and "reservations_inv J"
  shows "reservations_inv J'"
proof -
  have st: "settlements J' = settlements J" "recoveries J' = recoveries J"
    using assms(1) by (simp_all add: rest_kept_def)
  from operation_reservations [OF assms(1)] show ?thesis
  proof
    assume "reservations J' = reservations J"
    with st assms(2) show ?thesis using reservations_inv_cong by blast
  next
    assume "reservations J' = update_rows (\<lambda>r. rs_state r = Res_active \<and> rs_expires_at r \<le> now)
         (\<lambda>r. r\<lparr>rs_state := Res_expired, rs_updated_at := now\<rparr>) (reservations J)"
    then show ?thesis by (rule reservations_inv_update [OF assms(2) expire_move _ st])
  qed
qed

lemma move_same_booking: "reservation_move now r r' \<Longrightarrow> same_booking r r'"
  by (simp add: reservation_move_def same_booking_def)

lemma trail_inv_expired:
  assumes "rest_kept now J J'" and "trail_inv J"
  shows "trail_inv J'"
proof -
  have o: "other_tables J' = other_tables J" using assms(1) by (simp add: rest_kept_def)
  note t = trail_frames(6) [OF o] and p = operations_frame(6) [OF o] and s = operations_frame(8) [OF o]
  from operation_reservations [OF assms(1)] show ?thesis
  proof
    assume "reservations J' = reservations J"
    then show ?thesis using trail_inv_rest [OF t p _ s assms(2)] by blast
  next
    assume "reservations J' = update_rows (\<lambda>r. rs_state r = Res_active \<and> rs_expires_at r \<le> now)
         (\<lambda>r. r\<lparr>rs_state := Res_expired, rs_updated_at := now\<rparr>) (reservations J)"
    then show ?thesis
      by (rule trail_inv_updated [OF t p assms(2), rotated]) (simp_all add: same_booking_def s)
  qed
qed

lemma reservations_inv_reserve:
  assumes inv: "reservations_inv J" and new: "findReservation J (rs_id row) = None"
    and free: "\<not> list_ex (\<lambda>r. rs_purchase_id r = rs_purchase_id row
                    \<and> rs_state r \<in> {Res_active, Res_in_flight, Res_spent}) (reservations J)"
  shows "reservations_inv (J\<lparr>reservations := reservations J @ [row]\<rparr>)"
proof -
  have "rs_id row \<notin> rs_id ` set (reservations J)"
    using new by (auto simp: findReservation_def find_row_None_iff)
  moreover have "rs_purchase_id row \<notin> rs_purchase_id ` set (filter reservation_live (reservations J))"
    using free by (auto simp: list_ex_iff reservation_live_def)
  moreover have "\<forall>s \<in> set (settlements J). settled_by (J\<lparr>reservations := reservations J @ [row]\<rparr>) s"
    using inv by (auto simp: reservations_inv_def settled_by_def)
  moreover have "\<forall>a \<in> set (recoveries J). recovered_by (J\<lparr>reservations := reservations J @ [row]\<rparr>) a"
    using inv by (auto simp: reservations_inv_def recovered_by_def)
  ultimately show ?thesis
    using inv by (simp add: reservations_inv_def)
qed

lemma reservations_inv_recover:
  assumes inv: "reservations_inv J" and r: "r \<in> set (reservations J)" "rs_state r = Res_in_flight"
      "rs_id r = ra_reservation_id a" "rs_purchase_id r = ra_purchase_id a"
    and fresh: "\<not> list_ex (\<lambda>x. ra_reservation_id x = ra_reservation_id a) (recoveries J)"
    and within: "BigInt (ra_additional_cost a) \<le> BigInt (rs_additional_cost_ceiling r)"
  shows "reservations_inv (released_row (ra_reservation_id a) d now (J\<lparr>recoveries := recoveries J @ [a]\<rparr>))"
    (is "reservations_inv ?J'")
proof -
  let ?u = "\<lambda>r. rs_id r = ra_reservation_id a \<and> rs_state r = Res_in_flight"
  let ?f = "\<lambda>r. r\<lparr>rs_state := Res_released, rs_release_evidence := Some d, rs_updated_at := now\<rparr>"
  let ?K = "J\<lparr>reservations := update_rows ?u ?f (reservations J)\<rparr>"
  have K: "reservations_inv ?K"
    by (rule reservations_inv_update [OF inv, of ?u now ?f]) (simp_all add: reservation_move_def)
  have rows: "reservations ?J' = reservations ?K" "settlements ?J' = settlements ?K"
      "recoveries ?J' = recoveries J @ [a]"
    by (simp_all add: released_row_def)
  have "?f r \<in> set (reservations ?K)" unfolding update_rows_def using r by force
  then have "recovered_by ?K a"
    unfolding recovered_by_def using r within by (intro bexI [of _ "?f r"]) auto
  moreover have "ra_reservation_id a \<notin> ra_reservation_id ` set (recoveries J)"
    using fresh by (auto simp: list_ex_iff)
  ultimately show ?thesis
    using K unfolding reservations_inv_def settled_by_def recovered_by_def rows by auto
qed

lemma reservations_inv_settle:
  assumes inv: "reservations_inv J" and r: "r \<in> set (reservations J)" "rs_state r = Res_in_flight"
      "rs_id r = st_reservation_id s" "rs_purchase_id r = st_purchase_id s"
    and fresh: "findSettlement J (st_reservation_id s) = None"
    and within: "BigInt (st_amount s) \<le> BigInt (rs_amount r)"
      "BigInt (st_additional_cost s) \<le> BigInt (rs_additional_cost_ceiling r)"
    and payee: "st_payee s = rs_payee r"
  shows "reservations_inv (spent_row (st_reservation_id s) now (J\<lparr>settlements := settlements J @ [s]\<rparr>))"
    (is "reservations_inv ?J'")
proof -
  let ?u = "\<lambda>r. rs_id r = st_reservation_id s \<and> rs_state r = Res_in_flight"
  let ?f = "\<lambda>r. r\<lparr>rs_state := Res_spent, rs_spent_at := Some now, rs_updated_at := now\<rparr>"
  have res: "reservations ?J' = update_rows ?u ?f (reservations J)"
    and st: "settlements ?J' = settlements J @ [s]" and rec: "recoveries ?J' = recoveries J"
    by (simp_all add: spent_row_def)
  have ids: "map rs_id (reservations ?J') = map rs_id (reservations J)"
    unfolding res by (rule map_key_update_rows) simp
  have live: "distinct (map rs_purchase_id (filter reservation_live (reservations ?J')))"
    unfolding res by (rule conjunct1 [OF distinct_live_update])
      (use inv in \<open>auto simp: reservations_inv_def reservation_live_def\<close>)
  have kept: "x \<in> set (reservations ?J')"
    if "x \<in> set (reservations J)" "rs_state x = Res_spent \<or> rs_state x = Res_released" for x
    unfolding res update_rows_def using that by force
  have "?f r \<in> set (reservations ?J')"
    unfolding res update_rows_def using r by force
  then have "settled_by ?J' s"
    unfolding settled_by_def using r within payee by (intro bexI [of _ "?f r"]) auto
  moreover have "settled_by ?J' x" if "x \<in> set (settlements J)" for x
    using inv that kept unfolding reservations_inv_def settled_by_def by blast
  moreover have "st_reservation_id s \<notin> st_reservation_id ` set (settlements J)"
    using fresh by (auto simp: findSettlement_def find_row_None_iff)
  moreover have "recovered_by ?J' x" if "x \<in> set (recoveries J)" for x
    using inv that kept unfolding reservations_inv_def recovered_by_def by blast
  ultimately show ?thesis using ids live inv unfolding reservations_inv_def st rec by auto
qed

lemma journal_step_inv:
  assumes "journal_step now J J'" and inv: "journal_inv J"
  shows "journal_inv J'"
  using assms(1)
proof cases
  case step_operation
  have rest: "rest_kept now J J'" using operation_delta_rest step_operation by blast
  then have "other_tables J' = other_tables J" by (simp add: rest_kept_def)
  note fr = operations_frame [OF this]
  show ?thesis
    using inv operation_delta_inv [OF step_operation] reservations_inv_expired [OF rest]
      trail_inv_expired [OF rest]
      inv_congs [of J' J] by (simp add: journal_inv_def fr)
next
  case step_effect
  note fr = effects_frame [OF step_effect(2)]
  show ?thesis using inv effect_delta_inv [OF step_effect(1)]
    trail_inv_rest [OF trail_frames(3) [OF step_effect(2)]]
    inv_congs [of J' J] by (simp add: journal_inv_def fr)
next
  case step_attempt
  note fr = attempts_frame [OF step_attempt(2)]
  show ?thesis using inv attempt_delta_inv [OF step_attempt(1)]
    trail_inv_rest [OF trail_frames(1) [OF step_attempt(2)]]
    inv_congs [of J' J] by (simp add: journal_inv_def fr)
next
  case step_purchase
  note fr = purchases_frame [OF step_purchase(2)]
  note tr = trail_frames(2) [OF step_purchase(2)]
  from inv have i: "trail_inv J" "purchases_inv J" by (simp_all add: journal_inv_def)
  have "\<forall>r \<in> set (reservations J'). reservation_bound J' r"
    using i(1) bound_mono(4) [OF trail_delta_grows [OF trail_kept [OF tr]]]
    unfolding fr(8) trail_inv_def by blast
  then have "trail_inv J'"
    by (rule trail_inv_same [OF tr i(1) purchase_delta_kept [OF step_purchase(1) i(2)] _ _
          purchase_delta_backed [OF step_purchase(1) tr i(1)], rotated]) (use same_booking_refl in \<open>fastforce simp: fr\<close>)+
  then show ?thesis using inv purchase_delta_inv [OF step_purchase(1)]
    inv_congs [of J' J] by (simp add: journal_inv_def fr)
next
  case (step_reserve p row)
  have "outside_budget J' = outside_budget J" unfolding step_reserve(1) by simp
  note fr = budget_frame [OF this]
  have "reservations_inv J'"
    unfolding step_reserve(1) using step_reserve(4,5)
    by (rule reservations_inv_reserve [rotated]) (use inv in \<open>simp add: journal_inv_def\<close>)
  moreover have "trail_inv J'"
    by (rule trail_inv_frame [of J' J])
      (use inv step_reserve(10) in \<open>auto simp: journal_inv_def step_reserve(1) trail_def same_booking_def\<close>)
  ultimately show ?thesis using inv inv_congs [of J' J] by (simp add: journal_inv_def fr)
next
  case (step_reservation u f)
  have "outside_budget J' = outside_budget J" unfolding step_reservation(1) by simp
  note fr = budget_frame [OF this]
  have "reservations_inv J'"
    by (rule reservations_inv_update [OF _ step_reservation(2)])
      (use inv in \<open>simp_all add: journal_inv_def step_reservation(1)\<close>)
  moreover have "trail_inv J'"
    by (rule trail_inv_updated [of J' J u f])
      (use inv step_reservation(2) move_same_booking in
        \<open>auto simp: journal_inv_def step_reservation(1) trail_def\<close>)
  ultimately show ?thesis using inv inv_congs [of J' J] by (simp add: journal_inv_def fr)
next
  case (step_settle r s)
  have "outside_budget J' = outside_budget J" unfolding step_settle(1) by (simp add: spent_row_def)
  note fr = budget_frame [OF this]
  have "reservations_inv J'"
    unfolding step_settle(1) by (rule reservations_inv_settle)
      (use inv step_settle in \<open>simp_all add: journal_inv_def\<close>)
  moreover have "trail_inv J'"
    by (rule trail_inv_updated [of J' J "\<lambda>r. rs_id r = st_reservation_id s \<and> rs_state r = Res_in_flight"
          "\<lambda>r. r\<lparr>rs_state := Res_spent, rs_spent_at := Some now, rs_updated_at := now\<rparr>"])
      (use inv in \<open>auto simp: journal_inv_def trail_def same_booking_def spent_row_def step_settle(1)\<close>)
  ultimately show ?thesis using inv inv_congs [of J' J] by (simp add: journal_inv_def fr)
next
  case (step_recover r a d)
  have "outside_budget J' = outside_budget J" unfolding step_recover(1) by (simp add: released_row_def)
  note fr = budget_frame [OF this]
  have "reservations_inv J'"
    unfolding step_recover(1) by (rule reservations_inv_recover)
      (use inv step_recover in \<open>simp_all add: journal_inv_def\<close>)
  moreover have "trail_inv J'"
    by (rule trail_inv_updated [of J' J "\<lambda>r. rs_id r = ra_reservation_id a \<and> rs_state r = Res_in_flight"
          "\<lambda>r. r\<lparr>rs_state := Res_released, rs_release_evidence := Some d, rs_updated_at := now\<rparr>"])
      (use inv in \<open>auto simp: journal_inv_def trail_def same_booking_def released_row_def step_recover(1)\<close>)
  ultimately show ?thesis using inv inv_congs [of J' J] by (simp add: journal_inv_def fr)
next
  case step_policy
  note fr = policies_frame [OF step_policy(4)]
  show ?thesis using inv step_policy(2) trail_inv_rest [OF trail_frames(5) [OF step_policy(4)]]
    inv_congs [of J' J] by (simp add: journal_inv_def fr)
next
  case step_elsewhere
  note fr = owned_frame [OF step_elsewhere(1)]
  show ?thesis using inv trail_delta_inv [OF step_elsewhere(2)] inv_congs [of J' J] by (simp add: journal_inv_def fr)
qed

text \<open>Whatever step is taken, the paper trail is kept or gets one row that agrees with it.\<close>

lemma journal_step_trail: "journal_step now J J' \<Longrightarrow> trail_delta J J'"
proof (induction rule: journal_step.induct)
  case (step_operation J J')
  then have "other_tables J' = other_tables J" using operation_delta_rest by (auto simp: rest_kept_def)
  then show ?case by (rule trail_kept [OF trail_frames(6)])
next
  case (step_effect J J')
  show ?case by (rule trail_kept [OF trail_frames(3) [OF step_effect(2)]])
next
  case (step_attempt J J')
  show ?case by (rule trail_kept [OF trail_frames(1) [OF step_attempt(2)]])
next
  case (step_purchase J J')
  show ?case by (rule trail_kept [OF trail_frames(2) [OF step_purchase(2)]])
next
  case (step_policy J J')
  show ?case by (rule trail_kept [OF trail_frames(5) [OF step_policy(4)]])
next
  case (step_elsewhere J J')
  show ?case by (rule step_elsewhere(2))
qed (rule trail_kept, simp add: trail_def spent_row_def released_row_def)+

lemma journal_inv_empty: "journal_inv empty_journal"
  by (simp add: journal_inv_def operations_inv_def operation_keys_ok_def empty_journal_def
      unresolvedTreasuryOperationCount_def effects_inv_def effect_keys_ok_def leases_ok_def
      attempts_inv_def purchases_inv_def policies_ok_def reservations_inv_def
      trail_inv_def trail_keys_def)

end
