(* ===== verification/Capacity_Ledger.thy ===== *)
theory Capacity_Ledger
  imports Journal_Steps
begin

text \<open>
  The rolling-hour treasury capacity as a budget ledger: \<open>policyCapacityUsedInternal\<close> never
  exceeds the highest hourly limit of a recorded policy, whatever mix of Purchases, direct
  Treasury Operations and policy changes the journal sees, as long as its clock does not go
  back.
\<close>

definition hourly_ceiling :: "journal \<Rightarrow> nat" where
  "hourly_ceiling J = foldr (\<lambda>p m. max (BigInt (pol_max_per_hour p)) m) (policies J) 0"

lemma foldr_max_le:
  "foldr (\<lambda>p m. max (f p) m) ps (0::nat) \<le> n \<longleftrightarrow> (\<forall>p \<in> set ps. f p \<le> n)"
  by (induction ps) auto

lemma hourly_ceiling_le: "hourly_ceiling J \<le> n \<longleftrightarrow> (\<forall>p \<in> set (policies J). BigInt (pol_max_per_hour p) \<le> n)"
  by (simp add: hourly_ceiling_def foldr_max_le)

lemma hourly_ceiling_ge: "p \<in> set (policies J) \<Longrightarrow> BigInt (pol_max_per_hour p) \<le> hourly_ceiling J"
  using hourly_ceiling_le [of J "hourly_ceiling J"] by simp

lemma hourly_ceiling_mono:
  "set (policies J) \<subseteq> set (policies J') \<Longrightarrow> hourly_ceiling J \<le> hourly_ceiling J'"
  by (auto simp: hourly_ceiling_le intro: hourly_ceiling_ge)

definition capacity :: "int \<Rightarrow> journal \<Rightarrow> nat" where
  "capacity now J = policyCapacityUsedInternal J now None"

lemma capacity_parts:
  "capacity now J =
     sum_where (reservation_counted now) reservation_cost (reservations J)
     + sum_where (\<lambda>s. now - HOUR \<le> st_observed_at s) settlement_cost (settlements J)
     + sum_where (\<lambda>r. now - HOUR \<le> ra_observed_at r) (\<lambda>r. BigInt (ra_additional_cost r)) (recoveries J)
     + sum_where (operation_counted None (now - HOUR)) operation_cost (operations J)"
  by (simp add: capacity_def policyCapacityUsedInternal_def Let_def)

lemma capacity_cong:
  "reservations J' = reservations J \<Longrightarrow> settlements J' = settlements J \<Longrightarrow>
   recoveries J' = recoveries J \<Longrightarrow> operations J' = operations J \<Longrightarrow> capacity now J' = capacity now J"
  by (simp add: capacity_parts)

section \<open>Time\<close>

lemma capacity_lapses:
  assumes "t \<le> u"
  shows "capacity u J \<le> capacity t J"
proof -
  have "sum_where (reservation_counted u) reservation_cost (reservations J)
      \<le> sum_where (reservation_counted t) reservation_cost (reservations J)"
    using assms by (intro sum_where_mono) (auto simp: reservation_counted_def)
  moreover have "sum_where (\<lambda>s. u - HOUR \<le> st_observed_at s) settlement_cost (settlements J)
      \<le> sum_where (\<lambda>s. t - HOUR \<le> st_observed_at s) settlement_cost (settlements J)"
    using assms by (intro sum_where_mono) auto
  moreover have "sum_where (\<lambda>r. u - HOUR \<le> ra_observed_at r) (\<lambda>r. BigInt (ra_additional_cost r)) (recoveries J)
      \<le> sum_where (\<lambda>r. t - HOUR \<le> ra_observed_at r) (\<lambda>r. BigInt (ra_additional_cost r)) (recoveries J)"
    using assms by (intro sum_where_mono) auto
  moreover have "sum_where (operation_counted None (u - HOUR)) operation_cost (operations J)
      \<le> sum_where (operation_counted None (t - HOUR)) operation_cost (operations J)"
    using assms by (intro sum_where_mono) (auto simp: operation_counted_def split: option.splits)
  ultimately show ?thesis unfolding capacity_parts by linarith
qed

section \<open>Reservations\<close>

lemma reservation_move_weight:
  "reservation_move now r r' \<Longrightarrow>
     weight (reservation_counted now) reservation_cost r'
       \<le> weight (reservation_counted now) reservation_cost r"
  by (auto simp: reservation_move_def weight_def reservation_counted_def reservation_cost_def)

lemma capacity_reservations:
  assumes "\<forall>r \<in> set (reservations J). u r \<longrightarrow> reservation_move now r (f r)"
    and "reservations J' = update_rows u f (reservations J)"
    and "settlements J' = settlements J" "recoveries J' = recoveries J" "operations J' = operations J"
  shows "capacity now J' \<le> capacity now J"
proof -
  have "sum_where (reservation_counted now) reservation_cost (reservations J')
      \<le> sum_where (reservation_counted now) reservation_cost (reservations J)"
    unfolding assms(2) by (rule sum_where_update_le) (use assms(1) reservation_move_weight in blast)
  then show ?thesis unfolding capacity_parts assms(3-5) by simp
qed

lemma capacity_settle:
  assumes "r \<in> set (reservations J)" and "rs_state r = Res_in_flight"
    and "rs_id r = st_reservation_id s"
    and "BigInt (st_amount s) \<le> BigInt (rs_amount r)"
    and "BigInt (st_additional_cost s) \<le> BigInt (rs_additional_cost_ceiling r)"
  shows "capacity now (spent_row (st_reservation_id s) now (J\<lparr>settlements := settlements J @ [s]\<rparr>))
    \<le> capacity now J"
proof -
  let ?u = "\<lambda>r. rs_id r = st_reservation_id s \<and> rs_state r = Res_in_flight"
  let ?f = "\<lambda>r. r\<lparr>rs_state := Res_spent, rs_spent_at := Some now, rs_updated_at := now\<rparr>"
  have "sum_where (reservation_counted now) reservation_cost (update_rows ?u ?f (reservations J))
      + weight (reservation_counted now) reservation_cost r
      \<le> sum_where (reservation_counted now) reservation_cost (reservations J)"
    by (rule sum_where_update_drop) (use assms(1-3) in \<open>simp_all add: weight_def reservation_counted_def\<close>)
  moreover have "settlement_cost s \<le> weight (reservation_counted now) reservation_cost r"
    using assms by (simp add: weight_def reservation_counted_def reservation_cost_def settlement_cost_def)
  ultimately show ?thesis by (simp add: capacity_parts spent_row_def)
qed

lemma capacity_recover:
  assumes "r \<in> set (reservations J)" and "rs_state r = Res_in_flight"
    and "rs_id r = ra_reservation_id a"
    and "BigInt (ra_additional_cost a) \<le> BigInt (rs_additional_cost_ceiling r)"
  shows "capacity now (released_row (ra_reservation_id a) d now (J\<lparr>recoveries := recoveries J @ [a]\<rparr>))
    \<le> capacity now J"
proof -
  let ?u = "\<lambda>r. rs_id r = ra_reservation_id a \<and> rs_state r = Res_in_flight"
  let ?f = "\<lambda>r. r\<lparr>rs_state := Res_released, rs_release_evidence := Some d, rs_updated_at := now\<rparr>"
  have "sum_where (reservation_counted now) reservation_cost (update_rows ?u ?f (reservations J))
      + weight (reservation_counted now) reservation_cost r
      \<le> sum_where (reservation_counted now) reservation_cost (reservations J)"
    by (rule sum_where_update_drop) (use assms(1-3) in \<open>simp_all add: weight_def reservation_counted_def\<close>)
  moreover have "BigInt (ra_additional_cost a) \<le> weight (reservation_counted now) reservation_cost r"
    using assms by (simp add: weight_def reservation_counted_def reservation_cost_def)
  ultimately show ?thesis by (simp add: capacity_parts released_row_def)
qed

section \<open>Direct Treasury Operations\<close>

lemma readable_max: "row_readable r \<Longrightarrow> op_requested_amount r = ''max'' \<Longrightarrow> fee_only (op_kind r)"
  by (auto simp: row_readable_def treasuryOperationFromRow_def row_intent_def
      validateTreasuryOperationIntent_def fee_only_def)

definition operation_weight :: "int \<Rightarrow> treasury_operation_row \<Rightarrow> nat" where
  "operation_weight now r = weight (operation_counted None (now - HOUR)) operation_cost r"

lemma operation_amount_cong:
  "op_kind r' = op_kind r \<Longrightarrow> op_requested_amount r' = op_requested_amount r \<Longrightarrow>
   op_resolved_amount r' = op_resolved_amount r \<Longrightarrow> operation_amount r' = operation_amount r"
  by (simp add: operation_amount_def split: option.split)

lemma operation_fee_cong:
  "op_state r' = op_state r \<Longrightarrow> op_fee r' = op_fee r \<Longrightarrow> op_fee_ceiling r' = op_fee_ceiling r \<Longrightarrow>
   operation_fee r' = operation_fee r"
  by (simp add: operation_fee_def split: option.split)

lemma operation_counted_cong:
  "op_key r' = op_key r \<Longrightarrow> op_state r' = op_state r \<Longrightarrow> op_completed_at r' = op_completed_at r \<Longrightarrow>
   operation_counted x t r' = operation_counted x t r"
  by (simp add: operation_counted_def operation_open_def)

text \<open>While an operation is open, only its kind, amount and fee ceiling count.\<close>

lemma open_weight:
  "operation_open r \<Longrightarrow> operation_weight now r
     = (if op_key r = [] then 0 else operation_amount r + BigInt (op_fee_ceiling r))"
  by (auto simp: operation_weight_def weight_def operation_counted_def operation_cost_def
      operation_fee_def operation_open_def)

lemma operation_weight_open:
  "operation_open r \<Longrightarrow> operation_open r' \<Longrightarrow> op_key r' = op_key r \<Longrightarrow> op_kind r' = op_kind r \<Longrightarrow>
   op_requested_amount r' = op_requested_amount r \<Longrightarrow> op_resolved_amount r' = op_resolved_amount r \<Longrightarrow>
   op_fee_ceiling r' = op_fee_ceiling r \<Longrightarrow> operation_weight now r' = operation_weight now r"
  using operation_amount_cong [of r' r] by (simp add: open_weight)

lemma operation_weight_same:
  "op_state r' = op_state r \<Longrightarrow> op_key r' = op_key r \<Longrightarrow> op_kind r' = op_kind r \<Longrightarrow>
   op_requested_amount r' = op_requested_amount r \<Longrightarrow> op_resolved_amount r' = op_resolved_amount r \<Longrightarrow>
   op_fee r' = op_fee r \<Longrightarrow> op_completed_at r' = op_completed_at r \<Longrightarrow>
   op_fee_ceiling r' = op_fee_ceiling r \<Longrightarrow> operation_weight now r' = operation_weight now r"
  using operation_amount_cong [of r' r] operation_fee_cong [of r' r]
    operation_counted_cong [of r' r None "now - HOUR"]
  by (simp add: operation_weight_def weight_def operation_cost_def)

lemma row_change_weight:
  assumes "row_change now r r' e" and "row_ok r"
  shows "operation_weight now r' \<le> operation_weight now r"
proof -
  have "row_readable r" using assms(2) by (simp add: row_ok_def)
  note amount = readable_max [OF this]
  have fee: "op_fee r = Some f \<Longrightarrow> BigInt f \<le> BigInt (op_fee_ceiling r)" for f
    using assms(2) by (simp add: row_ok_def)
  have intent: "op_state r = Op_intent \<Longrightarrow> op_resolved_amount r
      = (if op_requested_amount r = ''max'' then None else Some (op_requested_amount r))"
    using assms(2) by (simp add: row_ok_def)
  show ?thesis
    using assms(1)
  proof cases
    case (prepared amount' fee' tx dig ref len)
    then show ?thesis using amount intent
      by (auto simp: operation_weight_def weight_def operation_counted_def operation_open_def
          operation_cost_def operation_amount_def operation_fee_def)
  next
    case completed
    then show ?thesis using fee
      by (auto simp: operation_weight_def weight_def operation_counted_def operation_open_def
          operation_cost_def operation_amount_def operation_fee_def split: option.splits)
  next
    case superseded
    then show ?thesis
      by (simp add: operation_weight_def weight_def operation_counted_def operation_open_def)
  next
    case preparation_failed
    then show ?thesis
      by (simp add: operation_weight_def weight_def operation_counted_def operation_open_def)
  next
    case planned
    then show ?thesis by (intro eq_refl operation_weight_open) (simp_all add: operation_open_def)
  next
    case submission_accepted
    then show ?thesis by (intro eq_refl operation_weight_open) (simp_all add: operation_open_def)
  next
    case observed
    then show ?thesis by (intro eq_refl operation_weight_open) (auto simp: operation_open_def)
  qed (intro eq_refl operation_weight_same; simp)+
qed

lemma capacity_expired:
  assumes "rest_kept now J J'" and "operations J' = operations J"
  shows "capacity now J' \<le> capacity now J"
proof -
  have same: "settlements J' = settlements J" "recoveries J' = recoveries J"
    using assms(1) by (simp_all add: rest_kept_def)
  from operation_reservations [OF assms(1)] show ?thesis
  proof
    assume "reservations J' = reservations J"
    then have "capacity now J' = capacity now J" using same assms(2) by (intro capacity_cong)
    then show ?thesis by simp
  next
    assume "reservations J' = update_rows (\<lambda>r. rs_state r = Res_active \<and> rs_expires_at r \<le> now)
         (\<lambda>r. r\<lparr>rs_state := Res_expired, rs_updated_at := now\<rparr>) (reservations J)"
    then show ?thesis by (rule capacity_reservations [OF expire_move _ same assms(2)])
  qed
qed

lemma capacity_operation:
  assumes delta: "operation_delta now J J'" and inv: "operations_inv J"
  shows "capacity now J' \<le> capacity now J \<or> capacity now J' \<le> hourly_ceiling J'"
  using delta
proof cases
  case unchanged
  then show ?thesis using capacity_expired by blast
next
  case (added i)
  let ?E = "expireReservationsInternal J now" and ?n = "new_operation i now"
  from added(4) obtain p where p: "p \<in> set (policies ?E)"
    and granted: "capacity now ?E + operation_amount ?n + BigInt (op_fee_ceiling ?n)
        \<le> BigInt (pol_max_per_hour p)"
    unfolding capacity_granted_def capacity_def by blast
  have same: "settlements J' = settlements ?E" "recoveries J' = recoveries ?E"
    "policies J' = policies ?E" "reservations J' = reservations ?E"
    using added(8,9) by (simp_all add: rest_kept_def)
  have "operation_cost ?n = operation_amount ?n + BigInt (op_fee_ceiling ?n)"
    by (simp add: operation_cost_def operation_fee_def new_operation_def)
  then have "capacity now J' \<le> capacity now ?E + operation_amount ?n + BigInt (op_fee_ceiling ?n)"
    unfolding capacity_parts same added(6) by simp
  also have "\<dots> \<le> hourly_ceiling J'"
    using granted hourly_ceiling_ge [of p J'] p same(3) by simp
  finally show ?thesis by simp
next
  case (changed r r' e)
  let ?J1 = "J'\<lparr>operations := operations J\<rparr>"
  have "rest_kept now J ?J1" using changed(7) by (simp add: rest_kept_def)
  then have "capacity now ?J1 \<le> capacity now J" by (rule capacity_expired) simp
  moreover have "capacity now J' \<le> capacity now ?J1"
  proof -
    have keys: "operation_keys_ok J" and ok: "row_ok r"
      using inv changed(1) operation_at_key by (auto simp: operations_inv_def)
    have "x = r" if "x \<in> set (operations J)" "op_key x = op_key r" for x
      using operation_at_unique keys changed(1) that by blast
    then have "sum_where (operation_counted None (now - HOUR)) operation_cost (operations J')
        \<le> sum_where (operation_counted None (now - HOUR)) operation_cost (operations J)"
      unfolding changed(5)
      by (intro sum_where_update_le)
        (use row_change_weight [OF changed(3) ok] in \<open>auto simp: operation_weight_def\<close>)
    then show ?thesis by (simp add: capacity_parts)
  qed
  ultimately show ?thesis by simp
qed

section \<open>The ledger\<close>

lemma step_policies:
  assumes "journal_step now J J'"
  shows "set (policies J) \<subseteq> set (policies J')"
  using assms
proof cases
  case step_operation
  from operation_delta_rest [OF this] have "policies J' = policies J" by (simp add: rest_kept_def)
  then show ?thesis by simp
next
  case step_effect
  then show ?thesis by (simp add: effects_frame(10) [OF step_effect(2)])
next
  case step_attempt
  then show ?thesis by (simp add: attempts_frame(11) [OF step_attempt(2)])
next
  case step_purchase
  then show ?thesis by (simp add: purchases_frame(11) [OF step_purchase(2)])
next
  case step_elsewhere
  then show ?thesis by (simp add: owned_frame(13) [OF step_elsewhere(1)])
qed (simp_all add: spent_row_def released_row_def)

lemma step_capacity:
  assumes "journal_step now J J'" and inv: "journal_inv J"
  shows "capacity now J' \<le> capacity now J \<or> capacity now J' \<le> hourly_ceiling J'"
  using assms(1)
proof cases
  case step_operation
  then show ?thesis using capacity_operation inv by (simp add: journal_inv_def)
next
  case step_effect
  note fr = effects_frame [OF step_effect(2)]
  show ?thesis using capacity_cong [of J' J now] fr by simp
next
  case step_attempt
  note fr = attempts_frame [OF step_attempt(2)]
  show ?thesis using capacity_cong [of J' J now] fr by simp
next
  case step_purchase
  note fr = purchases_frame [OF step_purchase(2)]
  show ?thesis using capacity_cong [of J' J now] fr by simp
next
  case (step_reserve p row)
  have "capacity now J' \<le> capacity now J + reservation_cost row"
    unfolding step_reserve(1) capacity_parts by simp
  also have "\<dots> \<le> BigInt (pol_max_per_hour p)" using step_reserve(9) by (simp add: capacity_def)
  also have "\<dots> \<le> hourly_ceiling J'"
    using hourly_ceiling_ge [of p J'] step_reserve(1,2) by simp
  finally show ?thesis by simp
next
  case (step_reservation u f)
  then show ?thesis using capacity_reservations [of J u now f J'] by simp
next
  case (step_settle r s)
  then show ?thesis using capacity_settle [of r J s now] by simp
next
  case (step_recover r a d)
  then show ?thesis using capacity_recover [of r J a now d] by simp
next
  case step_policy
  note fr = policies_frame [OF step_policy(4)]
  show ?thesis using capacity_cong [of J' J now] fr by simp
next
  case step_elsewhere
  note fr = owned_frame [OF step_elsewhere(1)]
  show ?thesis using capacity_cong [of J' J now] fr by simp
qed

interpretation treasury_ledger: budget_ledger capacity hourly_ceiling journal_inv journal_step
proof
  fix t u now :: int and s s' :: journal
  show "t \<le> u \<Longrightarrow> capacity u s \<le> capacity t s" by (rule capacity_lapses)
  show "journal_inv s \<Longrightarrow> journal_step now s s' \<Longrightarrow> journal_inv s'" by (rule journal_step_inv)
  show "journal_inv s \<Longrightarrow> journal_step now s s' \<Longrightarrow> hourly_ceiling s \<le> hourly_ceiling s'"
    using step_policies hourly_ceiling_mono by blast
  show "journal_inv s \<Longrightarrow> journal_step now s s' \<Longrightarrow>
      capacity now s' \<le> capacity now s \<or> capacity now s' \<le> hourly_ceiling s'"
    using step_capacity by blast
qed

end
