(* ===== verification/Journal_Runs.thy ===== *)
theory Journal_Runs
  imports Capacity_Ledger
begin

text \<open>
  Every operation is a run of journal steps at its clock readings: the helpers the operations
  share first, then one lemma per operation. An operation that throws takes no step, since its
  transaction is rolled back.
\<close>

abbreviation steps :: "int \<Rightarrow> journal \<Rightarrow> journal \<Rightarrow> bool" where
  "steps now \<equiv> (journal_step now)\<^sup>*\<^sup>*"

lemma steps_run: "steps u s s' \<Longrightarrow> timed_run journal_step u s u s'"
  by (induction rule: rtranclp_induct) (auto intro: run_start run_step)

lemma run_steps:
  "timed_run journal_step t s u s' \<Longrightarrow> u \<le> v \<Longrightarrow> steps v s' s'' \<Longrightarrow> timed_run journal_step t s v s''"
  using timed_run_trans [OF steps_run [of v s' s'']] run_wait by metis

lemma steps_inv: "steps now J J' \<Longrightarrow> journal_inv J \<Longrightarrow> journal_inv J'"
  by (induction rule: rtranclp_induct) (auto intro: journal_step_inv)

lemma inv_parts:
  assumes "journal_inv J"
  shows "operations_inv J" "effects_inv J" "attempts_inv J" "purchases_inv J" "policies_ok J"
    "reservations_inv J" "effect_keys_ok J"
  using assms by (simp_all add: journal_inv_def effects_inv_def)

section \<open>The shared helpers\<close>

lemma effect_ok_steps: "effect_ok now J J' \<Longrightarrow> steps now J J'"
  by (auto simp: effect_ok_def intro: step_effect)

lemma trail_update [simp]:
  "trail (J\<lparr>movements := m\<rparr>) = trail J" "trail (J\<lparr>effect_observations := ob\<rparr>) = trail J"
  "trail (J\<lparr>reservations := r\<rparr>) = trail J" "trail (J\<lparr>purchases := p\<rparr>) = trail J"
  "trail (J\<lparr>purchase_log := l\<rparr>) = trail J"
  by (simp_all add: trail_def)

lemma elsewhere_steps:
  "owned_tables J' = owned_tables J \<Longrightarrow> trail J' = trail J \<Longrightarrow> steps now J J'"
  by (auto intro: step_elsewhere trail_kept)

lemma observation_steps: "steps now J (insertEffectObservation i s a d l t J)"
  by (rule elsewhere_steps) (simp_all add: insertEffectObservation_def Let_def)

lemma expire_steps: "steps now J (expireReservationsInternal J now)"
  unfolding expireReservationsInternal_def
  by (rule r_into_rtranclp, rule step_reservation) (rule expire_move)

lemma updateEffect_steps:
  assumes "updateEffectState J effect to_state reason d now u = Inr J'"
    and "effect_at J (ef_id effect) = Some effect" and "journal_inv J"
    and "to_state \<noteq> Eff_executing" "to_state \<noteq> Eff_planned"
  shows "steps now J J'
    \<and> effect_at J' = (effect_at J)(ef_id effect \<mapsto> moved_effect to_state u now effect)
    \<and> outside_effects J' = outside_effects J"
  using updateEffectState_delta [OF assms(1,2) inv_parts(7) [OF assms(3)] _ _ _ assms(4,5)]
  by (auto intro: step_effect)

lemma claimEffect_steps:
  assumes "claimEffectInternal J effect holder ttl now = Inr (J', claim)"
    and "effect_at J (ef_id effect) = Some effect" and "journal_inv J"
  shows "steps now J J' \<and> outside_effects J' = outside_effects J"
  using claim_delta [OF assms(1,2) inv_parts(2) [OF assms(3)]] by (auto intro: step_effect)

lemma transitionAttempt_steps:
  assumes "transitionAttemptInternal J attempt to_state reason d now failureCode backed = Inr J'"
    and "attempt \<in> set (attempts J)"
  shows "steps now J J' \<and> outside_attempts J' = outside_attempts J"
proof -
  note eq = transitionAttempt_eq [OF assms(1)]
  have "attempt_delta J J'"
    using eq assms(2) by (intro attempt_moved [where r = attempt]) (auto simp: attempt_key_def)
  moreover have "outside_attempts J' = outside_attempts J" using eq by simp
  ultimately show ?thesis by (auto intro: step_attempt)
qed

lemma transitionPurchase_steps:
  assumes "transitionPurchase H J i expected to_state reason d now = Inr (J', r)"
  shows "steps u J J'"
  using assms
proof (cases rule: transitionPurchase_eq)
  case (moved current)
  have cur: "current \<in> set (purchases J)" "pu_id current = i"
    using moved(1) by (auto dest: find_row_SomeD)
  from moved(4) obtain fx where "purchaseFacts H J (pu_id current) = Inr fx" "state_facts_hold fx to_state"
    using cur(2) by (auto simp: assertPurchaseStateFacts_def split: if_splits)
  then have "purchase_delta J J'"
    using cur moved(2,3,5) by (intro purchase_moved [where r = current]) auto
  moreover have "outside_purchases J' = outside_purchases J" by (simp add: moved(5))
  ultimately show ?thesis by (auto intro: step_purchase)
qed simp

lemma release_row_steps: "steps now J (release_reservation_row i now J)"
  unfolding release_reservation_row_def
  by (rule r_into_rtranclp, rule step_reservation) (auto simp: reservation_move_def)

lemma released_row_steps: "steps now J (released_row i d now J)"
  unfolding released_row_def
  by (rule r_into_rtranclp, rule step_reservation) (auto simp: reservation_move_def)

lemma release_for_purchase_steps:
  "release_for_purchase J p now busy = Inr J' \<Longrightarrow> steps now J J'"
  using release_row_steps [of now J]
  by (auto simp: release_for_purchase_def split: option.splits if_splits)

lemma terminalize_steps:
  "terminalizeNeverSubmittedBatchVoucherMovement J p now = Inr J' \<Longrightarrow>
     steps now J J' \<and> owned_tables J' = owned_tables J"
  by (auto simp: terminalizeNeverSubmittedBatchVoucherMovement_def Let_def
      intro: elsewhere_steps split: list.splits if_splits)

lemma attempt_member: "findPaymentAttempt J p n = Some a \<Longrightarrow> a \<in> set (attempts J)"
  by (auto simp: findPaymentAttempt_def dest: find_row_SomeD)

lemma set_foldr_insert: "set (foldr insert_attempt rs []) = set rs"
proof -
  have "set (insert_attempt r xs) = insert r (set xs)" for r xs
    by (induction xs) auto
  then show ?thesis by (induction rs) auto
qed

lemma paymentAttempts_member:
  "paymentAttempts J p = Inr atts \<Longrightarrow> a \<in> set atts \<Longrightarrow> a \<in> set (attempts J)"
  by (auto simp: paymentAttempts_def set_foldr_insert)

lemma set_insert_effect: "set (insert_effect r xs) = insert r (set xs)"
  by (induction xs) auto

lemma order_effects_simps [simp]:
  "order_effects [] = []"
  "order_effects (r # rs) = insert_effect r (order_effects rs)"
  by (simp_all add: order_effects_def)

lemma set_order_effects: "set (order_effects rs) = set rs"
  by (induction rs) (auto simp: set_insert_effect)

lemma distinct_insert_effect:
  "distinct (map ef_id (insert_effect r xs)) \<longleftrightarrow> ef_id r \<notin> ef_id ` set xs \<and> distinct (map ef_id xs)"
  by (induction xs) (auto simp: set_insert_effect)

lemma distinct_order_effects:
  "distinct (map ef_id rs) \<Longrightarrow> distinct (map ef_id (order_effects rs))"
  by (induction rs) (auto simp: distinct_insert_effect set_order_effects)

lemma effect_member: "journal_inv J \<Longrightarrow> e \<in> set (effects J) \<Longrightarrow> effect_at J (ef_id e) = Some e"
  using inv_parts(7) find_row_key_unique [of ef_id "effects J" e]
  by (simp add: effect_at_def effect_keys_ok_def)

lemma distinct_map_filter_ids: "distinct (map f xs) \<Longrightarrow> distinct (map f (filter P xs))"
  by (induction xs) auto

lemma effectsForPurchase_facts:
  assumes "effectsForPurchase J p = Inr effs" and "journal_inv J"
  shows "distinct (map ef_id effs) \<and> (\<forall>e \<in> set effs. effect_at J (ef_id e) = Some e)"
  using assms inv_parts(7) [OF assms(2)] effect_member [OF assms(2)]
  by (auto simp: effectsForPurchase_def set_order_effects effect_keys_ok_def
      intro!: distinct_order_effects distinct_map_filter_ids)

lemma abandon_effects_steps:
  assumes "abandon_effects reason d code now effs J = Inr J'" and "journal_inv J"
    and "distinct (map ef_id effs)" and "\<forall>e \<in> set effs. effect_at J (ef_id e) = Some e"
  shows "steps now J J' \<and> outside_effects J' = outside_effects J"
  using assms
proof (induction effs arbitrary: J)
  case Nil
  then show ?case by simp
next
  case (Cons e es)
  show ?case
  proof (cases "ef_state e = Eff_planned \<or> ef_state e = Eff_retryable")
    case False
    with Cons.prems have "abandon_effects reason d code now es J = Inr J'" by auto
    with Cons show ?thesis by auto
  next
    case True
    with Cons.prems(1) obtain J1 where
      up: "updateEffectState J e Eff_abandoned reason (coalesce d (Some (ef_payload_digest e))) now
             (no_updates\<lparr>eu_error := Some code\<rparr>) = Inr J1"
      and rest: "abandon_effects reason d code now es J1 = Inr J'"
      by auto
    have at: "effect_at J (ef_id e) = Some e" using Cons.prems(4) by simp
    note one = updateEffect_steps [OF up at Cons.prems(2)]
    then have "journal_inv J1" using steps_inv Cons.prems(2) by auto
    moreover have "\<forall>x \<in> set es. effect_at J1 (ef_id x) = Some x"
    proof
      fix x assume x: "x \<in> set es"
      then have "ef_id x \<noteq> ef_id e" using Cons.prems(3) by (metis distinct.simps(2) imageI list.simps(9) set_map)
      then show "effect_at J1 (ef_id x) = Some x" using one Cons.prems(4) x by simp
    qed
    moreover have "distinct (map ef_id es)" using Cons.prems(3) by simp
    ultimately have "steps now J1 J' \<and> outside_effects J' = outside_effects J1"
      using Cons.IH [OF rest] by blast
    with one show ?thesis by (auto intro: rtranclp_trans)
  qed
qed

section \<open>Reservations and the direct operations\<close>

lemma operation_call_steps:
  assumes "operation_call now J J'" and "journal_inv J"
  shows "steps now J J'"
  using operation_call_delta [OF assms(1) inv_parts(1) [OF assms(2)]] by (auto intro: step_operation)

lemma binding_bound:
  assumes "assertReservationBinding J i = Inr ()"
  shows "reservation_bound J (reservation_of i now)"
  using assms
  by (auto simp: assertReservationBinding_def reservation_bound_def approved_def reservation_of_def
      requireCheckoutTerms_def requireAuthorization_def requireAuthorizationRequest_def
      split: option.splits if_splits)

lemma reserve_steps:
  assumes call: "reservePolicy intact J i now = Inr (J', row)" and inv: "journal_inv J"
  shows "steps now J J'"
proof -
  let ?J1 = "expireReservationsInternal J now"
  let ?row = "reservation_of i now"
  from call obtain policy where act: "requireActivePolicy J = Inr policy"
    and dig: "pol_digest policy = ri_policy_digest i"
    and checked: "assertReservationBinding J i = Inr ()"
    by (auto simp: reservePolicy_def)
  have p: "policy \<in> set (policies ?J1)"
    using act by (auto simp: requireActivePolicy_def findActivePolicy_def Option.bind_eq_Some_conv
        dest!: findPolicy_SomeD split: option.splits)
  show ?thesis
  proof (cases "findReservation ?J1 (ri_id i)")
    case (Some existing)
    with call act dig have "J' = ?J1" by (auto simp: reservePolicy_def Let_def)
    then show ?thesis using expire_steps by simp
  next
    case None
    have "trail ?J1 = trail J" by (simp add: expireReservationsInternal_def)
    from bound_mono(4) [OF trail_delta_grows [OF trail_kept [OF this]] binding_bound [OF checked]]
    have bound: "reservation_bound ?J1 ?row" .
    from None call act dig have J': "J' = ?J1\<lparr>reservations := reservations ?J1 @ [?row]\<rparr>"
      and free: "find_row (\<lambda>r. rs_purchase_id r = ri_purchase_id i
                       \<and> rs_state r \<in> {Res_active, Res_in_flight, Res_spent}) (reservations ?J1) = None"
      and payee: "pol_allowlist policy \<noteq> [] \<longrightarrow> ri_payee i \<in> set (pol_allowlist policy)"
      and within: "BigInt (ri_amount i) + BigInt (ri_additional_cost_ceiling i)
            \<le> BigInt (pol_max_per_payment policy)"
        "policyCapacityUsedInternal ?J1 now None
            + (BigInt (ri_amount i) + BigInt (ri_additional_cost_ceiling i))
            \<le> BigInt (pol_max_per_hour policy)"
      by (auto simp: reservePolicy_def Let_def split: if_splits)
    have "journal_step now ?J1 J'"
      unfolding J'
    proof (rule step_reserve [OF p])
      show "\<not> list_ex (\<lambda>r. rs_purchase_id r = rs_purchase_id ?row
                    \<and> rs_state r \<in> {Res_active, Res_in_flight, Res_spent}) (reservations ?J1)"
        using free by (auto simp: find_row_None_iff list_ex_iff reservation_of_def)
    qed (use None dig payee within bound in \<open>simp_all add: reservation_of_def reservation_cost_def\<close>)
    with expire_steps show ?thesis by (rule rtranclp.rtrancl_into_rtrancl)
  qed
qed

lemma release_active_steps:
  "releaseActiveReservation J i now = Inr (J', r) \<Longrightarrow> steps now J J'"
  using release_row_steps [of now J i]
  by (auto simp: releaseActiveReservation_def Let_def split: if_splits)

lemma expire_call_steps: "expireReservations J now = Inr (J', n) \<Longrightarrow> steps now J J'"
  using expire_steps by (auto simp: expireReservations_def)

lemma capacity_query_steps:
  "policyCapacityUsed J now = Inr (J', n) \<Longrightarrow> steps now J J'"
  "treasuryPendingCapacityUsed J now = Inr (J', n) \<Longrightarrow> steps now J J'"
  using expire_steps by (auto simp: policyCapacityUsed_def treasuryPendingCapacityUsed_def Let_def)

section \<open>Policies\<close>

lemma install_steps:
  assumes "installPolicy H J d now = Inr (J', p)"
  shows "steps now J J'"
proof -
  from assms obtain c J1 where c: "canonicalPolicy d = Inr c"
    and f: "find_or_insert_policy J (H (policy_json c)) c now = (J1, p)"
    and J': "J' = J1\<lparr>active := active J'\<rparr>"
    and gen: "activation_generation J' = activation_generation J \<and> active J' = active J1
       \<or> activation_generation J' = activation_generation J + 1"
    and dig: "\<exists>a. active J' = Some a \<and> act_digest a = H (policy_json c)"
    by (rule installPolicy_inv)
  note facts = find_or_insert_policy_facts [OF f]
  have pol: "policies J' = policies J1" by (subst J') simp
  have "policies_ok J'" if "policies_ok J"
    using facts(7) [OF that c] imageI [OF facts(3), of pol_digest] facts(2) dig pol
    unfolding policies_ok_def by auto
  moreover have "outside_policies J' = outside_policies J"
    by (subst J', subst facts(8)) simp
  moreover have "set (policies J) \<subseteq> set (policies J')" using facts(4) pol by simp
  ultimately have "journal_step now J J'"
    using policy_installed [OF assms] by (intro step_policy)
  then show ?thesis by blast
qed

lemma activate_steps:
  assumes call: "activatePolicySnapshotIfCurrent H J dg g c now = Inr (J', p)"
    and c: "canonicalPolicy d = Inr c"
  shows "steps now J J'"
proof -
  from call obtain J1 a where f: "find_or_insert_policy J (H (policy_json c)) c now = (J1, p)"
    and J': "J' = J1\<lparr>active := Some \<lparr>act_digest = H (policy_json c), act_updated_at = now,
                               act_generation = g + 1\<rparr>\<rparr>"
    by (rule activate_inv)
  note facts = find_or_insert_policy_facts [OF f]
  have "policies_ok J'" if "policies_ok J"
    using facts(7) [OF that c] imageI [OF facts(3), of pol_digest] facts(2)
    unfolding policies_ok_def J' by auto
  moreover have "outside_policies J' = outside_policies J"
    unfolding J' by (subst facts(8)) simp
  moreover have "set (policies J) \<subseteq> set (policies J')" using facts(4) by (simp add: J')
  ultimately have "journal_step now J J'"
    using policy_activated [OF call] by (intro step_policy)
  then show ?thesis by blast
qed

lemma activate_current_steps:
  assumes "activatePolicyIfCurrent H J dg d now = Inr (J', p)"
  shows "steps now J J'"
  using assms activate_steps by (auto simp: activatePolicyIfCurrent_def)

section \<open>Attempts\<close>

lemma create_attempt_steps:
  assumes call: "createPaymentAttempt H J i now = Inr (J', r)"
  shows "steps now J J'"
proof (cases "findPaymentAttempt J (ai_purchase_id i) (ai_attempt i)")
  case (Some existing)
  with call have "J' = J" by (auto simp: createPaymentAttempt_def split: if_splits)
  then show ?thesis by simp
next
  case None
  with call have fresh: "find_row (\<lambda>r. at_identifier r = ai_identifier i) (attempts J) = None"
    and J': "J' = insertAttemptTransition (ai_purchase_id i) (ai_attempt i) None Att_planned
               ''attempt_created'' None now (J\<lparr>attempts := attempts J @ [new_attempt i now]\<rparr>)"
    by (auto simp: createPaymentAttempt_def Let_def split: if_splits)
  have "attempt_delta J J'"
    by (rule attempt_created [where r = "new_attempt i now" and e = "\<lparr>att_purchase_id =
          ai_purchase_id i, att_attempt = ai_attempt i, att_from = None, att_to = Att_planned,
          att_reason = ''attempt_created'', att_detail = None, att_created_at = now\<rparr>"])
      (use None fresh in \<open>simp_all add: J' attempt_found new_attempt_def attempt_key_def
        insertAttemptTransition_def\<close>)
  moreover have "outside_attempts J' = outside_attempts J"
    by (simp add: J' insertAttemptTransition_def)
  ultimately show ?thesis by (auto intro: step_attempt)
qed

lemma fail_attempt_steps:
  assumes call: "failPaymentAttempt J p n expected code d now = Inr (J', r)"
  shows "steps now J J'"
proof -
  from call obtain attempt where a: "findPaymentAttempt J p n = Some attempt"
    and "J' = J \<or> transitionAttemptInternal J attempt Att_failed code d now (Some code) False = Inr J'"
    by (auto simp: failPaymentAttempt_def split: if_splits)
  then consider "J' = J"
    | "transitionAttemptInternal J attempt Att_failed code d now (Some code) False = Inr J'" by blast
  then show ?thesis
  proof cases
    case 2
    then show ?thesis using transitionAttempt_steps attempt_member [OF a] by blast
  qed simp
qed

end
