(* ===== verification/Payment_Runs.thy ===== *)
theory Payment_Runs
  imports Journal_Runs
begin

text \<open>
  The composite operations of the Purchases and the payments as runs of journal steps: several
  tables change in one transaction, each by a step of its own.
\<close>

section \<open>Moving a step past another table\<close>

lemma effect_change_cong:
  assumes "effect_change J now r r'" and "leases K = leases J"
  shows "effect_change K now r r'"
  using assms(1)
proof cases
  case (effect_claimed lease)
  have fl: "find_lease K = find_lease J" using assms(2) by (rule find_lease_cong)
  have "effectClaimActiveInternal K r now = effectClaimActiveInternal J r now"
    unfolding effectClaimActiveInternal_def fl by (rule refl)
  then have "\<not> effectClaimActiveInternal K r now" using effect_claimed(5) by simp
  moreover have "lease_generation K = lease_generation J"
    using assms(2) by (rule lease_generation_cong)
  ultimately show ?thesis
    using effect_claimed by (auto intro!: effect_change.effect_claimed)
next
  case (effect_moved to_state u)
  then show ?thesis by (auto intro: effect_change.effect_moved)
qed

lemma effect_delta_transport:
  assumes "effect_delta now J J'"
    and K: "effects K = effects J" "effect_log K = effect_log J" "leases K = leases J"
    and K': "effects K' = effects J'" "effect_log K' = effect_log J'" "leases K' = leases J'"
  shows "effect_delta now K K'"
proof -
  have run: "lease_step\<^sup>*\<^sup>* K K'" if "lease_step\<^sup>*\<^sup>* J J'"
    using leases_untouched [of J K] that leases_untouched [of K' J'] K(3) K'(3)
    by (metis rtranclp_trans)
  have at: "effect_at K = effect_at J" using K(1) by (simp add: effect_at_def fun_eq_iff)
  have gen: "lease_generation K' = lease_generation J'" using K'(3) by (rule lease_generation_cong)
  from assms(1) show ?thesis
  proof cases
    case effects_unchanged
    with K K' run show ?thesis by (intro effect_delta.effects_unchanged) auto
  next
    case (effect_planned r e)
    with K K' run at show ?thesis
      by (intro effect_delta.effect_planned [where r = r and e = e]) auto
  next
    case (effect_changed r r' e)
    with K K' run at gen effect_change_cong [OF effect_changed(2) K(3)] show ?thesis
      by (intro effect_delta.effect_changed [where r = r and e = e]) auto
  qed
qed

lemma in_flight_steps:
  assumes "\<forall>r \<in> set (reservations J). rs_id r = i \<and> rs_state r = Res_active \<longrightarrow> now < rs_expires_at r"
  shows "steps now J (in_flight_row i now J)"
  unfolding in_flight_row_def
  by (rule r_into_rtranclp, rule step_reservation) (use assms in \<open>auto simp: reservation_move_def\<close>)

lemma outside_effects_reservations:
  "outside_effects (J\<lparr>reservations := x\<rparr>) = (outside_effects J)\<lparr>reservations := x\<rparr>"
  by (simp add: outside_effects_def)

lemma effects_frame_reservations:
  "outside_effects J' = outside_effects J \<Longrightarrow> reservations J' = reservations J"
  by (rule effects_frame(7))

text \<open>
  A claim followed by taking the capacity in flight is taking the capacity, at the earlier
  reading, followed by the claim.
\<close>

lemma claim_then_in_flight:
  assumes claim: "claimEffectInternal J effect holder ttl now = Inr (J1, c)"
    and at: "effect_at J (ef_id effect) = Some effect" and inv: "journal_inv J"
    and early: "t \<le> now"
    and active: "\<forall>r \<in> set (reservations J). rs_id r = i \<and> rs_state r = Res_active \<longrightarrow> t < rs_expires_at r"
  shows "timed_run journal_step t J now (in_flight_row i t J1)"
proof -
  let ?K = "in_flight_row i t J" and ?K' = "in_flight_row i t J1"
  have d: "effect_delta now J J1" "outside_effects J1 = outside_effects J"
    using claim_delta [OF claim at inv_parts(2) [OF inv]] by auto
  have res: "reservations J1 = reservations J" by (rule effects_frame_reservations [OF d(2)])
  have "effect_delta now ?K ?K'"
    by (rule effect_delta_transport [OF d(1)]) (simp_all add: in_flight_row_def)
  moreover have "outside_effects ?K' = outside_effects ?K"
    by (simp add: in_flight_row_def outside_effects_reservations res d(2))
  ultimately have "steps now ?K ?K'" by (auto intro: step_effect)
  moreover have "timed_run journal_step t J t ?K" by (rule steps_run [OF in_flight_steps [OF active]])
  ultimately show ?thesis using run_steps early by blast
qed

section \<open>Claims of capacity\<close>

lemma unexpired_kept:
  assumes "journal_inv J" and "findReservation J i = Some reservation"
    and "rs_state reservation = Res_active \<longrightarrow> now < rs_expires_at reservation"
  shows "\<forall>r \<in> set (reservations (expireReservationsInternal J now)).
           rs_id r = i \<and> rs_state r = Res_active \<longrightarrow> now < rs_expires_at r"
proof (intro ballI impI)
  fix r assume r: "r \<in> set (reservations (expireReservationsInternal J now))"
    and here: "rs_id r = i \<and> rs_state r = Res_active"
  then have "r \<in> set (reservations J)"
    by (auto simp: expireReservationsInternal_def dest!: set_update_rowsD)
  then have "r = reservation"
    using find_row_key_unique [of rs_id "reservations J" r] here assms(2) inv_parts(6) [OF assms(1)]
    by (simp add: findReservation_def reservations_inv_def)
  with here assms(3) show "now < rs_expires_at r" by simp
qed

lemma claim_state:
  "claimEffectInternal J e h ttl now = Inr x \<Longrightarrow> ef_state e = Eff_planned \<or> ef_state e = Eff_retryable"
  by (auto simp: claimEffectInternal_def split: if_splits)

lemma guard_unexpired:
  assumes "submission_guard intact J effect n attempt reservation now = Inr ()"
    and "ef_state effect = Eff_planned \<or> ef_state effect = Eff_retryable"
  shows "rs_state reservation = Res_active \<longrightarrow> now < rs_expires_at reservation"
  using assms
  by (auto simp: submission_guard_def directReservation_def stagedReservation_def Let_def
      split: if_splits)

lemma expire_effects [simp]: "effect_at (expireReservationsInternal J now) = effect_at J"
  by (simp add: effect_at_def expireReservationsInternal_def fun_eq_iff)

lemma take_in_flight_eq:
  "take_in_flight J reservation i now = Inr J' \<Longrightarrow>
     (if rs_state reservation = Res_active then J' = in_flight_row i now J else J' = J)"
  by (auto simp: take_in_flight_def split: if_splits)

lemma claim_with_capacity:
  assumes inv: "journal_inv J" and at: "effect_at J (ef_id effect) = Some effect"
    and claim: "claimEffectInternal (expireReservationsInternal J t) effect holder ttl now = Inr (J1, c)"
    and take: "take_in_flight J1 reservation i t = Inr J2" and early: "t \<le> now"
    and active: "rs_state reservation = Res_active \<longrightarrow>
      (\<forall>r \<in> set (reservations (expireReservationsInternal J t)).
         rs_id r = i \<and> rs_state r = Res_active \<longrightarrow> t < rs_expires_at r)"
  shows "timed_run journal_step t J now J2"
proof -
  let ?E = "expireReservationsInternal J t"
  have start: "timed_run journal_step t J t ?E" by (rule steps_run [OF expire_steps])
  have inv': "journal_inv ?E" using steps_inv [OF expire_steps inv] .
  have at': "effect_at ?E (ef_id effect) = Some effect" using at by simp
  show ?thesis
  proof (cases "rs_state reservation = Res_active")
    case True
    then have "J2 = in_flight_row i t J1" using take_in_flight_eq [OF take] by simp
    then show ?thesis
      using claim_then_in_flight [OF claim at' inv' early] active True timed_run_trans [OF _ start]
      by blast
  next
    case False
    then have "J2 = J1" using take_in_flight_eq [OF take] by simp
    then show ?thesis using run_steps [OF start early] claimEffect_steps [OF claim at' inv'] by blast
  qed
qed

lemma begin_payment_run:
  assumes call: "beginPaymentSubmission intact verified J effectId reservationId holder ttl t now = Inr (J', c)"
    and inv: "journal_inv J" and early: "t \<le> now"
  shows "timed_run journal_step t J now J'"
proof -
  let ?E = "expireReservationsInternal J t"
  from call obtain effect n attempt reservation J1 claimed where
    at: "effect_at J effectId = Some effect"
    and att: "findPaymentAttempt J (ef_purchase_id effect) n = Some attempt"
    and res: "requireReservation J reservationId = Inr reservation"
    and guard: "submission_guard intact ?E effect n attempt reservation t = Inr ()"
    and claim: "claimEffectInternal ?E effect holder ttl now = Inr (J1, claimed)"
    and tail: "(case claimed of
       None \<Rightarrow> Inr (J1, None)
     | Some (e, lease) \<Rightarrow>
       rbind (take_in_flight J1 reservation reservationId t) (\<lambda>J3.
       rbind (if at_state attempt = Att_prepared
              then transitionAttemptInternal J3 attempt Att_submitted ''payment_submission_claimed''
                     (Some (ef_payload_digest effect)) t None False
              else Inr J3) (\<lambda>J4.
       rbind (requireEffect J4 effectId) (\<lambda>e'. Inr (J4, Some (e', lease)))))) = Inr (J', c)"
    unfolding beginPaymentSubmission_def Let_def by (auto simp del: requireEffect_eq) auto
  from tail have rest: "claimed = None \<and> J' = J1
      \<or> (\<exists>J3. take_in_flight J1 reservation reservationId t = Inr J3
             \<and> (if at_state attempt = Att_prepared
                then transitionAttemptInternal J3 attempt Att_submitted ''payment_submission_claimed''
                       (Some (ef_payload_digest effect)) t None False else Inr J3) = Inr J')"
  proof (cases claimed)
    case None
    with tail show ?thesis by simp
  next
    case (Some x)
    with tail obtain J3 where "take_in_flight J1 reservation reservationId t = Inr J3"
      "(if at_state attempt = Att_prepared
        then transitionAttemptInternal J3 attempt Att_submitted ''payment_submission_claimed''
               (Some (ef_payload_digest effect)) t None False else Inr J3) = Inr J'"
      by (auto split: prod.splits)
    then show ?thesis by blast
  qed
  have id: "ef_id effect = effectId" using effect_at_facts [OF at] by simp
  have at: "effect_at J (ef_id effect) = Some effect" using at id by simp
  have found: "findReservation J reservationId = Some reservation"
    using res by (auto simp: requireReservation_def split: option.splits)
  have start: "timed_run journal_step t J t ?E" by (rule steps_run [OF expire_steps])
  have inv': "journal_inv ?E" using steps_inv [OF expire_steps inv] .
  have at': "effect_at ?E (ef_id effect) = Some effect" using at by simp
  note cl = claimEffect_steps [OF claim at' inv']
  show ?thesis
    using rest
  proof
    assume "claimed = None \<and> J' = J1"
    then show ?thesis using run_steps [OF start early] cl by blast
  next
    assume "\<exists>J3. take_in_flight J1 reservation reservationId t = Inr J3
             \<and> (if at_state attempt = Att_prepared
                then transitionAttemptInternal J3 attempt Att_submitted ''payment_submission_claimed''
                       (Some (ef_payload_digest effect)) t None False else Inr J3) = Inr J'"
    then obtain J3 where take: "take_in_flight J1 reservation reservationId t = Inr J3"
      and tail: "(if at_state attempt = Att_prepared
                then transitionAttemptInternal J3 attempt Att_submitted ''payment_submission_claimed''
                       (Some (ef_payload_digest effect)) t None False else Inr J3) = Inr J'" by blast
    have "rs_state reservation = Res_active \<longrightarrow> t < rs_expires_at reservation"
      by (rule guard_unexpired [OF guard claim_state [OF claim]])
    then have run: "timed_run journal_step t J now J3"
      using claim_with_capacity [OF inv at claim take early] unexpired_kept [OF inv found] by blast
    have "attempts J3 = attempts J"
    proof -
      have "attempts J3 = attempts J1"
        using take_in_flight_eq [OF take] by (auto simp: in_flight_row_def split: if_splits)
      also have "\<dots> = attempts ?E" using cl effects_frame(5) by blast
      finally show ?thesis by (simp add: expireReservationsInternal_def)
    qed
    then have member: "attempt \<in> set (attempts J3)" using attempt_member [OF att] by simp
    have "steps now J3 J'"
    proof (cases "at_state attempt = Att_prepared")
      case True
      with tail have moved: "transitionAttemptInternal J3 attempt Att_submitted
          ''payment_submission_claimed'' (Some (ef_payload_digest effect)) t None False = Inr J'" by simp
      note eq = transitionAttempt_eq [OF moved]
      have "attempt_delta J3 J'"
        using eq member by (intro attempt_moved [where r = attempt]) (auto simp: attempt_key_def)
      moreover have "outside_attempts J' = outside_attempts J3" using eq by simp
      ultimately show ?thesis by (auto intro: step_attempt)
    next
      case False
      with tail show ?thesis by simp
    qed
    with run show ?thesis using run_steps [of t J now J3 now J'] by blast
  qed
qed

lemma begin_staging_run:
  assumes call: "beginTreasuryStaging verified J effectId reservationId holder ttl t now = Inr (J', c)"
    and inv: "journal_inv J" and early: "t \<le> now"
  shows "timed_run journal_step t J now J'"
proof -
  let ?E = "expireReservationsInternal J t"
  from call obtain effect attempt plan reservation J1 claimed where
    at: "effect_at J effectId = Some effect"
    and res: "requireReservation ?E reservationId = Inr reservation"
    and guard: "staging_guard ?E effect attempt reservation t = Inr ()"
    and claim: "claimEffectInternal ?E effect holder ttl now = Inr (J1, claimed)"
    and tail: "(case claimed of
       None \<Rightarrow> Inr (J1, None)
     | Some (e, lease) \<Rightarrow>
       rbind (take_in_flight J1 reservation reservationId t) (\<lambda>J3.
       rbind (requireEffect J3 effectId) (\<lambda>e'. Inr (J3, Some (e', lease))))) = Inr (J', c)"
    unfolding beginTreasuryStaging_def Let_def by (auto simp del: requireEffect_eq) auto
  have id: "ef_id effect = effectId" using effect_at_facts [OF at] by simp
  have at: "effect_at J (ef_id effect) = Some effect" using at id by simp
  have found: "findReservation ?E reservationId = Some reservation"
    using res by (auto simp: requireReservation_def split: option.splits)
  have start: "timed_run journal_step t J t ?E" by (rule steps_run [OF expire_steps])
  have inv': "journal_inv ?E" using steps_inv [OF expire_steps inv] .
  have at': "effect_at ?E (ef_id effect) = Some effect" using at by simp
  show ?thesis
  proof (cases claimed)
    case None
    with tail have "J' = J1" by simp
    then show ?thesis using run_steps [OF start early] claimEffect_steps [OF claim at' inv'] by blast
  next
    case (Some x)
    with tail have take: "take_in_flight J1 reservation reservationId t = Inr J'"
      by (auto split: prod.splits)
    have "rs_state reservation = Res_active \<longrightarrow> t < rs_expires_at reservation"
      using guard claim_state [OF claim] by (auto simp: staging_guard_def split: if_splits)
    moreover have "r = reservation" if "r \<in> set (reservations ?E)" "rs_id r = reservationId" for r
      using find_row_key_unique [of rs_id "reservations ?E" r] that found inv_parts(6) [OF inv']
      by (simp add: findReservation_def reservations_inv_def)
    ultimately show ?thesis
      by (intro claim_with_capacity [OF inv at claim take early]) blast
  qed
qed

section \<open>Settlement and release\<close>

lemma settle_steps:
  assumes call: "recordPurchaseSettlement intact J lease i c0 c1 now = Inr (J', row)"
    and inv: "journal_inv J"
  shows "steps now J J'"
proof -
  from call obtain effect n where at: "effect_at J (si_effect_id i) = Some effect"
    and n: "ef_attempt effect = Some n"
    by (auto simp: recordPurchaseSettlement_def)
  show ?thesis
  proof (cases "findSettlement J (si_reservation_id i)")
    case (Some existing)
    with call at n have "J' = J" by (auto simp: recordPurchaseSettlement_def split: if_splits)
    then show ?thesis by simp
  next
    case None
    let ?row = "settlement_of i effect n now"
    let ?J1 = "spent_row (si_reservation_id i) now (J\<lparr>settlements := settlements J @ [?row]\<rparr>)"
    let ?d = "si_evidence_digest i"
    from call at n None obtain attempt preparation reservation J2 where
      prep: "requirePaymentPreparation J (ef_purchase_id effect) n = Inr preparation"
        "settlement_matches i preparation = Inr True"
      and att: "findPaymentAttempt J (ef_purchase_id effect) n = Some attempt"
      and res: "requireReservation J (si_reservation_id i) = Inr reservation"
      and st: "rs_state reservation = Res_in_flight"
      and bounds: "\<not> (case si_mechanism i of
           Single_transaction \<Rightarrow> BigInt (si_amount i) \<noteq> BigInt (rs_amount reservation)
         | Channel_voucher \<Rightarrow> BigInt (si_amount i) = 0
             \<or> BigInt (si_amount i) > BigInt (rs_amount reservation))"
        "BigInt (si_additional_cost i) \<le> BigInt (rs_additional_cost_ceiling reservation)"
      and conflict: "\<not> settlement_conflict J ?row"
      and a: "transitionAttemptInternal ?J1 attempt Att_observed ''settlement_observed''
              (Some ?d) now None False = Inr J2"
      and e: "updateEffectState (insertEffectObservation (ef_id effect) EO_observed (Some ?d) (Some ?d)
                lease now J2) effect Eff_observed ''settlement_spend_observed'' (Some ?d) now
              (no_updates\<lparr>eu_result := Some ?d\<rparr>) = Inr J'"
      unfolding recordPurchaseSettlement_def Let_def
      by (auto simp del: requireEffect_eq) (auto split: if_splits)
    have found: "reservation \<in> set (reservations J)" "rs_id reservation = si_reservation_id i"
      using res by (auto simp: requireReservation_def findReservation_def dest: find_row_SomeD
          split: option.splits)
    have owner: "rs_purchase_id reservation = ef_purchase_id effect"
    proof -
      from conflict obtain r where r: "r \<in> set (reservations J)" "rs_id r = si_reservation_id i"
        "rs_purchase_id r = ef_purchase_id effect"
        by (auto simp: settlement_conflict_def settlement_of_def list_ex_iff)
      have "r = reservation"
        using find_row_key_unique [of rs_id "reservations J" r] r(1,2) res inv_parts(6) [OF inv]
        by (auto simp: requireReservation_def findReservation_def reservations_inv_def split: option.splits)
      with r(3) show ?thesis by simp
    qed
    have payee: "si_payee i = rs_payee reservation"
    proof -
      have y: "preparation \<in> set (preparations J)" "pp_reservation_id preparation = si_reservation_id i"
          "pp_payee preparation = si_payee i"
        using prep by (auto simp: settlement_matches_def requirePaymentPreparation_def
            findPaymentPreparation_def dest: find_row_SomeD split: option.splits)
      have "trail_inv J" using inv by (simp add: journal_inv_def)
      then obtain r where r: "r \<in> set (reservations J)" "rs_id r = si_reservation_id i"
          "rs_payee r = si_payee i"
        using y by (auto simp: trail_inv_def preparation_bound_def)
      have "r = reservation"
        using find_row_key_unique [of rs_id "reservations J" r] r(1,2) res inv_parts(6) [OF inv]
        by (auto simp: requireReservation_def findReservation_def reservations_inv_def split: option.splits)
      with r(3) show ?thesis by simp
    qed
    have amount: "BigInt (si_amount i) \<le> BigInt (rs_amount reservation)"
      using bounds(1) by (cases "si_mechanism i") auto
    have s1: "steps now J ?J1"
    proof (rule r_into_rtranclp)
      have "journal_step now J (spent_row (st_reservation_id ?row) now
          (J\<lparr>settlements := settlements J @ [?row]\<rparr>))"
        by (rule step_settle [OF found(1) st])
          (use found(2) owner None amount bounds(2) payee in \<open>simp_all add: settlement_of_def\<close>)
      then show "journal_step now J ?J1" by (simp add: settlement_of_def)
    qed
    have "attempts ?J1 = attempts J" by (simp add: spent_row_def)
    then have s2: "steps now ?J1 J2" "outside_attempts J2 = outside_attempts ?J1"
      using transitionAttempt_steps [OF a] attempt_member [OF att] by auto
    let ?J3 = "insertEffectObservation (ef_id effect) EO_observed (Some ?d) (Some ?d) lease now J2"
    have s3: "steps now J2 ?J3" by (rule observation_steps)
    have run: "steps now J ?J3" using s1 s2(1) s3 by (meson rtranclp_trans)
    have "effects ?J3 = effects J"
      using attempts_frame(3) [OF s2(2)] by (simp add: spent_row_def)
    then have "effect_at ?J3 (ef_id effect) = Some effect"
      using at effect_at_facts [OF at] by (simp add: effect_at_def)
    then have "steps now ?J3 J'"
      using updateEffect_steps [OF e] steps_inv [OF run inv] by simp
    with run show ?thesis by (rule rtranclp_trans)
  qed
qed

lemma release_in_flight_steps:
  assumes call: "releaseInFlightReservation J reservationId effectId lease d c0 c1 now = Inr (J', row)"
    and inv: "journal_inv J"
  shows "steps now J J'"
proof -
  let ?J1 = "released_row reservationId d now J"
  let ?reason = "''payment_abandoned_after_not_found''"
  from call obtain effect where at: "effect_at J effectId = Some effect"
    and "J' = J \<or> (\<exists>p n attempt J2. findPaymentAttempt ?J1 p n = Some attempt
      \<and> transitionAttemptInternal ?J1 attempt Att_failed ?reason (Some d) now (Some ?reason) True = Inr J2
      \<and> updateEffectState J2 effect Eff_failed_terminal ?reason (Some d) now
              (no_updates\<lparr>eu_error := Some ?reason\<rparr>) = Inr J')"
    unfolding releaseInFlightReservation_def Let_def by (auto split: if_splits)
  then consider "J' = J" | p n attempt J2 where "findPaymentAttempt ?J1 p n = Some attempt"
      "transitionAttemptInternal ?J1 attempt Att_failed ?reason (Some d) now (Some ?reason) True = Inr J2"
      "updateEffectState J2 effect Eff_failed_terminal ?reason (Some d) now
              (no_updates\<lparr>eu_error := Some ?reason\<rparr>) = Inr J'" by blast
  then show ?thesis
  proof cases
    case 2
    have s2: "steps now ?J1 J2" "outside_attempts J2 = outside_attempts ?J1"
      using transitionAttempt_steps [OF 2(2) attempt_member [OF 2(1)]] by auto
    have run: "steps now J J2" using released_row_steps s2(1) by (rule rtranclp_trans)
    have "effects J2 = effects J"
      using attempts_frame(3) [OF s2(2)] by (simp add: released_row_def)
    then have "effect_at J2 (ef_id effect) = Some effect"
      using at effect_at_facts [OF at] by (simp add: effect_at_def)
    then have "steps now J2 J'"
      using updateEffect_steps [OF 2(3)] steps_inv [OF run inv] by simp
    with run show ?thesis by (rule rtranclp_trans)
  qed simp
qed

section \<open>Ending a Purchase\<close>

lemma purchase_move_run:
  assumes "timed_run journal_step t J u J1" and "u \<le> now"
    and "transitionPurchase H J1 i expected to_state reason d now = Inr (J', r)"
  shows "timed_run journal_step t J now J'"
  using run_steps [OF assms(1,2)] transitionPurchase_steps [OF assms(3)] by blast

lemma cancel_run:
  assumes call: "cancelPurchaseBeforeExternalEffect H J p t now = Inr (J', r)"
    and inv: "journal_inv J" and early: "t \<le> now"
  shows "timed_run journal_step t J now J'"
proof -
  let ?why = "''purchase_cancelled_before_external_effect''"
  let ?code = "''cancelled_before_external_effect''"
  let ?d = "map_option ct_checkout_digest (findCheckoutTerms J p)"
  from call obtain purchase where pu: "requirePurchase J p = Inr purchase"
    by (auto simp: cancelPurchaseBeforeExternalEffect_def)
  show ?thesis
  proof (cases "pu_state purchase = Pur_cancelled")
    case True
    with call pu have "J' = J" by (auto simp: cancelPurchaseBeforeExternalEffect_def)
    then show ?thesis using early by (auto intro: run_start run_wait)
  next
    case False
    with call pu obtain effs J1 J2 atts J3 J4 where
      effs: "effectsForPurchase J p = Inr effs"
      and m1: "terminalizeNeverSubmittedBatchVoucherMovement J p t = Inr J1"
      and m2: "abandon_effects ?why ?d ?code t effs J1 = Inr J2"
      and atts: "paymentAttempts J2 p = Inr atts"
      and m3: "(case atts of
              [] \<Rightarrow> Inr J2
            | attempt # _ \<Rightarrow>
                if at_state attempt = Att_planned \<or> at_state attempt = Att_prepared
                then transitionAttemptInternal J2 attempt Att_failed ?why ?d t (Some ?code) False
                else if at_state attempt \<noteq> Att_failed then Inl JournalEffectBusyError
                else Inr J2) = Inr J3"
      and m4: "release_for_purchase J3 p t JournalEffectBusyError = Inr J4"
      and m5: "transitionPurchase H J4 p (pu_state purchase) Pur_cancelled ?why ?d now = Inr (J', r)"
      unfolding cancelPurchaseBeforeExternalEffect_def Let_def
      by (auto simp del: requirePurchase_eq if_Inl_eq_Inr split: if_splits)
    note s1 = terminalize_steps [OF m1]
    have inv1: "journal_inv J1" using s1 steps_inv inv by blast
    have "effects J1 = effects J" using owned_frame(3) s1 by blast
    then have "distinct (map ef_id effs) \<and> (\<forall>e \<in> set effs. effect_at J1 (ef_id e) = Some e)"
      using effectsForPurchase_facts [OF effs inv] by (simp add: effect_at_def)
    then have s2: "steps t J1 J2" using abandon_effects_steps [OF m2 inv1] by blast
    have s3: "steps t J2 J3"
    proof (cases atts)
      case Nil
      with m3 show ?thesis by simp
    next
      case (Cons a rest)
      with m3 consider "J3 = J2"
        | "transitionAttemptInternal J2 a Att_failed ?why ?d t (Some ?code) False = Inr J3"
        by (auto split: if_splits)
      then show ?thesis
        using transitionAttempt_steps paymentAttempts_member [OF atts, of a] Cons
        by cases auto
    qed
    have "steps t J3 J4" by (rule release_for_purchase_steps [OF m4])
    with s1 s2 s3 have "steps t J J4" by (meson rtranclp_trans)
    then show ?thesis by (intro purchase_move_run [OF steps_run early m5])
  qed
qed

lemma attempt_failure_steps:
  assumes "(case atts of
              [] \<Rightarrow> Inr J
            | attempt # _ \<Rightarrow>
                if at_state attempt = Att_planned
                then transitionAttemptInternal J attempt Att_failed why d t code False
                else if at_state attempt \<noteq> Att_failed then Inl e
                else Inr J) = Inr J1"
    and "paymentAttempts J p = Inr atts"
  shows "steps t J J1"
proof (cases atts)
  case Nil
  with assms(1) show ?thesis by simp
next
  case (Cons a rest)
  with assms(1) consider "J1 = J" | "transitionAttemptInternal J a Att_failed why d t code False = Inr J1"
    by (auto split: if_splits)
  then show ?thesis
    using transitionAttempt_steps paymentAttempts_member [OF assms(2), of a] Cons by cases auto
qed

lemma expire_purchase_run:
  assumes call: "expirePurchaseBeforeTreasury H J p t now = Inr (J', r)"
    and inv: "journal_inv J" and early: "t \<le> now"
  shows "timed_run journal_step t J now J'"
proof -
  let ?why = "''checkout_expired_before_treasury''"
  from call obtain terms :: checkout_terms_row and atts J1 J2 where
    atts: "paymentAttempts J p = Inr atts"
    and m1: "(case atts of
              [] \<Rightarrow> Inr J
            | attempt # _ \<Rightarrow>
                if at_state attempt = Att_planned
                then transitionAttemptInternal J attempt Att_failed ?why
                       (Some (ct_checkout_digest terms)) t (Some ?why) False
                else if at_state attempt \<noteq> Att_failed then Inl JournalInvariantError
                else Inr J) = Inr J1"
    and m2: "release_for_purchase J1 p t JournalInvariantError = Inr J2"
    and m3: "transitionPurchase H J2 p Pur_authorised Pur_expired ?why
               (Some (ct_checkout_digest terms)) now = Inr (J', r)"
    unfolding expirePurchaseBeforeTreasury_def Let_def
    by (simp del: requirePurchase_eq) (elim exE conjE, rule that, assumption+)
  have "steps t J J1" by (rule attempt_failure_steps [OF m1 atts])
  moreover have "steps t J1 J2" by (rule release_for_purchase_steps [OF m2])
  ultimately have "steps t J J2" by (rule rtranclp_trans)
  then show ?thesis by (intro purchase_move_run [OF steps_run early m3])
qed

lemma attempt_then_effect:
  assumes a: "transitionAttemptInternal J attempt Att_failed why d now (Some why) False = Inr J1"
    and e: "updateEffectState J1 effect Eff_abandoned why d now (no_updates\<lparr>eu_error := Some why\<rparr>) = Inr J2"
    and att: "attempt \<in> set (attempts J)" and at: "effect_at J (ef_id effect) = Some effect"
    and inv: "journal_inv J"
  shows "steps now J J2"
proof -
  have s1: "steps now J J1" "outside_attempts J1 = outside_attempts J"
    using transitionAttempt_steps [OF a att] by auto
  have "effect_at J1 (ef_id effect) = Some effect"
    using at attempts_frame(3) [OF s1(2)] by (simp add: effect_at_def)
  then have "steps now J1 J2" using updateEffect_steps [OF e] steps_inv [OF s1(1) inv] by simp
  with s1(1) show ?thesis by (rule rtranclp_trans)
qed

lemma block_attempt_steps:
  assumes call: "block_attempt J p terms attempt t = Inr J2"
    and att: "attempt \<in> set (attempts J)" and inv: "journal_inv J"
  shows "steps t J J2"
proof -
  let ?why = "''checkout_expired_after_staging''"
  let ?pay = "\<lambda>effs. filter (\<lambda>e. ef_attempt e = Some (at_attempt attempt)
                                \<and> ef_kind e = ''kaspa-x402-payment'') effs"
  from call obtain effs J1 where effs: "effectsForPurchase J p = Inr effs"
    and m1: "transitionAttemptInternal J attempt Att_failed ?why
               (Some (ct_checkout_digest terms)) t (Some ?why) False = Inr J1"
    and m2: "(case ?pay effs of
                [] \<Rightarrow> Inr J1
              | e # _ \<Rightarrow> updateEffectState J1 e Eff_abandoned ?why
                         (Some (ct_checkout_digest terms)) t
                         (no_updates\<lparr>eu_error := Some ?why\<rparr>)) = Inr J2"
    unfolding block_attempt_def Let_def by (auto simp del: requireEffect_eq)
  show ?thesis
  proof (cases "?pay effs")
    case Nil
    with m1 m2 show ?thesis using transitionAttempt_steps att by auto
  next
    case (Cons e es)
    then have "e \<in> set (?pay effs)" by simp
    then have "effect_at J (ef_id e) = Some e" using effectsForPurchase_facts [OF effs inv] by auto
    with Cons m1 m2 att inv show ?thesis using attempt_then_effect by simp
  qed
qed

lemma one_attempt_eq_Inr [simp]:
  "(case xs of [] \<Rightarrow> Inl e | [x] \<Rightarrow> f x | x # y # zs \<Rightarrow> Inl e') = Inr r
     \<longleftrightarrow> (\<exists>x. xs = [x] \<and> f x = Inr r)"
  by (auto split: list.splits)

lemma block_run:
  assumes call: "blockExpiredStagedPurchase H J p t now = Inr (J', r)"
    and inv: "journal_inv J" and early: "t \<le> now"
  shows "timed_run journal_step t J now J'"
proof -
  let ?why = "''checkout_expired_after_staging''"
  from call obtain terms :: checkout_terms_row and attempt J2 where
    atts: "paymentAttempts J p = Inr [attempt]"
    and m1: "block_attempt J p terms attempt t = Inr J2"
    and m3: "transitionPurchase H J2 p Pur_execution_prepared Pur_failed_recoverable ?why
               (Some (ct_checkout_digest terms)) now = Inr (J', r)"
    unfolding blockExpiredStagedPurchase_def Let_def
    by (simp del: requirePurchase_eq) (elim exE conjE, hypsubst, rule that, assumption+)
  have "steps t J J2"
    by (rule block_attempt_steps [OF m1 _ inv]) (use paymentAttempts_member [OF atts] in simp)
  then show ?thesis by (intro purchase_move_run [OF steps_run early m3])
qed

lemma abandon_payment_run:
  assumes call: "abandonExpiredPreparedPayment H J effectId reservationId t u now = Inr (J', r)"
    and inv: "journal_inv J" and early: "t \<le> u" "u \<le> now"
  shows "timed_run journal_step t J now J'"
proof -
  let ?E = "expireReservationsInternal J t"
  let ?why = "''reservation_expired_before_submission''"
  from call obtain effect n attempt and purchase :: purchase_row and digest J2 J3 J4 where
    at: "effect_at J effectId = Some effect"
    and att: "findPaymentAttempt J (ef_purchase_id effect) n = Some attempt"
    and m1: "terminalizeNeverSubmittedBatchVoucherMovement ?E (pu_id purchase) u = Inr J2"
    and m2: "transitionAttemptInternal J2 attempt Att_failed ?why digest u (Some ?why) False = Inr J3"
    and m3: "updateEffectState J3 effect Eff_abandoned ?why digest u
               (no_updates\<lparr>eu_error := Some ?why\<rparr>) = Inr J4"
    and m4: "transitionPurchase H J4 (pu_id purchase) Pur_execution_prepared Pur_expired ?why digest now
               = Inr (J', r)"
    unfolding abandonExpiredPreparedPayment_def Let_def
    by (simp del: requirePurchase_eq) (elim exE conjE, rule that, assumption+)
  have start: "timed_run journal_step t J t ?E" by (rule steps_run [OF expire_steps])
  note s1 = terminalize_steps [OF m1]
  have inv2: "journal_inv J2" using s1 steps_inv steps_inv [OF expire_steps inv] by blast
  have "effects J2 = effects J" "attempts J2 = attempts J"
    using owned_frame [of J2 ?E] s1 by (simp_all add: expireReservationsInternal_def)
  then have "effect_at J2 (ef_id effect) = Some effect" "attempt \<in> set (attempts J2)"
    using at effect_at_facts [OF at] attempt_member [OF att] by (simp_all add: effect_at_def)
  then have "steps u J2 J4" using attempt_then_effect [OF m2 m3] inv2 by blast
  with s1 have "steps u ?E J4" by (meson rtranclp_trans)
  then show ?thesis
    using run_steps [OF start early(1)] purchase_move_run [OF _ early(2) m4] by blast
qed

lemma abandon_staging_run:
  assumes call: "abandonExpiredTreasuryStaging H J effectId reservationId t u now = Inr (J', r)"
    and inv: "journal_inv J" and early: "t \<le> u" "u \<le> now"
  shows "timed_run journal_step t J now J'"
proof -
  let ?E = "expireReservationsInternal J t"
  let ?why = "''reservation_expired_before_treasury_staging''"
  from call obtain effect n attempt and purchase :: purchase_row and digest J2 J3 where
    at: "effect_at J effectId = Some effect"
    and att: "findPaymentAttempt J (ef_purchase_id effect) n = Some attempt"
    and m1: "transitionAttemptInternal ?E attempt Att_failed ?why digest u (Some ?why) False = Inr J2"
    and m2: "updateEffectState J2 effect Eff_abandoned ?why digest u
               (no_updates\<lparr>eu_error := Some ?why\<rparr>) = Inr J3"
    and m3: "transitionPurchase H J3 (pu_id purchase) Pur_execution_prepared Pur_expired ?why digest now
               = Inr (J', r)"
    unfolding abandonExpiredTreasuryStaging_def Let_def
    by (simp del: requirePurchase_eq) (elim exE conjE, rule that, assumption+)
  have start: "timed_run journal_step t J t ?E" by (rule steps_run [OF expire_steps])
  have inv': "journal_inv ?E" using steps_inv [OF expire_steps inv] .
  have "effect_at ?E (ef_id effect) = Some effect" "attempt \<in> set (attempts ?E)"
    using at effect_at_facts [OF at] attempt_member [OF att]
    by (simp_all add: expireReservationsInternal_def effect_at_def)
  then have "steps u ?E J3" using attempt_then_effect [OF m1 m2] inv' by blast
  then show ?thesis
    using run_steps [OF start early(1)] purchase_move_run [OF _ early(2) m3] by blast
qed

end
