(* ===== verification/Journal_Histories.thy ===== *)
theory Journal_Histories
  imports Payment_Runs Transition_Logs
begin

text \<open>
  The journal provides the contract of \<open>Transition_Logs\<close> four times: for direct Treasury
  Operations, Effects, Payment Attempts and Purchases. Whatever the journal does, each log
  replays to the states in the table.
\<close>

definition operation_state_of :: "journal \<Rightarrow> string \<Rightarrow> treasury_operation_state option" where
  "operation_state_of J k = map_option op_state (operation_at J k)"

definition operation_log_pairs :: "journal \<Rightarrow> (string \<times> treasury_operation_state) list" where
  "operation_log_pairs J = map (\<lambda>e. (ot_key e, ot_to e)) (operation_log J)"

lemma operation_at_changed:
  assumes "operation_keys_ok J" and "operation_at J (op_key r) = Some r" and "op_key r' = op_key r"
    and "operations J' = update_rows (\<lambda>x. op_key x = op_key r) (\<lambda>_. r') (operations J)"
  shows "operation_at J' k = (if k = op_key r then Some r' else operation_at J k)"
proof -
  have r: "r \<in> set (operations J)" using operation_at_key assms(2) by blast
  have only: "\<And>x. x \<in> set (operations J) \<Longrightarrow> op_key x = op_key r \<Longrightarrow> x = r"
    using operation_at_unique assms(1,2) by blast
  have "operations J' = update_rows (\<lambda>x. op_key x = op_key r) (\<lambda>x. if x = r then r' else x) (operations J)"
    unfolding assms(4) using only by (auto simp: update_rows_def)
  then show ?thesis
    unfolding operation_at_def
    using find_row_update_keyed [of op_key "operations J" r "\<lambda>x. op_key x = op_key r"
        "\<lambda>x. if x = r then r' else x" k] r assms(1,3)
    by (simp add: operation_keys_ok_def)
qed

lemma operation_delta_logged:
  assumes "operation_delta now J J'" and inv: "operations_inv J"
  shows "operation_state_of J' = operation_state_of J \<and> operation_log_pairs J' = operation_log_pairs J
    \<or> (\<exists>k y. operation_state_of J' = (operation_state_of J)(k \<mapsto> y)
           \<and> operation_log_pairs J' = operation_log_pairs J @ [(k, y)]
           \<and> (case operation_state_of J k of None \<Rightarrow> y = Op_intent
              | Some x \<Rightarrow> directTreasuryTransitionAllowed x y))"
  using assms(1)
proof cases
  case unchanged
  then show ?thesis
    by (simp add: operation_state_of_def operation_log_pairs_def operation_at_def fun_eq_iff)
next
  case (added i)
  have "operation_at J' = (operation_at J)(in_key i \<mapsto> new_operation i now)"
    using added(2) unfolding operation_at_def added(6)
    by (auto simp: find_row_append new_operation_def fun_eq_iff split: option.splits)
  then have "operation_state_of J' = (operation_state_of J)(in_key i \<mapsto> Op_intent)"
    by (simp add: operation_state_of_def new_operation_def fun_eq_iff)
  moreover have "operation_state_of J (in_key i) = None"
    using added(2) by (simp add: operation_state_of_def)
  ultimately show ?thesis
    by (intro disjI2 exI [of _ "in_key i"] exI [of _ Op_intent])
      (simp add: operation_log_pairs_def added(7))
next
  case (changed r r' entry)
  have keys: "operation_keys_ok J" using inv by (simp add: operations_inv_def)
  have key: "op_key r' = op_key r" using row_change_key changed(3) by blast
  have st: "operation_state_of J' = (operation_state_of J)(op_key r \<mapsto> op_state r')"
    using operation_at_changed [OF keys changed(1) key changed(5)]
    by (simp add: operation_state_of_def fun_eq_iff)
  have here: "operation_state_of J (op_key r) = Some (op_state r)"
    using changed(1) by (simp add: operation_state_of_def)
  show ?thesis
  proof (cases entry)
    case None
    then have "op_state r' = op_state r" using row_change_log [OF changed(3)] by simp
    then have "operation_state_of J' = operation_state_of J" using st here by (auto simp: fun_eq_iff)
    with None show ?thesis using changed(6) by (simp add: operation_log_pairs_def)
  next
    case (Some e)
    then have "ot_key e = op_key r" "ot_to e = op_state r'"
      using row_change_log [OF changed(3)] by auto
    with Some st here show ?thesis
      using changed(6) row_change_allowed [OF changed(3)]
      by (intro disjI2 exI [of _ "op_key r"] exI [of _ "op_state r'"])
        (simp add: operation_log_pairs_def)
  qed
qed

section \<open>One step of the journal and the four logs\<close>

text \<open>A step that leaves a group's table and log alone leaves its state and history alone.\<close>

lemma group_congs:
  "operations J' = operations J \<Longrightarrow> operation_state_of J' = operation_state_of J"
  "operation_log J' = operation_log J \<Longrightarrow> operation_log_pairs J' = operation_log_pairs J"
  "effects J' = effects J \<Longrightarrow> effect_state_of J' = effect_state_of J"
  "effect_log J' = effect_log J \<Longrightarrow> effect_log_pairs J' = effect_log_pairs J"
  "attempts J' = attempts J \<Longrightarrow> attempt_state_of J' = attempt_state_of J"
  "attempt_log J' = attempt_log J \<Longrightarrow> attempt_log_pairs J' = attempt_log_pairs J"
  "purchases J' = purchases J \<Longrightarrow> purchase_state_of J' = purchase_state_of J"
  "purchase_log J' = purchase_log J \<Longrightarrow> purchase_log_pairs J' = purchase_log_pairs J"
  by (simp_all add: operation_state_of_def operation_log_pairs_def operation_at_def effect_state_of_def
      effect_log_pairs_def effect_at_def attempt_state_of_def attempt_log_pairs_def
      purchase_state_of_def purchase_log_pairs_def fun_eq_iff)

lemma step_groups:
  assumes "journal_step now J J'" and "journal_inv J"
  shows "(operation_delta now J J' \<or> operations J' = operations J \<and> operation_log J' = operation_log J)
    \<and> (effect_delta now J J' \<or> effects J' = effects J \<and> effect_log J' = effect_log J)
    \<and> (attempt_delta J J' \<or> attempts J' = attempts J \<and> attempt_log J' = attempt_log J)
    \<and> (purchase_delta J J' \<or> purchases J' = purchases J \<and> purchase_log J' = purchase_log J)"
  using assms(1)
proof cases
  case step_operation
  from operation_delta_rest [OF this] have "other_tables J' = other_tables J"
    by (simp add: rest_kept_def)
  note fr = operations_frame [OF this]
  show ?thesis using step_operation fr by simp
next
  case step_effect
  note fr = effects_frame [OF step_effect(2)]
  show ?thesis using step_effect(1) fr by simp
next
  case step_attempt
  note fr = attempts_frame [OF step_attempt(2)]
  show ?thesis using step_attempt(1) fr by simp
next
  case step_purchase
  note fr = purchases_frame [OF step_purchase(2)]
  show ?thesis using step_purchase(1) fr by simp
next
  case step_policy
  note fr = policies_frame [OF step_policy(4)]
  show ?thesis using fr by simp
next
  case step_elsewhere
  note fr = owned_frame [OF step_elsewhere(1)]
  show ?thesis using fr by simp
qed (simp_all add: spent_row_def released_row_def)

abbreviation some_step :: "journal \<Rightarrow> journal \<Rightarrow> bool" where
  "some_step J J' \<equiv> \<exists>now. journal_step now J J'"

interpretation operation_history:
  logged_table operation_state_of operation_log_pairs directTreasuryTransitionAllowed Op_intent
    journal_inv some_step
proof
  fix J J' assume J: "journal_inv J" and s: "some_step J J'"
  then obtain now where step: "journal_step now J J'" by blast
  show "journal_inv J'" using journal_step_inv step J .
  show "operation_state_of J' = operation_state_of J \<and> operation_log_pairs J' = operation_log_pairs J
      \<or> (\<exists>k y. operation_state_of J' = (operation_state_of J)(k \<mapsto> y)
             \<and> operation_log_pairs J' = operation_log_pairs J @ [(k, y)]
             \<and> (case operation_state_of J k of None \<Rightarrow> y = Op_intent
                | Some x \<Rightarrow> directTreasuryTransitionAllowed x y))"
    using step_groups [OF step J] operation_delta_logged [of now J J'] inv_parts(1) [OF J]
      group_congs(1,2) [of J' J] by blast
qed

interpretation effect_history:
  logged_table effect_state_of effect_log_pairs effect_moves Eff_planned journal_inv some_step
proof
  fix J J' assume J: "journal_inv J" and s: "some_step J J'"
  then obtain now where step: "journal_step now J J'" by blast
  show "journal_inv J'" using journal_step_inv step J .
  show "effect_state_of J' = effect_state_of J \<and> effect_log_pairs J' = effect_log_pairs J
      \<or> (\<exists>k y. effect_state_of J' = (effect_state_of J)(k \<mapsto> y)
             \<and> effect_log_pairs J' = effect_log_pairs J @ [(k, y)]
             \<and> (case effect_state_of J k of None \<Rightarrow> y = Eff_planned | Some x \<Rightarrow> effect_moves x y))"
    using step_groups [OF step J] effect_delta_logged [of now J J'] group_congs(3,4) [of J' J] by blast
qed

interpretation attempt_history:
  logged_table attempt_state_of attempt_log_pairs attempt_moves Att_planned journal_inv some_step
proof
  fix J J' assume J: "journal_inv J" and s: "some_step J J'"
  then obtain now where step: "journal_step now J J'" by blast
  show "journal_inv J'" using journal_step_inv step J .
  show "attempt_state_of J' = attempt_state_of J \<and> attempt_log_pairs J' = attempt_log_pairs J
      \<or> (\<exists>k y. attempt_state_of J' = (attempt_state_of J)(k \<mapsto> y)
             \<and> attempt_log_pairs J' = attempt_log_pairs J @ [(k, y)]
             \<and> (case attempt_state_of J k of None \<Rightarrow> y = Att_planned | Some x \<Rightarrow> attempt_moves x y))"
    using step_groups [OF step J] attempt_delta_logged [of J J'] inv_parts(3) [OF J]
      group_congs(5,6) [of J' J] by blast
qed

interpretation purchase_history:
  logged_table purchase_state_of purchase_log_pairs purchase_moves Pur_created journal_inv some_step
proof
  fix J J' assume J: "journal_inv J" and s: "some_step J J'"
  then obtain now where step: "journal_step now J J'" by blast
  show "journal_inv J'" using journal_step_inv step J .
  show "purchase_state_of J' = purchase_state_of J \<and> purchase_log_pairs J' = purchase_log_pairs J
      \<or> (\<exists>k y. purchase_state_of J' = (purchase_state_of J)(k \<mapsto> y)
             \<and> purchase_log_pairs J' = purchase_log_pairs J @ [(k, y)]
             \<and> (case purchase_state_of J k of None \<Rightarrow> y = Pur_created | Some x \<Rightarrow> purchase_moves x y))"
    using step_groups [OF step J] purchase_delta_logged [of J J'] inv_parts(4) [OF J]
      group_congs(7,8) [of J' J] by blast
qed

end
