(* ===== verification/Tracked_Rows.thy ===== *)
theory Tracked_Rows
  imports Main
begin

text \<open>
  The contract of a table whose rows are never deleted: under a step a stored row stays where
  it is, unchanged or changed in one of the table's ways. Whatever every change keeps then
  holds of the row for ever. The direct Treasury Operations, the Effects and the Treasury
  Reservations of the journal provide it.
\<close>

locale tracked_rows =
  fixes row_at :: "'s \<Rightarrow> 'k \<Rightarrow> 'r option"
    and change :: "'r \<Rightarrow> 'r \<Rightarrow> bool"
    and good :: "'s \<Rightarrow> bool"
    and step :: "'s \<Rightarrow> 's \<Rightarrow> bool"
  assumes step_good: "good s \<Longrightarrow> step s s' \<Longrightarrow> good s'"
    and step_row: "good s \<Longrightarrow> step s s' \<Longrightarrow> row_at s k = Some r \<Longrightarrow>
      row_at s' k = Some r \<or> (\<exists>r'. row_at s' k = Some r' \<and> change r r')"
begin

lemma run_row:
  "step\<^sup>*\<^sup>* s s' \<Longrightarrow> good s \<Longrightarrow> row_at s k = Some r \<Longrightarrow>
     good s' \<and> (\<exists>r'. row_at s' k = Some r' \<and> change\<^sup>*\<^sup>* r r')"
proof (induction rule: rtranclp_induct)
  case (step y z)
  then obtain x where x: "good y" "row_at y k = Some x" "change\<^sup>*\<^sup>* r x" by blast
  from step_row [OF x(1) step(2) x(2)] step_good [OF x(1) step(2)] x(3)
  show ?case by (meson rtranclp.rtrancl_into_rtrancl)
qed blast

text \<open>A relation that every change keeps, between a row and what became of it.\<close>

lemma run_related:
  assumes "step\<^sup>*\<^sup>* s s'" and "good s" and "row_at s k = Some r" and "P r r"
    and "\<And>x y. P r x \<Longrightarrow> change x y \<Longrightarrow> P r y"
  shows "\<exists>r'. row_at s' k = Some r' \<and> P r r'"
proof -
  obtain r' where r': "row_at s' k = Some r'" "change\<^sup>*\<^sup>* r r'" using run_row assms(1-3) by blast
  have "P r r'" using r'(2) by (induction rule: rtranclp_induct) (auto intro: assms(4,5))
  with r'(1) show ?thesis by blast
qed

end

end
