(* ===== verification/Journal_Rows.thy ===== *)
theory Journal_Rows
  imports Journal_Histories Tracked_Rows
begin

text \<open>
  What becomes of a stored row, whatever the journal does next: interpretations of
  \<open>tracked_rows\<close> for direct Treasury Operations, Effects and Treasury Reservations, and of
  \<open>fenced_lease\<close> for the driver lease inside an operation's row.
\<close>

section \<open>Direct Treasury Operations\<close>

definition operation_change :: "treasury_operation_row \<Rightarrow> treasury_operation_row \<Rightarrow> bool" where
  "operation_change r r' \<longleftrightarrow> (\<exists>now e. row_change now r r' e)"

lemma operation_delta_row:
  assumes "operation_delta now J J'" and "operations_inv J" and "operation_at J k = Some r"
  shows "operation_at J' k = Some r \<or> (\<exists>r'. operation_at J' k = Some r' \<and> operation_change r r')"
  using assms(1)
proof cases
  case unchanged
  then show ?thesis using assms(3) by (simp add: operation_at_def)
next
  case (added i)
  then show ?thesis using assms(3) by (simp add: operation_at_def find_row_append)
next
  case (changed x x' entry)
  have keys: "operation_keys_ok J" using assms(2) by (simp add: operations_inv_def)
  have key: "op_key x' = op_key x" using row_change_key changed(3) by blast
  show ?thesis
    using operation_at_changed [OF keys changed(1) key changed(5), of k] assms(3) changed(1,3)
    unfolding operation_change_def by auto
qed

interpretation operation_rows: tracked_rows operation_at operation_change journal_inv some_step
proof
  fix J J' k r assume J: "journal_inv J" and s: "some_step J J'"
  then obtain now where step: "journal_step now J J'" by blast
  show "journal_inv J'" using journal_step_inv step J .
  show "operation_at J' k = Some r \<or> (\<exists>r'. operation_at J' k = Some r' \<and> operation_change r r')"
    if "operation_at J k = Some r"
  proof -
    from step_groups [OF step J]
    have "operation_delta now J J' \<or> operations J' = operations J" by blast
    then show ?thesis
    proof
      assume "operation_delta now J J'"
      then show ?thesis by (rule operation_delta_row [OF _ inv_parts(1) [OF J] that])
    qed (use that in \<open>simp add: operation_at_def\<close>)
  qed
qed

text \<open>What was decided for an operation stays, and so does its signed material.\<close>

definition follows :: "treasury_operation_row \<Rightarrow> treasury_operation_row \<Rightarrow> bool" where
  "follows r r' \<longleftrightarrow>
     same_intent r r' \<and> (op_prepared_digest r \<noteq> None \<longrightarrow> same_material r r')
     \<and> op_driver_generation r \<le> op_driver_generation r'"

lemma follows_refl: "follows r r"
  by (simp add: follows_def same_intent_def same_material_def)

lemma follows_change: "follows r x \<Longrightarrow> operation_change x y \<Longrightarrow> follows r y"
  unfolding operation_change_def follows_def
  using row_change_intent row_change_material row_change_generation
  by (fastforce simp: same_intent_def same_material_def)

text \<open>Once withdrawn before the submission was planned, an operation is never submitted.\<close>

definition withdrawn :: "treasury_operation_row \<Rightarrow> bool" where
  "withdrawn r \<longleftrightarrow>
     (op_cancellation_requested r \<or> op_preparation_fenced r)
     \<and> op_state r \<in> {Op_intent, Op_prepared, Op_failed_terminal}"

lemma withdrawn_change: "withdrawn x \<Longrightarrow> operation_change x y \<Longrightarrow> withdrawn y"
  unfolding operation_change_def withdrawn_def by (auto elim!: row_change.cases)

section \<open>The driver lease\<close>

definition driver_generation :: "journal \<Rightarrow> string \<Rightarrow> int" where
  "driver_generation J k =
     (case operation_at J k of None \<Rightarrow> 0 | Some r \<Rightarrow> op_driver_generation r)"

definition driver_holds :: "journal \<Rightarrow> string \<Rightarrow> string \<Rightarrow> int \<Rightarrow> int \<Rightarrow> bool" where
  "driver_holds J k owner g now \<longleftrightarrow>
     (case operation_at J k of None \<Rightarrow> False
      | Some r \<Rightarrow> op_driver_owner r = Some owner \<and> op_driver_generation r = g \<and> lease_live now r)"

lemma operation_change_owner:
  "operation_change r r' \<Longrightarrow> op_driver_owner r' = Some h' \<Longrightarrow> op_driver_owner r \<noteq> Some h' \<Longrightarrow>
     op_driver_generation r < op_driver_generation r'"
  unfolding operation_change_def by (auto elim!: row_change.cases)

interpretation operation_driver: fenced_lease driver_generation driver_holds journal_inv some_step
proof
  fix J J' :: journal and k h h' :: string and g g' t t' :: int
  show "driver_holds J k h g t \<Longrightarrow> driver_holds J k h' g' t' \<Longrightarrow> h = h'"
    by (auto simp: driver_holds_def split: option.splits)
  show "driver_holds J k h g t \<Longrightarrow> g = driver_generation J k"
    by (auto simp: driver_holds_def driver_generation_def split: option.splits)
  show "driver_holds J k h g t \<Longrightarrow> t' \<le> t \<Longrightarrow> driver_holds J k h g t'"
    by (auto simp: driver_holds_def lease_live_def split: option.splits)
  show "journal_inv J \<Longrightarrow> some_step J J' \<Longrightarrow> journal_inv J'" using operation_rows.step_good .
  have change: "journal_inv J \<Longrightarrow> some_step J J' \<Longrightarrow> operation_at J k = Some r \<Longrightarrow>
      operation_at J' k = Some r \<or> (\<exists>r'. operation_at J' k = Some r' \<and> operation_change r r')" for r
    by (rule operation_rows.step_row)
  show "driver_generation J k \<le> driver_generation J' k" if J: "journal_inv J" and s: "some_step J J'"
  proof (cases "operation_at J k")
    case None
    have "journal_inv J'" using operation_rows.step_good J s .
    then have "0 \<le> op_driver_generation r" if "operation_at J' k = Some r" for r
      using that operation_at_key [OF that] readable_generation
      by (auto simp: journal_inv_def operations_inv_def row_ok_def)
    then show ?thesis using None by (auto simp: driver_generation_def split: option.splits)
  next
    case (Some r)
    then show ?thesis using change [OF J s Some] row_change_generation
      by (fastforce simp: driver_generation_def operation_change_def)
  qed
  show "driver_generation J k < driver_generation J' k"
    if J: "journal_inv J" and s: "some_step J J'" and old: "driver_holds J k h g t"
      and new: "driver_holds J' k h' g' t'" and other: "h \<noteq> h'"
  proof -
    obtain r where r: "operation_at J k = Some r" "op_driver_owner r = Some h"
      using old by (auto simp: driver_holds_def split: option.splits)
    obtain r' where r': "operation_at J' k = Some r'" "op_driver_owner r' = Some h'"
      using new by (auto simp: driver_holds_def split: option.splits)
    have "operation_change r r'"
      using change [OF J s r(1)] r r' other by auto
    from operation_change_owner [OF this r'(2)] show ?thesis
      using r r' other by (simp add: driver_generation_def)
  qed
qed

section \<open>Effects\<close>

definition effect_moved_to :: "effect_row \<Rightarrow> effect_row \<Rightarrow> bool" where
  "effect_moved_to r r' \<longleftrightarrow> (\<exists>J now. effect_change J now r r')"

lemma effect_delta_row:
  assumes "effect_delta now J J'" and "effect_at J k = Some r"
  shows "effect_at J' k = Some r \<or> (\<exists>r'. effect_at J' k = Some r' \<and> effect_moved_to r r')"
  using assms(1)
proof cases
  case effects_unchanged
  then show ?thesis using assms(2) by (simp add: effect_at_def)
next
  case effect_planned
  then show ?thesis using assms(2) by (simp add: effect_at_def find_row_append)
next
  case (effect_changed x x' e)
  have "ef_id x' = ef_id x" using effect_change_same effect_changed(2) by blast
  from effect_at_updated [OF effect_changed(1) this effect_changed(3)] show ?thesis
    using assms(2) effect_changed(1,2) unfolding effect_moved_to_def by auto
qed

interpretation effect_rows: tracked_rows effect_at effect_moved_to journal_inv some_step
proof
  fix J J' k r assume J: "journal_inv J" and s: "some_step J J'"
  then obtain now where step: "journal_step now J J'" by blast
  show "journal_inv J'" using journal_step_inv step J .
  show "effect_at J' k = Some r \<or> (\<exists>r'. effect_at J' k = Some r' \<and> effect_moved_to r r')"
    if "effect_at J k = Some r"
  proof -
    from step_groups [OF step J] have "effect_delta now J J' \<or> effects J' = effects J" by blast
    then show ?thesis
    proof
      assume "effect_delta now J J'"
      then show ?thesis by (rule effect_delta_row [OF _ that])
    qed (use that in \<open>simp add: effect_at_def\<close>)
  qed
qed

definition same_effect :: "effect_row \<Rightarrow> effect_row \<Rightarrow> bool" where
  "same_effect r r' \<longleftrightarrow>
     ef_id r' = ef_id r \<and> ef_idempotency_key r' = ef_idempotency_key r
     \<and> ef_purchase_id r' = ef_purchase_id r \<and> ef_attempt r' = ef_attempt r \<and> ef_kind r' = ef_kind r
     \<and> ef_payload_digest r' = ef_payload_digest r \<and> ef_prepared_ref r' = ef_prepared_ref r
     \<and> ef_prepared_byte_length r' = ef_prepared_byte_length r \<and> ef_created_at r' = ef_created_at r"

lemma same_effect_refl: "same_effect r r"
  by (simp add: same_effect_def)

lemma same_effect_change: "same_effect r x \<Longrightarrow> effect_moved_to x y \<Longrightarrow> same_effect r y"
  unfolding effect_moved_to_def same_effect_def using effect_change_same by fastforce

section \<open>Treasury Reservations\<close>

definition reservation_change :: "reservation_row \<Rightarrow> reservation_row \<Rightarrow> bool" where
  "reservation_change r r' \<longleftrightarrow>
     (\<exists>now. reservation_move now r r')
     \<or> rs_state r = Res_in_flight \<and> (\<exists>now. r' = r\<lparr>rs_state := Res_spent, rs_spent_at := Some now,
                                                rs_updated_at := now\<rparr>)"

lemma find_row_update_change:
  assumes "\<And>x. x \<in> set t \<Longrightarrow> u x \<Longrightarrow> key (f x) = key x"
    and "find_row (\<lambda>x. key x = k) t = Some r"
  shows "find_row (\<lambda>x. key x = k) (update_rows u f t) = Some (if u r then f r else r)"
  using assms by (induction t) (auto split: if_splits)

lemma findReservation_updated:
  assumes "reservations J' = update_rows u f (reservations J)"
    and "\<forall>r \<in> set (reservations J). u r \<longrightarrow> reservation_move now r (f r)"
    and at: "findReservation J k = Some r"
  shows "findReservation J' k = Some r \<or> (\<exists>r'. findReservation J' k = Some r' \<and> reservation_change r r')"
proof -
  have "r \<in> set (reservations J)" using at by (auto simp: findReservation_def dest: find_row_SomeD)
  moreover have "findReservation J' k = Some (if u r then f r else r)"
    using at unfolding findReservation_def assms(1)
    by (intro find_row_update_change) (use assms(2) in \<open>auto simp: reservation_move_def\<close>)
  ultimately show ?thesis using assms(2) by (auto simp: reservation_change_def)
qed

lemma journal_step_reservation:
  assumes "journal_step now J J'" and at: "findReservation J k = Some r"
  shows "findReservation J' k = Some r \<or> (\<exists>r'. findReservation J' k = Some r' \<and> reservation_change r r')"
proof -
  have same: ?thesis if "reservations J' = reservations J"
    using at that by (simp add: findReservation_def)
  from assms(1) show ?thesis
  proof cases
    case step_operation
    from operation_reservations [OF operation_delta_rest [OF this]] show ?thesis
    proof
      assume "reservations J' = update_rows (\<lambda>r. rs_state r = Res_active \<and> rs_expires_at r \<le> now)
         (\<lambda>r. r\<lparr>rs_state := Res_expired, rs_updated_at := now\<rparr>) (reservations J)"
      then show ?thesis by (rule findReservation_updated [OF _ expire_move at])
    qed (rule same)
  next
    case step_effect
    note fr = effects_frame [OF step_effect(2)]
    show ?thesis by (rule same) (simp add: fr)
  next
    case step_attempt
    note fr = attempts_frame [OF step_attempt(2)]
    show ?thesis by (rule same) (simp add: fr)
  next
    case step_purchase
    note fr = purchases_frame [OF step_purchase(2)]
    show ?thesis by (rule same) (simp add: fr)
  next
    case (step_reserve p row)
    then show ?thesis using at by (simp add: findReservation_def find_row_append)
  next
    case (step_reservation u f)
    then show ?thesis by (intro findReservation_updated [OF _ _ at]) simp_all
  next
    case (step_settle x s)
    then have "findReservation J' k
        = Some (if rs_id r = st_reservation_id s \<and> rs_state r = Res_in_flight
                then r\<lparr>rs_state := Res_spent, rs_spent_at := Some now, rs_updated_at := now\<rparr> else r)"
      using at unfolding findReservation_def
      by (simp add: spent_row_def find_row_update_change)
    then show ?thesis by (auto simp: reservation_change_def)
  next
    case (step_recover x a d)
    have "\<forall>r \<in> set (reservations J). rs_id r = ra_reservation_id a \<and> rs_state r = Res_in_flight \<longrightarrow>
        reservation_move now r
          (r\<lparr>rs_state := Res_released, rs_release_evidence := Some d, rs_updated_at := now\<rparr>)"
      by (simp add: reservation_move_def)
    moreover have "reservations J' = update_rows (\<lambda>r. rs_id r = ra_reservation_id a \<and> rs_state r = Res_in_flight)
        (\<lambda>r. r\<lparr>rs_state := Res_released, rs_release_evidence := Some d, rs_updated_at := now\<rparr>)
        (reservations J)"
      by (simp add: step_recover(1) released_row_def)
    ultimately show ?thesis by (intro findReservation_updated [OF _ _ at])
  next
    case step_policy
    note fr = policies_frame [OF step_policy(4)]
    show ?thesis by (rule same) (simp add: fr)
  next
    case step_elsewhere
    note fr = owned_frame [OF step_elsewhere(1)]
    show ?thesis by (rule same) (simp add: fr)
  qed
qed

interpretation reservation_rows:
  tracked_rows findReservation reservation_change journal_inv some_step
proof
  fix J J' k r assume J: "journal_inv J" and s: "some_step J J'"
  then obtain now where step: "journal_step now J J'" by blast
  show "journal_inv J'" using journal_step_inv step J .
  show "findReservation J' k = Some r
      \<or> (\<exists>r'. findReservation J' k = Some r' \<and> reservation_change r r')"
    if "findReservation J k = Some r" using journal_step_reservation step that .
qed

text \<open>The capacity a reservation holds never changes, and only an active one may still move.\<close>

definition reservation_later :: "reservation_row \<Rightarrow> reservation_row \<Rightarrow> bool" where
  "reservation_later r r' \<longleftrightarrow>
     rs_purchase_id r' = rs_purchase_id r \<and> rs_amount r' = rs_amount r
     \<and> rs_additional_cost_ceiling r' = rs_additional_cost_ceiling r
     \<and> rs_policy_digest r' = rs_policy_digest r \<and> rs_payee r' = rs_payee r
     \<and> rs_expires_at r' = rs_expires_at r
     \<and> (rs_state r \<in> {Res_spent, Res_released, Res_expired} \<longrightarrow> rs_state r' = rs_state r)
     \<and> (rs_state r = Res_in_flight \<longrightarrow> rs_state r' \<in> {Res_in_flight, Res_spent, Res_released})"

lemma reservation_later_refl: "reservation_later r r"
  by (simp add: reservation_later_def)

lemma reservation_later_change:
  "reservation_later r x \<Longrightarrow> reservation_change x y \<Longrightarrow> reservation_later r y"
  unfolding reservation_later_def reservation_change_def reservation_move_def
  by (cases "rs_state r") auto

section \<open>Named leases\<close>

lemma some_step_leases:
  assumes "journal_inv J" and "some_step J J'"
  shows "lease_step\<^sup>*\<^sup>* J J'"
proof -
  obtain now where "journal_step now J J'" using assms(2) by blast
  then show ?thesis
  proof cases
    case step_operation
    then have "leases J' = leases J" using operation_delta_rest by (auto simp: rest_kept_def)
    then show ?thesis by (rule leases_untouched)
  next
    case step_effect
    then show ?thesis by (auto elim: effect_delta.cases)
  next
    case step_attempt
    note fr = attempts_frame [OF step_attempt(2)]
    show ?thesis by (rule leases_untouched) (simp add: fr)
  next
    case step_purchase
    note fr = purchases_frame [OF step_purchase(2)]
    show ?thesis by (rule leases_untouched) (simp add: fr)
  next
    case step_policy
    note fr = policies_frame [OF step_policy(4)]
    show ?thesis by (rule leases_untouched) (simp add: fr)
  next
    case step_elsewhere
    note fr = owned_frame [OF step_elsewhere(1)]
    show ?thesis by (rule leases_untouched) (simp add: fr)
  qed (auto intro: leases_untouched simp: spent_row_def released_row_def)
qed

lemma run_leases: "some_step\<^sup>*\<^sup>* J J' \<Longrightarrow> journal_inv J \<Longrightarrow> lease_step\<^sup>*\<^sup>* J J'"
proof (induction rule: rtranclp_induct)
  case (step y z)
  then have "journal_inv y" using operation_history.run_log_prefix by blast
  with step show ?case using some_step_leases by (meson rtranclp_trans)
qed simp

section \<open>The active policy\<close>

lemma some_step_policies:
  assumes "some_step J J'"
  shows "policy_step\<^sup>*\<^sup>* J J'"
proof -
  obtain now where "journal_step now J J'" using assms by blast
  then show ?thesis
  proof cases
    case step_operation
    then have "active J' = active J" using operation_delta_rest by (auto simp: rest_kept_def)
    then show ?thesis by (blast intro: policy_untouched)
  next
    case step_effect
    note fr = effects_frame [OF step_effect(2)]
    have "active J' = active J" by (simp add: fr)
    then show ?thesis by (blast intro: policy_untouched)
  next
    case step_attempt
    note fr = attempts_frame [OF step_attempt(2)]
    have "active J' = active J" by (simp add: fr)
    then show ?thesis by (blast intro: policy_untouched)
  next
    case step_purchase
    note fr = purchases_frame [OF step_purchase(2)]
    have "active J' = active J" by (simp add: fr)
    then show ?thesis by (blast intro: policy_untouched)
  next
    case step_policy
    then show ?thesis by blast
  next
    case step_elsewhere
    note fr = owned_frame [OF step_elsewhere(1)]
    have "active J' = active J" by (simp add: fr)
    then show ?thesis by (blast intro: policy_untouched)
  qed (auto intro!: r_into_rtranclp policy_untouched simp: spent_row_def released_row_def)
qed

lemma run_policies: "some_step\<^sup>*\<^sup>* J J' \<Longrightarrow> policy_step\<^sup>*\<^sup>* J J'"
proof (induction rule: rtranclp_induct)
  case (step y z)
  from some_step_policies [OF step(2)] step(3) show ?case by simp
qed simp

end
