(* ===== verification/Checkout.thy ===== *)
theory Checkout
  imports Contracts Admission
begin

text \<open>
  From the Merchant's terms to a decision (\<open>src/purchase/journal.ts\<close>): \<open>bindCheckoutTerms\<close>,
  \<open>recordAuthorizationRequest\<close>, \<open>recordAuthorizationDecision\<close>, and what is read back for the
  execution, \<open>hydratePurchaseAuthorizationRequest\<close> and \<open>requirePurchaseExecutionContext\<close>. Each
  recording operation is one transaction with the transition it ends in; a repeated call with the
  same facts returns the record, one with other facts is refused.
\<close>

text \<open>
  What the journal takes from outside its tables: SHA-256 in base64url, the URL parser, \<open>Date.parse\<close>,
  \<open>JSON.parse\<close>, and the evidence store with its check and its read of a blob.
\<close>

record platform =
  pf_hash :: "string \<Rightarrow> string"
  pf_url :: url_parser
  pf_date :: date_parser
  pf_json :: "string \<Rightarrow> json option"
  pf_intact :: "string \<Rightarrow> int \<Rightarrow> bool"
  pf_read :: "string \<Rightarrow> int \<Rightarrow> string option"

section \<open>Checkout Terms\<close>

record terms_input =
  ti_terms :: terms
  ti_checkout_evidence :: string
  ti_checkout_profile :: string
  ti_checkout_verifier :: string
  ti_requirements_digest :: string
  ti_requirements_profile :: string
  ti_requirements_verifier :: string
  ti_plan :: execution_plan
  ti_plan_evidence :: string

definition plan_matches :: "canonical_plan \<Rightarrow> terms_input \<Rightarrow> bool" where
  "plan_matches plan input \<longleftrightarrow>
     pl_digest plan = ti_plan_evidence input
     \<and> pl_requirements_digest plan = ti_requirements_digest input
     \<and> pl_maximum_charge plan = ts_amount (ti_terms input)"

definition validateCheckoutTermsRecordInput :: "platform \<Rightarrow> terms_input \<Rightarrow> unit result" where
  "validateCheckoutTermsRecordInput P input =
     (let t = ti_terms input in
     rbind (assertBoundedText (mi_id (ts_merchant t)) 200) (\<lambda>_.
     rbind (assertBoundedText (mi_name (ts_merchant t)) 200) (\<lambda>_.
     rbind (case pf_url P (mi_origin (ts_merchant t)) of
              None \<Rightarrow> Inl JournalInvariantError
            | Some url \<Rightarrow> require (url_origin url = mi_origin (ts_merchant t)) JournalInvariantError) (\<lambda>_.
     rbind (assertDigest (ts_resource_fingerprint t)) (\<lambda>_.
     rbind (decimalBigInt (ts_amount t) False) (\<lambda>_.
     rbind (assertSafeIdentity (ts_asset t) 40) (\<lambda>_.
     rbind (assertSafeIdentity (ts_network t) 100) (\<lambda>_.
     rbind (assertBoundedText (ts_pay_to t) 300) (\<lambda>_.
     rbind (strictTimestamp (pf_date P) (ts_expires_at t)) (\<lambda>_.
     rbind (assertDigest (ts_checkout_digest t)) (\<lambda>_.
     rbind (assertDigest (ti_checkout_evidence input)) (\<lambda>_.
     rbind (assertSafeIdentity (ti_checkout_profile input) 200) (\<lambda>_.
     rbind (assertSafeIdentity (ti_checkout_verifier input) 200) (\<lambda>_.
     rbind (assertDigest (ti_requirements_digest input)) (\<lambda>_.
     rbind (assertSafeIdentity (ti_requirements_profile input) 200) (\<lambda>_.
     rbind (assertSafeIdentity (ti_requirements_verifier input) 200) (\<lambda>_.
     rbind (canonicalPurchaseExecutionPlan (pf_hash P) (ti_plan input)) (\<lambda>executionPlan.
     rbind (assertDigest (ti_plan_evidence input)) (\<lambda>_.
       require (plan_matches executionPlan input) JournalInvariantError)))))))))))))))))))"

definition terms_of_row :: "checkout_terms_row \<Rightarrow> terms" where
  "terms_of_row r =
     \<lparr>ts_merchant = \<lparr>mi_id = ct_merchant_id r, mi_name = ct_merchant_name r,
                     mi_origin = ct_merchant_origin r\<rparr>,
      ts_resource_fingerprint = ct_resource_fingerprint r, ts_amount = ct_amount r,
      ts_asset = ct_asset r, ts_network = ct_network r, ts_pay_to = ct_pay_to r,
      ts_expires_at = ct_expires_at_text r, ts_checkout_digest = ct_checkout_digest r\<rparr>"

definition same_checkout_terms :: "checkout_terms_row \<Rightarrow> terms_input \<Rightarrow> bool" where
  "same_checkout_terms existing input \<longleftrightarrow>
     (let t = ti_terms input in
      ct_merchant_id existing = mi_id (ts_merchant t)
      \<and> ct_merchant_name existing = mi_name (ts_merchant t)
      \<and> ct_merchant_origin existing = mi_origin (ts_merchant t)
      \<and> ct_resource_fingerprint existing = ts_resource_fingerprint t
      \<and> ct_amount existing = ts_amount t \<and> ct_asset existing = ts_asset t
      \<and> ct_network existing = ts_network t \<and> ct_pay_to existing = ts_pay_to t
      \<and> ct_expires_at_text existing = ts_expires_at t
      \<and> ct_checkout_digest existing = ts_checkout_digest t
      \<and> ct_checkout_evidence_digest existing = ti_checkout_evidence input
      \<and> ct_checkout_profile existing = ti_checkout_profile input
      \<and> ct_checkout_verifier existing = ti_checkout_verifier input
      \<and> ct_requirements_digest existing = ti_requirements_digest input
      \<and> ct_requirements_profile existing = ti_requirements_profile input
      \<and> ct_requirements_verifier existing = ti_requirements_verifier input)"

text \<open>The texts the code compares are the JSON of the canonical plans with their digest.\<close>

definition assertSameExecutionPlan ::
  "(string \<Rightarrow> string) \<Rightarrow> plan_record \<Rightarrow> execution_plan \<Rightarrow> string \<Rightarrow> unit result" where
  "assertSameExecutionPlan H existing input evidenceDigestValue =
     rbind (canonicalPurchaseExecutionPlan H input) (\<lambda>candidate.
       require (pl_digest existing = pl_digest candidate
                \<and> pl_evidence_digest existing = evidenceDigestValue
                \<and> json_text (plan_json existing) = json_text (plan_json candidate))
         JournalInvariantError)"

definition checkout_terms_row_of :: "string \<Rightarrow> terms_input \<Rightarrow> int \<Rightarrow> int \<Rightarrow> checkout_terms_row" where
  "checkout_terms_row_of purchaseId input expiresAtMs now =
     (let t = ti_terms input in
      \<lparr>ct_purchase_id = purchaseId, ct_merchant_id = mi_id (ts_merchant t),
       ct_merchant_name = mi_name (ts_merchant t), ct_merchant_origin = mi_origin (ts_merchant t),
       ct_resource_fingerprint = ts_resource_fingerprint t, ct_amount = ts_amount t,
       ct_asset = ts_asset t, ct_network = ts_network t, ct_pay_to = ts_pay_to t,
       ct_expires_at_text = ts_expires_at t, ct_expires_at = expiresAtMs,
       ct_checkout_digest = ts_checkout_digest t,
       ct_checkout_evidence_digest = ti_checkout_evidence input,
       ct_checkout_profile = ti_checkout_profile input,
       ct_checkout_verifier = ti_checkout_verifier input,
       ct_requirements_digest = ti_requirements_digest input,
       ct_requirements_profile = ti_requirements_profile input,
       ct_requirements_verifier = ti_requirements_verifier input, ct_created_at = now\<rparr>)"

text \<open>An empty expectation is falsy and constrains nothing.\<close>

definition expected_matches :: "string option \<Rightarrow> string \<Rightarrow> bool" where
  "expected_matches expected actual \<longleftrightarrow> truthy expected \<longrightarrow> expected = Some actual"

text \<open>Issuer and profile of an attachment.\<close>

definition attachment_bound :: "evidence_link_row \<times> evidence_artifact_row \<Rightarrow> string \<Rightarrow> string \<Rightarrow> bool" where
  "attachment_bound a issuer profile \<longleftrightarrow>
     el_issuer (fst a) = Some issuer \<and> el_profile (fst a) = profile"

text \<open>\<open>c0\<close> is the reading that checks the expiry, \<open>c1\<close> dates the rows and \<open>clock\<close> the transition.\<close>

definition bindCheckoutTerms ::
  "platform \<Rightarrow> journal \<Rightarrow> string \<Rightarrow> terms_input \<Rightarrow> int \<Rightarrow> int \<Rightarrow> int
    \<Rightarrow> (journal \<times> checkout_terms_row) result" where
  "bindCheckoutTerms P J purchaseId input c0 c1 clock =
     (let H = pf_hash P; t = ti_terms input; m = ts_merchant t in
     rbind (validateCheckoutTermsRecordInput P input) (\<lambda>_.
     rbind (requirePurchase J purchaseId) (\<lambda>purchase.
     case findCheckoutTerms J purchaseId of
       Some existing \<Rightarrow>
         rbind (require (same_checkout_terms existing input) JournalInvariantError) (\<lambda>_.
         rbind (requireExecutionPlan H J purchaseId) (\<lambda>plan.
         rbind (assertSameExecutionPlan H plan (ti_plan input) (ti_plan_evidence input)) (\<lambda>_.
           Inr (J, existing))))
     | None \<Rightarrow>
         if pu_state purchase \<noteq> Pur_created then Inl JournalInvariantError
         else if pu_resource_fingerprint purchase \<noteq> ts_resource_fingerprint t
         then Inl JournalInvariantError
         else if ts_checkout_digest t \<noteq> ti_checkout_evidence input then Inl JournalInvariantError
         else if \<not> expected_matches (pu_expected_merchant_id purchase) (mi_id m)
         then Inl JournalInvariantError
         else if \<not> expected_matches (pu_expected_merchant_origin purchase) (mi_origin m)
         then Inl JournalInvariantError
         else
         rbind (requireEvidenceAttachment J purchaseId (ti_checkout_evidence input)
                  ''checkout-terms'' None) (\<lambda>checkoutAttachment.
         rbind (requireEvidenceAttachment J purchaseId (ti_requirements_digest input)
                  ''payment-requirements'' None) (\<lambda>requirementsAttachment.
         rbind (requireEvidenceAttachment J purchaseId (ti_plan_evidence input)
                  ''execution-plan'' None) (\<lambda>executionPlanAttachment.
         if \<not> (attachment_bound checkoutAttachment (mi_id m) (ti_checkout_profile input)
                \<and> attachment_bound requirementsAttachment (mi_id m) (ti_requirements_profile input)
                \<and> attachment_bound executionPlanAttachment ''sompi-purchase-module''
                    ''urn:sompi:purchase-execution-plan:1'')
         then Inl JournalInvariantError
         else if \<not> isVerifiedEvidenceLinked (pf_intact P) J purchaseId (ti_checkout_evidence input)
                    No_attempt (Some ''checkout-terms'') (Some (ti_checkout_profile input))
                    (Some (ti_checkout_verifier input))
         then Inl JournalInvariantError
         else if \<not> isVerifiedEvidenceLinked (pf_intact P) J purchaseId (ti_requirements_digest input)
                    No_attempt (Some ''payment-requirements'') (Some (ti_requirements_profile input))
                    (Some (ti_requirements_verifier input))
         then Inl JournalInvariantError
         else
         rbind (strictTimestamp (pf_date P) (ts_expires_at t)) (\<lambda>expiresAtMs.
         rbind (timestamp c0) (\<lambda>checked.
         if expiresAtMs \<le> checked then Inl JournalInvariantError
         else
         rbind (canonicalPurchaseExecutionPlan H (ti_plan input)) (\<lambda>executionPlan.
         if \<not> plan_matches executionPlan input then Inl JournalInvariantError
         else
         rbind (timestamp c1) (\<lambda>now.
         let J1 = J\<lparr>checkout_terms := checkout_terms J @
                      [checkout_terms_row_of purchaseId input expiresAtMs now],
                    execution_plans := execution_plans J @
                      [execution_plan_row_of purchaseId executionPlan now]\<rparr> in
         rbind (transitionPurchase H J1 purchaseId Pur_created Pur_terms_bound
                  ''checkout_terms_bound'' (Some (ts_checkout_digest t)) clock) (\<lambda>(J2, _).
         rbind (requireCheckoutTerms J2 purchaseId) (\<lambda>r. Inr (J2, r)))))))))))))"

section \<open>The request to the authority\<close>

record request_input =
  qi_checkout_digest :: string
  qi_request_digest :: string
  qi_nonce_digest :: string
  qi_media_type :: string
  qi_body_digest :: string
  qi_cost_ceiling :: string
  qi_floor :: finality_floor
  qi_expires_at :: int

definition or_undefined :: "string \<Rightarrow> string option" where
  "or_undefined s = (if s = [] then None else Some s)"

text \<open>The floor is one of its two values by its type.\<close>

definition validateAuthorizationRequestInput :: "request_input \<Rightarrow> unit result" where
  "validateAuthorizationRequestInput input =
     rbind (assertDigest (qi_checkout_digest input)) (\<lambda>_.
     rbind (assertDigest (qi_request_digest input)) (\<lambda>_.
     rbind (assertDigest (qi_nonce_digest input)) (\<lambda>_.
     rbind (case canonicalMediaType (or_undefined (qi_media_type input)) of
              Inl _ \<Rightarrow> Inl JournalInvariantError
            | Inr m \<Rightarrow> require ((case m of None \<Rightarrow> [] | Some s \<Rightarrow> s) = qi_media_type input)
                         JournalInvariantError) (\<lambda>_.
     rbind (assertDigest (qi_body_digest input)) (\<lambda>_.
     rbind (decimalBigInt (qi_cost_ceiling input) True) (\<lambda>_.
       require (is_safe_integer (qi_expires_at input) \<and> 0 \<le> qi_expires_at input)
         JournalInvariantError))))))"

definition same_authorization_request ::
  "authorization_request_row \<Rightarrow> request_input \<Rightarrow> plan_record \<Rightarrow> string option \<Rightarrow> bool" where
  "same_authorization_request existing input plan epoch \<longleftrightarrow>
     ar_checkout_digest existing = qi_checkout_digest input
     \<and> ar_request_digest existing = qi_request_digest input
     \<and> ar_nonce_digest existing = qi_nonce_digest input
     \<and> ar_media_type existing = qi_media_type input
     \<and> ar_body_digest existing = qi_body_digest input
     \<and> ar_additional_cost_ceiling existing = qi_cost_ceiling input
     \<and> ar_finality_floor existing = qi_floor input
     \<and> ar_plan_digest existing = pl_digest plan
     \<and> ar_mechanism existing = pl_mechanism plan \<and> ar_profile existing = pl_profile plan
     \<and> ar_assurance existing = pl_assurance plan
     \<and> ar_maximum_charge existing = pl_maximum_charge plan
     \<and> ar_channel_id existing = map_option ce_channel_id (pl_channel plan)
     \<and> ar_channel_epoch existing = epoch
     \<and> ar_expires_at existing = qi_expires_at input"

definition authorization_request_row_of ::
  "string \<Rightarrow> request_input \<Rightarrow> plan_record \<Rightarrow> string option \<Rightarrow> int \<Rightarrow> authorization_request_row" where
  "authorization_request_row_of purchaseId input plan epoch now =
     \<lparr>ar_purchase_id = purchaseId, ar_checkout_digest = qi_checkout_digest input,
      ar_request_digest = qi_request_digest input, ar_nonce_digest = qi_nonce_digest input,
      ar_media_type = qi_media_type input, ar_body_digest = qi_body_digest input,
      ar_additional_cost_ceiling = qi_cost_ceiling input, ar_finality_floor = qi_floor input,
      ar_plan_digest = pl_digest plan, ar_mechanism = pl_mechanism plan,
      ar_profile = pl_profile plan, ar_assurance = pl_assurance plan,
      ar_maximum_charge = pl_maximum_charge plan,
      ar_channel_id = map_option ce_channel_id (pl_channel plan), ar_channel_epoch = epoch,
      ar_expires_at = qi_expires_at input, ar_created_at = now\<rparr>"

text \<open>The request digest and the nonce digest are unique over all Purchases.\<close>

definition insert_authorization_request ::
  "authorization_request_row \<Rightarrow> journal \<Rightarrow> journal result" where
  "insert_authorization_request row J =
     (if list_ex (\<lambda>r. ar_request_digest r = ar_request_digest row
                      \<or> ar_nonce_digest r = ar_nonce_digest row) (authorization_requests J)
      then Inl SqliteConstraintError
      else Inr (J\<lparr>authorization_requests := authorization_requests J @ [row]\<rparr>))"

text \<open>\<open>if (expiresAt > terms.expiresAtMs || expiresAt <= this.timestamp()) throw\<close>\<close>

definition within_terms :: "int \<Rightarrow> int \<Rightarrow> int \<Rightarrow> unit result" where
  "within_terms expiresAt termsExpiry c0 =
     (if expiresAt > termsExpiry then Inl JournalInvariantError
      else rbind (timestamp c0) (\<lambda>now. require (now < expiresAt) JournalInvariantError))"

definition recordAuthorizationRequest ::
  "platform \<Rightarrow> journal \<Rightarrow> string \<Rightarrow> request_input \<Rightarrow> int \<Rightarrow> int \<Rightarrow> int
    \<Rightarrow> (journal \<times> authorization_request_row) result" where
  "recordAuthorizationRequest P J purchaseId input c0 c1 clock =
     (let H = pf_hash P in
     rbind (validateAuthorizationRequestInput input) (\<lambda>_.
     rbind (requirePurchase J purchaseId) (\<lambda>purchase.
     rbind (requireCheckoutTerms J purchaseId) (\<lambda>terms.
     rbind (requireExecutionPlan H J purchaseId) (\<lambda>executionPlan.
     case findAuthorizationRequest J purchaseId of
       Some existing \<Rightarrow>
         rbind (channelEpochDigest H executionPlan) (\<lambda>epoch.
         rbind (require (same_authorization_request existing input executionPlan epoch)
                  JournalInvariantError) (\<lambda>_. Inr (J, existing)))
     | None \<Rightarrow>
         if pu_state purchase \<noteq> Pur_terms_bound then Inl JournalInvariantError
         else if qi_checkout_digest input \<noteq> ct_checkout_digest terms then Inl JournalInvariantError
         else if \<not> evidenceLinked (pf_intact P) J purchaseId (qi_request_digest input)
                    ''authorization-request'' None
         then Inl JournalInvariantError
         else
         rbind (requireEvidenceAttachment J purchaseId (qi_body_digest input)
                  ''purchase-request-body'' None) (\<lambda>body.
         let requestMediaType = or_undefined (qi_media_type input) in
         if requestMediaType \<noteq> None \<and> Some (el_media_type (fst body)) \<noteq> requestMediaType
         then Inl JournalInvariantError
         else
         rbind (requestFingerprintFromBodyDigest H (pf_url P) (pu_resource_url purchase)
                  (pu_method purchase) requestMediaType (qi_body_digest input)) (\<lambda>fingerprint.
         if pu_resource_fingerprint purchase \<noteq> fingerprint then Inl JournalInvariantError
         else
         rbind (within_terms (qi_expires_at input) (ct_expires_at terms) c0) (\<lambda>_.
         rbind (timestamp c1) (\<lambda>now.
         rbind (channelEpochDigest H executionPlan) (\<lambda>epoch.
         rbind (insert_authorization_request
                  (authorization_request_row_of purchaseId input executionPlan epoch now) J) (\<lambda>J1.
         rbind (transitionPurchase H J1 purchaseId Pur_terms_bound Pur_awaiting_authority
                  ''authorization_requested'' (Some (qi_request_digest input)) clock) (\<lambda>(J2, _).
         rbind (requireAuthorizationRequest J2 purchaseId) (\<lambda>r. Inr (J2, r))))))))))))))"

section \<open>Reading the request back\<close>

definition readEvidence :: "platform \<Rightarrow> journal \<Rightarrow> string \<Rightarrow> string result" where
  "readEvidence P J digest =
     rbind (assertDigest digest) (\<lambda>_.
     rbind (requireEvidence J digest) (\<lambda>artifact.
       case pf_read P digest (ea_byte_length artifact) of
         None \<Rightarrow> Inl PlainError | Some bytes \<Rightarrow> Inr bytes))"

definition PURCHASE_AUTHORIZATION_REQUEST_PROFILE :: string where
  "PURCHASE_AUTHORIZATION_REQUEST_PROFILE = ''urn:sompi:authorization-request:2''"

record request_evidence =
  pe_profile :: string
  pe_operator_floor :: finality_floor
  pe_effective_floor :: finality_floor
  pe_depth_daa :: string
  pe_assurance :: assurance

text \<open>\<open>typeof value[key] === "string"\<close> on a parsed object, whose keys are distinct\<close>

definition string_field :: "(string \<times> json) list \<Rightarrow> string \<Rightarrow> string result" where
  "string_field fs key =
     (case map_of fs key of Some (J_string s) \<Rightarrow> Inr s | _ \<Rightarrow> Inl JournalInvariantError)"

definition floor_of_name :: "string \<Rightarrow> finality_floor result" where
  "floor_of_name s =
     (if s = ''accepted'' then Inr Floor_accepted
      else if s = ''depth-confirmed'' then Inr Floor_depth_confirmed
      else Inl JournalInvariantError)"

definition assurance_of_name :: "string \<Rightarrow> assurance result" where
  "assurance_of_name s =
     (if s = ''accepted'' then Inr Assure_accepted
      else if s = ''confirmed'' then Inr Assure_confirmed
      else if s = ''channel-commitment'' then Inr Assure_channel_commitment
      else Inl JournalInvariantError)"

text \<open>\<open>/^[1-9][0-9]*$/\<close>, of at most 78 digits\<close>

definition is_depth :: "string \<Rightarrow> bool" where
  "is_depth s \<longleftrightarrow> s \<noteq> [] \<and> hd s \<noteq> CHR ''0'' \<and> list_all is_digit s \<and> length s \<le> 78"

definition parseAuthorizationRequestEvidence ::
  "(string \<Rightarrow> json option) \<Rightarrow> string \<Rightarrow> request_evidence result" where
  "parseAuthorizationRequestEvidence json_parse bytes =
     (case json_parse bytes of
        Some (J_object fs) \<Rightarrow>
          rbind (string_field fs ''profile'') (\<lambda>profile.
          rbind (string_field fs ''operatorFinalityFloor'') (\<lambda>operator_name.
          rbind (string_field fs ''effectiveFinalityFloor'') (\<lambda>effective_name.
          rbind (string_field fs ''depthConfirmationDaa'') (\<lambda>depth.
          rbind (string_field fs ''settlementAssurance'') (\<lambda>assurance_text.
          rbind (floor_of_name operator_name) (\<lambda>operator_floor.
          rbind (floor_of_name effective_name) (\<lambda>effective_floor.
          rbind (require (is_depth depth) JournalInvariantError) (\<lambda>_.
          rbind (assurance_of_name assurance_text) (\<lambda>assured.
            Inr \<lparr>pe_profile = profile, pe_operator_floor = operator_floor,
                 pe_effective_floor = effective_floor, pe_depth_daa = depth,
                 pe_assurance = assured\<rparr>)))))))))
      | _ \<Rightarrow> Inl JournalInvariantError)"

definition hydratePurchaseAuthorizationRequest ::
  "platform \<Rightarrow> journal \<Rightarrow> string \<Rightarrow> authorization_request result" where
  "hydratePurchaseAuthorizationRequest P J purchaseId =
     rbind (requirePurchase J purchaseId) (\<lambda>purchase.
     rbind (requireCheckoutTerms J purchaseId) (\<lambda>terms.
     rbind (requireAuthorizationRequest J purchaseId) (\<lambda>r.
     rbind (readEvidence P J (ar_request_digest r)) (\<lambda>bytes.
     rbind (parseAuthorizationRequestEvidence (pf_json P) bytes) (\<lambda>parsed.
     if pe_profile parsed \<noteq> PURCHASE_AUTHORIZATION_REQUEST_PROFILE then Inl JournalInvariantError
     else if pe_effective_floor parsed \<noteq> ar_finality_floor r
             \<or> pe_assurance parsed \<noteq> ar_assurance r
     then Inl JournalInvariantError
     else Inr
       \<lparr>xf_plan_digest = ar_plan_digest r, xf_mechanism = ar_mechanism r,
        xf_profile = ar_profile r, xf_assurance = ar_assurance r,
        xf_maximum_charge = ar_maximum_charge r, xf_channel_id = ar_channel_id r,
        xf_channel_epoch = ar_channel_epoch r,
        rq_purchase_id = pu_id purchase, rq_url = pu_resource_url purchase,
        rq_method = pu_method purchase, rq_media_type = ar_media_type r,
        rq_body_digest = ar_body_digest r, rq_terms = terms_of_row terms,
        rq_request_digest = ar_request_digest r, rq_nonce_digest = ar_nonce_digest r,
        rq_cost_ceiling = ar_additional_cost_ceiling r,
        rq_operator_floor = pe_operator_floor parsed, rq_effective_floor = ar_finality_floor r,
        rq_depth_daa = pe_depth_daa parsed, rq_created_at = ar_created_at r,
        rq_expires_at = ar_expires_at r\<rparr>)))))"

definition canonicalAuthorizationFactsDigest :: "platform \<Rightarrow> journal \<Rightarrow> string \<Rightarrow> string result" where
  "canonicalAuthorizationFactsDigest P J purchaseId =
     rbind (hydratePurchaseAuthorizationRequest P J purchaseId) (\<lambda>request.
       authorizationFactsDigest (pf_hash P) (pf_url P) (pf_date P) request)"

section \<open>The decision\<close>

record decision_input =
  di_decision :: purchase_decision
  di_authority_id :: string
  di_checkout_digest :: string
  di_facts_digest :: string
  di_evidence_digest :: string
  di_profile :: string
  di_verifier :: string
  di_request_digest :: string
  di_nonce_digest :: string
  di_expires_at :: int

definition validateAuthorizationDecisionInput :: "decision_input \<Rightarrow> unit result" where
  "validateAuthorizationDecisionInput input =
     rbind (assertSafeIdentity (di_authority_id input) 200) (\<lambda>_.
     rbind (assertDigest (di_checkout_digest input)) (\<lambda>_.
     rbind (assertDigest (di_facts_digest input)) (\<lambda>_.
     rbind (assertDigest (di_evidence_digest input)) (\<lambda>_.
     rbind (assertSafeIdentity (di_profile input) 200) (\<lambda>_.
     rbind (assertSafeIdentity (di_verifier input) 200) (\<lambda>_.
     rbind (assertDigest (di_request_digest input)) (\<lambda>_.
     rbind (assertDigest (di_nonce_digest input)) (\<lambda>_.
       require (is_safe_integer (di_expires_at input) \<and> 0 \<le> di_expires_at input)
         JournalInvariantError))))))))"

definition same_authorization :: "authorization_row \<Rightarrow> decision_input \<Rightarrow> bool" where
  "same_authorization existing input \<longleftrightarrow>
     au_decision existing = di_decision input \<and> au_authority_id existing = di_authority_id input
     \<and> au_checkout_digest existing = di_checkout_digest input
     \<and> au_approved_facts_digest existing = di_facts_digest input
     \<and> au_evidence_digest existing = di_evidence_digest input
     \<and> au_verification_profile existing = di_profile input
     \<and> au_verifier_id existing = di_verifier input
     \<and> au_request_digest existing = di_request_digest input
     \<and> au_nonce_digest existing = di_nonce_digest input
     \<and> au_expires_at existing = di_expires_at input"

definition authorization_row_of :: "string \<Rightarrow> decision_input \<Rightarrow> int \<Rightarrow> authorization_row" where
  "authorization_row_of purchaseId input now =
     \<lparr>au_purchase_id = purchaseId, au_decision = di_decision input,
      au_authority_id = di_authority_id input, au_checkout_digest = di_checkout_digest input,
      au_approved_facts_digest = di_facts_digest input,
      au_evidence_digest = di_evidence_digest input, au_verification_profile = di_profile input,
      au_verifier_id = di_verifier input, au_request_digest = di_request_digest input,
      au_nonce_digest = di_nonce_digest input, au_expires_at = di_expires_at input,
      au_decided_at = now\<rparr>"

fun decision_state :: "purchase_decision \<Rightarrow> purchase_state" where
  "decision_state Dec_approved = Pur_authorised"
| "decision_state Dec_denied = Pur_denied"
| "decision_state Dec_expired = Pur_expired"

fun decision_name :: "purchase_decision \<Rightarrow> string" where
  "decision_name Dec_approved = ''approved''"
| "decision_name Dec_denied = ''denied''"
| "decision_name Dec_expired = ''expired''"

text \<open>\<open>if (decision === "approved" && expiresAtMs <= this.timestamp()) throw\<close>\<close>

definition approval_in_time :: "decision_input \<Rightarrow> int \<Rightarrow> unit result" where
  "approval_in_time input c0 =
     (if di_decision input = Dec_approved
      then rbind (timestamp c0) (\<lambda>now. require (now < di_expires_at input) JournalInvariantError)
      else Inr ())"

definition recordAuthorizationDecision ::
  "platform \<Rightarrow> journal \<Rightarrow> string \<Rightarrow> decision_input \<Rightarrow> int \<Rightarrow> int \<Rightarrow> int
    \<Rightarrow> (journal \<times> authorization_row) result" where
  "recordAuthorizationDecision P J purchaseId input c0 c1 clock =
     rbind (validateAuthorizationDecisionInput input) (\<lambda>_.
     rbind (requirePurchase J purchaseId) (\<lambda>purchase.
     rbind (requireAuthorizationRequest J purchaseId) (\<lambda>request.
     case findAuthorization J purchaseId of
       Some existing \<Rightarrow>
         rbind (require (same_authorization existing input) JournalInvariantError) (\<lambda>_.
           Inr (J, existing))
     | None \<Rightarrow>
         if pu_state purchase \<noteq> Pur_awaiting_authority then Inl JournalInvariantError
         else if ar_checkout_digest request \<noteq> di_checkout_digest input
                 \<or> ar_request_digest request \<noteq> di_request_digest input
                 \<or> ar_nonce_digest request \<noteq> di_nonce_digest input
                 \<or> ar_expires_at request \<noteq> di_expires_at input
         then Inl JournalInvariantError
         else
         rbind (canonicalAuthorizationFactsDigest P J purchaseId) (\<lambda>facts.
         if di_facts_digest input \<noteq> facts then Inl JournalInvariantError
         else if \<not> isVerifiedEvidenceLinked (pf_intact P) J purchaseId (di_evidence_digest input)
                    No_attempt (Some ''purchase-authorization'') (Some (di_profile input))
                    (Some (di_verifier input))
         then Inl JournalInvariantError
         else
         rbind (approval_in_time input c0) (\<lambda>_.
         rbind (timestamp c1) (\<lambda>now.
         let J1 = J\<lparr>authorizations := authorizations J @ [authorization_row_of purchaseId input now]\<rparr>
         in
         rbind (transitionPurchase (pf_hash P) J1 purchaseId Pur_awaiting_authority
                  (decision_state (di_decision input))
                  (''authorization_'' @ decision_name (di_decision input))
                  (Some (di_evidence_digest input)) clock) (\<lambda>(J2, _).
         rbind (requireAuthorization J2 purchaseId) (\<lambda>r. Inr (J2, r)))))))))"

section \<open>What the execution reads\<close>

record execution_context =
  xc_execution :: execution_request
  xc_url :: string
  xc_method :: string
  xc_media_type :: "string option"
  xc_body :: string
  xc_fingerprint :: string
  xc_requirements :: string

definition requirePurchaseExecutionContext ::
  "platform \<Rightarrow> journal \<Rightarrow> string \<Rightarrow> int \<Rightarrow> execution_context result" where
  "requirePurchaseExecutionContext P J purchaseId attemptNumber =
     rbind (requirePurchase J purchaseId) (\<lambda>purchase.
     rbind (requireCheckoutTerms J purchaseId) (\<lambda>terms.
     rbind (hydratePurchaseAuthorizationRequest P J purchaseId) (\<lambda>request.
     rbind (requireAuthorization J purchaseId) (\<lambda>authorization.
     rbind (requirePaymentAttempt J purchaseId attemptNumber) (\<lambda>att.
     if au_decision authorization \<noteq> Dec_approved then Inl JournalInvariantError
     else
     rbind (authorizationFactsDigest (pf_hash P) (pf_url P) (pf_date P) request) (\<lambda>digest.
     if au_approved_facts_digest authorization \<noteq> digest then Inl JournalInvariantError
     else
     let mediaType = or_undefined (rq_media_type request) in
     rbind (requestFingerprintFromBodyDigest (pf_hash P) (pf_url P) (pu_resource_url purchase)
              (pu_method purchase) mediaType (rq_body_digest request)) (\<lambda>fingerprint.
     if fingerprint \<noteq> pu_resource_fingerprint purchase \<or> fingerprint \<noteq> ct_resource_fingerprint terms
     then Inl JournalInvariantError
     else
     rbind (authorizationFacts (pf_url P) (pf_date P) request) (\<lambda>facts.
     rbind (readEvidence P J (rq_body_digest request)) (\<lambda>body.
     rbind (readEvidence P J (ct_requirements_digest terms)) (\<lambda>requirements.
     Inr
       \<lparr>xc_execution =
          \<lparr>xq_purchase_id = purchaseId, xq_terms = terms_of_row terms, xq_request = request,
           xq_authorization =
             \<lparr>dd_purchase_id = purchaseId, dd_checkout_digest = ct_checkout_digest terms,
              dd_decision = Dec_approved, dd_authority_id = au_authority_id authorization,
              dd_evidence_digest = au_evidence_digest authorization, dd_facts = facts\<rparr>,
           xq_payment_identifier = at_identifier att\<rparr>,
        xc_url = pu_resource_url purchase, xc_method = pu_method purchase,
        xc_media_type = mediaType, xc_body = body, xc_fingerprint = fingerprint,
        xc_requirements = requirements\<rparr>))))))))))"

text \<open>\<open>storeExecutionPlanEvidence\<close>: the plan's canonical JSON, stored under the plan's digest.\<close>

definition plan_evidence :: "canonical_plan \<Rightarrow> evidence_input" where
  "plan_evidence plan =
     \<lparr>ei_bytes = json_text (plan_json plan), ei_media_type = ''application/json'',
      ei_profile = ''urn:sompi:purchase-execution-plan:1'',
      ei_issuer = Some ''sompi-purchase-module'', ei_kind = ''execution-plan'',
      ei_attempt = None\<rparr>"

definition storeExecutionPlanEvidence ::
  "(string \<Rightarrow> string) \<Rightarrow> bool \<Rightarrow> string \<Rightarrow> (string \<Rightarrow> bool) \<Rightarrow> (string \<Rightarrow> bool) \<Rightarrow> journal \<Rightarrow> string
    \<Rightarrow> execution_plan \<Rightarrow> string \<Rightarrow> int \<Rightarrow> int \<Rightarrow> int \<Rightarrow> int \<Rightarrow> int
    \<Rightarrow> journal \<times> (canonical_plan \<times> string) result" where
  "storeExecutionPlanEvidence H admission pid stores removable J purchaseId input nonce c0 c1 c2 c3 c4 =
     (case canonicalPurchaseExecutionPlan H input of
        Inl e \<Rightarrow> (J, Inl e)
      | Inr plan \<Rightarrow>
          if evidenceDigest H (ei_bytes (plan_evidence plan)) \<noteq> pl_digest plan
          then (J, Inl JournalInvariantError)
          else
            (case storeEvidence H admission pid stores removable J purchaseId (plan_evidence plan)
                    nonce c0 c1 c2 c3 c4 of
               (J1, Inl e) \<Rightarrow> (J1, Inl e)
             | (J1, Inr attachment) \<Rightarrow> (J1, Inr (plan, ea_digest (snd attachment)))))"

end
