(* ===== verification/Preparation.thy ===== *)
theory Preparation
  imports Payments
begin

text \<open>
  What is prepared before a payment is submitted (\<open>src/purchase/journal.ts\<close>): the immutable plan
  of a treasury staging transaction with its Effect (\<open>commitTreasuryStagingPreparation\<close>), the
  verified observation of its output (\<open>recordObservedTreasuryStaging\<close>), and the prepared payment
  itself (\<open>preparePaymentAttempt\<close>). Each is one transaction; a repetition with the same facts
  returns the record, one with other facts is refused.
\<close>

section \<open>Payment preparations\<close>

record preparation_input =
  pi_purchase_id :: string
  pi_attempt :: int
  pi_reservation_id :: string
  pi_requirements_digest :: string
  pi_payload_digest :: string
  pi_bytes :: string
  pi_execution_id :: string
  pi_mechanism :: mechanism
  pi_profile :: string
  pi_transaction_id :: "string option"
  pi_amount :: string
  pi_asset :: string
  pi_network :: string
  pi_payee :: string
  pi_required_assurance :: assurance
  pi_funding_source :: string

definition attempt_number_ok :: "int \<Rightarrow> bool" where
  "attempt_number_ok n \<longleftrightarrow> is_safe_integer n \<and> 1 \<le> n"

definition bytes_present :: "string \<Rightarrow> bool" where
  "bytes_present bytes \<longleftrightarrow> is_safe_integer (int (length bytes)) \<and> 1 \<le> length bytes"

definition execution_identity_ok :: "preparation_input \<Rightarrow> unit result" where
  "execution_identity_ok i =
     (case pi_mechanism i of
        Single_transaction \<Rightarrow>
          (case pi_transaction_id i of
             None \<Rightarrow> Inl JournalInvariantError
           | Some txid \<Rightarrow>
               if pi_required_assurance i = Assure_channel_commitment then Inl JournalInvariantError
               else rbind (assertTransactionId txid) (\<lambda>_.
                      require (pi_execution_id i = txid) JournalInvariantError))
      | Channel_voucher \<Rightarrow>
          require (pi_transaction_id i = None \<and> pi_required_assurance i = Assure_channel_commitment)
            JournalInvariantError)"

definition validatePaymentPreparation :: "preparation_input \<Rightarrow> unit result" where
  "validatePaymentPreparation i =
     rbind (require (attempt_number_ok (pi_attempt i)) JournalInvariantError) (\<lambda>_.
     rbind (assertCode (pi_reservation_id i)) (\<lambda>_.
     rbind (assertDigest (pi_requirements_digest i)) (\<lambda>_.
     rbind (assertDigest (pi_payload_digest i)) (\<lambda>_.
     rbind (assertTransactionId (pi_execution_id i)) (\<lambda>_.
     rbind (assertSafeIdentity (pi_profile i) 160) (\<lambda>_.
     rbind (execution_identity_ok i) (\<lambda>_.
     rbind (decimalBigInt (pi_amount i) False) (\<lambda>_.
     rbind (assertSafeIdentity (pi_asset i) 40) (\<lambda>_.
     rbind (assertSafeIdentity (pi_network i) 100) (\<lambda>_.
     rbind (assertBoundedText (pi_payee i) 300) (\<lambda>_.
     rbind (require (pi_funding_source i = ''vault-treasury'') JournalInvariantError) (\<lambda>_.
       require (bytes_present (pi_bytes i)) JournalInvariantError))))))))))))"

definition preparation_of ::
  "preparation_input \<Rightarrow> string \<times> string \<times> int \<Rightarrow> int \<Rightarrow> preparation_row" where
  "preparation_of i stored now =
     \<lparr>pp_purchase_id = pi_purchase_id i, pp_attempt = pi_attempt i,
      pp_reservation_id = pi_reservation_id i, pp_requirements_digest = pi_requirements_digest i,
      pp_payload_digest = pi_payload_digest i, pp_prepared_ref = fst (snd stored),
      pp_prepared_byte_length = snd (snd stored), pp_execution_id = pi_execution_id i,
      pp_mechanism = pi_mechanism i, pp_profile = pi_profile i,
      pp_transaction_id = pi_transaction_id i, pp_amount = pi_amount i, pp_asset = pi_asset i,
      pp_network = pi_network i, pp_payee = pi_payee i,
      pp_required_assurance = pi_required_assurance i, pp_funding_source = pi_funding_source i,
      pp_created_at = now\<rparr>"

text \<open>The fields \<open>assertSamePreparation\<close> compares are all but the key and the date.\<close>

definition same_preparation ::
  "preparation_row \<Rightarrow> preparation_input \<Rightarrow> string \<times> string \<times> int \<Rightarrow> bool" where
  "same_preparation existing i stored \<longleftrightarrow>
     pp_reservation_id existing = pi_reservation_id i
     \<and> pp_requirements_digest existing = pi_requirements_digest i
     \<and> pp_payload_digest existing = pi_payload_digest i
     \<and> pp_prepared_ref existing = fst (snd stored)
     \<and> pp_prepared_byte_length existing = snd (snd stored)
     \<and> pp_execution_id existing = pi_execution_id i \<and> pp_mechanism existing = pi_mechanism i
     \<and> pp_profile existing = pi_profile i \<and> pp_transaction_id existing = pi_transaction_id i
     \<and> pp_amount existing = pi_amount i \<and> pp_asset existing = pi_asset i
     \<and> pp_network existing = pi_network i \<and> pp_payee existing = pi_payee i
     \<and> pp_required_assurance existing = pi_required_assurance i
     \<and> pp_funding_source existing = pi_funding_source i"

text \<open>A reservation, an execution and a transaction are prepared at most once.\<close>

definition insert_preparation :: "preparation_row \<Rightarrow> journal \<Rightarrow> journal result" where
  "insert_preparation row J =
     (if pp_prepared_byte_length row < 0
         \<or> list_ex (\<lambda>r. pp_reservation_id r = pp_reservation_id row
                        \<or> pp_execution_id r = pp_execution_id row
                        \<or> pp_transaction_id row \<noteq> None
                          \<and> pp_transaction_id r = pp_transaction_id row) (preparations J)
      then Inl SqliteConstraintError
      else Inr (J\<lparr>preparations := preparations J @ [row]\<rparr>))"

text \<open>\<open>if (directReservation && reservation.expiresAtMs <= this.timestamp()) throw\<close>\<close>

definition unexpired_when_direct :: "bool \<Rightarrow> reservation_row \<Rightarrow> int \<Rightarrow> unit result" where
  "unexpired_when_direct direct reservation clock0 =
     (if direct
      then rbind (timestamp clock0) (\<lambda>t. require (t < rs_expires_at reservation) PolicyReservationError)
      else Inr ())"

definition preparePaymentAttempt ::
  "(string \<Rightarrow> (string \<times> string \<times> int) option) \<Rightarrow> (string \<Rightarrow> int \<Rightarrow> bool) \<Rightarrow> journal
    \<Rightarrow> preparation_input \<Rightarrow> int \<Rightarrow> int \<Rightarrow> (journal \<times> preparation_row) result" where
  "preparePaymentAttempt store intact J i clock0 clock =
     (let p = pi_purchase_id i; n = pi_attempt i in
     rbind (validatePaymentPreparation i) (\<lambda>_.
     rbind (storePreparedMaterial store (pi_bytes i) (pi_payload_digest i)) (\<lambda>stored.
     rbind (requirePaymentAttempt J p n) (\<lambda>att.
     case findPaymentPreparation J p n of
       Some existing \<Rightarrow>
         rbind (require (same_preparation existing i stored) JournalInvariantError) (\<lambda>_.
           Inr (J, existing))
     | None \<Rightarrow>
         if at_state att \<noteq> Att_planned then Inl JournalInvariantError
         else
         rbind (requireReservation J (pi_reservation_id i)) (\<lambda>reservation.
         rbind (stagedReservation intact J p n reservation) (\<lambda>staged.
         let direct = directReservation J p n reservation in
         if rs_purchase_id reservation \<noteq> p \<or> \<not> direct \<and> \<not> staged then Inl JournalInvariantError
         else if rs_amount reservation \<noteq> pi_amount i \<or> rs_payee reservation \<noteq> pi_payee i
         then Inl JournalInvariantError
         else
         rbind (unexpired_when_direct direct reservation clock0) (\<lambda>_.
         rbind (timestamp clock) (\<lambda>now.
         rbind (insert_preparation (preparation_of i stored now) J) (\<lambda>J1.
         rbind (transitionAttemptInternal J1 att Att_prepared ''payment_prepared''
                  (Some (pi_payload_digest i)) now None False) (\<lambda>J2.
         rbind (requirePaymentPreparation J2 p n) (\<lambda>r. Inr (J2, r))))))))))))"

section \<open>Treasury staging\<close>

definition findTreasuryStagingPlanByEffect :: "journal \<Rightarrow> string \<Rightarrow> staging_plan_row option" where
  "findTreasuryStagingPlanByEffect J effectId =
     find_row (\<lambda>r. sp_effect_id r = effectId) (staging_plans J)"

definition findTreasuryStagingObservationByEffect ::
  "journal \<Rightarrow> string \<Rightarrow> staging_observation_row option" where
  "findTreasuryStagingObservationByEffect J effectId =
     find_row (\<lambda>r. so_effect_id r = effectId) (staging_observations J)"

definition treasuryStagingPreparationLeaseName :: "string \<Rightarrow> int \<Rightarrow> string" where
  "treasuryStagingPreparationLeaseName purchaseId n =
     ''treasury-staging-prepare:'' @ purchaseId @ '':'' @ nat_to_string (nat n)"

record staging_input =
  gi_purchase_id :: string
  gi_attempt :: int
  gi_reservation_id :: string
  gi_idempotency_key :: string
  gi_payload_digest :: string
  gi_bytes :: string
  gi_transaction_id :: string
  gi_outpoint :: string
  gi_amount :: string
  gi_funding_source :: string

text \<open>\<open>new RegExp("^" + transactionId + ":[0-9]+$")\<close>; the identity is hexadecimal\<close>

definition outpoint_of :: "string \<Rightarrow> string \<Rightarrow> bool" where
  "outpoint_of txid outpoint \<longleftrightarrow>
     starts_with (txid @ '':'') outpoint
     \<and> (let rest = drop (length txid + 1) outpoint in rest \<noteq> [] \<and> list_all is_digit rest)"

definition validateTreasuryStagingPlanInput :: "staging_input \<Rightarrow> unit result" where
  "validateTreasuryStagingPlanInput i =
     rbind (require (attempt_number_ok (gi_attempt i)) JournalInvariantError) (\<lambda>_.
     rbind (assertCode (gi_reservation_id i)) (\<lambda>_.
     rbind (assertSafeIdentity (gi_idempotency_key i) 300) (\<lambda>_.
     rbind (assertDigest (gi_payload_digest i)) (\<lambda>_.
     rbind (assertTransactionId (gi_transaction_id i)) (\<lambda>_.
     rbind (assertSafeIdentity (gi_outpoint i) 200) (\<lambda>_.
     rbind (require (outpoint_of (gi_transaction_id i) (gi_outpoint i)) JournalInvariantError) (\<lambda>_.
     rbind (decimalBigInt (gi_amount i) False) (\<lambda>_.
     rbind (require (gi_funding_source i = ''vault-treasury'') JournalInvariantError) (\<lambda>_.
       require (bytes_present (gi_bytes i)) JournalInvariantError)))))))))"

definition same_staging_plan ::
  "staging_plan_row \<Rightarrow> staging_input \<Rightarrow> string \<times> string \<times> int \<Rightarrow> bool" where
  "same_staging_plan existing i stored \<longleftrightarrow>
     sp_purchase_id existing = gi_purchase_id i \<and> sp_attempt existing = gi_attempt i
     \<and> sp_reservation_id existing = gi_reservation_id i
     \<and> sp_idempotency_key existing = gi_idempotency_key i
     \<and> sp_payload_digest existing = gi_payload_digest i
     \<and> sp_prepared_ref existing = fst (snd stored)
     \<and> sp_prepared_byte_length existing = snd (snd stored)
     \<and> sp_planned_transaction_id existing = gi_transaction_id i
     \<and> sp_expected_outpoint existing = gi_outpoint i \<and> sp_staging_amount existing = gi_amount i
     \<and> sp_funding_source existing = gi_funding_source i"

definition staging_effect :: "staging_input \<Rightarrow> effect_input" where
  "staging_effect i =
     \<lparr>ei_purchase_id = gi_purchase_id i, ei_attempt = Some (gi_attempt i),
      ei_kind = TREASURY_STAGING_EFFECT_KIND, ei_idempotency_key = gi_idempotency_key i,
      ei_payload_digest = gi_payload_digest i, ei_bytes = gi_bytes i\<rparr>"

definition staging_plan_of ::
  "staging_input \<Rightarrow> string \<Rightarrow> string \<times> string \<times> int \<Rightarrow> int \<Rightarrow> staging_plan_row" where
  "staging_plan_of i effectId stored now =
     \<lparr>sp_effect_id = effectId, sp_purchase_id = gi_purchase_id i, sp_attempt = gi_attempt i,
      sp_reservation_id = gi_reservation_id i, sp_idempotency_key = gi_idempotency_key i,
      sp_payload_digest = gi_payload_digest i, sp_prepared_ref = fst (snd stored),
      sp_prepared_byte_length = snd (snd stored), sp_planned_transaction_id = gi_transaction_id i,
      sp_expected_outpoint = gi_outpoint i, sp_staging_amount = gi_amount i,
      sp_funding_source = gi_funding_source i, sp_created_at = now\<rparr>"

text \<open>A reservation, a transaction and an outpoint are staged at most once.\<close>

definition insert_staging_plan :: "staging_plan_row \<Rightarrow> journal \<Rightarrow> journal result" where
  "insert_staging_plan row J =
     (if sp_prepared_byte_length row \<le> 0
         \<or> list_ex (\<lambda>r. sp_effect_id r = sp_effect_id row
                        \<or> sp_reservation_id r = sp_reservation_id row
                        \<or> sp_planned_transaction_id r = sp_planned_transaction_id row
                        \<or> sp_expected_outpoint r = sp_expected_outpoint row) (staging_plans J)
      then Inl SqliteConstraintError
      else Inr (J\<lparr>staging_plans := staging_plans J @ [row]\<rparr>))"

text \<open>
  The identity of the Effect is drawn at random (\<open>fresh\<close>). \<open>clock0\<close> checks the lease, \<open>clock\<close>
  dates the rows.
\<close>

definition commitTreasuryStagingPreparation ::
  "(string \<Rightarrow> (string \<times> string \<times> int) option) \<Rightarrow> journal \<Rightarrow> lease_token \<Rightarrow> staging_input \<Rightarrow> string
    \<Rightarrow> int \<Rightarrow> int \<Rightarrow> (journal \<times> staging_plan_row) result" where
  "commitTreasuryStagingPreparation store J lease i fresh clock0 clock =
     (let p = gi_purchase_id i; n = gi_attempt i in
     rbind (validateTreasuryStagingPlanInput i) (\<lambda>_.
     rbind (storePreparedMaterial store (gi_bytes i) (gi_payload_digest i)) (\<lambda>stored.
     if lt_name lease \<noteq> treasuryStagingPreparationLeaseName p n then Inl JournalFencingError
     else
     rbind (timestamp clock0) (\<lambda>t.
     rbind (assertLeaseInternal J lease t) (\<lambda>_.
     rbind (requirePaymentAttempt J p n) (\<lambda>att.
     case find_row (\<lambda>r. ef_idempotency_key r = gi_idempotency_key i) (effects J) of
       Some effect \<Rightarrow>
         if ef_kind effect \<noteq> TREASURY_STAGING_EFFECT_KIND then Inl JournalInvariantError
         else
         (case findTreasuryStagingPlanByEffect J (ef_id effect) of
            None \<Rightarrow> Inl JournalInvariantError
          | Some existing \<Rightarrow>
              rbind (require (same_staging_plan existing i stored) JournalInvariantError) (\<lambda>_.
                Inr (J, existing)))
     | None \<Rightarrow>
         if findTreasuryStagingPlan J p n \<noteq> None then Inl JournalInvariantError
         else if findPaymentPreparation J p n \<noteq> None then Inl JournalInvariantError
         else if at_state att \<noteq> Att_planned then Inl JournalInvariantError
         else
         rbind (timestamp clock) (\<lambda>now.
         let J1 = expireReservationsInternal J now in
         rbind (requireReservation J1 (gi_reservation_id i)) (\<lambda>reservation.
         if rs_purchase_id reservation \<noteq> p \<or> rs_state reservation \<noteq> Res_active
            \<or> rs_funding_source reservation \<noteq> gi_funding_source i
         then Inl JournalInvariantError
         else
         rbind (requireActivePolicy J1) (\<lambda>policy.
         if rs_policy_digest reservation \<noteq> pol_digest policy then Inl PolicyReservationError
         else if BigInt (gi_amount i) > reservation_cost reservation then Inl PolicyReservationError
         else
         let row = new_effect (staging_effect i) fresh stored now in
         if effect_at J1 fresh \<noteq> None \<or> \<not> effect_checks row then Inl SqliteConstraintError
         else
         rbind (insertEffectTransition fresh None Eff_planned ''treasury_staging_planned''
                  (Some (gi_payload_digest i)) now (J1\<lparr>effects := effects J1 @ [row]\<rparr>)) (\<lambda>J2.
         rbind (insert_staging_plan (staging_plan_of i fresh stored now) J2) (\<lambda>J3.
         rbind (requireTreasuryStagingPlan J3 p n) (\<lambda>r. Inr (J3, r)))))))))))))"

record staging_observed_input =
  gb_effect_id :: string
  gb_reservation_id :: string
  gb_transaction_id :: string
  gb_outpoint :: string
  gb_amount :: string
  gb_funding_source :: string
  gb_evidence_digest :: string
  gb_evidence_profile :: string
  gb_evidence_verifier :: string

definition validateTreasuryStagingObservationInput :: "staging_observed_input \<Rightarrow> unit result" where
  "validateTreasuryStagingObservationInput i =
     rbind (assertCode (gb_effect_id i)) (\<lambda>_.
     rbind (assertCode (gb_reservation_id i)) (\<lambda>_.
     rbind (assertTransactionId (gb_transaction_id i)) (\<lambda>_.
     rbind (assertSafeIdentity (gb_outpoint i) 200) (\<lambda>_.
     rbind (require (outpoint_of (gb_transaction_id i) (gb_outpoint i)) JournalInvariantError) (\<lambda>_.
     rbind (decimalBigInt (gb_amount i) False) (\<lambda>_.
     rbind (require (gb_funding_source i = ''vault-treasury'') JournalInvariantError) (\<lambda>_.
     rbind (assertDigest (gb_evidence_digest i)) (\<lambda>_.
     rbind (assertSafeIdentity (gb_evidence_profile i) 200) (\<lambda>_.
       assertSafeIdentity (gb_evidence_verifier i) 200)))))))))"

definition same_staging_observation ::
  "staging_observation_row \<Rightarrow> staging_observed_input \<Rightarrow> bool" where
  "same_staging_observation existing i \<longleftrightarrow>
     so_effect_id existing = gb_effect_id i \<and> so_reservation_id existing = gb_reservation_id i
     \<and> so_transaction_id existing = gb_transaction_id i \<and> so_outpoint existing = gb_outpoint i
     \<and> so_staging_amount existing = gb_amount i
     \<and> so_funding_source existing = gb_funding_source i
     \<and> so_evidence_digest existing = gb_evidence_digest i
     \<and> so_evidence_profile existing = gb_evidence_profile i
     \<and> so_evidence_verifier existing = gb_evidence_verifier i"

definition staging_observation_of ::
  "staging_observed_input \<Rightarrow> string \<Rightarrow> int \<Rightarrow> int \<Rightarrow> staging_observation_row" where
  "staging_observation_of i purchaseId n now =
     \<lparr>so_effect_id = gb_effect_id i, so_purchase_id = purchaseId, so_attempt = n,
      so_reservation_id = gb_reservation_id i, so_transaction_id = gb_transaction_id i,
      so_outpoint = gb_outpoint i, so_staging_amount = gb_amount i,
      so_funding_source = gb_funding_source i, so_evidence_digest = gb_evidence_digest i,
      so_evidence_profile = gb_evidence_profile i, so_evidence_verifier = gb_evidence_verifier i,
      so_observed_at = now\<rparr>"

definition insert_staging_observation :: "staging_observation_row \<Rightarrow> journal \<Rightarrow> journal result" where
  "insert_staging_observation row J =
     (if list_ex (\<lambda>r. so_purchase_id r = so_purchase_id row \<and> so_attempt r = so_attempt row
                      \<or> so_reservation_id r = so_reservation_id row
                      \<or> so_transaction_id r = so_transaction_id row
                      \<or> so_outpoint r = so_outpoint row) (staging_observations J)
      then Inl SqliteConstraintError
      else Inr (J\<lparr>staging_observations := staging_observations J @ [row]\<rparr>))"

definition recordObservedTreasuryStaging ::
  "(string \<Rightarrow> int \<Rightarrow> bool) \<Rightarrow> journal \<Rightarrow> lease_token \<Rightarrow> staging_observed_input \<Rightarrow> int \<Rightarrow> int \<Rightarrow> int
    \<Rightarrow> (journal \<times> staging_observation_row) result" where
  "recordObservedTreasuryStaging intact J lease i clock0 clock1 clock =
     rbind (validateTreasuryStagingObservationInput i) (\<lambda>_.
     rbind (assertEffectWriter J (gb_effect_id i) lease clock0 clock1) (\<lambda>_.
     rbind (requireEffect J (gb_effect_id i)) (\<lambda>effect.
     case ef_attempt effect of
       None \<Rightarrow> Inl JournalInvariantError
     | Some n \<Rightarrow>
     if ef_kind effect \<noteq> TREASURY_STAGING_EFFECT_KIND then Inl JournalInvariantError
     else
     case findTreasuryStagingObservationByEffect J (ef_id effect) of
       Some existing \<Rightarrow>
         if \<not> same_staging_observation existing i then Inl JournalInvariantError
         else if ef_state effect \<noteq> Eff_observed
                 \<or> ef_result_digest effect \<noteq> Some (gb_evidence_digest i)
         then Inl JournalInvariantError
         else Inr (J, existing)
     | None \<Rightarrow>
         if ef_state effect \<notin> {Eff_executing, Eff_submitted, Eff_ambiguous}
         then Inl JournalInvariantError
         else
         rbind (requireTreasuryStagingPlan J (ef_purchase_id effect) n) (\<lambda>plan.
         if sp_effect_id plan \<noteq> ef_id effect \<or> sp_reservation_id plan \<noteq> gb_reservation_id i
            \<or> sp_planned_transaction_id plan \<noteq> gb_transaction_id i
            \<or> sp_expected_outpoint plan \<noteq> gb_outpoint i
            \<or> sp_staging_amount plan \<noteq> gb_amount i
            \<or> sp_funding_source plan \<noteq> gb_funding_source i
         then Inl JournalInvariantError
         else
         rbind (requirePaymentAttempt J (ef_purchase_id effect) n) (\<lambda>att.
         if at_state att \<noteq> Att_planned then Inl JournalInvariantError
         else
         rbind (requireReservation J (gb_reservation_id i)) (\<lambda>reservation.
         if rs_state reservation \<noteq> Res_in_flight
            \<or> rs_purchase_id reservation \<noteq> ef_purchase_id effect
         then Inl JournalInvariantError
         else if \<not> isVerifiedEvidenceLinked intact J (ef_purchase_id effect) (gb_evidence_digest i)
                    (Attempt n) (Some TREASURY_STAGING_EVIDENCE_KIND)
                    (Some (gb_evidence_profile i)) (Some (gb_evidence_verifier i))
         then Inl JournalInvariantError
         else
         rbind (timestamp clock) (\<lambda>now.
         rbind (insert_staging_observation
                  (staging_observation_of i (ef_purchase_id effect) n now) J) (\<lambda>J1.
         rbind (updateEffectState
                  (insertEffectObservation (ef_id effect) EO_observed (Some (gb_evidence_digest i))
                     (Some (gb_evidence_digest i)) lease now J1)
                  effect Eff_observed ''treasury_staging_output_observed''
                  (Some (gb_evidence_digest i)) now
                  (no_updates\<lparr>eu_result := Some (gb_evidence_digest i)\<rparr>)) (\<lambda>J2.
         case findTreasuryStagingObservationByEffect J2 (ef_id effect) of
           None \<Rightarrow> Inl PlainError | Some r \<Rightarrow> Inr (J2, r))))))))))"

end
