(* ===== verification/Delivery.thy ===== *)
theory Delivery
  imports Checkout Payments
begin

text \<open>
  The end of a Purchase (\<open>src/purchase/journal.ts\<close>): the verified Fulfilment of the Merchant
  (\<open>recordFulfilment\<close>) and the canonical Receipt that joins its facts (\<open>recordReceipt\<close>), each one
  transaction with the transition it ends in.
\<close>

section \<open>Receipts\<close>

definition PURCHASE_RECEIPT_PROFILE :: string where
  "PURCHASE_RECEIPT_PROFILE = ''urn:sompi:receipt:purchase:1''"

record receipt_input =
  ki_evidence_digest :: string
  ki_profile :: string
  ki_issuer :: "string option"
  ki_verifier_id :: string
  ki_checkout_digest :: string
  ki_authorization_digest :: string
  ki_settlement_digest :: string
  ki_fulfilment_digest :: string

definition validateReceiptInput :: "receipt_input \<Rightarrow> unit result" where
  "validateReceiptInput i =
     rbind (assertDigest (ki_evidence_digest i)) (\<lambda>_.
     rbind (assertSafeIdentity (ki_profile i) 200) (\<lambda>_.
     rbind (case ki_issuer i of None \<Rightarrow> Inr () | Some s \<Rightarrow> assertBoundedText s 200) (\<lambda>_.
     rbind (assertSafeIdentity (ki_verifier_id i) 200) (\<lambda>_.
     rbind (assertDigest (ki_checkout_digest i)) (\<lambda>_.
     rbind (assertDigest (ki_authorization_digest i)) (\<lambda>_.
     rbind (assertDigest (ki_settlement_digest i)) (\<lambda>_.
     rbind (assertDigest (ki_fulfilment_digest i)) (\<lambda>_.
       require (ki_profile i = PURCHASE_RECEIPT_PROFILE) JournalInvariantError))))))))"

definition receipt_json :: "string \<Rightarrow> int \<Rightarrow> string \<Rightarrow> receipt_input \<Rightarrow> json" where
  "receipt_json purchaseId n paymentIdentifier i =
     J_object
       [(''profile'', J_string PURCHASE_RECEIPT_PROFILE), (''purchaseId'', J_string purchaseId),
        (''attempt'', J_int n), (''paymentIdentifier'', J_string paymentIdentifier),
        (''evidenceDigest'', J_string (ki_evidence_digest i)),
        (''evidenceProfile'', J_string (ki_profile i)),
        (''issuer'', (case ki_issuer i of None \<Rightarrow> J_null | Some s \<Rightarrow> J_string s)),
        (''verifierId'', J_string (ki_verifier_id i)),
        (''checkoutDigest'', J_string (ki_checkout_digest i)),
        (''authorizationEvidenceDigest'', J_string (ki_authorization_digest i)),
        (''settlementEvidenceDigest'', J_string (ki_settlement_digest i)),
        (''fulfilmentDigest'', J_string (ki_fulfilment_digest i))]"

definition canonicalReceiptDigest ::
  "(string \<Rightarrow> string) \<Rightarrow> string \<Rightarrow> int \<Rightarrow> string \<Rightarrow> receipt_input \<Rightarrow> string" where
  "canonicalReceiptDigest H purchaseId n paymentIdentifier i =
     evidenceDigest H (json_text (receipt_json purchaseId n paymentIdentifier i))"

definition same_receipt :: "receipt_row \<Rightarrow> receipt_input \<Rightarrow> string \<Rightarrow> bool" where
  "same_receipt existing i canonicalDigest \<longleftrightarrow>
     rc_canonical_digest existing = canonicalDigest
     \<and> rc_evidence_digest existing = ki_evidence_digest i \<and> rc_profile existing = ki_profile i
     \<and> rc_issuer existing = ki_issuer i \<and> rc_verifier_id existing = ki_verifier_id i
     \<and> rc_checkout_digest existing = ki_checkout_digest i
     \<and> rc_authorization_digest existing = ki_authorization_digest i
     \<and> rc_settlement_digest existing = ki_settlement_digest i
     \<and> rc_fulfilment_digest existing = ki_fulfilment_digest i"

definition receipt_of :: "string \<Rightarrow> receipt_input \<Rightarrow> string \<Rightarrow> int \<Rightarrow> receipt_row" where
  "receipt_of purchaseId i canonicalDigest now =
     \<lparr>rc_purchase_id = purchaseId, rc_canonical_digest = canonicalDigest,
      rc_evidence_digest = ki_evidence_digest i, rc_profile = ki_profile i,
      rc_issuer = ki_issuer i, rc_verifier_id = ki_verifier_id i,
      rc_checkout_digest = ki_checkout_digest i,
      rc_authorization_digest = ki_authorization_digest i,
      rc_settlement_digest = ki_settlement_digest i,
      rc_fulfilment_digest = ki_fulfilment_digest i, rc_created_at = now\<rparr>"

definition requireFulfilment :: "journal \<Rightarrow> string \<Rightarrow> fulfilment_row result" where
  "requireFulfilment J purchaseId =
     (case findFulfilment J purchaseId of None \<Rightarrow> Inl JournalNotFoundError | Some r \<Rightarrow> Inr r)"

definition findReceipt :: "journal \<Rightarrow> string \<Rightarrow> receipt_row option" where
  "findReceipt J purchaseId = find_row (\<lambda>r. rc_purchase_id r = purchaseId) (receipts J)"

text \<open>The existing receipt when it is the same, else the receipt inserted at \<open>clock0\<close>.\<close>

definition record_receipt_row ::
  "journal \<Rightarrow> string \<Rightarrow> receipt_input \<Rightarrow> string \<Rightarrow> int \<Rightarrow> (journal \<times> receipt_row) result" where
  "record_receipt_row J purchaseId i canonicalDigest clock0 =
     (case findReceipt J purchaseId of
        Some existing \<Rightarrow>
          rbind (require (same_receipt existing i canonicalDigest) JournalInvariantError) (\<lambda>_.
            Inr (J, existing))
      | None \<Rightarrow>
          rbind (timestamp clock0) (\<lambda>now.
            let row = receipt_of purchaseId i canonicalDigest now in
            Inr (J\<lparr>receipts := receipts J @ [row]\<rparr>, row)))"

definition recordReceipt ::
  "platform \<Rightarrow> journal \<Rightarrow> string \<Rightarrow> receipt_input \<Rightarrow> int \<Rightarrow> int \<Rightarrow> (journal \<times> receipt_row) result" where
  "recordReceipt P J purchaseId i clock0 clock =
     rbind (validateReceiptInput i) (\<lambda>_.
     rbind (requirePurchase J purchaseId) (\<lambda>purchase.
     if pu_state purchase \<noteq> Pur_fulfilled \<and> pu_state purchase \<noteq> Pur_receipted
     then Inl JournalInvariantError
     else
     rbind (requireCheckoutTerms J purchaseId) (\<lambda>terms.
     rbind (requireAuthorization J purchaseId) (\<lambda>authorization.
     rbind (requireFulfilment J purchaseId) (\<lambda>fulfilment.
     case findSettlementForPurchase J purchaseId of
       None \<Rightarrow> Inl JournalInvariantError
     | Some spend \<Rightarrow>
         if ki_checkout_digest i \<noteq> ct_checkout_digest terms
            \<or> ki_authorization_digest i \<noteq> au_evidence_digest authorization
            \<or> ki_settlement_digest i \<noteq> st_evidence_digest spend
            \<or> ki_fulfilment_digest i \<noteq> ff_body_digest fulfilment
         then Inl JournalInvariantError
         else if \<not> isVerifiedEvidenceLinked (pf_intact P) J purchaseId (ki_evidence_digest i)
                    No_attempt (Some ''purchase-receipt'') (Some (ki_profile i))
                    (Some (ki_verifier_id i))
         then Inl JournalInvariantError
         else
         rbind (requirePaymentAttempt J purchaseId (ff_attempt fulfilment)) (\<lambda>att.
         let canonicalDigest = canonicalReceiptDigest (pf_hash P) purchaseId (ff_attempt fulfilment)
                                 (at_identifier att) i in
         rbind (record_receipt_row J purchaseId i canonicalDigest clock0) (\<lambda>(J1, receipt).
         rbind (requirePurchase J1 purchaseId) (\<lambda>current.
         if pu_state current = Pur_fulfilled
         then rbind (transitionPurchase (pf_hash P) J1 purchaseId Pur_fulfilled Pur_receipted
                       ''canonical_receipt_recorded'' (Some canonicalDigest) clock) (\<lambda>(J2, _).
                Inr (J2, receipt))
         else Inr (J1, receipt)))))))))"

text \<open>Receipts handed over together with the Fulfilment, each with its readings of the clock.\<close>

fun record_receipts ::
  "platform \<Rightarrow> string \<Rightarrow> (receipt_input \<times> int \<times> int) list \<Rightarrow> journal \<Rightarrow> journal result" where
  "record_receipts P purchaseId [] J = Inr J"
| "record_receipts P purchaseId ((i, clock0, clock) # rest) J =
     rbind (recordReceipt P J purchaseId i clock0 clock) (\<lambda>(J1, _).
       record_receipts P purchaseId rest J1)"

fun validate_receipts :: "(receipt_input \<times> int \<times> int) list \<Rightarrow> unit result" where
  "validate_receipts [] = Inr ()"
| "validate_receipts ((i, _) # rest) =
     rbind (validateReceiptInput i) (\<lambda>_. validate_receipts rest)"

section \<open>Fulfilments\<close>

record fulfilment_input =
  fi_attempt :: int
  fi_http_status :: int
  fi_resource_fingerprint :: string
  fi_body_digest :: string
  fi_body_byte_length :: int
  fi_media_type :: string
  fi_evidence_digest :: string
  fi_evidence_profile :: string
  fi_evidence_verifier :: string

definition validateFulfilmentInput :: "fulfilment_input \<Rightarrow> unit result" where
  "validateFulfilmentInput i =
     rbind (require (is_safe_integer (fi_attempt i) \<and> 1 \<le> fi_attempt i) JournalInvariantError) (\<lambda>_.
     rbind (require (is_safe_integer (fi_http_status i) \<and> 100 \<le> fi_http_status i
                     \<and> fi_http_status i \<le> 599) JournalInvariantError) (\<lambda>_.
     rbind (assertDigest (fi_resource_fingerprint i)) (\<lambda>_.
     rbind (assertDigest (fi_body_digest i)) (\<lambda>_.
     rbind (require (is_safe_integer (fi_body_byte_length i) \<and> 0 \<le> fi_body_byte_length i)
              JournalInvariantError) (\<lambda>_.
     rbind (assertBoundedText (fi_media_type i) 200) (\<lambda>_.
     rbind (assertDigest (fi_evidence_digest i)) (\<lambda>_.
     rbind (assertSafeIdentity (fi_evidence_profile i) 200) (\<lambda>_.
       assertSafeIdentity (fi_evidence_verifier i) 200))))))))"

definition same_fulfilment :: "fulfilment_row \<Rightarrow> fulfilment_input \<Rightarrow> bool" where
  "same_fulfilment existing i \<longleftrightarrow>
     ff_attempt existing = fi_attempt i \<and> ff_http_status existing = fi_http_status i
     \<and> ff_resource_fingerprint existing = fi_resource_fingerprint i
     \<and> ff_body_digest existing = fi_body_digest i
     \<and> ff_body_byte_length existing = fi_body_byte_length i
     \<and> ff_media_type existing = fi_media_type i
     \<and> ff_evidence_digest existing = fi_evidence_digest i
     \<and> ff_evidence_profile existing = fi_evidence_profile i
     \<and> ff_evidence_verifier existing = fi_evidence_verifier i"

definition fulfilment_of :: "string \<Rightarrow> fulfilment_input \<Rightarrow> int \<Rightarrow> fulfilment_row" where
  "fulfilment_of purchaseId i now =
     \<lparr>ff_purchase_id = purchaseId, ff_attempt = fi_attempt i, ff_http_status = fi_http_status i,
      ff_resource_fingerprint = fi_resource_fingerprint i, ff_body_digest = fi_body_digest i,
      ff_body_byte_length = fi_body_byte_length i, ff_media_type = fi_media_type i,
      ff_evidence_digest = fi_evidence_digest i, ff_evidence_profile = fi_evidence_profile i,
      ff_evidence_verifier = fi_evidence_verifier i, ff_created_at = now\<rparr>"

definition recordFulfilment ::
  "platform \<Rightarrow> journal \<Rightarrow> string \<Rightarrow> fulfilment_input \<Rightarrow> (receipt_input \<times> int \<times> int) list \<Rightarrow> int \<Rightarrow> int
    \<Rightarrow> (journal \<times> fulfilment_row) result" where
  "recordFulfilment P J purchaseId i kept clock0 clock =
     rbind (validateFulfilmentInput i) (\<lambda>_.
     rbind (validate_receipts kept) (\<lambda>_.
     rbind (requirePurchase J purchaseId) (\<lambda>purchase.
     case findFulfilment J purchaseId of
       Some existing \<Rightarrow>
         rbind (require (same_fulfilment existing i) JournalInvariantError) (\<lambda>_.
         rbind (record_receipts P purchaseId kept J) (\<lambda>J1. Inr (J1, existing)))
     | None \<Rightarrow>
         if pu_state purchase \<noteq> Pur_settled then Inl JournalInvariantError
         else
         rbind (requireCheckoutTerms J purchaseId) (\<lambda>terms.
         if fi_resource_fingerprint i \<noteq> ct_resource_fingerprint terms
         then Inl JournalInvariantError
         else
         rbind (requirePaymentAttempt J purchaseId (fi_attempt i)) (\<lambda>att.
         if at_state att \<noteq> Att_observed then Inl JournalInvariantError
         else
         rbind (requireEvidenceAttachment J purchaseId (fi_body_digest i) ''fulfilment-body''
                  (Some (fi_attempt i))) (\<lambda>body.
         if ea_byte_length (snd body) \<noteq> fi_body_byte_length i
            \<or> el_media_type (fst body) \<noteq> fi_media_type i
         then Inl JournalInvariantError
         else if \<not> evidenceLinked (pf_intact P) J purchaseId (fi_body_digest i) ''fulfilment-body''
                    (Some (fi_attempt i))
         then Inl JournalInvariantError
         else if \<not> isVerifiedEvidenceLinked (pf_intact P) J purchaseId (fi_evidence_digest i)
                    (Attempt (fi_attempt i)) (Some ''merchant-fulfilment'')
                    (Some (fi_evidence_profile i)) (Some (fi_evidence_verifier i))
         then Inl JournalInvariantError
         else
         rbind (timestamp clock0) (\<lambda>now.
         rbind (transitionPurchase (pf_hash P)
                  (J\<lparr>fulfilments := fulfilments J @ [fulfilment_of purchaseId i now]\<rparr>)
                  purchaseId Pur_settled Pur_fulfilled ''merchant_fulfilment_verified''
                  (Some (fi_body_digest i)) clock) (\<lambda>(J1, _).
         rbind (requireFulfilment J1 purchaseId) (\<lambda>r.
         rbind (record_receipts P purchaseId kept J1) (\<lambda>J2. Inr (J2, r)))))))))))"

end
