(* ===== verification/Paper_Runs.thy ===== *)
theory Paper_Runs
  imports Payment_Runs Checkout Preparation Delivery
begin

text \<open>
  The operations that write the paper trail and the preparations as runs of journal steps: the
  terms, the request, the decision, the Fulfilment and the Receipt each add a row that agrees with
  the rows before it (\<open>trail_delta\<close>) and move the Purchase.
\<close>

section \<open>A row and a move\<close>

lemma recorded_steps: "owned_tables J' = owned_tables J \<Longrightarrow> trail_delta J J' \<Longrightarrow> steps now J J'"
  by (auto intro: step_elsewhere)

lemma recorded_then_moved:
  assumes "owned_tables J1 = owned_tables J" and "trail_delta J J1"
    and "transitionPurchase H J1 i expected to_state reason d clock = Inr (J', r)"
  shows "steps now J J'"
  using recorded_steps [OF assms(1,2)] transitionPurchase_steps [OF assms(3)]
  by (rule rtranclp_trans)

lemma plan_row_found:
  assumes "requireExecutionPlan H J i = Inr plan"
  shows "\<exists>x. findExecutionPlanRow J i = Some x \<and> pl_digest plan = xp_plan_digest x
    \<and> pl_maximum_charge plan = xp_maximum_charge x"
proof -
  obtain x where x: "findExecutionPlanRow J i = Some x" "purchaseExecutionPlanFromRow H x = Inr plan"
    using assms by (auto simp: requireExecutionPlan_def findExecutionPlanRow_def split: option.splits)
  obtain c where c: "canonicalPurchaseExecutionPlan H (plan_of_row x) = Inr c"
      "pl_digest c = xp_plan_digest x"
      "plan = canonical_plan.extend c (plan_record.fields (xp_purchase_id x) (xp_plan_digest x)
         (xp_created_at x))"
    using x(2) by (auto simp: purchaseExecutionPlanFromRow_def split: if_splits)
  have "pl_maximum_charge (execution_plan.truncate c) = xp_maximum_charge x"
    unfolding canonical_plan_facts(1) [OF c(1)] by (simp add: execution_plan.defs plan_of_row_def)
  then have "pl_maximum_charge c = xp_maximum_charge x" by (simp add: execution_plan.defs)
  with x(1) c(2,3) show ?thesis by (simp add: canonical_plan.defs plan_record.defs)
qed

lemma canonical_row:
  assumes "canonicalPurchaseExecutionPlan H p = Inr c"
  shows "xp_purchase_id (execution_plan_row_of i c now) = i"
    and "xp_maximum_charge (execution_plan_row_of i c now) = pl_maximum_charge c"
    and "xp_requirements_digest (execution_plan_row_of i c now) = pl_requirements_digest c"
  by (simp_all add: execution_plan_row_of_def Let_def)

section \<open>Terms, request, decision\<close>

lemma bind_steps:
  assumes call: "bindCheckoutTerms P J i input c0 c1 clock = Inr (J', r)" and inv: "journal_inv J"
  shows "steps now J J'"
proof (cases "findCheckoutTerms J i")
  case (Some existing)
  then have "J' = J" using call unfolding bindCheckoutTerms_def Let_def by auto
  then show ?thesis by simp
next
  case None
  obtain pu plan e t x where
    pu: "find_row (\<lambda>r. pu_id r = i) (purchases J) = Some pu" "pu_resource_fingerprint pu = ts_resource_fingerprint (ti_terms input)"
    and digest: "ts_checkout_digest (ti_terms input) = ti_checkout_evidence input"
    and plan: "plan_matches plan input"
    and moved: "transitionPurchase (pf_hash P) (J\<lparr>checkout_terms := checkout_terms J @
          [checkout_terms_row_of i input e t], execution_plans := execution_plans J @
          [execution_plan_row_of i plan t]\<rparr>) i Pur_created Pur_terms_bound ''checkout_terms_bound''
        (Some (ts_checkout_digest (ti_terms input))) clock = Inr (J', x)"
    using call None unfolding bindCheckoutTerms_def Let_def
    by (simp split: if_splits) (elim exE conjE, rule that, assumption+)
  let ?t = "checkout_terms_row_of i input e t" and ?x = "execution_plan_row_of i plan t"
  let ?J1 = "J\<lparr>checkout_terms := checkout_terms J @ [?t], execution_plans := execution_plans J @ [?x]\<rparr>"
  have t: "ct_purchase_id ?t = i" "ct_amount ?t = ts_amount (ti_terms input)"
      "ct_resource_fingerprint ?t = ts_resource_fingerprint (ti_terms input)"
      "ct_checkout_digest ?t = ts_checkout_digest (ti_terms input)"
      "ct_checkout_evidence_digest ?t = ti_checkout_evidence input"
      "ct_requirements_digest ?t = ti_requirements_digest input"
    by (simp_all add: checkout_terms_row_of_def Let_def)
  have x: "xp_purchase_id ?x = i" "xp_maximum_charge ?x = pl_maximum_charge plan"
      "xp_requirements_digest ?x = pl_requirements_digest plan"
    by (simp_all add: execution_plan_row_of_def Let_def)
  have none: "findExecutionPlanRow J i = None"
    using inv None
    by (auto simp: journal_inv_def trail_inv_def findExecutionPlanRow_def find_row_None_iff)
  have "trail_delta J ?J1"
    by (rule terms_recorded [where t = ?t and x = ?x and pu = pu])
      (use pu digest plan none None t x in \<open>simp_all add: plan_matches_def trail_def purchase_at_def\<close>)
  moreover have "owned_tables ?J1 = owned_tables J" by (simp add: owned_tables_def)
  ultimately show ?thesis using recorded_then_moved moved by blast
qed

lemma request_steps:
  assumes "recordAuthorizationRequest P J i input c0 c1 clock = Inr (J', r)"
  shows "steps now J J'"
proof (cases "findAuthorizationRequest J i")
  case (Some existing)
  then have "J' = J" using assms unfolding recordAuthorizationRequest_def Let_def by auto
  then show ?thesis by simp
next
  case None
  obtain t plan epoch n J1 x d where
    t: "findCheckoutTerms J i = Some t" "qi_checkout_digest input = ct_checkout_digest t"
    and plan: "requireExecutionPlan (pf_hash P) J i = Inr plan"
    and expiry: "qi_expires_at input \<le> ct_expires_at t"
    and ins: "insert_authorization_request (authorization_request_row_of i input plan epoch n) J = Inr J1"
    and moved: "transitionPurchase (pf_hash P) J1 i Pur_terms_bound Pur_awaiting_authority
        ''authorization_requested'' d clock = Inr (J', x)"
    using assms None
    unfolding recordAuthorizationRequest_def Let_def requireCheckoutTerms_def within_terms_def
    by (simp add: not_less split: if_splits option.splits) blast
  let ?q = "authorization_request_row_of i input plan epoch n"
  have q: "ar_purchase_id ?q = i" "ar_checkout_digest ?q = qi_checkout_digest input"
      "ar_expires_at ?q = qi_expires_at input" "ar_plan_digest ?q = pl_digest plan"
      "ar_maximum_charge ?q = pl_maximum_charge plan"
    by (simp_all add: authorization_request_row_of_def)
  have J1: "J1 = J\<lparr>authorization_requests := authorization_requests J @ [?q]\<rparr>"
    and fresh: "ar_request_digest ?q \<notin> ar_request_digest ` set (authorization_requests J)"
      "ar_nonce_digest ?q \<notin> ar_nonce_digest ` set (authorization_requests J)"
    using ins by (auto simp: insert_authorization_request_def list_ex_iff split: if_splits)
  have "request_bound J ?q"
    using plan_row_found [OF plan] t expiry by (auto simp: request_bound_def q)
  then have "trail_delta J J1"
    using None fresh by (intro request_recorded [where q = ?q]) (simp_all add: q J1 trail_def)
  moreover have "owned_tables J1 = owned_tables J" by (simp add: J1 owned_tables_def)
  ultimately show ?thesis using recorded_then_moved moved by blast
qed

lemma decision_steps:
  assumes "recordAuthorizationDecision P J i input c0 c1 clock = Inr (J', r)"
  shows "steps now J J'"
proof (cases "findAuthorization J i")
  case (Some existing)
  then have "J' = J" using assms unfolding recordAuthorizationDecision_def Let_def by auto
  then show ?thesis by simp
next
  case None
  obtain q n s reason d x where
    q: "findAuthorizationRequest J i = Some q" "ar_checkout_digest q = di_checkout_digest input"
      "ar_request_digest q = di_request_digest input" "ar_nonce_digest q = di_nonce_digest input"
      "ar_expires_at q = di_expires_at input"
    and moved: "transitionPurchase (pf_hash P)
        (J\<lparr>authorizations := authorizations J @ [authorization_row_of i input n]\<rparr>) i
        Pur_awaiting_authority s reason d clock = Inr (J', x)"
    using assms None
    unfolding recordAuthorizationDecision_def Let_def requireAuthorizationRequest_def
    by (simp split: if_splits option.splits) blast
  let ?a = "authorization_row_of i input n"
  let ?J1 = "J\<lparr>authorizations := authorizations J @ [?a]\<rparr>"
  have "trail_delta J ?J1"
    by (rule decision_recorded [where a = ?a])
      (use None q in \<open>simp_all add: authorization_row_of_def decision_bound_def trail_def\<close>)
  moreover have "owned_tables ?J1 = owned_tables J" by (simp add: owned_tables_def)
  ultimately show ?thesis using recorded_then_moved moved by blast
qed

section \<open>Fulfilment and Receipt\<close>

lemma receipt_row_steps:
  assumes "record_receipt_row J i input d c0 = Inr (J', r)"
    and "findCheckoutTerms J i = Some t" and "findAuthorization J i = Some a"
    and "findFulfilment J i = Some f" and "s \<in> set (settlements J)" and "st_purchase_id s = i"
    and "ki_checkout_digest input = ct_checkout_digest t"
    and "ki_authorization_digest input = au_evidence_digest a"
    and "ki_settlement_digest input = st_evidence_digest s"
    and "ki_fulfilment_digest input = ff_body_digest f"
  shows "steps now J J'"
proof (cases "findReceipt J i")
  case (Some existing)
  then show ?thesis using assms(1) by (auto simp: record_receipt_row_def)
next
  case None
  then have J': "J' = J\<lparr>receipts := receipts J @ [receipt_of i input d c0]\<rparr>"
    using assms(1) by (auto simp: record_receipt_row_def Let_def timestamp_def split: if_splits)
  have "receipt_bound J (receipt_of i input d c0)"
    using assms(2-) by (auto simp: receipt_bound_def receipt_of_def)
  then have "trail_delta J J'"
    using None by (intro receipt_recorded [where r = "receipt_of i input d c0"])
      (simp_all add: J' receipt_of_def receipt_at_def findReceipt_def trail_def)
  then show ?thesis by (rule recorded_steps [rotated]) (simp add: J' owned_tables_def)
qed

lemma receipt_steps:
  assumes "recordReceipt P J i input c0 clock = Inr (J', r)"
  shows "steps now J J'"
proof -
  obtain t a f s d J1 receipt where
    found: "findCheckoutTerms J i = Some t" "findAuthorization J i = Some a"
      "findFulfilment J i = Some f" "findSettlementForPurchase J i = Some s"
    and digests: "ki_checkout_digest input = ct_checkout_digest t"
      "ki_authorization_digest input = au_evidence_digest a"
      "ki_settlement_digest input = st_evidence_digest s"
      "ki_fulfilment_digest input = ff_body_digest f"
    and row: "record_receipt_row J i input d c0 = Inr (J1, receipt)"
    and rest: "J' = J1 \<or> (\<exists>x. transitionPurchase (pf_hash P) J1 i Pur_fulfilled Pur_receipted
        ''canonical_receipt_recorded'' (Some d) clock = Inr (J', x))"
    using assms
    unfolding recordReceipt_def Let_def requireCheckoutTerms_def requireAuthorization_def
      requireFulfilment_def
    by (simp split: if_splits option.splits) blast+
  have s: "s \<in> set (settlements J)" "st_purchase_id s = i"
    using found(4) by (auto simp: findSettlementForPurchase_def dest: find_row_SomeD)
  have one: "steps now J J1" using receipt_row_steps [OF row found(1-3) s digests] .
  from rest show ?thesis
  proof
    assume "\<exists>x. transitionPurchase (pf_hash P) J1 i Pur_fulfilled Pur_receipted
        ''canonical_receipt_recorded'' (Some d) clock = Inr (J', x)"
    then show ?thesis using one transitionPurchase_steps by (meson rtranclp_trans)
  qed (use one in simp)
qed

lemma receipts_steps: "record_receipts P i kept J = Inr J' \<Longrightarrow> steps now J J'"
proof (induction kept arbitrary: J)
  case (Cons k kept)
  obtain input c0 clock where "k = (input, c0, clock)" by (cases k)
  with Cons.prems obtain J1 r where "recordReceipt P J i input c0 clock = Inr (J1, r)"
      "record_receipts P i kept J1 = Inr J'"
    by auto
  with Cons.IH receipt_steps show ?case by (meson rtranclp_trans)
qed simp

lemma fulfilment_steps:
  assumes "recordFulfilment P J i input kept c0 clock = Inr (J', r)"
  shows "steps now J J'"
proof (cases "findFulfilment J i")
  case (Some existing)
  then have "record_receipts P i kept J = Inr J'"
    using assms by (auto simp: recordFulfilment_def)
  then show ?thesis by (rule receipts_steps)
next
  case None
  obtain t n d x J1 where
    t: "findCheckoutTerms J i = Some t" "fi_resource_fingerprint input = ct_resource_fingerprint t"
    and moved: "transitionPurchase (pf_hash P) (J\<lparr>fulfilments := fulfilments J @ [fulfilment_of i input n]\<rparr>)
        i Pur_settled Pur_fulfilled ''merchant_fulfilment_verified'' d clock = Inr (J1, x)"
    and rest: "record_receipts P i kept J1 = Inr J'"
    using assms None unfolding recordFulfilment_def requireCheckoutTerms_def
    by (simp split: if_splits option.splits) blast
  let ?f = "fulfilment_of i input n"
  let ?K = "J\<lparr>fulfilments := fulfilments J @ [?f]\<rparr>"
  have "trail_delta J ?K"
    by (rule fulfilment_recorded [where f = ?f])
      (use None t in \<open>simp_all add: fulfilment_of_def fulfilment_bound_def trail_def\<close>)
  moreover have "owned_tables ?K = owned_tables J" by (simp add: owned_tables_def)
  ultimately have "steps now J J1" using recorded_then_moved moved by blast
  then show ?thesis using receipts_steps [OF rest] by (rule rtranclp_trans)
qed

section \<open>Preparation and staging\<close>

lemma prepare_steps:
  assumes "preparePaymentAttempt store intact J i c0 clock = Inr (J', r)"
  shows "steps clock J J'"
proof (cases "findPaymentPreparation J (pi_purchase_id i) (pi_attempt i)")
  case (Some existing)
  then have "J' = J" using assms unfolding preparePaymentAttempt_def Let_def by auto
  then show ?thesis by simp
next
  case None
  obtain att stored reservation J1 d where
    res: "requireReservation J (pi_reservation_id i) = Inr reservation"
      "rs_purchase_id reservation = pi_purchase_id i" "rs_amount reservation = pi_amount i"
      "rs_payee reservation = pi_payee i"
    and att: "findPaymentAttempt J (pi_purchase_id i) (pi_attempt i) = Some att"
    and ins: "insert_preparation (preparation_of i stored clock) J = Inr J1"
    and moved: "transitionAttemptInternal J1 att Att_prepared ''payment_prepared'' d clock None False
      = Inr J'"
    using assms None unfolding preparePaymentAttempt_def Let_def
    by (simp split: if_splits) blast
  let ?row = "preparation_of i stored clock"
  have J1: "J1 = J\<lparr>preparations := preparations J @ [?row]\<rparr>"
    using ins by (auto simp: insert_preparation_def split: if_splits)
  have "preparation_bound J ?row"
    using res by (auto simp: preparation_bound_def preparation_of_def requireReservation_def
        findReservation_def dest: find_row_SomeD split: option.splits)
  then have "trail_delta J J1" by (rule preparation_recorded) (simp add: J1 trail_def)
  then have "steps clock J J1" by (rule recorded_steps [rotated]) (simp add: J1 owned_tables_def)
  moreover have "steps clock J1 J'"
    using transitionAttempt_steps [OF moved] attempt_member [OF att] by (simp add: J1)
  ultimately show ?thesis by (rule rtranclp_trans)
qed

lemma planned_effect_steps:
  assumes "insertEffectTransition fresh None Eff_planned reason d now
      (J\<lparr>effects := effects J @ [new_effect i fresh stored now]\<rparr>) = Inr J'"
    and "effect_at J fresh = None" and "effect_checks (new_effect i fresh stored now)"
    and "find_row (\<lambda>r. ef_idempotency_key r = ei_idempotency_key i) (effects J) = None"
  shows "steps now J J'"
proof -
  have J': "J' = J\<lparr>effects := effects J @ [new_effect i fresh stored now],
        effect_log := effect_log J @ [\<lparr>et_effect_id = fresh, et_from = None, et_to = Eff_planned,
          et_reason = reason, et_detail = d, et_created_at = now\<rparr>]\<rparr>"
    using assms(1) by (auto dest!: insertEffectTransition_eq)
  have "effect_ok now J J'"
    unfolding effect_ok_def J' using assms(2-4)
    by (auto intro!: effect_planned [where r = "new_effect i fresh stored now"] leases_untouched
        simp: new_effect_def find_row_None_iff)
  then show ?thesis by (rule effect_ok_steps)
qed

lemma stage_steps:
  assumes "commitTreasuryStagingPreparation store J lease i fresh c0 clock = Inr (J', r)"
  shows "steps clock J J'"
proof (cases "find_row (\<lambda>r. ef_idempotency_key r = gi_idempotency_key i) (effects J)")
  case (Some effect)
  then have "J' = J" using assms unfolding commitTreasuryStagingPreparation_def Let_def
    by (auto split: option.splits if_splits)
  then show ?thesis by simp
next
  case None
  let ?J1 = "expireReservationsInternal J clock"
  obtain stored d J2 plan where
    fresh: "effect_at J fresh = None" "effect_checks (new_effect (staging_effect i) fresh stored clock)"
    and ins: "insertEffectTransition fresh None Eff_planned ''treasury_staging_planned'' d clock
      (?J1\<lparr>effects := effects J @ [new_effect (staging_effect i) fresh stored clock]\<rparr>) = Inr J2"
    and plan: "insert_staging_plan plan J2 = Inr J'"
    using assms None unfolding commitTreasuryStagingPreparation_def Let_def
    by (simp split: if_splits) (elim exE conjE, rule that, assumption+)
  have "steps clock ?J1 J2"
    using planned_effect_steps [of fresh "''treasury_staging_planned''" d clock ?J1 "staging_effect i"
        stored J2] ins fresh None
    by (simp add: staging_effect_def)
  have "J' = J2\<lparr>staging_plans := staging_plans J2 @ [plan]\<rparr>"
    using plan by (auto simp: insert_staging_plan_def split: if_splits)
  then have "steps clock J2 J'" by (intro elsewhere_steps) (simp_all add: owned_tables_def trail_def)
  with \<open>steps clock ?J1 J2\<close> expire_steps [of clock J] show ?thesis
    by (meson rtranclp_trans)
qed

lemma stage_observed_steps:
  assumes "recordObservedTreasuryStaging intact J lease i c0 c1 clock = Inr (J', r)" and "journal_inv J"
  shows "steps clock J J'"
proof -
  obtain effect where e: "effect_at J (gb_effect_id i) = Some effect"
    using assms(1) by (auto simp: recordObservedTreasuryStaging_def)
  have id: "ef_id effect = gb_effect_id i" using e effect_at_facts(1) by blast
  show ?thesis
  proof (cases "findTreasuryStagingObservationByEffect J (ef_id effect)")
    case (Some existing)
    then have "J' = J" using assms(1) e unfolding recordObservedTreasuryStaging_def
      by (auto split: option.splits if_splits)
    then show ?thesis by simp
  next
    case None
    obtain row J1 u where
      ins: "insert_staging_observation row J = Inr J1"
      and up: "updateEffectState (insertEffectObservation (ef_id effect) EO_observed
          (Some (gb_evidence_digest i)) (Some (gb_evidence_digest i)) lease clock J1) effect Eff_observed
          ''treasury_staging_output_observed'' (Some (gb_evidence_digest i)) clock u = Inr J'"
      using assms(1) e None unfolding recordObservedTreasuryStaging_def
      by (simp split: option.splits if_splits) (elim exE conjE, rule that, assumption+)
    let ?J2 = "insertEffectObservation (ef_id effect) EO_observed (Some (gb_evidence_digest i))
          (Some (gb_evidence_digest i)) lease clock J1"
    have J1: "J1 = J\<lparr>staging_observations := staging_observations J @ [row]\<rparr>"
      using ins by (auto simp: insert_staging_observation_def split: if_splits)
    have one: "steps clock J J1" by (rule elsewhere_steps) (simp_all add: J1 owned_tables_def trail_def)
    then have two: "steps clock J ?J2" using observation_steps by (rule rtranclp_trans)
    have "effect_at ?J2 (ef_id effect) = Some effect"
      using e id by (simp add: J1 insertEffectObservation_def Let_def effect_at_def)
    then have "steps clock ?J2 J'"
      using updateEffect_steps [OF up _ steps_inv [OF two assms(2)]] by simp
    with two show ?thesis by (rule rtranclp_trans)
  qed
qed

end
