(* ===== verification/Recovery.thy ===== *)
theory Recovery
  imports Preparation Finality
begin

text \<open>
  The recovery of a staged output whose payment never happened (\<open>src/purchase/journal.ts\<close>): the
  immutable sweep with its dedicated Effect (\<open>planTreasuryStagingRecovery\<close>), the claim of that
  Effect (\<open>beginTreasuryStagingRecovery\<close>), and the observations of the race between the exact
  payment and the sweep (\<open>recordTreasuryStagingRecoveryObservation\<close>), the last of which returns
  the principal to the treasury and accounts for what the recovery cost.
\<close>

section \<open>Plans\<close>

record recovery_input =
  vi_purchase_id :: string
  vi_attempt :: int
  vi_reservation_id :: string
  vi_staging_effect_id :: string
  vi_idempotency_key :: string
  vi_payload_digest :: string
  vi_bytes :: string
  vi_exact_transaction_id :: "string option"
  vi_recovery_transaction_id :: string
  vi_recovery_outpoint :: string
  vi_recovery_amount :: string
  vi_staging_fee :: string
  vi_recovery_fee :: string
  vi_required_finality :: string
  vi_cost_ceiling :: string

text \<open>A plan as it is read: the row joined with the key of its Effect.\<close>

record recovery_plan = recovery_plan_row +
  rp_idempotency_key :: string

definition treasuryStagingRecoveryPlanningLeaseName :: "string \<Rightarrow> string" where
  "treasuryStagingRecoveryPlanningLeaseName purchaseId =
     ''treasury-staging-recovery-plan:'' @ purchaseId"

definition validateTreasuryStagingRecoveryPlanInput :: "recovery_input \<Rightarrow> unit result" where
  "validateTreasuryStagingRecoveryPlanInput i =
     rbind (require (attempt_number_ok (vi_attempt i)) JournalInvariantError) (\<lambda>_.
     rbind (assertCode (vi_reservation_id i)) (\<lambda>_.
     rbind (assertCode (vi_staging_effect_id i)) (\<lambda>_.
     rbind (assertSafeIdentity (vi_idempotency_key i) 300) (\<lambda>_.
     rbind (assertDigest (vi_payload_digest i)) (\<lambda>_.
     rbind (case vi_exact_transaction_id i of None \<Rightarrow> Inr () | Some t \<Rightarrow> assertTransactionId t) (\<lambda>_.
     rbind (assertTransactionId (vi_recovery_transaction_id i)) (\<lambda>_.
     rbind (assertSafeIdentity (vi_recovery_outpoint i) 200) (\<lambda>_.
     rbind (require (vi_recovery_outpoint i = vi_recovery_transaction_id i @ '':0'')
              JournalInvariantError) (\<lambda>_.
     rbind (decimalBigInt (vi_recovery_amount i) False) (\<lambda>_.
     rbind (decimalBigInt (vi_staging_fee i) True) (\<lambda>_.
     rbind (decimalBigInt (vi_recovery_fee i) False) (\<lambda>_.
     rbind (decimalBigInt (vi_cost_ceiling i) True) (\<lambda>_.
     rbind (requirePaymentFinality (vi_required_finality i)) (\<lambda>_.
       require (bytes_present (vi_bytes i)) JournalInvariantError))))))))))))))"

text \<open>\<open>JOIN effects e ON e.id = p.effect_id\<close>\<close>

definition with_key :: "journal \<Rightarrow> recovery_plan_row \<Rightarrow> recovery_plan option" where
  "with_key J p =
     map_option (\<lambda>e. recovery_plan_row.extend p (recovery_plan.fields (ef_idempotency_key e)))
       (effect_at J (rp_effect_id p))"

definition findTreasuryStagingRecoveryPlan :: "journal \<Rightarrow> string \<Rightarrow> int \<Rightarrow> recovery_plan option" where
  "findTreasuryStagingRecoveryPlan J purchaseId n =
     (case find_row (\<lambda>r. rp_purchase_id r = purchaseId \<and> rp_attempt r = n) (recovery_plans J) of
        None \<Rightarrow> None | Some p \<Rightarrow> with_key J p)"

definition findTreasuryStagingRecoveryPlanByEffect ::
  "journal \<Rightarrow> string \<Rightarrow> recovery_plan option" where
  "findTreasuryStagingRecoveryPlanByEffect J effectId =
     (case find_row (\<lambda>r. rp_effect_id r = effectId) (recovery_plans J) of
        None \<Rightarrow> None | Some p \<Rightarrow> with_key J p)"

definition requireTreasuryStagingRecoveryPlan :: "journal \<Rightarrow> string \<Rightarrow> int \<Rightarrow> recovery_plan result" where
  "requireTreasuryStagingRecoveryPlan J purchaseId n =
     (case findTreasuryStagingRecoveryPlan J purchaseId n of
        None \<Rightarrow> Inl JournalNotFoundError | Some p \<Rightarrow> Inr p)"

definition readPreparedTreasuryStagingRecovery ::
  "(string \<Rightarrow> int \<Rightarrow> string option) \<Rightarrow> journal \<Rightarrow> string \<Rightarrow> int \<Rightarrow> unit result" where
  "readPreparedTreasuryStagingRecovery verified J purchaseId n =
     rbind (requireTreasuryStagingRecoveryPlan J purchaseId n) (\<lambda>plan.
       readPreparedMaterial verified (rp_payload_digest plan) (rp_prepared_ref plan)
         (rp_prepared_byte_length plan))"

definition same_recovery_plan ::
  "recovery_plan \<Rightarrow> recovery_input \<Rightarrow> string \<times> string \<times> int \<Rightarrow> bool" where
  "same_recovery_plan existing i stored \<longleftrightarrow>
     rp_purchase_id existing = vi_purchase_id i \<and> rp_attempt existing = vi_attempt i
     \<and> rp_reservation_id existing = vi_reservation_id i
     \<and> rp_staging_effect_id existing = vi_staging_effect_id i
     \<and> rp_idempotency_key existing = vi_idempotency_key i
     \<and> rp_payload_digest existing = vi_payload_digest i
     \<and> rp_prepared_ref existing = fst (snd stored)
     \<and> rp_prepared_byte_length existing = snd (snd stored)
     \<and> rp_exact_transaction_id existing = vi_exact_transaction_id i
     \<and> rp_recovery_transaction_id existing = vi_recovery_transaction_id i
     \<and> rp_recovery_outpoint existing = vi_recovery_outpoint i
     \<and> rp_recovery_amount existing = vi_recovery_amount i
     \<and> rp_staging_fee existing = vi_staging_fee i \<and> rp_recovery_fee existing = vi_recovery_fee i
     \<and> rp_required_finality existing = vi_required_finality i
     \<and> rp_cost_ceiling existing = vi_cost_ceiling i"

definition recovery_effect :: "recovery_input \<Rightarrow> effect_input" where
  "recovery_effect i =
     \<lparr>ei_purchase_id = vi_purchase_id i, ei_attempt = Some (vi_attempt i),
      ei_kind = TREASURY_STAGING_RECOVERY_EFFECT_KIND, ei_idempotency_key = vi_idempotency_key i,
      ei_payload_digest = vi_payload_digest i, ei_bytes = vi_bytes i\<rparr>"

definition recovery_plan_of ::
  "recovery_input \<Rightarrow> string \<Rightarrow> string \<times> string \<times> int \<Rightarrow> int \<Rightarrow> recovery_plan_row" where
  "recovery_plan_of i effectId stored now =
     \<lparr>rp_effect_id = effectId, rp_purchase_id = vi_purchase_id i, rp_attempt = vi_attempt i,
      rp_reservation_id = vi_reservation_id i, rp_staging_effect_id = vi_staging_effect_id i,
      rp_payload_digest = vi_payload_digest i, rp_prepared_ref = fst (snd stored),
      rp_prepared_byte_length = snd (snd stored),
      rp_exact_transaction_id = vi_exact_transaction_id i,
      rp_recovery_transaction_id = vi_recovery_transaction_id i,
      rp_recovery_outpoint = vi_recovery_outpoint i, rp_recovery_amount = vi_recovery_amount i,
      rp_staging_fee = vi_staging_fee i, rp_recovery_fee = vi_recovery_fee i,
      rp_cost_ceiling = vi_cost_ceiling i, rp_required_finality = vi_required_finality i,
      rp_created_at = now\<rparr>"

text \<open>
  The constraints of the table: one plan per Attempt, reservation, staged output, transaction and
  outpoint; the exact payment is another transaction than the sweep; the staging is a staging.
\<close>

definition insert_recovery_plan :: "recovery_plan_row \<Rightarrow> journal \<Rightarrow> journal result" where
  "insert_recovery_plan row J =
     (if rp_prepared_byte_length row \<le> 0
         \<or> rp_exact_transaction_id row = Some (rp_recovery_transaction_id row)
         \<or> findTreasuryStagingPlanByEffect J (rp_staging_effect_id row) = None
         \<or> list_ex (\<lambda>r. rp_effect_id r = rp_effect_id row
                        \<or> rp_purchase_id r = rp_purchase_id row \<and> rp_attempt r = rp_attempt row
                        \<or> rp_reservation_id r = rp_reservation_id row
                        \<or> rp_staging_effect_id r = rp_staging_effect_id row
                        \<or> rp_recovery_transaction_id r = rp_recovery_transaction_id row
                        \<or> rp_recovery_outpoint r = rp_recovery_outpoint row) (recovery_plans J)
      then Inl SqliteConstraintError
      else Inr (J\<lparr>recovery_plans := recovery_plans J @ [row]\<rparr>))"

text \<open>What is checked of the staged output that is to be swept.\<close>

definition recovery_source :: "journal \<Rightarrow> recovery_input \<Rightarrow> unit result" where
  "recovery_source J i =
     (let p = vi_purchase_id i; n = vi_attempt i in
     rbind (requirePurchase J p) (\<lambda>purchase.
     if pu_state purchase \<noteq> Pur_failed_recoverable then Inl JournalInvariantError
     else
     rbind (requirePaymentAttempt J p n) (\<lambda>att.
     case findTreasuryStagingObservation J p n of
       None \<Rightarrow> Inl JournalInvariantError
     | Some staging \<Rightarrow>
     if so_effect_id staging \<noteq> vi_staging_effect_id i then Inl JournalInvariantError
     else
     rbind (requireEffect J (vi_staging_effect_id i)) (\<lambda>stagingEffect.
     if ef_state stagingEffect \<noteq> Eff_observed then Inl JournalInvariantError
     else
     rbind (requireReservation J (vi_reservation_id i)) (\<lambda>reservation.
     if rs_purchase_id reservation \<noteq> p \<or> rs_state reservation \<noteq> Res_in_flight
        \<or> so_reservation_id staging \<noteq> rs_id reservation
        \<or> rs_additional_cost_ceiling reservation \<noteq> vi_cost_ceiling i
     then Inl JournalInvariantError
     else
     let preparation = findPaymentPreparation J p n in
     if (case preparation of None \<Rightarrow> None | Some r \<Rightarrow> pp_transaction_id r)
          \<noteq> vi_exact_transaction_id i
        \<or> preparation = None \<and> at_state att \<notin> {Att_planned, Att_failed}
     then Inl JournalInvariantError
     else if findSettlementForPurchase J p \<noteq> None then Inl JournalInvariantError
     else
       require (BigInt (vi_recovery_amount i) + BigInt (vi_recovery_fee i)
                = BigInt (so_staging_amount staging)) JournalInvariantError)))))"

text \<open>
  The identity of the Effect is drawn at random (\<open>fresh\<close>); \<open>clock0\<close> checks the lease, \<open>clock\<close>
  dates the rows.
\<close>

definition planTreasuryStagingRecovery ::
  "(string \<Rightarrow> (string \<times> string \<times> int) option) \<Rightarrow> journal \<Rightarrow> recovery_input \<Rightarrow> lease_token \<Rightarrow> string
    \<Rightarrow> int \<Rightarrow> int \<Rightarrow> (journal \<times> recovery_plan) result" where
  "planTreasuryStagingRecovery store J i lease fresh clock0 clock =
     (let p = vi_purchase_id i; n = vi_attempt i in
     rbind (validateTreasuryStagingRecoveryPlanInput i) (\<lambda>_.
     if lt_name lease \<noteq> treasuryStagingRecoveryPlanningLeaseName p then Inl JournalFencingError
     else
     rbind (storePreparedMaterial store (vi_bytes i) (vi_payload_digest i)) (\<lambda>stored.
     rbind (timestamp clock0) (\<lambda>t.
     rbind (assertLeaseInternal J lease t) (\<lambda>_.
     case find_row (\<lambda>r. ef_idempotency_key r = vi_idempotency_key i) (effects J) of
       Some effect \<Rightarrow>
         if ef_kind effect \<noteq> TREASURY_STAGING_RECOVERY_EFFECT_KIND then Inl JournalInvariantError
         else
         (case findTreasuryStagingRecoveryPlanByEffect J (ef_id effect) of
            None \<Rightarrow> Inl JournalInvariantError
          | Some existing \<Rightarrow>
              rbind (require (same_recovery_plan existing i stored) JournalInvariantError) (\<lambda>_.
                Inr (J, existing)))
     | None \<Rightarrow>
         if findTreasuryStagingRecoveryPlan J p n \<noteq> None then Inl JournalInvariantError
         else
         rbind (recovery_source J i) (\<lambda>_.
         rbind (timestamp clock) (\<lambda>now.
         let row = new_effect (recovery_effect i) fresh stored now in
         if effect_at J fresh \<noteq> None \<or> \<not> effect_checks row then Inl SqliteConstraintError
         else
         rbind (insertEffectTransition fresh None Eff_planned ''treasury_staging_recovery_planned''
                  (Some (vi_payload_digest i)) now (J\<lparr>effects := effects J @ [row]\<rparr>)) (\<lambda>J1.
         rbind (insert_recovery_plan (recovery_plan_of i fresh stored now) J1) (\<lambda>J2.
         rbind (requireTreasuryStagingRecoveryPlan J2 p n) (\<lambda>r. Inr (J2, r)))))))))))"

section \<open>The claim of the sweep\<close>

definition beginTreasuryStagingRecovery ::
  "(string \<Rightarrow> int \<Rightarrow> string option) \<Rightarrow> journal \<Rightarrow> string \<Rightarrow> string \<Rightarrow> int \<Rightarrow> int
    \<Rightarrow> (journal \<times> (effect_row \<times> lease_token) option) result" where
  "beginTreasuryStagingRecovery verified J effectId holder ttlMs clock =
     rbind (requireEffect J effectId) (\<lambda>effect.
     case ef_attempt effect of
       None \<Rightarrow> Inl JournalInvariantError
     | Some n \<Rightarrow>
     if ef_kind effect \<noteq> TREASURY_STAGING_RECOVERY_EFFECT_KIND then Inl JournalInvariantError
     else
     rbind (requireTreasuryStagingRecoveryPlan J (ef_purchase_id effect) n) (\<lambda>plan.
     if rp_effect_id plan \<noteq> ef_id effect \<or> ef_payload_digest effect \<noteq> rp_payload_digest plan
        \<or> ef_prepared_ref effect \<noteq> rp_prepared_ref plan
        \<or> ef_prepared_byte_length effect \<noteq> rp_prepared_byte_length plan
     then Inl JournalInvariantError
     else
     rbind (readPreparedMaterial verified (rp_payload_digest plan) (rp_prepared_ref plan)
              (rp_prepared_byte_length plan)) (\<lambda>_.
     rbind (requireReservation J (rp_reservation_id plan)) (\<lambda>reservation.
     if rs_state reservation \<noteq> Res_in_flight then Inl JournalInvariantError
     else if BigInt (rp_staging_fee plan) + BigInt (rp_recovery_fee plan)
             > BigInt (rp_cost_ceiling plan)
     then Inl PolicyReservationError
     else if ef_state effect \<noteq> Eff_planned \<and> ef_state effect \<noteq> Eff_retryable then Inr (J, None)
     else claimEffectInternal J effect holder ttlMs clock))))"

section \<open>What is observed of the race\<close>

record recovery_observation_input =
  oi_status :: recovery_status
  oi_evidence_digest :: string
  oi_readiness_proof :: "string option"
  oi_readiness_observed_at :: "int option"
  oi_readiness_expires_at :: "int option"
  oi_winning_transaction_id :: "string option"
  oi_winning_finality :: "string option"
  oi_recovery_outpoint :: "string option"
  oi_recovery_amount :: "string option"
  oi_conflict_reason :: "string option"

definition readiness_complete :: "recovery_observation_input \<Rightarrow> bool" where
  "readiness_complete i \<longleftrightarrow>
     truthy (oi_readiness_proof i)
     \<and> (case (oi_readiness_observed_at i, oi_readiness_expires_at i) of
          (Some a, Some b) \<Rightarrow> is_safe_integer a \<and> is_safe_integer b \<and> a < b
        | _ \<Rightarrow> False)"

definition no_readiness :: "recovery_observation_input \<Rightarrow> bool" where
  "no_readiness i \<longleftrightarrow>
     oi_readiness_proof i = None \<and> oi_readiness_observed_at i = None \<and> oi_readiness_expires_at i = None"

definition when_present :: "'a option \<Rightarrow> ('a \<Rightarrow> 'b result) \<Rightarrow> unit result" where
  "when_present x check = (case x of None \<Rightarrow> Inr () | Some y \<Rightarrow> rbind (check y) (\<lambda>_. Inr ()))"

definition validateTreasuryStagingRecoveryObservationInput ::
  "recovery_observation_input \<Rightarrow> unit result" where
  "validateTreasuryStagingRecoveryObservationInput i =
     rbind (assertDigest (oi_evidence_digest i)) (\<lambda>_.
     rbind (if oi_status i = Rec_safe_to_submit
            then (if readiness_complete i then assertDigest (the (oi_readiness_proof i))
                  else Inl JournalInvariantError)
            else require (no_readiness i) JournalInvariantError) (\<lambda>_.
     rbind (when_present (oi_winning_transaction_id i) assertTransactionId) (\<lambda>_.
     rbind (when_present (oi_winning_finality i) requirePaymentFinality) (\<lambda>_.
     rbind (when_present (oi_recovery_outpoint i) (\<lambda>s. assertSafeIdentity s 200)) (\<lambda>_.
     rbind (when_present (oi_recovery_amount i) (\<lambda>s. decimalBigInt s False)) (\<lambda>_.
       if oi_status i = Rec_conflict
       then (if truthy (oi_conflict_reason i) then assertCode (the (oi_conflict_reason i))
             else Inl JournalInvariantError)
       else require (oi_conflict_reason i = None) JournalInvariantError))))))"

definition recovery_observation_of ::
  "string \<Rightarrow> lease_token \<Rightarrow> recovery_observation_input \<Rightarrow> int \<Rightarrow> recovery_observation_row" where
  "recovery_observation_of effectId lease i now =
     \<lparr>ro_effect_id = effectId, ro_status = oi_status i, ro_evidence_digest = oi_evidence_digest i,
      ro_readiness_proof = oi_readiness_proof i,
      ro_readiness_observed_at = oi_readiness_observed_at i,
      ro_readiness_expires_at = oi_readiness_expires_at i,
      ro_winning_transaction_id = oi_winning_transaction_id i,
      ro_winning_finality = oi_winning_finality i, ro_recovery_outpoint = oi_recovery_outpoint i,
      ro_recovery_amount = oi_recovery_amount i, ro_conflict_reason = oi_conflict_reason i,
      ro_lease_name = lt_name lease, ro_lease_generation = lt_generation lease,
      ro_observed_at = now\<rparr>"

text \<open>
  \<open>INSERT OR IGNORE\<close>, unique in Effect, status and evidence; that the Effect has a plan is a foreign
  key, which \<open>OR IGNORE\<close> does not excuse.
\<close>

definition insert_recovery_observation :: "recovery_observation_row \<Rightarrow> journal \<Rightarrow> journal result" where
  "insert_recovery_observation row J =
     (if list_ex (\<lambda>r. ro_effect_id r = ro_effect_id row \<and> ro_status r = ro_status row
                      \<and> ro_evidence_digest r = ro_evidence_digest row) (recovery_observations J)
      then Inr J
      else if \<not> list_ex (\<lambda>p. rp_effect_id p = ro_effect_id row) (recovery_plans J)
      then Inl SqliteConstraintError
      else Inr (J\<lparr>recovery_observations := recovery_observations J @ [row]\<rparr>))"

section \<open>Accounting\<close>

definition findTreasuryStagingRecoveryAccounting ::
  "journal \<Rightarrow> string \<Rightarrow> recovery_accounting_row option" where
  "findTreasuryStagingRecoveryAccounting J effectId =
     find_row (\<lambda>r. ra_effect_id r = effectId) (recoveries J)"

definition accounting_of ::
  "recovery_plan \<Rightarrow> effect_row \<Rightarrow> int \<Rightarrow> string \<Rightarrow> string \<Rightarrow> int \<Rightarrow> recovery_accounting_row" where
  "accounting_of p effect n finality dig now =
     \<lparr>ra_effect_id = ef_id effect, ra_reservation_id = rp_reservation_id p,
      ra_purchase_id = ef_purchase_id effect, ra_attempt = n,
      ra_transaction_id = rp_recovery_transaction_id p, ra_outpoint = rp_recovery_outpoint p,
      ra_returned_amount = rp_recovery_amount p, ra_staging_fee = rp_staging_fee p,
      ra_recovery_fee = rp_recovery_fee p,
      ra_additional_cost = nat_to_string (BigInt (rp_staging_fee p) + BigInt (rp_recovery_fee p)),
      ra_finality = finality, ra_evidence_digest = dig, ra_observed_at = now\<rparr>"

text \<open>
  The constraints of the table: one row per Effect, reservation, transaction and outpoint, and the
  reservation belongs to the Purchase.
\<close>

definition accounting_conflict :: "journal \<Rightarrow> recovery_accounting_row \<Rightarrow> bool" where
  "accounting_conflict J a \<longleftrightarrow>
     list_ex (\<lambda>x. ra_effect_id x = ra_effect_id a \<or> ra_reservation_id x = ra_reservation_id a
                  \<or> ra_transaction_id x = ra_transaction_id a \<or> ra_outpoint x = ra_outpoint a)
       (recoveries J)
     \<or> \<not> list_ex (\<lambda>p. rp_effect_id p = ra_effect_id a) (recovery_plans J)
     \<or> \<not> list_ex (\<lambda>r. rs_id r = ra_reservation_id a \<and> rs_purchase_id r = ra_purchase_id a)
          (reservations J)"

text \<open>The attempt fails, unless it already has; backed by the recovery when it was submitted.\<close>

definition fail_recovered_attempt :: "journal \<Rightarrow> string \<Rightarrow> int \<Rightarrow> string \<Rightarrow> int \<Rightarrow> journal result" where
  "fail_recovered_attempt J p n dig now =
     rbind (requirePaymentAttempt J p n) (\<lambda>att.
     if at_state att = Att_failed then Inr J
     else transitionAttemptInternal J att Att_failed ''staging_recovered_without_payment'' (Some dig)
            now (Some ''staging_recovered_without_payment'') (at_state att = Att_submitted))"

text \<open>The Purchase, if it was left recoverable, expires; this is a transaction of its own clock.\<close>

definition expire_recovered_purchase ::
  "(string \<Rightarrow> string) \<Rightarrow> journal \<Rightarrow> string \<Rightarrow> string \<Rightarrow> int \<Rightarrow> journal result" where
  "expire_recovered_purchase H J p dig clock =
     rbind (requirePurchase J p) (\<lambda>purchase.
     if pu_state purchase = Pur_failed_recoverable
     then rbind (transitionPurchase H J p Pur_failed_recoverable Pur_expired
                   ''staging_recovered_without_payment'' (Some dig) clock) (\<lambda>(J1, _). Inr J1)
     else Inr J)"

definition same_accounting ::
  "recovery_accounting_row \<Rightarrow> recovery_plan \<Rightarrow> recovery_observation_input \<Rightarrow> bool" where
  "same_accounting existing p i \<longleftrightarrow>
     ra_transaction_id existing = rp_recovery_transaction_id p
     \<and> ra_outpoint existing = rp_recovery_outpoint p
     \<and> ra_returned_amount existing = rp_recovery_amount p
     \<and> Some (ra_finality existing) = oi_winning_finality i
     \<and> ra_evidence_digest existing = oi_evidence_digest i"

definition finalizeTreasuryStagingRecoveryInternal ::
  "(string \<Rightarrow> string) \<Rightarrow> journal \<Rightarrow> recovery_plan \<Rightarrow> effect_row \<Rightarrow> int \<Rightarrow> lease_token
    \<Rightarrow> recovery_observation_input \<Rightarrow> string \<Rightarrow> int \<Rightarrow> int \<Rightarrow> journal result" where
  "finalizeTreasuryStagingRecoveryInternal H J p effect n lease i finality now clock =
     (let dig = oi_evidence_digest i in
     case findTreasuryStagingRecoveryAccounting J (ef_id effect) of
       Some existing \<Rightarrow>
         rbind (require (same_accounting existing p i) JournalInvariantError) (\<lambda>_. Inr J)
     | None \<Rightarrow>
     rbind (requireReservation J (rp_reservation_id p)) (\<lambda>reservation.
     if rs_state reservation \<noteq> Res_in_flight then Inl JournalInvariantError
     else if BigInt (rp_staging_fee p) + BigInt (rp_recovery_fee p) > BigInt (rp_cost_ceiling p)
             \<or> rp_cost_ceiling p \<noteq> rs_additional_cost_ceiling reservation
     then Inl PolicyReservationError
     else
     let row = accounting_of p effect n finality dig now in
     if accounting_conflict J row then Inl SqliteConstraintError
     else if changes (\<lambda>r. rs_id r = rs_id reservation \<and> rs_state r = Res_in_flight)
               (reservations J) \<noteq> 1
     then Inl JournalInvariantError
     else
     let J1 = released_row (rs_id reservation) dig now (J\<lparr>recoveries := recoveries J @ [row]\<rparr>) in
     rbind (fail_recovered_attempt J1 (ef_purchase_id effect) n dig now) (\<lambda>J2.
     rbind (updateEffectState
              (insertEffectObservation (ef_id effect) EO_observed (Some dig) (Some dig) lease now J2)
              effect Eff_observed ''staging_recovery_finality_observed'' (Some dig) now
              (no_updates\<lparr>eu_result := Some dig\<rparr>)) (\<lambda>J3.
       expire_recovered_purchase H J3 (ef_purchase_id effect) dig clock))))"

section \<open>Recording an observation\<close>

text \<open>
  What an observation does to the Effect: an entry among the Effect's observations and a move,
  both with the evidence of the observation.
\<close>

definition observe_and_move ::
  "journal \<Rightarrow> effect_row \<Rightarrow> effect_observation_status \<Rightarrow> effect_state \<Rightarrow> string \<Rightarrow> string
    \<Rightarrow> lease_token \<Rightarrow> int \<Rightarrow> journal result" where
  "observe_and_move J effect status to_state reason dig lease now =
     updateEffectState (insertEffectObservation (ef_id effect) status None (Some dig) lease now J)
       effect to_state reason (Some dig) now no_updates"

definition waiting_for_finality ::
  "journal \<Rightarrow> effect_row \<Rightarrow> string \<Rightarrow> string \<Rightarrow> lease_token \<Rightarrow> int \<Rightarrow> journal result" where
  "waiting_for_finality J effect reason dig lease now =
     (if ef_state effect \<notin> {Eff_executing, Eff_submitted, Eff_ambiguous} then Inr J
      else if ef_state effect = Eff_ambiguous
      then Inr (insertEffectObservation (ef_id effect) EO_pending None (Some dig) lease now J)
      else observe_and_move J effect EO_pending Eff_ambiguous reason dig lease now)"

definition apply_recovery_observation ::
  "(string \<Rightarrow> string) \<Rightarrow> journal \<Rightarrow> recovery_plan \<Rightarrow> effect_row \<Rightarrow> int \<Rightarrow> lease_token
    \<Rightarrow> recovery_observation_input \<Rightarrow> int \<Rightarrow> int \<Rightarrow> journal result" where
  "apply_recovery_observation H J p effect n lease i now clock =
     (let dig = oi_evidence_digest i in
     case oi_status i of
       Rec_safe_to_submit \<Rightarrow>
         if starts_with ''purchase-reconciliation'' (lt_name lease)
            \<and> ef_state effect \<in> {Eff_executing, Eff_submitted, Eff_ambiguous}
         then observe_and_move J effect EO_not_found_retryable Eff_retryable
                ''observation_not_found_retryable'' dig lease now
         else Inr J
     | Rec_exact_payment_won \<Rightarrow>
         if \<not> truthy (rp_exact_transaction_id p)
            \<or> oi_winning_transaction_id i \<noteq> rp_exact_transaction_id p
         then Inl JournalInvariantError
         else (case oi_winning_finality i of
            None \<Rightarrow> Inl JournalInvariantError
          | Some finality \<Rightarrow>
              rbind (paymentFinalityMeets finality (rp_required_finality p)) (\<lambda>final.
              if final
              then updateEffectState
                     (insertEffectObservation (ef_id effect) EO_observed (Some dig) (Some dig) lease
                        now J)
                     effect Eff_observed ''exact_payment_won_staging_race'' (Some dig) now
                     (no_updates\<lparr>eu_result := Some dig\<rparr>)
              else waiting_for_finality J effect ''exact_payment_waiting_for_finality'' dig lease now))
     | Rec_recovery_won \<Rightarrow>
         if oi_winning_transaction_id i \<noteq> Some (rp_recovery_transaction_id p)
            \<or> oi_recovery_outpoint i \<noteq> Some (rp_recovery_outpoint p)
            \<or> oi_recovery_amount i \<noteq> Some (rp_recovery_amount p)
         then Inl JournalInvariantError
         else (case oi_winning_finality i of
            None \<Rightarrow> Inl JournalInvariantError
          | Some finality \<Rightarrow>
              rbind (paymentFinalityMeets finality (rp_required_finality p)) (\<lambda>final.
              if final
              then finalizeTreasuryStagingRecoveryInternal H J p effect n lease i finality now clock
              else waiting_for_finality J effect ''staging_recovery_waiting_for_finality'' dig lease
                     now))
     | Rec_conflict \<Rightarrow>
         if ef_state effect \<noteq> Eff_ambiguous
         then observe_and_move J effect EO_conflict Eff_ambiguous
                ''staging_recovery_requires_reobservation'' dig lease now
         else Inr J
     | Rec_pending \<Rightarrow>
         if ef_state effect \<in> {Eff_executing, Eff_submitted}
         then observe_and_move J effect EO_pending Eff_ambiguous ''staging_recovery_pending'' dig
                lease now
         else Inr J)"

text \<open>The context that is returned; its source output must still be there.\<close>

record recovery_context =
  rx_plan :: recovery_plan
  rx_effect :: effect_row
  rx_attempt :: attempt_row
  rx_reservation :: reservation_row
  rx_staging :: staging_observation_row
  rx_observations :: "recovery_observation_row list"
  rx_accounting :: "recovery_accounting_row option"

definition treasuryStagingRecoveryObservations ::
  "journal \<Rightarrow> string \<Rightarrow> recovery_observation_row list" where
  "treasuryStagingRecoveryObservations J effectId =
     filter (\<lambda>r. ro_effect_id r = effectId) (recovery_observations J)"

definition treasuryStagingRecoveryJournalContext ::
  "journal \<Rightarrow> string \<Rightarrow> int \<Rightarrow> recovery_context option result" where
  "treasuryStagingRecoveryJournalContext J purchaseId n =
     (case findTreasuryStagingRecoveryPlan J purchaseId n of
        None \<Rightarrow> Inr None
      | Some plan \<Rightarrow>
     (case findTreasuryStagingObservation J purchaseId n of
        None \<Rightarrow> Inl JournalInvariantError
      | Some staging \<Rightarrow>
     rbind (requireEffect J (rp_effect_id plan)) (\<lambda>effect.
     rbind (requirePaymentAttempt J purchaseId n) (\<lambda>att.
     rbind (requireReservation J (rp_reservation_id plan)) (\<lambda>reservation.
       Inr (Some \<lparr>rx_plan = plan, rx_effect = effect, rx_attempt = att,
          rx_reservation = reservation, rx_staging = staging,
          rx_observations = treasuryStagingRecoveryObservations J (rp_effect_id plan),
          rx_accounting = findTreasuryStagingRecoveryAccounting J (rp_effect_id plan)\<rparr>))))))"

definition recordTreasuryStagingRecoveryObservation ::
  "(string \<Rightarrow> string) \<Rightarrow> journal \<Rightarrow> string \<Rightarrow> lease_token \<Rightarrow> recovery_observation_input
    \<Rightarrow> int \<Rightarrow> int \<Rightarrow> int \<Rightarrow> int \<Rightarrow> (journal \<times> recovery_context option) result" where
  "recordTreasuryStagingRecoveryObservation H J effectId lease i clock0 clock1 clock2 clock =
     rbind (validateTreasuryStagingRecoveryObservationInput i) (\<lambda>_.
     rbind (assertEffectWriter J effectId lease clock0 clock1) (\<lambda>_.
     rbind (requireEffect J effectId) (\<lambda>effect.
     case ef_attempt effect of
       None \<Rightarrow> Inl JournalInvariantError
     | Some n \<Rightarrow>
     if ef_kind effect \<noteq> TREASURY_STAGING_RECOVERY_EFFECT_KIND then Inl JournalInvariantError
     else
     rbind (requireTreasuryStagingRecoveryPlan J (ef_purchase_id effect) n) (\<lambda>p.
     rbind (timestamp clock2) (\<lambda>now.
     rbind (insert_recovery_observation (recovery_observation_of effectId lease i now) J) (\<lambda>J1.
     rbind (apply_recovery_observation H J1 p effect n lease i now clock) (\<lambda>J2.
     rbind (treasuryStagingRecoveryJournalContext J2 (ef_purchase_id effect) n) (\<lambda>context.
       Inr (J2, context)))))))))"

section \<open>What a new plan presupposes\<close>

lemma sweep_source:
  assumes "planTreasuryStagingRecovery store J i lease fresh c0 c = Inr (J', plan)"
    and "find_row (\<lambda>e. ef_idempotency_key e = vi_idempotency_key i) (effects J) = None"
  shows "\<exists>staging pu. findTreasuryStagingObservation J (vi_purchase_id i) (vi_attempt i) = Some staging
    \<and> requirePurchase J (vi_purchase_id i) = Inr pu \<and> pu_state pu = Pur_failed_recoverable
    \<and> findSettlementForPurchase J (vi_purchase_id i) = None
    \<and> BigInt (vi_recovery_amount i) + BigInt (vi_recovery_fee i) = BigInt (so_staging_amount staging)"
proof -
  have "recovery_source J i = Inr ()"
    using assms by (auto simp: planTreasuryStagingRecovery_def Let_def split: if_splits)
  then show ?thesis
    by (auto simp del: requirePurchase_eq simp: recovery_source_def Let_def split: option.splits if_splits)
qed

end
