(* ===== verification/Recovery_Runs.thy ===== *)
theory Recovery_Runs
  imports Paper_Runs Recovery
begin

text \<open>
  The staging recovery as runs of journal steps: the sweep is planned with its Effect, claimed,
  and observed; the observation that ends it releases the reservation and accounts for the cost in
  one step (\<open>step_recover\<close>), fails the attempt and lets the Purchase expire.
\<close>

section \<open>Planning and claiming\<close>

lemma recovery_plan_steps:
  assumes "planTreasuryStagingRecovery store J i lease fresh c0 clock = Inr (J', r)"
  shows "steps clock J J'"
proof (cases "find_row (\<lambda>r. ef_idempotency_key r = vi_idempotency_key i) (effects J)")
  case (Some effect)
  then have "J' = J" using assms unfolding planTreasuryStagingRecovery_def Let_def
    by (auto split: option.splits if_splits)
  then show ?thesis by simp
next
  case None
  obtain stored d J1 plan where
    fresh: "effect_at J fresh = None" "effect_checks (new_effect (recovery_effect i) fresh stored clock)"
    and ins: "insertEffectTransition fresh None Eff_planned ''treasury_staging_recovery_planned'' d clock
      (J\<lparr>effects := effects J @ [new_effect (recovery_effect i) fresh stored clock]\<rparr>) = Inr J1"
    and plan: "insert_recovery_plan plan J1 = Inr J'"
    using assms None unfolding planTreasuryStagingRecovery_def Let_def
    by (simp split: if_splits) (elim exE conjE, rule that, assumption+)
  have "steps clock J J1"
    using planned_effect_steps [of fresh "''treasury_staging_recovery_planned''" d clock J
        "recovery_effect i" stored J1] ins fresh None
    by (simp add: recovery_effect_def)
  moreover have "J' = J1\<lparr>recovery_plans := recovery_plans J1 @ [plan]\<rparr>"
    using plan by (auto simp: insert_recovery_plan_def split: if_splits)
  then have "steps clock J1 J'" by (intro elsewhere_steps) (simp_all add: owned_tables_def trail_def)
  ultimately show ?thesis by (rule rtranclp_trans)
qed

lemma recovery_claim_steps:
  assumes "beginTreasuryStagingRecovery verified J effectId holder ttl clock = Inr (J', c)"
    and "journal_inv J"
  shows "steps clock J J'"
proof -
  from assms(1) obtain effect where at: "effect_at J effectId = Some effect"
    and "J' = J \<or> (\<exists>c. claimEffectInternal J effect holder ttl clock = Inr (J', c))"
    unfolding beginTreasuryStagingRecovery_def by (auto split: option.splits if_splits)
  moreover have "effect_at J (ef_id effect) = Some effect" using at effect_at_facts [OF at] by simp
  ultimately show ?thesis using claimEffect_steps [OF _ _ assms(2)] by auto
qed

section \<open>What an observation does\<close>

lemma observed_effect_steps:
  assumes "updateEffectState (insertEffectObservation e s a b lease now J) effect to_state reason d now u
      = Inr J'"
    and "effect_at J (ef_id effect) = Some effect" and "journal_inv J"
    and "to_state \<noteq> Eff_executing" "to_state \<noteq> Eff_planned"
  shows "steps now J J'"
proof -
  let ?K = "insertEffectObservation e s a b lease now J"
  have run: "steps now J ?K" by (rule observation_steps)
  have "effect_at ?K (ef_id effect) = Some effect"
    using assms(2) by (simp add: insertEffectObservation_def Let_def effect_at_def)
  then have "steps now ?K J'"
    using updateEffect_steps [OF assms(1) _ steps_inv [OF run assms(3)] assms(4,5)] by blast
  with run show ?thesis by (rule rtranclp_trans)
qed

lemma waiting_steps:
  assumes "waiting_for_finality J effect reason d lease now = Inr J'"
    and "effect_at J (ef_id effect) = Some effect" and "journal_inv J"
  shows "steps now J J'"
  using assms observed_effect_steps [OF _ assms(2,3)] observation_steps
  by (auto simp: waiting_for_finality_def observe_and_move_def split: if_splits)

lemma fail_recovered_steps:
  assumes "fail_recovered_attempt J p n d now = Inr J'"
  shows "steps now J J' \<and> outside_attempts J' = outside_attempts J"
proof -
  from assms obtain att where att: "findPaymentAttempt J p n = Some att"
    and "J' = J \<or> (\<exists>f b. transitionAttemptInternal J att Att_failed
      ''staging_recovered_without_payment'' (Some d) now f b = Inr J')"
    unfolding fail_recovered_attempt_def by (auto split: if_splits)
  then show ?thesis using transitionAttempt_steps [OF _ attempt_member [OF att]] by auto
qed

lemma expire_recovered_steps:
  "expire_recovered_purchase H J p d clock = Inr J' \<Longrightarrow> steps now J J'"
  using transitionPurchase_steps by (auto simp: expire_recovered_purchase_def split: if_splits)

lemma account_step:
  assumes inv: "journal_inv J" and res: "requireReservation J i = Inr reservation"
    and st: "rs_state reservation = Res_in_flight"
    and cost: "BigInt (rp_staging_fee p) + BigInt (rp_recovery_fee p)
      \<le> BigInt (rs_additional_cost_ceiling reservation)"
    and fresh: "\<not> accounting_conflict J (accounting_of p effect n finality d now)"
    and i: "i = rp_reservation_id p"
  shows "steps now J (released_row (rs_id reservation) d now
    (J\<lparr>recoveries := recoveries J @ [accounting_of p effect n finality d now]\<rparr>))"
proof -
  let ?a = "accounting_of p effect n finality d now"
  have found: "reservation \<in> set (reservations J)" "rs_id reservation = i"
    using res by (auto simp: requireReservation_def findReservation_def dest: find_row_SomeD
        split: option.splits)
  from fresh obtain r where r: "r \<in> set (reservations J)" "rs_id r = i"
      "rs_purchase_id r = ra_purchase_id ?a"
    by (auto simp: accounting_conflict_def accounting_of_def list_ex_iff i)
  have "r = reservation"
    using find_row_key_unique [of rs_id "reservations J" r] r(1,2) res inv_parts(6) [OF inv]
    by (auto simp: requireReservation_def findReservation_def reservations_inv_def split: option.splits)
  then have owner: "rs_purchase_id reservation = ra_purchase_id ?a" using r(3) by simp
  have id: "rs_id reservation = ra_reservation_id ?a" using found(2) i by (simp add: accounting_of_def)
  have "\<not> list_ex (\<lambda>x. ra_reservation_id x = ra_reservation_id ?a) (recoveries J)"
    using fresh by (auto simp: accounting_conflict_def list_ex_iff)
  moreover have "BigInt (ra_additional_cost ?a) \<le> BigInt (rs_additional_cost_ceiling reservation)"
    using cost by (simp add: accounting_of_def)
  ultimately show ?thesis
    unfolding id by (intro r_into_rtranclp step_recover [OF found(1) st id owner])
qed

lemma finalize_steps:
  assumes call: "finalizeTreasuryStagingRecoveryInternal H J p effect n lease i finality now clock = Inr J'"
    and at: "effect_at J (ef_id effect) = Some effect" and inv: "journal_inv J"
  shows "steps now J J'"
proof (cases "findTreasuryStagingRecoveryAccounting J (ef_id effect)")
  case (Some existing)
  then have "J' = J" using call by (auto simp: finalizeTreasuryStagingRecoveryInternal_def Let_def)
  then show ?thesis by simp
next
  case None
  let ?a = "accounting_of p effect n finality (oi_evidence_digest i) now"
  from call None obtain reservation J2 J3 s a b u where
    res: "requireReservation J (rp_reservation_id p) = Inr reservation"
      "rs_state reservation = Res_in_flight"
    and within: "BigInt (rp_staging_fee p) + BigInt (rp_recovery_fee p)
        \<le> BigInt (rs_additional_cost_ceiling reservation)"
    and fresh: "\<not> accounting_conflict J ?a"
    and att: "fail_recovered_attempt (released_row (rs_id reservation) (oi_evidence_digest i) now
        (J\<lparr>recoveries := recoveries J @ [?a]\<rparr>)) (ef_purchase_id effect) n (oi_evidence_digest i) now = Inr J2"
    and up: "updateEffectState (insertEffectObservation (ef_id effect) s a b lease now J2) effect
        Eff_observed ''staging_recovery_finality_observed'' (Some (oi_evidence_digest i)) now u = Inr J3"
    and pu: "expire_recovered_purchase H J3 (ef_purchase_id effect) (oi_evidence_digest i) clock = Inr J'"
    unfolding finalizeTreasuryStagingRecoveryInternal_def Let_def
    by (auto simp: not_less split: if_splits)
  let ?J1 = "released_row (rs_id reservation) (oi_evidence_digest i) now
    (J\<lparr>recoveries := recoveries J @ [?a]\<rparr>)"
  have s1: "steps now J ?J1" by (rule account_step [OF inv res within fresh refl])
  have s2: "steps now ?J1 J2" "outside_attempts J2 = outside_attempts ?J1"
    using fail_recovered_steps [OF att] by auto
  have run: "steps now J J2" using s1 s2(1) by (rule rtranclp_trans)
  have "effects J2 = effects J" using attempts_frame(3) [OF s2(2)] by (simp add: released_row_def)
  then have "effect_at J2 (ef_id effect) = Some effect" using at by (simp add: effect_at_def)
  then have "steps now J2 J3"
    by (rule observed_effect_steps [OF up _ steps_inv [OF run inv]]) simp_all
  with run expire_recovered_steps [OF pu, of now] show ?thesis by (meson rtranclp_trans)
qed

lemma apply_observation_steps:
  assumes "apply_recovery_observation H J p effect n lease i now clock = Inr J'"
    and "effect_at J (ef_id effect) = Some effect" and "journal_inv J"
  shows "steps now J J'"
proof -
  note moves = observed_effect_steps [OF _ assms(2,3)] waiting_steps [OF _ assms(2,3)]
    finalize_steps [OF _ assms(2,3)]
  show ?thesis
  proof (cases "oi_status i")
    case Rec_safe_to_submit
    with assms(1) moves show ?thesis
      by (auto simp: apply_recovery_observation_def Let_def observe_and_move_def split: if_splits)
  next
    case Rec_pending
    with assms(1) moves show ?thesis
      by (auto simp: apply_recovery_observation_def Let_def observe_and_move_def split: if_splits)
  next
    case Rec_exact_payment_won
    with assms(1) moves show ?thesis
      by (auto simp: apply_recovery_observation_def Let_def split: if_splits option.splits)
  next
    case Rec_recovery_won
    with assms(1) moves show ?thesis
      by (auto simp: apply_recovery_observation_def Let_def split: if_splits option.splits)
  next
    case Rec_conflict
    with assms(1) moves show ?thesis
      by (auto simp: apply_recovery_observation_def Let_def observe_and_move_def split: if_splits)
  qed
qed

lemma recovery_observed_steps:
  assumes call: "recordTreasuryStagingRecoveryObservation H J effectId lease i c0 c1 now clock = Inr (J', x)"
    and inv: "journal_inv J"
  shows "steps now J J'"
proof -
  from call obtain effect n p J1 where at: "effect_at J effectId = Some effect"
    and ins: "insert_recovery_observation (recovery_observation_of effectId lease i now) J = Inr J1"
    and app: "apply_recovery_observation H J1 p effect n lease i now clock = Inr J'"
    unfolding recordTreasuryStagingRecoveryObservation_def
    by (auto split: option.splits if_splits)
  have J1: "J1 = J \<or> J1 = J\<lparr>recovery_observations := recovery_observations J
      @ [recovery_observation_of effectId lease i now]\<rparr>"
    using ins by (auto simp: insert_recovery_observation_def split: if_splits)
  then have run: "steps now J J1"
    by (intro elsewhere_steps) (auto simp: owned_tables_def trail_def)
  have "effect_at J1 (ef_id effect) = Some effect"
    using J1 at effect_at_facts [OF at] by (auto simp: effect_at_def)
  with run show ?thesis
    using apply_observation_steps [OF app _ steps_inv [OF run inv]] by (meson rtranclp_trans)
qed

end
