(* ===== verification/Journal_Calls.thy ===== *)
theory Journal_Calls
  imports Journal_Rows Admission_Invariants Paper_Runs Recovery_Runs
begin

text \<open>
  The calls of the journal and the journals they reach. A call is made at a time no earlier
  than the last reading of the clock, and its own readings do not go back; the readings that
  only check a writer's lease or date a row of the paper trail are free. Operations of the journal that are not modelled appear
  as \<open>call_elsewhere\<close>, which may do anything to the tables none of the modelled operations
  owns; of the transactions of admission those that publish a Purchase are calls of their own.
\<close>

inductive journal_call :: "int \<Rightarrow> journal \<Rightarrow> int \<Rightarrow> journal \<Rightarrow> bool" for t J where
  call_operation: "t \<le> now \<Longrightarrow> operation_call now J J' \<Longrightarrow> journal_call t J now J'"
| call_reserve: "t \<le> now \<Longrightarrow> reservePolicy intact J i now = Inr (J', row) \<Longrightarrow> journal_call t J now J'"
| call_release_active:
    "t \<le> now \<Longrightarrow> releaseActiveReservation J i now = Inr (J', row) \<Longrightarrow> journal_call t J now J'"
| call_expire: "t \<le> now \<Longrightarrow> expireReservations J now = Inr (J', n) \<Longrightarrow> journal_call t J now J'"
| call_capacity: "t \<le> now \<Longrightarrow> policyCapacityUsed J now = Inr (J', n) \<Longrightarrow> journal_call t J now J'"
| call_pending:
    "t \<le> now \<Longrightarrow> treasuryPendingCapacityUsed J now = Inr (J', n) \<Longrightarrow> journal_call t J now J'"
| call_install: "t \<le> now \<Longrightarrow> installPolicy H J d now = Inr (J', p) \<Longrightarrow> journal_call t J now J'"
| call_activate:
    "t \<le> now \<Longrightarrow> activatePolicyIfCurrent H J dg d now = Inr (J', p) \<Longrightarrow> journal_call t J now J'"
| call_acquire_lease:
    "t \<le> now \<Longrightarrow> acquireLease J name holder ttl now = Inr (J', token) \<Longrightarrow> journal_call t J now J'"
| call_renew_lease:
    "t \<le> now \<Longrightarrow> renewLease J token0 ttl now = Inr (J', token1) \<Longrightarrow> journal_call t J now J'"
| call_release_lease:
    "t \<le> now \<Longrightarrow> releaseLease J token0 now = Inr (J', released) \<Longrightarrow> journal_call t J now J'"
| call_plan_effect:
    "t \<le> now \<Longrightarrow> planEffect store J ei fresh now = Inr (J', e) \<Longrightarrow> journal_call t J now J'"
| call_claim_effect:
    "t \<le> now \<Longrightarrow> claimEffect J eid holder ttl now = Inr (J', claim) \<Longrightarrow> journal_call t J now J'"
| call_effect_submitted:
    "t \<le> now \<Longrightarrow> markEffectSubmitted J eid lease dig c0 c1 now = Inr (J', e) \<Longrightarrow>
     journal_call t J now J'"
| call_effect_ambiguous:
    "t \<le> now \<Longrightarrow> markEffectAmbiguous J eid lease detail c0 c1 now = Inr (J', e) \<Longrightarrow>
     journal_call t J now J'"
| call_effect_observation:
    "t \<le> now \<Longrightarrow> recordEffectObservation J eid lease ob c0 c1 now = Inr (J', e) \<Longrightarrow>
     journal_call t J now J'"
| call_reconciliation:
    "t \<le> now \<Longrightarrow> recordReconciliation J lease p eo outcome detail c0 now = Inr (J', rr) \<Longrightarrow>
     journal_call t J now J'"
| call_create_attempt:
    "t \<le> now \<Longrightarrow> createPaymentAttempt H J ai now = Inr (J', a) \<Longrightarrow> journal_call t J now J'"
| call_fail_attempt:
    "t \<le> now \<Longrightarrow> failPaymentAttempt J p k expected code detail now = Inr (J', a) \<Longrightarrow>
     journal_call t J now J'"
| call_transition_purchase:
    "t \<le> now \<Longrightarrow> transitionPurchase H J p expected to_state reason detail now = Inr (J', pu) \<Longrightarrow>
     journal_call t J now J'"
| call_cancel_purchase:
    "t \<le> c0 \<Longrightarrow> c0 \<le> now \<Longrightarrow> cancelPurchaseBeforeExternalEffect H J p c0 now = Inr (J', pu) \<Longrightarrow>
     journal_call t J now J'"
| call_expire_purchase:
    "t \<le> c0 \<Longrightarrow> c0 \<le> now \<Longrightarrow> expirePurchaseBeforeTreasury H J p c0 now = Inr (J', pu) \<Longrightarrow>
     journal_call t J now J'"
| call_block_purchase:
    "t \<le> c0 \<Longrightarrow> c0 \<le> now \<Longrightarrow> blockExpiredStagedPurchase H J p c0 now = Inr (J', pu) \<Longrightarrow>
     journal_call t J now J'"
| call_abandon_payment:
    "t \<le> c0 \<Longrightarrow> c0 \<le> c1 \<Longrightarrow> c1 \<le> now \<Longrightarrow>
     abandonExpiredPreparedPayment H J eid i c0 c1 now = Inr (J', pu) \<Longrightarrow> journal_call t J now J'"
| call_abandon_staging:
    "t \<le> c0 \<Longrightarrow> c0 \<le> c1 \<Longrightarrow> c1 \<le> now \<Longrightarrow>
     abandonExpiredTreasuryStaging H J eid i c0 c1 now = Inr (J', pu) \<Longrightarrow> journal_call t J now J'"
| call_begin_payment:
    "t \<le> c0 \<Longrightarrow> c0 \<le> now \<Longrightarrow>
     beginPaymentSubmission intact verified J eid i holder ttl c0 now = Inr (J', claim) \<Longrightarrow>
     journal_call t J now J'"
| call_begin_staging:
    "t \<le> c0 \<Longrightarrow> c0 \<le> now \<Longrightarrow>
     beginTreasuryStaging verified J eid i holder ttl c0 now = Inr (J', claim) \<Longrightarrow>
     journal_call t J now J'"
| call_settle:
    "t \<le> now \<Longrightarrow> recordPurchaseSettlement intact J lease si c0 c1 now = Inr (J', s) \<Longrightarrow>
     journal_call t J now J'"
| call_release_in_flight:
    "t \<le> now \<Longrightarrow> releaseInFlightReservation J i eid lease dig c0 c1 now = Inr (J', row) \<Longrightarrow>
     journal_call t J now J'"
| call_create_purchase:
    "t \<le> now \<Longrightarrow> createPurchase admission pid parse_url J ci now = Inr (J', pu) \<Longrightarrow>
     journal_call t J now J'"
| call_commit_admission:
    "t \<le> now \<Longrightarrow> commitPurchaseAdmissionIntent intact' J adm w c0 c1 now = Inr (J', pu) \<Longrightarrow>
     journal_call t J now J'"
| call_bind_terms:
    "t \<le> now \<Longrightarrow> bindCheckoutTerms P J p ti c0 c1 c2 = Inr (J', ct) \<Longrightarrow> journal_call t J now J'"
| call_request:
    "t \<le> now \<Longrightarrow> recordAuthorizationRequest P J p qi c0 c1 c2 = Inr (J', ar) \<Longrightarrow>
     journal_call t J now J'"
| call_decide:
    "t \<le> now \<Longrightarrow> recordAuthorizationDecision P J p di c0 c1 c2 = Inr (J', au) \<Longrightarrow>
     journal_call t J now J'"
| call_fulfil:
    "t \<le> now \<Longrightarrow> recordFulfilment P J p fi kept c0 c1 = Inr (J', ff) \<Longrightarrow> journal_call t J now J'"
| call_receipt:
    "t \<le> now \<Longrightarrow> recordReceipt P J p ki c0 c1 = Inr (J', rc) \<Longrightarrow> journal_call t J now J'"
| call_prepare_payment:
    "t \<le> c0 \<Longrightarrow> c0 \<le> now \<Longrightarrow> preparePaymentAttempt store' intact J pi c0 now = Inr (J', pp) \<Longrightarrow>
     journal_call t J now J'"
| call_stage_treasury:
    "t \<le> now \<Longrightarrow> commitTreasuryStagingPreparation store' J lease gi fresh c0 now = Inr (J', sp) \<Longrightarrow>
     journal_call t J now J'"
| call_staging_observed:
    "t \<le> now \<Longrightarrow> recordObservedTreasuryStaging intact J lease gb c0 c1 now = Inr (J', so) \<Longrightarrow>
     journal_call t J now J'"
| call_plan_recovery:
    "t \<le> now \<Longrightarrow> planTreasuryStagingRecovery store' J vi lease fresh c0 now = Inr (J', rp) \<Longrightarrow>
     journal_call t J now J'"
| call_begin_recovery:
    "t \<le> now \<Longrightarrow> beginTreasuryStagingRecovery verified J eid holder ttl now = Inr (J', claim) \<Longrightarrow>
     journal_call t J now J'"
| call_recovery_observed:
    "t \<le> now \<Longrightarrow>
     recordTreasuryStagingRecoveryObservation H J eid lease oi c0 c1 now c2 = Inr (J', rx) \<Longrightarrow>
     journal_call t J now J'"
| call_elsewhere:
    "t \<le> now \<Longrightarrow> owned_tables J' = owned_tables J \<Longrightarrow> trail J' = trail J \<Longrightarrow>
     journal_call t J now J'"

inductive reachable :: "int \<Rightarrow> journal \<Rightarrow> bool" where
  reachable_empty: "reachable t empty_journal"
| reachable_call: "reachable t J \<Longrightarrow> journal_call t J u J' \<Longrightarrow> reachable u J'"

text \<open>From one journal to a later one.\<close>

inductive calls :: "int \<Rightarrow> journal \<Rightarrow> int \<Rightarrow> journal \<Rightarrow> bool" for t J where
  calls_none: "calls t J t J"
| calls_more: "calls t J u J' \<Longrightarrow> journal_call u J' v J'' \<Longrightarrow> calls t J v J''"

lemma calls_reachable: "calls t J u J' \<Longrightarrow> reachable t J \<Longrightarrow> reachable u J'"
  by (induction rule: calls.induct) (auto intro: reachable_call)

lemma run_at: "t \<le> now \<Longrightarrow> steps now J J' \<Longrightarrow> timed_run journal_step t J now J'"
  by (rule run_steps [OF run_start])

lemma run_from: "t \<le> c \<Longrightarrow> timed_run journal_step c J now J' \<Longrightarrow> timed_run journal_step t J now J'"
  by (rule timed_run_trans [OF _ run_wait [OF run_start]])

text \<open>What the other parts of the journal see of a transaction of admission.\<close>

definition governed :: "journal \<Rightarrow> journal \<times> checkout_terms_row list \<times> execution_plan_row list
    \<times> authorization_request_row list \<times> authorization_row list \<times> fulfilment_row list
    \<times> receipt_row list \<times> preparation_row list" where
  "governed J = (owned_tables J, trail J)"

lemma governed_steps: "governed J' = governed J \<Longrightarrow> steps now J J'"
  by (simp add: governed_def elsewhere_steps)

lemma governed_admission [simp]:
  "governed (update_leases p f J) = governed J" "governed (update_intents q g J) = governed J"
  "governed (insert_link l J) = governed J" "governed (J\<lparr>admission_leases := ls\<rparr>) = governed J"
  "governed (J\<lparr>artifacts := as\<rparr>) = governed J" "governed (J\<lparr>budget := b\<rparr>) = governed J"
  by (simp_all add: governed_def owned_tables_def trail_def update_leases_def update_intents_def
      insert_link_def)

lemma charge_governed: "charge_budget f now J = Inr J' \<Longrightarrow> governed J' = governed J"
  by (auto simp: charge_budget_def split: option.splits if_splits)

lemma settle_governed:
  assumes "settle_evidence_lease J m existed now = Inr J'"
  shows "governed J' = governed J"
proof -
  obtain l where l: "findLease J (''evidence:'' @ am_admission_id m) = Some l"
    using assms unfolding settle_evidence_lease_def Let_def by (auto split: option.splits)
  from assms show ?thesis
    unfolding settle_evidence_lease_def Let_def l option.case
    by (auto split: if_splits dest!: charge_governed)
qed

lemma new_purchase_steps:
  assumes "find_row (\<lambda>x. pu_id x = pu_id pu) (purchases J) = None" and "pu_state pu = Pur_created"
    and "pt_purchase_id pt = pu_id pu" and "pt_to pt = Pur_created"
    and "governed J' = governed
      (J\<lparr>purchases := purchases J @ [pu], purchase_log := purchase_log J @ [pt]\<rparr>)"
  shows "steps now J J'"
proof -
  let ?K = "J\<lparr>purchases := purchases J @ [pu], purchase_log := purchase_log J @ [pt]\<rparr>"
  have "purchase_delta J ?K"
    by (rule purchase_created [where r = pu and e = pt]) (use assms in simp_all)
  then have "journal_step now J ?K" by (rule step_purchase) simp
  then have "steps now J ?K" by (rule r_into_rtranclp)
  then show ?thesis using governed_steps [OF assms(5)] by (rule rtranclp_trans)
qed

lemma create_purchase_steps:
  assumes "createPurchase admission pid parse_url J input clock = Inr (J', r)"
  shows "steps now J J'"
proof (cases admission)
  case True
  then have "createPurchase True pid parse_url J input clock = Inr (J', r)" using assms by simp
  then show ?thesis
  proof (cases rule: createPurchase_cases)
    case (new b l)
    show ?thesis
      by (rule new_purchase_steps [of r J _ J'])
        (use new in \<open>simp_all add: findPurchase_def new_purchase_def governed_def owned_tables_def trail_def\<close>)
  qed simp
next
  case False
  have find: "findPurchase J (ci_id input) = None \<or> J' = J"
    using assms by (auto simp: createPurchase_def split: option.splits if_splits)
  have J': "J' = J \<or> J' = J\<lparr>purchases := purchases J @ [new_purchase input clock],
      purchase_log := purchase_log J @ [\<lparr>pt_purchase_id = ci_id input, pt_from = None,
            pt_to = Pur_created, pt_reason = ''purchase_created'', pt_detail = None,
            pt_created_at = clock\<rparr>]\<rparr>"
    using assms False
    by (auto simp: createPurchase_def admitPurchaseInternal_def completePurchaseAdmissionInternal_def
        insertPurchaseTransition_def split: option.splits if_splits)
  show ?thesis
  proof (cases "J' = J")
    case False
    then show ?thesis
      using J' find
      by (intro new_purchase_steps [of "new_purchase input clock" J _ J'])
        (auto simp: findPurchase_def new_purchase_def)
  qed simp
qed

lemma commit_admission_steps:
  assumes "commitPurchaseAdmissionIntent intact J i owner c0 c1 clock = Inr (J', r)"
  shows "steps now J J'"
proof -
  obtain m where m: "find_intent J i = Some m"
    using assms by (auto simp: commitPurchaseAdmissionIntent_def Let_def split: option.splits)
  show ?thesis
  proof (cases "am_state m = Adm_committed")
    case True
    then show ?thesis using assms m by (auto simp: commitPurchaseAdmissionIntent_def Let_def)
  next
    case False
    obtain ref J1 J2 J3 existed J4 where
      p: "publish_purchase J m clock = Inr J1" and c: "retain_count J1 m clock = Inr J2"
      and a: "find_or_insert_artifact J2 (am_evidence_digest m) (am_evidence_byte_length m) ref clock
        = Inr (J3, existed)"
      and s: "settle_evidence_lease (insert_link (intent_link m clock) J3) m existed clock = Inr J4"
      and J': "J' = update_intents (intent_here i)
                    (end_intent Adm_committed ''purchase_and_evidence_retained'' clock) J4"
      using assms m False unfolding commitPurchaseAdmissionIntent_def Let_def
      by (simp del: One_nat_def) blast
    have "governed J2 = governed J1" using c by (cases rule: retain_cases) simp_all
    moreover have "governed J3 = governed J2" using a by (cases rule: artifact_cases) simp_all
    ultimately have rest: "governed J' = governed J1" unfolding J' using settle_governed [OF s] by simp
    show ?thesis
    proof (cases "J1 = J")
      case True
      then show ?thesis using rest by (intro governed_steps) simp
    next
      case False
      then have "findPurchase J (am_purchase_id m) = None"
        and "J1 = J\<lparr>purchases := purchases J @ [new_purchase (intent_input m) clock],
          purchase_log := purchase_log J @ [\<lparr>pt_purchase_id = am_purchase_id m, pt_from = None,
            pt_to = Pur_created, pt_reason = ''purchase_created'', pt_detail = None,
            pt_created_at = clock\<rparr>]\<rparr>"
        using p by (auto simp: publish_purchase_def insertPurchaseTransition_def split: option.splits if_splits)
      then show ?thesis
        using rest
        by (intro new_purchase_steps [of "new_purchase (intent_input m) clock" J _ J'])
          (simp_all add: findPurchase_def new_purchase_def intent_input_def)
    qed
  qed
qed

lemma journal_call_run:
  assumes "journal_call t J u J'" and inv: "journal_inv J"
  shows "timed_run journal_step t J u J'"
  using assms(1)
proof cases
  case call_operation
  then show ?thesis using operation_call_steps inv by (blast intro: run_at)
next
  case call_reserve
  then show ?thesis using reserve_steps inv by (blast intro: run_at)
next
  case call_release_active
  then show ?thesis using release_active_steps by (blast intro: run_at)
next
  case call_expire
  then show ?thesis using expire_call_steps by (blast intro: run_at)
next
  case call_capacity
  then show ?thesis using capacity_query_steps(1) by (blast intro: run_at)
next
  case call_pending
  then show ?thesis using capacity_query_steps(2) by (blast intro: run_at)
next
  case call_install
  then show ?thesis using install_steps by (blast intro: run_at)
next
  case call_activate
  then show ?thesis using activate_current_steps by (blast intro: run_at)
next
  case call_acquire_lease
  then show ?thesis using effect_ok_steps lease_calls_ok(1) by (blast intro: run_at)
next
  case call_renew_lease
  then show ?thesis using effect_ok_steps lease_calls_ok(2) by (blast intro: run_at)
next
  case call_release_lease
  then show ?thesis using effect_ok_steps lease_calls_ok(3) by (blast intro: run_at)
next
  case call_plan_effect
  then show ?thesis using effect_ok_steps plan_effect_ok by (blast intro: run_at)
next
  case call_claim_effect
  then show ?thesis using effect_ok_steps claim_effect_ok inv_parts(2) [OF inv]
    by (blast intro: run_at)
next
  case call_effect_submitted
  then show ?thesis using effect_ok_steps mark_submitted_ok inv_parts(2) [OF inv]
    by (blast intro: run_at)
next
  case call_effect_ambiguous
  then show ?thesis using effect_ok_steps mark_ambiguous_ok inv_parts(2) [OF inv]
    by (blast intro: run_at)
next
  case call_effect_observation
  then show ?thesis using effect_ok_steps observation_ok inv_parts(2) [OF inv]
    by (blast intro: run_at)
next
  case call_reconciliation
  then show ?thesis using effect_ok_steps reconciliation_ok by (blast intro: run_at)
next
  case call_create_attempt
  then show ?thesis using create_attempt_steps by (blast intro: run_at)
next
  case call_fail_attempt
  then show ?thesis using fail_attempt_steps by (blast intro: run_at)
next
  case call_transition_purchase
  then show ?thesis using transitionPurchase_steps by (blast intro: run_at)
next
  case call_cancel_purchase
  then show ?thesis using cancel_run inv by (blast intro: run_from)
next
  case call_expire_purchase
  then show ?thesis using expire_purchase_run inv by (blast intro: run_from)
next
  case call_block_purchase
  then show ?thesis using block_run inv by (blast intro: run_from)
next
  case call_abandon_payment
  then show ?thesis using abandon_payment_run inv by (blast intro: run_from)
next
  case call_abandon_staging
  then show ?thesis using abandon_staging_run inv by (blast intro: run_from)
next
  case call_begin_payment
  then show ?thesis using begin_payment_run inv by (blast intro: run_from)
next
  case call_begin_staging
  then show ?thesis using begin_staging_run inv by (blast intro: run_from)
next
  case call_settle
  then show ?thesis using settle_steps inv by (blast intro: run_at)
next
  case call_release_in_flight
  then show ?thesis using release_in_flight_steps inv by (blast intro: run_at)
next
  case call_create_purchase
  then show ?thesis using create_purchase_steps by (blast intro: run_at)
next
  case call_commit_admission
  then show ?thesis using commit_admission_steps by (blast intro: run_at)
next
  case call_bind_terms
  then show ?thesis using bind_steps inv by (blast intro: run_at)
next
  case call_request
  then show ?thesis using request_steps by (blast intro: run_at)
next
  case call_decide
  then show ?thesis using decision_steps by (blast intro: run_at)
next
  case call_fulfil
  then show ?thesis using fulfilment_steps by (blast intro: run_at)
next
  case call_receipt
  then show ?thesis using receipt_steps by (blast intro: run_at)
next
  case (call_prepare_payment c0)
  then show ?thesis using prepare_steps by (blast intro: run_at order_trans)
next
  case call_stage_treasury
  then show ?thesis using stage_steps by (blast intro: run_at)
next
  case call_staging_observed
  then show ?thesis using stage_observed_steps inv by (blast intro: run_at)
next
  case call_plan_recovery
  then show ?thesis using recovery_plan_steps by (blast intro: run_at)
next
  case call_begin_recovery
  then show ?thesis using recovery_claim_steps inv by (blast intro: run_at)
next
  case call_recovery_observed
  then show ?thesis using recovery_observed_steps inv by (blast intro: run_at)
next
  case call_elsewhere
  then show ?thesis using elsewhere_steps by (blast intro: run_at)
qed

lemma run_inv: "timed_run journal_step t J u J' \<Longrightarrow> journal_inv J \<Longrightarrow> journal_inv J'"
  by (rule timed_run_invariant [of journal_step t J u J' journal_inv]) (auto intro: journal_step_inv)

lemma reachable_inv: "reachable t J \<Longrightarrow> journal_inv J"
  by (induction rule: reachable.induct) (auto intro: journal_inv_empty run_inv journal_call_run)

lemma reachable_some_steps: "reachable t J \<Longrightarrow> some_step\<^sup>*\<^sup>* empty_journal J"
proof (induction rule: reachable.induct)
  case (reachable_call t J u J')
  then show ?case
    using timed_run_untimed [OF journal_call_run] reachable_inv by (meson rtranclp_trans)
qed simp

lemma calls_steps:
  assumes "calls t J u J'" and "reachable t J"
  shows "some_step\<^sup>*\<^sup>* J J'"
  using assms(1)
proof (induction rule: calls.induct)
  case (calls_more u J' v J'')
  have "journal_inv J'" using reachable_inv calls_reachable calls_more(1) assms(2) by blast
  then show ?case
    using timed_run_untimed [OF journal_call_run [OF calls_more(2)]] calls_more(3) by simp
qed simp

lemma capacity_empty: "capacity t empty_journal = 0"
  by (simp add: capacity_parts empty_journal_def)

lemma reachable_capacity: "reachable t J \<Longrightarrow> capacity t J \<le> hourly_ceiling J"
proof (induction rule: reachable.induct)
  case (reachable_empty t)
  then show ?case by (simp add: capacity_empty)
next
  case (reachable_call t J u J')
  then show ?case
    using treasury_ledger.run_within_limit journal_call_run reachable_inv by blast
qed

lemma reachable_replays:
  assumes "reachable t J"
  shows "replays directTreasuryTransitionAllowed Op_intent (operation_log_pairs J) (operation_state_of J)"
    "replays effect_moves Eff_planned (effect_log_pairs J) (effect_state_of J)"
    "replays attempt_moves Att_planned (attempt_log_pairs J) (attempt_state_of J)"
    "replays purchase_moves Pur_created (purchase_log_pairs J) (purchase_state_of J)"
proof -
  note run = reachable_some_steps [OF assms]
  have e: "operation_log_pairs empty_journal = []" "operation_state_of empty_journal = (\<lambda>k. None)"
    "effect_log_pairs empty_journal = []" "effect_state_of empty_journal = (\<lambda>k. None)"
    "attempt_log_pairs empty_journal = []" "attempt_state_of empty_journal = (\<lambda>k. None)"
    "purchase_log_pairs empty_journal = []" "purchase_state_of empty_journal = (\<lambda>k. None)"
    by (simp_all add: empty_journal_def operation_log_pairs_def operation_state_of_def operation_at_def
        effect_log_pairs_def effect_state_of_def effect_at_def attempt_log_pairs_def
        attempt_state_of_def purchase_log_pairs_def purchase_state_of_def fun_eq_iff)
  show "replays directTreasuryTransitionAllowed Op_intent (operation_log_pairs J) (operation_state_of J)"
    using operation_history.run_replays [OF run journal_inv_empty] by (simp add: e replays_empty)
  show "replays effect_moves Eff_planned (effect_log_pairs J) (effect_state_of J)"
    using effect_history.run_replays [OF run journal_inv_empty] by (simp add: e replays_empty)
  show "replays attempt_moves Att_planned (attempt_log_pairs J) (attempt_state_of J)"
    using attempt_history.run_replays [OF run journal_inv_empty] by (simp add: e replays_empty)
  show "replays purchase_moves Pur_created (purchase_log_pairs J) (purchase_state_of J)"
    using purchase_history.run_replays [OF run journal_inv_empty] by (simp add: e replays_empty)
qed

section \<open>What a later journal still says\<close>

lemma later_operation:
  assumes "reachable t J" and "calls t J u J'" and "operation_at J k = Some r"
  shows "\<exists>r'. operation_at J' k = Some r' \<and> follows r r'"
  by (rule operation_rows.run_related [OF calls_steps [OF assms(2,1)] reachable_inv [OF assms(1)]
        assms(3), of follows, OF follows_refl follows_change])

lemma later_withdrawn:
  assumes "reachable t J" and "calls t J u J'" and "operation_at J k = Some r" and "withdrawn r"
  shows "\<exists>r'. operation_at J' k = Some r' \<and> withdrawn r'"
  by (rule operation_rows.run_related [OF calls_steps [OF assms(2,1)] reachable_inv [OF assms(1)]
        assms(3), of "\<lambda>_. withdrawn", OF assms(4) withdrawn_change])

lemma later_effect:
  assumes "reachable t J" and "calls t J u J'" and "effect_at J k = Some r"
  shows "\<exists>r'. effect_at J' k = Some r' \<and> same_effect r r'"
  by (rule effect_rows.run_related [OF calls_steps [OF assms(2,1)] reachable_inv [OF assms(1)]
        assms(3), of same_effect, OF same_effect_refl same_effect_change])

lemma later_reservation:
  assumes "reachable t J" and "calls t J u J'" and "findReservation J k = Some r"
  shows "\<exists>r'. findReservation J' k = Some r' \<and> reservation_later r r'"
  by (rule reservation_rows.run_related [OF calls_steps [OF assms(2,1)] reachable_inv [OF assms(1)]
        assms(3), of reservation_later, OF reservation_later_refl reservation_later_change])

lemma later_driver_fenced:
  assumes "reachable t J" and "calls t J u J'" and "g < driver_generation J k"
  shows "\<not> driver_holds J' k owner g c"
  using operation_driver.stale_token_fenced [OF reachable_inv [OF assms(1)] calls_steps [OF assms(2,1)]
      assms(3)] .

lemma later_lease_fenced:
  assumes "reachable t J" and "calls t J u J'" and "g < lease_generation J k"
  shows "\<not> lease_holds J' k holder g c"
proof -
  have inv: "journal_inv J" using reachable_inv assms(1) .
  then have "leases_ok J" by (simp add: journal_inv_def effects_inv_def)
  then show ?thesis
    using journal_lease.stale_token_fenced run_leases [OF calls_steps [OF assms(2,1)] inv] assms(3)
    by blast
qed

lemma later_policy_version:
  assumes "reachable t J" and "calls t J u J'"
  shows "policy_step\<^sup>*\<^sup>* J J'"
  by (rule run_policies [OF calls_steps [OF assms(2,1)]])

end
