(* ===== verification/Journal_Examples.thy ===== *)
theory Journal_Examples
  imports Journal_Calls
begin

text \<open>
  A concrete history of the journal, with which the properties are exercised: the treasury
  policy is installed, and a direct wallet send runs from its intent to completion. The hash
  and the stores are small concrete functions; every step is evaluated by the kernel.
\<close>

section \<open>Following a history\<close>

definition journal_after :: "(journal \<times> 'a) result \<Rightarrow> journal" where
  "journal_after r = (case r of Inl _ \<Rightarrow> empty_journal | Inr p \<Rightarrow> fst p)"

definition succeeded :: "'a result \<Rightarrow> bool" where
  "succeeded r = (case r of Inl _ \<Rightarrow> False | Inr _ \<Rightarrow> True)"

lemma succeeded_after: "succeeded r \<Longrightarrow> r = Inr (journal_after r, snd (projr r))"
  by (auto simp: succeeded_def journal_after_def split: sum.splits)

section \<open>A small environment\<close>

definition toy_hash :: "string \<Rightarrow> string" where
  "toy_hash s = ''sha256:'' @ replicate 42 (CHR ''A'') @ (if length s mod 2 = 0 then ''E'' else ''I'')"

definition toy_store :: "string \<Rightarrow> (string \<times> string \<times> int) option" where
  "toy_store bytes = Some (toy_hash bytes, ''prepared/1'', int (length bytes))"

definition toy_txid :: string where "toy_txid = replicate 64 (CHR ''a'')"

definition toy_policy :: policy_definition where
  "toy_policy = \<lparr>pd_max_per_payment = ''1000000'', pd_max_per_hour = ''2000000'', pd_allowlist = []\<rparr>"

definition toy_address :: string where "toy_address = ''kaspatest:qqqq''"

definition policy_journal :: journal where
  "policy_journal = journal_after (installPolicy toy_hash empty_journal toy_policy 1000)"

definition toy_policy_digest :: string where
  "toy_policy_digest = (case active policy_journal of None \<Rightarrow> [] | Some a \<Rightarrow> act_digest a)"

lemma policy_step_ok: "succeeded (installPolicy toy_hash empty_journal toy_policy 1000)"
  by code_simp

lemma policy_journal_reachable: "reachable 1000 policy_journal"
  unfolding policy_journal_def
  by (rule reachable_call [OF reachable_empty [of 0] call_install])
    (use succeeded_after [OF policy_step_ok] in auto)

section \<open>A direct Treasury Operation\<close>

definition toy_intent :: operation_intent where
  "toy_intent =
     \<lparr>in_key = ''send-1'', in_request_digest = toy_hash ''a'', in_kind = Wallet_send,
      in_destination = toy_address, in_requested_amount = ''500000'', in_keep_float = None,
      in_fee_ceiling = ''2000'', in_retry_limit = 3, in_policy_digest = toy_policy_digest,
      in_authorization_digest = None\<rparr>"

definition intent_journal :: journal where
  "intent_journal = journal_after (claimTreasuryOperationIntent policy_journal toy_intent 2000)"

lemma intent_step_ok: "succeeded (claimTreasuryOperationIntent policy_journal toy_intent 2000)"
  by code_simp

lemma intent_journal_reachable: "reachable 2000 intent_journal"
  unfolding intent_journal_def
  by (rule reachable_call [OF policy_journal_reachable call_operation])
    (use succeeded_after [OF intent_step_ok] in \<open>auto intro: call_claim_intent\<close>)

definition toy_driver :: driver_lease where
  "toy_driver = \<lparr>dl_owner = ''owner-a'', dl_generation = 1, dl_expires_at = 63000\<rparr>"

definition toy_prepared :: prepared_operation where
  "toy_prepared =
     \<lparr>pr_bytes = ''signed'', pr_transaction_id = toy_txid, pr_amount = ''500000'', pr_fee = ''1500'',
      pr_policy_digest = toy_policy_digest\<rparr>"

definition driver_journal :: journal where
  "driver_journal =
     journal_after (claimTreasuryOperationDriver intent_journal ''send-1'' ''owner-a'' 60000 3000)"

lemma driver_step_ok:
  "succeeded (claimTreasuryOperationDriver intent_journal ''send-1'' ''owner-a'' 60000 3000)"
  by code_simp

lemma driver_journal_reachable: "reachable 3000 driver_journal"
  unfolding driver_journal_def
  by (rule reachable_call [OF intent_journal_reachable call_operation])
    (use succeeded_after [OF driver_step_ok] in \<open>auto intro: call_claim_driver\<close>)

definition prepared_journal :: journal where
  "prepared_journal =
     journal_after (recordPreparedTreasuryOperation toy_hash toy_store driver_journal ''send-1''
        toy_prepared (Some toy_driver) 4000 4000)"

lemma prepared_step_ok:
  "succeeded (recordPreparedTreasuryOperation toy_hash toy_store driver_journal ''send-1''
        toy_prepared (Some toy_driver) 4000 4000)"
  by code_simp

lemma prepared_journal_reachable: "reachable 4000 prepared_journal"
  unfolding prepared_journal_def
  by (rule reachable_call [OF driver_journal_reachable call_operation])
    (use succeeded_after [OF prepared_step_ok] in \<open>auto intro: call_prepare\<close>)

definition planned_journal :: journal where
  "planned_journal =
     journal_after (planTreasuryOperationSubmission prepared_journal ''send-1'' (Some toy_driver) 5000 5000)"

lemma planned_step_ok:
  "succeeded (planTreasuryOperationSubmission prepared_journal ''send-1'' (Some toy_driver) 5000 5000)"
  by code_simp

lemma planned_journal_reachable: "reachable 5000 planned_journal"
  unfolding planned_journal_def
  by (rule reachable_call [OF prepared_journal_reachable call_operation])
    (use succeeded_after [OF planned_step_ok] in \<open>auto intro: call_plan\<close>)

definition capability_journal :: journal where
  "capability_journal =
     journal_after (claimTreasuryOperationEffectCapability planned_journal ''send-1'' toy_driver 6000 6000)"

lemma capability_step_ok:
  "succeeded (claimTreasuryOperationEffectCapability planned_journal ''send-1'' toy_driver 6000 6000)"
  by code_simp

lemma capability_journal_reachable: "reachable 6000 capability_journal"
  unfolding capability_journal_def
  by (rule reachable_call [OF planned_journal_reachable call_operation])
    (use succeeded_after [OF capability_step_ok] in \<open>auto intro: call_capability\<close>)

definition submitted_journal :: journal where
  "submitted_journal =
     journal_after (recordTreasuryOperationSubmissionAccepted capability_journal ''send-1'' toy_txid
        (Some toy_driver) 7000 7000)"

lemma submitted_step_ok:
  "succeeded (recordTreasuryOperationSubmissionAccepted capability_journal ''send-1'' toy_txid
        (Some toy_driver) 7000 7000)"
  by code_simp

lemma submitted_journal_reachable: "reachable 7000 submitted_journal"
  unfolding submitted_journal_def
  by (rule reachable_call [OF capability_journal_reachable call_operation])
    (use succeeded_after [OF submitted_step_ok] in \<open>auto intro: call_accepted\<close>)

definition observed_journal :: journal where
  "observed_journal =
     journal_after (recordTreasuryOperationObservation toy_hash submitted_journal ''send-1'' Obs_observed
        ''{}'' (Some toy_driver) 8000 8000)"

lemma observed_step_ok:
  "succeeded (recordTreasuryOperationObservation toy_hash submitted_journal ''send-1'' Obs_observed
        ''{}'' (Some toy_driver) 8000 8000)"
  by code_simp

lemma observed_journal_reachable: "reachable 8000 observed_journal"
  unfolding observed_journal_def
  by (rule reachable_call [OF submitted_journal_reachable call_operation])
    (use succeeded_after [OF observed_step_ok] in \<open>auto intro: call_observation\<close>)

definition completed_journal :: journal where
  "completed_journal =
     journal_after (completeTreasuryOperation observed_journal ''send-1'' (Some toy_driver) 9000 9000)"

lemma completed_step_ok:
  "succeeded (completeTreasuryOperation observed_journal ''send-1'' (Some toy_driver) 9000 9000)"
  by code_simp

lemma completed_journal_reachable: "reachable 9000 completed_journal"
  unfolding completed_journal_def
  by (rule reachable_call [OF observed_journal_reachable call_operation])
    (use succeeded_after [OF completed_step_ok] in \<open>auto intro: call_complete\<close>)

section \<open>From one journal of the history to a later one\<close>

lemma prepared_to_completed: "calls 4000 prepared_journal 9000 completed_journal"
proof -
  have "journal_call 4000 prepared_journal 5000 planned_journal"
    unfolding planned_journal_def
    by (rule call_operation) (use succeeded_after [OF planned_step_ok] in \<open>auto intro: call_plan\<close>)
  moreover have "journal_call 5000 planned_journal 6000 capability_journal"
    unfolding capability_journal_def
    by (rule call_operation)
      (use succeeded_after [OF capability_step_ok] in \<open>auto intro: call_capability\<close>)
  moreover have "journal_call 6000 capability_journal 7000 submitted_journal"
    unfolding submitted_journal_def
    by (rule call_operation)
      (use succeeded_after [OF submitted_step_ok] in \<open>auto intro: call_accepted\<close>)
  moreover have "journal_call 7000 submitted_journal 8000 observed_journal"
    unfolding observed_journal_def
    by (rule call_operation)
      (use succeeded_after [OF observed_step_ok] in \<open>auto intro: call_observation\<close>)
  moreover have "journal_call 8000 observed_journal 9000 completed_journal"
    unfolding completed_journal_def
    by (rule call_operation)
      (use succeeded_after [OF completed_step_ok] in \<open>auto intro: call_complete\<close>)
  ultimately show ?thesis by (meson calls_none calls_more)
qed

text \<open>What one stored row says, evaluated.\<close>

lemma row_facts:
  assumes "case operation_at J key of None \<Rightarrow> False | Some r \<Rightarrow> P r"
  shows "\<exists>r. operation_at J key = Some r \<and> P r"
  using assms by (auto split: option.splits)

lemma prepared_row:
  "\<exists>r. operation_at prepared_journal ''send-1'' = Some r \<and> op_fee r = Some ''1500''
     \<and> op_prepared_digest r \<noteq> None \<and> op_fee_ceiling r = ''2000''"
  by (rule row_facts) code_simp

section \<open>A cancellation after the preparation\<close>

definition cancelled_journal :: journal where
  "cancelled_journal =
     journal_after (cancelTreasuryOperation prepared_journal ''send-1'' 4500)"

lemma cancelled_step_ok:
  "succeeded (cancelTreasuryOperation prepared_journal ''send-1'' 4500)"
  by code_simp

lemma cancelled_journal_reachable: "reachable 4500 cancelled_journal"
  unfolding cancelled_journal_def
  by (rule reachable_call [OF prepared_journal_reachable call_operation])
    (use succeeded_after [OF cancelled_step_ok] in \<open>auto intro: call_cancel\<close>)

definition refused_journal :: journal where
  "refused_journal =
     journal_after (planTreasuryOperationSubmission cancelled_journal ''send-1'' (Some toy_driver) 5000 5000)"

lemma refused_step_ok:
  "succeeded (planTreasuryOperationSubmission cancelled_journal ''send-1'' (Some toy_driver) 5000 5000)"
  by code_simp

lemma refused_journal_reachable: "reachable 5000 refused_journal"
  unfolding refused_journal_def
  by (rule reachable_call [OF cancelled_journal_reachable call_operation])
    (use succeeded_after [OF refused_step_ok] in \<open>auto intro: call_plan\<close>)

lemma cancelled_row:
  "\<exists>r. operation_at cancelled_journal ''send-1'' = Some r \<and> op_cancellation_requested r
     \<and> op_state r = Op_prepared"
  by (rule row_facts) code_simp

lemma cancelled_to_refused: "calls 4500 cancelled_journal 5000 refused_journal"
proof -
  have "journal_call 4500 cancelled_journal 5000 refused_journal"
    unfolding refused_journal_def
    by (rule call_operation) (use succeeded_after [OF refused_step_ok] in \<open>auto intro: call_plan\<close>)
  then show ?thesis by (meson calls_none calls_more)
qed

section \<open>A takeover of the driver\<close>

text \<open>The first driver's lease ran out at 63000; at 70000 another driver takes the operation.\<close>

definition takeover_journal :: journal where
  "takeover_journal =
     journal_after (claimTreasuryOperationDriver planned_journal ''send-1'' ''owner-b'' 60000 70000)"

lemma takeover_step_ok:
  "succeeded (claimTreasuryOperationDriver planned_journal ''send-1'' ''owner-b'' 60000 70000)"
  by code_simp

lemma takeover_journal_reachable: "reachable 70000 takeover_journal"
  unfolding takeover_journal_def
  by (rule reachable_call [OF planned_journal_reachable call_operation])
    (use succeeded_after [OF takeover_step_ok] in \<open>auto intro: call_claim_driver\<close>)

lemma takeover_row:
  "\<exists>r. operation_at takeover_journal ''send-1'' = Some r \<and> dl_generation toy_driver < op_driver_generation r"
  by (rule row_facts) code_simp

lemma driver_row:
  "\<exists>r. operation_at driver_journal ''send-1'' = Some r \<and> op_driver_owner r = Some ''owner-a''
     \<and> lease_live 5000 r"
  by (rule row_facts) code_simp

section \<open>A named lease\<close>

definition lease_journal :: journal where
  "lease_journal =
     journal_after (acquireLease policy_journal ''purchase-reconciliation'' ''worker-1'' 1000 2000)"

lemma lease_step_succeeded:
  "succeeded (acquireLease policy_journal ''purchase-reconciliation'' ''worker-1'' 1000 2000)"
  by code_simp

lemma lease_journal_reachable: "reachable 2000 lease_journal"
  unfolding lease_journal_def
  by (rule reachable_call [OF policy_journal_reachable call_acquire_lease])
    (use succeeded_after [OF lease_step_succeeded] in auto)

definition first_token :: lease_token where
  "first_token = \<lparr>lt_name = ''purchase-reconciliation'', lt_holder = ''worker-1'', lt_generation = 1,
                  lt_expires_at = 3000\<rparr>"

definition second_lease_journal :: journal where
  "second_lease_journal =
     journal_after (acquireLease lease_journal ''purchase-reconciliation'' ''worker-2'' 1000 4000)"

lemma second_lease_ok:
  "succeeded (acquireLease lease_journal ''purchase-reconciliation'' ''worker-2'' 1000 4000)"
  by code_simp

lemma second_lease_reachable: "reachable 4000 second_lease_journal"
  unfolding second_lease_journal_def
  by (rule reachable_call [OF lease_journal_reachable call_acquire_lease])
    (use succeeded_after [OF second_lease_ok] in auto)

section \<open>A second policy\<close>

definition wider_policy :: policy_definition where
  "wider_policy = \<lparr>pd_max_per_payment = ''1500000'', pd_max_per_hour = ''3000000'', pd_allowlist = []\<rparr>"

definition longer_hash :: "string \<Rightarrow> string" where
  "longer_hash s = ''sha256:'' @ replicate 42 (CHR ''B'') @ ''E''"

lemma wider_step_ok:
  "succeeded (activatePolicyIfCurrent longer_hash policy_journal toy_policy_digest wider_policy 5000)"
  by code_simp

definition wider_journal :: journal where
  "wider_journal =
     journal_after (activatePolicyIfCurrent longer_hash policy_journal toy_policy_digest wider_policy 5000)"

end
