(* ===== verification/Purchase_Examples.thy ===== *)
theory Purchase_Examples
  imports Journal_Examples Contract_Examples
begin

text \<open>
  A concrete Purchase, from its creation under an installed policy to its Receipt: terms, request,
  approval, reservation, attempt, preparation, submission, settlement, Fulfilment. Every step is
  evaluated by the kernel; the evidence is attached by a step outside the modelled tables.
\<close>

abbreviation digest_of :: "string \<Rightarrow> string" where
  "digest_of \<equiv> evidenceDigest raw_hash"

text \<open>
  Each journal is written out, and the step that leads to it is evaluated from the one before.
\<close>

definition steps_to :: "(journal \<times> 'a) result \<Rightarrow> journal \<Rightarrow> bool" where
  "steps_to r J \<longleftrightarrow> (case r of Inl _ \<Rightarrow> False | Inr (J', _) \<Rightarrow> J' = J)"

lemma steps_to_result: "steps_to r J \<Longrightarrow> r = Inr (J, snd (projr r))"
  by (auto simp: steps_to_def split: sum.splits)

definition dg :: "char \<Rightarrow> string" where
  "dg c = ''sha256:'' @ replicate 41 (CHR ''A'') @ [c, CHR ''E'']"

definition buy_txid :: string where "buy_txid = replicate 64 (CHR ''d'')"

section \<open>The Purchase and its evidence\<close>

definition item_fingerprint :: string where
  "item_fingerprint = projr (requestFingerprintFromBodyDigest raw_hash toy_url
     ''https://shop.example/item'' ''GET'' None (digest_of ''''))"

definition buy_input :: purchase_input where
  "buy_input = toy_input\<lparr>ci_resource_fingerprint := item_fingerprint\<rparr>"

definition buy_policies_1 :: "policy_snapshot list" where
  "buy_policies_1 = [\<lparr>pol_digest = toy_policy_digest, pol_version = 1,
  pol_max_per_payment = ''1000000'', pol_max_per_hour = ''2000000'', pol_allowlist = [],
  pol_activated_at = 1000\<rparr>]"

definition buy_active_1 :: "active_policy option" where
  "buy_active_1 = Some \<lparr>act_digest = toy_policy_digest, act_updated_at = 1000,
  act_generation = 1\<rparr>"

definition buy_purchases_1 :: "purchase_row list" where
  "buy_purchases_1 = [\<lparr>pu_id = toy_purchase_id, pu_request_key = ''order-0001'',
  pu_resource_url = ''https://shop.example/item'', pu_method = ''GET'', pu_resource_fingerprint
  = (dg (CHR ''0'')), pu_expected_merchant_id = None, pu_expected_merchant_origin = None,
  pu_state = Pur_created, pu_version = 0, pu_created_at = 2000, pu_updated_at = 2000\<rparr>]"

definition buy_purchase_log_1 :: "purchase_transition_row list" where
  "buy_purchase_log_1 = [\<lparr>pt_purchase_id = toy_purchase_id, pt_from = None, pt_to =
  Pur_created, pt_reason = ''purchase_created'', pt_detail = None, pt_created_at =
  2000\<rparr>]"

definition created_stage :: journal where
  "created_stage = empty_journal\<lparr>policies := buy_policies_1, active := buy_active_1,
  purchases := buy_purchases_1, purchase_log := buy_purchase_log_1\<rparr>"

lemma created_step:
  "steps_to (createPurchase False ''1'' toy_url policy_journal buy_input 2000) created_stage"
  by code_simp

lemma created_stage_reachable: "reachable 2000 created_stage"
  by (rule reachable_call [OF policy_journal_reachable call_create_purchase])
    (use steps_to_result [OF created_step] in auto)

definition buy_terms :: terms where
  "buy_terms = toy_terms\<lparr>ts_resource_fingerprint := item_fingerprint,
     ts_checkout_digest := digest_of ''c''\<rparr>"

definition buy_plan :: execution_plan where
  "buy_plan = toy_plan\<lparr>pl_requirements_digest := digest_of ''rr''\<rparr>"

definition buy_plan_text :: string where
  "buy_plan_text = json_text (plan_json buy_plan)"

definition buy_artifacts_1 :: "evidence_artifact_row list" where
  "buy_artifacts_1 = [\<lparr>ea_digest = (dg (CHR ''B'')), ea_media_type = ''t/j'', ea_profile
  = ''p:checkout'', ea_issuer = Some ''shop'', ea_byte_length = 1, ea_storage_ref = ''b'',
  ea_created_at = 2500\<rparr>, \<lparr>ea_digest = (dg (CHR ''C'')), ea_media_type = ''t/j'',
  ea_profile = ''p:requirements'', ea_issuer = Some ''shop'', ea_byte_length = 2, ea_storage_ref
  = ''b'', ea_created_at = 2500\<rparr>, \<lparr>ea_digest = (dg (CHR ''H'')), ea_media_type =
  ''t/j'', ea_profile = ''urn:sompi:purchase-execution-plan:1'', ea_issuer = Some
  ''sompi-purchase-module'', ea_byte_length = 199, ea_storage_ref = ''b'', ea_created_at =
  2500\<rparr>, \<lparr>ea_digest = (dg (CHR ''A'')), ea_media_type = ''t/j'', ea_profile =
  ''p:body'', ea_issuer = Some ''sompi'', ea_byte_length = 0, ea_storage_ref = ''b'',
  ea_created_at = 2500\<rparr>, \<lparr>ea_digest = (dg (CHR ''D'')), ea_media_type = ''t/j'',
  ea_profile = ''p:request'', ea_issuer = Some ''sompi'', ea_byte_length = 3, ea_storage_ref =
  ''b'', ea_created_at = 2500\<rparr>, \<lparr>ea_digest = (dg (CHR ''E'')), ea_media_type =
  ''t/j'', ea_profile = ''p:approval'', ea_issuer = Some ''owner'', ea_byte_length = 4,
  ea_storage_ref = ''b'', ea_created_at = 2500\<rparr>, \<lparr>ea_digest = (dg (CHR ''F'')),
  ea_media_type = ''t/j'', ea_profile = ''p:settlement'', ea_issuer = Some ''chain'',
  ea_byte_length = 5, ea_storage_ref = ''b'', ea_created_at = 2500\<rparr>, \<lparr>ea_digest =
  (dg (CHR ''G'')), ea_media_type = ''t/j'', ea_profile = ''p:body'', ea_issuer = Some ''shop'',
  ea_byte_length = 6, ea_storage_ref = ''b'', ea_created_at = 2500\<rparr>, \<lparr>ea_digest =
  (dg (CHR ''K'')), ea_media_type = ''t/j'', ea_profile = ''p:fulfilment'', ea_issuer = Some
  ''shop'', ea_byte_length = 10, ea_storage_ref = ''b'', ea_created_at = 2500\<rparr>,
  \<lparr>ea_digest = (dg (CHR ''I'')), ea_media_type = ''t/j'', ea_profile =
  ''urn:sompi:receipt:purchase:1'', ea_issuer = Some ''shop'', ea_byte_length = 8,
  ea_storage_ref = ''b'', ea_created_at = 2500\<rparr>]"

definition buy_evidence_links_1 :: "evidence_link_row list" where
  "buy_evidence_links_1 = [\<lparr>el_purchase_id = toy_purchase_id, el_digest = (dg (CHR
  ''B'')), el_kind = ''checkout-terms'', el_attempt = None, el_media_type = ''t/j'', el_profile
  = ''p:checkout'', el_issuer = Some ''shop'', el_attached_at = 2500\<rparr>,
  \<lparr>el_purchase_id = toy_purchase_id, el_digest = (dg (CHR ''C'')), el_kind =
  ''payment-requirements'', el_attempt = None, el_media_type = ''t/j'', el_profile =
  ''p:requirements'', el_issuer = Some ''shop'', el_attached_at = 2500\<rparr>,
  \<lparr>el_purchase_id = toy_purchase_id, el_digest = (dg (CHR ''H'')), el_kind =
  ''execution-plan'', el_attempt = None, el_media_type = ''t/j'', el_profile =
  ''urn:sompi:purchase-execution-plan:1'', el_issuer = Some ''sompi-purchase-module'',
  el_attached_at = 2500\<rparr>, \<lparr>el_purchase_id = toy_purchase_id, el_digest = (dg (CHR
  ''A'')), el_kind = ''purchase-request-body'', el_attempt = None, el_media_type = ''t/j'',
  el_profile = ''p:body'', el_issuer = Some ''sompi'', el_attached_at = 2500\<rparr>,
  \<lparr>el_purchase_id = toy_purchase_id, el_digest = (dg (CHR ''D'')), el_kind =
  ''authorization-request'', el_attempt = None, el_media_type = ''t/j'', el_profile =
  ''p:request'', el_issuer = Some ''sompi'', el_attached_at = 2500\<rparr>,
  \<lparr>el_purchase_id = toy_purchase_id, el_digest = (dg (CHR ''E'')), el_kind =
  ''purchase-authorization'', el_attempt = None, el_media_type = ''t/j'', el_profile =
  ''p:approval'', el_issuer = Some ''owner'', el_attached_at = 2500\<rparr>,
  \<lparr>el_purchase_id = toy_purchase_id, el_digest = (dg (CHR ''F'')), el_kind =
  ''kaspa-settlement'', el_attempt = Some 1, el_media_type = ''t/j'', el_profile =
  ''p:settlement'', el_issuer = Some ''chain'', el_attached_at = 2500\<rparr>,
  \<lparr>el_purchase_id = toy_purchase_id, el_digest = (dg (CHR ''G'')), el_kind =
  ''fulfilment-body'', el_attempt = Some 1, el_media_type = ''t/j'', el_profile = ''p:body'',
  el_issuer = Some ''shop'', el_attached_at = 2500\<rparr>, \<lparr>el_purchase_id =
  toy_purchase_id, el_digest = (dg (CHR ''K'')), el_kind = ''merchant-fulfilment'', el_attempt =
  Some 1, el_media_type = ''t/j'', el_profile = ''p:fulfilment'', el_issuer = Some ''shop'',
  el_attached_at = 2500\<rparr>, \<lparr>el_purchase_id = toy_purchase_id, el_digest = (dg (CHR
  ''I'')), el_kind = ''purchase-receipt'', el_attempt = None, el_media_type = ''t/j'',
  el_profile = ''urn:sompi:receipt:purchase:1'', el_issuer = Some ''shop'', el_attached_at =
  2500\<rparr>]"

definition buy_evidence_verifications_1 :: "evidence_verification_row list" where
  "buy_evidence_verifications_1 = [\<lparr>ev_digest = (dg (CHR ''B'')), ev_verifier_id =
  ''verifier'', ev_profile = ''p:checkout'', ev_detail_digest = ''ok'', ev_verified_at =
  2500\<rparr>, \<lparr>ev_digest = (dg (CHR ''C'')), ev_verifier_id = ''verifier'', ev_profile
  = ''p:requirements'', ev_detail_digest = ''ok'', ev_verified_at = 2500\<rparr>,
  \<lparr>ev_digest = (dg (CHR ''H'')), ev_verifier_id = ''verifier'', ev_profile =
  ''urn:sompi:purchase-execution-plan:1'', ev_detail_digest = ''ok'', ev_verified_at =
  2500\<rparr>, \<lparr>ev_digest = (dg (CHR ''A'')), ev_verifier_id = ''verifier'', ev_profile
  = ''p:body'', ev_detail_digest = ''ok'', ev_verified_at = 2500\<rparr>, \<lparr>ev_digest =
  (dg (CHR ''D'')), ev_verifier_id = ''verifier'', ev_profile = ''p:request'', ev_detail_digest
  = ''ok'', ev_verified_at = 2500\<rparr>, \<lparr>ev_digest = (dg (CHR ''E'')), ev_verifier_id
  = ''verifier'', ev_profile = ''p:approval'', ev_detail_digest = ''ok'', ev_verified_at =
  2500\<rparr>, \<lparr>ev_digest = (dg (CHR ''F'')), ev_verifier_id = ''verifier'', ev_profile
  = ''p:settlement'', ev_detail_digest = ''ok'', ev_verified_at = 2500\<rparr>,
  \<lparr>ev_digest = (dg (CHR ''G'')), ev_verifier_id = ''verifier'', ev_profile = ''p:body'',
  ev_detail_digest = ''ok'', ev_verified_at = 2500\<rparr>, \<lparr>ev_digest = (dg (CHR
  ''K'')), ev_verifier_id = ''verifier'', ev_profile = ''p:fulfilment'', ev_detail_digest =
  ''ok'', ev_verified_at = 2500\<rparr>, \<lparr>ev_digest = (dg (CHR ''I'')), ev_verifier_id =
  ''verifier'', ev_profile = ''urn:sompi:receipt:purchase:1'', ev_detail_digest = ''ok'',
  ev_verified_at = 2500\<rparr>]"

definition evidenced_stage :: journal where
  "evidenced_stage = empty_journal\<lparr>policies := buy_policies_1, active := buy_active_1,
  purchases := buy_purchases_1, purchase_log := buy_purchase_log_1, artifacts :=
  buy_artifacts_1, evidence_links := buy_evidence_links_1, evidence_verifications :=
  buy_evidence_verifications_1\<rparr>"

lemma evidenced_stage_reachable: "reachable 2500 evidenced_stage"
  by (rule reachable_call [OF created_stage_reachable call_elsewhere])
    (simp_all add: owned_tables_def trail_def created_stage_def evidenced_stage_def)

section \<open>Terms, request, approval\<close>

definition buy_json :: json where
  "buy_json = J_object
     [(''profile'', J_string PURCHASE_AUTHORIZATION_REQUEST_PROFILE),
      (''operatorFinalityFloor'', J_string ''accepted''),
      (''effectiveFinalityFloor'', J_string ''accepted''),
      (''depthConfirmationDaa'', J_string ''10''), (''settlementAssurance'', J_string ''accepted'')]"

definition buy_platform :: platform where
  "buy_platform = \<lparr>pf_hash = raw_hash, pf_url = toy_url, pf_date = toy_date,
     pf_json = (\<lambda>_. Some buy_json), pf_intact = (\<lambda>_ _. True), pf_read = (\<lambda>_ _. Some ''qqq'')\<rparr>"

definition buy_terms_input :: terms_input where
  "buy_terms_input = \<lparr>ti_terms = buy_terms, ti_checkout_evidence = digest_of ''c'',
     ti_checkout_profile = ''p:checkout'', ti_checkout_verifier = ''verifier'',
     ti_requirements_digest = digest_of ''rr'', ti_requirements_profile = ''p:requirements'',
     ti_requirements_verifier = ''verifier'', ti_plan = buy_plan,
     ti_plan_evidence = digest_of buy_plan_text\<rparr>"

definition buy_purchases_2 :: "purchase_row list" where
  "buy_purchases_2 = [\<lparr>pu_id = toy_purchase_id, pu_request_key = ''order-0001'',
  pu_resource_url = ''https://shop.example/item'', pu_method = ''GET'', pu_resource_fingerprint
  = (dg (CHR ''0'')), pu_expected_merchant_id = None, pu_expected_merchant_origin = None,
  pu_state = Pur_terms_bound, pu_version = 1, pu_created_at = 2000, pu_updated_at =
  3000\<rparr>]"

definition buy_purchase_log_2 :: "purchase_transition_row list" where
  "buy_purchase_log_2 = buy_purchase_log_1 @ [\<lparr>pt_purchase_id = toy_purchase_id, pt_from
  = Some Pur_created, pt_to = Pur_terms_bound, pt_reason = ''checkout_terms_bound'', pt_detail =
  Some (dg (CHR ''B'')), pt_created_at = 3000\<rparr>]"

definition buy_checkout_terms_1 :: "checkout_terms_row list" where
  "buy_checkout_terms_1 = [\<lparr>ct_purchase_id = toy_purchase_id, ct_merchant_id = ''shop'',
  ct_merchant_name = ''Shop'', ct_merchant_origin = ''https://shop.example'',
  ct_resource_fingerprint = (dg (CHR ''0'')), ct_amount = ''500000'', ct_asset = ''KAS'',
  ct_network = ''kaspa:testnet-10'', ct_pay_to = ''kaspatest:qqqq'', ct_expires_at_text =
  ''2026-01-01T00:00:00Z'', ct_expires_at = 90000, ct_checkout_digest = (dg (CHR ''B'')),
  ct_checkout_evidence_digest = (dg (CHR ''B'')), ct_checkout_profile = ''p:checkout'',
  ct_checkout_verifier = ''verifier'', ct_requirements_digest = (dg (CHR ''C'')),
  ct_requirements_profile = ''p:requirements'', ct_requirements_verifier = ''verifier'',
  ct_created_at = 3000\<rparr>]"

definition buy_execution_plans_1 :: "execution_plan_row list" where
  "buy_execution_plans_1 = [\<lparr>xp_purchase_id = toy_purchase_id, xp_plan_digest = (dg (CHR
  ''H'')), xp_mechanism = Single_transaction, xp_profile = ''urn:x402:exact'',
  xp_requirements_digest = (dg (CHR ''C'')), xp_maximum_charge = ''500000'', xp_assurance =
  Assure_accepted, xp_channel_id = None, xp_active_txid = None, xp_active_output_index = None,
  xp_active_script = None, xp_channel_funding = None, xp_refund_timeout_daa = None,
  xp_claim_fee_reserve = None, xp_created_at = 3000\<rparr>]"

definition terms_stage :: journal where
  "terms_stage = empty_journal\<lparr>policies := buy_policies_1, active := buy_active_1,
  purchases := buy_purchases_2, purchase_log := buy_purchase_log_2, checkout_terms :=
  buy_checkout_terms_1, artifacts := buy_artifacts_1, evidence_links := buy_evidence_links_1,
  evidence_verifications := buy_evidence_verifications_1, execution_plans :=
  buy_execution_plans_1\<rparr>"

lemma terms_step:
  "steps_to (bindCheckoutTerms buy_platform evidenced_stage toy_purchase_id buy_terms_input 3000 3000 3000) terms_stage"
  by code_simp

lemma terms_stage_reachable: "reachable 3000 terms_stage"
  by (rule reachable_call [OF evidenced_stage_reachable call_bind_terms])
    (use steps_to_result [OF terms_step] in auto)

definition buy_request_input :: request_input where
  "buy_request_input = \<lparr>qi_checkout_digest = digest_of ''c'', qi_request_digest = digest_of ''qqq'',
     qi_nonce_digest = digest_of ''nonce'', qi_media_type = [], qi_body_digest = digest_of '''',
     qi_cost_ceiling = ''2000'', qi_floor = Floor_accepted, qi_expires_at = 80000\<rparr>"

definition buy_purchases_3 :: "purchase_row list" where
  "buy_purchases_3 = [\<lparr>pu_id = toy_purchase_id, pu_request_key = ''order-0001'',
  pu_resource_url = ''https://shop.example/item'', pu_method = ''GET'', pu_resource_fingerprint
  = (dg (CHR ''0'')), pu_expected_merchant_id = None, pu_expected_merchant_origin = None,
  pu_state = Pur_awaiting_authority, pu_version = 2, pu_created_at = 2000, pu_updated_at =
  3500\<rparr>]"

definition buy_purchase_log_3 :: "purchase_transition_row list" where
  "buy_purchase_log_3 = buy_purchase_log_2 @ [\<lparr>pt_purchase_id = toy_purchase_id, pt_from
  = Some Pur_terms_bound, pt_to = Pur_awaiting_authority, pt_reason =
  ''authorization_requested'', pt_detail = Some (dg (CHR ''D'')), pt_created_at = 3500\<rparr>]"

definition buy_authorization_requests_1 :: "authorization_request_row list" where
  "buy_authorization_requests_1 = [\<lparr>ar_purchase_id = toy_purchase_id, ar_checkout_digest
  = (dg (CHR ''B'')), ar_request_digest = (dg (CHR ''D'')), ar_nonce_digest = (dg (CHR ''F'')),
  ar_media_type = [], ar_body_digest = (dg (CHR ''A'')), ar_additional_cost_ceiling = ''2000'',
  ar_finality_floor = Floor_accepted, ar_plan_digest = (dg (CHR ''H'')), ar_mechanism =
  Single_transaction, ar_profile = ''urn:x402:exact'', ar_assurance = Assure_accepted,
  ar_maximum_charge = ''500000'', ar_channel_id = None, ar_channel_epoch = None, ar_expires_at =
  80000, ar_created_at = 3500\<rparr>]"

definition requested_stage :: journal where
  "requested_stage = empty_journal\<lparr>policies := buy_policies_1, active := buy_active_1,
  purchases := buy_purchases_3, purchase_log := buy_purchase_log_3, checkout_terms :=
  buy_checkout_terms_1, authorization_requests := buy_authorization_requests_1, artifacts :=
  buy_artifacts_1, evidence_links := buy_evidence_links_1, evidence_verifications :=
  buy_evidence_verifications_1, execution_plans := buy_execution_plans_1\<rparr>"

lemma requested_step:
  "steps_to (recordAuthorizationRequest buy_platform terms_stage
     toy_purchase_id buy_request_input 3500 3500 3500) requested_stage"
  by code_simp

lemma requested_stage_reachable: "reachable 3500 requested_stage"
  by (rule reachable_call [OF terms_stage_reachable call_request])
    (use steps_to_result [OF requested_step] in auto)

definition buy_facts_digest :: string where
  "buy_facts_digest = ''sha256:'' @ replicate 41 (CHR ''A'') @ ''CE''"

definition buy_decision :: decision_input where
  "buy_decision = \<lparr>di_decision = Dec_approved, di_authority_id = ''owner'',
     di_checkout_digest = digest_of ''c'', di_facts_digest = buy_facts_digest,
     di_evidence_digest = digest_of ''aaaa'', di_profile = ''p:approval'',
     di_verifier = ''verifier'', di_request_digest = digest_of ''qqq'',
     di_nonce_digest = digest_of ''nonce'', di_expires_at = 80000\<rparr>"

definition buy_purchases_4 :: "purchase_row list" where
  "buy_purchases_4 = [\<lparr>pu_id = toy_purchase_id, pu_request_key = ''order-0001'',
  pu_resource_url = ''https://shop.example/item'', pu_method = ''GET'', pu_resource_fingerprint
  = (dg (CHR ''0'')), pu_expected_merchant_id = None, pu_expected_merchant_origin = None,
  pu_state = Pur_authorised, pu_version = 3, pu_created_at = 2000, pu_updated_at =
  4000\<rparr>]"

definition buy_purchase_log_4 :: "purchase_transition_row list" where
  "buy_purchase_log_4 = buy_purchase_log_3 @ [\<lparr>pt_purchase_id = toy_purchase_id, pt_from
  = Some Pur_awaiting_authority, pt_to = Pur_authorised, pt_reason = ''authorization_approved'',
  pt_detail = Some (dg (CHR ''E'')), pt_created_at = 4000\<rparr>]"

definition buy_authorizations_1 :: "authorization_row list" where
  "buy_authorizations_1 = [\<lparr>au_purchase_id = toy_purchase_id, au_decision = Dec_approved,
  au_authority_id = ''owner'', au_checkout_digest = (dg (CHR ''B'')), au_approved_facts_digest =
  (dg (CHR ''C'')), au_evidence_digest = (dg (CHR ''E'')), au_verification_profile =
  ''p:approval'', au_verifier_id = ''verifier'', au_request_digest = (dg (CHR ''D'')),
  au_nonce_digest = (dg (CHR ''F'')), au_expires_at = 80000, au_decided_at = 4000\<rparr>]"

definition approved_stage :: journal where
  "approved_stage = empty_journal\<lparr>policies := buy_policies_1, active := buy_active_1,
  purchases := buy_purchases_4, purchase_log := buy_purchase_log_4, checkout_terms :=
  buy_checkout_terms_1, authorization_requests := buy_authorization_requests_1, authorizations
  := buy_authorizations_1, artifacts := buy_artifacts_1, evidence_links := buy_evidence_links_1,
  evidence_verifications := buy_evidence_verifications_1, execution_plans :=
  buy_execution_plans_1\<rparr>"

lemma approved_step:
  "steps_to (recordAuthorizationDecision buy_platform requested_stage
     toy_purchase_id buy_decision 4000 4000 4000) approved_stage"
  by code_simp

lemma approved_stage_reachable: "reachable 4000 approved_stage"
  by (rule reachable_call [OF requested_stage_reachable call_decide])
    (use steps_to_result [OF approved_step] in auto)

section \<open>Reservation, attempt, preparation\<close>

definition buy_reservation :: reservation_input where
  "buy_reservation = \<lparr>ri_id = ''reservation-1'', ri_purchase_id = toy_purchase_id,
     ri_policy_digest = toy_policy_digest, ri_payee = ''kaspatest:qqqq'', ri_amount = ''500000'',
     ri_additional_cost_ceiling = ''2000'', ri_funding_source = ''vault-treasury'',
     ri_expires_at = 80000, ri_approval_evidence = Some (digest_of ''aaaa''),
     ri_approval_profile = Some ''p:approval'', ri_approval_verifier = Some ''verifier''\<rparr>"

abbreviation intact_all :: "string \<Rightarrow> int \<Rightarrow> bool" where
  "intact_all \<equiv> \<lambda>_ _. True"

definition buy_reservations_1 :: "reservation_row list" where
  "buy_reservations_1 = [\<lparr>rs_id = ''reservation-1'', rs_purchase_id = toy_purchase_id,
  rs_policy_digest = toy_policy_digest, rs_approval_evidence = Some (dg (CHR ''E'')),
  rs_approval_profile = Some ''p:approval'', rs_approval_verifier = Some ''verifier'', rs_payee
  = ''kaspatest:qqqq'', rs_amount = ''500000'', rs_additional_cost_ceiling = ''2000'',
  rs_funding_source = ''vault-treasury'', rs_state = Res_active, rs_expires_at = 80000,
  rs_created_at = 5000, rs_updated_at = 5000, rs_in_flight_at = None, rs_spent_at = None,
  rs_release_evidence = None\<rparr>]"

definition reserved_stage :: journal where
  "reserved_stage = empty_journal\<lparr>policies := buy_policies_1, active := buy_active_1,
  reservations := buy_reservations_1, purchases := buy_purchases_4, purchase_log :=
  buy_purchase_log_4, checkout_terms := buy_checkout_terms_1, authorization_requests :=
  buy_authorization_requests_1, authorizations := buy_authorizations_1, artifacts :=
  buy_artifacts_1, evidence_links := buy_evidence_links_1, evidence_verifications :=
  buy_evidence_verifications_1, execution_plans := buy_execution_plans_1\<rparr>"

lemma reserved_step:
  "steps_to (reservePolicy intact_all approved_stage buy_reservation 5000) reserved_stage"
  by code_simp

lemma reserved_stage_reachable: "reachable 5000 reserved_stage"
  by (rule reachable_call [OF approved_stage_reachable call_reserve])
    (use steps_to_result [OF reserved_step] in auto)

definition buy_attempt :: attempt_input where
  "buy_attempt = \<lparr>ai_purchase_id = toy_purchase_id, ai_attempt = 1,
     ai_identifier = projr (createPaymentIdentifier raw_hash toy_purchase_id 1)\<rparr>"

definition buy_attempts_1 :: "attempt_row list" where
  "buy_attempts_1 = [\<lparr>at_purchase_id = toy_purchase_id, at_attempt = 1, at_identifier =
  ''pay_AAAAAAAAAAAAAAAAAAAAAAAAAAAAAAAAAAAAAAAAACE'', at_state = Att_planned, at_version = 0,
  at_failure_code = None, at_created_at = 5500, at_updated_at = 5500\<rparr>]"

definition buy_attempt_log_1 :: "attempt_transition_row list" where
  "buy_attempt_log_1 = [\<lparr>att_purchase_id = toy_purchase_id, att_attempt = 1, att_from =
  None, att_to = Att_planned, att_reason = ''attempt_created'', att_detail = None,
  att_created_at = 5500\<rparr>]"

definition attempted_stage :: journal where
  "attempted_stage = empty_journal\<lparr>policies := buy_policies_1, active := buy_active_1,
  reservations := buy_reservations_1, attempts := buy_attempts_1, attempt_log :=
  buy_attempt_log_1, purchases := buy_purchases_4, purchase_log := buy_purchase_log_4,
  checkout_terms := buy_checkout_terms_1, authorization_requests :=
  buy_authorization_requests_1, authorizations := buy_authorizations_1, artifacts :=
  buy_artifacts_1, evidence_links := buy_evidence_links_1, evidence_verifications :=
  buy_evidence_verifications_1, execution_plans := buy_execution_plans_1\<rparr>"

lemma attempted_step:
  "steps_to (createPaymentAttempt raw_hash reserved_stage buy_attempt 5500) attempted_stage"
  by code_simp

lemma attempted_stage_reachable: "reachable 5500 attempted_stage"
  by (rule reachable_call [OF reserved_stage_reachable call_create_attempt])
    (use steps_to_result [OF attempted_step] in auto)

definition buy_store :: "string \<Rightarrow> (string \<times> string \<times> int) option" where
  "buy_store bytes = Some (digest_of bytes, ''prepared/1'', int (length bytes))"

definition buy_preparation :: preparation_input where
  "buy_preparation = \<lparr>pi_purchase_id = toy_purchase_id, pi_attempt = 1,
     pi_reservation_id = ''reservation-1'', pi_requirements_digest = digest_of ''rr'',
     pi_payload_digest = digest_of ''payment'', pi_bytes = ''payment'', pi_execution_id = buy_txid,
     pi_mechanism = Single_transaction, pi_profile = ''urn:x402:exact'',
     pi_transaction_id = Some buy_txid, pi_amount = ''500000'', pi_asset = ''KAS'',
     pi_network = ''kaspa:testnet-10'', pi_payee = ''kaspatest:qqqq'',
     pi_required_assurance = Assure_accepted, pi_funding_source = ''vault-treasury''\<rparr>"

definition buy_attempts_2 :: "attempt_row list" where
  "buy_attempts_2 = [\<lparr>at_purchase_id = toy_purchase_id, at_attempt = 1, at_identifier =
  ''pay_AAAAAAAAAAAAAAAAAAAAAAAAAAAAAAAAAAAAAAAAACE'', at_state = Att_prepared, at_version = 1,
  at_failure_code = None, at_created_at = 5500, at_updated_at = 6000\<rparr>]"

definition buy_attempt_log_2 :: "attempt_transition_row list" where
  "buy_attempt_log_2 = buy_attempt_log_1 @ [\<lparr>att_purchase_id = toy_purchase_id,
  att_attempt = 1, att_from = Some Att_planned, att_to = Att_prepared, att_reason =
  ''payment_prepared'', att_detail = Some (dg (CHR ''H'')), att_created_at = 6000\<rparr>]"

definition buy_preparations_1 :: "preparation_row list" where
  "buy_preparations_1 = [\<lparr>pp_purchase_id = toy_purchase_id, pp_attempt = 1,
  pp_reservation_id = ''reservation-1'', pp_requirements_digest = (dg (CHR ''C'')),
  pp_payload_digest = (dg (CHR ''H'')), pp_prepared_ref = ''prepared/1'',
  pp_prepared_byte_length = 7, pp_execution_id = buy_txid, pp_mechanism = Single_transaction,
  pp_profile = ''urn:x402:exact'', pp_transaction_id = Some buy_txid, pp_amount = ''500000'',
  pp_asset = ''KAS'', pp_network = ''kaspa:testnet-10'', pp_payee = ''kaspatest:qqqq'',
  pp_required_assurance = Assure_accepted, pp_funding_source = ''vault-treasury'', pp_created_at
  = 6000\<rparr>]"

definition prepared_stage :: journal where
  "prepared_stage = empty_journal\<lparr>policies := buy_policies_1, active := buy_active_1,
  reservations := buy_reservations_1, attempts := buy_attempts_2, attempt_log :=
  buy_attempt_log_2, preparations := buy_preparations_1, purchases := buy_purchases_4,
  purchase_log := buy_purchase_log_4, checkout_terms := buy_checkout_terms_1,
  authorization_requests := buy_authorization_requests_1, authorizations :=
  buy_authorizations_1, artifacts := buy_artifacts_1, evidence_links := buy_evidence_links_1,
  evidence_verifications := buy_evidence_verifications_1, execution_plans :=
  buy_execution_plans_1\<rparr>"

lemma prepared_step:
  "steps_to (preparePaymentAttempt buy_store intact_all attempted_stage buy_preparation 6000 6000) prepared_stage"
  by code_simp

lemma prepared_stage_reachable: "reachable 6000 prepared_stage"
  by (rule reachable_call [OF attempted_stage_reachable call_prepare_payment])
    (use steps_to_result [OF prepared_step] in auto)

definition buy_effect :: effect_input where
  "buy_effect = \<lparr>ei_purchase_id = toy_purchase_id, ei_attempt = Some 1, ei_kind = ''kaspa.payment'',
     ei_idempotency_key = ''payment-1'', ei_payload_digest = digest_of ''payment'',
     ei_bytes = ''payment''\<rparr>"

definition buy_effects_1 :: "effect_row list" where
  "buy_effects_1 = [\<lparr>ef_id = ''effect-1'', ef_purchase_id = toy_purchase_id, ef_attempt =
  Some 1, ef_kind = ''kaspa.payment'', ef_idempotency_key = ''payment-1'', ef_state =
  Eff_planned, ef_version = 0, ef_payload_digest = (dg (CHR ''H'')), ef_prepared_ref =
  ''prepared/1'', ef_prepared_byte_length = 7, ef_claim_lease = None, ef_claim_generation =
  None, ef_submission_digest = None, ef_result_digest = None, ef_error_code = None,
  ef_created_at = 6500, ef_updated_at = 6500, ef_executing_at = None, ef_submitted_at = None,
  ef_observed_at = None\<rparr>]"

definition buy_effect_log_1 :: "effect_transition_row list" where
  "buy_effect_log_1 = [\<lparr>et_effect_id = ''effect-1'', et_from = None, et_to = Eff_planned,
  et_reason = ''effect_planned'', et_detail = Some (dg (CHR ''H'')), et_created_at =
  6500\<rparr>]"

definition planned_stage :: journal where
  "planned_stage = empty_journal\<lparr>policies := buy_policies_1, active := buy_active_1,
  reservations := buy_reservations_1, effects := buy_effects_1, effect_log := buy_effect_log_1,
  attempts := buy_attempts_2, attempt_log := buy_attempt_log_2, preparations :=
  buy_preparations_1, purchases := buy_purchases_4, purchase_log := buy_purchase_log_4,
  checkout_terms := buy_checkout_terms_1, authorization_requests :=
  buy_authorization_requests_1, authorizations := buy_authorizations_1, artifacts :=
  buy_artifacts_1, evidence_links := buy_evidence_links_1, evidence_verifications :=
  buy_evidence_verifications_1, execution_plans := buy_execution_plans_1\<rparr>"

lemma planned_step:
  "steps_to (planEffect buy_store prepared_stage buy_effect ''effect-1'' 6500) planned_stage"
  by code_simp

lemma planned_stage_reachable: "reachable 6500 planned_stage"
  by (rule reachable_call [OF prepared_stage_reachable call_plan_effect])
    (use steps_to_result [OF planned_step] in auto)

definition buy_purchases_5 :: "purchase_row list" where
  "buy_purchases_5 = [\<lparr>pu_id = toy_purchase_id, pu_request_key = ''order-0001'',
  pu_resource_url = ''https://shop.example/item'', pu_method = ''GET'', pu_resource_fingerprint
  = (dg (CHR ''0'')), pu_expected_merchant_id = None, pu_expected_merchant_origin = None,
  pu_state = Pur_execution_prepared, pu_version = 4, pu_created_at = 2000, pu_updated_at =
  7000\<rparr>]"

definition buy_purchase_log_5 :: "purchase_transition_row list" where
  "buy_purchase_log_5 = buy_purchase_log_4 @ [\<lparr>pt_purchase_id = toy_purchase_id, pt_from
  = Some Pur_authorised, pt_to = Pur_execution_prepared, pt_reason = ''payment_prepared'',
  pt_detail = None, pt_created_at = 7000\<rparr>]"

definition ready_stage :: journal where
  "ready_stage = empty_journal\<lparr>policies := buy_policies_1, active := buy_active_1,
  reservations := buy_reservations_1, effects := buy_effects_1, effect_log := buy_effect_log_1,
  attempts := buy_attempts_2, attempt_log := buy_attempt_log_2, preparations :=
  buy_preparations_1, purchases := buy_purchases_5, purchase_log := buy_purchase_log_5,
  checkout_terms := buy_checkout_terms_1, authorization_requests :=
  buy_authorization_requests_1, authorizations := buy_authorizations_1, artifacts :=
  buy_artifacts_1, evidence_links := buy_evidence_links_1, evidence_verifications :=
  buy_evidence_verifications_1, execution_plans := buy_execution_plans_1\<rparr>"

lemma ready_step:
  "steps_to (transitionPurchase raw_hash planned_stage toy_purchase_id Pur_authorised
       Pur_execution_prepared ''payment_prepared'' None 7000) ready_stage"
  by code_simp

lemma ready_stage_reachable: "reachable 7000 ready_stage"
  by (rule reachable_call [OF planned_stage_reachable call_transition_purchase])
    (use steps_to_result [OF ready_step] in auto)

section \<open>Submission, settlement, delivery\<close>

definition buy_verified :: "string \<Rightarrow> int \<Rightarrow> string option" where
  "buy_verified _ _ = Some ''prepared/1''"

definition buy_reservations_2 :: "reservation_row list" where
  "buy_reservations_2 = [\<lparr>rs_id = ''reservation-1'', rs_purchase_id = toy_purchase_id,
  rs_policy_digest = toy_policy_digest, rs_approval_evidence = Some (dg (CHR ''E'')),
  rs_approval_profile = Some ''p:approval'', rs_approval_verifier = Some ''verifier'', rs_payee
  = ''kaspatest:qqqq'', rs_amount = ''500000'', rs_additional_cost_ceiling = ''2000'',
  rs_funding_source = ''vault-treasury'', rs_state = Res_in_flight, rs_expires_at = 80000,
  rs_created_at = 5000, rs_updated_at = 7500, rs_in_flight_at = Some 7500, rs_spent_at = None,
  rs_release_evidence = None\<rparr>]"

definition buy_leases_1 :: "lease_row list" where
  "buy_leases_1 = [\<lparr>ls_name = ''effect:effect-1'', ls_holder = ''worker-1'',
  ls_generation = 1, ls_expires_at = 67500, ls_updated_at = 7500\<rparr>]"

definition buy_effects_2 :: "effect_row list" where
  "buy_effects_2 = [\<lparr>ef_id = ''effect-1'', ef_purchase_id = toy_purchase_id, ef_attempt =
  Some 1, ef_kind = ''kaspa.payment'', ef_idempotency_key = ''payment-1'', ef_state =
  Eff_executing, ef_version = 1, ef_payload_digest = (dg (CHR ''H'')), ef_prepared_ref =
  ''prepared/1'', ef_prepared_byte_length = 7, ef_claim_lease = Some ''effect:effect-1'',
  ef_claim_generation = Some 1, ef_submission_digest = None, ef_result_digest = None,
  ef_error_code = None, ef_created_at = 6500, ef_updated_at = 7500, ef_executing_at = Some 7500,
  ef_submitted_at = None, ef_observed_at = None\<rparr>]"

definition buy_effect_log_2 :: "effect_transition_row list" where
  "buy_effect_log_2 = buy_effect_log_1 @ [\<lparr>et_effect_id = ''effect-1'', et_from = Some
  Eff_planned, et_to = Eff_executing, et_reason = ''effect_claimed'', et_detail = Some (dg (CHR
  ''H'')), et_created_at = 7500\<rparr>]"

definition buy_attempts_3 :: "attempt_row list" where
  "buy_attempts_3 = [\<lparr>at_purchase_id = toy_purchase_id, at_attempt = 1, at_identifier =
  ''pay_AAAAAAAAAAAAAAAAAAAAAAAAAAAAAAAAAAAAAAAAACE'', at_state = Att_submitted, at_version = 2,
  at_failure_code = None, at_created_at = 5500, at_updated_at = 7500\<rparr>]"

definition buy_attempt_log_3 :: "attempt_transition_row list" where
  "buy_attempt_log_3 = buy_attempt_log_2 @ [\<lparr>att_purchase_id = toy_purchase_id,
  att_attempt = 1, att_from = Some Att_prepared, att_to = Att_submitted, att_reason =
  ''payment_submission_claimed'', att_detail = Some (dg (CHR ''H'')), att_created_at =
  7500\<rparr>]"

definition submitting_stage :: journal where
  "submitting_stage = empty_journal\<lparr>policies := buy_policies_1, active := buy_active_1,
  reservations := buy_reservations_2, leases := buy_leases_1, effects := buy_effects_2,
  effect_log := buy_effect_log_2, attempts := buy_attempts_3, attempt_log := buy_attempt_log_3,
  preparations := buy_preparations_1, purchases := buy_purchases_5, purchase_log :=
  buy_purchase_log_5, checkout_terms := buy_checkout_terms_1, authorization_requests :=
  buy_authorization_requests_1, authorizations := buy_authorizations_1, artifacts :=
  buy_artifacts_1, evidence_links := buy_evidence_links_1, evidence_verifications :=
  buy_evidence_verifications_1, execution_plans := buy_execution_plans_1\<rparr>"

lemma submitting_step:
  "steps_to (beginPaymentSubmission intact_all buy_verified ready_stage ''effect-1''
       ''reservation-1'' ''worker-1'' 60000 7500 7500) submitting_stage"
  by code_simp

lemma submitting_stage_reachable: "reachable 7500 submitting_stage"
  by (rule reachable_call [OF ready_stage_reachable call_begin_payment])
    (use steps_to_result [OF submitting_step] in auto)

definition buy_purchases_6 :: "purchase_row list" where
  "buy_purchases_6 = [\<lparr>pu_id = toy_purchase_id, pu_request_key = ''order-0001'',
  pu_resource_url = ''https://shop.example/item'', pu_method = ''GET'', pu_resource_fingerprint
  = (dg (CHR ''0'')), pu_expected_merchant_id = None, pu_expected_merchant_origin = None,
  pu_state = Pur_submitted, pu_version = 5, pu_created_at = 2000, pu_updated_at = 8000\<rparr>]"

definition buy_purchase_log_6 :: "purchase_transition_row list" where
  "buy_purchase_log_6 = buy_purchase_log_5 @ [\<lparr>pt_purchase_id = toy_purchase_id, pt_from
  = Some Pur_execution_prepared, pt_to = Pur_submitted, pt_reason = ''payment_submitted'',
  pt_detail = None, pt_created_at = 8000\<rparr>]"

definition submitted_stage :: journal where
  "submitted_stage = empty_journal\<lparr>policies := buy_policies_1, active := buy_active_1,
  reservations := buy_reservations_2, leases := buy_leases_1, effects := buy_effects_2,
  effect_log := buy_effect_log_2, attempts := buy_attempts_3, attempt_log := buy_attempt_log_3,
  preparations := buy_preparations_1, purchases := buy_purchases_6, purchase_log :=
  buy_purchase_log_6, checkout_terms := buy_checkout_terms_1, authorization_requests :=
  buy_authorization_requests_1, authorizations := buy_authorizations_1, artifacts :=
  buy_artifacts_1, evidence_links := buy_evidence_links_1, evidence_verifications :=
  buy_evidence_verifications_1, execution_plans := buy_execution_plans_1\<rparr>"

lemma submitted_step:
  "steps_to (transitionPurchase raw_hash submitting_stage toy_purchase_id
       Pur_execution_prepared Pur_submitted ''payment_submitted'' None 8000) submitted_stage"
  by code_simp

lemma submitted_stage_reachable: "reachable 8000 submitted_stage"
  by (rule reachable_call [OF submitting_stage_reachable call_transition_purchase])
    (use steps_to_result [OF submitted_step] in auto)

definition buy_lease :: lease_token where
  "buy_lease = \<lparr>lt_name = ''effect:effect-1'', lt_holder = ''worker-1'', lt_generation = 1,
     lt_expires_at = 67500\<rparr>"

definition buy_settlement :: settlement_input where
  "buy_settlement = \<lparr>si_effect_id = ''effect-1'', si_reservation_id = ''reservation-1'',
     si_execution_id = buy_txid, si_mechanism = Single_transaction, si_profile = ''urn:x402:exact'',
     si_transaction_id = Some buy_txid, si_commitment_id = None, si_outpoint = None,
     si_amount = ''500000'', si_additional_cost = ''1500'', si_asset = ''KAS'',
     si_payee = ''kaspatest:qqqq'', si_network = ''kaspa:testnet-10'', si_assurance = Assure_accepted,
     si_funding_source = ''vault-treasury'', si_evidence_digest = digest_of ''sssss'',
     si_evidence_profile = ''p:settlement'', si_evidence_verifier = ''verifier''\<rparr>"

definition buy_reservations_3 :: "reservation_row list" where
  "buy_reservations_3 = [\<lparr>rs_id = ''reservation-1'', rs_purchase_id = toy_purchase_id,
  rs_policy_digest = toy_policy_digest, rs_approval_evidence = Some (dg (CHR ''E'')),
  rs_approval_profile = Some ''p:approval'', rs_approval_verifier = Some ''verifier'', rs_payee
  = ''kaspatest:qqqq'', rs_amount = ''500000'', rs_additional_cost_ceiling = ''2000'',
  rs_funding_source = ''vault-treasury'', rs_state = Res_spent, rs_expires_at = 80000,
  rs_created_at = 5000, rs_updated_at = 8500, rs_in_flight_at = Some 7500, rs_spent_at = Some
  8500, rs_release_evidence = None\<rparr>]"

definition buy_settlements_1 :: "settlement_row list" where
  "buy_settlements_1 = [\<lparr>st_effect_id = ''effect-1'', st_reservation_id =
  ''reservation-1'', st_purchase_id = toy_purchase_id, st_attempt = 1, st_execution_id =
  buy_txid, st_mechanism = Single_transaction, st_profile = ''urn:x402:exact'',
  st_transaction_id = Some buy_txid, st_commitment_id = None, st_outpoint = None, st_amount =
  ''500000'', st_additional_cost = ''1500'', st_asset = ''KAS'', st_payee = ''kaspatest:qqqq'',
  st_network = ''kaspa:testnet-10'', st_assurance = Assure_accepted, st_funding_source =
  ''vault-treasury'', st_evidence_digest = (dg (CHR ''F'')), st_evidence_profile =
  ''p:settlement'', st_evidence_verifier = ''verifier'', st_observed_at = 8500\<rparr>]"

definition buy_effects_3 :: "effect_row list" where
  "buy_effects_3 = [\<lparr>ef_id = ''effect-1'', ef_purchase_id = toy_purchase_id, ef_attempt =
  Some 1, ef_kind = ''kaspa.payment'', ef_idempotency_key = ''payment-1'', ef_state =
  Eff_observed, ef_version = 2, ef_payload_digest = (dg (CHR ''H'')), ef_prepared_ref =
  ''prepared/1'', ef_prepared_byte_length = 7, ef_claim_lease = Some ''effect:effect-1'',
  ef_claim_generation = Some 1, ef_submission_digest = None, ef_result_digest = Some (dg (CHR
  ''F'')), ef_error_code = None, ef_created_at = 6500, ef_updated_at = 8500, ef_executing_at =
  Some 7500, ef_submitted_at = None, ef_observed_at = Some 8500\<rparr>]"

definition buy_effect_log_3 :: "effect_transition_row list" where
  "buy_effect_log_3 = buy_effect_log_2 @ [\<lparr>et_effect_id = ''effect-1'', et_from = Some
  Eff_executing, et_to = Eff_observed, et_reason = ''settlement_spend_observed'', et_detail =
  Some (dg (CHR ''F'')), et_created_at = 8500\<rparr>]"

definition buy_effect_observations_1 :: "effect_observation_row list" where
  "buy_effect_observations_1 = [\<lparr>eo_effect_id = ''effect-1'', eo_status = EO_observed,
  eo_result = Some (dg (CHR ''F'')), eo_detail = Some (dg (CHR ''F'')), eo_lease_name =
  ''effect:effect-1'', eo_lease_generation = 1, eo_observed_at = 8500\<rparr>]"

definition buy_attempts_4 :: "attempt_row list" where
  "buy_attempts_4 = [\<lparr>at_purchase_id = toy_purchase_id, at_attempt = 1, at_identifier =
  ''pay_AAAAAAAAAAAAAAAAAAAAAAAAAAAAAAAAAAAAAAAAACE'', at_state = Att_observed, at_version = 3,
  at_failure_code = None, at_created_at = 5500, at_updated_at = 8500\<rparr>]"

definition buy_attempt_log_4 :: "attempt_transition_row list" where
  "buy_attempt_log_4 = buy_attempt_log_3 @ [\<lparr>att_purchase_id = toy_purchase_id,
  att_attempt = 1, att_from = Some Att_submitted, att_to = Att_observed, att_reason =
  ''settlement_observed'', att_detail = Some (dg (CHR ''F'')), att_created_at = 8500\<rparr>]"

definition paid_stage :: journal where
  "paid_stage = empty_journal\<lparr>policies := buy_policies_1, active := buy_active_1,
  reservations := buy_reservations_3, settlements := buy_settlements_1, leases := buy_leases_1,
  effects := buy_effects_3, effect_log := buy_effect_log_3, effect_observations :=
  buy_effect_observations_1, attempts := buy_attempts_4, attempt_log := buy_attempt_log_4,
  preparations := buy_preparations_1, purchases := buy_purchases_6, purchase_log :=
  buy_purchase_log_6, checkout_terms := buy_checkout_terms_1, authorization_requests :=
  buy_authorization_requests_1, authorizations := buy_authorizations_1, artifacts :=
  buy_artifacts_1, evidence_links := buy_evidence_links_1, evidence_verifications :=
  buy_evidence_verifications_1, execution_plans := buy_execution_plans_1\<rparr>"

lemma paid_step:
  "steps_to (recordPurchaseSettlement intact_all submitted_stage buy_lease buy_settlement
       8500 8500 8500) paid_stage"
  by code_simp

lemma paid_stage_reachable: "reachable 8500 paid_stage"
  by (rule reachable_call [OF submitted_stage_reachable call_settle])
    (use steps_to_result [OF paid_step] in auto)

definition buy_purchases_7 :: "purchase_row list" where
  "buy_purchases_7 = [\<lparr>pu_id = toy_purchase_id, pu_request_key = ''order-0001'',
  pu_resource_url = ''https://shop.example/item'', pu_method = ''GET'', pu_resource_fingerprint
  = (dg (CHR ''0'')), pu_expected_merchant_id = None, pu_expected_merchant_origin = None,
  pu_state = Pur_settled, pu_version = 6, pu_created_at = 2000, pu_updated_at = 9000\<rparr>]"

definition buy_purchase_log_7 :: "purchase_transition_row list" where
  "buy_purchase_log_7 = buy_purchase_log_6 @ [\<lparr>pt_purchase_id = toy_purchase_id, pt_from
  = Some Pur_submitted, pt_to = Pur_settled, pt_reason = ''payment_settled'', pt_detail = None,
  pt_created_at = 9000\<rparr>]"

definition settled_stage :: journal where
  "settled_stage = empty_journal\<lparr>policies := buy_policies_1, active := buy_active_1,
  reservations := buy_reservations_3, settlements := buy_settlements_1, leases := buy_leases_1,
  effects := buy_effects_3, effect_log := buy_effect_log_3, effect_observations :=
  buy_effect_observations_1, attempts := buy_attempts_4, attempt_log := buy_attempt_log_4,
  preparations := buy_preparations_1, purchases := buy_purchases_7, purchase_log :=
  buy_purchase_log_7, checkout_terms := buy_checkout_terms_1, authorization_requests :=
  buy_authorization_requests_1, authorizations := buy_authorizations_1, artifacts :=
  buy_artifacts_1, evidence_links := buy_evidence_links_1, evidence_verifications :=
  buy_evidence_verifications_1, execution_plans := buy_execution_plans_1\<rparr>"

lemma settled_step:
  "steps_to (transitionPurchase raw_hash paid_stage toy_purchase_id Pur_submitted Pur_settled
       ''payment_settled'' None 9000) settled_stage"
  by code_simp

lemma settled_stage_reachable: "reachable 9000 settled_stage"
  by (rule reachable_call [OF paid_stage_reachable call_transition_purchase])
    (use steps_to_result [OF settled_step] in auto)

definition buy_fulfilment :: fulfilment_input where
  "buy_fulfilment = \<lparr>fi_attempt = 1, fi_http_status = 200, fi_resource_fingerprint = item_fingerprint,
     fi_body_digest = digest_of ''bbbbbb'', fi_body_byte_length = 6,
     fi_media_type = ''t/j'', fi_evidence_digest = digest_of ''ffffffffff'',
     fi_evidence_profile = ''p:fulfilment'', fi_evidence_verifier = ''verifier''\<rparr>"

definition buy_purchases_8 :: "purchase_row list" where
  "buy_purchases_8 = [\<lparr>pu_id = toy_purchase_id, pu_request_key = ''order-0001'',
  pu_resource_url = ''https://shop.example/item'', pu_method = ''GET'', pu_resource_fingerprint
  = (dg (CHR ''0'')), pu_expected_merchant_id = None, pu_expected_merchant_origin = None,
  pu_state = Pur_fulfilled, pu_version = 7, pu_created_at = 2000, pu_updated_at = 9500\<rparr>]"

definition buy_purchase_log_8 :: "purchase_transition_row list" where
  "buy_purchase_log_8 = buy_purchase_log_7 @ [\<lparr>pt_purchase_id = toy_purchase_id, pt_from
  = Some Pur_settled, pt_to = Pur_fulfilled, pt_reason = ''merchant_fulfilment_verified'',
  pt_detail = Some (dg (CHR ''G'')), pt_created_at = 9500\<rparr>]"

definition buy_fulfilments_1 :: "fulfilment_row list" where
  "buy_fulfilments_1 = [\<lparr>ff_purchase_id = toy_purchase_id, ff_attempt = 1, ff_http_status
  = 200, ff_resource_fingerprint = (dg (CHR ''0'')), ff_body_digest = (dg (CHR ''G'')),
  ff_body_byte_length = 6, ff_media_type = ''t/j'', ff_evidence_digest = (dg (CHR ''K'')),
  ff_evidence_profile = ''p:fulfilment'', ff_evidence_verifier = ''verifier'', ff_created_at =
  9500\<rparr>]"

definition fulfilled_stage :: journal where
  "fulfilled_stage = empty_journal\<lparr>policies := buy_policies_1, active := buy_active_1,
  reservations := buy_reservations_3, settlements := buy_settlements_1, leases := buy_leases_1,
  effects := buy_effects_3, effect_log := buy_effect_log_3, effect_observations :=
  buy_effect_observations_1, attempts := buy_attempts_4, attempt_log := buy_attempt_log_4,
  preparations := buy_preparations_1, purchases := buy_purchases_8, purchase_log :=
  buy_purchase_log_8, checkout_terms := buy_checkout_terms_1, authorization_requests :=
  buy_authorization_requests_1, authorizations := buy_authorizations_1, artifacts :=
  buy_artifacts_1, evidence_links := buy_evidence_links_1, evidence_verifications :=
  buy_evidence_verifications_1, execution_plans := buy_execution_plans_1, fulfilments :=
  buy_fulfilments_1\<rparr>"

lemma fulfilled_step:
  "steps_to (recordFulfilment buy_platform settled_stage toy_purchase_id buy_fulfilment []
       9500 9500) fulfilled_stage"
  by code_simp

lemma fulfilled_stage_reachable: "reachable 9500 fulfilled_stage"
  by (rule reachable_call [OF settled_stage_reachable call_fulfil])
    (use steps_to_result [OF fulfilled_step] in auto)

definition buy_receipt :: receipt_input where
  "buy_receipt = \<lparr>ki_evidence_digest = digest_of ''kkkkkkkk'', ki_profile = PURCHASE_RECEIPT_PROFILE,
     ki_issuer = Some ''shop'', ki_verifier_id = ''verifier'', ki_checkout_digest = digest_of ''c'',
     ki_authorization_digest = digest_of ''aaaa'', ki_settlement_digest = digest_of ''sssss'',
     ki_fulfilment_digest = digest_of ''bbbbbb''\<rparr>"

definition buy_purchases_9 :: "purchase_row list" where
  "buy_purchases_9 = [\<lparr>pu_id = toy_purchase_id, pu_request_key = ''order-0001'',
  pu_resource_url = ''https://shop.example/item'', pu_method = ''GET'', pu_resource_fingerprint
  = (dg (CHR ''0'')), pu_expected_merchant_id = None, pu_expected_merchant_origin = None,
  pu_state = Pur_receipted, pu_version = 8, pu_created_at = 2000, pu_updated_at = 9900\<rparr>]"

definition buy_purchase_log_9 :: "purchase_transition_row list" where
  "buy_purchase_log_9 = buy_purchase_log_8 @ [\<lparr>pt_purchase_id = toy_purchase_id, pt_from
  = Some Pur_fulfilled, pt_to = Pur_receipted, pt_reason = ''canonical_receipt_recorded'',
  pt_detail = Some (dg (CHR ''2'')), pt_created_at = 9900\<rparr>]"

definition buy_receipts_1 :: "receipt_row list" where
  "buy_receipts_1 = [\<lparr>rc_purchase_id = toy_purchase_id, rc_canonical_digest = (dg (CHR
  ''2'')), rc_evidence_digest = (dg (CHR ''I'')), rc_profile = ''urn:sompi:receipt:purchase:1'',
  rc_issuer = Some ''shop'', rc_verifier_id = ''verifier'', rc_checkout_digest = (dg (CHR
  ''B'')), rc_authorization_digest = (dg (CHR ''E'')), rc_settlement_digest = (dg (CHR ''F'')),
  rc_fulfilment_digest = (dg (CHR ''G'')), rc_created_at = 9900\<rparr>]"

definition receipted_stage :: journal where
  "receipted_stage = empty_journal\<lparr>policies := buy_policies_1, active := buy_active_1,
  reservations := buy_reservations_3, settlements := buy_settlements_1, leases := buy_leases_1,
  effects := buy_effects_3, effect_log := buy_effect_log_3, effect_observations :=
  buy_effect_observations_1, attempts := buy_attempts_4, attempt_log := buy_attempt_log_4,
  preparations := buy_preparations_1, purchases := buy_purchases_9, purchase_log :=
  buy_purchase_log_9, checkout_terms := buy_checkout_terms_1, authorization_requests :=
  buy_authorization_requests_1, authorizations := buy_authorizations_1, artifacts :=
  buy_artifacts_1, evidence_links := buy_evidence_links_1, evidence_verifications :=
  buy_evidence_verifications_1, execution_plans := buy_execution_plans_1, fulfilments :=
  buy_fulfilments_1, receipts := buy_receipts_1\<rparr>"

lemma receipted_step:
  "steps_to (recordReceipt buy_platform fulfilled_stage toy_purchase_id buy_receipt 9900 9900) receipted_stage"
  by code_simp

lemma receipted_stage_reachable: "reachable 9900 receipted_stage"
  by (rule reachable_call [OF fulfilled_stage_reachable call_receipt])
    (use steps_to_result [OF receipted_step] in auto)

section \<open>Reading a stage\<close>

lemmas purchase_rows = buy_purchases_1_def buy_purchases_2_def buy_purchases_3_def
  buy_purchases_4_def buy_purchases_5_def buy_purchases_6_def buy_purchases_7_def
  buy_purchases_8_def buy_purchases_9_def

lemmas reservation_rows = buy_reservations_1_def buy_reservations_2_def buy_reservations_3_def

lemmas effect_rows = effect_at_def buy_effects_1_def buy_effects_2_def buy_effects_3_def

text \<open>A reconciliation that starts while the payment is being submitted.\<close>

definition reconcile_token :: lease_token where
  "reconcile_token = \<lparr>lt_name = ''purchase-reconciliation'', lt_holder = ''worker-2'',
     lt_generation = 1, lt_expires_at = 68000\<rparr>"

definition reconciling_stage :: journal where
  "reconciling_stage = journal_after
     (acquireLease submitted_stage ''purchase-reconciliation'' ''worker-2'' 60000 8000)"

end
