(* ===== verification/Recovery_Examples.thy ===== *)
theory Recovery_Examples
  imports Purchase_Examples Recovery_Runs
begin

text \<open>
  A Purchase whose payment is never made: the treasury output is staged for its attempt, the
  Purchase becomes recoverable, and the output is swept back; each step evaluated by the kernel.
\<close>

definition sweep_txid :: string where "sweep_txid = replicate 64 (CHR ''e'')"

definition sweep_artifacts_1 :: "evidence_artifact_row list" where
  "sweep_artifacts_1 = buy_artifacts_1 @ [\<lparr>ea_digest = (dg (CHR ''z'')), ea_media_type =
  ''t/j'', ea_profile = ''p:staging'', ea_issuer = None, ea_byte_length = 51, ea_storage_ref =
  ''b'', ea_created_at = 5600\<rparr>]"

definition sweep_evidence_links_1 :: "evidence_link_row list" where
  "sweep_evidence_links_1 = buy_evidence_links_1 @ [\<lparr>el_purchase_id = toy_purchase_id,
  el_digest = (dg (CHR ''z'')), el_kind = ''treasury-staging-output'', el_attempt = Some 1,
  el_media_type = ''t/j'', el_profile = ''p:staging'', el_issuer = None, el_attached_at =
  5600\<rparr>]"

definition sweep_evidence_verifications_1 :: "evidence_verification_row list" where
  "sweep_evidence_verifications_1 = buy_evidence_verifications_1 @ [\<lparr>ev_digest = (dg (CHR
  ''z'')), ev_verifier_id = ''verifier'', ev_profile = ''p:staging'', ev_detail_digest = ''ok'',
  ev_verified_at = 5600\<rparr>]"

definition sweep_evidenced_stage :: journal where
  "sweep_evidenced_stage = empty_journal\<lparr>policies := buy_policies_1, active :=
  buy_active_1, reservations := buy_reservations_1, attempts := buy_attempts_1, attempt_log :=
  buy_attempt_log_1, purchases := buy_purchases_4, purchase_log := buy_purchase_log_4,
  checkout_terms := buy_checkout_terms_1, authorization_requests :=
  buy_authorization_requests_1, authorizations := buy_authorizations_1, artifacts :=
  sweep_artifacts_1, evidence_links := sweep_evidence_links_1, evidence_verifications :=
  sweep_evidence_verifications_1, execution_plans := buy_execution_plans_1\<rparr>"

lemma sweep_evidenced_stage_reachable: "reachable 5600 sweep_evidenced_stage"
  by (rule reachable_call [OF attempted_stage_reachable call_elsewhere])
    (simp_all add: owned_tables_def trail_def attempted_stage_def sweep_evidenced_stage_def)

definition prepare_lease :: lease_token where
  "prepare_lease = \<lparr>lt_name = treasuryStagingPreparationLeaseName toy_purchase_id 1,
     lt_holder = ''worker-1'', lt_generation = 1, lt_expires_at = 65700\<rparr>"

definition sweep_leases_1 :: "lease_row list" where
  "sweep_leases_1 = [\<lparr>ls_name = (treasuryStagingPreparationLeaseName toy_purchase_id 1),
  ls_holder = ''worker-1'', ls_generation = 1, ls_expires_at = 65700, ls_updated_at =
  5700\<rparr>]"

definition leased_stage :: journal where
  "leased_stage = empty_journal\<lparr>policies := buy_policies_1, active := buy_active_1,
  reservations := buy_reservations_1, leases := sweep_leases_1, attempts := buy_attempts_1,
  attempt_log := buy_attempt_log_1, purchases := buy_purchases_4, purchase_log :=
  buy_purchase_log_4, checkout_terms := buy_checkout_terms_1, authorization_requests :=
  buy_authorization_requests_1, authorizations := buy_authorizations_1, artifacts :=
  sweep_artifacts_1, evidence_links := sweep_evidence_links_1, evidence_verifications :=
  sweep_evidence_verifications_1, execution_plans := buy_execution_plans_1\<rparr>"

lemma leased_step:
  "steps_to (acquireLease sweep_evidenced_stage (treasuryStagingPreparationLeaseName toy_purchase_id 1) ''worker-1'' 60000 5700)
     leased_stage"
  by code_simp

lemma leased_stage_reachable: "reachable 5700 leased_stage"
  by (rule reachable_call [OF sweep_evidenced_stage_reachable call_acquire_lease])
    (use steps_to_result [OF leased_step] in auto)

definition stage_input :: staging_input where
  "stage_input = \<lparr>gi_purchase_id = toy_purchase_id, gi_attempt = 1, gi_reservation_id = ''reservation-1'',
     gi_idempotency_key = ''staging-1'', gi_payload_digest = digest_of ''staging'', gi_bytes = ''staging'',
     gi_transaction_id = buy_txid, gi_outpoint = buy_txid @ '':0'', gi_amount = ''501000'',
     gi_funding_source = ''vault-treasury''\<rparr>"

definition sweep_effects_1 :: "effect_row list" where
  "sweep_effects_1 = [\<lparr>ef_id = ''stage-1'', ef_purchase_id = toy_purchase_id, ef_attempt
  = Some 1, ef_kind = ''treasury-staging'', ef_idempotency_key = ''staging-1'', ef_state =
  Eff_planned, ef_version = 0, ef_payload_digest = (dg (CHR ''H'')), ef_prepared_ref =
  ''prepared/1'', ef_prepared_byte_length = 7, ef_claim_lease = None, ef_claim_generation =
  None, ef_submission_digest = None, ef_result_digest = None, ef_error_code = None,
  ef_created_at = 5800, ef_updated_at = 5800, ef_executing_at = None, ef_submitted_at = None,
  ef_observed_at = None\<rparr>]"

definition sweep_effect_log_1 :: "effect_transition_row list" where
  "sweep_effect_log_1 = [\<lparr>et_effect_id = ''stage-1'', et_from = None, et_to =
  Eff_planned, et_reason = ''treasury_staging_planned'', et_detail = Some (dg (CHR ''H'')),
  et_created_at = 5800\<rparr>]"

definition sweep_staging_plans_1 :: "staging_plan_row list" where
  "sweep_staging_plans_1 = [\<lparr>sp_effect_id = ''stage-1'', sp_purchase_id =
  toy_purchase_id, sp_attempt = 1, sp_reservation_id = ''reservation-1'', sp_idempotency_key =
  ''staging-1'', sp_payload_digest = (dg (CHR ''H'')), sp_prepared_ref = ''prepared/1'',
  sp_prepared_byte_length = 7, sp_planned_transaction_id = buy_txid, sp_expected_outpoint =
  (buy_txid @ '':0''), sp_staging_amount = ''501000'', sp_funding_source = ''vault-treasury'',
  sp_created_at = 5800\<rparr>]"

definition staging_planned_stage :: journal where
  "staging_planned_stage = empty_journal\<lparr>policies := buy_policies_1, active :=
  buy_active_1, reservations := buy_reservations_1, leases := sweep_leases_1, effects :=
  sweep_effects_1, effect_log := sweep_effect_log_1, attempts := buy_attempts_1, attempt_log :=
  buy_attempt_log_1, purchases := buy_purchases_4, purchase_log := buy_purchase_log_4,
  checkout_terms := buy_checkout_terms_1, authorization_requests :=
  buy_authorization_requests_1, authorizations := buy_authorizations_1, artifacts :=
  sweep_artifacts_1, evidence_links := sweep_evidence_links_1, evidence_verifications :=
  sweep_evidence_verifications_1, staging_plans := sweep_staging_plans_1, execution_plans :=
  buy_execution_plans_1\<rparr>"

lemma staging_planned_step:
  "steps_to (commitTreasuryStagingPreparation buy_store leased_stage prepare_lease stage_input ''stage-1'' 5800 5800)
     staging_planned_stage"
  by code_simp

lemma staging_planned_stage_reachable: "reachable 5800 staging_planned_stage"
  by (rule reachable_call [OF leased_stage_reachable call_stage_treasury])
    (use steps_to_result [OF staging_planned_step] in auto)

definition sweep_reservations_1 :: "reservation_row list" where
  "sweep_reservations_1 = map (\<lambda>r. r\<lparr>rs_state := Res_in_flight, rs_updated_at :=
  6000, rs_in_flight_at := Some 6000\<rparr>) buy_reservations_1"

definition sweep_leases_2 :: "lease_row list" where
  "sweep_leases_2 = sweep_leases_1 @ [\<lparr>ls_name = ''effect:stage-1'', ls_holder =
  ''worker-1'', ls_generation = 1, ls_expires_at = 66000, ls_updated_at = 6000\<rparr>]"

definition sweep_effects_2 :: "effect_row list" where
  "sweep_effects_2 = map (\<lambda>r. r\<lparr>ef_state := Eff_executing, ef_version := 1,
  ef_claim_lease := Some ''effect:stage-1'', ef_claim_generation := Some 1, ef_updated_at :=
  6000, ef_executing_at := Some 6000\<rparr>) sweep_effects_1"

definition sweep_effect_log_2 :: "effect_transition_row list" where
  "sweep_effect_log_2 = sweep_effect_log_1 @ [\<lparr>et_effect_id = ''stage-1'', et_from = Some
  Eff_planned, et_to = Eff_executing, et_reason = ''effect_claimed'', et_detail = Some (dg (CHR
  ''H'')), et_created_at = 6000\<rparr>]"

definition staging_stage :: journal where
  "staging_stage = empty_journal\<lparr>policies := buy_policies_1, active := buy_active_1,
  reservations := sweep_reservations_1, leases := sweep_leases_2, effects := sweep_effects_2,
  effect_log := sweep_effect_log_2, attempts := buy_attempts_1, attempt_log :=
  buy_attempt_log_1, purchases := buy_purchases_4, purchase_log := buy_purchase_log_4,
  checkout_terms := buy_checkout_terms_1, authorization_requests :=
  buy_authorization_requests_1, authorizations := buy_authorizations_1, artifacts :=
  sweep_artifacts_1, evidence_links := sweep_evidence_links_1, evidence_verifications :=
  sweep_evidence_verifications_1, staging_plans := sweep_staging_plans_1, execution_plans :=
  buy_execution_plans_1\<rparr>"

lemma staging_step:
  "steps_to (beginTreasuryStaging buy_verified staging_planned_stage ''stage-1'' ''reservation-1'' ''worker-1'' 60000 6000 6000)
     staging_stage"
  by code_simp

lemma staging_stage_reachable: "reachable 6000 staging_stage"
  by (rule reachable_call [OF staging_planned_stage_reachable call_begin_staging])
    (use steps_to_result [OF staging_step] in auto)

definition sweep_purchases_1 :: "purchase_row list" where
  "sweep_purchases_1 = map (\<lambda>r. r\<lparr>pu_state := Pur_execution_prepared, pu_version
  := 4, pu_updated_at := 6100\<rparr>) buy_purchases_4"

definition sweep_purchase_log_1 :: "purchase_transition_row list" where
  "sweep_purchase_log_1 = buy_purchase_log_4 @ [\<lparr>pt_purchase_id = toy_purchase_id,
  pt_from = Some Pur_authorised, pt_to = Pur_execution_prepared, pt_reason =
  ''staging_started'', pt_detail = None, pt_created_at = 6100\<rparr>]"

definition staging_ready_stage :: journal where
  "staging_ready_stage = empty_journal\<lparr>policies := buy_policies_1, active :=
  buy_active_1, reservations := sweep_reservations_1, leases := sweep_leases_2, effects :=
  sweep_effects_2, effect_log := sweep_effect_log_2, attempts := buy_attempts_1, attempt_log :=
  buy_attempt_log_1, purchases := sweep_purchases_1, purchase_log := sweep_purchase_log_1,
  checkout_terms := buy_checkout_terms_1, authorization_requests :=
  buy_authorization_requests_1, authorizations := buy_authorizations_1, artifacts :=
  sweep_artifacts_1, evidence_links := sweep_evidence_links_1, evidence_verifications :=
  sweep_evidence_verifications_1, staging_plans := sweep_staging_plans_1, execution_plans :=
  buy_execution_plans_1\<rparr>"

lemma staging_ready_step:
  "steps_to (transitionPurchase raw_hash staging_stage toy_purchase_id Pur_authorised Pur_execution_prepared ''staging_started'' None 6100)
     staging_ready_stage"
  by code_simp

lemma staging_ready_stage_reachable: "reachable 6100 staging_ready_stage"
  by (rule reachable_call [OF staging_stage_reachable call_transition_purchase])
    (use steps_to_result [OF staging_ready_step] in auto)

definition stage_lease :: lease_token where
  "stage_lease = \<lparr>lt_name = ''effect:stage-1'', lt_holder = ''worker-1'', lt_generation = 1,
     lt_expires_at = 66000\<rparr>"

definition stage_seen :: staging_observed_input where
  "stage_seen = \<lparr>gb_effect_id = ''stage-1'', gb_reservation_id = ''reservation-1'',
     gb_transaction_id = buy_txid, gb_outpoint = buy_txid @ '':0'', gb_amount = ''501000'',
     gb_funding_source = ''vault-treasury'', gb_evidence_digest = dg (CHR ''z''),
     gb_evidence_profile = ''p:staging'', gb_evidence_verifier = ''verifier''\<rparr>"

definition sweep_effects_3 :: "effect_row list" where
  "sweep_effects_3 = map (\<lambda>r. r\<lparr>ef_state := Eff_observed, ef_version := 2,
  ef_result_digest := Some (dg (CHR ''z'')), ef_updated_at := 6200, ef_observed_at := Some
  6200\<rparr>) sweep_effects_2"

definition sweep_effect_log_3 :: "effect_transition_row list" where
  "sweep_effect_log_3 = sweep_effect_log_2 @ [\<lparr>et_effect_id = ''stage-1'', et_from = Some
  Eff_executing, et_to = Eff_observed, et_reason = ''treasury_staging_output_observed'',
  et_detail = Some (dg (CHR ''z'')), et_created_at = 6200\<rparr>]"

definition sweep_effect_observations_1 :: "effect_observation_row list" where
  "sweep_effect_observations_1 = [\<lparr>eo_effect_id = ''stage-1'', eo_status = EO_observed,
  eo_result = Some (dg (CHR ''z'')), eo_detail = Some (dg (CHR ''z'')), eo_lease_name =
  ''effect:stage-1'', eo_lease_generation = 1, eo_observed_at = 6200\<rparr>]"

definition sweep_staging_observations_1 :: "staging_observation_row list" where
  "sweep_staging_observations_1 = [\<lparr>so_effect_id = ''stage-1'', so_purchase_id =
  toy_purchase_id, so_attempt = 1, so_reservation_id = ''reservation-1'', so_transaction_id =
  buy_txid, so_outpoint = (buy_txid @ '':0''), so_staging_amount = ''501000'', so_funding_source
  = ''vault-treasury'', so_evidence_digest = (dg (CHR ''z'')), so_evidence_profile =
  ''p:staging'', so_evidence_verifier = ''verifier'', so_observed_at = 6200\<rparr>]"

definition staged_stage :: journal where
  "staged_stage = empty_journal\<lparr>policies := buy_policies_1, active := buy_active_1,
  reservations := sweep_reservations_1, leases := sweep_leases_2, effects := sweep_effects_3,
  effect_log := sweep_effect_log_3, effect_observations := sweep_effect_observations_1, attempts
  := buy_attempts_1, attempt_log := buy_attempt_log_1, purchases := sweep_purchases_1,
  purchase_log := sweep_purchase_log_1, checkout_terms := buy_checkout_terms_1,
  authorization_requests := buy_authorization_requests_1, authorizations :=
  buy_authorizations_1, artifacts := sweep_artifacts_1, evidence_links :=
  sweep_evidence_links_1, evidence_verifications := sweep_evidence_verifications_1,
  staging_plans := sweep_staging_plans_1, staging_observations := sweep_staging_observations_1,
  execution_plans := buy_execution_plans_1\<rparr>"

lemma staged_step:
  "steps_to (recordObservedTreasuryStaging intact_all staging_ready_stage stage_lease stage_seen 6200 6200 6200)
     staged_stage"
  by code_simp

lemma staged_stage_reachable: "reachable 6200 staged_stage"
  by (rule reachable_call [OF staging_ready_stage_reachable call_staging_observed])
    (use steps_to_result [OF staged_step] in auto)

definition sweep_purchases_2 :: "purchase_row list" where
  "sweep_purchases_2 = map (\<lambda>r. r\<lparr>pu_state := Pur_failed_recoverable, pu_version
  := 5, pu_updated_at := 6300\<rparr>) sweep_purchases_1"

definition sweep_purchase_log_2 :: "purchase_transition_row list" where
  "sweep_purchase_log_2 = sweep_purchase_log_1 @ [\<lparr>pt_purchase_id = toy_purchase_id,
  pt_from = Some Pur_execution_prepared, pt_to = Pur_failed_recoverable, pt_reason =
  ''payment_never_made'', pt_detail = None, pt_created_at = 6300\<rparr>]"

definition abandoned_stage :: journal where
  "abandoned_stage = empty_journal\<lparr>policies := buy_policies_1, active := buy_active_1,
  reservations := sweep_reservations_1, leases := sweep_leases_2, effects := sweep_effects_3,
  effect_log := sweep_effect_log_3, effect_observations := sweep_effect_observations_1, attempts
  := buy_attempts_1, attempt_log := buy_attempt_log_1, purchases := sweep_purchases_2,
  purchase_log := sweep_purchase_log_2, checkout_terms := buy_checkout_terms_1,
  authorization_requests := buy_authorization_requests_1, authorizations :=
  buy_authorizations_1, artifacts := sweep_artifacts_1, evidence_links :=
  sweep_evidence_links_1, evidence_verifications := sweep_evidence_verifications_1,
  staging_plans := sweep_staging_plans_1, staging_observations := sweep_staging_observations_1,
  execution_plans := buy_execution_plans_1\<rparr>"

lemma abandoned_step:
  "steps_to (transitionPurchase raw_hash staged_stage toy_purchase_id Pur_execution_prepared Pur_failed_recoverable ''payment_never_made'' None 6300)
     abandoned_stage"
  by code_simp

lemma abandoned_stage_reachable: "reachable 6300 abandoned_stage"
  by (rule reachable_call [OF staged_stage_reachable call_transition_purchase])
    (use steps_to_result [OF abandoned_step] in auto)

definition sweep_lease :: lease_token where
  "sweep_lease = \<lparr>lt_name = treasuryStagingRecoveryPlanningLeaseName toy_purchase_id,
     lt_holder = ''worker-1'', lt_generation = 1, lt_expires_at = 66400\<rparr>"

definition sweep_leases_3 :: "lease_row list" where
  "sweep_leases_3 = sweep_leases_2 @ [\<lparr>ls_name =
  (treasuryStagingRecoveryPlanningLeaseName toy_purchase_id), ls_holder = ''worker-1'',
  ls_generation = 1, ls_expires_at = 66400, ls_updated_at = 6400\<rparr>]"

definition sweep_leased_stage :: journal where
  "sweep_leased_stage = empty_journal\<lparr>policies := buy_policies_1, active := buy_active_1,
  reservations := sweep_reservations_1, leases := sweep_leases_3, effects := sweep_effects_3,
  effect_log := sweep_effect_log_3, effect_observations := sweep_effect_observations_1, attempts
  := buy_attempts_1, attempt_log := buy_attempt_log_1, purchases := sweep_purchases_2,
  purchase_log := sweep_purchase_log_2, checkout_terms := buy_checkout_terms_1,
  authorization_requests := buy_authorization_requests_1, authorizations :=
  buy_authorizations_1, artifacts := sweep_artifacts_1, evidence_links :=
  sweep_evidence_links_1, evidence_verifications := sweep_evidence_verifications_1,
  staging_plans := sweep_staging_plans_1, staging_observations := sweep_staging_observations_1,
  execution_plans := buy_execution_plans_1\<rparr>"

lemma sweep_leased_step:
  "steps_to (acquireLease abandoned_stage (treasuryStagingRecoveryPlanningLeaseName toy_purchase_id) ''worker-1'' 60000 6400)
     sweep_leased_stage"
  by code_simp

lemma sweep_leased_stage_reachable: "reachable 6400 sweep_leased_stage"
  by (rule reachable_call [OF abandoned_stage_reachable call_acquire_lease])
    (use steps_to_result [OF sweep_leased_step] in auto)

definition sweep_input :: recovery_input where
  "sweep_input = \<lparr>vi_purchase_id = toy_purchase_id, vi_attempt = 1, vi_reservation_id = ''reservation-1'',
     vi_staging_effect_id = ''stage-1'', vi_idempotency_key = ''sweep-1'',
     vi_payload_digest = digest_of ''sweep'', vi_bytes = ''sweep'', vi_exact_transaction_id = None,
     vi_recovery_transaction_id = sweep_txid, vi_recovery_outpoint = sweep_txid @ '':0'',
     vi_recovery_amount = ''500000'', vi_staging_fee = ''500'', vi_recovery_fee = ''1000'',
     vi_required_finality = ''confirmed'', vi_cost_ceiling = ''2000''\<rparr>"

definition sweep_effects_4 :: "effect_row list" where
  "sweep_effects_4 = sweep_effects_3 @ [\<lparr>ef_id = ''sweep-1'', ef_purchase_id =
  toy_purchase_id, ef_attempt = Some 1, ef_kind = ''treasury-staging-recovery'',
  ef_idempotency_key = ''sweep-1'', ef_state = Eff_planned, ef_version = 0, ef_payload_digest =
  (dg (CHR ''F'')), ef_prepared_ref = ''prepared/1'', ef_prepared_byte_length = 5,
  ef_claim_lease = None, ef_claim_generation = None, ef_submission_digest = None,
  ef_result_digest = None, ef_error_code = None, ef_created_at = 6500, ef_updated_at = 6500,
  ef_executing_at = None, ef_submitted_at = None, ef_observed_at = None\<rparr>]"

definition sweep_effect_log_4 :: "effect_transition_row list" where
  "sweep_effect_log_4 = sweep_effect_log_3 @ [\<lparr>et_effect_id = ''sweep-1'', et_from =
  None, et_to = Eff_planned, et_reason = ''treasury_staging_recovery_planned'', et_detail = Some
  (dg (CHR ''F'')), et_created_at = 6500\<rparr>]"

definition sweep_recovery_plans_1 :: "recovery_plan_row list" where
  "sweep_recovery_plans_1 = [\<lparr>rp_effect_id = ''sweep-1'', rp_purchase_id =
  toy_purchase_id, rp_attempt = 1, rp_reservation_id = ''reservation-1'', rp_staging_effect_id =
  ''stage-1'', rp_payload_digest = (dg (CHR ''F'')), rp_prepared_ref = ''prepared/1'',
  rp_prepared_byte_length = 5, rp_exact_transaction_id = None, rp_recovery_transaction_id =
  sweep_txid, rp_recovery_outpoint = (sweep_txid @ '':0''), rp_recovery_amount = ''500000'',
  rp_staging_fee = ''500'', rp_recovery_fee = ''1000'', rp_cost_ceiling = ''2000'',
  rp_required_finality = ''confirmed'', rp_created_at = 6500\<rparr>]"

definition sweep_planned_stage :: journal where
  "sweep_planned_stage = empty_journal\<lparr>policies := buy_policies_1, active :=
  buy_active_1, reservations := sweep_reservations_1, leases := sweep_leases_3, effects :=
  sweep_effects_4, effect_log := sweep_effect_log_4, effect_observations :=
  sweep_effect_observations_1, attempts := buy_attempts_1, attempt_log := buy_attempt_log_1,
  purchases := sweep_purchases_2, purchase_log := sweep_purchase_log_2, checkout_terms :=
  buy_checkout_terms_1, authorization_requests := buy_authorization_requests_1, authorizations
  := buy_authorizations_1, artifacts := sweep_artifacts_1, evidence_links :=
  sweep_evidence_links_1, evidence_verifications := sweep_evidence_verifications_1,
  staging_plans := sweep_staging_plans_1, staging_observations := sweep_staging_observations_1,
  execution_plans := buy_execution_plans_1, recovery_plans := sweep_recovery_plans_1\<rparr>"

lemma sweep_planned_step:
  "steps_to (planTreasuryStagingRecovery buy_store sweep_leased_stage sweep_input sweep_lease ''sweep-1'' 6500 6500)
     sweep_planned_stage"
  by code_simp

lemma sweep_planned_stage_reachable: "reachable 6500 sweep_planned_stage"
  by (rule reachable_call [OF sweep_leased_stage_reachable call_plan_recovery])
    (use steps_to_result [OF sweep_planned_step] in auto)

definition sweep_leases_4 :: "lease_row list" where
  "sweep_leases_4 = sweep_leases_3 @ [\<lparr>ls_name = ''effect:sweep-1'', ls_holder =
  ''worker-1'', ls_generation = 1, ls_expires_at = 66600, ls_updated_at = 6600\<rparr>]"

definition sweep_effects_5 :: "effect_row list" where
  "sweep_effects_5 = [\<lparr>ef_id = ''stage-1'', ef_purchase_id = toy_purchase_id, ef_attempt
  = Some 1, ef_kind = ''treasury-staging'', ef_idempotency_key = ''staging-1'', ef_state =
  Eff_observed, ef_version = 2, ef_payload_digest = (dg (CHR ''H'')), ef_prepared_ref =
  ''prepared/1'', ef_prepared_byte_length = 7, ef_claim_lease = Some ''effect:stage-1'',
  ef_claim_generation = Some 1, ef_submission_digest = None, ef_result_digest = Some (dg (CHR
  ''z'')), ef_error_code = None, ef_created_at = 5800, ef_updated_at = 6200, ef_executing_at =
  Some 6000, ef_submitted_at = None, ef_observed_at = Some 6200\<rparr>, \<lparr>ef_id =
  ''sweep-1'', ef_purchase_id = toy_purchase_id, ef_attempt = Some 1, ef_kind =
  ''treasury-staging-recovery'', ef_idempotency_key = ''sweep-1'', ef_state = Eff_executing,
  ef_version = 1, ef_payload_digest = (dg (CHR ''F'')), ef_prepared_ref = ''prepared/1'',
  ef_prepared_byte_length = 5, ef_claim_lease = Some ''effect:sweep-1'', ef_claim_generation =
  Some 1, ef_submission_digest = None, ef_result_digest = None, ef_error_code = None,
  ef_created_at = 6500, ef_updated_at = 6600, ef_executing_at = Some 6600, ef_submitted_at =
  None, ef_observed_at = None\<rparr>]"

definition sweep_effect_log_5 :: "effect_transition_row list" where
  "sweep_effect_log_5 = sweep_effect_log_4 @ [\<lparr>et_effect_id = ''sweep-1'', et_from = Some
  Eff_planned, et_to = Eff_executing, et_reason = ''effect_claimed'', et_detail = Some (dg (CHR
  ''F'')), et_created_at = 6600\<rparr>]"

definition sweeping_stage :: journal where
  "sweeping_stage = empty_journal\<lparr>policies := buy_policies_1, active := buy_active_1,
  reservations := sweep_reservations_1, leases := sweep_leases_4, effects := sweep_effects_5,
  effect_log := sweep_effect_log_5, effect_observations := sweep_effect_observations_1, attempts
  := buy_attempts_1, attempt_log := buy_attempt_log_1, purchases := sweep_purchases_2,
  purchase_log := sweep_purchase_log_2, checkout_terms := buy_checkout_terms_1,
  authorization_requests := buy_authorization_requests_1, authorizations :=
  buy_authorizations_1, artifacts := sweep_artifacts_1, evidence_links :=
  sweep_evidence_links_1, evidence_verifications := sweep_evidence_verifications_1,
  staging_plans := sweep_staging_plans_1, staging_observations := sweep_staging_observations_1,
  execution_plans := buy_execution_plans_1, recovery_plans := sweep_recovery_plans_1\<rparr>"

lemma sweeping_step:
  "steps_to (beginTreasuryStagingRecovery buy_verified sweep_planned_stage ''sweep-1'' ''worker-1'' 60000 6600)
     sweeping_stage"
  by code_simp

lemma sweeping_stage_reachable: "reachable 6600 sweeping_stage"
  by (rule reachable_call [OF sweep_planned_stage_reachable call_begin_recovery])
    (use steps_to_result [OF sweeping_step] in auto)

definition sweep_writer :: lease_token where
  "sweep_writer = \<lparr>lt_name = ''effect:sweep-1'', lt_holder = ''worker-1'', lt_generation = 1,
     lt_expires_at = 66600\<rparr>"

definition sweep_seen :: recovery_observation_input where
  "sweep_seen = \<lparr>oi_status = Rec_recovery_won, oi_evidence_digest = dg (CHR ''y''),
     oi_readiness_proof = None, oi_readiness_observed_at = None, oi_readiness_expires_at = None,
     oi_winning_transaction_id = Some sweep_txid, oi_winning_finality = Some ''confirmed'',
     oi_recovery_outpoint = Some (sweep_txid @ '':0''), oi_recovery_amount = Some ''500000'',
     oi_conflict_reason = None\<rparr>"

definition sweep_reservations_2 :: "reservation_row list" where
  "sweep_reservations_2 = map (\<lambda>r. r\<lparr>rs_state := Res_released, rs_updated_at :=
  7000, rs_release_evidence := Some (dg (CHR ''y''))\<rparr>) sweep_reservations_1"

definition sweep_recoveries_1 :: "recovery_accounting_row list" where
  "sweep_recoveries_1 = [\<lparr>ra_effect_id = ''sweep-1'', ra_reservation_id =
  ''reservation-1'', ra_purchase_id = toy_purchase_id, ra_attempt = 1, ra_transaction_id =
  sweep_txid, ra_outpoint = (sweep_txid @ '':0''), ra_returned_amount = ''500000'',
  ra_staging_fee = ''500'', ra_recovery_fee = ''1000'', ra_additional_cost = ''1500'',
  ra_finality = ''confirmed'', ra_evidence_digest = (dg (CHR ''y'')), ra_observed_at =
  7000\<rparr>]"

definition sweep_effects_6 :: "effect_row list" where
  "sweep_effects_6 = [\<lparr>ef_id = ''stage-1'', ef_purchase_id = toy_purchase_id, ef_attempt
  = Some 1, ef_kind = ''treasury-staging'', ef_idempotency_key = ''staging-1'', ef_state =
  Eff_observed, ef_version = 2, ef_payload_digest = (dg (CHR ''H'')), ef_prepared_ref =
  ''prepared/1'', ef_prepared_byte_length = 7, ef_claim_lease = Some ''effect:stage-1'',
  ef_claim_generation = Some 1, ef_submission_digest = None, ef_result_digest = Some (dg (CHR
  ''z'')), ef_error_code = None, ef_created_at = 5800, ef_updated_at = 6200, ef_executing_at =
  Some 6000, ef_submitted_at = None, ef_observed_at = Some 6200\<rparr>, \<lparr>ef_id =
  ''sweep-1'', ef_purchase_id = toy_purchase_id, ef_attempt = Some 1, ef_kind =
  ''treasury-staging-recovery'', ef_idempotency_key = ''sweep-1'', ef_state = Eff_observed,
  ef_version = 2, ef_payload_digest = (dg (CHR ''F'')), ef_prepared_ref = ''prepared/1'',
  ef_prepared_byte_length = 5, ef_claim_lease = Some ''effect:sweep-1'', ef_claim_generation =
  Some 1, ef_submission_digest = None, ef_result_digest = Some (dg (CHR ''y'')), ef_error_code =
  None, ef_created_at = 6500, ef_updated_at = 7000, ef_executing_at = Some 6600, ef_submitted_at
  = None, ef_observed_at = Some 7000\<rparr>]"

definition sweep_effect_log_6 :: "effect_transition_row list" where
  "sweep_effect_log_6 = sweep_effect_log_5 @ [\<lparr>et_effect_id = ''sweep-1'', et_from = Some
  Eff_executing, et_to = Eff_observed, et_reason = ''staging_recovery_finality_observed'',
  et_detail = Some (dg (CHR ''y'')), et_created_at = 7000\<rparr>]"

definition sweep_effect_observations_2 :: "effect_observation_row list" where
  "sweep_effect_observations_2 = sweep_effect_observations_1 @ [\<lparr>eo_effect_id =
  ''sweep-1'', eo_status = EO_observed, eo_result = Some (dg (CHR ''y'')), eo_detail = Some (dg
  (CHR ''y'')), eo_lease_name = ''effect:sweep-1'', eo_lease_generation = 1, eo_observed_at =
  7000\<rparr>]"

definition sweep_attempts_1 :: "attempt_row list" where
  "sweep_attempts_1 = map (\<lambda>r. r\<lparr>at_state := Att_failed, at_version := 1,
  at_failure_code := Some ''staging_recovered_without_payment'', at_updated_at := 7000\<rparr>)
  buy_attempts_1"

definition sweep_attempt_log_1 :: "attempt_transition_row list" where
  "sweep_attempt_log_1 = buy_attempt_log_1 @ [\<lparr>att_purchase_id = toy_purchase_id,
  att_attempt = 1, att_from = Some Att_planned, att_to = Att_failed, att_reason =
  ''staging_recovered_without_payment'', att_detail = Some (dg (CHR ''y'')), att_created_at =
  7000\<rparr>]"

definition sweep_purchases_3 :: "purchase_row list" where
  "sweep_purchases_3 = map (\<lambda>r. r\<lparr>pu_state := Pur_expired, pu_version := 6,
  pu_updated_at := 7000\<rparr>) sweep_purchases_2"

definition sweep_purchase_log_3 :: "purchase_transition_row list" where
  "sweep_purchase_log_3 = sweep_purchase_log_2 @ [\<lparr>pt_purchase_id = toy_purchase_id,
  pt_from = Some Pur_failed_recoverable, pt_to = Pur_expired, pt_reason =
  ''staging_recovered_without_payment'', pt_detail = Some (dg (CHR ''y'')), pt_created_at =
  7000\<rparr>]"

definition sweep_recovery_observations_1 :: "recovery_observation_row list" where
  "sweep_recovery_observations_1 = [\<lparr>ro_effect_id = ''sweep-1'', ro_status =
  Rec_recovery_won, ro_evidence_digest = (dg (CHR ''y'')), ro_readiness_proof = None,
  ro_readiness_observed_at = None, ro_readiness_expires_at = None, ro_winning_transaction_id =
  Some sweep_txid, ro_winning_finality = Some ''confirmed'', ro_recovery_outpoint = Some
  (sweep_txid @ '':0''), ro_recovery_amount = Some ''500000'', ro_conflict_reason = None,
  ro_lease_name = ''effect:sweep-1'', ro_lease_generation = 1, ro_observed_at = 7000\<rparr>]"

definition swept_stage :: journal where
  "swept_stage = empty_journal\<lparr>policies := buy_policies_1, active := buy_active_1,
  reservations := sweep_reservations_2, recoveries := sweep_recoveries_1, leases :=
  sweep_leases_4, effects := sweep_effects_6, effect_log := sweep_effect_log_6,
  effect_observations := sweep_effect_observations_2, attempts := sweep_attempts_1, attempt_log
  := sweep_attempt_log_1, purchases := sweep_purchases_3, purchase_log := sweep_purchase_log_3,
  checkout_terms := buy_checkout_terms_1, authorization_requests :=
  buy_authorization_requests_1, authorizations := buy_authorizations_1, artifacts :=
  sweep_artifacts_1, evidence_links := sweep_evidence_links_1, evidence_verifications :=
  sweep_evidence_verifications_1, staging_plans := sweep_staging_plans_1, staging_observations
  := sweep_staging_observations_1, execution_plans := buy_execution_plans_1, recovery_plans :=
  sweep_recovery_plans_1, recovery_observations := sweep_recovery_observations_1\<rparr>"

lemma swept_step:
  "steps_to (recordTreasuryStagingRecoveryObservation raw_hash sweeping_stage ''sweep-1'' sweep_writer sweep_seen 7000 7000 7000 7000)
     swept_stage"
  by code_simp

lemma swept_stage_reachable: "reachable 7000 swept_stage"
  by (rule reachable_call [OF sweeping_stage_reachable call_recovery_observed])
    (use steps_to_result [OF swept_step] in auto)

end
