(* ===== verification/Chain_Evidence.thy ===== *)
theory Chain_Evidence
  imports Contracts
begin

text \<open>
  Chain Evidence (\<open>src/chain-evidence/types.ts\<close>, \<open>src/chain-evidence/module.ts\<close>, and its table in
  \<open>src/purchase/journal.ts\<close>): what two independent observers of the chain report about a
  transaction, what is concluded from it, and what is kept of it.

  The two sources are other code: what one answers to a request is an argument, \<open>None\<close> when the
  call throws. \<open>aborted n\<close> is the abort signal the \<open>n\<close>-th time the module asks it. A module state
  is the Map of absence windows, in insertion order, and the tables of the store; an exception
  leaves what was already recorded, so \<open>observe\<close> returns the state beside its result.
\<close>

section \<open>Data\<close>

datatype chain_status = CS_present | CS_absent | CS_unknown | CS_unavailable

datatype chain_level =
  Level_provisional | Level_accepted | Level_depth_confirmed | Level_consensus_final

datatype chain_view = View_current | View_historical

datatype chain_mechanism = Mech_ordinary | Mech_native_covenant | Mech_kip10_script_template

datatype chain_operation =
  Chain_settlement | Chain_direct_treasury | Chain_vault | Chain_staging | Chain_recovery_release

record expected_output =
  xo_index :: int
  xo_amount :: string
  xo_script :: string
  xo_address :: string
  xo_covenant_id :: "string option"

record expected_input =
  xi_transaction_id :: string
  xi_index :: int

record chain_request =
  cq_operation_id :: string
  cq_operation :: chain_operation
  cq_network :: string
  cq_transaction_id :: string
  cq_outputs :: "expected_output list"
  cq_inputs :: "expected_input list option"
  cq_watched :: "string list"
  cq_mechanism :: chain_mechanism
  cq_finality :: payment_finality

record accepted_source =
  as_level :: chain_level
  as_view :: chain_view
  as_profile :: string
  as_transaction_id :: string
  as_block :: string
  as_accepting_block :: string
  as_accepting_daa :: string
  as_virtual_daa :: string
  as_outputs_digest :: string
  as_detail_digest :: string
  as_observed_at :: int

text \<open>
  \<open>ChainSourceEvidence\<close>: accepted in a block, seen but provisional (its profile, transaction,
  outputs digest, detail digest and time), or not present (its status, profile, detail digest and
  time).
\<close>

datatype source_evidence =
    Source_accepted accepted_source
  | Source_provisional string string string string int
  | Source_missing chain_status string string int

record chain_record =
  ce_profile :: string
  ce_operation_id :: string
  ce_operation :: chain_operation
  ce_transaction_id :: string
  ce_status :: chain_status
  ce_level :: "chain_level option"
  ce_view :: "chain_view option"
  ce_mechanism :: chain_mechanism
  ce_protocol_finality :: payment_finality
  ce_operator_floor :: finality_floor
  ce_effective_floor :: finality_floor
  ce_primary_profile :: string
  ce_witness_profile :: string
  ce_block :: "string option"
  ce_accepting_block :: "string option"
  ce_accepting_daa :: "string option"
  ce_virtual_daa :: "string option"
  ce_outputs_digest :: string
  ce_detail_digest :: string
  ce_observed_at :: int

record chain_row =
  cr_record :: chain_record
  cr_manifest_revision :: int
  cr_manifest_digest :: string

record finality_selection =
  fs_operation :: chain_operation
  fs_protocol :: payment_finality
  fs_operator_floor :: finality_floor
  fs_effective_floor :: finality_floor
  fs_depth :: string

datatype chain_interpretation = Int_accepted | Int_provisional | Int_absent | Int_unknown | Int_unavailable

record observation =
  ob_interpretation :: chain_interpretation
  ob_evidence :: chain_record
  ob_finality :: finality_selection

record chain_query =
  qy_profile :: string
  qy_operation_id :: string
  qy_operation :: chain_operation
  qy_transaction_id :: string
  qy_outputs_digest :: string
  qy_mechanism :: chain_mechanism
  qy_protocol_finality :: payment_finality
  qy_operator_floor :: finality_floor
  qy_effective_floor :: finality_floor

record chain_tables =
  manifest_binding :: "(int \<times> string) option"
  chain_rows :: "chain_row list"

record absence_window =
  aw_key :: string
  aw_first_seen :: int
  aw_last_seen :: int

record chain_state =
  windows :: "absence_window list"
  tables :: chain_tables

record chain_config =
  cf_policy :: "chain_operation \<Rightarrow> finality_floor"
  cf_depth :: string

datatype chain_error = ChainEvidenceError | Chain_aborted | Chain_journal error | Chain_syntax

definition CHAIN_EVIDENCE_PROFILE :: string where
  "CHAIN_EVIDENCE_PROFILE = ''urn:sompi:chain-evidence:testnet-10:1''"

definition CHAIN_EVIDENCE_OPERATOR_PROFILE :: string where
  "CHAIN_EVIDENCE_OPERATOR_PROFILE = ''kaspa-operator-wrpc-v1''"

definition CHAIN_EVIDENCE_WITNESS_PROFILE :: string where
  "CHAIN_EVIDENCE_WITNESS_PROFILE = ''kaspa-rest-accepted-history-v1''"

definition ABSENCE_PROPAGATION_INTERVAL_MS :: int where "ABSENCE_PROPAGATION_INTERVAL_MS = 1000"
definition ABSENCE_RETENTION_MS :: int where "ABSENCE_RETENTION_MS = 30000"
definition MAX_TRACKED_ABSENCES :: nat where "MAX_TRACKED_ABSENCES = 1024"

section \<open>Names\<close>

fun status_name :: "chain_status \<Rightarrow> string" where
  "status_name CS_present = ''present''"
| "status_name CS_absent = ''absent''"
| "status_name CS_unknown = ''unknown''"
| "status_name CS_unavailable = ''unavailable''"

fun level_name :: "chain_level \<Rightarrow> string" where
  "level_name Level_provisional = ''provisional''"
| "level_name Level_accepted = ''accepted''"
| "level_name Level_depth_confirmed = ''depth-confirmed''"
| "level_name Level_consensus_final = ''consensus-final''"

fun view_name :: "chain_view \<Rightarrow> string" where
  "view_name View_current = ''current''"
| "view_name View_historical = ''historical''"

fun chain_mechanism_name :: "chain_mechanism \<Rightarrow> string" where
  "chain_mechanism_name Mech_ordinary = ''ordinary''"
| "chain_mechanism_name Mech_native_covenant = ''native-covenant''"
| "chain_mechanism_name Mech_kip10_script_template = ''kip10-script-template''"

fun chain_operation_name :: "chain_operation \<Rightarrow> string" where
  "chain_operation_name Chain_settlement = ''settlement''"
| "chain_operation_name Chain_direct_treasury = ''direct-treasury''"
| "chain_operation_name Chain_vault = ''vault''"
| "chain_operation_name Chain_staging = ''staging''"
| "chain_operation_name Chain_recovery_release = ''recovery-release''"

fun protocol_name :: "payment_finality \<Rightarrow> string" where
  "protocol_name Fin_mempool = ''mempool''"
| "protocol_name Fin_accepted = ''accepted''"
| "protocol_name Fin_confirmed = ''confirmed''"

section \<open>Digests\<close>

text \<open>\<open>sort\<close>: the keys of every object in code unit order\<close>

fun sort_json :: "json \<Rightarrow> json"
  and sort_items :: "json list \<Rightarrow> json list"
  and sort_fields :: "(string \<times> json) list \<Rightarrow> (string \<times> json) list"
where
  "sort_json (J_array xs) = J_array (sort_items xs)"
| "sort_json (J_object fs) = J_object (sort_key fst (sort_fields fs))"
| "sort_json x = x"
| "sort_items [] = []"
| "sort_items (x # xs) = sort_json x # sort_items xs"
| "sort_fields [] = []"
| "sort_fields ((k, x) # fs) = (k, sort_json x) # sort_fields fs"

definition digest :: "(string \<Rightarrow> string) \<Rightarrow> (string \<times> json) list \<Rightarrow> string" where
  "digest H entries = ''sha256:'' @ H (json_text (sort_json (J_object entries)))"

definition output_json :: "expected_output \<Rightarrow> json" where
  "output_json x = J_object (
     [(''index'', J_int (xo_index x)), (''amountAtomic'', J_string (xo_amount x)),
      (''scriptPublicKey'', J_string (xo_script x)), (''address'', J_string (xo_address x))]
     @ optional_field ''covenantId'' (map_option J_string (xo_covenant_id x)))"

definition input_json :: "expected_input \<Rightarrow> json" where
  "input_json x = J_object
     [(''transactionId'', J_string (xi_transaction_id x)), (''index'', J_int (xi_index x))]"

definition outputsDigest :: "(string \<Rightarrow> string) \<Rightarrow> chain_request \<Rightarrow> string" where
  "outputsDigest H q = digest H
     [(''transactionId'', J_string (cq_transaction_id q)),
      (''mechanism'', J_string (chain_mechanism_name (cq_mechanism q))),
      (''inputs'', J_array (map input_json (case cq_inputs q of None \<Rightarrow> [] | Some xs \<Rightarrow> xs))),
      (''outputs'', J_array (map output_json (cq_outputs q)))]"

section \<open>Configuration\<close>

definition readTime :: "int \<Rightarrow> chain_error + int" where
  "readTime value = (if \<not> is_safe_integer value \<or> value \<le> 0 then Inl ChainEvidenceError else Inr value)"

text \<open>\<open>/^[1-9][0-9]*$/\<close>, at most 78 long\<close>

definition readDepthConfirmationDaa :: "string \<Rightarrow> chain_error + string" where
  "readDepthConfirmationDaa value =
     (if value = [] \<or> \<not> list_all is_digit value \<or> hd value = CHR ''0'' \<or> length value > 78
      then Inl ChainEvidenceError else Inr value)"

definition createChainEvidenceModule ::
  "string \<Rightarrow> string \<Rightarrow> (chain_operation \<Rightarrow> finality_floor) \<Rightarrow> int \<Rightarrow> chain_error + chain_config" where
  "createChainEvidenceModule primary_depth witness_depth finalityPolicy clock =
     rbind (readDepthConfirmationDaa primary_depth) (\<lambda>primaryDepth.
     rbind (readDepthConfirmationDaa witness_depth) (\<lambda>witnessDepth.
     if primaryDepth \<noteq> witnessDepth then Inl ChainEvidenceError
     else rbind (readTime clock) (\<lambda>_.
       Inr \<lparr>cf_policy = finalityPolicy, cf_depth = primaryDepth\<rparr>)))"

definition selectFinality ::
  "chain_config \<Rightarrow> chain_operation \<Rightarrow> payment_finality \<Rightarrow> finality_selection" where
  "selectFinality cf operation protocolFinality =
     (let operatorFloor = cf_policy cf operation in
      \<lparr>fs_operation = operation, fs_protocol = protocolFinality, fs_operator_floor = operatorFloor,
       fs_effective_floor = chainEvidenceEffectiveFloor protocolFinality operatorFloor,
       fs_depth = cf_depth cf\<rparr>)"

section \<open>Requests\<close>

definition is_hash32 :: "string \<Rightarrow> bool" where
  "is_hash32 s \<longleftrightarrow> length s = 64 \<and> list_all is_hex s"

definition output_ok :: "expected_output \<Rightarrow> bool" where
  "output_ok x \<longleftrightarrow>
     is_safe_integer (xo_index x) \<and> 0 \<le> xo_index x \<and> canonical_decimal (xo_amount x)
     \<and> xo_script x \<noteq> [] \<and> list_all is_hex (xo_script x)
     \<and> xo_address x \<noteq> [] \<and> length (xo_address x) \<le> 256"

definition input_ok :: "expected_input \<Rightarrow> bool" where
  "input_ok x \<longleftrightarrow>
     is_hash32 (xi_transaction_id x) \<and> is_safe_integer (xi_index x)
     \<and> 0 \<le> xi_index x \<and> xi_index x \<le> 0xffffffff"

definition validateRequest :: "chain_request \<Rightarrow> bool \<Rightarrow> chain_error + unit" where
  "validateRequest q abort =
     (if cq_network q \<noteq> ''kaspa:testnet-10'' \<or> \<not> is_identity_path (cq_operation_id q) 256
         \<or> \<not> is_hash32 (cq_transaction_id q)
      then Inl ChainEvidenceError
      else if cq_outputs q = [] \<or> length (cq_outputs q) > 16 then Inl ChainEvidenceError
      else if \<not> list_all output_ok (cq_outputs q) \<or> \<not> distinct (map xo_index (cq_outputs q))
      then Inl ChainEvidenceError
      else if (case cq_inputs q of None \<Rightarrow> False
               | Some xs \<Rightarrow> length xs > 64 \<or> \<not> list_all input_ok xs)
      then Inl ChainEvidenceError
      else if cq_watched q = [] \<or> length (cq_watched q) > 16
              \<or> list_ex (\<lambda>a. length a > 256) (cq_watched q)
      then Inl ChainEvidenceError
      else if abort then Inl Chain_aborted
      else Inr ())"

section \<open>The store: \<open>recordChainEvidence\<close> and \<open>findRetainedChainEvidence\<close> of the journal\<close>

fun accepted_level :: "chain_level option \<Rightarrow> bool" where
  "accepted_level (Some l) = (l \<noteq> Level_provisional)"
| "accepted_level None = False"

definition validateChainEvidenceRecord :: "chain_record \<Rightarrow> unit result" where
  "validateChainEvidenceRecord r =
     (if ce_profile r \<noteq> CHAIN_EVIDENCE_PROFILE \<or> \<not> is_identity_path (ce_operation_id r) 256
         \<or> \<not> is_hash32 (ce_transaction_id r)
         \<or> ce_primary_profile r = [] \<or> ce_witness_profile r = []
         \<or> \<not> is_sha256_digest (ce_outputs_digest r) \<or> \<not> is_sha256_digest (ce_detail_digest r)
         \<or> \<not> is_safe_integer (ce_observed_at r) \<or> ce_observed_at r \<le> 0
      then Inl JournalInvariantError
      else if ce_effective_floor r
              \<noteq> chainEvidenceEffectiveFloor (ce_protocol_finality r) (ce_operator_floor r)
      then Inl JournalInvariantError
      else if (ce_status r = CS_present) \<noteq> (ce_level r \<noteq> None \<and> ce_view r \<noteq> None)
      then Inl JournalInvariantError
      else
        let accepted = accepted_level (ce_level r);
            anchors = [ce_block r, ce_accepting_block r, ce_accepting_daa r, ce_virtual_daa r]
        in if accepted \<noteq> list_all (\<lambda>v. v \<noteq> None) anchors
              \<or> \<not> accepted \<and> list_ex (\<lambda>v. v \<noteq> None) anchors
              \<or> accepted \<and> (\<not> is_hash32 (case_option [] id (ce_block r))
                             \<or> \<not> is_hash32 (case_option [] id (ce_accepting_block r))
                             \<or> \<not> canonical_decimal (case_option [] id (ce_accepting_daa r))
                             \<or> \<not> canonical_decimal (case_option [] id (ce_virtual_daa r)))
           then Inl JournalInvariantError
           else if accepted \<and> (ce_primary_profile r \<noteq> CHAIN_EVIDENCE_OPERATOR_PROFILE
                               \<or> ce_witness_profile r \<noteq> CHAIN_EVIDENCE_WITNESS_PROFILE)
           then Inl JournalInvariantError
           else Inr ())"

text \<open>
  \<open>JSON.stringify\<close> of a record follows the order in which its properties were added: a record that
  \<open>merge\<close> builds spreads \<open>base\<close> first, a record read from a row (and one derived from it) has the
  order of \<open>chainEvidenceFromRow\<close>.
\<close>

datatype key_order = Merged_order | Row_order

definition chain_head :: "chain_record \<Rightarrow> (string \<times> json) list" where
  "chain_head r =
     [(''profile'', J_string (ce_profile r)), (''operationId'', J_string (ce_operation_id r)),
      (''operation'', J_string (chain_operation_name (ce_operation r))),
      (''transactionId'', J_string (ce_transaction_id r))]"

definition chain_presence :: "chain_record \<Rightarrow> (string \<times> json) list" where
  "chain_presence r =
     (''status'', J_string (status_name (ce_status r)))
     # optional_field ''level'' (map_option (\<lambda>l. J_string (level_name l)) (ce_level r))
     @ optional_field ''view'' (map_option (\<lambda>v. J_string (view_name v)) (ce_view r))"

definition chain_terms :: "chain_record \<Rightarrow> (string \<times> json) list" where
  "chain_terms r =
     [(''mechanism'', J_string (chain_mechanism_name (ce_mechanism r))),
      (''protocolFinality'', J_string (protocol_name (ce_protocol_finality r))),
      (''operatorFloor'', J_string (floor_name (ce_operator_floor r))),
      (''effectiveFloor'', J_string (floor_name (ce_effective_floor r))),
      (''primaryProfile'', J_string (ce_primary_profile r)),
      (''witnessProfile'', J_string (ce_witness_profile r))]"

definition chain_anchors :: "chain_record \<Rightarrow> (string \<times> json) list" where
  "chain_anchors r =
     optional_field ''blockHash'' (map_option J_string (ce_block r))
     @ optional_field ''acceptingBlockHash'' (map_option J_string (ce_accepting_block r))
     @ optional_field ''acceptingBlockDaaScore'' (map_option J_string (ce_accepting_daa r))
     @ optional_field ''virtualDaaScore'' (map_option J_string (ce_virtual_daa r))"

definition chain_json :: "key_order \<Rightarrow> chain_record \<Rightarrow> json" where
  "chain_json order r = J_object
     (case order of
        Merged_order \<Rightarrow>
          chain_head r @ chain_terms r @ [(''outputsDigest'', J_string (ce_outputs_digest r)),
            (''observedAtMs'', J_int (ce_observed_at r))]
          @ chain_presence r @ chain_anchors r
          @ [(''detailDigest'', J_string (ce_detail_digest r))]
      | Row_order \<Rightarrow>
          chain_head r @ chain_presence r @ chain_terms r @ chain_anchors r
          @ [(''outputsDigest'', J_string (ce_outputs_digest r)),
             (''detailDigest'', J_string (ce_detail_digest r)),
             (''observedAtMs'', J_int (ce_observed_at r))])"

text \<open>\<open>\<dots>(row.block_hash ? {\<dots>} : {})\<close>: an empty text is dropped.\<close>

definition unless_empty :: "string option \<Rightarrow> string option" where
  "unless_empty v = (if v = Some [] then None else v)"

definition chainEvidenceFromRow :: "chain_row \<Rightarrow> chain_record result" where
  "chainEvidenceFromRow row =
     (let r = cr_record row in
      if ce_profile r \<noteq> CHAIN_EVIDENCE_PROFILE then Inl JournalInvariantError
      else
        let r' = r\<lparr>ce_block := unless_empty (ce_block r),
                   ce_accepting_block := unless_empty (ce_accepting_block r),
                   ce_accepting_daa := unless_empty (ce_accepting_daa r),
                   ce_virtual_daa := unless_empty (ce_virtual_daa r)\<rparr>
        in rbind (validateChainEvidenceRecord r') (\<lambda>_. Inr r'))"

definition findChainRow :: "chain_tables \<Rightarrow> string \<Rightarrow> chain_row option" where
  "findChainRow T d = find_row (\<lambda>x. ce_detail_digest (cr_record x) = d) (chain_rows T)"

definition recordChainEvidence ::
  "key_order \<Rightarrow> chain_tables \<Rightarrow> chain_record \<Rightarrow> (chain_tables \<times> chain_record) result" where
  "recordChainEvidence order T r =
     rbind (validateChainEvidenceRecord r) (\<lambda>_.
     case manifest_binding T of
       None \<Rightarrow> Inl JournalInvariantError
     | Some (revision, d) \<Rightarrow>
         (case findChainRow T (ce_detail_digest r) of
            Some existing \<Rightarrow>
              rbind (chainEvidenceFromRow existing) (\<lambda>decoded.
              if json_text (chain_json Row_order decoded) \<noteq> json_text (chain_json order r)
              then Inl JournalInvariantError
              else Inr (T, decoded))
          | None \<Rightarrow>
              Inr (T\<lparr>chain_rows := chain_rows T @
                      [\<lparr>cr_record = r, cr_manifest_revision = revision, cr_manifest_digest = d\<rparr>]\<rparr>,
                   r)))"

definition findChainEvidence :: "chain_tables \<Rightarrow> string \<Rightarrow> chain_record option result" where
  "findChainEvidence T detailDigest =
     rbind (assertDigest detailDigest) (\<lambda>_.
     case findChainRow T detailDigest of
       None \<Rightarrow> Inr None
     | Some row \<Rightarrow> rbind (chainEvidenceFromRow row) (\<lambda>r. Inr (Some r)))"

definition validateAcceptedChainEvidenceQuery :: "chain_query \<Rightarrow> unit result" where
  "validateAcceptedChainEvidenceQuery y =
     require (qy_profile y = CHAIN_EVIDENCE_PROFILE \<and> is_identity_path (qy_operation_id y) 256
       \<and> is_hash32 (qy_transaction_id y) \<and> is_sha256_digest (qy_outputs_digest y)
       \<and> qy_effective_floor y
           = chainEvidenceEffectiveFloor (qy_protocol_finality y) (qy_operator_floor y))
       JournalInvariantError"

definition retained_for :: "chain_query \<Rightarrow> chain_record \<Rightarrow> bool" where
  "retained_for y r \<longleftrightarrow>
     ce_profile r = qy_profile y \<and> ce_operation_id r = qy_operation_id y
     \<and> ce_operation r = qy_operation y \<and> ce_transaction_id r = qy_transaction_id y
     \<and> ce_outputs_digest r = qy_outputs_digest y \<and> ce_mechanism r = qy_mechanism y
     \<and> ce_protocol_finality r = qy_protocol_finality y
     \<and> ce_operator_floor r = qy_operator_floor y \<and> ce_effective_floor r = qy_effective_floor y
     \<and> ce_status r = CS_present \<and> accepted_level (ce_level r)"

fun from_rows :: "chain_row list \<Rightarrow> chain_record list result" where
  "from_rows [] = Inr []"
| "from_rows (x # xs) = rbind (chainEvidenceFromRow x) (\<lambda>r. rbind (from_rows xs) (\<lambda>rs. Inr (r # rs)))"

text \<open>\<open>ORDER BY observed_at_ms DESC, detail_digest DESC\<close>; the digest is the primary key.\<close>

definition newest_first :: "chain_row list \<Rightarrow> chain_row list" where
  "newest_first rows =
     rev (sort_key (\<lambda>x. ce_observed_at (cr_record x))
            (sort_key (\<lambda>x. ce_detail_digest (cr_record x)) rows))"

definition findRetainedChainEvidence :: "chain_tables \<Rightarrow> chain_query \<Rightarrow> chain_record list result" where
  "findRetainedChainEvidence T y =
     rbind (validateAcceptedChainEvidenceQuery y) (\<lambda>_.
       from_rows (newest_first (filter (\<lambda>x. retained_for y (cr_record x)) (chain_rows T))))"

section \<open>Merging two reports\<close>

fun source_profile :: "source_evidence \<Rightarrow> string" where
  "source_profile (Source_accepted a) = as_profile a"
| "source_profile (Source_provisional p x outs d t) = p"
| "source_profile (Source_missing s p d t) = p"

fun source_detail :: "source_evidence \<Rightarrow> string" where
  "source_detail (Source_accepted a) = as_detail_digest a"
| "source_detail (Source_provisional p x outs d t) = d"
| "source_detail (Source_missing s p d t) = d"

fun source_status :: "source_evidence \<Rightarrow> chain_status" where
  "source_status (Source_missing s p d t) = s"
| "source_status _ = CS_present"

definition hasPinnedSourceProfiles :: "source_evidence \<Rightarrow> source_evidence \<Rightarrow> bool" where
  "hasPinnedSourceProfiles primary witness \<longleftrightarrow>
     source_profile primary = CHAIN_EVIDENCE_OPERATOR_PROFILE
     \<and> source_profile witness = CHAIN_EVIDENCE_WITNESS_PROFILE"

text \<open>\<open>BigInt(text)\<close> of the scores the sources report\<close>

definition bigint :: "string \<Rightarrow> chain_error + nat" where
  "bigint s = (if s \<noteq> [] \<and> list_all is_digit s then Inr (BigInt s) else Inl Chain_syntax)"

definition minimumDecimal :: "string \<Rightarrow> string \<Rightarrow> chain_error + string" where
  "minimumDecimal left right =
     rbind (bigint left) (\<lambda>l. rbind (bigint right) (\<lambda>r.
       Inr (nat_to_string (if l < r then l else r))))"

definition nonPresent ::
  "chain_status \<Rightarrow> string \<Rightarrow> string \<Rightarrow> int \<Rightarrow> chain_error + source_evidence" where
  "nonPresent status sourceProfile detailDigest observedAtMs =
     (if \<not> is_sha256_digest detailDigest then Inl ChainEvidenceError
      else Inr (Source_missing status sourceProfile detailDigest observedAtMs))"

definition base_record ::
  "(string \<Rightarrow> string) \<Rightarrow> chain_request \<Rightarrow> source_evidence \<Rightarrow> source_evidence \<Rightarrow> finality_selection
    \<Rightarrow> int \<Rightarrow> chain_record" where
  "base_record H q primary witness fin now =
     \<lparr>ce_profile = CHAIN_EVIDENCE_PROFILE, ce_operation_id = cq_operation_id q,
      ce_operation = cq_operation q, ce_transaction_id = cq_transaction_id q,
      ce_status = CS_unknown, ce_level = None, ce_view = None, ce_mechanism = cq_mechanism q,
      ce_protocol_finality = fs_protocol fin, ce_operator_floor = fs_operator_floor fin,
      ce_effective_floor = fs_effective_floor fin,
      ce_primary_profile = source_profile primary, ce_witness_profile = source_profile witness,
      ce_block = None, ce_accepting_block = None, ce_accepting_daa = None, ce_virtual_daa = None,
      ce_outputs_digest = outputsDigest H q, ce_detail_digest = [], ce_observed_at = now\<rparr>"

text \<open>The properties of \<open>base\<close>, spread into the digest of every conclusion\<close>

definition base_fields :: "chain_record \<Rightarrow> (string \<times> json) list" where
  "base_fields r =
     chain_head r @ chain_terms r @ [(''outputsDigest'', J_string (ce_outputs_digest r)),
       (''observedAtMs'', J_int (ce_observed_at r))]"

definition conclusion_digest ::
  "(string \<Rightarrow> string) \<Rightarrow> chain_record \<Rightarrow> string \<Rightarrow> string option \<Rightarrow> source_evidence \<Rightarrow> source_evidence
    \<Rightarrow> string" where
  "conclusion_digest H base outcome level primary witness =
     digest H (base_fields base @ [(''result'', J_string outcome)]
       @ optional_field ''level'' (map_option J_string level)
       @ [(''primary'', J_string (source_detail primary)),
          (''witness'', J_string (source_detail witness))])"

definition sources_conflict :: "chain_request \<Rightarrow> string \<Rightarrow> accepted_source \<Rightarrow> accepted_source \<Rightarrow> bool" where
  "sources_conflict q outs p w \<longleftrightarrow>
     as_transaction_id p \<noteq> as_transaction_id w \<or> as_transaction_id p \<noteq> cq_transaction_id q
     \<or> as_block p \<noteq> as_block w \<or> as_accepting_block p \<noteq> as_accepting_block w
     \<or> as_accepting_daa p \<noteq> as_accepting_daa w \<or> as_outputs_digest p \<noteq> as_outputs_digest w
     \<or> as_outputs_digest p \<noteq> outs"

fun both_accepted :: "source_evidence \<Rightarrow> source_evidence \<Rightarrow> (accepted_source \<times> accepted_source) option" where
  "both_accepted (Source_accepted p) (Source_accepted w) =
     (if as_level p \<noteq> Level_provisional \<and> as_level w \<noteq> Level_provisional then Some (p, w) else None)"
| "both_accepted _ _ = None"

definition merge ::
  "(string \<Rightarrow> string) \<Rightarrow> chain_request \<Rightarrow> source_evidence \<Rightarrow> source_evidence \<Rightarrow> finality_selection
    \<Rightarrow> int \<Rightarrow> chain_error + chain_record" where
  "merge H q primary witness fin now =
     (let base = base_record H q primary witness fin now;
          concluded = (\<lambda>outcome level. conclusion_digest H base outcome level primary witness);
          unknown = (\<lambda>outcome. base\<lparr>ce_detail_digest := concluded outcome None\<rparr>)
      in case both_accepted primary witness of
           Some (p, w) \<Rightarrow>
             if \<not> hasPinnedSourceProfiles primary witness
             then Inr (unknown ''source-profile-unsupported'')
             else if sources_conflict q (outputsDigest H q) p w
             then Inr (unknown ''source-conflict'')
             else
               let level = (if as_level p = Level_depth_confirmed \<and> as_level w = Level_depth_confirmed
                            then Level_depth_confirmed else Level_accepted)
               in rbind (minimumDecimal (as_virtual_daa p) (as_virtual_daa w)) (\<lambda>virtual.
                  Inr (base\<lparr>ce_status := CS_present, ce_level := Some level,
                    ce_view := Some (if as_view p = View_historical \<or> as_view w = View_historical
                                     then View_historical else View_current),
                    ce_block := Some (as_block p), ce_accepting_block := Some (as_accepting_block p),
                    ce_accepting_daa := Some (as_accepting_daa p), ce_virtual_daa := Some virtual,
                    ce_detail_digest := concluded ''corroborated'' (Some (level_name level))\<rparr>))
         | None \<Rightarrow>
             if source_status primary = CS_present \<or> source_status witness = CS_present
             then Inr (base\<lparr>ce_status := CS_present, ce_level := Some Level_provisional,
                       ce_view := Some View_current,
                       ce_detail_digest := concluded ''provisional'' None\<rparr>)
             else if source_status primary = CS_absent \<and> source_status witness = CS_absent
             then (if \<not> hasPinnedSourceProfiles primary witness
                   then Inr (unknown ''source-profile-unsupported'')
                   else Inr (base\<lparr>ce_status := CS_absent,
                             ce_detail_digest := concluded ''corroborated-absence'' None\<rparr>))
             else
               let status = (if source_status primary = CS_unavailable
                                \<or> source_status witness = CS_unavailable
                             then CS_unavailable else CS_unknown)
               in Inr (base\<lparr>ce_status := status,
                       ce_detail_digest := concluded (status_name status) None\<rparr>))"

end
