(* ===== verification/Chain_Observation.thy ===== *)
theory Chain_Observation
  imports Chain_Evidence
begin

text \<open>
  Observing a transaction (\<open>ChainEvidenceModule.observe\<close> of \<open>src/chain-evidence/module.ts\<close>). The
  code awaits the two sources, and other observations may run meanwhile: \<open>observe_begin\<close> is what
  happens before the first await, \<open>observe_finish\<close> what happens after the last, each on the state
  it finds; \<open>observe\<close> runs them one after the other.
\<close>

section \<open>What a record means\<close>

fun level_rank :: "chain_level \<Rightarrow> nat" where
  "level_rank Level_provisional = 0"
| "level_rank Level_accepted = 1"
| "level_rank Level_depth_confirmed = 2"
| "level_rank Level_consensus_final = 3"

definition levelMeets :: "chain_level \<Rightarrow> finality_floor \<Rightarrow> bool" where
  "levelMeets level floor_required \<longleftrightarrow>
     (case floor_required of Floor_accepted \<Rightarrow> 1 | Floor_depth_confirmed \<Rightarrow> 2) \<le> level_rank level"

definition rawDepthLevel :: "chain_record \<Rightarrow> finality_selection \<Rightarrow> chain_level option" where
  "rawDepthLevel r fin =
     (case (ce_accepting_daa r, ce_virtual_daa r) of
        (Some a, Some v) \<Rightarrow>
          if \<not> canonical_decimal a \<or> \<not> canonical_decimal v then None
          else if BigInt v < BigInt a then None
          else Some (if BigInt v - BigInt a \<ge> BigInt (fs_depth fin)
                     then Level_depth_confirmed else Level_accepted)
      | _ \<Rightarrow> None)"

definition depthMeaningMeets :: "chain_record \<Rightarrow> finality_selection \<Rightarrow> bool" where
  "depthMeaningMeets r fin \<longleftrightarrow>
     ce_level r = Some Level_consensus_final
     \<or> (case rawDepthLevel r fin of
          None \<Rightarrow> False
        | Some level \<Rightarrow> fs_effective_floor fin = Floor_accepted \<or> level = Level_depth_confirmed)"

definition isAcceptedRecordFor ::
  "(string \<Rightarrow> string) \<Rightarrow> chain_record \<Rightarrow> finality_selection \<Rightarrow> chain_request \<Rightarrow> bool" where
  "isAcceptedRecordFor H r fin q \<longleftrightarrow>
     ce_profile r = CHAIN_EVIDENCE_PROFILE \<and> ce_operation_id r = cq_operation_id q
     \<and> ce_operation r = cq_operation q \<and> ce_operation r = fs_operation fin
     \<and> ce_transaction_id r = cq_transaction_id q \<and> is_hash32 (ce_transaction_id r)
     \<and> ce_mechanism r = cq_mechanism q
     \<and> ce_protocol_finality r = cq_finality q \<and> ce_protocol_finality r = fs_protocol fin
     \<and> ce_operator_floor r = fs_operator_floor fin \<and> ce_effective_floor r = fs_effective_floor fin
     \<and> ce_outputs_digest r = outputsDigest H q
     \<and> is_sha256_digest (ce_outputs_digest r) \<and> is_sha256_digest (ce_detail_digest r)
     \<and> ce_status r = CS_present \<and> accepted_level (ce_level r)
     \<and> (case ce_level r of None \<Rightarrow> False | Some l \<Rightarrow> levelMeets l (fs_effective_floor fin))
     \<and> ce_view r \<noteq> None
     \<and> ce_primary_profile r = CHAIN_EVIDENCE_OPERATOR_PROFILE
     \<and> ce_witness_profile r = CHAIN_EVIDENCE_WITNESS_PROFILE
     \<and> (case ce_block r of None \<Rightarrow> False | Some b \<Rightarrow> is_hash32 b)
     \<and> (case ce_accepting_block r of None \<Rightarrow> False | Some b \<Rightarrow> is_hash32 b)
     \<and> (case ce_accepting_daa r of None \<Rightarrow> False | Some s \<Rightarrow> canonical_decimal s)
     \<and> (case ce_virtual_daa r of None \<Rightarrow> False | Some s \<Rightarrow> canonical_decimal s)
     \<and> depthMeaningMeets r fin
     \<and> is_safe_integer (ce_observed_at r) \<and> 0 < ce_observed_at r"

fun status_interpretation :: "chain_status \<Rightarrow> chain_interpretation" where
  "status_interpretation CS_absent = Int_absent"
| "status_interpretation CS_unavailable = Int_unavailable"
| "status_interpretation _ = Int_unknown"

definition interpret_record ::
  "(string \<Rightarrow> string) \<Rightarrow> chain_record \<Rightarrow> finality_selection \<Rightarrow> chain_request \<Rightarrow> observation" where
  "interpret_record H r fin q =
     \<lparr>ob_interpretation =
        (if isAcceptedRecordFor H r fin q then Int_accepted
         else if ce_status r = CS_present
         then (if ce_level r = Some Level_provisional then Int_provisional else Int_unknown)
         else status_interpretation (ce_status r)),
      ob_evidence = r, ob_finality = fin\<rparr>"

section \<open>Retained evidence\<close>

text \<open>The evidence to interpret, and whether it is new and has to be recorded\<close>

definition rederiveRetainedEvidence ::
  "(string \<Rightarrow> string) \<Rightarrow> chain_record \<Rightarrow> finality_selection \<Rightarrow> chain_record \<times> bool" where
  "rederiveRetainedEvidence H r fin =
     (let historical = r\<lparr>ce_view := Some View_historical\<rparr> in
      if ce_status r \<noteq> CS_present
         \<or> ce_level r \<noteq> Some Level_accepted \<and> ce_level r \<noteq> Some Level_depth_confirmed
      then (historical, False)
      else case rawDepthLevel r fin of
             None \<Rightarrow> (historical, False)
           | Some level \<Rightarrow>
               if ce_level r = Some level then (historical, False)
               else
                 (historical\<lparr>ce_level := Some level,
                    ce_detail_digest := digest H
                      ([(''result'', J_string ''retained-finality-rederived''),
                        (''priorDetailDigest'', J_string (ce_detail_digest r))]
                       @ optional_field ''priorLevel'' (map_option (\<lambda>l. J_string (level_name l)) (ce_level r))
                       @ [(''level'', J_string (level_name level)),
                          (''depthConfirmationDaa'', J_string (fs_depth fin))]
                       @ optional_field ''acceptingBlockDaaScore'' (map_option J_string (ce_accepting_daa r))
                       @ optional_field ''virtualDaaScore'' (map_option J_string (ce_virtual_daa r)))\<rparr>,
                  True))"

fun replay_retained ::
  "(string \<Rightarrow> string) \<Rightarrow> finality_selection \<Rightarrow> chain_request \<Rightarrow> chain_record list \<Rightarrow> chain_tables
    \<Rightarrow> chain_tables \<times> (chain_error + observation option)" where
  "replay_retained H fin q [] T = (T, Inr None)"
| "replay_retained H fin q (candidate # cs) T =
     (let (r, persist) = rederiveRetainedEvidence H candidate fin in
      case (if persist then recordChainEvidence Row_order T r else Inr (T, r)) of
        Inl e \<Rightarrow> (T, Inl (Chain_journal e))
      | Inr (T', evidence) \<Rightarrow>
          let historical = interpret_record H evidence fin q in
          if ob_interpretation historical = Int_accepted then (T', Inr (Some historical))
          else replay_retained H fin q cs T')"

section \<open>Absence windows\<close>

definition window_key :: "(string \<Rightarrow> string) \<Rightarrow> chain_request \<Rightarrow> string" where
  "window_key H q =
     chain_operation_name (cq_operation q) @ '':'' @ cq_transaction_id q @ '':'' @ outputsDigest H q"

definition trackAbsence :: "string \<Rightarrow> int \<Rightarrow> absence_window list \<Rightarrow> absence_window list" where
  "trackAbsence key now ws =
     (if length ws \<ge> MAX_TRACKED_ABSENCES then tl ws else ws)
     @ [\<lparr>aw_key = key, aw_first_seen = now, aw_last_seen = now\<rparr>]"

definition pruneAbsenceWindows :: "int \<Rightarrow> absence_window list \<Rightarrow> absence_window list" where
  "pruneAbsenceWindows now ws = filter (\<lambda>x. \<not> now - aw_last_seen x > ABSENCE_RETENTION_MS) ws"

definition touch_window :: "string \<Rightarrow> int \<Rightarrow> absence_window list \<Rightarrow> absence_window list" where
  "touch_window key now ws = update_rows (\<lambda>x. aw_key x = key) (\<lambda>x. x\<lparr>aw_last_seen := now\<rparr>) ws"

text \<open>A corroborated absence counts only once it has been seen over the propagation interval.\<close>

definition settle_absence ::
  "(string \<Rightarrow> string) \<Rightarrow> chain_request \<Rightarrow> int \<Rightarrow> absence_window list \<Rightarrow> chain_record
    \<Rightarrow> absence_window list \<times> chain_record" where
  "settle_absence H q now ws r =
     (let key = window_key H q in
      if ce_status r = CS_absent then
        let window = find_row (\<lambda>x. aw_key x = key) ws;
            pending = (\<lambda>first. r\<lparr>ce_status := CS_unknown,
              ce_detail_digest := digest H
                [(''prior'', J_string (ce_detail_digest r)),
                 (''result'', J_string ''absence-propagation-interval-pending''),
                 (''firstSeenAtMs'', J_int first)]\<rparr>)
        in case window of
             None \<Rightarrow> (trackAbsence key now ws, pending now)
           | Some x \<Rightarrow>
               (touch_window key now ws,
                if now - aw_first_seen x < ABSENCE_PROPAGATION_INTERVAL_MS
                then pending (aw_first_seen x) else r)
      else if ce_status r = CS_present then (filter (\<lambda>x. aw_key x \<noteq> key) ws, r)
      else (ws, r))"

section \<open>Observing\<close>

definition query_for ::
  "(string \<Rightarrow> string) \<Rightarrow> chain_request \<Rightarrow> finality_selection \<Rightarrow> chain_query" where
  "query_for H q fin =
     \<lparr>qy_profile = CHAIN_EVIDENCE_PROFILE, qy_operation_id = cq_operation_id q,
      qy_operation = cq_operation q, qy_transaction_id = cq_transaction_id q,
      qy_outputs_digest = outputsDigest H q, qy_mechanism = cq_mechanism q,
      qy_protocol_finality = fs_protocol fin, qy_operator_floor = fs_operator_floor fin,
      qy_effective_floor = fs_effective_floor fin\<rparr>"

definition observe_begin ::
  "(string \<Rightarrow> string) \<Rightarrow> chain_config \<Rightarrow> chain_state \<Rightarrow> chain_request \<Rightarrow> (nat \<Rightarrow> bool)
    \<Rightarrow> chain_state \<times> (chain_error + observation option)" where
  "observe_begin H cf st q aborted =
     (case validateRequest q (aborted 0) of
        Inl e \<Rightarrow> (st, Inl e)
      | Inr _ \<Rightarrow>
          if aborted 1 then (st, Inl Chain_aborted)
          else
            let fin = selectFinality cf (cq_operation q) (cq_finality q) in
            case findRetainedChainEvidence (tables st) (query_for H q fin) of
              Inl e \<Rightarrow> (st, Inl (Chain_journal e))
            | Inr retained \<Rightarrow>
                (case replay_retained H fin q retained (tables st) of
                   (T, res) \<Rightarrow> (st\<lparr>tables := T\<rparr>, res)))"

definition safeWitness ::
  "(string \<Rightarrow> string) \<Rightarrow> source_evidence option \<Rightarrow> bool \<Rightarrow> int \<Rightarrow> chain_error + source_evidence" where
  "safeWitness H answer abort clock =
     (case answer of
        Some x \<Rightarrow> Inr x
      | None \<Rightarrow>
          if abort then Inl Chain_aborted
          else rbind (readTime clock) (\<lambda>t.
            nonPresent CS_unavailable ''sompi:chain-witness:error''
              (digest H [(''source'', J_string ''witness''), (''error'', J_string ''unavailable'')]) t))"

definition safePrimary ::
  "(string \<Rightarrow> string) \<Rightarrow> source_evidence option \<Rightarrow> bool \<Rightarrow> int \<Rightarrow> chain_error + source_evidence" where
  "safePrimary H answer abort clock =
     (case answer of
        Some x \<Rightarrow> Inr x
      | None \<Rightarrow>
          if abort then Inl Chain_aborted
          else rbind (readTime clock) (\<lambda>t.
            nonPresent CS_unavailable ''sompi:operator-chain:error''
              (digest H [(''source'', J_string ''primary''), (''error'', J_string ''unavailable'')]) t))"

text \<open>What both sources say in the end: the witness first, the operator's node given its answer\<close>

definition ask_sources ::
  "(string \<Rightarrow> string) \<Rightarrow> (nat \<Rightarrow> bool) \<Rightarrow> source_evidence option
    \<Rightarrow> (source_evidence \<Rightarrow> source_evidence option) \<Rightarrow> int \<Rightarrow> int
    \<Rightarrow> chain_error + (source_evidence \<times> source_evidence)" where
  "ask_sources H aborted witness_answer primary_answer clock1 clock2 =
     rbind (safeWitness H witness_answer (aborted 2) clock1) (\<lambda>witness.
     if aborted 3 then Inl Chain_aborted
     else rbind (safePrimary H (primary_answer witness) (aborted 4) clock2) (\<lambda>primary.
     if aborted 5 then Inl Chain_aborted else Inr (primary, witness)))"

definition observe_finish ::
  "(string \<Rightarrow> string) \<Rightarrow> chain_config \<Rightarrow> chain_state \<Rightarrow> chain_request \<Rightarrow> source_evidence
    \<Rightarrow> source_evidence \<Rightarrow> int \<Rightarrow> chain_state \<times> (chain_error + observation)" where
  "observe_finish H cf st q primary witness clock =
     (case readTime clock of
        Inl e \<Rightarrow> (st, Inl e)
      | Inr now \<Rightarrow>
          let fin = selectFinality cf (cq_operation q) (cq_finality q);
              ws = pruneAbsenceWindows now (windows st)
          in case merge H q primary witness fin now of
               Inl e \<Rightarrow> (st\<lparr>windows := ws\<rparr>, Inl e)
             | Inr merged \<Rightarrow>
                 (case settle_absence H q now ws merged of
                    (ws', r) \<Rightarrow>
                      (case recordChainEvidence Merged_order (tables st) r of
                         Inl e \<Rightarrow> (st\<lparr>windows := ws'\<rparr>, Inl (Chain_journal e))
                       | Inr (T, evidence) \<Rightarrow>
                           (st\<lparr>windows := ws', tables := T\<rparr>,
                            Inr (interpret_record H evidence fin q)))))"

definition observe ::
  "(string \<Rightarrow> string) \<Rightarrow> chain_config \<Rightarrow> chain_state \<Rightarrow> chain_request \<Rightarrow> (nat \<Rightarrow> bool)
    \<Rightarrow> source_evidence option \<Rightarrow> (source_evidence \<Rightarrow> source_evidence option) \<Rightarrow> int \<Rightarrow> int \<Rightarrow> int
    \<Rightarrow> chain_state \<times> (chain_error + observation)" where
  "observe H cf st q aborted witness_answer primary_answer clock1 clock2 clock3 =
     (case observe_begin H cf st q aborted of
        (st1, Inl e) \<Rightarrow> (st1, Inl e)
      | (st1, Inr (Some historical)) \<Rightarrow> (st1, Inr historical)
      | (st1, Inr None) \<Rightarrow>
          (case ask_sources H aborted witness_answer primary_answer clock1 clock2 of
             Inl e \<Rightarrow> (st1, Inl e)
           | Inr (primary, witness) \<Rightarrow> observe_finish H cf st1 q primary witness clock3))"

end
