(* ===== verification/Chain_Runs.thy ===== *)
theory Chain_Runs
  imports Chain_Observation
begin

text \<open>
  What an observation is worth. \<open>chain_reaches st h\<close>: the module and its store can be in state
  \<open>st\<close> after the reports \<open>h\<close>, each the pair of answers that one observation concluded from; the
  observations may interleave at their awaits, and a restart forgets the absence windows and may
  bring another configuration.
\<close>

record report =
  rp_request :: chain_request
  rp_primary :: source_evidence
  rp_witness :: source_evidence
  rp_at :: int

section \<open>Recording\<close>

lemma chain_json_order [simp]:
  "json_text (chain_json Row_order r) \<noteq> json_text (chain_json Merged_order r')"
proof
  assume "json_text (chain_json Row_order r) = json_text (chain_json Merged_order r')"
  then show False
    by (rule json_text_inj [elim_format])
      (simp add: chain_json_def chain_head_def chain_presence_def chain_terms_def)
qed

lemma record_merged:
  assumes "recordChainEvidence Merged_order T r = Inr (T', evidence)"
  obtains revision d where "manifest_binding T = Some (revision, d)" and "evidence = r"
    and "T' = T\<lparr>chain_rows := chain_rows T @
          [\<lparr>cr_record = r, cr_manifest_revision = revision, cr_manifest_digest = d\<rparr>]\<rparr>"
    and "findChainRow T (ce_detail_digest r) = None"
  using assms that unfolding recordChainEvidence_def
  by (auto split: option.splits prod.splits if_splits)

lemma record_valid:
  "recordChainEvidence order T r = Inr (T', evidence) \<Longrightarrow> validateChainEvidenceRecord r = Inr ()"
  unfolding recordChainEvidence_def by (cases "validateChainEvidenceRecord r") auto

text \<open>
  An exact replay of a merged record: the stored row stringifies in the order of its columns, the
  record in the order it was merged, so the journal takes the same evidence for a collision.
\<close>

lemma record_merged_twice:
  assumes "recordChainEvidence Merged_order T r = Inr (T', evidence)"
  shows "recordChainEvidence Merged_order T' r = Inl JournalInvariantError"
proof -
  from record_merged [OF assms] obtain revision d where m: "manifest_binding T = Some (revision, d)"
    and T': "T' = T\<lparr>chain_rows := chain_rows T @
          [\<lparr>cr_record = r, cr_manifest_revision = revision, cr_manifest_digest = d\<rparr>]\<rparr>"
    and none: "findChainRow T (ce_detail_digest r) = None" by blast
  have "findChainRow T' (ce_detail_digest r)
      = Some \<lparr>cr_record = r, cr_manifest_revision = revision, cr_manifest_digest = d\<rparr>"
    using none by (simp add: findChainRow_def find_row_append T')
  moreover have "chainEvidenceFromRow x = Inl e \<Longrightarrow> e = JournalInvariantError" for x e
    unfolding chainEvidenceFromRow_def validateChainEvidenceRecord_def Let_def
    by (auto simp: rbind_def split: if_splits)
  ultimately show ?thesis
    using record_valid [OF assms] m unfolding recordChainEvidence_def
    by (auto simp: T' rbind_def split: sum.splits)
qed

lemma row_record:
  assumes "chainEvidenceFromRow row = Inr r"
  shows "validateChainEvidenceRecord r = Inr ()" and "ce_detail_digest r = ce_detail_digest (cr_record row)"
    and "ce_level r = ce_level (cr_record row)" and "ce_status r = ce_status (cr_record row)"
  using assms unfolding chainEvidenceFromRow_def Let_def by (auto split: if_splits)

section \<open>Corroboration\<close>

text \<open>
  The evidence rests on a report in which both sources, with their pinned profiles, had accepted
  the same transaction in the same block with the outputs that were asked for.
\<close>

definition corroborated :: "(string \<Rightarrow> string) \<Rightarrow> report \<Rightarrow> chain_record \<Rightarrow> bool" where
  "corroborated H rp r \<longleftrightarrow>
     (\<exists>p w. rp_primary rp = Source_accepted p \<and> rp_witness rp = Source_accepted w
        \<and> as_level p \<noteq> Level_provisional \<and> as_level w \<noteq> Level_provisional
        \<and> as_profile p = CHAIN_EVIDENCE_OPERATOR_PROFILE
        \<and> as_profile w = CHAIN_EVIDENCE_WITNESS_PROFILE
        \<and> as_transaction_id p = ce_transaction_id r \<and> as_transaction_id w = ce_transaction_id r
        \<and> as_outputs_digest p = ce_outputs_digest r \<and> as_outputs_digest w = ce_outputs_digest r
        \<and> ce_outputs_digest r = outputsDigest H (rp_request rp)
        \<and> ce_transaction_id r = cq_transaction_id (rp_request rp)
        \<and> ce_operation r = cq_operation (rp_request rp)
        \<and> ce_operation_id r = cq_operation_id (rp_request rp)
        \<and> as_block p = as_block w \<and> ce_block r = Some (as_block p)
        \<and> as_accepting_block p = as_accepting_block w
        \<and> ce_accepting_block r = Some (as_accepting_block p)
        \<and> as_accepting_daa p = as_accepting_daa w \<and> ce_accepting_daa r = Some (as_accepting_daa p)
        \<and> (\<exists>v. ce_virtual_daa r = Some v
               \<and> BigInt v = min (BigInt (as_virtual_daa p)) (BigInt (as_virtual_daa w))))"

definition final_without_proof :: "chain_record \<Rightarrow> bool" where
  "final_without_proof r \<longleftrightarrow> ce_level r = Some Level_consensus_final"

definition sound_record :: "(string \<Rightarrow> string) \<Rightarrow> report list \<Rightarrow> chain_record \<Rightarrow> bool" where
  "sound_record H h r \<longleftrightarrow>
     \<not> final_without_proof r
     \<and> (accepted_level (ce_level r) \<longrightarrow> (\<exists>rp \<in> set h. corroborated H rp r))"

lemma sound_record_mono: "sound_record H h r \<Longrightarrow> set h \<subseteq> set h' \<Longrightarrow> sound_record H h' r"
  by (auto simp: sound_record_def)

lemma both_accepted_Some:
  "both_accepted primary witness = Some (p, w) \<longleftrightarrow>
     primary = Source_accepted p \<and> witness = Source_accepted w
     \<and> as_level p \<noteq> Level_provisional \<and> as_level w \<noteq> Level_provisional"
  by (cases "(primary, witness)" rule: both_accepted.cases) auto

lemma minimumDecimal_value:
  "minimumDecimal a b = Inr v \<Longrightarrow> BigInt v = min (BigInt a) (BigInt b)"
  by (auto simp: minimumDecimal_def bigint_def min_def split: if_splits)

lemma merge_sound:
  assumes "merge H q primary witness fin now = Inr r"
    and "rp = \<lparr>rp_request = q, rp_primary = primary, rp_witness = witness, rp_at = now\<rparr>"
  shows "sound_record H [rp] r"
proof -
  consider p w virtual where "both_accepted primary witness = Some (p, w)"
      "hasPinnedSourceProfiles primary witness" "\<not> sources_conflict q (outputsDigest H q) p w"
      "minimumDecimal (as_virtual_daa p) (as_virtual_daa w) = Inr virtual"
      "ce_virtual_daa r = Some virtual"
      "ce_level r \<in> {Some Level_accepted, Some Level_depth_confirmed}"
      "ce_block r = Some (as_block p)" "ce_accepting_block r = Some (as_accepting_block p)"
      "ce_accepting_daa r = Some (as_accepting_daa p)" "ce_outputs_digest r = outputsDigest H q"
      "ce_transaction_id r = cq_transaction_id q" "ce_operation r = cq_operation q"
      "ce_operation_id r = cq_operation_id q"
    | "ce_level r \<in> {None, Some Level_provisional}"
    using assms(1) unfolding merge_def Let_def
    by (auto simp: base_record_def split: option.splits prod.splits if_splits)
  then show ?thesis
  proof cases
    case 1
    from 1(1) have "primary = Source_accepted p" "witness = Source_accepted w"
      "as_level p \<noteq> Level_provisional" "as_level w \<noteq> Level_provisional"
      by (simp_all add: both_accepted_Some)
    then have "corroborated H rp r"
      unfolding corroborated_def assms(2)
      using 1(2,3,5-) minimumDecimal_value [OF 1(4)]
      by (auto simp: sources_conflict_def hasPinnedSourceProfiles_def)
    then show ?thesis using 1(6) by (auto simp: sound_record_def final_without_proof_def)
  next
    case 2
    then show ?thesis by (auto simp: sound_record_def final_without_proof_def)
  qed
qed

lemma settle_absence_sound:
  assumes "settle_absence H q now ws m = (ws', r)" and "sound_record H h m"
  shows "sound_record H h r"
proof -
  have "ce_level r = ce_level m \<and> (\<forall>rp. corroborated H rp r = corroborated H rp m)"
    using assms(1) unfolding settle_absence_def Let_def
    by (auto simp: corroborated_def split: if_splits option.splits)
  then show ?thesis using assms(2) by (simp add: sound_record_def final_without_proof_def)
qed

lemma rawDepthLevel_range:
  "rawDepthLevel r fin = Some l \<Longrightarrow> l = Level_accepted \<or> l = Level_depth_confirmed"
  by (auto simp: rawDepthLevel_def split: option.splits if_splits)

lemma rederive_sound:
  assumes "rederiveRetainedEvidence H m fin = (r, persist)" and "sound_record H h m"
  shows "sound_record H h r"
proof -
  have c: "corroborated H rp r = corroborated H rp m" for rp
    using assms(1) unfolding rederiveRetainedEvidence_def Let_def
    by (auto simp: corroborated_def split: if_splits option.splits)
  have l: "ce_level r = ce_level m
      \<or> accepted_level (ce_level m) \<and> ce_level r \<in> {Some Level_accepted, Some Level_depth_confirmed}"
    using assms(1) rawDepthLevel_range [of m fin] unfolding rederiveRetainedEvidence_def Let_def
    by (auto split: if_splits option.splits)
  show ?thesis using assms(2) l c by (auto simp: sound_record_def final_without_proof_def)
qed

definition store_sound :: "(string \<Rightarrow> string) \<Rightarrow> report list \<Rightarrow> chain_tables \<Rightarrow> bool" where
  "store_sound H h T \<longleftrightarrow> (\<forall>x \<in> set (chain_rows T). sound_record H h (cr_record x))"

lemma row_sound:
  assumes "chainEvidenceFromRow x = Inr r" and "sound_record H h (cr_record x)"
  shows "sound_record H h r"
proof -
  let ?m = "cr_record x"
  have r: "r = ?m\<lparr>ce_block := unless_empty (ce_block ?m),
             ce_accepting_block := unless_empty (ce_accepting_block ?m),
             ce_accepting_daa := unless_empty (ce_accepting_daa ?m),
             ce_virtual_daa := unless_empty (ce_virtual_daa ?m)\<rparr>"
    and valid: "validateChainEvidenceRecord r = Inr ()"
    using assms(1) unfolding chainEvidenceFromRow_def Let_def by (simp_all split: if_splits) auto
  show ?thesis
  proof (cases "accepted_level (ce_level ?m)")
    case True
    then have "ce_block r \<noteq> None" "ce_accepting_block r \<noteq> None" "ce_accepting_daa r \<noteq> None"
      "ce_virtual_daa r \<noteq> None"
      using valid r unfolding validateChainEvidenceRecord_def Let_def by (auto split: if_splits)
    then have "ce_block ?m \<noteq> Some []" "ce_accepting_block ?m \<noteq> Some []"
      "ce_accepting_daa ?m \<noteq> Some []" "ce_virtual_daa ?m \<noteq> Some []"
      using r by (auto simp: unless_empty_def)
    then have "r = ?m" unfolding r by (simp add: unless_empty_def)
    then show ?thesis using assms(2) by simp
  next
    case False
    then show ?thesis using assms(2) r by (simp add: sound_record_def final_without_proof_def)
  qed
qed

lemma from_rows_sound:
  "from_rows xs = Inr rs \<Longrightarrow> \<forall>x \<in> set xs. sound_record H h (cr_record x)
    \<Longrightarrow> \<forall>r \<in> set rs. sound_record H h r"
  by (induction xs arbitrary: rs) (auto dest: row_sound)

lemma retained_sound:
  assumes "findRetainedChainEvidence T y = Inr rs" and "store_sound H h T"
  shows "\<forall>r \<in> set rs. sound_record H h r"
proof -
  have "from_rows (newest_first (filter (\<lambda>x. retained_for y (cr_record x)) (chain_rows T))) = Inr rs"
    using assms(1) by (simp add: findRetainedChainEvidence_def)
  then show ?thesis
    by (rule from_rows_sound) (use assms(2) in \<open>simp add: newest_first_def store_sound_def\<close>)
qed

lemma record_sound:
  assumes "recordChainEvidence order T r = Inr (T', evidence)" and "store_sound H h T"
    and "sound_record H h r"
  shows "store_sound H h T' \<and> sound_record H h evidence"
proof -
  have "findChainRow T d = Some x \<Longrightarrow> sound_record H h (cr_record x)" for d x
    using assms(2) by (auto simp: findChainRow_def store_sound_def dest: find_row_SomeD)
  then show ?thesis
    using assms row_sound unfolding recordChainEvidence_def
    by (auto simp: store_sound_def split: option.splits prod.splits if_splits)
qed

lemma replay_sound:
  assumes "replay_retained H fin q cs T = (T', res)" and "store_sound H h T"
    and "\<forall>r \<in> set cs. sound_record H h r"
  shows "store_sound H h T'
    \<and> (case res of Inr (Some ob) \<Rightarrow> sound_record H h (ob_evidence ob)
         \<and> ob = interpret_record H (ob_evidence ob) fin q \<and> ob_interpretation ob = Int_accepted
       | _ \<Rightarrow> True)"
  using assms
proof (induction cs arbitrary: T)
  case (Cons c cs)
  obtain r persist where rd: "rederiveRetainedEvidence H c fin = (r, persist)" by fastforce
  have r: "sound_record H h r" using rederive_sound [OF rd] Cons.prems(3) by simp
  show ?case
  proof (cases "if persist then recordChainEvidence Row_order T r else Inr (T, r)")
    case (Inl e)
    then have "T' = T" "res = Inl (Chain_journal e)" using Cons.prems(1) rd by (simp_all add: Let_def)
    then show ?thesis using Cons.prems(2) by simp
  next
    case (Inr x)
    obtain T1 ev where x: "x = (T1, ev)" by fastforce
    have s: "store_sound H h T1 \<and> sound_record H h ev"
      using Inr x record_sound Cons.prems(2) r by (auto split: if_splits)
    show ?thesis
    proof (cases "ob_interpretation (interpret_record H ev fin q) = Int_accepted")
      case True
      then have "T' = T1" "res = Inr (Some (interpret_record H ev fin q))"
        using Cons.prems(1) rd Inr x by (simp_all add: Let_def)
      then show ?thesis using s True by (simp add: interpret_record_def)
    next
      case False
      then have "replay_retained H fin q cs T1 = (T', res)"
        using Cons.prems(1) rd Inr x by (simp add: Let_def)
      then show ?thesis using Cons.IH s Cons.prems(3) by simp
    qed
  qed
next
  case Nil
  then show ?case by auto
qed

section \<open>Runs\<close>

inductive chain_reaches :: "(string \<Rightarrow> string) \<Rightarrow> chain_state \<Rightarrow> report list \<Rightarrow> bool"
  for H :: "string \<Rightarrow> string" where
  reach_start: "chain_reaches H \<lparr>windows = [], tables = \<lparr>manifest_binding = m, chain_rows = []\<rparr>\<rparr> []"
| reach_restart: "chain_reaches H st h \<Longrightarrow> chain_reaches H (st\<lparr>windows := []\<rparr>) h"
| reach_begin:
    "chain_reaches H st h \<Longrightarrow> observe_begin H cf st q aborted = (st', res) \<Longrightarrow> chain_reaches H st' h"
| reach_finish:
    "chain_reaches H st h \<Longrightarrow> validateRequest q False = Inr ()
      \<Longrightarrow> observe_finish H cf st q primary witness clock = (st', res)
      \<Longrightarrow> chain_reaches H st' (h @ [\<lparr>rp_request = q, rp_primary = primary, rp_witness = witness,
                                     rp_at = clock\<rparr>])"

text \<open>Both pinned sources reported the transaction absent.\<close>

definition absent_report :: "report \<Rightarrow> bool" where
  "absent_report rp \<longleftrightarrow>
     source_status (rp_primary rp) = CS_absent \<and> source_status (rp_witness rp) = CS_absent
     \<and> hasPinnedSourceProfiles (rp_primary rp) (rp_witness rp)"

definition window_sound :: "(string \<Rightarrow> string) \<Rightarrow> report list \<Rightarrow> absence_window \<Rightarrow> bool" where
  "window_sound H h x \<longleftrightarrow>
     (\<exists>rp \<in> set h. absent_report rp \<and> window_key H (rp_request rp) = aw_key x
        \<and> rp_at rp = aw_first_seen x \<and> validateRequest (rp_request rp) False = Inr ())"

definition chain_inv :: "(string \<Rightarrow> string) \<Rightarrow> chain_state \<Rightarrow> report list \<Rightarrow> bool" where
  "chain_inv H st h \<longleftrightarrow>
     store_sound H h (tables st) \<and> (\<forall>x \<in> set (windows st). window_sound H h x)"

lemma begin_sound:
  assumes "observe_begin H cf st q aborted = (st', res)" and "chain_inv H st h"
  shows "chain_inv H st' h \<and> windows st' = windows st
    \<and> (case res of Inr (Some ob) \<Rightarrow> sound_record H h (ob_evidence ob) \<and> ob_interpretation ob = Int_accepted
         \<and> ob = interpret_record H (ob_evidence ob) (selectFinality cf (cq_operation q) (cq_finality q)) q
       | _ \<Rightarrow> True)
    \<and> (\<forall>ob. res = Inr ob \<longrightarrow> validateRequest q False = Inr ())"
proof -
  let ?fin = "selectFinality cf (cq_operation q) (cq_finality q)"
  have v: "validateRequest q b = Inr () \<Longrightarrow> validateRequest q False = Inr ()" for b
    by (auto simp: validateRequest_def)
  consider (stop) e where "st' = st" "res = Inl e"
    | (replay) retained T where "validateRequest q (aborted 0) = Inr ()"
        "findRetainedChainEvidence (tables st) (query_for H q ?fin) = Inr retained"
        "replay_retained H ?fin q retained (tables st) = (T, res)" "st' = st\<lparr>tables := T\<rparr>"
  proof (cases "validateRequest q (aborted 0) = Inr () \<and> \<not> aborted 1")
    case False
    then show ?thesis
      using assms(1) that(1)
      by (cases "validateRequest q (aborted 0)") (auto simp: observe_begin_def)
  next
    case True
    show ?thesis
    proof (cases "findRetainedChainEvidence (tables st) (query_for H q ?fin)")
      case (Inl e)
      then show ?thesis using assms(1) that(1) True by (auto simp: observe_begin_def Let_def)
    next
      case (Inr retained)
      obtain T res' where "replay_retained H ?fin q retained (tables st) = (T, res')" by fastforce
      then show ?thesis using assms(1) that(2) True Inr by (simp add: observe_begin_def Let_def)
    qed
  qed
  then show ?thesis
  proof cases
    case stop
    then show ?thesis using assms(2) by simp
  next
    case replay
    have s: "store_sound H h (tables st)" using assms(2) by (simp add: chain_inv_def)
    from replay_sound [OF replay(3) s retained_sound [OF replay(2) s]]
    show ?thesis using replay(4) assms(2) v [OF replay(1)]
      by (auto simp: chain_inv_def split: sum.splits option.splits)
  qed
qed

lemma merge_absent:
  assumes "merge H q primary witness fin now = Inr r" and absent: "ce_status r = CS_absent"
  shows "source_status primary = CS_absent \<and> source_status witness = CS_absent
    \<and> hasPinnedSourceProfiles primary witness"
proof (cases "both_accepted primary witness")
  case None
  then have "ce_status r =
      (if source_status primary = CS_present \<or> source_status witness = CS_present then CS_present
       else if source_status primary = CS_absent \<and> source_status witness = CS_absent
       then (if hasPinnedSourceProfiles primary witness then CS_absent else CS_unknown)
       else if source_status primary = CS_unavailable \<or> source_status witness = CS_unavailable
       then CS_unavailable else CS_unknown)"
    using assms(1) unfolding merge_def Let_def
    by (auto simp add: base_record_def simp del: not_None_eq)
  then show ?thesis using absent by (simp split: if_splits)
next
  case (Some pw)
  then have "ce_status r = CS_unknown \<or> ce_status r = CS_present"
    using assms(1) unfolding merge_def Let_def
    by (cases pw) (simp add: base_record_def split: if_splits; auto)
  then show ?thesis using absent by simp
qed

lemma track_member:
  "x \<in> set (trackAbsence key now ws)
    \<Longrightarrow> x \<in> set ws \<or> x = \<lparr>aw_key = key, aw_first_seen = now, aw_last_seen = now\<rparr>"
  by (cases ws) (auto simp: trackAbsence_def split: if_splits)

lemma touch_member:
  "x \<in> set (touch_window key now ws)
    \<Longrightarrow> \<exists>y \<in> set ws. aw_key y = aw_key x \<and> aw_first_seen y = aw_first_seen x"
  by (force simp: touch_window_def update_rows_def)

lemma settle_absence_windows:
  assumes "settle_absence H q now ws m = (ws', r)" and "x \<in> set ws'"
  shows "(\<exists>y \<in> set ws. aw_key y = aw_key x \<and> aw_first_seen y = aw_first_seen x)
    \<or> ce_status m = CS_absent \<and> aw_key x = window_key H q \<and> aw_first_seen x = now"
proof -
  consider "ce_status m = CS_absent" "ws' = trackAbsence (window_key H q) now ws"
    | "ws' = touch_window (window_key H q) now ws" | "set ws' \<subseteq> set ws"
    using assms(1) unfolding settle_absence_def Let_def by (auto split: if_splits option.splits)
  then show ?thesis
    by cases (use assms(2) track_member touch_member in \<open>fastforce+\<close>)
qed

lemma settle_absence_absent:
  assumes "settle_absence H q now ws m = (ws', r)" and "ce_status r = CS_absent"
  shows "r = m \<and> (\<exists>x \<in> set ws. aw_key x = window_key H q
    \<and> aw_first_seen x + ABSENCE_PROPAGATION_INTERVAL_MS \<le> now)"
  using assms unfolding settle_absence_def Let_def
  by (auto split: if_splits option.splits dest!: find_row_SomeD intro: bexI)

lemma finish_sound:
  assumes fin: "observe_finish H cf st q primary witness clock = (st', res)"
    and inv: "chain_inv H st h" and q: "validateRequest q False = Inr ()"
    and rp: "rp = \<lparr>rp_request = q, rp_primary = primary, rp_witness = witness, rp_at = clock\<rparr>"
  shows "chain_inv H st' (h @ [rp])"
    and "res = Inr ob \<Longrightarrow> sound_record H (h @ [rp]) (ob_evidence ob)
      \<and> ob = interpret_record H (ob_evidence ob) (selectFinality cf (cq_operation q) (cq_finality q)) q"
    and "res = Inr ob \<Longrightarrow> ob_interpretation ob = Int_absent
      \<Longrightarrow> absent_report rp \<and> (\<exists>x. window_sound H h x \<and> aw_key x = window_key H q
            \<and> aw_first_seen x + ABSENCE_PROPAGATION_INTERVAL_MS \<le> clock)"
proof -
  let ?fin = "selectFinality cf (cq_operation q) (cq_finality q)"
  let ?ws = "pruneAbsenceWindows clock (windows st)"
  have mono: "sound_record H h r \<Longrightarrow> sound_record H (h @ [rp]) r"
    "window_sound H h x \<Longrightarrow> window_sound H (h @ [rp]) x" for r x
    by (auto intro: sound_record_mono simp: window_sound_def)
  have store: "store_sound H (h @ [rp]) (tables st)"
    and old: "\<forall>x \<in> set ?ws. window_sound H h x"
    using inv mono by (auto simp: chain_inv_def store_sound_def pruneAbsenceWindows_def)
  have keep: "chain_inv H (st\<lparr>windows := ws\<rparr>) (h @ [rp])"
    if "\<forall>x \<in> set ws. window_sound H (h @ [rp]) x" for ws
    using store that by (simp add: chain_inv_def)
  have all: "chain_inv H st' (h @ [rp]) \<and> (\<forall>ob. res = Inr ob \<longrightarrow>
      sound_record H (h @ [rp]) (ob_evidence ob) \<and> ob = interpret_record H (ob_evidence ob) ?fin q
      \<and> (ob_interpretation ob = Int_absent \<longrightarrow> absent_report rp
           \<and> (\<exists>x. window_sound H h x \<and> aw_key x = window_key H q
                \<and> aw_first_seen x + ABSENCE_PROPAGATION_INTERVAL_MS \<le> clock)))"
  proof (cases "readTime clock")
    case (Inl e)
    then have "st' = st" "res = Inl e" using fin by (simp_all add: observe_finish_def)
    then show ?thesis using keep [of "windows st"] inv mono by (simp add: chain_inv_def)
  next
    case (Inr now)
    then have now: "now = clock" by (simp add: readTime_def split: if_splits)
    show ?thesis
    proof (cases "merge H q primary witness ?fin clock")
      case (Inl e)
      then have "st' = st\<lparr>windows := ?ws\<rparr>" "res = Inl e"
        using fin Inr now by (simp_all add: observe_finish_def)
      then show ?thesis using keep [of ?ws] old mono by simp
    next
      case m: (Inr merged)
      obtain ws' r where settle: "settle_absence H q clock ?ws merged = (ws', r)" by fastforce
      have r: "sound_record H (h @ [rp]) r"
        by (rule settle_absence_sound [OF settle], rule sound_record_mono [OF merge_sound [OF m rp]]) simp
      have absent: "ce_status merged = CS_absent \<Longrightarrow> absent_report rp"
        using merge_absent [OF m] rp by (simp add: absent_report_def)
      have ws': "\<forall>x \<in> set ws'. window_sound H (h @ [rp]) x"
      proof
        fix x assume "x \<in> set ws'"
        from settle_absence_windows [OF settle this] show "window_sound H (h @ [rp]) x"
        proof
          assume "\<exists>y \<in> set ?ws. aw_key y = aw_key x \<and> aw_first_seen y = aw_first_seen x"
          then show ?thesis using old by (auto simp: window_sound_def)
        next
          assume "ce_status merged = CS_absent \<and> aw_key x = window_key H q \<and> aw_first_seen x = clock"
          then show ?thesis using absent q rp by (auto simp: window_sound_def)
        qed
      qed
      show ?thesis
      proof (cases "recordChainEvidence Merged_order (tables st) r")
        case (Inl e)
        then have "st' = st\<lparr>windows := ws'\<rparr>" "res = Inl (Chain_journal e)"
          using fin Inr now m settle by (simp_all add: observe_finish_def Let_def)
        then show ?thesis using keep [OF ws'] by simp
      next
        case rec: (Inr x)
        obtain T ev where x: "x = (T, ev)" by fastforce
        then have st': "st' = st\<lparr>windows := ws', tables := T\<rparr>" "res = Inr (interpret_record H ev ?fin q)"
          using fin Inr now m settle rec by (simp_all add: observe_finish_def Let_def)
        have T: "store_sound H (h @ [rp]) T \<and> sound_record H (h @ [rp]) ev"
          using record_sound [OF _ store r] rec x by blast
        have ev: "ev = r" using record_merged rec x by metis
        have "ob_interpretation (interpret_record H ev ?fin q) = Int_absent \<Longrightarrow> ce_status r = CS_absent"
          unfolding ev interpret_record_def by (cases "ce_status r") (simp_all split: if_splits)
        then have "absent_report rp \<and> (\<exists>x. window_sound H h x \<and> aw_key x = window_key H q
            \<and> aw_first_seen x + ABSENCE_PROPAGATION_INTERVAL_MS \<le> clock)"
          if "ob_interpretation (interpret_record H ev ?fin q) = Int_absent"
          using settle_absence_absent [OF settle] old absent that by blast
        moreover have "ob_evidence (interpret_record H ev ?fin q) = ev"
          by (simp add: interpret_record_def)
        ultimately show ?thesis using st' T ws' by (simp add: chain_inv_def)
      qed
    qed
  qed
  then show "chain_inv H st' (h @ [rp])" by blast
  from all show "res = Inr ob \<Longrightarrow> sound_record H (h @ [rp]) (ob_evidence ob)
      \<and> ob = interpret_record H (ob_evidence ob) ?fin q" by blast
  from all show "res = Inr ob \<Longrightarrow> ob_interpretation ob = Int_absent
      \<Longrightarrow> absent_report rp \<and> (\<exists>x. window_sound H h x \<and> aw_key x = window_key H q
            \<and> aw_first_seen x + ABSENCE_PROPAGATION_INTERVAL_MS \<le> clock)" by blast
qed

lemma chain_reaches_inv: "chain_reaches H st h \<Longrightarrow> chain_inv H st h"
proof (induction rule: chain_reaches.induct)
  case (reach_start m)
  then show ?case by (simp add: chain_inv_def store_sound_def)
next
  case (reach_restart st h)
  then show ?case by (simp add: chain_inv_def)
next
  case (reach_begin st h cf q aborted st' res)
  then show ?case using begin_sound by blast
next
  case (reach_finish st h q cf primary witness clock st' res)
  show ?case by (rule finish_sound(1) [OF reach_finish(3) reach_finish.IH reach_finish(2) refl])
qed

section \<open>Observations\<close>

lemma observe_cases:
  assumes "observe H cf st q aborted wa pa clock1 clock2 clock3 = (st', Inr ob)"
  obtains (historical) "observe_begin H cf st q aborted = (st', Inr (Some ob))"
  | (fresh) st1 primary witness where "observe_begin H cf st q aborted = (st1, Inr None)"
      "ask_sources H aborted wa pa clock1 clock2 = Inr (primary, witness)"
      "observe_finish H cf st1 q primary witness clock3 = (st', Inr ob)"
proof -
  obtain st1 res where b: "observe_begin H cf st q aborted = (st1, res)" by fastforce
  then consider "res = Inr (Some ob)" "st1 = st'"
    | primary witness where "res = Inr None"
        "ask_sources H aborted wa pa clock1 clock2 = Inr (primary, witness)"
        "observe_finish H cf st1 q primary witness clock3 = (st', Inr ob)"
    using assms unfolding observe_def by (auto split: sum.splits option.splits prod.splits)
  then show thesis using b that by cases auto
qed

lemma observe_reaches:
  assumes "chain_reaches H st h"
    and "observe H cf st q aborted wa pa clock1 clock2 clock3 = (st', Inr ob)"
  shows "\<exists>h'. chain_reaches H st' h'"
proof (cases rule: observe_cases [OF assms(2)])
  case 1
  then show ?thesis using reach_begin [OF assms(1)] by blast
next
  case (2 st1 primary witness)
  have "chain_reaches H st1 h" by (rule reach_begin [OF assms(1) 2(1)])
  moreover have "validateRequest q False = Inr ()"
    using begin_sound [OF 2(1) chain_reaches_inv [OF assms(1)]] by blast
  ultimately show ?thesis using reach_finish [OF _ _ 2(3)] by blast
qed

text \<open>How deep a record lies: the score of the virtual block over that of the accepting block.\<close>

definition buried :: "chain_record \<Rightarrow> nat \<Rightarrow> bool" where
  "buried r depth \<longleftrightarrow>
     (\<exists>a v. ce_accepting_daa r = Some a \<and> ce_virtual_daa r = Some v \<and> BigInt a + depth \<le> BigInt v)"

lemma accepted_depth:
  assumes "isAcceptedRecordFor H r fin q" and "\<not> final_without_proof r"
  shows "buried r (if fs_effective_floor fin = Floor_depth_confirmed then BigInt (fs_depth fin) else 0)"
proof -
  have "depthMeaningMeets r fin" using assms(1) by (simp add: isAcceptedRecordFor_def)
  then obtain level where "rawDepthLevel r fin = Some level"
      "fs_effective_floor fin = Floor_accepted \<or> level = Level_depth_confirmed"
    using assms(2) by (auto simp: depthMeaningMeets_def final_without_proof_def split: option.splits)
  then show ?thesis
    by (cases "fs_effective_floor fin")
      (auto simp: rawDepthLevel_def buried_def split: option.splits if_splits)
qed

lemma interpreted_accepted:
  assumes "ob = interpret_record H (ob_evidence ob) fin q" and "ob_interpretation ob = Int_accepted"
  shows "isAcceptedRecordFor H (ob_evidence ob) fin q"
proof (rule ccontr)
  assume "\<not> isAcceptedRecordFor H (ob_evidence ob) fin q"
  then have "ob_interpretation (interpret_record H (ob_evidence ob) fin q) \<noteq> Int_accepted"
    by (cases "ce_status (ob_evidence ob)") (simp_all add: interpret_record_def)
  then show False using assms by metis
qed

theorem observed_accepted:
  assumes reach: "chain_reaches H st h"
    and obs: "observe H cf st q aborted wa pa clock1 clock2 clock3 = (st', Inr ob)"
    and acc: "ob_interpretation ob = Int_accepted"
  shows "\<exists>rp. (rp \<in> set h \<or> rp_request rp = q \<and> rp_at rp = clock3) \<and> corroborated H rp (ob_evidence ob)"
    and "ce_transaction_id (ob_evidence ob) = cq_transaction_id q"
    and "ce_outputs_digest (ob_evidence ob) = outputsDigest H q"
    and "buried (ob_evidence ob)
      (if chainEvidenceEffectiveFloor (cq_finality q) (cf_policy cf (cq_operation q)) = Floor_depth_confirmed
       then BigInt (cf_depth cf) else 0)"
proof -
  let ?fin = "selectFinality cf (cq_operation q) (cq_finality q)"
  note inv = chain_reaches_inv [OF reach]
  obtain h' where h': "sound_record H h' (ob_evidence ob)"
      "set h' \<subseteq> set h \<union> {rp. rp_request rp = q \<and> rp_at rp = clock3}"
    and ob: "ob = interpret_record H (ob_evidence ob) ?fin q"
  proof (cases rule: observe_cases [OF obs])
    case 1
    from begin_sound [OF 1 inv] show ?thesis using that [of h] by auto
  next
    case (2 st1 primary witness)
    from begin_sound [OF 2(1) inv] have "chain_inv H st1 h" "validateRequest q False = Inr ()" by auto
    from finish_sound(2) [OF 2(3) this refl refl] show ?thesis
      using that [of "h @ [\<lparr>rp_request = q, rp_primary = primary, rp_witness = witness, rp_at = clock3\<rparr>]"]
      by auto
  qed
  have acc: "isAcceptedRecordFor H (ob_evidence ob) ?fin q" by (rule interpreted_accepted [OF ob acc])
  then have "accepted_level (ce_level (ob_evidence ob))" by (simp add: isAcceptedRecordFor_def)
  then show "\<exists>rp. (rp \<in> set h \<or> rp_request rp = q \<and> rp_at rp = clock3)
      \<and> corroborated H rp (ob_evidence ob)"
    using h' by (auto simp: sound_record_def)
  show "ce_transaction_id (ob_evidence ob) = cq_transaction_id q"
    "ce_outputs_digest (ob_evidence ob) = outputsDigest H q"
    using acc by (simp_all add: isAcceptedRecordFor_def)
  show "buried (ob_evidence ob)
      (if chainEvidenceEffectiveFloor (cq_finality q) (cf_policy cf (cq_operation q)) = Floor_depth_confirmed
       then BigInt (cf_depth cf) else 0)"
    using accepted_depth [OF acc] h'(1)
    by (auto simp: sound_record_def selectFinality_def Let_def split: if_splits)
qed

text \<open>The key of an absence window determines the operation, the transaction and the outputs.\<close>

lemma operation_name_plain: "list_all (\<lambda>c. c \<noteq> CHR '':'') (chain_operation_name x)"
  by (cases x) simp_all

lemma colon_cancel:
  "list_all (\<lambda>c. c \<noteq> CHR '':'') a \<Longrightarrow> list_all (\<lambda>c. c \<noteq> CHR '':'') b
    \<Longrightarrow> a @ CHR '':'' # s = b @ CHR '':'' # t \<Longrightarrow> a = b \<and> s = t"
proof (induction a arbitrary: b)
  case Nil
  then show ?case by (cases b) auto
next
  case (Cons c a)
  then show ?case by (cases b) auto
qed

lemma operation_name_inj: "chain_operation_name x = chain_operation_name y \<Longrightarrow> x = y"
  by (cases x; cases y) simp_all

lemma window_key_inj:
  assumes "window_key H q = window_key H q'" and "is_hash32 (cq_transaction_id q)"
    and "is_hash32 (cq_transaction_id q')"
  shows "cq_operation q = cq_operation q' \<and> cq_transaction_id q = cq_transaction_id q'
    \<and> outputsDigest H q = outputsDigest H q'"
proof -
  have "chain_operation_name (cq_operation q) @ CHR '':'' # (cq_transaction_id q @ '':'' @ outputsDigest H q)
      = chain_operation_name (cq_operation q') @ CHR '':'' # (cq_transaction_id q' @ '':'' @ outputsDigest H q')"
    using assms(1) by (simp add: window_key_def)
  from colon_cancel [OF operation_name_plain operation_name_plain this]
  show ?thesis using assms(2,3) operation_name_inj by (simp add: is_hash32_def)
qed

theorem observed_absent:
  assumes reach: "chain_reaches H st h"
    and obs: "observe H cf st q aborted wa pa clock1 clock2 clock3 = (st', Inr ob)"
    and absent: "ob_interpretation ob = Int_absent"
  shows "\<exists>primary witness. ask_sources H aborted wa pa clock1 clock2 = Inr (primary, witness)
      \<and> absent_report \<lparr>rp_request = q, rp_primary = primary, rp_witness = witness, rp_at = clock3\<rparr>"
    and "\<exists>rp \<in> set h. absent_report rp \<and> rp_at rp + ABSENCE_PROPAGATION_INTERVAL_MS \<le> clock3
      \<and> cq_operation (rp_request rp) = cq_operation q
      \<and> cq_transaction_id (rp_request rp) = cq_transaction_id q
      \<and> outputsDigest H (rp_request rp) = outputsDigest H q"
proof -
  note inv = chain_reaches_inv [OF reach]
  obtain st1 primary witness where f: "observe_begin H cf st q aborted = (st1, Inr None)"
      "ask_sources H aborted wa pa clock1 clock2 = Inr (primary, witness)"
      "observe_finish H cf st1 q primary witness clock3 = (st', Inr ob)"
  proof (cases rule: observe_cases [OF obs])
    case 1
    from begin_sound [OF 1 inv] show ?thesis using absent by auto
  next
    case 2
    then show ?thesis using that by blast
  qed
  from begin_sound [OF f(1) inv] have i: "chain_inv H st1 h" and q: "validateRequest q False = Inr ()"
    by auto
  from finish_sound(3) [OF f(3) i q refl refl absent]
  obtain x where now: "absent_report \<lparr>rp_request = q, rp_primary = primary, rp_witness = witness,
        rp_at = clock3\<rparr>" and x: "window_sound H h x" "aw_key x = window_key H q"
      "aw_first_seen x + ABSENCE_PROPAGATION_INTERVAL_MS \<le> clock3" by blast
  from now f(2) show "\<exists>primary witness. ask_sources H aborted wa pa clock1 clock2 = Inr (primary, witness)
      \<and> absent_report \<lparr>rp_request = q, rp_primary = primary, rp_witness = witness, rp_at = clock3\<rparr>"
    by blast
  have hash: "validateRequest p False = Inr () \<Longrightarrow> is_hash32 (cq_transaction_id p)" for p
    by (simp add: validateRequest_def split: if_splits)
  from x(1) obtain rp where rp: "rp \<in> set h" "absent_report rp" "window_key H (rp_request rp) = aw_key x"
      "rp_at rp = aw_first_seen x" "validateRequest (rp_request rp) False = Inr ()"
    unfolding window_sound_def by blast
  from window_key_inj [OF rp(3) [unfolded x(2)] hash [OF rp(5)] hash [OF q]] rp(1,2,4) x(3)
  show "\<exists>rp \<in> set h. absent_report rp \<and> rp_at rp + ABSENCE_PROPAGATION_INTERVAL_MS \<le> clock3
      \<and> cq_operation (rp_request rp) = cq_operation q
      \<and> cq_transaction_id (rp_request rp) = cq_transaction_id q
      \<and> outputsDigest H (rp_request rp) = outputsDigest H q" by auto
qed

end
