(* ===== verification/Chain_Examples.thy ===== *)
theory Chain_Examples
  imports Chain_Runs Contract_Examples
begin

text \<open>
  A settlement observed: both sources see it accepted, the operator asks for depth, and a later
  observation finds it only in what was retained; and one that both sources report absent, twice
  within the propagation interval's reach and once after it.
\<close>

definition toy_tx :: string where
  "toy_tx = replicate 64 (CHR ''a'')"

definition toy_chain_request :: chain_request where
  "toy_chain_request =
     \<lparr>cq_operation_id = ''effect-1'', cq_operation = Chain_settlement,
      cq_network = ''kaspa:testnet-10'', cq_transaction_id = toy_tx,
      cq_outputs = [\<lparr>xo_index = 0, xo_amount = ''500000'', xo_script = ''20ab'',
                     xo_address = ''kaspatest:qqqq'', xo_covenant_id = None\<rparr>],
      cq_inputs = None, cq_watched = [''kaspatest:qqqq''], cq_mechanism = Mech_ordinary,
      cq_finality = Fin_accepted\<rparr>"

definition toy_config :: chain_config where
  "toy_config = \<lparr>cf_policy = (\<lambda>_. Floor_depth_confirmed), cf_depth = ''100''\<rparr>"

definition toy_tables :: chain_tables where
  "toy_tables = \<lparr>manifest_binding = Some (1, toy_digest), chain_rows = []\<rparr>"

definition toy_chain :: chain_state where
  "toy_chain = \<lparr>windows = [], tables = toy_tables\<rparr>"

definition seen :: "string \<Rightarrow> string \<Rightarrow> source_evidence" where
  "seen profile virtual = Source_accepted
     \<lparr>as_level = Level_depth_confirmed, as_view = View_current, as_profile = profile,
      as_transaction_id = toy_tx, as_block = replicate 64 (CHR ''b''),
      as_accepting_block = replicate 64 (CHR ''c''), as_accepting_daa = ''1000'',
      as_virtual_daa = virtual, as_outputs_digest = outputsDigest raw_hash toy_chain_request,
      as_detail_digest = toy_digest, as_observed_at = 5\<rparr>"

definition unseen :: "string \<Rightarrow> source_evidence" where
  "unseen profile = Source_missing CS_absent profile toy_digest 5"

definition observe_toy :: "chain_state \<Rightarrow> int \<Rightarrow> chain_state \<times> (chain_error + observation)" where
  "observe_toy st now = observe raw_hash toy_config st toy_chain_request (\<lambda>_. False)
     (Some (seen CHAIN_EVIDENCE_WITNESS_PROFILE ''1200''))
     (\<lambda>_. Some (seen CHAIN_EVIDENCE_OPERATOR_PROFILE ''1150'')) now now now"

definition miss_toy :: "chain_state \<Rightarrow> int \<Rightarrow> chain_state \<times> (chain_error + observation)" where
  "miss_toy st now = observe raw_hash toy_config st toy_chain_request (\<lambda>_. False)
     (Some (unseen CHAIN_EVIDENCE_WITNESS_PROFILE))
     (\<lambda>_. Some (unseen CHAIN_EVIDENCE_OPERATOR_PROFILE)) now now now"

fun verdict :: "chain_state \<times> (chain_error + observation) \<Rightarrow> chain_interpretation option" where
  "verdict (st, Inr ob) = Some (ob_interpretation ob)"
| "verdict (st, Inl e) = None"

lemma toy_accepted: "verdict (observe_toy toy_chain 5) = Some Int_accepted"
  by code_simp

lemma toy_chain_reached: "chain_reaches raw_hash toy_chain []"
  unfolding toy_chain_def toy_tables_def by (rule reach_start)

lemma toy_missed_reached: "\<exists>h. chain_reaches raw_hash (fst (miss_toy toy_chain 5)) h"
proof -
  have "verdict (miss_toy toy_chain 5) \<noteq> None" by code_simp
  then obtain st' ob where "miss_toy toy_chain 5 = (st', Inr ob)" by (auto elim!: verdict.elims)
  then show ?thesis
    using observe_reaches [OF toy_chain_reached, of toy_config] unfolding miss_toy_def by fastforce
qed

lemma toy_retained: "verdict (miss_toy (fst (observe_toy toy_chain 5)) 6) = Some Int_accepted"
  by code_simp

lemma toy_absent_pending: "verdict (miss_toy toy_chain 5) = Some Int_unknown"
  by code_simp

lemma toy_absent_settled: "verdict (miss_toy (fst (miss_toy toy_chain 5)) 1005) = Some Int_absent"
  by code_simp

end
