(* ===== verification/Transfers.thy ===== *)
theory Transfers
  imports Contracts Policies Treasury_Operations
begin

text \<open>
  Transfers in the journal (\<open>src/purchase/journal.ts\<close>, \<open>src/transfer/types.ts\<close>,
  \<open>src/transfer/journal.ts\<close>): the intent, the decision of the authority with its evidence, the
  binding to one direct Treasury Operation, the synchronization with that operation and the
  receipt. A \<open>transfer_book\<close> is the journal with two tables the other parts do not read: the
  binding to the Operator Manifest and the Transfer receipts.

  \<open>H\<close> is SHA-256 in base64url, \<open>date_parse\<close> is \<open>Date.parse\<close>, \<open>read_facts\<close> reads stored facts
  (\<open>JSON.parse\<close>, \<open>None\<close> when it throws) and \<open>reprint\<close> parses and prints a text again.
\<close>

section \<open>Data\<close>

record transfer_receipt_row =
  tr_transfer_id :: string
  tr_json :: string
  tr_digest :: string
  tr_created_at :: int

record transfer_book =
  book :: journal
  book_manifest :: "(int \<times> string) option"
  transfer_receipts :: "transfer_receipt_row list"

record transfer_input =
  ti_id :: string
  ti_request_key :: string
  ti_request_digest :: string
  ti_destination :: string
  ti_amount :: string
  ti_source_vault_address :: string
  ti_source_vault_digest :: string
  ti_fee_ceiling :: string
  ti_maximum_total :: string
  ti_expires_at :: int
  ti_policy_digest :: string
  ti_manifest_revision :: int
  ti_manifest_digest :: string
  ti_finality_floor :: finality_floor

record transfer_facts =
  tfa_profile :: string
  tfa_transfer_id :: string
  tfa_request_key :: string
  tfa_source_vault_address :: string
  tfa_source_vault_digest :: string
  tfa_destination :: string
  tfa_amount :: string
  tfa_asset :: string
  tfa_network :: string
  tfa_fee_ceiling :: string
  tfa_maximum_total :: string
  tfa_issued_at :: string
  tfa_expires_at :: string
  tfa_policy_digest :: string
  tfa_manifest_revision :: int
  tfa_manifest_digest :: string
  tfa_finality_floor :: finality_floor

record transfer_decision_input =
  td_decision :: transfer_decision
  td_authority_id :: string
  td_denial_code :: "string option"
  td_evidence :: string
  td_evidence_digest :: string
  td_facts_digest :: string
  td_verification_profile :: string
  td_verifier_id :: string
  td_decided_at :: int

record transfer_receipt =
  tre_profile :: string
  tre_transfer_id :: string
  tre_request_key :: string
  tre_destination :: string
  tre_amount :: string
  tre_fee :: string
  tre_network :: string
  tre_funding_source :: string
  tre_funding_summary :: string
  tre_transaction_id :: string
  tre_finality :: finality_floor
  tre_settled_at :: string

text \<open>\<open>TreasuryOperationView\<close>, what a Transfer sees of the operation that carries it\<close>

record operation_view =
  ov_key :: string
  ov_kind :: treasury_kind
  ov_state :: treasury_operation_state
  ov_destination :: string
  ov_requested_amount :: string
  ov_keep_float :: "string option"
  ov_fee_ceiling :: string
  ov_amount :: "string option"
  ov_fee :: "string option"
  ov_transaction_id :: "string option"
  ov_retry_count :: int
  ov_recovery_required :: bool
  ov_safe_to_retry :: bool
  ov_cancellation_requested :: bool
  ov_preparation_fenced :: bool
  ov_created_at :: int
  ov_updated_at :: int

section \<open>Validation\<close>

text \<open>\<open>/^trf_[A-Za-z0-9_-]{22}$/\<close>\<close>

definition is_transfer_id :: "string \<Rightarrow> bool" where
  "is_transfer_id s \<longleftrightarrow> tagged ''trf_'' is_base64url 22 s"

definition assertTransferId :: "string \<Rightarrow> unit result" where
  "assertTransferId value = require (is_transfer_id value) JournalInvariantError"

definition assertTransferRequestKey :: "string \<Rightarrow> unit result" where
  "assertTransferRequestKey value = require (is_operation_key value) JournalInvariantError"

definition assertTransferAddress :: "string \<Rightarrow> unit result" where
  "assertTransferAddress value = require (is_testnet_address value) JournalInvariantError"

definition assertTransferAtomic :: "string \<Rightarrow> bool \<Rightarrow> nat result" where
  "assertTransferAtomic value zeroAllowed =
     (if \<not> canonical_decimal value then Inl JournalInvariantError
      else if BigInt value > 2 ^ 64 - 1 \<or> \<not> zeroAllowed \<and> BigInt value = 0
      then Inl JournalInvariantError
      else Inr (BigInt value))"

definition validateTransferIntent :: "transfer_input \<Rightarrow> unit result" where
  "validateTransferIntent i =
     rbind (assertTransferId (ti_id i)) (\<lambda>_.
     rbind (assertTransferRequestKey (ti_request_key i)) (\<lambda>_.
     rbind (assertDigest (ti_request_digest i)) (\<lambda>_.
     rbind (assertTransferAddress (ti_destination i)) (\<lambda>_.
     rbind (assertTransferAtomic (ti_amount i) False) (\<lambda>amount.
     rbind (assertTransferAddress (ti_source_vault_address i)) (\<lambda>_.
     rbind (assertDigest (ti_source_vault_digest i)) (\<lambda>_.
     rbind (assertTransferAtomic (ti_fee_ceiling i) True) (\<lambda>fee.
     rbind (assertTransferAtomic (ti_maximum_total i) False) (\<lambda>total.
     if amount + fee \<noteq> total then Inl JournalInvariantError
     else if \<not> is_safe_integer (ti_expires_at i) \<or> ti_expires_at i \<le> 0 then Inl JournalInvariantError
     else
     rbind (assertDigest (ti_policy_digest i)) (\<lambda>_.
     if \<not> is_safe_integer (ti_manifest_revision i) \<or> ti_manifest_revision i < 1
     then Inl JournalInvariantError
     else assertDigest (ti_manifest_digest i)))))))))))"

definition sameTransferIntent :: "transfer_row \<Rightarrow> transfer_input \<Rightarrow> bool" where
  "sameTransferIntent r i \<longleftrightarrow>
     tf_request_key r = ti_request_key i \<and> tf_request_digest r = ti_request_digest i
     \<and> tf_destination r = ti_destination i \<and> tf_amount r = ti_amount i"

definition facts_json :: "transfer_facts \<Rightarrow> json" where
  "facts_json f = J_object
     [(''profile'', J_string (tfa_profile f)), (''transferId'', J_string (tfa_transfer_id f)),
      (''requestKey'', J_string (tfa_request_key f)),
      (''sourceVaultAddress'', J_string (tfa_source_vault_address f)),
      (''sourceVaultDigest'', J_string (tfa_source_vault_digest f)),
      (''destination'', J_string (tfa_destination f)), (''amountAtomic'', J_string (tfa_amount f)),
      (''asset'', J_string (tfa_asset f)), (''network'', J_string (tfa_network f)),
      (''feeCeilingAtomic'', J_string (tfa_fee_ceiling f)),
      (''maximumTotalAtomic'', J_string (tfa_maximum_total f)),
      (''issuedAt'', J_string (tfa_issued_at f)), (''expiresAt'', J_string (tfa_expires_at f)),
      (''policyDigest'', J_string (tfa_policy_digest f)),
      (''operatorManifestRevision'', J_int (tfa_manifest_revision f)),
      (''operatorManifestDigest'', J_string (tfa_manifest_digest f)),
      (''finalityFloor'', J_string (floor_name (tfa_finality_floor f)))]"

definition canonicalTransferFactsJson :: "transfer_facts \<Rightarrow> string result" where
  "canonicalTransferFactsJson f =
     (if tfa_profile f \<noteq> ''sompi.transfer.1'' then Inl JournalInvariantError
      else Inr (json_text (facts_json f)))"

definition assertTransferFactsMatchIntent ::
  "date_parser \<Rightarrow> transfer_facts \<Rightarrow> transfer_row \<Rightarrow> unit result" where
  "assertTransferFactsMatchIntent date_parse f r =
     require (tfa_transfer_id f = tf_id r \<and> tfa_request_key f = tf_request_key r
       \<and> tfa_source_vault_address f = tf_source_vault_address r
       \<and> tfa_source_vault_digest f = tf_source_vault_digest r
       \<and> tfa_destination f = tf_destination r \<and> tfa_amount f = tf_amount r
       \<and> tfa_asset f = tf_asset r \<and> tfa_network f = tf_network r
       \<and> tfa_fee_ceiling f = tf_fee_ceiling r \<and> tfa_maximum_total f = tf_maximum_total r
       \<and> date_parse (tfa_issued_at f) = Some (tf_created_at r)
       \<and> date_parse (tfa_expires_at f) = Some (tf_expires_at r)
       \<and> tfa_policy_digest f = tf_policy_digest r
       \<and> tfa_manifest_revision f = tf_manifest_revision r
       \<and> tfa_manifest_digest f = tf_manifest_digest r
       \<and> tfa_finality_floor f = tf_finality_floor r) JournalInvariantError"

definition validateTransferAuthorityDecision :: "transfer_decision_input \<Rightarrow> unit result" where
  "validateTransferAuthorityDecision d =
     (if td_evidence d = [] \<or> length (td_evidence d) > 256 * 1024 then Inl JournalInvariantError
      else
      rbind (assertDigest (td_evidence_digest d)) (\<lambda>_.
      rbind (assertDigest (td_facts_digest d)) (\<lambda>_.
      rbind (assertBoundedText (td_authority_id d) 200) (\<lambda>_.
      rbind (assertBoundedText (td_verification_profile d) 200) (\<lambda>_.
      rbind (assertBoundedText (td_verifier_id d) 200) (\<lambda>_.
      if \<not> is_safe_integer (td_decided_at d) \<or> td_decided_at d \<le> 0 then Inl JournalInvariantError
      else if td_decision d = Transfer_approved \<and> td_denial_code d \<noteq> None
      then Inl JournalInvariantError
      else if td_decision d = Transfer_denied \<and> td_denial_code d \<noteq> Some ''user_denied''
              \<and> td_denial_code d \<noteq> Some ''terms_expired''
      then Inl JournalInvariantError
      else Inr ()))))))"

fun transferStateForTreasury :: "treasury_operation_state \<Rightarrow> transfer_state" where
  "transferStateForTreasury Op_intent = Tr_funds_reserved"
| "transferStateForTreasury Op_prepared = Tr_prepared"
| "transferStateForTreasury Op_submission_planned = Tr_submitted"
| "transferStateForTreasury Op_submitted = Tr_submitted"
| "transferStateForTreasury Op_observed = Tr_settled"
| "transferStateForTreasury Op_completed = Tr_settled"
| "transferStateForTreasury Op_failed_terminal = Tr_failed_terminal"

fun operation_state_name :: "treasury_operation_state \<Rightarrow> string" where
  "operation_state_name Op_intent = ''intent''"
| "operation_state_name Op_prepared = ''prepared''"
| "operation_state_name Op_submission_planned = ''submission_planned''"
| "operation_state_name Op_submitted = ''submitted''"
| "operation_state_name Op_observed = ''observed''"
| "operation_state_name Op_completed = ''completed''"
| "operation_state_name Op_failed_terminal = ''failed_terminal''"

text \<open>
  The view of an operation (\<open>view\<close> of \<open>src/treasury/operations.ts\<close>), without its \<open>summary\<close> text.
  An empty text is falsy and left out.
\<close>

definition unless_falsy :: "string option \<Rightarrow> string option" where
  "unless_falsy v = (if v = Some [] then None else v)"

definition operation_view_of :: "treasury_operation_row \<Rightarrow> operation_view" where
  "operation_view_of r =
     (let recoveryRequired = op_preparation_fenced r \<or> op_cancellation_requested r
            \<or> op_state r = Op_submission_planned \<or> op_state r = Op_submitted;
          safeToRetry = \<not> op_preparation_fenced r
            \<and> (op_state r = Op_prepared \<or> op_state r = Op_intent \<and> op_retry_count r < op_retry_limit r)
      in \<lparr>ov_key = op_key r, ov_kind = op_kind r, ov_state = op_state r,
          ov_destination = op_destination r, ov_requested_amount = op_requested_amount r,
          ov_keep_float = op_keep_float r, ov_fee_ceiling = op_fee_ceiling r,
          ov_amount = unless_falsy (op_resolved_amount r), ov_fee = unless_falsy (op_fee r),
          ov_transaction_id = unless_falsy (op_transaction_id r),
          ov_retry_count = op_retry_count r, ov_recovery_required = recoveryRequired,
          ov_safe_to_retry = (if op_cancellation_requested r then False else safeToRetry),
          ov_cancellation_requested = op_cancellation_requested r,
          ov_preparation_fenced = op_preparation_fenced r,
          ov_created_at = op_created_at r, ov_updated_at = op_updated_at r\<rparr>)"

definition TRANSFER_RECEIPT_PROFILE :: string where
  "TRANSFER_RECEIPT_PROFILE = ''urn:sompi:receipt:transfer:1''"

definition TRANSFER_FUNDING_SUMMARY :: string where
  "TRANSFER_FUNDING_SUMMARY = ''Sent securely from your protected Sompi wallet.''"

definition assertTransferReceiptMatches ::
  "date_parser \<Rightarrow> transfer_receipt \<Rightarrow> transfer_row \<Rightarrow> unit result" where
  "assertTransferReceiptMatches date_parse x r =
     require (tre_profile x = TRANSFER_RECEIPT_PROFILE \<and> tre_transfer_id x = tf_id r
       \<and> tre_request_key x = tf_request_key r \<and> tre_destination x = tf_destination r
       \<and> tre_amount x = tf_amount r \<and> tre_network x = tf_network r
       \<and> tre_funding_source x = ''vault-treasury'' \<and> tre_funding_summary x = TRANSFER_FUNDING_SUMMARY
       \<and> Some (tre_transaction_id x) = tf_transaction_id r \<and> tre_finality x = tf_finality_floor r
       \<and> Some (tre_fee x) = tf_actual_fee r \<and> date_parse (tre_settled_at x) \<noteq> None)
       JournalInvariantError"

text \<open>\<open>JSON.stringify(receipt)\<close>, in the order in which the Transfer module builds it\<close>

definition receipt_json :: "transfer_receipt \<Rightarrow> string" where
  "receipt_json x = json_text (J_object
     [(''profile'', J_string (tre_profile x)), (''transferId'', J_string (tre_transfer_id x)),
      (''requestKey'', J_string (tre_request_key x)), (''destination'', J_string (tre_destination x)),
      (''amountAtomic'', J_string (tre_amount x)), (''feeAtomic'', J_string (tre_fee x)),
      (''network'', J_string (tre_network x)), (''fundingSource'', J_string (tre_funding_source x)),
      (''fundingSummary'', J_string (tre_funding_summary x)),
      (''transactionId'', J_string (tre_transaction_id x)),
      (''finality'', J_string (floor_name (tre_finality x))),
      (''settledAt'', J_string (tre_settled_at x))])"

section \<open>Lookups\<close>

definition findTransferByRequestKey :: "journal \<Rightarrow> string \<Rightarrow> transfer_row option result" where
  "findTransferByRequestKey J k =
     rbind (assertTransferRequestKey k) (\<lambda>_.
       Inr (find_row (\<lambda>r. tf_request_key r = k) (transfers J)))"

definition findTransfer :: "journal \<Rightarrow> string \<Rightarrow> transfer_row option result" where
  "findTransfer J i =
     rbind (assertTransferId i) (\<lambda>_. Inr (find_row (\<lambda>r. tf_id r = i) (transfers J)))"

definition requireTransfer :: "journal \<Rightarrow> string \<Rightarrow> transfer_row result" where
  "requireTransfer J i =
     rbind (findTransfer J i) (\<lambda>found.
     case found of None \<Rightarrow> Inl JournalNotFoundError | Some r \<Rightarrow> Inr r)"

text \<open>A stored authorization with its facts read back\<close>

definition transferAuthorizationFromRow ::
  "(string \<Rightarrow> string) \<Rightarrow> (string \<Rightarrow> transfer_facts option) \<Rightarrow> transfer_authorization_row
    \<Rightarrow> (transfer_authorization_row \<times> transfer_facts) result" where
  "transferAuthorizationFromRow H read_facts r =
     (case read_facts (ta_facts_json r) of
        None \<Rightarrow> Inl JournalInvariantError
      | Some facts \<Rightarrow>
          if evidenceDigest H (ta_facts_json r) \<noteq> ta_facts_digest r then Inl JournalInvariantError
          else if evidenceDigest H (ta_evidence r) \<noteq> ta_evidence_digest r then Inl JournalInvariantError
          else Inr (r, facts))"

definition findTransferAuthorization ::
  "(string \<Rightarrow> string) \<Rightarrow> (string \<Rightarrow> transfer_facts option) \<Rightarrow> journal \<Rightarrow> string
    \<Rightarrow> (transfer_authorization_row \<times> transfer_facts) option result" where
  "findTransferAuthorization H read_facts J i =
     rbind (assertTransferId i) (\<lambda>_.
     case find_row (\<lambda>r. ta_transfer_id r = i) (transfer_authorizations J) of
       None \<Rightarrow> Inr None
     | Some r \<Rightarrow> rbind (transferAuthorizationFromRow H read_facts r) (\<lambda>a. Inr (Some a)))"

definition requireTransferAuthorization ::
  "(string \<Rightarrow> string) \<Rightarrow> (string \<Rightarrow> transfer_facts option) \<Rightarrow> journal \<Rightarrow> string
    \<Rightarrow> (transfer_authorization_row \<times> transfer_facts) result" where
  "requireTransferAuthorization H read_facts J i =
     rbind (findTransferAuthorization H read_facts J i) (\<lambda>found.
     case found of None \<Rightarrow> Inl JournalNotFoundError | Some a \<Rightarrow> Inr a)"

definition readTransferAuthorizationEvidence :: "journal \<Rightarrow> string \<Rightarrow> string result" where
  "readTransferAuthorizationEvidence J i =
     rbind (assertTransferId i) (\<lambda>_.
     case find_row (\<lambda>r. ta_transfer_id r = i) (transfer_authorizations J) of
       None \<Rightarrow> Inl JournalNotFoundError
     | Some r \<Rightarrow> Inr (ta_evidence r))"

definition sameTransferAuthorization ::
  "transfer_authorization_row \<times> transfer_facts \<Rightarrow> transfer_facts \<Rightarrow> transfer_decision_input \<Rightarrow> bool result"
where
  "sameTransferAuthorization existing facts d =
     (case existing of (r, stored) \<Rightarrow>
        if ta_facts_digest r = td_facts_digest d \<and> ta_evidence_digest r = td_evidence_digest d
           \<and> ta_decision r = td_decision d \<and> ta_authority_id r = td_authority_id d
        then rbind (canonicalTransferFactsJson stored) (\<lambda>a.
             rbind (canonicalTransferFactsJson facts) (\<lambda>b. Inr (a = b)))
        else Inr False)"

text \<open>The text of a stored receipt, as parsing and printing it again gives it\<close>

definition findTransferReceipt ::
  "(string \<Rightarrow> string) \<Rightarrow> (string \<Rightarrow> string option) \<Rightarrow> transfer_book \<Rightarrow> string \<Rightarrow> string option result" where
  "findTransferReceipt H reprint B i =
     rbind (assertTransferId i) (\<lambda>_.
     case find_row (\<lambda>r. tr_transfer_id r = i) (transfer_receipts B) of
       None \<Rightarrow> Inr None
     | Some r \<Rightarrow>
         (case reprint (tr_json r) of
            None \<Rightarrow> Inl JournalInvariantError
          | Some s \<Rightarrow>
              if evidenceDigest H (tr_json r) \<noteq> tr_digest r then Inl JournalInvariantError
              else Inr (Some s)))"

text \<open>\<open>ORDER BY created_at_ms DESC, id DESC LIMIT ?\<close>\<close>

definition listTransfers :: "journal \<Rightarrow> int \<Rightarrow> transfer_row list result" where
  "listTransfers J limit =
     (if \<not> is_safe_integer limit \<or> limit < 1 \<or> limit > 100 then Inl JournalInvariantError
      else Inr (take (nat limit) (rev (sort_key tf_created_at (sort_key tf_id (transfers J))))))"

definition listPurchases :: "journal \<Rightarrow> int \<Rightarrow> purchase_row list result" where
  "listPurchases J limit =
     (if \<not> is_safe_integer limit \<or> limit < 1 \<or> limit > 100 then Inl JournalInvariantError
      else Inr (take (nat limit) (rev (sort_key pu_created_at (sort_key pu_id (purchases J))))))"

section \<open>The intent\<close>

definition new_transfer :: "transfer_input \<Rightarrow> int \<Rightarrow> transfer_row" where
  "new_transfer i now =
     \<lparr>tf_id = ti_id i, tf_request_key = ti_request_key i, tf_request_digest = ti_request_digest i,
      tf_state = Tr_created, tf_destination = ti_destination i, tf_amount = ti_amount i,
      tf_asset = ''KAS'', tf_network = ''kaspa:testnet-10'',
      tf_source_vault_address = ti_source_vault_address i,
      tf_source_vault_digest = ti_source_vault_digest i, tf_fee_ceiling = ti_fee_ceiling i,
      tf_maximum_total = ti_maximum_total i, tf_expires_at = ti_expires_at i,
      tf_policy_digest = ti_policy_digest i, tf_manifest_revision = ti_manifest_revision i,
      tf_manifest_digest = ti_manifest_digest i, tf_finality_floor = ti_finality_floor i,
      tf_treasury_operation_key = None, tf_transaction_id = None, tf_actual_fee = None,
      tf_failure_code = None, tf_version = 0, tf_created_at = now, tf_updated_at = now\<rparr>"

definition insertTransferTransition ::
  "string \<Rightarrow> transfer_state option \<Rightarrow> transfer_state \<Rightarrow> string \<Rightarrow> string option \<Rightarrow> int \<Rightarrow> journal
    \<Rightarrow> journal" where
  "insertTransferTransition i from_state to_state reasonCode detailDigest now J =
     J\<lparr>transfer_log := transfer_log J @
         [\<lparr>tt_transfer_id = i, tt_from = from_state, tt_to = to_state, tt_reason = reasonCode,
           tt_detail = detailDigest, tt_created_at = now\<rparr>]\<rparr>"

text \<open>The primary key, \<open>UNIQUE (request_key)\<close> and \<open>UNIQUE (request_digest)\<close>\<close>

definition transfer_insert_conflict :: "journal \<Rightarrow> transfer_input \<Rightarrow> bool" where
  "transfer_insert_conflict J i \<longleftrightarrow>
     list_ex (\<lambda>r. tf_id r = ti_id i \<or> tf_request_key r = ti_request_key i
                  \<or> tf_request_digest r = ti_request_digest i) (transfers J)"

definition claimTransferIntent ::
  "transfer_book \<Rightarrow> transfer_input \<Rightarrow> int \<Rightarrow> (transfer_book \<times> transfer_row) result" where
  "claimTransferIntent B i clock =
     rbind (validateTransferIntent i) (\<lambda>_.
     rbind (findTransferByRequestKey (book B) (ti_request_key i)) (\<lambda>byKey.
     case byKey of
       Some r \<Rightarrow> if \<not> sameTransferIntent r i then Inl JournalRequestConflictError else Inr (B, r)
     | None \<Rightarrow>
         rbind (findTransfer (book B) (ti_id i)) (\<lambda>byId.
         if byId \<noteq> None then Inl JournalInvariantError
         else rbind (requirePolicy (book B) (ti_policy_digest i)) (\<lambda>_.
         if book_manifest B \<noteq> Some (ti_manifest_revision i, ti_manifest_digest i)
         then Inl JournalInvariantError
         else rbind (timestamp clock) (\<lambda>now.
         if transfer_insert_conflict (book B) i then Inl SqliteConstraintError
         else
           let J = (book B)\<lparr>transfers := transfers (book B) @ [new_transfer i now]\<rparr>;
               B' = B\<lparr>book := insertTransferTransition (ti_id i) None Tr_created
                                 ''intent_recorded'' None now J\<rparr>
           in rbind (requireTransfer (book B') (ti_id i)) (\<lambda>r. Inr (B', r)))))))"

section \<open>Transitions\<close>

definition update_transfer :: "string \<Rightarrow> (transfer_row \<Rightarrow> transfer_row) \<Rightarrow> journal \<Rightarrow> journal" where
  "update_transfer i f J = J\<lparr>transfers := update_rows (\<lambda>r. tf_id r = i) f (transfers J)\<rparr>"

definition transitionTransferInternal ::
  "journal \<Rightarrow> string \<Rightarrow> transfer_state \<Rightarrow> string \<Rightarrow> string option \<Rightarrow> int
    \<Rightarrow> (journal \<times> transfer_row) result" where
  "transitionTransferInternal J i to_state reasonCode detailDigest clock =
     rbind (requireTransfer J i) (\<lambda>current.
     rbind (assertTransferTransition (tf_state current) to_state) (\<lambda>_.
     rbind (timestamp clock) (\<lambda>now.
     let cond = (\<lambda>r. tf_id r = i \<and> tf_state r = tf_state current \<and> tf_version r = tf_version current)
     in if changes cond (transfers J) \<noteq> 1 then Inl JournalInvariantError
        else
          let J' = insertTransferTransition i (Some (tf_state current)) to_state reasonCode
                     detailDigest now
                     (J\<lparr>transfers := update_rows cond
                          (\<lambda>r. r\<lparr>tf_state := to_state, tf_version := tf_version r + 1,
                                 tf_updated_at := now\<rparr>) (transfers J)\<rparr>)
          in rbind (requireTransfer J' i) (\<lambda>r. Inr (J', r)))))"

definition in_book ::
  "transfer_book \<Rightarrow> (journal \<times> 'a) result \<Rightarrow> (transfer_book \<times> 'a) result" where
  "in_book B m = rbind m (\<lambda>(J, x). Inr (B\<lparr>book := J\<rparr>, x))"

definition transitionTransfer ::
  "transfer_book \<Rightarrow> string \<Rightarrow> transfer_state \<Rightarrow> string \<Rightarrow> string option \<Rightarrow> int
    \<Rightarrow> (transfer_book \<times> transfer_row) result" where
  "transitionTransfer B i to_state reasonCode detailDigest clock =
     rbind (assertTransferId i) (\<lambda>_.
     rbind (assertBoundedText reasonCode 120) (\<lambda>_.
     rbind (case detailDigest of None \<Rightarrow> Inr () | Some d \<Rightarrow> assertDigest d) (\<lambda>_.
       in_book B (transitionTransferInternal (book B) i to_state reasonCode detailDigest clock))))"

section \<open>The decision\<close>

text \<open>
  The primary key, \<open>UNIQUE (facts_digest)\<close>, \<open>UNIQUE (evidence_digest)\<close>; the check that ties a
  denial code to a denial.
\<close>

definition authorization_insert_conflict :: "journal \<Rightarrow> transfer_authorization_row \<Rightarrow> bool" where
  "authorization_insert_conflict J a \<longleftrightarrow>
     list_ex (\<lambda>r. ta_transfer_id r = ta_transfer_id a \<or> ta_facts_digest r = ta_facts_digest a
                  \<or> ta_evidence_digest r = ta_evidence_digest a) (transfer_authorizations J)
     \<or> (ta_decision a = Transfer_approved) \<noteq> (ta_denial_code a = None)"

definition recordTransferAuthorization ::
  "(string \<Rightarrow> string) \<Rightarrow> date_parser \<Rightarrow> (string \<Rightarrow> transfer_facts option) \<Rightarrow> transfer_book \<Rightarrow> string
    \<Rightarrow> transfer_facts \<Rightarrow> transfer_decision_input \<Rightarrow> int
    \<Rightarrow> (transfer_book \<times> transfer_authorization_row \<times> transfer_facts) result" where
  "recordTransferAuthorization H date_parse read_facts B i facts d clock =
     rbind (assertTransferId i) (\<lambda>_.
     rbind (canonicalTransferFactsJson facts) (\<lambda>factsJson.
     let factsDigest = evidenceDigest H factsJson in
     if tfa_transfer_id facts \<noteq> i \<or> td_facts_digest d \<noteq> factsDigest then Inl JournalInvariantError
     else
     rbind (validateTransferAuthorityDecision d) (\<lambda>_.
     if evidenceDigest H (td_evidence d) \<noteq> td_evidence_digest d then Inl JournalInvariantError
     else
     rbind (requireTransfer (book B) i) (\<lambda>transfer.
     if tf_state transfer \<noteq> Tr_awaiting_authority then
       rbind (findTransferAuthorization H read_facts (book B) i) (\<lambda>existing.
       case existing of
         None \<Rightarrow> Inl JournalInvariantError
       | Some a \<Rightarrow> rbind (sameTransferAuthorization a facts d) (\<lambda>same.
           if same then Inr (B, a) else Inl JournalInvariantError))
     else
     rbind (assertTransferFactsMatchIntent date_parse facts transfer) (\<lambda>_.
     if td_decided_at d > tf_expires_at transfer then Inl JournalInvariantError
     else
       let row = \<lparr>ta_transfer_id = i, ta_facts_json = factsJson, ta_facts_digest = factsDigest,
                  ta_decision = td_decision d, ta_authority_id = td_authority_id d,
                  ta_denial_code = td_denial_code d, ta_evidence = td_evidence d,
                  ta_evidence_digest = td_evidence_digest d,
                  ta_verification_profile = td_verification_profile d,
                  ta_verifier_id = td_verifier_id d, ta_decided_at = td_decided_at d,
                  ta_expires_at = tf_expires_at transfer\<rparr>;
           J = (book B)\<lparr>transfer_authorizations := transfer_authorizations (book B) @ [row]\<rparr>
       in if authorization_insert_conflict (book B) row then Inl SqliteConstraintError
          else
          rbind (transitionTransferInternal J i
                   (if td_decision d = Transfer_approved then Tr_authorised else Tr_denied)
                   (if td_decision d = Transfer_approved then ''authorization_approved''
                    else ''authorization_denied'') (Some (td_evidence_digest d)) clock) (\<lambda>(J', r).
          rbind (requireTransferAuthorization H read_facts J' i) (\<lambda>a. Inr (B\<lparr>book := J'\<rparr>, a))))))))"

section \<open>The operation that carries it\<close>

definition bindTransferTreasuryOperation ::
  "(string \<Rightarrow> string) \<Rightarrow> (string \<Rightarrow> transfer_facts option) \<Rightarrow> transfer_book \<Rightarrow> string \<Rightarrow> string
    \<Rightarrow> int \<Rightarrow> int \<Rightarrow> (transfer_book \<times> transfer_row) result" where
  "bindTransferTreasuryOperation H read_facts B i operationKey clock1 clock2 =
     rbind (assertTransferId i) (\<lambda>_.
     rbind (assertTreasuryOperationKey operationKey) (\<lambda>_.
     rbind (requireTransfer (book B) i) (\<lambda>transfer.
     case unless_falsy (tf_treasury_operation_key transfer) of
       Some k \<Rightarrow> if k \<noteq> operationKey then Inl JournalInvariantError else Inr (B, transfer)
     | None \<Rightarrow>
         if tf_state transfer \<noteq> Tr_authorised then Inl JournalInvariantError
         else rbind (findTransferAuthorization H read_facts (book B) i) (\<lambda>found.
         case found of
           None \<Rightarrow> Inl JournalInvariantError
         | Some (a, facts) \<Rightarrow>
             if ta_decision a \<noteq> Transfer_approved then Inl JournalInvariantError
             else rbind (timestamp clock1) (\<lambda>now.
             if list_ex (\<lambda>r. tf_treasury_operation_key r = Some operationKey \<and> tf_id r \<noteq> i)
                  (transfers (book B))
             then Inl SqliteConstraintError
             else in_book B (transitionTransferInternal
               (update_transfer i (\<lambda>r. r\<lparr>tf_treasury_operation_key := Some operationKey,
                                         tf_updated_at := now\<rparr>) (book B))
               i Tr_funds_reserved ''treasury_operation_bound'' None clock2))))))"

text \<open>\<open>COALESCE(column, value)\<close>\<close>

definition coalesce :: "string option \<Rightarrow> string option \<Rightarrow> string option" where
  "coalesce a b = (if a = None then b else a)"

definition syncTransferTreasuryOperation ::
  "transfer_book \<Rightarrow> string \<Rightarrow> operation_view \<Rightarrow> int \<Rightarrow> int \<Rightarrow> (transfer_book \<times> transfer_row) result"
where
  "syncTransferTreasuryOperation B i v clock1 clock2 =
     rbind (assertTransferId i) (\<lambda>_.
     rbind (requireTransfer (book B) i) (\<lambda>transfer.
     if tf_treasury_operation_key transfer \<noteq> Some (ov_key v) \<or> ov_kind v \<noteq> Vault_send
     then Inl JournalInvariantError
     else if ov_destination v \<noteq> tf_destination transfer
             \<or> ov_requested_amount v \<noteq> tf_amount transfer \<or> ov_fee_ceiling v \<noteq> tf_fee_ceiling transfer
     then Inl JournalInvariantError
     else
       let target = transferStateForTreasury (ov_state v);
           failure = (if ov_state v = Op_failed_terminal then Some ''treasury_operation_failed'' else None)
       in
       rbind (timestamp clock1) (\<lambda>now.
       let txid = coalesce (tf_transaction_id transfer) (ov_transaction_id v) in
       if txid \<noteq> None \<and> list_ex (\<lambda>r. tf_transaction_id r = txid \<and> tf_id r \<noteq> i) (transfers (book B))
       then Inl SqliteConstraintError
       else
         let J = update_transfer i (\<lambda>r. r\<lparr>
                   tf_transaction_id := coalesce (tf_transaction_id r) (ov_transaction_id v),
                   tf_actual_fee := coalesce (tf_actual_fee r) (ov_fee v),
                   tf_failure_code := coalesce (tf_failure_code r) failure,
                   tf_updated_at := now\<rparr>) (book B)
         in rbind (requireTransfer J i) (\<lambda>transfer'.
            if tf_state transfer' \<noteq> target
            then in_book B (transitionTransferInternal J i target
                   (''treasury_'' @ operation_state_name (ov_state v)) None clock2)
            else Inr (B\<lparr>book := J\<rparr>, transfer')))))"

section \<open>The receipt\<close>

definition recordTransferReceipt ::
  "(string \<Rightarrow> string) \<Rightarrow> date_parser \<Rightarrow> (string \<Rightarrow> string option) \<Rightarrow> transfer_book \<Rightarrow> string
    \<Rightarrow> transfer_receipt \<Rightarrow> int \<Rightarrow> int \<Rightarrow> (transfer_book \<times> string) result" where
  "recordTransferReceipt H date_parse reprint B i x clock1 clock2 =
     rbind (assertTransferId i) (\<lambda>_.
     let json = receipt_json x; digest = evidenceDigest H json in
     rbind (requireTransfer (book B) i) (\<lambda>transfer.
     if tf_state transfer = Tr_receipted then
       rbind (findTransferReceipt H reprint B i) (\<lambda>existing.
       if existing = Some json then Inr (B, json) else Inl JournalInvariantError)
     else if tf_state transfer \<noteq> Tr_settled then Inl JournalInvariantError
     else rbind (assertTransferReceiptMatches date_parse x transfer) (\<lambda>_.
     rbind (timestamp clock1) (\<lambda>now.
     if list_ex (\<lambda>r. tr_transfer_id r = i \<or> tr_digest r = digest) (transfer_receipts B)
     then Inl SqliteConstraintError
     else
       rbind (transitionTransferInternal (book B) i Tr_receipted ''receipt_recorded'' (Some digest)
                clock2) (\<lambda>(J, r).
         Inr (B\<lparr>book := J, transfer_receipts := transfer_receipts B @
                  [\<lparr>tr_transfer_id = i, tr_json = json, tr_digest = digest, tr_created_at = now\<rparr>]\<rparr>,
              json))))))"

end
