(* ===== verification/Transfer_Runs.thy ===== *)
theory Transfer_Runs
  imports Transfers
begin

text \<open>
  What the Transfer operations keep true: a Transfer bound to a Treasury operation was approved,
  in time, for exactly its intent. \<open>transfer_step\<close> has a case for each operation, and one for
  the other writers of the journal, which leave the Transfer tables alone.
\<close>

section \<open>Steps\<close>

inductive transfer_step ::
  "(string \<Rightarrow> string) \<Rightarrow> date_parser \<Rightarrow> (string \<Rightarrow> transfer_facts option) \<Rightarrow> (string \<Rightarrow> string option)
    \<Rightarrow> transfer_book \<Rightarrow> transfer_book \<Rightarrow> bool"
  for H dp rf rp where
  tr_claim: "claimTransferIntent B i t = Inr (B', r) \<Longrightarrow> transfer_step H dp rf rp B B'"
| tr_transition: "transitionTransfer B i s reason d t = Inr (B', r) \<Longrightarrow> transfer_step H dp rf rp B B'"
| tr_decide: "recordTransferAuthorization H dp rf B i f d t = Inr (B', a) \<Longrightarrow> transfer_step H dp rf rp B B'"
| tr_bind: "bindTransferTreasuryOperation H rf B i k t1 t2 = Inr (B', r) \<Longrightarrow> transfer_step H dp rf rp B B'"
| tr_sync: "syncTransferTreasuryOperation B i v t1 t2 = Inr (B', r) \<Longrightarrow> transfer_step H dp rf rp B B'"
| tr_receipt: "recordTransferReceipt H dp rp B i x t1 t2 = Inr (B', s) \<Longrightarrow> transfer_step H dp rf rp B B'"
| tr_elsewhere: "transfers (book B') = transfers (book B)
    \<Longrightarrow> transfer_log (book B') = transfer_log (book B)
    \<Longrightarrow> transfer_authorizations (book B') = transfer_authorizations (book B)
    \<Longrightarrow> transfer_receipts B' = transfer_receipts B \<Longrightarrow> transfer_step H dp rf rp B B'"

inductive transfer_reachable ::
  "(string \<Rightarrow> string) \<Rightarrow> date_parser \<Rightarrow> (string \<Rightarrow> transfer_facts option) \<Rightarrow> (string \<Rightarrow> string option)
    \<Rightarrow> transfer_book \<Rightarrow> bool"
  for H dp rf rp where
  transfers_start: "transfer_reachable H dp rf rp
    \<lparr>book = empty_journal, book_manifest = m, transfer_receipts = []\<rparr>"
| transfers_step: "transfer_reachable H dp rf rp B \<Longrightarrow> transfer_step H dp rf rp B B'
    \<Longrightarrow> transfer_reachable H dp rf rp B'"

section \<open>The invariant\<close>

text \<open>What never changes of a Transfer\<close>

definition intent_of :: "transfer_row \<Rightarrow> transfer_row" where
  "intent_of r = r\<lparr>tf_state := Tr_created, tf_treasury_operation_key := None,
     tf_transaction_id := None, tf_actual_fee := None, tf_failure_code := None, tf_version := 0,
     tf_updated_at := 0\<rparr>"

lemma intent_of_update [simp]:
  "intent_of (r\<lparr>tf_state := s\<rparr>) = intent_of r"
  "intent_of (r\<lparr>tf_treasury_operation_key := k\<rparr>) = intent_of r"
  "intent_of (r\<lparr>tf_transaction_id := x\<rparr>) = intent_of r"
  "intent_of (r\<lparr>tf_actual_fee := x\<rparr>) = intent_of r"
  "intent_of (r\<lparr>tf_failure_code := x\<rparr>) = intent_of r"
  "intent_of (r\<lparr>tf_version := n\<rparr>) = intent_of r"
  "intent_of (r\<lparr>tf_updated_at := t\<rparr>) = intent_of r"
  by (simp_all add: intent_of_def)

lemma intent_of_fields:
  assumes "intent_of r = intent_of r'"
  shows "tf_id r = tf_id r'" and "tf_amount r = tf_amount r'"
    and "tf_fee_ceiling r = tf_fee_ceiling r'" and "tf_maximum_total r = tf_maximum_total r'"
    and "tf_expires_at r = tf_expires_at r'" and "tf_destination r = tf_destination r'"
    and "assertTransferFactsMatchIntent dp f r = assertTransferFactsMatchIntent dp f r'"
proof -
  have f: "g r = g r'" if "\<And>x. g (intent_of x) = g x" for g :: "transfer_row \<Rightarrow> 'a"
    using that assms by metis
  show "tf_id r = tf_id r'" "tf_amount r = tf_amount r'" "tf_fee_ceiling r = tf_fee_ceiling r'"
    "tf_maximum_total r = tf_maximum_total r'" "tf_expires_at r = tf_expires_at r'"
    "tf_destination r = tf_destination r'"
    by (rule f, simp add: intent_of_def)+
  show "assertTransferFactsMatchIntent dp f r = assertTransferFactsMatchIntent dp f r'"
    by (rule f) (simp add: intent_of_def assertTransferFactsMatchIntent_def)
qed

definition amounts_ok :: "transfer_row \<Rightarrow> bool" where
  "amounts_ok r \<longleftrightarrow>
     0 < BigInt (tf_amount r) \<and> BigInt (tf_maximum_total r) < 2 ^ 64
     \<and> BigInt (tf_amount r) + BigInt (tf_fee_ceiling r) = BigInt (tf_maximum_total r)"

text \<open>The decision was made in time about facts that are the intent of the Transfer.\<close>

definition decided_for ::
  "(string \<Rightarrow> string) \<Rightarrow> date_parser \<Rightarrow> transfer_row \<Rightarrow> transfer_authorization_row \<Rightarrow> bool" where
  "decided_for H dp r a \<longleftrightarrow>
     ta_transfer_id a = tf_id r \<and> ta_decided_at a \<le> tf_expires_at r
     \<and> ta_evidence_digest a = evidenceDigest H (ta_evidence a)
     \<and> (\<exists>f. ta_facts_json a = json_text (facts_json f) \<and> ta_facts_digest a = evidenceDigest H (ta_facts_json a)
            \<and> assertTransferFactsMatchIntent dp f r = Inr ())"

lemma decided_for_intent: "intent_of r = intent_of r' \<Longrightarrow> decided_for H dp r a = decided_for H dp r' a"
  using intent_of_fields [of r r'] by (simp add: decided_for_def)

definition approved_in :: "journal \<Rightarrow> string \<Rightarrow> bool" where
  "approved_in J i \<longleftrightarrow>
     (\<exists>a \<in> set (transfer_authorizations J). ta_transfer_id a = i \<and> ta_decision a = Transfer_approved)"

definition transfer_inv :: "(string \<Rightarrow> string) \<Rightarrow> date_parser \<Rightarrow> journal \<Rightarrow> bool" where
  "transfer_inv H dp J \<longleftrightarrow>
     distinct (map tf_id (transfers J))
     \<and> (\<forall>r \<in> set (transfers J). amounts_ok r
          \<and> (tf_treasury_operation_key r \<noteq> None \<longrightarrow> approved_in J (tf_id r)))
     \<and> (\<forall>a \<in> set (transfer_authorizations J). \<exists>r \<in> set (transfers J). decided_for H dp r a)"

text \<open>One change: rows keep their intent, a new row is unbound, a new decision is about a row.\<close>

definition delta_by ::
  "(string \<Rightarrow> string) \<Rightarrow> date_parser \<Rightarrow> journal \<Rightarrow> journal \<Rightarrow> (transfer_row \<Rightarrow> transfer_row)
    \<Rightarrow> transfer_row list \<Rightarrow> transfer_authorization_row list \<Rightarrow> bool" where
  "delta_by H dp J J' g new decisions \<longleftrightarrow>
     transfers J' = map g (transfers J) @ new
     \<and> transfer_authorizations J' = transfer_authorizations J @ decisions
     \<and> (\<forall>r \<in> set (transfers J). intent_of (g r) = intent_of r
          \<and> (tf_treasury_operation_key (g r) \<noteq> tf_treasury_operation_key r \<longrightarrow> approved_in J (tf_id r)))
     \<and> distinct (map tf_id new) \<and> (\<forall>r \<in> set new. tf_id r \<notin> tf_id ` set (transfers J)
          \<and> amounts_ok r \<and> tf_treasury_operation_key r = None)
     \<and> (\<forall>a \<in> set decisions. \<exists>r \<in> set (transfers J). decided_for H dp r a)"

definition transfer_delta :: "(string \<Rightarrow> string) \<Rightarrow> date_parser \<Rightarrow> journal \<Rightarrow> journal \<Rightarrow> bool" where
  "transfer_delta H dp J J' \<longleftrightarrow> (\<exists>g new decisions. delta_by H dp J J' g new decisions)"

lemma transfer_delta_inv:
  assumes "transfer_delta H dp J J'" and inv: "transfer_inv H dp J"
  shows "transfer_inv H dp J'"
proof -
  from assms(1) obtain g new decisions where D: "delta_by H dp J J' g new decisions"
    unfolding transfer_delta_def by blast
  have t: "transfers J' = map g (transfers J) @ new"
    and a: "transfer_authorizations J' = transfer_authorizations J @ decisions"
    and g: "\<And>r. r \<in> set (transfers J) \<Longrightarrow> intent_of (g r) = intent_of r"
    and key: "\<And>r. r \<in> set (transfers J) \<Longrightarrow>
      tf_treasury_operation_key (g r) \<noteq> tf_treasury_operation_key r \<Longrightarrow> approved_in J (tf_id r)"
    and new: "distinct (map tf_id new)" "\<And>r. r \<in> set new \<Longrightarrow> tf_id r \<notin> tf_id ` set (transfers J)"
      "\<And>r. r \<in> set new \<Longrightarrow> amounts_ok r \<and> tf_treasury_operation_key r = None"
    and d: "\<And>x. x \<in> set decisions \<Longrightarrow> \<exists>r \<in> set (transfers J). decided_for H dp r x"
    using D unfolding delta_by_def by simp_all
  have ids: "map tf_id (map g (transfers J)) = map tf_id (transfers J)"
    using intent_of_fields(1) [OF g] by simp
  have mono: "approved_in J i \<Longrightarrow> approved_in J' i" for i
    by (auto simp: approved_in_def a)
  have keep: "amounts_ok (g r) = amounts_ok r" if "r \<in> set (transfers J)" for r
    using intent_of_fields [OF g [OF that]] by (simp add: amounts_ok_def)
  have rows: "amounts_ok r \<and> (tf_treasury_operation_key r \<noteq> None \<longrightarrow> approved_in J' (tf_id r))"
    if r: "r \<in> set (transfers J')" for r
  proof (cases "r \<in> set new")
    case False
    then obtain x where x: "x \<in> set (transfers J)" "r = g x" using r by (auto simp: t)
    have "tf_id r = tf_id x" using intent_of_fields(1) [OF g [OF x(1)]] x(2) by simp
    then show ?thesis
      using inv x keep [OF x(1)] key [OF x(1)] mono unfolding transfer_inv_def by metis
  qed (use new(3) in simp)
  have decided: "\<exists>r \<in> set (transfers J'). decided_for H dp r x"
    if "x \<in> set (transfer_authorizations J')" for x
  proof -
    have "\<exists>r \<in> set (transfers J). decided_for H dp r x"
      using that inv d unfolding a transfer_inv_def by auto
    then obtain r where "r \<in> set (transfers J)" "decided_for H dp r x" by blast
    then show ?thesis using decided_for_intent [OF g] t by (intro bexI [of _ "g r"]) auto
  qed
  have image: "set (map tf_id (map g (transfers J))) = tf_id ` set (transfers J)"
    unfolding ids by simp
  have "set (map tf_id (map g (transfers J))) \<inter> set (map tf_id new) = {}"
  proof (intro equals0I, elim IntE)
    fix i assume "i \<in> set (map tf_id (map g (transfers J)))" and "i \<in> set (map tf_id new)"
    then obtain n where "n \<in> set new" "i = tf_id n" by (simp only: set_map image_iff) blast
    then show False
      using new(2) [of n] \<open>i \<in> set (map tf_id (map g (transfers J)))\<close> unfolding image by simp
  qed
  moreover have "distinct (map tf_id (map g (transfers J)))"
    unfolding ids using inv by (simp add: transfer_inv_def)
  ultimately have "distinct (map tf_id (transfers J'))"
    unfolding t map_append distinct_append using new(1) by (intro conjI)
  then show ?thesis using rows decided unfolding transfer_inv_def by blast
qed

section \<open>Every operation is such a change\<close>

lemma delta_update:
  assumes "\<And>r. r \<in> set (transfers J) \<Longrightarrow> p r \<Longrightarrow> intent_of (f r) = intent_of r
      \<and> (tf_treasury_operation_key (f r) = tf_treasury_operation_key r \<or> approved_in J (tf_id r))"
    and "transfers J' = update_rows p f (transfers J)"
    and "transfer_authorizations J' = transfer_authorizations J"
  shows "transfer_delta H dp J J'"
  unfolding transfer_delta_def delta_by_def
  by (rule exI [of _ "\<lambda>r. if p r then f r else r"], rule exI [of _ "[]"], rule exI [of _ "[]"])
    (use assms in \<open>auto simp: update_rows_def\<close>)

lemma delta_refl: "transfers J' = transfers J \<Longrightarrow> transfer_authorizations J' = transfer_authorizations J
    \<Longrightarrow> transfer_delta H dp J J'"
  by (rule delta_update [where p = "\<lambda>_. False" and f = id]) (simp_all add: update_rows_def)

lemma requireTransfer_Inr:
  "requireTransfer J i = Inr r \<longleftrightarrow> is_transfer_id i \<and> find_row (\<lambda>r. tf_id r = i) (transfers J) = Some r"
  by (auto simp: requireTransfer_def findTransfer_def assertTransferId_def)

lemma transition_tables:
  assumes "transitionTransferInternal J i s reason d t = Inr (J', r)"
  obtains p f where "transfers J' = update_rows p f (transfers J)"
    and "\<And>x. intent_of (f x) = intent_of x"
    and "\<And>x. tf_treasury_operation_key (f x) = tf_treasury_operation_key x"
    and "transfer_authorizations J' = transfer_authorizations J"
proof -
  have "\<exists>p. transfers J' = update_rows p (\<lambda>r. r\<lparr>tf_state := s, tf_version := Suc (tf_version r),
          tf_updated_at := t\<rparr>) (transfers J)
      \<and> transfer_authorizations J' = transfer_authorizations J"
    using assms unfolding transitionTransferInternal_def Let_def
    by (auto simp: insertTransferTransition_def split: if_splits)
  then obtain p where c: "transfers J' = update_rows p (\<lambda>r. r\<lparr>tf_state := s,
          tf_version := Suc (tf_version r), tf_updated_at := t\<rparr>) (transfers J)"
      and a: "transfer_authorizations J' = transfer_authorizations J" by blast
  show thesis by (rule that [OF c]) (simp_all add: a)
qed

lemma transition_delta:
  "transitionTransferInternal J i s reason d t = Inr (J', r) \<Longrightarrow> transfer_delta H dp J J'"
  by (erule transition_tables) (rule delta_update; simp)

lemma in_book_Inr: "in_book B m = Inr (B', x) \<longleftrightarrow> (\<exists>J. m = Inr (J, x) \<and> B' = B\<lparr>book := J\<rparr>)"
  by (auto simp: in_book_def)

lemma delta_trans_transition:
  assumes "transitionTransferInternal J1 i s reason d t = Inr (J', r)"
    and "transfer_authorizations J1 = transfer_authorizations J"
    and "transfers J1 = update_rows p f (transfers J)"
    and "\<And>x. x \<in> set (transfers J) \<Longrightarrow> p x \<Longrightarrow> intent_of (f x) = intent_of x
      \<and> (tf_treasury_operation_key (f x) = tf_treasury_operation_key x \<or> approved_in J (tf_id x))"
  shows "transfer_delta H dp J J'"
proof -
  from assms(1) obtain q g where u: "transfers J' = update_rows q g (transfers J1)"
    and g: "\<And>x. intent_of (g x) = intent_of x"
      "\<And>x. tf_treasury_operation_key (g x) = tf_treasury_operation_key x"
    and a: "transfer_authorizations J' = transfer_authorizations J1"
    by (rule transition_tables) blast
  let ?f = "\<lambda>r. let r' = (if p r then f r else r) in if q r' then g r' else r'"
  have "transfers J' = update_rows (\<lambda>_. True) ?f (transfers J)"
    using u assms(3) by (simp add: update_rows_def Let_def comp_def)
  then show ?thesis
    by (rule delta_update [rotated]) (use assms(2,4) g a in \<open>auto simp: Let_def\<close>)
qed

lemma claim_transfer_delta:
  assumes "claimTransferIntent B i t = Inr (B', r)"
  shows "transfer_delta H dp (book B) (book B')"
proof -
  have "transfers (book B') = transfers (book B) \<and> transfer_authorizations (book B')
        = transfer_authorizations (book B)
    \<or> validateTransferIntent i = Inr () \<and> \<not> transfer_insert_conflict (book B) i
      \<and> transfers (book B') = transfers (book B) @ [new_transfer i t]
      \<and> transfer_authorizations (book B') = transfer_authorizations (book B)"
  proof (cases "findTransferByRequestKey (book B) (ti_request_key i)")
    case (Inr found)
    show ?thesis
    proof (cases found)
      case None
      then show ?thesis
        using assms Inr unfolding claimTransferIntent_def Let_def
        by (simp add: insertTransferTransition_def split: if_splits) auto
    next
      case (Some r')
      then show ?thesis
        using assms Inr unfolding claimTransferIntent_def by (simp split: if_splits)
    qed
  qed (use assms in \<open>simp add: claimTransferIntent_def\<close>)
  then show ?thesis
  proof
    assume c: "validateTransferIntent i = Inr () \<and> \<not> transfer_insert_conflict (book B) i
      \<and> transfers (book B') = transfers (book B) @ [new_transfer i t]
      \<and> transfer_authorizations (book B') = transfer_authorizations (book B)"
    then have "amounts_ok (new_transfer i t)"
      unfolding validateTransferIntent_def assertTransferAtomic_def
      by (auto simp: amounts_ok_def new_transfer_def split: if_splits)
    then have "delta_by H dp (book B) (book B') id [new_transfer i t] []"
      using c by (auto simp: delta_by_def transfer_insert_conflict_def list_ex_iff new_transfer_def)
    then show ?thesis unfolding transfer_delta_def by blast
  qed (simp add: delta_refl)
qed

lemma transitionTransfer_delta:
  "transitionTransfer B i s reason d t = Inr (B', r) \<Longrightarrow> transfer_delta H dp (book B) (book B')"
  by (auto simp: transitionTransfer_def in_book_Inr intro: transition_delta)

lemma decide_delta:
  assumes "recordTransferAuthorization H dp rf B i f d t = Inr (B', x)"
  shows "transfer_delta H dp (book B) (book B')"
proof -
  consider "B' = B" | factsJson transfer row J r where
      "canonicalTransferFactsJson f = Inr factsJson" "td_facts_digest d = evidenceDigest H factsJson"
      "evidenceDigest H (td_evidence d) = td_evidence_digest d"
      "requireTransfer (book B) i = Inr transfer"
      "assertTransferFactsMatchIntent dp f transfer = Inr ()"
      "td_decided_at d \<le> tf_expires_at transfer"
      "row = \<lparr>ta_transfer_id = i, ta_facts_json = factsJson,
          ta_facts_digest = evidenceDigest H factsJson,
          ta_decision = td_decision d, ta_authority_id = td_authority_id d,
          ta_denial_code = td_denial_code d, ta_evidence = td_evidence d,
          ta_evidence_digest = td_evidence_digest d,
          ta_verification_profile = td_verification_profile d,
          ta_verifier_id = td_verifier_id d, ta_decided_at = td_decided_at d,
          ta_expires_at = tf_expires_at transfer\<rparr>"
      "transitionTransferInternal
         ((book B)\<lparr>transfer_authorizations := transfer_authorizations (book B) @ [row]\<rparr>) i
         (if td_decision d = Transfer_approved then Tr_authorised else Tr_denied)
         (if td_decision d = Transfer_approved then ''authorization_approved''
          else ''authorization_denied'') (Some (td_evidence_digest d)) t = Inr (J, r)"
      "book B' = J"
    using assms unfolding recordTransferAuthorization_def Let_def
    by (simp split: if_splits option.splits prod.splits) (elim exE conjE; auto)+
  then show ?thesis
  proof cases
    case 1
    then show ?thesis by (simp add: delta_refl)
  next
    case 2
    from 2(8) obtain p g where u: "transfers J = update_rows p g (transfers (book B))"
      and g: "\<And>x. intent_of (g x) = intent_of x"
        "\<And>x. tf_treasury_operation_key (g x) = tf_treasury_operation_key x"
      and a: "transfer_authorizations J = transfer_authorizations (book B) @ [row]"
      by (rule transition_tables) auto
    have "transfer \<in> set (transfers (book B)) \<and> tf_id transfer = i"
      using 2(4) by (auto simp: requireTransfer_Inr dest: find_row_SomeD)
    moreover have "decided_for H dp transfer row"
      using 2(1,3,5,6) calculation
      by (auto simp: decided_for_def 2(7) canonicalTransferFactsJson_def split: if_splits)
    ultimately have "delta_by H dp (book B) J (\<lambda>x. if p x then g x else x) [] [row]"
      using u g a by (auto simp: delta_by_def update_rows_def)
    then show ?thesis unfolding transfer_delta_def 2(9) by blast
  qed
qed

lemma bind_delta:
  assumes "bindTransferTreasuryOperation H rf B i k t1 t2 = Inr (B', r)"
  shows "transfer_delta H dp (book B) (book B')"
proof -
  consider "B' = B" | a facts J where
      "findTransferAuthorization H rf (book B) i = Inr (Some (a, facts))"
      "ta_decision a = Transfer_approved"
      "transitionTransferInternal (update_transfer i (\<lambda>r. r\<lparr>tf_treasury_operation_key := Some k,
          tf_updated_at := t1\<rparr>) (book B)) i Tr_funds_reserved ''treasury_operation_bound'' None t2
        = Inr (J, r)" "book B' = J"
    using assms unfolding bindTransferTreasuryOperation_def
    by (auto simp: in_book_Inr split: if_splits option.splits prod.splits)
  then show ?thesis
  proof cases
    case 1
    then show ?thesis by (simp add: delta_refl)
  next
    case 2
    have "approved_in (book B) i"
      using 2(1,2) unfolding findTransferAuthorization_def transferAuthorizationFromRow_def approved_in_def
      by (auto split: option.splits if_splits dest: find_row_SomeD)
    then show ?thesis unfolding 2(4)
      by (intro delta_trans_transition [OF 2(3), where p = "\<lambda>r. tf_id r = i"
            and f = "\<lambda>r. r\<lparr>tf_treasury_operation_key := Some k, tf_updated_at := t1\<rparr>"])
        (simp_all add: update_transfer_def)
  qed
qed

lemma sync_delta:
  assumes "syncTransferTreasuryOperation B i v t1 t2 = Inr (B', r)"
  shows "transfer_delta H dp (book B) (book B')"
proof -
  obtain J1 f where J1: "J1 = update_transfer i f (book B)" "\<And>x. intent_of (f x) = intent_of x"
      "\<And>x. tf_treasury_operation_key (f x) = tf_treasury_operation_key x"
    and "book B' = J1 \<or> (\<exists>s reason. transitionTransferInternal J1 i s reason None t2 = Inr (book B', r))"
  proof -
    let ?f = "\<lambda>r. r\<lparr>tf_transaction_id := coalesce (tf_transaction_id r) (ov_transaction_id v),
        tf_actual_fee := coalesce (tf_actual_fee r) (ov_fee v),
        tf_failure_code := coalesce (tf_failure_code r)
          (if ov_state v = Op_failed_terminal then Some ''treasury_operation_failed'' else None),
        tf_updated_at := t1\<rparr>"
    have "book B' = update_transfer i ?f (book B)
        \<or> (\<exists>s reason. transitionTransferInternal (update_transfer i ?f (book B)) i s reason None t2
             = Inr (book B', r))"
      using assms unfolding syncTransferTreasuryOperation_def Let_def
      by (auto simp: in_book_Inr split: if_splits)
    then show thesis by (rule that [OF refl, rotated 2]) simp_all
  qed
  then show ?thesis
  proof (elim disjE exE)
    assume "book B' = J1"
    then show ?thesis
      by (intro delta_update [where p = "\<lambda>r. tf_id r = i" and f = f])
        (use J1 in \<open>simp_all add: update_transfer_def\<close>)
  next
    fix s reason assume "transitionTransferInternal J1 i s reason None t2 = Inr (book B', r)"
    then show ?thesis
      by (rule delta_trans_transition [where p = "\<lambda>r. tf_id r = i" and f = f]) (use J1 in \<open>auto simp: update_transfer_def\<close>)
  qed
qed

lemma receipt_delta:
  assumes "recordTransferReceipt H dp rp B i x t1 t2 = Inr (B', s)"
  shows "transfer_delta H dp (book B) (book B')"
proof -
  have "B' = B \<or> (\<exists>s r d. transitionTransferInternal (book B) i Tr_receipted s d t2 = Inr (book B', r))"
    using assms unfolding recordTransferReceipt_def Let_def
    by (auto split: if_splits prod.splits)
  then show ?thesis using transition_delta by (auto simp: delta_refl)
qed

theorem transfer_step_delta:
  "transfer_step H dp rf rp B B' \<Longrightarrow> transfer_delta H dp (book B) (book B')"
  by (induction rule: transfer_step.induct)
    (blast intro: claim_transfer_delta transitionTransfer_delta decide_delta bind_delta sync_delta receipt_delta
      delta_refl)+

theorem transfer_reachable_inv: "transfer_reachable H dp rf rp B \<Longrightarrow> transfer_inv H dp (book B)"
proof (induction rule: transfer_reachable.induct)
  case (transfers_start m)
  then show ?case by (simp add: transfer_inv_def empty_journal_def)
next
  case (transfers_step B B')
  then show ?case using transfer_delta_inv transfer_step_delta by blast
qed

text \<open>A bound Transfer: one decision, approved in time, about exactly its facts.\<close>

theorem bound_approved:
  assumes "transfer_reachable H dp rf rp B" and "r \<in> set (transfers (book B))"
    and "tf_treasury_operation_key r = Some k"
  shows "amounts_ok r \<and> (\<exists>a \<in> set (transfer_authorizations (book B)).
    ta_decision a = Transfer_approved \<and> decided_for H dp r a)"
proof -
  note inv = transfer_reachable_inv [OF assms(1)]
  from inv assms(2,3) obtain a where a: "a \<in> set (transfer_authorizations (book B))"
      "ta_transfer_id a = tf_id r" "ta_decision a = Transfer_approved" and ok: "amounts_ok r"
    unfolding transfer_inv_def approved_in_def by blast
  from inv a(1) obtain r' where r': "r' \<in> set (transfers (book B))" "decided_for H dp r' a"
    unfolding transfer_inv_def by blast
  then have "tf_id r' = tf_id r" using a(2) by (simp add: decided_for_def)
  then have "r' = r"
    using inv r'(1) assms(2) unfolding transfer_inv_def by (meson eq_key_imp_eq_value inj_on_def distinct_map)
  then show ?thesis using r'(2) a ok by blast
qed

end
