(* ===== verification/Transfer_Module.thy ===== *)
theory Transfer_Module
  imports Transfer_Runs Chain_Evidence Amount_Display
begin

text \<open>
  The Transfer module (\<open>src/transfer/module.ts\<close>): one send from the vault, approved by a human.
  A call of the module is several transactions of the journal around awaits of the authority and
  of the treasury, so it returns the book it leaves beside its result.

  Other code is a parameter: \<open>ask\<close> is the authority (what it answers, \<open>None\<close> when it throws, and
  the book after the wait), \<open>execute\<close> and \<open>rescue\<close> are the treasury's \<open>executeUnderPolicy\<close> and
  \<open>recover\<close> in the same way, \<open>preflight\<close> its \<open>preflightHumanAuthorized\<close>, \<open>date_text\<close> is
  \<open>toISOString\<close> and \<open>valid_address\<close> the address check of the wasm package. \<open>clk n\<close> is the clock
  reading at the \<open>n\<close>-th place of a call. An abort signal that has fired before a call is an
  exception before anything happens and is left out.
\<close>

section \<open>Failures\<close>

datatype failure_code =
    PURCHASE_CONFLICT | PURCHASE_NOT_FOUND | PURCHASE_ADMISSION_SATURATED | INVALID_TRANSFER
  | TRANSFER_CONFLICT | TRANSFER_DENIED | TRANSFER_EXPIRED | TRANSFER_FAILED | TRANSFER_NOT_FOUND
  | INVALID_POLICY_CHANGE | POLICY_CHANGE_CONFLICT | POLICY_CHANGE_NOT_FOUND
  | INVALID_VAULT_MIGRATION | VAULT_MIGRATION_CONFLICT | VAULT_MIGRATION_NOT_FOUND

definition failure_retryable :: "failure_code \<Rightarrow> bool" where
  "failure_retryable c \<longleftrightarrow> c = PURCHASE_ADMISSION_SATURATED \<or> c = TRANSFER_FAILED"

text \<open>A failure for the caller, an exception of the journal or of the module, one from outside.\<close>

datatype transfer_error = Failure failure_code | Thrown error | Outside_threw

type_synonym 'a run = "transfer_book \<times> (transfer_error + 'a)"

definition call ::
  "transfer_book \<Rightarrow> (transfer_book \<times> 'a) result \<Rightarrow> (transfer_book \<Rightarrow> 'a \<Rightarrow> 'b run) \<Rightarrow> 'b run" where
  "call B m k = (case m of Inl e \<Rightarrow> (B, Inl (Thrown e)) | Inr (B', x) \<Rightarrow> k B' x)"

definition check :: "transfer_book \<Rightarrow> transfer_error + 'a \<Rightarrow> ('a \<Rightarrow> 'b run) \<Rightarrow> 'b run" where
  "check B m k = (case m of Inl e \<Rightarrow> (B, Inl e) | Inr x \<Rightarrow> k x)"

definition journal_call :: "'a result \<Rightarrow> transfer_error + 'a" where
  "journal_call m = (case m of Inl e \<Rightarrow> Inl (Thrown e) | Inr x \<Rightarrow> Inr x)"

section \<open>Canonical inputs\<close>

definition MAX_UINT64 :: nat where "MAX_UINT64 = 2 ^ 64 - 1"

definition module_timestamp :: "int \<Rightarrow> transfer_error + int" where
  "module_timestamp v = (if \<not> is_safe_integer v \<or> v \<le> 0 then Inl (Thrown PlainError) else Inr v)"

definition module_atomic :: "string \<Rightarrow> bool \<Rightarrow> nat result" where
  "module_atomic value zeroAllowed =
     (if \<not> canonical_decimal value then Inl PlainError
      else if BigInt value > MAX_UINT64 \<or> \<not> zeroAllowed \<and> BigInt value = 0 then Inl PlainError
      else Inr (BigInt value))"

definition validAuthorityTtl :: "int \<Rightarrow> bool" where
  "validAuthorityTtl ttl \<longleftrightarrow> is_safe_integer ttl \<and> 1 \<le> ttl \<and> ttl \<le> 10 * 60000"

record transfer_intent =
  tin_request_key :: string
  tin_destination :: string
  tin_amount :: string

definition canonicalIntent ::
  "(string \<Rightarrow> bool) \<Rightarrow> transfer_intent \<Rightarrow> transfer_error + transfer_intent" where
  "canonicalIntent valid_address x =
     (if \<not> is_operation_key (tin_request_key x) then Inl (Failure INVALID_TRANSFER)
      else if \<not> valid_address (tin_destination x) then Inl (Failure INVALID_TRANSFER)
      else case module_atomic (tin_amount x) False of
             Inl e \<Rightarrow> Inl (Failure INVALID_TRANSFER)
           | Inr n \<Rightarrow> Inr (x\<lparr>tin_amount := nat_to_string n\<rparr>))"

definition canonicalSource :: "string \<times> string \<Rightarrow> transfer_error + (string \<times> string)" where
  "canonicalSource v =
     (if \<not> (starts_with ''kaspatest:'' (fst v) \<and> 10 < length (fst v)
            \<and> list_all is_address_char (drop 10 (fst v)))
         \<or> \<not> is_sha256_digest (snd v)
      then Inl (Thrown PlainError) else Inr v)"

definition canonicalManifest :: "int \<times> string \<Rightarrow> transfer_error + (int \<times> string)" where
  "canonicalManifest v =
     (if \<not> is_safe_integer (fst v) \<or> fst v < 1 \<or> \<not> is_sha256_digest (snd v)
      then Inl (Thrown PlainError) else Inr v)"

definition requestDigest :: "(string \<Rightarrow> string) \<Rightarrow> transfer_intent \<Rightarrow> string" where
  "requestDigest H x = evidenceDigest H (json_text (J_object
     [(''profile'', J_string ''sompi.transfer.intent.1''),
      (''requestKey'', J_string (tin_request_key x)),
      (''destination'', J_string (tin_destination x)),
      (''amountAtomic'', J_string (tin_amount x)), (''asset'', J_string ''KAS''),
      (''network'', J_string ''kaspa:testnet-10'')]))"

definition transferFacts :: "(int \<Rightarrow> string) \<Rightarrow> transfer_row \<Rightarrow> transfer_facts" where
  "transferFacts date_text r =
     \<lparr>tfa_profile = ''sompi.transfer.1'', tfa_transfer_id = tf_id r,
      tfa_request_key = tf_request_key r, tfa_source_vault_address = tf_source_vault_address r,
      tfa_source_vault_digest = tf_source_vault_digest r, tfa_destination = tf_destination r,
      tfa_amount = tf_amount r, tfa_asset = ''KAS'', tfa_network = ''kaspa:testnet-10'',
      tfa_fee_ceiling = tf_fee_ceiling r, tfa_maximum_total = tf_maximum_total r,
      tfa_issued_at = date_text (tf_created_at r), tfa_expires_at = date_text (tf_expires_at r),
      tfa_policy_digest = tf_policy_digest r, tfa_manifest_revision = tf_manifest_revision r,
      tfa_manifest_digest = tf_manifest_digest r, tfa_finality_floor = tf_finality_floor r\<rparr>"

section \<open>Views\<close>

fun transfer_summary :: "transfer_state \<Rightarrow> string \<Rightarrow> string \<Rightarrow> string" where
  "transfer_summary Tr_created amount destination =
     ''Preparing to send '' @ amount @ '' to '' @ destination @ ''.''"
| "transfer_summary Tr_awaiting_authority amount destination =
     ''Waiting for approval to send '' @ amount @ '' to '' @ destination @ ''.''"
| "transfer_summary Tr_authorised amount destination =
     ''Transfer approved for '' @ amount @ ''. Preparing the send.''"
| "transfer_summary Tr_denied amount destination =
     ''Transfer of '' @ amount @ '' was denied. No funds were sent.''"
| "transfer_summary Tr_funds_reserved amount destination =
     ''Transfer approved for '' @ amount @ ''. Preparing the send.''"
| "transfer_summary Tr_prepared amount destination =
     ''Transfer prepared for '' @ amount @ ''. Sending now.''"
| "transfer_summary Tr_submitted amount destination =
     ''Transfer sent for '' @ amount @ ''. Waiting for confirmation.''"
| "transfer_summary Tr_settled amount destination =
     ''Transfer confirmed for '' @ amount @ ''. Finishing the receipt.''"
| "transfer_summary Tr_receipted amount destination =
     amount @ '' sent successfully to '' @ destination @ ''.''"
| "transfer_summary Tr_failed_recoverable amount destination =
     ''Sompi is checking the original '' @ amount @ '' transfer. Do not send again.''"
| "transfer_summary Tr_failed_terminal amount destination =
     ''Transfer of '' @ amount @ '' stopped safely. Operator review is required.''"

definition transferSummary :: "transfer_row \<Rightarrow> string result" where
  "transferSummary r =
     rbind (kasAmountView (tf_amount r) Testnet10) (\<lambda>amount.
       Inr (transfer_summary (tf_state r) (kv_display amount) (tf_destination r)))"

datatype user_action = Approve_or_deny | Act_wait | Act_recover | Act_none

definition in_progress :: "transfer_state \<Rightarrow> bool" where
  "in_progress s \<longleftrightarrow> s \<in> {Tr_funds_reserved, Tr_prepared, Tr_submitted, Tr_settled}"

definition user_action_for :: "transfer_state \<Rightarrow> user_action" where
  "user_action_for s =
     (if s = Tr_awaiting_authority then Approve_or_deny
      else if s = Tr_failed_recoverable then Act_recover
      else if in_progress s then Act_wait else Act_none)"

record transfer_view =
  vw_record :: transfer_row
  vw_summary :: string
  vw_amount :: kas_amount_view
  vw_fee_ceiling :: kas_amount_view
  vw_maximum_total :: kas_amount_view
  vw_actual_fee :: "kas_amount_view option"
  vw_authorization :: "transfer_authorization_row option"
  vw_receipt :: "string option"
  vw_recovery_required :: bool
  vw_safe_to_retry :: bool
  vw_user_action :: user_action

definition view_transfer ::
  "(string \<Rightarrow> string) \<Rightarrow> (string \<Rightarrow> transfer_facts option) \<Rightarrow> (string \<Rightarrow> string option) \<Rightarrow> transfer_book
    \<Rightarrow> transfer_row \<Rightarrow> transfer_view result" where
  "view_transfer H rf rp B r =
     rbind (findTransferAuthorization H rf (book B) (tf_id r)) (\<lambda>authorization.
     rbind (findTransferReceipt H rp B (tf_id r)) (\<lambda>receipt.
     rbind (transferSummary r) (\<lambda>summary.
     rbind (kasAmountView (tf_amount r) Testnet10) (\<lambda>amount.
     rbind (kasAmountView (tf_fee_ceiling r) Testnet10) (\<lambda>feeCeiling.
     rbind (kasAmountView (tf_maximum_total r) Testnet10) (\<lambda>maximumTotal.
     rbind (case tf_actual_fee r of None \<Rightarrow> Inr None
            | Some fee \<Rightarrow> rbind (kasAmountView fee Testnet10) (\<lambda>v. Inr (Some v))) (\<lambda>actualFee.
       Inr \<lparr>vw_record = r, vw_summary = summary, vw_amount = amount, vw_fee_ceiling = feeCeiling,
            vw_maximum_total = maximumTotal, vw_actual_fee = actualFee,
            vw_authorization = map_option fst authorization, vw_receipt = receipt,
            vw_recovery_required = (tf_state r = Tr_failed_recoverable),
            vw_safe_to_retry = (tf_state r = Tr_created \<or> tf_state r = Tr_awaiting_authority),
            vw_user_action = user_action_for (tf_state r)\<rparr>)))))))"

definition module_requireTransfer :: "transfer_book \<Rightarrow> string \<Rightarrow> transfer_error + transfer_row" where
  "module_requireTransfer B i =
     (if \<not> is_transfer_id i then Inl (Failure INVALID_TRANSFER)
      else rbind (journal_call (findTransfer (book B) i)) (\<lambda>found.
           case found of None \<Rightarrow> Inl (Failure TRANSFER_NOT_FOUND) | Some r \<Rightarrow> Inr r))"

definition show_transfer ::
  "(string \<Rightarrow> string) \<Rightarrow> (string \<Rightarrow> transfer_facts option) \<Rightarrow> (string \<Rightarrow> string option) \<Rightarrow> transfer_book
    \<Rightarrow> transfer_row \<Rightarrow> transfer_view run" where
  "show_transfer H rf rp B r = (B, journal_call (view_transfer H rf rp B r))"

text \<open>\<open>status\<close>\<close>

definition transfer_status ::
  "(string \<Rightarrow> string) \<Rightarrow> (string \<Rightarrow> transfer_facts option) \<Rightarrow> (string \<Rightarrow> string option) \<Rightarrow> transfer_book
    \<Rightarrow> string \<Rightarrow> transfer_view run" where
  "transfer_status H rf rp B i =
     check B (module_requireTransfer B i) (show_transfer H rf rp B)"

section \<open>Finishing\<close>

definition receipt_of :: "(int \<Rightarrow> string) \<Rightarrow> transfer_row \<Rightarrow> string \<Rightarrow> string \<Rightarrow> int \<Rightarrow> transfer_receipt" where
  "receipt_of date_text r fee txid now =
     \<lparr>tre_profile = TRANSFER_RECEIPT_PROFILE, tre_transfer_id = tf_id r,
      tre_request_key = tf_request_key r, tre_destination = tf_destination r,
      tre_amount = tf_amount r, tre_fee = fee, tre_network = ''kaspa:testnet-10'',
      tre_funding_source = ''vault-treasury'', tre_funding_summary = TRANSFER_FUNDING_SUMMARY,
      tre_transaction_id = txid, tre_finality = tf_finality_floor r,
      tre_settled_at = date_text now\<rparr>"

definition finishReceipt ::
  "(string \<Rightarrow> string) \<Rightarrow> date_parser \<Rightarrow> (string \<Rightarrow> transfer_facts option) \<Rightarrow> (string \<Rightarrow> string option)
    \<Rightarrow> (int \<Rightarrow> string) \<Rightarrow> (nat \<Rightarrow> int) \<Rightarrow> transfer_book \<Rightarrow> string \<Rightarrow> transfer_view run" where
  "finishReceipt H dp rf rp date_text clk B i =
     check B (module_requireTransfer B i) (\<lambda>transfer.
     if tf_state transfer = Tr_settled then
       (case (unless_falsy (tf_transaction_id transfer), tf_actual_fee transfer) of
          (Some txid, Some fee) \<Rightarrow>
            check B (module_timestamp (clk 10)) (\<lambda>now.
            call B (recordTransferReceipt H dp rp B i (receipt_of date_text transfer fee txid now)
                      (clk 11) (clk 12)) (\<lambda>B1 _.
            check B1 (module_requireTransfer B1 i) (show_transfer H rf rp B1)))
        | _ \<Rightarrow> (B, Inl (Thrown PlainError)))
     else check B (module_requireTransfer B i) (show_transfer H rf rp B))"

definition markRecoverable :: "(nat \<Rightarrow> int) \<Rightarrow> transfer_book \<Rightarrow> string \<Rightarrow> unit run" where
  "markRecoverable clk B i =
     check B (module_requireTransfer B i) (\<lambda>current.
     if in_progress (tf_state current)
     then call B (transitionTransfer B i Tr_failed_recoverable ''treasury_recovery_required'' None
                    (clk 13)) (\<lambda>B1 _. (B1, Inr ()))
     else (B, Inr ()))"

text \<open>
  After the treasury threw: what the durable operation says decides. \<open>missing\<close> is what to do when
  the treasury has no such operation.
\<close>

definition treasury_status :: "journal \<Rightarrow> string \<Rightarrow> operation_view option result" where
  "treasury_status J key =
     (if \<not> is_operation_key key then Inl PlainError
      else rbind (findTreasuryOperation J key) (\<lambda>found. Inr (map_option operation_view_of found)))"

definition after_throw ::
  "(string \<Rightarrow> string) \<Rightarrow> date_parser \<Rightarrow> (string \<Rightarrow> transfer_facts option) \<Rightarrow> (string \<Rightarrow> string option)
    \<Rightarrow> (int \<Rightarrow> string) \<Rightarrow> (nat \<Rightarrow> int) \<Rightarrow> transfer_book \<Rightarrow> string \<Rightarrow> string \<Rightarrow> transfer_view run
    \<Rightarrow> transfer_view run" where
  "after_throw H dp rf rp date_text clk B i key missing =
     check B (journal_call (treasury_status (book B) key)) (\<lambda>status.
     case status of
       None \<Rightarrow> missing
     | Some latest \<Rightarrow>
         call B (syncTransferTreasuryOperation B i latest (clk 8) (clk 9)) (\<lambda>B1 _.
         if ov_state latest = Op_completed then finishReceipt H dp rf rp date_text clk B1 i
         else if ov_state latest = Op_failed_terminal
         then check B1 (module_requireTransfer B1 i) (show_transfer H rf rp B1)
         else (case markRecoverable clk B1 i of
                 (B2, Inl e) \<Rightarrow> (B2, Inl e)
               | (B2, Inr _) \<Rightarrow> (B2, Inl (Failure TRANSFER_FAILED)))))"

section \<open>Driving\<close>

text \<open>Asking for the decision, where one is outstanding\<close>

definition drive_authority ::
  "(string \<Rightarrow> string) \<Rightarrow> date_parser \<Rightarrow> (string \<Rightarrow> transfer_facts option) \<Rightarrow> (int \<Rightarrow> string)
    \<Rightarrow> (transfer_book \<Rightarrow> transfer_facts \<Rightarrow> transfer_book \<times> transfer_decision_input option)
    \<Rightarrow> (nat \<Rightarrow> int) \<Rightarrow> transfer_book \<Rightarrow> string \<Rightarrow> transfer_row \<Rightarrow> transfer_row run" where
  "drive_authority H dp rf date_text ask clk B i transfer =
     (if tf_state transfer \<noteq> Tr_awaiting_authority then (B, Inr transfer)
      else check B (module_timestamp (clk 1)) (\<lambda>now.
      if now \<ge> tf_expires_at transfer then
        call B (transitionTransfer B i Tr_failed_terminal ''authority_request_expired'' None (clk 2))
          (\<lambda>B1 _. (B1, Inl (Failure TRANSFER_EXPIRED)))
      else
        let facts = transferFacts date_text transfer in
        (case ask B facts of
           (B1, None) \<Rightarrow> (B1, Inl Outside_threw)
         | (B1, Some decision) \<Rightarrow>
             call B1 (recordTransferAuthorization H dp rf B1 i facts decision (clk 3)) (\<lambda>B2 _.
             check B2 (module_requireTransfer B2 i) (\<lambda>r. (B2, Inr r))))))"

text \<open>What \<open>drive\<close> does up to the treasury: a view at once, or the operation to execute\<close>

datatype drive_plan = Show transfer_row | Execute transfer_row string transfer_authorization_row

definition drive_plan_for ::
  "(string \<Rightarrow> string) \<Rightarrow> date_parser \<Rightarrow> (string \<Rightarrow> transfer_facts option) \<Rightarrow> (int \<Rightarrow> string)
    \<Rightarrow> (transfer_book \<Rightarrow> transfer_facts \<Rightarrow> transfer_book \<times> transfer_decision_input option)
    \<Rightarrow> (nat \<Rightarrow> int) \<Rightarrow> transfer_book \<Rightarrow> string \<Rightarrow> drive_plan run" where
  "drive_plan_for H dp rf date_text ask clk B i =
     check B (module_requireTransfer B i) (\<lambda>transfer0.
     call B (if tf_state transfer0 = Tr_created
             then transitionTransfer B i Tr_awaiting_authority ''authority_requested'' None (clk 0)
             else Inr (B, transfer0)) (\<lambda>B1 transfer1.
     case drive_authority H dp rf date_text ask clk B1 i transfer1 of
       (B2, Inl e) \<Rightarrow> (B2, Inl e)
     | (B2, Inr transfer2) \<Rightarrow>
         if tf_state transfer2 = Tr_denied then (B2, Inl (Failure TRANSFER_DENIED))
         else call B2 (if tf_state transfer2 = Tr_authorised
                       then bindTransferTreasuryOperation H rf B2 i (''transfer:'' @ tf_id transfer2)
                              (clk 4) (clk 5)
                       else Inr (B2, transfer2)) (\<lambda>B3 transfer.
         if tf_state transfer = Tr_receipted \<or> tf_state transfer = Tr_failed_terminal
         then (B3, Inr (Show transfer))
         else (case unless_falsy (tf_treasury_operation_key transfer) of
                 None \<Rightarrow> (B3, Inl (Thrown PlainError))
               | Some key \<Rightarrow>
                   check B3 (journal_call (findTransferAuthorization H rf (book B3) i)) (\<lambda>found.
                   case found of
                     None \<Rightarrow> (B3, Inl (Thrown PlainError))
                   | Some (a, facts) \<Rightarrow>
                       if ta_decision a \<noteq> Transfer_approved then (B3, Inl (Thrown PlainError))
                       else (B3, Inr (Execute transfer key a)))))))"

record treasury_request =
  tq_key :: string
  tq_destination :: string
  tq_amount :: string
  tq_policy_digest :: string
  tq_evidence_digest :: string

definition execute_request :: "transfer_row \<Rightarrow> string \<Rightarrow> transfer_authorization_row \<Rightarrow> treasury_request" where
  "execute_request r key a =
     \<lparr>tq_key = key, tq_destination = tf_destination r, tq_amount = tf_amount r,
      tq_policy_digest = tf_policy_digest r, tq_evidence_digest = ta_evidence_digest a\<rparr>"

definition drive ::
  "(string \<Rightarrow> string) \<Rightarrow> date_parser \<Rightarrow> (string \<Rightarrow> transfer_facts option) \<Rightarrow> (string \<Rightarrow> string option)
    \<Rightarrow> (int \<Rightarrow> string)
    \<Rightarrow> (transfer_book \<Rightarrow> transfer_facts \<Rightarrow> transfer_book \<times> transfer_decision_input option)
    \<Rightarrow> (transfer_book \<Rightarrow> treasury_request \<Rightarrow> transfer_book \<times> operation_view option)
    \<Rightarrow> (nat \<Rightarrow> int) \<Rightarrow> transfer_book \<Rightarrow> string \<Rightarrow> transfer_view run" where
  "drive H dp rf rp date_text ask execute clk B i =
     (case drive_plan_for H dp rf date_text ask clk B i of
        (B1, Inl e) \<Rightarrow> (B1, Inl e)
      | (B1, Inr (Show transfer)) \<Rightarrow> show_transfer H rf rp B1 transfer
      | (B1, Inr (Execute transfer key a)) \<Rightarrow>
          (case execute B1 (execute_request transfer key a) of
             (B2, answer) \<Rightarrow>
               (case (case answer of None \<Rightarrow> Inl PlainError
                      | Some operation \<Rightarrow>
                          syncTransferTreasuryOperation B2 i operation (clk 6) (clk 7)) of
                  Inr (B3, _) \<Rightarrow> finishReceipt H dp rf rp date_text clk B3 i
                | Inl _ \<Rightarrow>
                    after_throw H dp rf rp date_text clk B2 i key
                      (check B2 (module_requireTransfer B2 i) (\<lambda>current.
                       if tf_state current \<noteq> Tr_funds_reserved then (B2, Inl (Thrown PlainError))
                       else call B2 (transitionTransfer B2 i Tr_failed_terminal
                                       ''treasury_intent_rejected'' None (clk 14))
                              (show_transfer H rf rp))))))"

text \<open>\<open>recover\<close>: \<open>rescue\<close> is \<open>treasury.recover\<close>.\<close>

definition recoverTransfer ::
  "(string \<Rightarrow> string) \<Rightarrow> date_parser \<Rightarrow> (string \<Rightarrow> transfer_facts option) \<Rightarrow> (string \<Rightarrow> string option)
    \<Rightarrow> (int \<Rightarrow> string)
    \<Rightarrow> (transfer_book \<Rightarrow> transfer_facts \<Rightarrow> transfer_book \<times> transfer_decision_input option)
    \<Rightarrow> (transfer_book \<Rightarrow> treasury_request \<Rightarrow> transfer_book \<times> operation_view option)
    \<Rightarrow> (transfer_book \<Rightarrow> string \<Rightarrow> transfer_book \<times> operation_view option)
    \<Rightarrow> (nat \<Rightarrow> int) \<Rightarrow> (nat \<Rightarrow> int) \<Rightarrow> transfer_book \<Rightarrow> string \<Rightarrow> transfer_view run" where
  "recoverTransfer H dp rf rp date_text ask execute rescue clk clk' B i =
     check B (module_requireTransfer B i) (\<lambda>transfer.
     if tf_state transfer = Tr_failed_terminal then show_transfer H rf rp B transfer
     else
       (case unless_falsy (tf_treasury_operation_key transfer) of
          None \<Rightarrow> drive H dp rf rp date_text ask execute clk' B i
        | Some key \<Rightarrow>
            (case rescue B key of
               (B1, None) \<Rightarrow>
                 after_throw H dp rf rp date_text clk B1 i key
                   (check B1 (module_requireTransfer B1 i) (\<lambda>current.
                    if tf_state current = Tr_funds_reserved
                    then drive H dp rf rp date_text ask execute clk' B1 i
                    else (B1, Inl Outside_threw)))
             | (B1, Some operation) \<Rightarrow>
                 call B1 (syncTransferTreasuryOperation B1 i operation (clk 6) (clk 7)) (\<lambda>B2 _.
                   finishReceipt H dp rf rp date_text clk B2 i))))"

section \<open>Asking for a Transfer\<close>

datatype preflight_answer = Preflight_refused | Preflight_threw | Preflight_ok string string

definition new_intent ::
  "(string \<Rightarrow> string) \<Rightarrow> transfer_intent \<Rightarrow> string \<Rightarrow> string \<times> string \<Rightarrow> int \<times> string \<Rightarrow> finality_floor
    \<Rightarrow> string \<Rightarrow> string \<Rightarrow> nat \<Rightarrow> int \<Rightarrow> transfer_input" where
  "new_intent H x ident source manifest floor_required policyDigest feeCeiling maximum expires =
     \<lparr>ti_id = ident, ti_request_key = tin_request_key x, ti_request_digest = requestDigest H x,
      ti_destination = tin_destination x, ti_amount = tin_amount x,
      ti_source_vault_address = fst source, ti_source_vault_digest = snd source,
      ti_fee_ceiling = feeCeiling, ti_maximum_total = nat_to_string maximum,
      ti_expires_at = expires, ti_policy_digest = policyDigest,
      ti_manifest_revision = fst manifest, ti_manifest_digest = snd manifest,
      ti_finality_floor = floor_required\<rparr>"

definition claim_transfer ::
  "(string \<Rightarrow> string) \<Rightarrow> chain_config \<Rightarrow> string \<times> string \<Rightarrow> int \<times> string \<Rightarrow> int \<Rightarrow> string
    \<Rightarrow> (journal \<Rightarrow> string \<Rightarrow> transfer_intent \<Rightarrow> preflight_answer) \<Rightarrow> (nat \<Rightarrow> int) \<Rightarrow> transfer_book
    \<Rightarrow> transfer_intent \<Rightarrow> transfer_row run" where
  "claim_transfer H cf source manifest ttl ident preflight clk B x =
     check B (canonicalSource source) (\<lambda>source.
     check B (canonicalManifest manifest) (\<lambda>manifest.
     let fin = selectFinality cf Chain_vault Fin_accepted in
     case preflight (book B) (''transfer:'' @ ident) x of
       Preflight_refused \<Rightarrow> (B, Inl (Failure INVALID_TRANSFER))
     | Preflight_threw \<Rightarrow> (B, Inl Outside_threw)
     | Preflight_ok policyDigest feeCeiling \<Rightarrow>
         check B (module_timestamp (clk 0)) (\<lambda>now.
         check B (journal_call (module_atomic feeCeiling True)) (\<lambda>fee.
         if BigInt (tin_amount x) + fee > MAX_UINT64 then (B, Inl (Failure INVALID_TRANSFER))
         else
           (case claimTransferIntent B
                   (new_intent H x ident source manifest (fs_effective_floor fin) policyDigest
                      feeCeiling (BigInt (tin_amount x) + fee) (now + ttl)) (clk 1) of
              Inl JournalRequestConflictError \<Rightarrow> (B, Inl (Failure TRANSFER_CONFLICT))
            | Inl e \<Rightarrow> (B, Inl (Thrown e))
            | Inr (B1, r) \<Rightarrow> (B1, Inr r))))))"

definition transfer ::
  "(string \<Rightarrow> string) \<Rightarrow> date_parser \<Rightarrow> (string \<Rightarrow> transfer_facts option) \<Rightarrow> (string \<Rightarrow> string option)
    \<Rightarrow> (int \<Rightarrow> string)
    \<Rightarrow> (transfer_book \<Rightarrow> transfer_facts \<Rightarrow> transfer_book \<times> transfer_decision_input option)
    \<Rightarrow> (transfer_book \<Rightarrow> treasury_request \<Rightarrow> transfer_book \<times> operation_view option)
    \<Rightarrow> (string \<Rightarrow> bool) \<Rightarrow> chain_config \<Rightarrow> string \<times> string \<Rightarrow> int \<times> string \<Rightarrow> int \<Rightarrow> string
    \<Rightarrow> (journal \<Rightarrow> string \<Rightarrow> transfer_intent \<Rightarrow> preflight_answer) \<Rightarrow> (nat \<Rightarrow> int) \<Rightarrow> (nat \<Rightarrow> int)
    \<Rightarrow> transfer_book \<Rightarrow> transfer_intent \<Rightarrow> transfer_view run" where
  "transfer H dp rf rp date_text ask execute valid_address cf source manifest ttl ident preflight
     clk clk' B input =
     check B (canonicalIntent valid_address input) (\<lambda>x.
     check B (journal_call (findTransferByRequestKey (book B) (tin_request_key x))) (\<lambda>existing.
     case existing of
       Some r \<Rightarrow>
         if tf_request_digest r \<noteq> requestDigest H x then (B, Inl (Failure TRANSFER_CONFLICT))
         else drive H dp rf rp date_text ask execute clk' B (tf_id r)
     | None \<Rightarrow>
         (case claim_transfer H cf source manifest ttl ident preflight clk B x of
            (B1, Inl e) \<Rightarrow> (B1, Inl e)
          | (B1, Inr r) \<Rightarrow> drive H dp rf rp date_text ask execute clk' B1 (tf_id r))))"

end
