(* ===== verification/Transfer_Safety.thy ===== *)
theory Transfer_Safety
  imports Transfer_Module
begin

text \<open>
  What the Transfer module guarantees: however a call ends, the book it leaves is one the
  journal's operations can reach, and the treasury is only ever asked to send what an approval
  made in time says.
\<close>

section \<open>Rows that are read back\<close>

lemma required_row:
  "requireTransfer J i = Inr r \<Longrightarrow> r \<in> set (transfers J) \<and> tf_id r = i"
  by (auto simp: requireTransfer_Inr dest: find_row_SomeD)

lemma module_row:
  "module_requireTransfer B i = Inr r \<Longrightarrow> r \<in> set (transfers (book B)) \<and> tf_id r = i"
  unfolding module_requireTransfer_def journal_call_def findTransfer_def assertTransferId_def
  by (auto split: if_splits option.splits dest: find_row_SomeD)

lemma transition_row:
  "transitionTransferInternal J i s reason d t = Inr (J', r) \<Longrightarrow> requireTransfer J' i = Inr r"
  unfolding transitionTransferInternal_def Let_def by (auto split: if_splits)

lemma transitionTransfer_row:
  "transitionTransfer B i s reason d t = Inr (B', r) \<Longrightarrow> requireTransfer (book B') i = Inr r"
  by (auto simp: transitionTransfer_def in_book_Inr dest: transition_row)

lemma bind_row:
  assumes "bindTransferTreasuryOperation H rf B i k t1 t2 = Inr (B', r)"
  shows "requireTransfer (book B') i = Inr r"
proof -
  consider "requireTransfer (book B) i = Inr r" "B' = B"
    | J where "transitionTransferInternal (update_transfer i (\<lambda>r. r\<lparr>tf_treasury_operation_key := Some k,
          tf_updated_at := t1\<rparr>) (book B)) i Tr_funds_reserved ''treasury_operation_bound'' None t2
        = Inr (J, r)" "book B' = J"
    using assms unfolding bindTransferTreasuryOperation_def
    by (auto simp: in_book_Inr split: if_splits option.splits prod.splits)
  then show ?thesis by cases (auto dest: transition_row)
qed

lemma authorization_row:
  assumes "findTransferAuthorization H rf J i = Inr (Some (a, f))"
  shows "a \<in> set (transfer_authorizations J)" and "ta_transfer_id a = i"
  using assms unfolding findTransferAuthorization_def transferAuthorizationFromRow_def
  by (auto split: option.splits if_splits dest: find_row_SomeD)

lemma authorization_for:
  assumes "transfer_inv H dp J" and "r \<in> set (transfers J)"
    and "a \<in> set (transfer_authorizations J)" and "ta_transfer_id a = tf_id r"
  shows "decided_for H dp r a"
proof -
  obtain r' where r': "r' \<in> set (transfers J)" "decided_for H dp r' a"
    using assms(1,3) unfolding transfer_inv_def by blast
  then have "tf_id r' = tf_id r" using assms(4) by (simp add: decided_for_def)
  then have "r' = r"
    using assms(1,2) r'(1) unfolding transfer_inv_def
    by (meson eq_key_imp_eq_value inj_on_def distinct_map)
  then show ?thesis using r'(2) by simp
qed

section \<open>Every call leaves a reachable book\<close>

text \<open>What runs while the module waits takes steps of the journal only.\<close>

definition keeps :: "('b \<Rightarrow> bool) \<Rightarrow> ('b \<Rightarrow> 'x \<Rightarrow> 'b \<times> 'y) \<Rightarrow> bool" where
  "keeps R f \<longleftrightarrow> (\<forall>B x. R B \<longrightarrow> R (fst (f B x)))"

definition leaves :: "('b \<Rightarrow> bool) \<Rightarrow> 'b \<times> 'y \<Rightarrow> bool" where
  "leaves R x \<longleftrightarrow> R (fst x)"

lemma keepsD: "keeps R f \<Longrightarrow> f B x = (B', y) \<Longrightarrow> R B \<Longrightarrow> R B'"
  unfolding keeps_def by (metis fst_conv)

lemma leaves_return [simp]: "leaves R (B, x) \<longleftrightarrow> R B"
  by (simp add: leaves_def)

lemma leavesD: "leaves R m \<Longrightarrow> m = (B', y) \<Longrightarrow> R B'"
  by simp

lemma leaves_check:
  "R B \<Longrightarrow> (\<And>x. m = Inr x \<Longrightarrow> leaves R (k x)) \<Longrightarrow> leaves R (check B m k)"
  by (cases m) (simp_all add: check_def)

lemma leaves_call:
  "R B \<Longrightarrow> (\<And>B' x. m = Inr (B', x) \<Longrightarrow> R B') \<Longrightarrow> (\<And>B' x. R B' \<Longrightarrow> leaves R (k B' x))
    \<Longrightarrow> leaves R (call B m k)"
  by (cases m) (auto simp: call_def)

lemma call_Inr [simp]: "call B (Inr (B', x)) k = k B' x"
  by (simp add: call_def)

lemma call_ends:
  "call B m k = (B', Inr y) \<longleftrightarrow> (\<exists>B1 x. m = Inr (B1, x) \<and> k B1 x = (B', Inr y))"
  by (cases m) (auto simp: call_def)

lemma check_ends: "check B m k = (B', Inr y) \<longleftrightarrow> (\<exists>x. m = Inr x \<and> k x = (B', Inr y))"
  by (cases m) (auto simp: check_def)

lemma leaves_show: "R B \<Longrightarrow> leaves R (show_transfer H rf rp B r)"
  by (simp add: show_transfer_def)

lemma reach_step:
  "transfer_step H dp rf rp B B' \<Longrightarrow> transfer_reachable H dp rf rp B \<Longrightarrow> transfer_reachable H dp rf rp B'"
  by (rule transfers_step)

lemmas op_reaches =
  tr_claim [THEN reach_step] tr_transition [THEN reach_step] tr_decide [THEN reach_step]
  tr_bind [THEN reach_step] tr_sync [THEN reach_step] tr_receipt [THEN reach_step]

lemma leaves_ops:
  assumes "transfer_reachable H dp rf rp B"
    and "\<And>B' x. transfer_reachable H dp rf rp B' \<Longrightarrow> leaves (transfer_reachable H dp rf rp) (k B' x)"
  shows "leaves (transfer_reachable H dp rf rp) (call B (transitionTransfer B i s reason d t) k)"
    and "leaves (transfer_reachable H dp rf rp) (call B (if c then transitionTransfer B i s reason d t else Inr (B, r)) k)"
    and "leaves (transfer_reachable H dp rf rp) (call B (bindTransferTreasuryOperation H rf B i key t1 t2) k)"
    and "leaves (transfer_reachable H dp rf rp)
      (call B (if c then bindTransferTreasuryOperation H rf B i key t1 t2 else Inr (B, r)) k)"
    and "leaves (transfer_reachable H dp rf rp) (call B (syncTransferTreasuryOperation B i v t1 t2) k)"
  by (rule leaves_call [OF assms(1) _ assms(2)]; use assms(1) op_reaches in \<open>fastforce split: if_splits\<close>)+

lemma leaves_ops':
  assumes "transfer_reachable H dp rf rp B"
    and "\<And>B' x. transfer_reachable H dp rf rp B' \<Longrightarrow> leaves (transfer_reachable H dp rf rp) (k B' x)"
  shows "leaves (transfer_reachable H dp rf rp) (call B (recordTransferReceipt H dp rp B i y t1 t2) k)"
  by (rule leaves_call [OF assms(1) _ assms(2)]) (rule op_reaches(6) [OF _ assms(1)])

lemma leaves_decision:
  assumes "transfer_reachable H dp rf rp B"
    and "\<And>B' x. transfer_reachable H dp rf rp B' \<Longrightarrow> leaves (transfer_reachable H dp rf rp) (k B' x)"
  shows "leaves (transfer_reachable H dp rf rp) (call B (recordTransferAuthorization H dp rf B i f d t) k)"
  by (rule leaves_call [OF assms(1) _ assms(2)])
    (use op_reaches(3) [OF _ assms(1)] in \<open>metis surj_pair\<close>)

lemma finish_leaves:
  "transfer_reachable H dp rf rp B
    \<Longrightarrow> leaves (transfer_reachable H dp rf rp) (finishReceipt H dp rf rp date_text clk B i)"
  unfolding finishReceipt_def
  by (auto intro!: leaves_check leaves_ops' leaves_show split: option.split)

lemma mark_leaves:
  "transfer_reachable H dp rf rp B \<Longrightarrow> leaves (transfer_reachable H dp rf rp) (markRecoverable clk B i)"
  unfolding markRecoverable_def by (auto intro!: leaves_check leaves_ops)

lemma mark_ends:
  "markRecoverable clk B i = (B', res) \<Longrightarrow> transfer_reachable H dp rf rp B \<Longrightarrow> transfer_reachable H dp rf rp B'"
  using mark_leaves leaves_return by metis

lemma after_leaves:
  assumes "transfer_reachable H dp rf rp B" and "leaves (transfer_reachable H dp rf rp) missing"
  shows "leaves (transfer_reachable H dp rf rp) (after_throw H dp rf rp date_text clk B i key missing)"
  using assms unfolding after_throw_def
  by (auto intro!: leaves_check leaves_ops leaves_show finish_leaves
      split: option.split prod.split sum.split)
    (erule (1) mark_ends)+

lemma authority_leaves:
  assumes "transfer_reachable H dp rf rp B" and "keeps (transfer_reachable H dp rf rp) ask"
  shows "leaves (transfer_reachable H dp rf rp)
    (drive_authority H dp rf date_text ask clk B i r0)"
  using assms(1) keepsD [OF assms(2)] unfolding drive_authority_def Let_def
  by (auto intro!: leaves_check leaves_ops leaves_decision split: prod.split option.split)

lemma authority_ends:
  "keeps (transfer_reachable H dp rf rp) ask
    \<Longrightarrow> drive_authority H dp rf date_text ask clk B i r0 = (B', res)
    \<Longrightarrow> transfer_reachable H dp rf rp B \<Longrightarrow> transfer_reachable H dp rf rp B'"
  using authority_leaves leaves_return by metis

lemma plan_leaves:
  assumes "transfer_reachable H dp rf rp B" and "keeps (transfer_reachable H dp rf rp) ask"
  shows "leaves (transfer_reachable H dp rf rp)
    (drive_plan_for H dp rf date_text ask clk B i)"
  using assms(1) unfolding drive_plan_for_def
  by (auto intro!: leaves_check leaves_ops split: prod.split option.split sum.split)
    (erule (1) authority_ends [OF assms(2)])+

lemma drive_leaves:
  assumes B: "transfer_reachable H dp rf rp B" and ask: "keeps (transfer_reachable H dp rf rp) ask"
    and execute: "keeps (transfer_reachable H dp rf rp) execute"
  shows "leaves (transfer_reachable H dp rf rp)
    (drive H dp rf rp date_text ask execute clk B i)"
proof -
  obtain B1 res where plan: "drive_plan_for H dp rf date_text ask clk B i = (B1, res)" by fastforce
  have B1: "transfer_reachable H dp rf rp B1" by (rule leavesD [OF plan_leaves [OF B ask] plan])
  show ?thesis
  proof (cases res)
    case (Inl e)
    then show ?thesis using plan B1 by (simp add: drive_def)
  next
    case (Inr x)
    show ?thesis
    proof (cases x)
      case (Show r)
      then show ?thesis using plan Inr B1 by (simp add: drive_def leaves_show)
    next
      case (Execute r key a)
      obtain B2 answer where ex: "execute B1 (execute_request r key a) = (B2, answer)" by fastforce
      have B2: "transfer_reachable H dp rf rp B2" by (rule keepsD [OF execute ex B1])
      show ?thesis
        using plan Inr Execute ex B2 unfolding drive_def
        by (auto intro!: finish_leaves after_leaves leaves_check leaves_ops leaves_show
            split: sum.split option.split prod.split if_splits)
    (erule (1) op_reaches(5))+
    qed
  qed
qed

theorem recover_leaves:
  assumes B: "transfer_reachable H dp rf rp B" and ask: "keeps (transfer_reachable H dp rf rp) ask"
    and execute: "keeps (transfer_reachable H dp rf rp) execute"
    and rescue: "keeps (transfer_reachable H dp rf rp) rescue"
  shows "leaves (transfer_reachable H dp rf rp)
    (recoverTransfer H dp rf rp date_text ask execute rescue clk clk' B i)"
  using B unfolding recoverTransfer_def
  by (auto intro!: leaves_check leaves_ops leaves_show finish_leaves after_leaves
      drive_leaves [OF _ ask execute] split: option.split prod.split)
    (erule (1) keepsD [OF rescue])+

lemma claim_leaves:
  assumes B: "transfer_reachable H dp rf rp B"
  shows "leaves (transfer_reachable H dp rf rp)
      (claim_transfer H cf source manifest ttl ident preflight clk B x)"
  using B unfolding claim_transfer_def Let_def
  by (auto intro!: leaves_check split: preflight_answer.split sum.split error.split)
  (erule (1) op_reaches(1))+

theorem transfer_leaves:
  assumes B: "transfer_reachable H dp rf rp B" and ask: "keeps (transfer_reachable H dp rf rp) ask"
    and execute: "keeps (transfer_reachable H dp rf rp) execute"
  shows "leaves (transfer_reachable H dp rf rp)
    (transfer H dp rf rp date_text ask execute valid_address cf source manifest ttl ident preflight
       clk clk' B input)"
proof -
  have ends: "claim_transfer H cf source manifest ttl ident preflight clk B x = (B', res)
      \<Longrightarrow> transfer_reachable H dp rf rp B'" for x B' res
    using claim_leaves [OF B] by (metis leaves_return)
  show ?thesis
    using B unfolding transfer_def
    by (auto intro!: leaves_check drive_leaves [OF _ ask execute] split: option.split prod.split sum.split)
    (erule ends)+
qed

section \<open>What is executed was approved\<close>

lemma plan_executes:
  assumes "drive_plan_for H dp rf date_text ask clk B i = (B', Inr (Execute r key a))"
  shows "r \<in> set (transfers (book B')) \<and> tf_id r = i \<and> tf_treasury_operation_key r = Some key
    \<and> a \<in> set (transfer_authorizations (book B')) \<and> ta_transfer_id a = i
    \<and> ta_decision a = Transfer_approved"
proof -
  have authority: "module_requireTransfer B2 i = Inr r2 \<or> B2 = B1 \<and> r2 = r1"
    if "drive_authority H dp rf date_text ask clk B1 i r1 = (B2, Inr r2)" for B1 r1 B2 r2
    using that unfolding drive_authority_def Let_def
    by (auto simp: check_def call_def split: if_splits sum.splits prod.splits option.splits)
  from assms obtain r0 B1 r1 where r0: "module_requireTransfer B i = Inr r0"
    and r1: "(if tf_state r0 = Tr_created
             then transitionTransfer B i Tr_awaiting_authority ''authority_requested'' None (clk 0)
             else Inr (B, r0)) = Inr (B1, r1)"
    and rest: "(case drive_authority H dp rf date_text ask clk B1 i r1 of
       (B2, Inl e) \<Rightarrow> (B2, Inl e)
     | (B2, Inr transfer2) \<Rightarrow>
         if tf_state transfer2 = Tr_denied then (B2, Inl (Failure TRANSFER_DENIED))
         else call B2 (if tf_state transfer2 = Tr_authorised
                       then bindTransferTreasuryOperation H rf B2 i (''transfer:'' @ tf_id transfer2)
                              (clk 4) (clk 5)
                       else Inr (B2, transfer2)) (\<lambda>B3 transfer.
         if tf_state transfer = Tr_receipted \<or> tf_state transfer = Tr_failed_terminal
         then (B3, Inr (Show transfer))
         else (case unless_falsy (tf_treasury_operation_key transfer) of
                 None \<Rightarrow> (B3, Inl (Thrown PlainError))
               | Some key \<Rightarrow>
                   check B3 (journal_call (findTransferAuthorization H rf (book B3) i)) (\<lambda>found.
                   case found of
                     None \<Rightarrow> (B3, Inl (Thrown PlainError))
                   | Some (a, facts) \<Rightarrow>
                       if ta_decision a \<noteq> Transfer_approved then (B3, Inl (Thrown PlainError))
                       else (B3, Inr (Execute transfer key a)))))) = (B', Inr (Execute r key a))"
    unfolding drive_plan_for_def check_ends call_ends by blast
  have in1: "r1 \<in> set (transfers (book B1)) \<and> tf_id r1 = i"
    using r1 module_row [OF r0] transitionTransfer_row required_row by (metis Inr_inject prod.inject)
  obtain B2 r2 where auth: "drive_authority H dp rf date_text ask clk B1 i r1 = (B2, Inr r2)"
    using rest by (auto split: prod.splits sum.splits)
  have in2: "r2 \<in> set (transfers (book B2)) \<and> tf_id r2 = i"
    using authority [OF auth] in1 module_row by blast
  from rest auth obtain f where bound: "(if tf_state r2 = Tr_authorised
        then bindTransferTreasuryOperation H rf B2 i (''transfer:'' @ tf_id r2) (clk 4) (clk 5)
        else Inr (B2, r2)) = Inr (B', r)"
    and key: "unless_falsy (tf_treasury_operation_key r) = Some key"
    and a: "findTransferAuthorization H rf (book B') i = Inr (Some (a, f))"
      "ta_decision a = Transfer_approved"
    by (auto simp: call_ends check_ends journal_call_def
        split: if_split_asm option.splits sum.splits prod.splits)
  have "r \<in> set (transfers (book B')) \<and> tf_id r = i"
    using bound in2 bind_row required_row by (metis Inr_inject prod.inject)
  moreover have "tf_treasury_operation_key r = Some key"
    using key by (simp add: unless_falsy_def split: if_splits)
  ultimately show ?thesis using authorization_row [OF a(1)] a(2) by blast
qed

theorem executed_approved:
  assumes B: "transfer_reachable H dp rf rp B" and ask: "keeps (transfer_reachable H dp rf rp) ask"
    and plan: "drive_plan_for H dp rf date_text ask clk B i = (B', Inr (Execute r key a))"
  shows "ta_decision a = Transfer_approved \<and> amounts_ok r \<and> decided_for H dp r a
    \<and> tf_treasury_operation_key r = Some key"
proof -
  have B': "transfer_reachable H dp rf rp B'" by (rule leavesD [OF plan_leaves [OF B ask] plan])
  note inv = transfer_reachable_inv [OF B']
  from plan_executes [OF plan] have row: "r \<in> set (transfers (book B'))" "tf_id r = i"
      "tf_treasury_operation_key r = Some key" "a \<in> set (transfer_authorizations (book B'))"
      "ta_transfer_id a = i" "ta_decision a = Transfer_approved" by simp_all
  have "amounts_ok r" using inv row(1) unfolding transfer_inv_def by blast
  with authorization_for [OF inv row(1,4)] row show ?thesis by simp
qed

lemma executed_request:
  assumes B: "transfer_reachable H dp rf rp B" and ask: "keeps (transfer_reachable H dp rf rp) ask"
    and plan: "drive_plan_for H dp rf date_text ask clk B i = (B', Inr (Execute r key a))"
  obtains f where "ta_facts_json a = json_text (facts_json f)" and "tfa_transfer_id f = i"
    and "tq_destination (execute_request r key a) = tfa_destination f"
    and "tq_amount (execute_request r key a) = tfa_amount f"
    and "tq_policy_digest (execute_request r key a) = tfa_policy_digest f"
    and "tq_evidence_digest (execute_request r key a) = evidenceDigest H (ta_evidence a)"
    and "ta_decision a = Transfer_approved" and "ta_decided_at a \<le> tf_expires_at r"
    and "0 < BigInt (tfa_amount f)" and "BigInt (tfa_amount f) + BigInt (tfa_fee_ceiling f) < 2 ^ 64"
proof -
  from executed_approved [OF B ask plan] have d: "decided_for H dp r a" "amounts_ok r"
      "ta_decision a = Transfer_approved" by simp_all
  from d(1) obtain f where f: "ta_facts_json a = json_text (facts_json f)"
      "assertTransferFactsMatchIntent dp f r = Inr ()" unfolding decided_for_def by blast
  then have m: "tfa_transfer_id f = tf_id r" "tfa_destination f = tf_destination r"
      "tfa_amount f = tf_amount r" "tfa_policy_digest f = tf_policy_digest r"
      "tfa_fee_ceiling f = tf_fee_ceiling r"
    by (simp_all add: assertTransferFactsMatchIntent_def)
  show thesis
    by (rule that [of f])
      (use d f(1) m plan_executes [OF plan] in
        \<open>simp_all add: execute_request_def decided_for_def amounts_ok_def\<close>)
qed

section \<open>A receipted Transfer\<close>

text \<open>
  Once a Transfer has its receipt, its operation can no longer be synchronized, so recovering it
  fails on the transition out of \<open>receipted\<close> rather than showing the receipt.
\<close>

lemma find_updated:
  "(\<And>x. p (f x) = p x) \<Longrightarrow> find_row p (update_rows p f t) = map_option f (find_row p t)"
  by (induction t) auto

lemma receipted_sync_fails:
  assumes "requireTransfer (book B) i = Inr r" and "tf_state r = Tr_receipted"
  shows "\<exists>e. syncTransferTreasuryOperation B i v t1 t2 = Inl e"
proof (cases "syncTransferTreasuryOperation B i v t1 t2")
  case (Inr x)
  let ?f = "\<lambda>failure r. r\<lparr>tf_transaction_id := coalesce (tf_transaction_id r) (ov_transaction_id v),
      tf_actual_fee := coalesce (tf_actual_fee r) (ov_fee v),
      tf_failure_code := coalesce (tf_failure_code r) failure,
      tf_updated_at := t1\<rparr>"
  let ?J = "\<lambda>failure. update_transfer i (?f failure) (book B)"
  have J: "requireTransfer (?J failure) i = Inr (?f failure r)" for failure
    using assms(1) by (simp add: requireTransfer_Inr update_transfer_def find_updated)
  have "transferStateForTreasury s \<noteq> Tr_receipted \<and> Tr_receipted \<noteq> transferStateForTreasury s" for s
    by (cases s) simp_all
  then obtain failure s reason y where
      "transitionTransferInternal (?J failure) i s reason None t2 = Inr y"
    using Inr assms J unfolding syncTransferTreasuryOperation_def Let_def
    by (auto simp: in_book_def split: if_split_asm)
  then show ?thesis
    using J assms(2) unfolding transitionTransferInternal_def
    by (auto simp: assertTransferTransition_def)
qed simp

theorem receipted_recovery_throws:
  assumes "module_requireTransfer B i = Inr r" and "tf_state r = Tr_receipted"
    and "tf_treasury_operation_key r = Some key" and "key \<noteq> []" and "rescue B key = (B, Some v)"
  shows "\<exists>e. recoverTransfer H dp rf rp date_text ask execute rescue clk clk' B i = (B, Inl (Thrown e))"
proof -
  have "requireTransfer (book B) i = Inr r"
    using assms(1) unfolding module_requireTransfer_def requireTransfer_def journal_call_def
    by (auto split: if_splits sum.splits option.splits)
  from receipted_sync_fails [OF this assms(2)] obtain e where
    "syncTransferTreasuryOperation B i v (clk 6) (clk 7) = Inl e" by blast
  then show ?thesis
    using assms by (simp add: recoverTransfer_def check_def call_def unless_falsy_def)
qed

end
