(* ===== verification/Transfer_Examples.thy ===== *)
theory Transfer_Examples
  imports Transfer_Safety Contract_Examples
begin

text \<open>
  A send from the vault, from the request to the receipt: a policy in place, an authority that
  approves, and a treasury that reports the operation completed.
\<close>

definition send_policy :: policy_snapshot where
  "send_policy = \<lparr>pol_digest = toy_digest, pol_version = 1, pol_max_per_payment = ''1000000'',
     pol_max_per_hour = ''5000000'', pol_allowlist = [], pol_activated_at = 1\<rparr>"

definition send_book :: transfer_book where
  "send_book = \<lparr>book = empty_journal\<lparr>policies := [send_policy]\<rparr>,
     book_manifest = Some (1, toy_digest), transfer_receipts = []\<rparr>"

definition send_date :: date_parser where
  "send_date s = (if canonical_decimal s then Some (int (BigInt s)) else None)"

definition send_facts :: transfer_facts where
  "send_facts =
     \<lparr>tfa_profile = ''sompi.transfer.1'', tfa_transfer_id = ''trf_AAAAAAAAAAAAAAAAAAAAAA'',
      tfa_request_key = ''send-1'', tfa_source_vault_address = ''kaspatest:vault'',
      tfa_source_vault_digest = toy_digest, tfa_destination = ''kaspatest:qqqq'',
      tfa_amount = ''500000'', tfa_asset = ''KAS'', tfa_network = ''kaspa:testnet-10'',
      tfa_fee_ceiling = ''2000'', tfa_maximum_total = ''502000'', tfa_issued_at = ''10'',
      tfa_expires_at = ''70010'', tfa_policy_digest = toy_digest, tfa_manifest_revision = 1,
      tfa_manifest_digest = toy_digest, tfa_finality_floor = Floor_accepted\<rparr>"

definition send_read :: "string \<Rightarrow> transfer_facts option" where
  "send_read s = (if s = json_text (facts_json send_facts) then Some send_facts else None)"

definition send_ask :: "transfer_book \<Rightarrow> transfer_facts \<Rightarrow> transfer_book \<times> transfer_decision_input option" where
  "send_ask B f = (B, Some
     \<lparr>td_decision = Transfer_approved, td_authority_id = ''owner'', td_denial_code = None,
      td_evidence = ''signed'', td_evidence_digest = evidenceDigest raw_hash ''signed'',
      td_facts_digest = evidenceDigest raw_hash (json_text (facts_json f)),
      td_verification_profile = ''profile'', td_verifier_id = ''verifier'', td_decided_at = 30\<rparr>)"

definition send_view :: operation_view where
  "send_view =
     \<lparr>ov_key = ''transfer:trf_AAAAAAAAAAAAAAAAAAAAAA'', ov_kind = Vault_send,
      ov_state = Op_completed, ov_destination = ''kaspatest:qqqq'', ov_requested_amount = ''500000'',
      ov_keep_float = None, ov_fee_ceiling = ''2000'', ov_amount = Some ''500000'',
      ov_fee = Some ''1500'', ov_transaction_id = Some (replicate 64 (CHR ''d'')), ov_retry_count = 0,
      ov_recovery_required = False, ov_safe_to_retry = False, ov_cancellation_requested = False,
      ov_preparation_fenced = False, ov_created_at = 40, ov_updated_at = 50\<rparr>"

definition send_execute :: "transfer_book \<Rightarrow> treasury_request \<Rightarrow> transfer_book \<times> operation_view option" where
  "send_execute B q = (B, Some send_view)"

definition send_intent :: transfer_intent where
  "send_intent = \<lparr>tin_request_key = ''send-1'', tin_destination = ''kaspatest:qqqq'',
     tin_amount = ''500000''\<rparr>"

definition send_config :: chain_config where
  "send_config = \<lparr>cf_policy = (\<lambda>_. Floor_accepted), cf_depth = ''100''\<rparr>"

definition send_claim :: "transfer_row run" where
  "send_claim = claim_transfer raw_hash send_config (''kaspatest:vault'', toy_digest) (1, toy_digest)
     70000 ''trf_AAAAAAAAAAAAAAAAAAAAAA'' (\<lambda>_ _ _. Preflight_ok toy_digest ''2000'')
     (\<lambda>n. 10) send_book send_intent"

definition send_plan :: "drive_plan run" where
  "send_plan = drive_plan_for raw_hash send_date send_read int_text send_ask (\<lambda>n. 20 + int n)
     (fst send_claim) ''trf_AAAAAAAAAAAAAAAAAAAAAA''"

definition send :: "transfer_view run" where
  "send = transfer raw_hash send_date send_read Some int_text send_ask send_execute
     (\<lambda>_. True) send_config (''kaspatest:vault'', toy_digest) (1, toy_digest) 70000
     ''trf_AAAAAAAAAAAAAAAAAAAAAA'' (\<lambda>_ _ _. Preflight_ok toy_digest ''2000'') (\<lambda>n. 10)
     (\<lambda>n. 20 + int n) send_book send_intent"

fun plan_executed :: "drive_plan run \<Rightarrow> bool" where
  "plan_executed (B, Inr (Execute r key a)) = True"
| "plan_executed _ = False"

fun view_state :: "transfer_view run \<Rightarrow> transfer_state option" where
  "view_state (B, Inr v) = Some (tf_state (vw_record v))"
| "view_state (B, Inl e) = None"

lemma send_plan_executed: "plan_executed send_plan"
  by code_simp

lemma send_receipted: "view_state send = Some Tr_receipted"
  by code_simp

lemma send_book_reachable: "transfer_reachable raw_hash send_date send_read Some send_book"
proof -
  have "transfer_step raw_hash send_date send_read Some
      \<lparr>book = empty_journal, book_manifest = Some (1, toy_digest), transfer_receipts = []\<rparr> send_book"
    by (rule tr_elsewhere) (simp_all add: send_book_def empty_journal_def)
  with transfers_start show ?thesis by (rule transfers_step)
qed

lemma send_claim_reachable:
  "transfer_reachable raw_hash send_date send_read Some (fst send_claim)"
  using claim_leaves [OF send_book_reachable] unfolding send_claim_def leaves_def .

end
