(* ===== verification/Guarantees.thy ===== *)
theory Guarantees
  imports Journal_Calls
begin

text \<open>
  Lemmas the properties of \<open>Spec2Isabelle\<close> rest on: what the invariant of a reachable journal
  says of one row, and what a successful call says of its arguments.
\<close>

section \<open>Rows of a reachable journal\<close>

lemma reachable_operations: "reachable t J \<Longrightarrow> operations_inv J"
  and reachable_effects: "reachable t J \<Longrightarrow> effects_inv J"
  and reachable_reservations: "reachable t J \<Longrightarrow> reservations_inv J"
  and reachable_policies: "reachable t J \<Longrightarrow> policies_ok J"
  using inv_parts reachable_inv by blast+

lemma reachable_submissions:
  assumes "reachable t J"
  shows "submissions J key \<le> 1"
proof (cases "key \<in> op_key ` set (operations J)")
  case True
  then show ?thesis
    using reachable_operations [OF assms] by (auto simp: operations_inv_def submission_count_ok_def)
next
  case False
  then have "filter (\<lambda>e. ot_key e = key \<and> is_submission e) (operation_log J) = []"
    using reachable_operations [OF assms] by (auto simp: operations_inv_def filter_empty_conv)
  then show ?thesis by (simp add: submissions_def)
qed

lemma reachable_row_ok:
  "reachable t J \<Longrightarrow> r \<in> set (operations J) \<Longrightarrow> row_ok r"
  using reachable_operations by (auto simp: operations_inv_def)

lemma reachable_lookup:
  assumes "reachable t J" and "is_operation_key key"
  shows "findTreasuryOperation J key = Inr (operation_at J key)"
proof -
  have "row_readable r" if "operation_at J key = Some r" for r
    using reachable_row_ok [OF assms(1)] operation_at_key [OF that] by (auto simp: row_ok_def)
  then show ?thesis using assms(2) by (simp add: findTreasuryOperation_eq)
qed

lemma reachable_one_live:
  assumes "reachable t J" and "r \<in> set (reservations J)" and "r' \<in> set (reservations J)"
    and "rs_purchase_id r = rs_purchase_id r'" and "reservation_live r" and "reservation_live r'"
  shows "r = r'"
proof -
  have "distinct (map rs_purchase_id (filter reservation_live (reservations J)))"
    using reachable_reservations [OF assms(1)] by (simp add: reservations_inv_def)
  then show ?thesis using assms(2-6) by (auto simp: distinct_map inj_on_def)
qed

lemma reachable_history:
  assumes "reachable t J"
  shows "operation_at J k = Some r \<Longrightarrow>
      (let h = history (operation_log_pairs J) k in
       h \<noteq> [] \<and> hd h = Op_intent \<and> last h = op_state r
       \<and> successively directTreasuryTransitionAllowed h)"
    and "effect_at J k = Some e \<Longrightarrow>
      (let h = history (effect_log_pairs J) k in
       h \<noteq> [] \<and> hd h = Eff_planned \<and> last h = ef_state e \<and> successively effect_moves h)"
  using reachable_replays [OF assms] unfolding replays_def
  by (auto simp: operation_state_of_def effect_state_of_def Let_def dest!: spec [of _ k])

section \<open>The paper trail\<close>

lemma reachable_trail: "reachable t J \<Longrightarrow> trail_inv J"
  using reachable_inv by (simp add: journal_inv_def)

lemma later_trail:
  assumes "reachable t J" and "calls t J u J'"
  shows "trail_grows J J'"
  using calls_steps [OF assms(2,1)]
proof (induction rule: rtranclp_induct)
  case base
  show ?case by (simp add: trail_grows_def)
next
  case (step y z)
  then obtain now where "journal_step now y z" by blast
  then have "trail_grows y z" by (intro trail_delta_grows journal_step_trail)
  with step.IH show ?case by (auto simp: trail_grows_def)
qed

lemma trail_found:
  assumes "trail_inv J"
  shows "findCheckoutTerms J i = Some t \<Longrightarrow> ct_purchase_id t = i \<and> terms_bound J t"
    and "findAuthorizationRequest J i = Some q \<Longrightarrow> ar_purchase_id q = i \<and> request_bound J q"
    and "findAuthorization J i = Some a \<Longrightarrow> au_purchase_id a = i \<and> decision_bound J a"
    and "findFulfilment J i = Some f \<Longrightarrow> ff_purchase_id f = i \<and> fulfilment_bound J f"
    and "receipt_at J i = Some r \<Longrightarrow> rc_purchase_id r = i \<and> receipt_bound J r"
  using assms by (auto simp: trail_inv_def trail_lookups dest: find_row_SomeD)

text \<open>The approval of a Purchase with the request it answers and the terms behind it.\<close>

definition approved_terms ::
  "journal \<Rightarrow> string \<Rightarrow> checkout_terms_row \<Rightarrow> authorization_request_row \<Rightarrow> authorization_row \<Rightarrow> bool" where
  "approved_terms J i t q a \<longleftrightarrow>
     findCheckoutTerms J i = Some t \<and> findAuthorizationRequest J i = Some q
     \<and> findAuthorization J i = Some a \<and> au_decision a = Dec_approved
     \<and> au_checkout_digest a = ct_checkout_digest t \<and> au_request_digest a = ar_request_digest q
     \<and> au_nonce_digest a = ar_nonce_digest q \<and> au_expires_at a \<le> ct_expires_at t
     \<and> ar_maximum_charge q = ct_amount t"

lemma approval_backed:
  assumes inv: "trail_inv J" and "approved J i"
  shows "\<exists>t q a. approved_terms J i t q a"
proof -
  obtain a where a: "findAuthorization J i = Some a" "au_decision a = Dec_approved"
    using assms(2) by (auto simp: approved_def)
  then obtain q where q: "findAuthorizationRequest J i = Some q" "au_checkout_digest a = ar_checkout_digest q"
      "au_request_digest a = ar_request_digest q" "au_nonce_digest a = ar_nonce_digest q"
      "au_expires_at a = ar_expires_at q"
    using trail_found(3) [OF inv] by (fastforce simp: decision_bound_def)
  then obtain t x where t: "findCheckoutTerms J i = Some t" "findExecutionPlanRow J i = Some x"
      "ar_checkout_digest q = ct_checkout_digest t" "ar_expires_at q \<le> ct_expires_at t"
      "ar_maximum_charge q = xp_maximum_charge x"
    using trail_found(2) [OF inv] by (fastforce simp: request_bound_def)
  have "xp_maximum_charge x = ct_amount t"
    using trail_found(1) [OF inv t(1)] t(2) by (auto simp: terms_bound_def)
  with a q t show ?thesis unfolding approved_terms_def by metis
qed

lemma engaged_backed:
  assumes "reachable t0 J" and "pu \<in> set (purchases J)" and "engaged (pu_state pu)"
  shows "\<exists>t q a. approved_terms J (pu_id pu) t q a"
proof -
  have "purchase_backed J pu" using reachable_trail [OF assms(1)] assms(2) by (simp add: trail_inv_def)
  then show ?thesis
    using approval_backed [OF reachable_trail [OF assms(1)]] assms(3) by (auto simp: purchase_backed_def)
qed

lemma settled_as_approved:
  assumes "reachable t0 J" and "s \<in> set (settlements J)"
  shows "\<exists>t q a. approved_terms J (st_purchase_id s) t q a \<and> st_payee s = ct_pay_to t
    \<and> BigInt (st_amount s) \<le> BigInt (ct_amount t)
    \<and> BigInt (st_additional_cost s) \<le> BigInt (ar_additional_cost_ceiling q)"
proof -
  obtain r where r: "r \<in> set (reservations J)" "rs_purchase_id r = st_purchase_id s"
      "rs_payee r = st_payee s" "BigInt (st_amount s) \<le> BigInt (rs_amount r)"
      "BigInt (st_additional_cost s) \<le> BigInt (rs_additional_cost_ceiling r)"
    using reachable_reservations [OF assms(1)] assms(2)
    by (auto simp: reservations_inv_def settled_by_def)
  note inv = reachable_trail [OF assms(1)]
  then have "reservation_bound J r" using r(1) by (simp add: trail_inv_def)
  then obtain t q where b: "findCheckoutTerms J (st_purchase_id s) = Some t"
      "findAuthorizationRequest J (st_purchase_id s) = Some q" "approved J (st_purchase_id s)"
      "rs_amount r = ct_amount t" "rs_payee r = ct_pay_to t"
      "BigInt (rs_additional_cost_ceiling r) \<le> BigInt (ar_additional_cost_ceiling q)"
    unfolding reservation_bound_def r(2) by blast
  from approval_backed [OF inv b(3)] obtain t' q' a where "approved_terms J (st_purchase_id s) t' q' a"
    by blast
  moreover from this b(1,2) have "t' = t" "q' = q" by (simp_all add: approved_terms_def)
  ultimately show ?thesis using b(4-6) r(3-5) by (metis order_trans)
qed

lemma receipt_complete:
  assumes "reachable t0 J" and "pu \<in> set (purchases J)" and "pu_state pu = Pur_receipted"
  shows "\<exists>r t a f s. receipt_at J (pu_id pu) = Some r \<and> findCheckoutTerms J (pu_id pu) = Some t
    \<and> findAuthorization J (pu_id pu) = Some a \<and> au_decision a = Dec_approved
    \<and> findFulfilment J (pu_id pu) = Some f \<and> s \<in> set (settlements J) \<and> st_purchase_id s = pu_id pu
    \<and> rc_checkout_digest r = ct_checkout_digest t \<and> rc_authorization_digest r = au_evidence_digest a
    \<and> rc_settlement_digest r = st_evidence_digest s \<and> rc_fulfilment_digest r = ff_body_digest f
    \<and> ff_resource_fingerprint f = ct_resource_fingerprint t"
proof -
  note inv = reachable_trail [OF assms(1)]
  have backed: "purchase_backed J pu" using inv assms(2) by (simp add: trail_inv_def)
  then obtain r where r: "receipt_at J (pu_id pu) = Some r"
    using assms(3) by (auto simp: purchase_backed_def)
  have "approved J (pu_id pu)" using backed assms(3) by (simp add: purchase_backed_def engaged_def)
  then obtain a' where a': "findAuthorization J (pu_id pu) = Some a'" "au_decision a' = Dec_approved"
    by (auto simp: approved_def)
  from trail_found(5) [OF inv r] obtain t a f s where c: "findCheckoutTerms J (pu_id pu) = Some t"
      "findAuthorization J (pu_id pu) = Some a" "findFulfilment J (pu_id pu) = Some f"
      "rc_checkout_digest r = ct_checkout_digest t" "rc_authorization_digest r = au_evidence_digest a"
      "rc_fulfilment_digest r = ff_body_digest f" "s \<in> set (settlements J)"
      "st_purchase_id s = pu_id pu" "rc_settlement_digest r = st_evidence_digest s"
    by (auto simp: receipt_bound_def)
  have "ff_resource_fingerprint f = ct_resource_fingerprint t"
    using trail_found(4) [OF inv c(3)] c(1) by (auto simp: fulfilment_bound_def)
  with r c a' show ?thesis by (intro exI conjI) simp_all
qed

text \<open>A recovery is paid for out of what was approved, and excludes a settlement.\<close>

lemma recovered_as_approved:
  assumes "reachable t0 J" and "a \<in> set (recoveries J)"
  shows "(\<forall>s \<in> set (settlements J). st_reservation_id s \<noteq> ra_reservation_id a)
    \<and> (\<exists>t q d. approved_terms J (ra_purchase_id a) t q d
        \<and> BigInt (ra_additional_cost a) \<le> BigInt (ar_additional_cost_ceiling q))"
proof -
  note inv = reachable_trail [OF assms(1)] and res = reachable_reservations [OF assms(1)]
  from res assms(2) obtain r where r: "r \<in> set (reservations J)" "rs_id r = ra_reservation_id a"
      "rs_purchase_id r = ra_purchase_id a" "rs_state r = Res_released"
      "BigInt (ra_additional_cost a) \<le> BigInt (rs_additional_cost_ceiling r)"
    by (auto simp: reservations_inv_def recovered_by_def)
  have "st_reservation_id s \<noteq> ra_reservation_id a" if s: "s \<in> set (settlements J)" for s
  proof
    assume same: "st_reservation_id s = ra_reservation_id a"
    from res s obtain r' where "r' \<in> set (reservations J)" "rs_id r' = st_reservation_id s"
        "rs_state r' = Res_spent"
      by (auto simp: reservations_inv_def settled_by_def)
    moreover have "distinct (map rs_id (reservations J))" using res by (simp add: reservations_inv_def)
    ultimately have "r' = r" using same r(1,2) by (auto simp: distinct_map inj_on_def)
    with \<open>rs_state r' = Res_spent\<close> r(4) show False by simp
  qed
  moreover have "reservation_bound J r" using inv r(1) by (simp add: trail_inv_def)
  then obtain q where b: "findAuthorizationRequest J (ra_purchase_id a) = Some q"
      "approved J (ra_purchase_id a)"
      "BigInt (rs_additional_cost_ceiling r) \<le> BigInt (ar_additional_cost_ceiling q)"
    unfolding reservation_bound_def r(3) by blast
  from approval_backed [OF inv b(2)] obtain t q' d where "approved_terms J (ra_purchase_id a) t q' d"
    by blast
  moreover from this b(1) have "q' = q" by (simp add: approved_terms_def)
  ultimately show ?thesis using b(3) r(5) by (meson order_trans)
qed

section \<open>Fencing\<close>

lemma stale_driver_refused:
  assumes "reachable t J" and "calls t J u J'" and "operation_at J key = Some r"
    and "dl_generation d < op_driver_generation r"
    and "operation_at J' key = Some r'"
  shows "\<not> driverOwns r' d c"
proof
  assume owns: "driverOwns r' d c"
  then have "driver_holds J' key (dl_owner d) (dl_generation d) c"
    using assms(5) by (auto simp: driverOwns_def driver_holds_def lease_live_def split: option.splits)
  moreover have "dl_generation d < driver_generation J key"
    using assms(3,4) by (simp add: driver_generation_def)
  ultimately show False using later_driver_fenced [OF assms(1,2)] by blast
qed

lemma capability_needs_driver:
  assumes "claimTreasuryOperationEffectCapability J key d c0 c = Inr (J', True)"
  shows "\<exists>r. operation_at J key = Some r \<and> driverOwns r d c0 \<and> op_state r = Op_submission_planned
    \<and> \<not> op_cancellation_requested r \<and> \<not> op_preparation_fenced r \<and> \<not> op_submission_in_flight r"
  using assms by (auto simp: claimTreasuryOperationEffectCapability_def split: if_splits)

lemma claim_driver_exclusive:
  assumes "claimTreasuryOperationDriver J key owner ttl now = Inr (J', c)"
    and "operation_at J key = Some r" and "op_driver_owner r = Some other" and "other \<noteq> owner"
    and "lease_live now r"
  shows "J' = J \<and> \<not> dc_acquired c"
  using assms
  by (auto simp: claimTreasuryOperationDriver_def Let_def lease_live_def split: if_splits)

lemma recovery_waits_for_executor:
  assumes "timestamp c0 = Inr now0" and "timestamp c1 = Inr now1"
    and "assertLeaseInternal J token now0 = Inr ()" and "effect_at J i = Some e"
    and "recovery_lease (lt_name token) (ef_purchase_id e)"
    and "effectClaimActiveInternal J e now1"
  shows "assertEffectWriter J i token c0 c1 = Inl JournalEffectBusyError"
proof -
  have "requireEffect J i = Inr e" using assms(4) by simp
  then show ?thesis unfolding assertEffectWriter_def assms(1) rbind_simps assms(3)
    using assms(5,6) by (simp only: rbind_simps if_True assms(2))
qed

lemma acquire_lapsed_lease:
  assumes "validateLeaseFields name holder ttl = Inr ()" and "timestamp now = Inr now"
    and "safeExpiry now ttl = Inr e" and "leases_ok J" and "find_lease J name = Some row"
    and "ls_expires_at row \<le> now"
  shows "\<exists>J' token. acquireLease J name holder ttl now = Inr (J', Some token)
    \<and> lt_generation token = ls_generation row + 1"
proof -
  let ?here = "\<lambda>r. ls_name r = name \<and> ls_generation r = ls_generation row
                   \<and> ls_expires_at r = ls_expires_at row"
  have row: "ls_name row = name" "row \<in> set (leases J)" using find_lease_name assms(5) by auto
  have "distinct (map ls_name (leases J))" using assms(4) by (simp add: leases_ok_def)
  then have "changes ?here (leases J) = 1"
    using row by (intro changes_eq_1_key [of ls_name _ _ row]) auto
  then show ?thesis
    using assms by (auto simp: acquireLease_def acquireLeaseInternal_def Let_def)
qed

section \<open>Guards\<close>

lemma direct_guard_iff:
  "assertDirectTreasuryCapacity J p kind dest amount fee now ex = Inr ()
     \<longleftrightarrow> (\<not> fee_only kind \<longrightarrow> pol_allowlist p \<noteq> [] \<longrightarrow> dest \<in> set (pol_allowlist p))
       \<and> canonical_decimal amount \<and> (kind = Vault_deposit \<or> 0 < BigInt amount)
       \<and> canonical_decimal fee
       \<and> canonical_decimal (pol_max_per_payment p) \<and> 0 < BigInt (pol_max_per_payment p)
       \<and> canonical_decimal (pol_max_per_hour p) \<and> 0 < BigInt (pol_max_per_hour p)
       \<and> (\<not> fee_only kind \<longrightarrow> BigInt amount \<le> BigInt (pol_max_per_payment p))
       \<and> policyCapacityUsedInternal J now ex + (if fee_only kind then 0 else BigInt amount)
           + BigInt fee \<le> BigInt (pol_max_per_hour p)"
  by (auto simp: assertDirectTreasuryCapacity_def Let_def add.assoc)

lemma reserve_guard:
  assumes "reservePolicy intact J i now = Inr (J', row)"
    and "findReservation J (ri_id i) = None"
  obtains policy where "requireActivePolicy J = Inr policy"
    and "pol_digest policy = ri_policy_digest i"
    and "pol_allowlist policy \<noteq> [] \<longrightarrow> ri_payee i \<in> set (pol_allowlist policy)"
    and "reservation_cost row \<le> BigInt (pol_max_per_payment policy)"
    and "policyCapacityUsedInternal (expireReservationsInternal J now) now None + reservation_cost row
           \<le> BigInt (pol_max_per_hour policy)"
    and "rs_state row = Res_active" and "now < rs_expires_at row"
    and "assertReservationBinding J i = Inr ()"
    and "findReservation J' (ri_id i) = Some row"
proof -
  have none: "findReservation (expireReservationsInternal J now) (ri_id i) = None"
    using assms(2) by (simp add: findReservation_def expireReservationsInternal_def
        find_row_None_iff ball_update_rows)
  then show thesis
    using assms(1) that
    by (auto simp: reservePolicy_def Let_def reservation_of_def reservation_cost_def
        findReservation_def find_row_append split: if_splits)
qed

end
