(* ===== verification/Spec2Isabelle.thy ===== *)
theory Spec2Isabelle
  imports Prelude Decimals Amount_Display Lifecycles Fencing Journal_State Leases Policies
    Json Canonical_Json Requests Execution_Plans Evidence Contracts Admission Admission_Invariants Admission_Limits
    Contract_Examples Purchase_Examples Recovery_Examples
    Chain_Examples Transfer_Examples Checkout Preparation Delivery Recovery
    Treasury_Capacity Reservations Operation_Records Treasury_Operations Operation_Steps
    Operation_Refinement Operation_Invariants Transition_Logs Tracked_Rows Ledger Identity Finality
    Effects Effect_Invariants Effect_Refinement Attempts Purchases Authority_Trail Payments Journal_Steps
    Capacity_Ledger Journal_Runs Payment_Runs Paper_Runs Recovery_Runs Journal_Histories Journal_Rows Journal_Calls
    Journal_Examples Guarantees
begin

text \<open>
  A verification of the purchase and treasury journal of Sompi, a wallet for autonomous agents
  that spend from a policy-limited treasury on the Kaspa network. The journal
  (\<open>src/src/purchase/journal.ts\<close>, schema in \<open>journal-schema.ts\<close>) is one SQLite database in which
  every decision is recorded before it takes effect, so that a crash, a second process or a
  retried call cannot spend twice. What it guarantees is stated here as theorems about every
  journal its operations can reach.

  Reading. An operation of the journal is a function from a journal to an error or a pair of a
  journal and a result: \<open>Inl\<close> is the exception that rolls the transaction back, so a failed
  call has no journal of its own. Tables are lists of rows in insertion order (\<open>Prelude\<close>,
  \<open>Journal_State\<close>), a conditional \<open>UPDATE\<close> is \<open>update_rows\<close> and its row count \<open>changes\<close>; amounts
  and digests stay the strings the code stores, read with \<open>BigInt\<close> (\<open>Decimals\<close>). Readings of the
  clock are arguments in the order the code reads them. Hashes, stores and random identities are
  parameters, since they are not code of this repository.

  Parts, in the order in which they rest on each other.
  \<^item> \<open>Prelude\<close>, \<open>Decimals\<close>, \<open>Journal_State\<close>: results, rows and conditional updates, decimal strings,
    the tables (\<open>journal-schema.ts\<close>) as one record.
  \<^item> \<open>Lifecycles\<close>: the transition tables (\<open>state-machine.ts\<close>, \<open>journal.ts\<close>), with the locales
    \<open>lifecycle\<close> and \<open>forward_lifecycle\<close>.
  \<^item> \<open>Amount_Display\<close>, \<open>Identity\<close>, \<open>Finality\<close>: \<open>amount-display.ts\<close>, \<open>identity.ts\<close>, \<open>finality.ts\<close>.
  \<^item> \<open>Json\<close>, \<open>Canonical_Json\<close>: JSON values, \<open>JSON.stringify\<close> and \<open>canonical-json.ts\<close>.
  \<^item> \<open>Requests\<close>, \<open>Execution_Plans\<close>, \<open>Contracts\<close>: request fingerprints (\<open>identity.ts\<close>),
    \<open>execution-plan.ts\<close> and the Checkout Terms, authorization facts, decisions and prepared
    payments of \<open>contracts.ts\<close>.
  \<^item> \<open>Fencing\<close>, \<open>Leases\<close>, \<open>Policies\<close>: named leases and the compare-and-swap of the active
    policy, with the contracts \<open>fenced_lease\<close> and \<open>cas_register\<close> they interpret.
  \<^item> \<open>Evidence\<close>, \<open>Admission\<close> (with \<open>Admission_Invariants\<close>, \<open>Admission_Limits\<close>): references to stored
    evidence, and the admission of Purchases under a budget (\<open>journal.ts\<close>, \<open>admission.ts\<close>).
  \<^item> \<open>Treasury_Capacity\<close>, \<open>Reservations\<close>: the rolling hour of the policy, its guards and the
    reservations of Purchases.
  \<^item> \<open>Operation_Records\<close>, \<open>Treasury_Operations\<close>: direct movements, from intent to completion.
  \<^item> \<open>Effects\<close>, \<open>Attempts\<close>, \<open>Purchases\<close>, \<open>Payments\<close>: the Effects of a Purchase, its attempts, its
    state and the facts each state needs, payment and settlement.
  \<^item> \<open>Checkout\<close>, \<open>Preparation\<close>, \<open>Delivery\<close>, \<open>Recovery\<close>: terms, authorization request and decision;
    the prepared payment and the staging of funds; Fulfilment and Receipt; the sweep that brings
    staged funds back.
  \<^item> \<open>Chain_Evidence\<close>, \<open>Chain_Observation\<close>: the judgement of two chain sources
    (\<open>chain-evidence/module.ts\<close>, \<open>journal-store.ts\<close>), with the windows that make absence count.
  \<^item> \<open>Transfers\<close>, \<open>Transfer_Module\<close>: sends approved by a human (\<open>transfer/module.ts\<close> and its
    operations in \<open>journal.ts\<close>). A call of the module spans several transactions and awaits, so it
    returns the book it leaves beside its result.

  How the proofs go. Each component has a step relation that says what its operations may do to
  its tables (\<open>row_change\<close> and \<open>operation_delta\<close>, \<open>effect_delta\<close>, \<open>attempt_delta\<close>,
  \<open>purchase_delta\<close>), and every operation is shown to be such a step. \<open>journal_step\<close> joins them,
  \<open>journal_call\<close> lists the calls, \<open>reachable\<close> the journals they reach at a clock that does not go
  back, and \<open>calls\<close> what happens from one journal to a later one (\<open>Journal_Steps\<close>, \<open>Journal_Runs\<close>,
  \<open>Journal_Calls\<close>, \<open>Journal_Histories\<close>, \<open>Journal_Rows\<close>, \<open>Guarantees\<close>). \<open>Capacity_Ledger\<close> carries the
  budget through a run, \<open>Payment_Runs\<close>, \<open>Authority_Trail\<close>, \<open>Paper_Runs\<close> and \<open>Recovery_Runs\<close> the
  papers of a Purchase, \<open>Operation_Refinement\<close> and \<open>Effect_Refinement\<close> the abstract keyed tables.
  Admission, the chain evidence module and Transfers have runs of their own
  (\<open>Admission_Limits\<close>, \<open>Chain_Runs\<close>, \<open>Transfer_Runs\<close>, \<open>Transfer_Safety\<close>). The locales \<open>logged_table\<close>
  (\<open>Transition_Logs\<close>), \<open>tracked_rows\<close> (\<open>Tracked_Rows\<close>), \<open>fenced_lease\<close>, \<open>cas_register\<close> and
  \<open>budget_ledger\<close> (\<open>Ledger\<close>) hold the arguments shared between components, and are interpreted on
  the journal. The \<open>_Examples\<close> theories are concrete histories, evaluated by the kernel, on which
  the witnesses rest. Recursions are structural or proved to end, so there is no fuel.

  Not modelled. Operations of the journal that are not listed (batch channels, policy changes,
  vault migrations) may change only the tables no modelled operation owns, and keep the papers of
  Purchases and Transfers (\<open>call_elsewhere\<close>, \<open>tr_elsewhere\<close>). Signing, networking, file systems
  and processes are outside: the Purchase coordinator, the treasury's execution and the adapters
  are asynchronous programs over packages that are not in the repository.
\<close>

section \<open>The treasury budget\<close>

text \<open>
  C1. The treasury never over-commits: in every journal reachable by the modelled calls, with a
  clock that does not go back, what open reservations, the last hour's settlements and recovery
  costs and the direct Treasury Operations use of the rolling hour stays within the highest
  hourly limit any recorded policy has.
\<close>

theorem capacity_within_limit:
  assumes "reachable t J" and "\<forall>p \<in> set (policies J). BigInt (pol_max_per_hour p) \<le> L"
  shows "policyCapacityUsedInternal J t None \<le> L"
  using reachable_capacity [OF assms(1)] assms(2) hourly_ceiling_le [of J L]
  by (simp add: capacity_def)

theorem capacity_within_limit_witness:
  "policyCapacityUsedInternal capability_journal 6000 None = 502000
    \<and> policyCapacityUsedInternal capability_journal 6000 None \<le> 2000000"
proof -
  have "\<forall>p \<in> set (policies capability_journal). BigInt (pol_max_per_hour p) \<le> 2000000"
    by code_simp
  moreover have "policyCapacityUsedInternal capability_journal 6000 None = 502000" by code_simp
  ultimately show ?thesis
    using capacity_within_limit [OF capability_journal_reachable] by simp
qed


section \<open>Direct Treasury Operations\<close>

text \<open>
  C3. A direct Treasury Operation is submitted at most once: in every reachable journal the log
  holds at most one grant of the effect capability for each operation key, whatever drivers
  took the operation over in between.
\<close>

theorem submitted_at_most_once:
  assumes "reachable t J"
  shows "length (filter (\<lambda>e. ot_key e = key \<and> ot_from e = Some Op_submission_planned
      \<and> ot_to e = Op_submission_planned \<and> ot_reason e = ''submission_in_flight'')
      (operation_log J)) \<le> 1"
  using reachable_submissions [OF assms, of key] by (simp add: submissions_def is_submission_def)

theorem submitted_at_most_once_witness:
  "length (filter (\<lambda>e. ot_key e = ''send-1'' \<and> ot_from e = Some Op_submission_planned
      \<and> ot_to e = Op_submission_planned \<and> ot_reason e = ''submission_in_flight'')
      (operation_log capability_journal)) = 1"
proof -
  have "filter (\<lambda>e. ot_key e = ''send-1'' \<and> ot_from e = Some Op_submission_planned
      \<and> ot_to e = Op_submission_planned \<and> ot_reason e = ''submission_in_flight'')
      (operation_log capability_journal) \<noteq> []" by code_simp
  then have "0 < length (filter (\<lambda>e. ot_key e = ''send-1'' \<and> ot_from e = Some Op_submission_planned
      \<and> ot_to e = Op_submission_planned \<and> ot_reason e = ''submission_in_flight'')
      (operation_log capability_journal))" by blast
  then show ?thesis
    using submitted_at_most_once [OF capability_journal_reachable, of "''send-1''"] by linarith
qed

text \<open>C4. At most one direct Treasury Operation is unresolved at any time.\<close>

theorem one_unresolved_operation:
  assumes "reachable t J"
  shows "unresolvedTreasuryOperationCount J \<le> 1"
  using reachable_operations [OF assms] by (simp add: operations_inv_def)

theorem one_unresolved_operation_witness:
  "unresolvedTreasuryOperationCount planned_journal = 1"
proof -
  have "unresolvedTreasuryOperationCount planned_journal \<noteq> 0" by code_simp
  then show ?thesis using one_unresolved_operation [OF planned_journal_reachable] by simp
qed

text \<open>
  C5. What was decided for an operation and what was signed for it never changes: in every later
  journal the operation is still there with the same intent, and once material is prepared with
  the same digest, reference, length, transaction, amount and fee.
\<close>

theorem operation_never_rewritten:
  assumes "reachable t J" and "calls t J u J'" and "operation_at J key = Some r"
  shows "\<exists>r'. operation_at J' key = Some r' \<and> same_intent r r'
    \<and> (op_prepared_digest r = None \<or> same_material r r')"
  using later_operation [OF assms] by (auto simp: follows_def)

theorem operation_never_rewritten_witness:
  "\<exists>r'. operation_at completed_journal ''send-1'' = Some r' \<and> op_fee r' = Some ''1500''
    \<and> op_fee_ceiling r' = ''2000''"
proof -
  obtain r where r: "operation_at prepared_journal ''send-1'' = Some r" "op_fee r = Some ''1500''"
      "op_prepared_digest r \<noteq> None" "op_fee_ceiling r = ''2000''"
    using prepared_row by blast
  from operation_never_rewritten [OF prepared_journal_reachable prepared_to_completed r(1)] r
  show ?thesis by (auto simp: same_intent_def same_material_def)
qed

text \<open>
  C6. A withdrawn operation is never submitted: once its cancellation is requested or its
  preparation fenced before the submission is planned, every later journal has it in
  \<open>intent\<close>, \<open>prepared\<close> or \<open>failed_terminal\<close>.
\<close>

theorem withdrawn_never_submitted:
  assumes "reachable t J" and "calls t J u J'" and "operation_at J key = Some r"
    and "op_cancellation_requested r \<or> op_preparation_fenced r"
    and "op_state r \<in> {Op_intent, Op_prepared}"
  shows "\<exists>r'. operation_at J' key = Some r'
    \<and> op_state r' \<in> {Op_intent, Op_prepared, Op_failed_terminal}"
proof -
  have "withdrawn r" using assms(4,5) by (auto simp: withdrawn_def)
  from later_withdrawn [OF assms(1-3) this] show ?thesis by (auto simp: withdrawn_def)
qed

theorem withdrawn_never_submitted_witness:
  "\<exists>r'. operation_at refused_journal ''send-1'' = Some r'
    \<and> op_state r' \<in> {Op_intent, Op_prepared, Op_failed_terminal}"
proof -
  obtain r where "operation_at cancelled_journal ''send-1'' = Some r" "op_cancellation_requested r"
      "op_state r = Op_prepared"
    using cancelled_row by blast
  then show ?thesis
    using withdrawn_never_submitted [OF cancelled_journal_reachable cancelled_to_refused] by blast
qed

text \<open>
  C8. The log of a direct Treasury Operation is its history: for every reachable journal and
  every operation in it, the states the log records for its key start at \<open>intent\<close>, follow the
  transition table of \<open>directTreasuryTransitionAllowed\<close> and end in the state of the row.
\<close>

theorem operation_log_replays:
  assumes "reachable t J" and "operation_at J key = Some r"
  shows "let h = map ot_to (filter (\<lambda>e. ot_key e = key) (operation_log J))
    in h \<noteq> [] \<and> hd h = Op_intent \<and> last h = op_state r
       \<and> successively directTreasuryTransitionAllowed h"
proof -
  have "history (operation_log_pairs J) key = map ot_to (filter (\<lambda>e. ot_key e = key) (operation_log J))"
    by (simp add: history_def operation_log_pairs_def filter_map comp_def)
  then show ?thesis using reachable_history(1) [OF assms] by simp
qed

theorem operation_log_replays_witness:
  "\<exists>r. operation_at prepared_journal ''send-1'' = Some r
     \<and> last (map ot_to (filter (\<lambda>e. ot_key e = ''send-1'') (operation_log prepared_journal))) = op_state r"
proof -
  obtain r where r: "operation_at prepared_journal ''send-1'' = Some r" using prepared_row by blast
  from operation_log_replays [OF prepared_journal_reachable r] r show ?thesis by (simp add: Let_def)
qed

text \<open>
  C9. A driver whose generation has been passed is powerless: no later journal honours its
  lease, and none grants it the effect capability.
\<close>

theorem superseded_driver_powerless:
  assumes "reachable t J" and "calls t J u J'" and "operation_at J key = Some r"
    and "dl_generation d < op_driver_generation r" and "operation_at J' key = Some r'"
  shows "\<not> driverOwns r' d c \<and> claimTreasuryOperationEffectCapability J' key d c c' \<noteq> Inr (K, True)"
proof -
  have owns: "\<not> driverOwns r' d c" for c by (rule stale_driver_refused [OF assms])
  then show ?thesis using capability_needs_driver [of J' key d c c' K] assms(5) by auto
qed

theorem superseded_driver_powerless_witness:
  "claimTreasuryOperationEffectCapability takeover_journal ''send-1'' toy_driver 71000 71000
     \<noteq> Inr (takeover_journal, True)"
proof -
  obtain r where "operation_at takeover_journal ''send-1'' = Some r"
      "dl_generation toy_driver < op_driver_generation r"
    using takeover_row by blast
  then show ?thesis
    using superseded_driver_powerless [OF takeover_journal_reachable calls_none] by blast
qed

text \<open>
  C10. A live driver keeps its operation: while its lease runs, a claim by anyone else is
  answered with a refusal and changes nothing.
\<close>

theorem live_driver_not_displaced:
  assumes "claimTreasuryOperationDriver J key owner ttl now = Inr (J', c)"
    and "operation_at J key = Some r" and "op_driver_owner r = Some other" and "other \<noteq> owner"
    and "lease_live now r"
  shows "J' = J \<and> \<not> dc_acquired c"
  using claim_driver_exclusive [OF assms] .

theorem live_driver_not_displaced_witness:
  "\<exists>c. claimTreasuryOperationDriver driver_journal ''send-1'' ''owner-b'' 60000 5000
      = Inr (driver_journal, c) \<and> \<not> dc_acquired c"
proof -
  have "succeeded (claimTreasuryOperationDriver driver_journal ''send-1'' ''owner-b'' 60000 5000)"
    by code_simp
  then obtain J' c where c: "claimTreasuryOperationDriver driver_journal ''send-1'' ''owner-b'' 60000 5000
      = Inr (J', c)"
    using succeeded_after by blast
  obtain r where "operation_at driver_journal ''send-1'' = Some r"
      "op_driver_owner r = Some ''owner-a''" "lease_live 5000 r"
    using driver_row by blast
  from live_driver_not_displaced [OF c this(1,2) _ this(3)] c show ?thesis by auto
qed

text \<open>
  C11. What is paid for an operation is what was agreed: in a reachable journal the fee that
  was signed is within the ceiling of the intent, the retries used are within its limit, and
  from \<open>prepared\<close> on the amount is the requested one unless that was \<open>max\<close>.
\<close>

theorem operation_within_intent:
  assumes "reachable t J" and "operation_at J key = Some r"
  shows "(\<forall>f. op_fee r = Some f \<longrightarrow> BigInt f \<le> BigInt (op_fee_ceiling r))
    \<and> op_retry_count r \<le> op_retry_limit r
    \<and> (op_state r \<notin> {Op_intent, Op_failed_terminal} \<and> op_requested_amount r \<noteq> ''max''
         \<longrightarrow> op_resolved_amount r = Some (op_requested_amount r))"
proof -
  have "row_ok r" using reachable_row_ok [OF assms(1)] operation_at_key [OF assms(2)] by blast
  then show ?thesis by (cases "op_state r") (auto simp: row_ok_def)
qed

theorem operation_within_intent_witness:
  "\<exists>r. operation_at prepared_journal ''send-1'' = Some r \<and> op_fee r = Some ''1500''
     \<and> BigInt ''1500'' \<le> BigInt (op_fee_ceiling r)"
proof -
  obtain r where r: "operation_at prepared_journal ''send-1'' = Some r" "op_fee r = Some ''1500''"
    using prepared_row by blast
  from operation_within_intent [OF prepared_journal_reachable r(1)] r show ?thesis by auto
qed

section \<open>Leases and the active policy\<close>

text \<open>
  C12. A lapsed lease does not block: in a reachable journal, once the expiry of a named lease
  is past, the next valid acquisition succeeds, with the next generation, and its token is
  honoured at that moment.
\<close>

theorem lapsed_lease_taken_over:
  assumes "reachable t J" and "validateLeaseFields name holder ttl = Inr ()"
    and "timestamp now = Inr now" and "safeExpiry now ttl = Inr e"
    and "find_lease J name = Some row" and "ls_expires_at row \<le> now"
  shows "\<exists>J' token. acquireLease J name holder ttl now = Inr (J', Some token)
    \<and> lt_generation token = ls_generation row + 1 \<and> assertLeaseInternal J' token now = Inr ()"
proof -
  have "leases_ok J" using reachable_effects [OF assms(1)] by (simp add: effects_inv_def)
  from acquire_lapsed_lease [OF assms(2-4) this assms(5,6)] obtain J' token where
    a: "acquireLease J name holder ttl now = Inr (J', Some token)"
    and g: "lt_generation token = ls_generation row + 1" by blast
  then have "acquireLeaseInternal J name holder ttl now = Inr (J', Some token)"
    using assms(3) by (simp add: acquireLease_def)
  from acquire_token_holds [OF this] a g show ?thesis by (auto simp: assertLeaseInternal_holds)
qed

theorem lapsed_lease_taken_over_witness:
  "\<exists>J' token. acquireLease lease_journal ''purchase-reconciliation'' ''worker-2'' 1000 4000
       = Inr (J', Some token) \<and> lt_generation token = 2 \<and> assertLeaseInternal J' token 4000 = Inr ()"
proof -
  have row: "case find_lease lease_journal ''purchase-reconciliation'' of
      None \<Rightarrow> False | Some row \<Rightarrow> ls_generation row = 1 \<and> ls_expires_at row \<le> 4000" by code_simp
  have "validateLeaseFields ''purchase-reconciliation'' ''worker-2'' 1000 = Inr ()"
    "timestamp 4000 = Inr 4000" "safeExpiry 4000 1000 = Inr 5000" by code_simp+
  from lapsed_lease_taken_over [OF lease_journal_reachable this] row show ?thesis
    by (auto split: option.splits)
qed

text \<open>
  C13. A lease that was taken over is fenced for ever: a token of an earlier generation is
  refused in every later journal, whatever its expiry says.
\<close>

theorem superseded_token_refused:
  assumes "reachable t J" and "calls t J u J'"
    and "find_lease J (lt_name token) = Some row" and "lt_generation token < ls_generation row"
  shows "assertLeaseInternal J' token now = Inl JournalFencingError"
proof -
  have "int (lt_generation token) < lease_generation J (lt_name token)"
    using assms(3,4) by (simp add: lease_generation_def)
  from later_lease_fenced [OF assms(1,2) this] have "assertLeaseInternal J' token now \<noteq> Inr ()"
    unfolding assertLeaseInternal_holds by blast
  then show ?thesis by (auto simp: assertLeaseInternal_def split: option.splits)
qed

theorem superseded_token_refused_witness:
  "assertLeaseInternal second_lease_journal first_token 2500 = Inl JournalFencingError"
proof -
  have "case find_lease second_lease_journal (lt_name first_token) of
      None \<Rightarrow> False | Some row \<Rightarrow> lt_generation first_token < ls_generation row" by code_simp
  then show ?thesis
    using superseded_token_refused [OF second_lease_reachable calls_none]
    by (auto split: option.splits)
qed

text \<open>
  C14. Of two policy changes that were prepared against the same activation, one wins: once an
  activation succeeds, an activation that expects the generation it replaced fails in every
  later journal.
\<close>

theorem policy_activation_has_one_winner:
  assumes "reachable t J" and "t \<le> now"
    and "activatePolicyIfCurrent H J d definition now = Inr (J', p)" and "calls now J' u J''"
  shows "activatePolicySnapshotIfCurrent H' J'' d' (activation_generation J) c now'
    \<noteq> Inr (K, q)"
proof -
  have reach: "reachable now J'"
    by (rule reachable_call [OF assms(1) call_activate [OF assms(2,3)]])
  from assms(3) obtain c0 g where
    a: "activatePolicySnapshotIfCurrent H J d g c0 now = Inr (J', p)"
    unfolding activatePolicyIfCurrent_def by auto
  then have cas: "policy_cas J g J'" unfolding policy_cas_def by blast
  have "g = activation_generation J"
    using policy_register.cas_expected [OF cas] by simp
  with cas have "\<not> policy_cas J'' (activation_generation J) K"
    using policy_register.at_most_one_writer later_policy_version [OF reach assms(4)] by blast
  then show ?thesis by (auto simp: policy_cas_def)
qed

theorem policy_activation_has_one_winner_witness:
  "\<forall>K q. activatePolicySnapshotIfCurrent toy_hash wider_journal toy_policy_digest 1 toy_policy 6000
     \<noteq> Inr (K, q)"
proof -
  have g: "activation_generation policy_journal = 1" by code_simp
  have "activatePolicyIfCurrent longer_hash policy_journal toy_policy_digest wider_policy 5000
      = Inr (wider_journal, snd (projr (activatePolicyIfCurrent longer_hash policy_journal
          toy_policy_digest wider_policy 5000)))"
    unfolding wider_journal_def by (rule succeeded_after [OF wider_step_ok])
  from policy_activation_has_one_winner [OF policy_journal_reachable _ this calls_none] g
  show ?thesis by simp
qed

section \<open>Amounts\<close>

text \<open>
  C7. A displayed KAS amount reads back as the same atomic amount: for every positive amount
  of at most 64 bits, \<open>parseKasAmount\<close> of what \<open>formatKas\<close> prints is the canonical decimal of
  the amount.
\<close>

theorem kas_display_roundtrip:
  assumes "0 < n" and "n < 2 ^ 64"
  shows "parseKasAmount (formatKas (int n)) = Inr (nat_to_string n)"
  using assms by (rule parse_format)

theorem kas_display_roundtrip_witness:
  "parseKasAmount (formatKas 123400000) = Inr ''123400000'' \<and> formatKas 123400000 = ''1.234''"
proof -
  have "nat_to_string 123400000 = ''123400000''" by code_simp
  moreover have "formatKas 123400000 = ''1.234''" by code_simp
  ultimately show ?thesis using kas_display_roundtrip [of 123400000] by simp
qed

section \<open>Admission\<close>

text \<open>
  C15. Admission never oversells: whatever transactions of admission run, interleaved with any
  others that leave its tables alone, the Purchases it counts and the evidence bytes it has
  reserved or committed stay within the limits the journal was opened with.
\<close>

theorem admission_never_oversold:
  assumes "admitted_run limits J"
  shows "counted_purchases J \<le> lim_purchases limits
    \<and> reserved_bytes J + committed_bytes J \<le> lim_bytes limits"
  using admitted_run_bounds [OF assms] by blast

theorem admission_never_oversold_witness:
  "counted_purchases toy_purchased = 1 \<and> counted_purchases toy_purchased \<le> lim_purchases toy_limits"
proof -
  have "counted_purchases toy_purchased = 1" by code_simp
  then show ?thesis using admission_never_oversold [OF toy_purchased_run] by simp
qed

text \<open>
  C16. One request key, one Purchase: repeating the call that created a Purchase returns that
  Purchase and changes nothing, and the same request key with another intent is a conflict.
\<close>

theorem request_key_idempotent:
  assumes "createPurchase True pid parse_url J input clock = Inr (J', r)"
  shows "createPurchase True pid' parse_url J' input clock' = Inr (J', r)
    \<and> (\<forall>other. ci_request_key other = ci_request_key input \<and> \<not> same_purchase_intent r other
         \<and> validateCreatePurchase parse_url other = Inr ()
         \<longrightarrow> createPurchase True pid' parse_url J' other clock' = Inl JournalRequestConflictError)"
  using create_purchase_again [OF assms] by blast

theorem request_key_idempotent_witness:
  "createPurchase True ''2'' toy_url toy_purchased (toy_input\<lparr>ci_method := ''POST''\<rparr>) 3000
     = Inl JournalRequestConflictError"
proof -
  have "validateCreatePurchase toy_url (toy_input\<lparr>ci_method := ''POST''\<rparr>) = Inr ()" by code_simp
  moreover have "\<not> same_purchase_intent toy_row (toy_input\<lparr>ci_method := ''POST''\<rparr>)" by code_simp
  ultimately show ?thesis
    using request_key_idempotent [OF toy_purchase_created, of "''2''" 3000] by simp
qed

section \<open>Canonical evidence\<close>





text \<open>
  C19. The digest of a plan binds every fact of it: two plans with the same digest are the same
  plan, or SHA-256 has a collision on their texts.
\<close>

theorem plan_digest_binding:
  assumes "canonicalPurchaseExecutionPlan H p = Inr c" and "canonicalPurchaseExecutionPlan H q = Inr d"
    and "pl_digest c = pl_digest d"
  shows "execution_plan.truncate p = execution_plan.truncate q
    \<or> collision H (json_text (plan_json p)) (json_text (plan_json q))"
  using assms by (rule plan_digest_binds)

theorem plan_digest_binding_witness:
  "execution_plan.truncate toy_plan = execution_plan.truncate toy_plan
    \<or> collision raw_hash (json_text (plan_json toy_plan)) (json_text (plan_json toy_plan))"
  using toy_plan_canonical plan_digest_binding by blast

text \<open>
  C20. A channel can pay what it promises: an accepted voucher plan carries an epoch whose
  funding covers the maximum charge and the reserve for the claim, all in 64 bits.
\<close>

theorem voucher_funded:
  assumes "canonicalPurchaseExecutionPlan H p = Inr c" and "pl_mechanism p = Channel_voucher"
  shows "\<exists>e reserve. pl_channel p = Some e \<and> pl_claim_fee_reserve p = Some reserve
    \<and> 0 < BigInt (pl_maximum_charge p)
    \<and> BigInt (pl_maximum_charge p) + BigInt reserve \<le> BigInt (ce_funding e)
    \<and> BigInt (ce_funding e) < 2 ^ 64"
  using canonical_channel_funded [OF assms] by (force simp: UINT64_MAX_def)

theorem voucher_funded_witness:
  "BigInt (pl_maximum_charge voucher_plan) + BigInt ''1000'' \<le> BigInt (ce_funding toy_channel)"
proof -
  obtain c where "canonicalPurchaseExecutionPlan raw_hash voucher_plan = Inr c"
    using voucher_plan_canonical by blast
  from voucher_funded [OF this] show ?thesis by (simp add: voucher_plan_def)
qed

section \<open>Decisions and payments\<close>

text \<open>
  C21. A decision is accepted only for exactly the facts that were asked: the facts it carries are
  those computed from the request, for the request's Purchase and checkout.
\<close>

theorem decision_for_request:
  assumes "validateAuthorizationDecision p d r c = Inr c'"
  shows "c' = c \<and> authorizationFacts p d r = Inr (dd_facts c)
    \<and> dd_decision c \<in> {Dec_approved, Dec_denied}
    \<and> dd_purchase_id c = rq_purchase_id r
    \<and> dd_checkout_digest c = ts_checkout_digest (rq_terms r)"
  using decision_facts_exact [OF assms] by blast

theorem decision_for_request_witness:
  "authorizationFacts toy_url toy_date toy_request = Inr (dd_facts toy_decision)"
  using toy_decision_valid decision_for_request by blast

text \<open>
  C22. The digest the authority signs binds every fact: two requests with the same facts digest
  have the same facts, or SHA-256 has a collision on their texts.
\<close>

theorem facts_digest_binding:
  assumes "authorizationFactsDigest H p d r = Inr x" and "authorizationFactsDigest H p d r' = Inr x"
  shows "\<exists>f g. authorizationFacts p d r = Inr f \<and> authorizationFacts p d r' = Inr g
    \<and> (f = g \<or> collision H (json_text (authorization_facts_json f))
                           (json_text (authorization_facts_json g)))"
  using facts_digest_binds [OF assms] by metis

theorem facts_digest_binding_witness:
  "\<exists>x f. authorizationFactsDigest raw_hash toy_url toy_date toy_request = Inr x
     \<and> authorizationFacts toy_url toy_date toy_request = Inr f"
proof -
  have "\<exists>x. authorizationFactsDigest raw_hash toy_url toy_date toy_request = Inr x"
    by (simp add: authorizationFactsDigest_def toy_facts_of_request)
  then show ?thesis using facts_digest_binding by blast
qed



text \<open>
  C24. A media type is canonical once: canonicalizing a canonical media type of at most 200
  characters, the length the code accepts, gives it back.
\<close>

theorem media_type_idempotent:
  assumes "canonicalMediaType (Some raw) = Inr (Some c)" and "length c \<le> 200"
  shows "canonicalMediaType (Some c) = Inr (Some c)"
  using assms by (rule media_type_fixed_point)

theorem media_type_idempotent_witness:
  "canonicalMediaType (Some ''Text/HTML;  Charset=utf-8'') = Inr (Some ''text/html; charset=utf-8'')
    \<and> canonicalMediaType (Some ''text/html; charset=utf-8'') = Inr (Some ''text/html; charset=utf-8'')"
proof -
  have "canonicalMediaType (Some ''Text/HTML;  Charset=utf-8'') = Inr (Some ''text/html; charset=utf-8'')"
    by code_simp
  then show ?thesis using media_type_idempotent by simp
qed



section \<open>Finality and lifecycles\<close>


text \<open>
  C27. A Payment Attempt cannot go round in circles: every run of its transition table visits each
  state at most once and makes at most three moves.
\<close>

theorem attempt_terminates:
  assumes "run_of attempt_allowed (s # rest)"
  shows "length rest \<le> 3 \<and> distinct (s # rest)"
proof -
  have "attempt_distance s \<le> 3" by (cases s) simp_all
  then show ?thesis
    using attempt_lifecycle.run_bounded [OF assms] attempt_lifecycle.run_distinct [OF assms]
    by linarith
qed

theorem attempt_terminates_witness:
  "length [Att_prepared, Att_submitted, Att_observed] \<le> 3
    \<and> distinct [Att_planned, Att_prepared, Att_submitted, Att_observed]"
  by (rule attempt_terminates) code_simp

text \<open>
  C28. Every call on a direct Treasury Operation is a step of the abstract keyed table: nothing
  changes, one new intent is added within the capacity, or one row moves as \<open>row_change\<close> allows
  with its log entry.
\<close>

theorem operation_calls_refine:
  assumes "reachable t J" and "operation_call now J J'"
  shows "operation_delta now J J'"
  using operation_call_delta [OF assms(2) reachable_operations [OF assms(1)]] .

theorem operation_calls_refine_witness:
  "operation_delta 3000 intent_journal driver_journal"
proof -
  have "operation_call 3000 intent_journal driver_journal"
    unfolding driver_journal_def using succeeded_after [OF driver_step_ok]
    by (auto intro: call_claim_driver)
  then show ?thesis by (rule operation_calls_refine [OF intent_journal_reachable])
qed

section \<open>The paper trail of a Purchase\<close>

text \<open>
  C32. Money leaves for a Purchase only as its owner approved it: behind every settlement of a
  reachable journal stand the Checkout Terms, the request and the approval of that Purchase; the
  payee is the payee of the terms, and amount and additional cost are within what was approved.
\<close>

theorem payment_as_approved:
  assumes "reachable now J" and "s \<in> set (settlements J)"
  shows "\<exists>t q a. findCheckoutTerms J (st_purchase_id s) = Some t
    \<and> findAuthorizationRequest J (st_purchase_id s) = Some q
    \<and> findAuthorization J (st_purchase_id s) = Some a \<and> au_decision a = Dec_approved
    \<and> au_checkout_digest a = ct_checkout_digest t \<and> au_request_digest a = ar_request_digest q
    \<and> st_payee s = ct_pay_to t \<and> BigInt (st_amount s) \<le> BigInt (ct_amount t)
    \<and> BigInt (st_additional_cost s) \<le> BigInt (ar_additional_cost_ceiling q)"
  using settled_as_approved [OF assms] unfolding approved_terms_def by blast

theorem payment_as_approved_witness:
  "\<exists>t. findCheckoutTerms paid_stage toy_purchase_id = Some t \<and> ct_pay_to t = ''kaspatest:qqqq''
    \<and> BigInt ''500000'' \<le> BigInt (ct_amount t)"
  using payment_as_approved [OF paid_stage_reachable, of "hd buy_settlements_1"]
  by (auto simp: paid_stage_def buy_settlements_1_def)

text \<open>
  C33. No Purchase gets past its approval without one: whatever its state from \<open>authorised\<close> on, the
  journal holds an approving decision that answers the recorded request for the recorded terms,
  with the nonce of the request, and the request asks for exactly the amount of the terms.
\<close>

theorem advanced_only_if_approved:
  assumes "reachable now J" and "pu \<in> set (purchases J)"
    and "pu_state pu \<in> {Pur_authorised, Pur_execution_prepared, Pur_submitted, Pur_settled,
      Pur_fulfilled, Pur_receipted, Pur_failed_recoverable, Pur_failed_terminal}"
  shows "\<exists>t q a. findCheckoutTerms J (pu_id pu) = Some t
    \<and> findAuthorizationRequest J (pu_id pu) = Some q \<and> findAuthorization J (pu_id pu) = Some a
    \<and> au_decision a = Dec_approved \<and> au_request_digest a = ar_request_digest q
    \<and> au_nonce_digest a = ar_nonce_digest q \<and> au_expires_at a \<le> ct_expires_at t
    \<and> ar_maximum_charge q = ct_amount t"
  using engaged_backed [OF assms(1,2)] assms(3) unfolding approved_terms_def engaged_def by blast

theorem advanced_only_if_approved_witness:
  "\<exists>a. findAuthorization submitted_stage toy_purchase_id = Some a \<and> au_decision a = Dec_approved"
proof -
  let ?pu = "hd (purchases submitted_stage)"
  have "?pu \<in> set (purchases submitted_stage)" "pu_state ?pu = Pur_submitted" "pu_id ?pu = toy_purchase_id"
    by (simp_all add: submitted_stage_def purchase_rows)
  from advanced_only_if_approved [OF submitted_stage_reachable this(1)] this(2,3) show ?thesis by auto
qed

text \<open>
  C34. A Receipt accounts for the whole Purchase: when a Purchase is \<open>receipted\<close>, its Receipt names
  the digests of its terms, its approval, its settlement and the fulfilled body, all of which the
  journal holds, and what was fulfilled is the resource of the terms.
\<close>

theorem receipt_accounts_for_purchase:
  assumes "reachable now J" and "pu \<in> set (purchases J)" and "pu_state pu = Pur_receipted"
  shows "\<exists>r t a f s. findReceipt J (pu_id pu) = Some r \<and> findCheckoutTerms J (pu_id pu) = Some t
    \<and> findAuthorization J (pu_id pu) = Some a \<and> au_decision a = Dec_approved
    \<and> findFulfilment J (pu_id pu) = Some f \<and> s \<in> set (settlements J) \<and> st_purchase_id s = pu_id pu
    \<and> rc_checkout_digest r = ct_checkout_digest t \<and> rc_authorization_digest r = au_evidence_digest a
    \<and> rc_settlement_digest r = st_evidence_digest s \<and> rc_fulfilment_digest r = ff_body_digest f
    \<and> ff_resource_fingerprint f = ct_resource_fingerprint t"
  using receipt_complete [OF assms] by (simp add: findReceipt_def receipt_at_def)

theorem receipt_accounts_for_purchase_witness:
  "\<exists>r s. findReceipt receipted_stage toy_purchase_id = Some r
    \<and> s \<in> set (settlements receipted_stage) \<and> rc_settlement_digest r = st_evidence_digest s"
proof -
  let ?pu = "hd (purchases receipted_stage)"
  have "?pu \<in> set (purchases receipted_stage)" "pu_state ?pu = Pur_receipted" "pu_id ?pu = toy_purchase_id"
    by (simp_all add: receipted_stage_def purchase_rows)
  from receipt_accounts_for_purchase [OF receipted_stage_reachable this(1,2)] this(3) show ?thesis
    by auto
qed

text \<open>
  C35. Nothing on the paper trail is changed or lost: the terms, the request, the decision, the
  Fulfilment and the Receipt of a Purchase that a journal holds are the ones every later journal
  holds.
\<close>

theorem paper_trail_kept:
  assumes "reachable t J" and "calls t J u J'"
  shows "(\<forall>r. findCheckoutTerms J i = Some r \<longrightarrow> findCheckoutTerms J' i = Some r)
    \<and> (\<forall>r. findAuthorizationRequest J i = Some r \<longrightarrow> findAuthorizationRequest J' i = Some r)
    \<and> (\<forall>r. findAuthorization J i = Some r \<longrightarrow> findAuthorization J' i = Some r)
    \<and> (\<forall>r. findFulfilment J i = Some r \<longrightarrow> findFulfilment J' i = Some r)
    \<and> (\<forall>r. findReceipt J i = Some r \<longrightarrow> findReceipt J' i = Some r)"
  using later_trail [OF assms] by (simp add: trail_grows_def findReceipt_def receipt_at_def)

theorem paper_trail_kept_witness:
  "\<exists>r. findAuthorization reserved_stage toy_purchase_id = Some r \<and> au_decision r = Dec_approved"
proof -
  have "calls 4000 approved_stage 5000 reserved_stage"
    by (rule calls_more [OF calls_none call_reserve]) (use steps_to_result [OF reserved_step] in auto)
  moreover obtain r where "findAuthorization approved_stage toy_purchase_id = Some r"
      "au_decision r = Dec_approved"
    by (simp add: findAuthorization_def approved_stage_def buy_authorizations_1_def)
  ultimately show ?thesis using paper_trail_kept [OF approved_stage_reachable] by blast
qed

text \<open>
  C36. A Purchase holds treasury capacity at most once: two reservations of the same Purchase that
  are active, in flight or spent are the same reservation.
\<close>

theorem one_live_reservation:
  assumes "reachable now J" and "r \<in> set (reservations J)" and "r' \<in> set (reservations J)"
    and "rs_purchase_id r = rs_purchase_id r'"
    and "rs_state r \<in> {Res_active, Res_in_flight, Res_spent}"
    and "rs_state r' \<in> {Res_active, Res_in_flight, Res_spent}"
  shows "r = r'"
  using reachable_one_live [OF assms(1-4)] assms(5,6) by (simp add: reservation_live_def)

theorem one_live_reservation_witness:
  "last (reservations paid_stage) = hd (reservations paid_stage)
     \<and> rs_state (hd (reservations paid_stage)) = Res_spent"
proof
  show spent: "rs_state (hd (reservations paid_stage)) = Res_spent"
    by (simp add: paid_stage_def reservation_rows)
  show "last (reservations paid_stage) = hd (reservations paid_stage)"
    by (rule one_live_reservation [OF paid_stage_reachable])
      (simp_all add: paid_stage_def reservation_rows)
qed



text \<open>
  C38. What the operations write can be read back: in a reachable journal the lookup of a direct
  Treasury Operation never fails on a stored row, whatever key it is asked for.
\<close>

theorem stored_operations_readable:
  assumes "reachable now J" and "is_operation_key key"
  shows "\<exists>found. findTreasuryOperation J key = Inr found
    \<and> (found = None \<longleftrightarrow> key \<notin> op_key ` set (operations J))"
proof -
  have "findTreasuryOperation J key = Inr (operation_at J key)" by (rule reachable_lookup [OF assms])
  moreover have "operation_at J key = None \<longleftrightarrow> key \<notin> op_key ` set (operations J)"
    by (auto simp: operation_at_def find_row_None_iff)
  ultimately show ?thesis by simp
qed

theorem stored_operations_readable_witness:
  "\<exists>r. findTreasuryOperation prepared_journal ''send-1'' = Inr (Some r)"
proof -
  have "is_operation_key ''send-1''" by code_simp
  moreover have "''send-1'' \<in> op_key ` set (operations prepared_journal)" by code_simp
  ultimately show ?thesis
    using stored_operations_readable [OF prepared_journal_reachable] by force
qed

section \<open>Staging recovery\<close>

text \<open>
  C39. A staged output is either paid on or swept back, never both, and sweeping it costs no more
  than was approved: the reservation of an accounted recovery has no settlement, and what the
  recovery cost is within the additional cost the owner allowed the Purchase.
\<close>

theorem recovery_excludes_payment:
  assumes "reachable now J" and "a \<in> set (recoveries J)"
  shows "(\<forall>s \<in> set (settlements J). st_reservation_id s \<noteq> ra_reservation_id a)
    \<and> (\<exists>q d. findAuthorizationRequest J (ra_purchase_id a) = Some q
        \<and> findAuthorization J (ra_purchase_id a) = Some d \<and> au_decision d = Dec_approved
        \<and> BigInt (ra_additional_cost a) \<le> BigInt (ar_additional_cost_ceiling q))"
  using recovered_as_approved [OF assms] unfolding approved_terms_def by blast

theorem recovery_excludes_payment_witness:
  "\<exists>q. findAuthorizationRequest swept_stage toy_purchase_id = Some q
    \<and> BigInt ''1500'' \<le> BigInt (ar_additional_cost_ceiling q)"
proof -
  let ?a = "hd (recoveries swept_stage)"
  have "?a \<in> set (recoveries swept_stage)" "ra_purchase_id ?a = toy_purchase_id"
      "ra_additional_cost ?a = ''1500''"
    by (simp_all add: swept_stage_def sweep_recoveries_1_def)
  from recovery_excludes_payment [OF swept_stage_reachable this(1)] this(2,3) show ?thesis by auto
qed



section \<open>Chain evidence\<close>

text \<open>
  C30. A transaction is taken for accepted only when both independent sources, under their pinned
  profiles, reported it accepted in one and the same block with exactly the outputs asked for, in
  this observation or in an earlier one; and where the finality floor asks for depth, the accepting
  block lies that deep.
\<close>

theorem accepted_means_corroborated:
  assumes "chain_reaches H st h"
    and "observe H cf st q aborted wa pa clock1 clock2 clock3 = (st', Inr ob)"
    and "ob_interpretation ob = Int_accepted"
  shows "(\<exists>rp. (rp \<in> set h \<or> rp_request rp = q \<and> rp_at rp = clock3) \<and> corroborated H rp (ob_evidence ob))
    \<and> ce_transaction_id (ob_evidence ob) = cq_transaction_id q
    \<and> ce_outputs_digest (ob_evidence ob) = outputsDigest H q
    \<and> buried (ob_evidence ob)
        (if chainEvidenceEffectiveFloor (cq_finality q) (cf_policy cf (cq_operation q)) = Floor_depth_confirmed
         then BigInt (cf_depth cf) else 0)"
  using observed_accepted [OF assms] by (intro conjI)

theorem accepted_means_corroborated_witness:
  "\<exists>st' ob. observe_toy toy_chain 5 = (st', Inr ob) \<and> buried (ob_evidence ob) 100"
proof -
  obtain st' ob where ob: "observe_toy toy_chain 5 = (st', Inr ob)" "ob_interpretation ob = Int_accepted"
    using toy_accepted by (auto elim!: verdict.elims)
  have "cf_policy toy_config (cq_operation toy_chain_request) = Floor_depth_confirmed"
    "BigInt (cf_depth toy_config) = 100" by (simp add: toy_config_def) code_simp
  with accepted_means_corroborated [OF toy_chain_reached ob(1) [unfolded observe_toy_def] ob(2)]
  have "buried (ob_evidence ob) 100" by (simp add: chainEvidenceEffectiveFloor_def)
  with ob(1) show ?thesis by blast
qed

text \<open>
  C31. A transaction is taken for absent, and so may be submitted again, only when both sources
  report it absent now and both reported it absent in an earlier observation of the same
  transaction and outputs, at least the propagation interval ago.
\<close>

theorem absence_means_twice_absent:
  assumes "chain_reaches H st h"
    and "observe H cf st q aborted wa pa clock1 clock2 clock3 = (st', Inr ob)"
    and "ob_interpretation ob = Int_absent"
  shows "(\<exists>primary witness. ask_sources H aborted wa pa clock1 clock2 = Inr (primary, witness)
        \<and> absent_report \<lparr>rp_request = q, rp_primary = primary, rp_witness = witness, rp_at = clock3\<rparr>)
    \<and> (\<exists>rp \<in> set h. absent_report rp \<and> rp_at rp + ABSENCE_PROPAGATION_INTERVAL_MS \<le> clock3
        \<and> cq_operation (rp_request rp) = cq_operation q
        \<and> cq_transaction_id (rp_request rp) = cq_transaction_id q
        \<and> outputsDigest H (rp_request rp) = outputsDigest H q)"
  using observed_absent [OF assms] by (intro conjI)

theorem absence_means_twice_absent_witness:
  "\<exists>h. chain_reaches raw_hash (fst (miss_toy toy_chain 5)) h
     \<and> (\<exists>rp \<in> set h. absent_report rp \<and> rp_at rp + 1000 \<le> 1005)"
proof -
  obtain h where h: "chain_reaches raw_hash (fst (miss_toy toy_chain 5)) h"
    using toy_missed_reached by blast
  obtain st' ob where ob: "miss_toy (fst (miss_toy toy_chain 5)) 1005 = (st', Inr ob)"
      "ob_interpretation ob = Int_absent"
    using toy_absent_settled by (auto elim!: verdict.elims)
  from absence_means_twice_absent [OF h ob(1) [unfolded miss_toy_def [of "fst (miss_toy toy_chain 5)"]] ob(2)] h
  show ?thesis by (auto simp: ABSENCE_PROPAGATION_INTERVAL_MS_def)
qed

section \<open>Transfers\<close>

text \<open>
  C29. The Transfer module asks the treasury only for what a human approved: the destination, the
  amount and the policy of the request are those of the facts that the approving decision signed,
  the decision was made in time, and amount and fee ceiling fit 64 bits.
\<close>

theorem executed_transfer_approved:
  assumes "transfer_reachable H dp rf rp B" and "keeps (transfer_reachable H dp rf rp) ask"
    and "drive_plan_for H dp rf date_text ask clk B i = (B', Inr (Execute r key a))"
  shows "\<exists>f. ta_facts_json a = json_text (facts_json f) \<and> tfa_transfer_id f = i
    \<and> tq_destination (execute_request r key a) = tfa_destination f
    \<and> tq_amount (execute_request r key a) = tfa_amount f
    \<and> tq_policy_digest (execute_request r key a) = tfa_policy_digest f
    \<and> tq_evidence_digest (execute_request r key a) = evidenceDigest H (ta_evidence a)
    \<and> ta_decision a = Transfer_approved \<and> ta_decided_at a \<le> tf_expires_at r
    \<and> 0 < BigInt (tfa_amount f) \<and> BigInt (tfa_amount f) + BigInt (tfa_fee_ceiling f) < 2 ^ 64"
  by (rule executed_request [OF assms]) blast

theorem executed_transfer_approved_witness:
  "\<exists>B' r key a f. send_plan = (B', Inr (Execute r key a))
     \<and> ta_facts_json a = json_text (facts_json f) \<and> ta_decision a = Transfer_approved"
proof -
  obtain B' r key a where plan: "send_plan = (B', Inr (Execute r key a))"
    using send_plan_executed by (auto elim!: plan_executed.elims)
  have "keeps (transfer_reachable raw_hash send_date send_read Some) send_ask"
    by (simp add: keeps_def send_ask_def)
  from executed_transfer_approved [OF send_claim_reachable this plan [unfolded send_plan_def]] plan
  show ?thesis by blast
qed

end
